(* ===== verification/Prelude.thy ===== *)
theory Prelude
  imports Main "HOL-Library.AList"
begin

text \<open>
  Shared vocabulary of the development.  An asynchronous method of a backend service is a
  function of type \<open>('s, 'e, 'a) m\<close>: it takes the state the service holds and returns either
  the thrown error (\<open>Inl\<close>) or the awaited value (\<open>Inr\<close>), together with the state
  as it is at that moment.  The state is returned in the error case too, because a
  \<^verbatim>\<open>throw\<close> in TypeScript undoes none of the writes made before it.

  The collection \<open>run\<close> holds the inversion rules of the combinators: with them the
  simplifier turns \<open>op s = (Inr x, s')\<close> into the conjunction of the guards that were
  passed and the writes that were made, and \<open>op s = (Inl e, s')\<close> into the list of ways
  to fail.
\<close>

named_theorems run "inversion of one run of a service method"
named_theorems keep "methods that keep a predicate of the state"

section \<open>State with exceptions\<close>

type_synonym ('s, 'e, 'a) m = "'s \<Rightarrow> ('e + 'a) \<times> 's"

definition ret :: "'a \<Rightarrow> ('s, 'e, 'a) m" where
  "ret x = (\<lambda>s. (Inr x, s))"

definition throw :: "'e \<Rightarrow> ('s, 'e, 'a) m" where
  "throw e = (\<lambda>s. (Inl e, s))"

definition bindE :: "('s, 'e, 'a) m \<Rightarrow> ('a \<Rightarrow> ('s, 'e, 'b) m) \<Rightarrow> ('s, 'e, 'b) m" where
  "bindE f g = (\<lambda>s. case f s of (Inl e, s') \<Rightarrow> (Inl e, s') | (Inr x, s') \<Rightarrow> g x s')"

definition thenE :: "('s, 'e, 'a) m \<Rightarrow> ('s, 'e, 'b) m \<Rightarrow> ('s, 'e, 'b) m" where
  "thenE f g = bindE f (\<lambda>_. g)"

text \<open>\<open>throwIf b e\<close> is the statement \<^verbatim>\<open>if (b) throw e\<close>.\<close>

definition throwIf :: "bool \<Rightarrow> 'e \<Rightarrow> ('s, 'e, unit) m" where
  "throwIf b e = (if b then throw e else ret ())"

definition whenE :: "bool \<Rightarrow> ('s, 'e, unit) m \<Rightarrow> ('s, 'e, unit) m" where
  "whenE b f = (if b then f else ret ())"

definition reads :: "('s \<Rightarrow> 'a) \<Rightarrow> ('s, 'e, 'a) m" where
  "reads f = (\<lambda>s. (Inr (f s), s))"

definition modifyS :: "('s \<Rightarrow> 's) \<Rightarrow> ('s, 'e, unit) m" where
  "modifyS f = (\<lambda>s. (Inr (), f s))"

text \<open>A lookup whose \<^verbatim>\<open>null\<close> result is an error.\<close>

definition required :: "'a option \<Rightarrow> 'e \<Rightarrow> ('s, 'e, 'a) m" where
  "required x e = (case x of None \<Rightarrow> throw e | Some v \<Rightarrow> ret v)"

text \<open>A read of another component, which may itself throw.\<close>

definition query :: "('s \<Rightarrow> 'e + 'a) \<Rightarrow> ('s, 'e, 'a) m" where
  "query f = (\<lambda>s. (f s, s))"

text \<open>A \<^verbatim>\<open>for ... of\<close> loop whose body is a method.\<close>

fun forE :: "'a list \<Rightarrow> ('a \<Rightarrow> ('s, 'e, unit) m) \<Rightarrow> ('s, 'e, unit) m" where
  "forE [] f = ret ()"
| "forE (x # xs) f = thenE (f x) (forE xs f)"

subsection \<open>Inversion\<close>

lemma ret_run [run]: "ret x s = (r, s') \<longleftrightarrow> r = Inr x \<and> s' = s"
  by (auto simp: ret_def)

lemma throw_run [run]: "throw e s = (r, s') \<longleftrightarrow> r = Inl e \<and> s' = s"
  by (auto simp: throw_def)

lemma bindE_ok [run]:
  "bindE f g s = (Inr y, s') \<longleftrightarrow> (\<exists>x s1. f s = (Inr x, s1) \<and> g x s1 = (Inr y, s'))"
  by (auto simp: bindE_def split: prod.splits sum.splits)

lemma bindE_err [run]:
  "bindE f g s = (Inl e, s') \<longleftrightarrow>
     f s = (Inl e, s') \<or> (\<exists>x s1. f s = (Inr x, s1) \<and> g x s1 = (Inl e, s'))"
  by (auto simp: bindE_def split: prod.splits sum.splits)

lemma thenE_ok [run]:
  "thenE f g s = (Inr y, s') \<longleftrightarrow> (\<exists>x s1. f s = (Inr x, s1) \<and> g s1 = (Inr y, s'))"
  by (simp add: thenE_def bindE_ok)

lemma thenE_err [run]:
  "thenE f g s = (Inl e, s') \<longleftrightarrow>
     f s = (Inl e, s') \<or> (\<exists>x s1. f s = (Inr x, s1) \<and> g s1 = (Inl e, s'))"
  by (simp add: thenE_def bindE_err)

lemma throwIf_ok [run]: "throwIf b e s = (Inr u, s') \<longleftrightarrow> \<not> b \<and> s' = s"
  by (auto simp: throwIf_def ret_def throw_def)

lemma throwIf_err [run]: "throwIf b e s = (Inl e', s') \<longleftrightarrow> b \<and> e' = e \<and> s' = s"
  by (auto simp: throwIf_def ret_def throw_def)

lemma whenE_run [run]:
  "whenE b f s = (r, s') \<longleftrightarrow> (if b then f s = (r, s') else r = Inr () \<and> s' = s)"
  by (auto simp: whenE_def ret_def)

lemma reads_run [run]: "reads f s = (r, s') \<longleftrightarrow> r = Inr (f s) \<and> s' = s"
  by (auto simp: reads_def)

lemma modifyS_run [run]: "modifyS f s = (r, s') \<longleftrightarrow> r = Inr () \<and> s' = f s"
  by (auto simp: modifyS_def)

lemma required_ok [run]: "required x e s = (Inr v, s') \<longleftrightarrow> x = Some v \<and> s' = s"
  by (auto simp: required_def ret_def throw_def split: option.splits)

lemma required_err [run]: "required x e s = (Inl e', s') \<longleftrightarrow> x = None \<and> e' = e \<and> s' = s"
  by (auto simp: required_def ret_def throw_def split: option.splits)

lemma query_run [run]: "query f s = (r, s') \<longleftrightarrow> r = f s \<and> s' = s"
  by (auto simp: query_def)

subsection \<open>Evaluation\<close>

text \<open>Forward rules: they run a method on a concrete state.\<close>

lemma bindE_Inr: "f s = (Inr x, s1) \<Longrightarrow> bindE f g s = g x s1"
  by (simp add: bindE_def)

lemma bindE_Inl: "f s = (Inl e, s1) \<Longrightarrow> bindE f g s = (Inl e, s1)"
  by (simp add: bindE_def)

lemma thenE_Inr: "f s = (Inr x, s1) \<Longrightarrow> thenE f g s = g s1"
  by (simp add: thenE_def bindE_def)

lemma thenE_Inl: "f s = (Inl e, s1) \<Longrightarrow> thenE f g s = (Inl e, s1)"
  by (simp add: thenE_def bindE_def)

lemmas exec_defs = ret_def throw_def bindE_def thenE_def throwIf_def whenE_def reads_def
  modifyS_def required_def query_def

subsection \<open>Predicates kept by a method\<close>

text \<open>\<open>keeps P f\<close>: whatever the outcome of \<open>f\<close>, error or value, \<open>P\<close> still holds.\<close>

definition keeps :: "('s \<Rightarrow> bool) \<Rightarrow> ('s, 'e, 'a) m \<Rightarrow> bool" where
  "keeps P f \<longleftrightarrow> (\<forall>s. P s \<longrightarrow> P (snd (f s)))"

lemma keepsI: "(\<And>s r s'. P s \<Longrightarrow> f s = (r, s') \<Longrightarrow> P s') \<Longrightarrow> keeps P f"
  unfolding keeps_def by (metis prod.collapse)

lemma keepsD: "keeps P f \<Longrightarrow> f s = (r, s') \<Longrightarrow> P s \<Longrightarrow> P s'"
  unfolding keeps_def by (metis snd_conv)

lemma keeps_ret [keep, simp]: "keeps P (ret x)"
  by (simp add: keeps_def ret_def)

lemma keeps_throw [keep, simp]: "keeps P (throw e)"
  by (simp add: keeps_def throw_def)

lemma keeps_throwIf [keep, simp]: "keeps P (throwIf b e)"
  by (simp add: throwIf_def)

lemma keeps_reads [keep, simp]: "keeps P (reads f)"
  by (simp add: keeps_def reads_def)

lemma keeps_required [keep, simp]: "keeps P (required x e)"
  by (cases x) (simp_all add: required_def)

lemma keeps_query [keep, simp]: "keeps P (query f)"
  by (simp add: keeps_def query_def)

lemma keeps_bindE [keep]:
  assumes "keeps P f" "\<And>x. keeps P (g x)"
  shows "keeps P (bindE f g)"
proof (rule keepsI)
  fix s r s'
  assume P: "P s" and run: "bindE f g s = (r, s')"
  obtain r1 s1 where f: "f s = (r1, s1)" by fastforce
  with assms(1) P have P1: "P s1" by (blast dest: keepsD)
  show "P s'"
  proof (cases r1)
    case (Inl e)
    with f run P1 show ?thesis by (simp add: bindE_def)
  next
    case (Inr x)
    with f run have "g x s1 = (r, s')" by (simp add: bindE_def)
    with assms(2) P1 show ?thesis by (blast dest: keepsD)
  qed
qed

lemma keeps_thenE [keep]: "keeps P f \<Longrightarrow> keeps P g \<Longrightarrow> keeps P (thenE f g)"
  by (simp add: thenE_def keeps_bindE)

lemma keeps_whenE [keep]: "keeps P f \<Longrightarrow> keeps P (whenE b f)"
  by (simp add: whenE_def)

lemma keeps_forE [keep]: "(\<And>x. x \<in> set xs \<Longrightarrow> keeps P (f x)) \<Longrightarrow> keeps P (forE xs f)"
  by (induction xs) (auto intro: keeps_thenE)

lemma keeps_modifyS: "(\<And>s. P s \<Longrightarrow> P (f s)) \<Longrightarrow> keeps P (modifyS f)"
  by (simp add: keeps_def modifyS_def)

subsection \<open>Atomic methods\<close>

text \<open>
  For a part \<open>p\<close> of the state: \<open>quiet p f\<close> says that \<open>f\<close> never changes it,
  \<open>sure f\<close> that \<open>f\<close> never throws, and \<open>atomic p f\<close> that \<open>f\<close> leaves it as it
  was whenever it throws.  A method that first does everything that can throw, quietly, and
  only then writes, is atomic; the rules below prove it by following its text.
\<close>

named_theorems frame "rules for quiet, sure and atomic methods"

definition quiet :: "('s \<Rightarrow> 'p) \<Rightarrow> ('s, 'e, 'a) m \<Rightarrow> bool" where
  "quiet p f \<longleftrightarrow> (\<forall>s. p (snd (f s)) = p s)"

definition sure :: "('s, 'e, 'a) m \<Rightarrow> bool" where
  "sure f \<longleftrightarrow> (\<forall>s. \<exists>x. fst (f s) = Inr x)"

definition atomic :: "('s \<Rightarrow> 'p) \<Rightarrow> ('s, 'e, 'a) m \<Rightarrow> bool" where
  "atomic p f \<longleftrightarrow> (\<forall>s e s'. f s = (Inl e, s') \<longrightarrow> p s' = p s)"

lemma quietD: "quiet p f \<Longrightarrow> f s = (r, s') \<Longrightarrow> p s' = p s"
  unfolding quiet_def by (metis snd_conv)

lemma atomicD: "atomic p f \<Longrightarrow> f s = (Inl e, s') \<Longrightarrow> p s' = p s"
  unfolding atomic_def by blast

lemma quiet_basic [frame]:
  "quiet p (ret x)" "quiet p (throw e)" "quiet p (throwIf b e)" "quiet p (reads g)"
  "quiet p (required v e)" "quiet p (query h)"
  by (auto simp: quiet_def exec_defs split: option.splits)

lemma quiet_bind [frame]: "quiet p f \<Longrightarrow> (\<And>x. quiet p (g x)) \<Longrightarrow> quiet p (bindE f g)"
  unfolding quiet_def bindE_def by (auto split: prod.splits sum.splits) (metis snd_conv)+

lemma quiet_then [frame]: "quiet p f \<Longrightarrow> quiet p g \<Longrightarrow> quiet p (thenE f g)"
  by (simp add: thenE_def quiet_bind)

lemma quiet_for [frame]: "(\<And>x. quiet p (f x)) \<Longrightarrow> quiet p (forE xs f)"
  by (induction xs) (auto intro: quiet_then quiet_basic)

lemma sure_basic [frame]: "sure (ret x)" "sure (reads g)" "sure (modifyS h)"
  by (auto simp: sure_def exec_defs)

lemma sure_bind [frame]: "sure f \<Longrightarrow> (\<And>x. sure (g x)) \<Longrightarrow> sure (bindE f g)"
  unfolding sure_def bindE_def by (auto split: prod.splits sum.splits) (metis Inl_Inr_False fst_conv)

lemma sure_then [frame]: "sure f \<Longrightarrow> sure g \<Longrightarrow> sure (thenE f g)"
  by (simp add: thenE_def sure_bind)

lemma sure_for [frame]: "(\<And>x. sure (f x)) \<Longrightarrow> sure (forE xs f)"
  by (induction xs) (auto intro: sure_then sure_basic)

lemma atomic_quiet: "quiet p f \<Longrightarrow> atomic p f"
  by (auto simp: atomic_def dest: quietD)

lemma atomic_sure: "sure f \<Longrightarrow> atomic p f"
  unfolding sure_def atomic_def by (metis Inl_Inr_False fst_conv)

lemma atomic_bind: "quiet p f \<Longrightarrow> (\<And>x. atomic p (g x)) \<Longrightarrow> atomic p (bindE f g)"
  unfolding atomic_def quiet_def bindE_def by (auto split: prod.splits sum.splits) (metis snd_conv)+

lemma atomic_then: "quiet p f \<Longrightarrow> atomic p g \<Longrightarrow> atomic p (thenE f g)"
  by (simp add: thenE_def atomic_bind)

text \<open>Branches of the text of a method.\<close>

lemma frame_branches [frame]:
  "quiet p f \<Longrightarrow> quiet p g \<Longrightarrow> quiet p (if b then f else g)"
  "sure f \<Longrightarrow> sure g \<Longrightarrow> sure (if b then f else g)"
  "quiet p f \<Longrightarrow> (\<And>x. quiet p (h x)) \<Longrightarrow> quiet p (case v of None \<Rightarrow> f | Some x \<Rightarrow> h x)"
  "sure f \<Longrightarrow> (\<And>x. sure (h x)) \<Longrightarrow> sure (case v of None \<Rightarrow> f | Some x \<Rightarrow> h x)"
  by (auto split: option.splits)

section \<open>Insertion-ordered maps\<close>

text \<open>
  A JavaScript \<^verbatim>\<open>Map\<close> iterates in insertion order, and \<^verbatim>\<open>set\<close> on a key
  that is present keeps its position.  This is an association list with distinct keys, under
  the library's \<open>AList.update\<close> and \<open>AList.delete\<close>.
\<close>

type_synonym ('k, 'v) jsmap = "('k \<times> 'v) list"

abbreviation js_get :: "('k, 'v) jsmap \<Rightarrow> 'k \<Rightarrow> 'v option" where
  "js_get m k \<equiv> map_of m k"

abbreviation js_set :: "'k \<Rightarrow> 'v \<Rightarrow> ('k, 'v) jsmap \<Rightarrow> ('k, 'v) jsmap" where
  "js_set \<equiv> AList.update"

abbreviation js_delete :: "'k \<Rightarrow> ('k, 'v) jsmap \<Rightarrow> ('k, 'v) jsmap" where
  "js_delete \<equiv> AList.delete"

abbreviation js_values :: "('k, 'v) jsmap \<Rightarrow> 'v list" where
  "js_values m \<equiv> map snd m"

abbreviation js_keys :: "('k, 'v) jsmap \<Rightarrow> 'k list" where
  "js_keys m \<equiv> map fst m"

lemma get_set [simp]: "js_get (js_set k v m) k' = (if k' = k then Some v else js_get m k')"
  by (simp add: update_conv')

lemma get_delete [simp]: "js_get (js_delete k m) k' = (if k' = k then None else js_get m k')"
  by (simp add: delete_conv')

text \<open>Every entry of a repository map is stored under the key of its value.\<close>

definition keyed :: "('v \<Rightarrow> 'k) \<Rightarrow> ('k, 'v) jsmap \<Rightarrow> bool" where
  "keyed key m \<longleftrightarrow> distinct (js_keys m) \<and> (\<forall>(k, v) \<in> set m. key v = k)"

lemma keyed_Nil [simp]: "keyed key []"
  by (simp add: keyed_def)

lemma set_update_subset: "set (js_set k v m) \<subseteq> insert (k, v) (set m)"
  by (induction m) auto

lemma keyed_set: "keyed key m \<Longrightarrow> keyed key (js_set (key v) v m)"
  unfolding keyed_def using set_update_subset [of "key v" v m]
  by (auto simp: distinct_update)

lemma keyed_get: "keyed key m \<Longrightarrow> js_get m k = Some v \<Longrightarrow> key v = k"
  by (auto simp: keyed_def dest!: map_of_SomeD)

lemma keyed_values: "keyed key m \<Longrightarrow> v \<in> set (js_values m) \<longleftrightarrow> js_get m (key v) = Some v"
  by (force simp: keyed_def dest: map_of_SomeD)

lemma values_set:
  assumes "keyed key m"
  shows "set (js_values (js_set (key v) v m)) =
    insert v {w \<in> set (js_values m). key w \<noteq> key v}"
proof (rule set_eqI)
  fix w
  have "w \<in> set (js_values (js_set (key v) v m)) \<longleftrightarrow> js_get (js_set (key v) v m) (key w) = Some w"
    by (rule keyed_values [OF keyed_set [OF assms]])
  also have "\<dots> \<longleftrightarrow> w = v \<or> (key w \<noteq> key v \<and> js_get m (key w) = Some w)"
    by auto
  also have "\<dots> \<longleftrightarrow> w = v \<or> (key w \<noteq> key v \<and> w \<in> set (js_values m))"
    using keyed_values [OF assms, of w] by blast
  finally show "w \<in> set (js_values (js_set (key v) v m)) \<longleftrightarrow>
    w \<in> insert v {w \<in> set (js_values m). key w \<noteq> key v}" by blast
qed

end
