(* ===== verification/JsValues.thy ===== *)
theory JsValues
  imports Prelude Complex_Main
begin

text \<open>
  The JavaScript values and the parts of the language's standard library that the backend uses:
  strings with \<^verbatim>\<open>trim\<close> and \<^verbatim>\<open>toLowerCase\<close>, the regular expressions for
  hexadecimal text, numbers, the values of type \<^verbatim>\<open>unknown\<close> that come out of a JSON
  body, and date-time strings.

  A string is a list of UTF-16 code units; the model takes the code units below 256 (ASCII and
  Latin-1), which is HOL's type \<open>char\<close>.  A finite number is a rational (every double is
  one); negative zero is identified with zero, which no modelled operation tells apart.
\<close>

section \<open>Strings\<close>

definition js_ws :: "char \<Rightarrow> bool" where
  "js_ws c \<longleftrightarrow> c \<in> {CHR 0x09, CHR 0x0A, CHR 0x0B, CHR 0x0C, CHR 0x0D, CHR 0x20, CHR 0xA0}"

definition trim :: "string \<Rightarrow> string" where
  "trim s = rev (dropWhile js_ws (rev (dropWhile js_ws s)))"

definition js_lower_char :: "char \<Rightarrow> char" where
  "js_lower_char c =
     (let n = (of_char c :: nat)
      in if 65 \<le> n \<and> n \<le> 90 \<or> 192 \<le> n \<and> n \<le> 222 \<and> n \<noteq> 215 then char_of (n + 32) else c)"

definition toLowerCase :: "string \<Rightarrow> string" where
  "toLowerCase = map js_lower_char"

definition is_hex :: "char \<Rightarrow> bool" where
  "is_hex c \<longleftrightarrow> c \<in> set ''0123456789abcdefABCDEF''"

definition is_digit :: "char \<Rightarrow> bool" where
  "is_digit c \<longleftrightarrow> c \<in> set ''0123456789''"

text \<open>The test \<^verbatim>\<open>/^[0-9a-fA-F]{n}$/\<close>.\<close>

definition hex_of_length :: "nat \<Rightarrow> string \<Rightarrow> bool" where
  "hex_of_length n s \<longleftrightarrow> length s = n \<and> list_all is_hex s"

definition startsWith :: "string \<Rightarrow> string \<Rightarrow> bool" where
  "startsWith s p \<longleftrightarrow> take (length p) s = p"

text \<open>A string is truthy when it is not empty, so \<^verbatim>\<open>!s.trim()\<close> is \<open>blank s\<close>.\<close>

definition blank :: "string \<Rightarrow> bool" where
  "blank s \<longleftrightarrow> trim s = []"

lemma js_ws_space [simp]: "js_ws CHR '' ''"
  by (simp add: js_ws_def)

lemma trim_Nil [simp]: "trim [] = []"
  by (simp add: trim_def)

lemma dropWhile_idem: "dropWhile P (dropWhile P xs) = dropWhile P xs"
  by (induction xs) auto

lemma dropWhile_rev_tail:
  "dropWhile P xs = xs \<Longrightarrow> dropWhile P (rev (dropWhile P (rev xs))) = rev (dropWhile P (rev xs))"
proof (induction xs rule: rev_induct)
  case Nil
  then show ?case by simp
next
  case (snoc x xs)
  show ?case
  proof (cases "P x")
    case False
    with snoc.prems show ?thesis by simp
  next
    case True
    then have "dropWhile P xs = xs"
      using snoc.prems unfolding dropWhile_eq_self_iff by (cases xs) auto
    with True snoc.IH show ?thesis by simp
  qed
qed

lemma trim_idem [simp]: "trim (trim s) = trim s"
proof -
  let ?t = "dropWhile js_ws s"
  have "dropWhile js_ws (trim s) = trim s"
    unfolding trim_def by (rule dropWhile_rev_tail) (rule dropWhile_idem)
  moreover have "rev (dropWhile js_ws (rev (trim s))) = trim s"
    unfolding trim_def by (simp add: dropWhile_idem)
  ultimately show ?thesis unfolding trim_def [of "trim s"] by simp
qed

lemma blank_trim [simp]: "blank (trim s) \<longleftrightarrow> blank s"
  by (simp add: blank_def)

lemma not_blank_nonempty: "\<not> blank s \<Longrightarrow> s \<noteq> []"
  by (auto simp: blank_def)

lemma trim_no_ws: "list_all (\<lambda>c. \<not> js_ws c) s \<Longrightarrow> trim s = s"
proof -
  have d: "list_all (\<lambda>c. \<not> js_ws c) t \<Longrightarrow> dropWhile js_ws t = t" for t
    by (cases t) auto
  assume "list_all (\<lambda>c. \<not> js_ws c) s"
  then show ?thesis by (simp add: trim_def d list_all_rev)
qed

lemma hex_not_ws: "is_hex c \<Longrightarrow> \<not> js_ws c"
  by (auto simp: is_hex_def js_ws_def)

lemma hex_trim: "list_all is_hex s \<Longrightarrow> trim s = s"
  by (rule trim_no_ws) (auto simp: list_all_iff hex_not_ws)

text \<open>Lower-casing a hexadecimal digit gives a hexadecimal digit and is idempotent.\<close>

lemma lower_hex_digits:
  "list_all (\<lambda>c. is_hex (js_lower_char c) \<and> js_lower_char (js_lower_char c) = js_lower_char c)
     ''0123456789abcdefABCDEF''"
  by code_simp

lemma lower_hex:
  "is_hex c \<Longrightarrow> is_hex (js_lower_char c) \<and> js_lower_char (js_lower_char c) = js_lower_char c"
  using lower_hex_digits unfolding list_all_iff is_hex_def [of c] by blast

subsection \<open>Decimal numerals\<close>

fun show_nat :: "nat \<Rightarrow> string" where
  "show_nat n =
     (if n < 10 then [char_of (48 + n)] else show_nat (n div 10) @ [char_of (48 + n mod 10)])"

declare show_nat.simps [simp del]

definition show_int :: "int \<Rightarrow> string" where
  "show_int i = (if i < 0 then ''-'' @ show_nat (nat (- i)) else show_nat (nat i))"

lemma show_nat_nonempty [simp]: "show_nat n \<noteq> []"
  by (subst show_nat.simps) simp

lemma show_nat_2: "show_nat 2 = ''2''"
  by code_simp

section \<open>Numbers and values of type unknown\<close>

datatype jsnum = Fin rat | NaN | PosInf | NegInf

definition MAX_SAFE :: int where
  "MAX_SAFE = 2 ^ 53 - 1"

fun isInteger :: "jsnum \<Rightarrow> bool" where
  "isInteger (Fin q) \<longleftrightarrow> of_int \<lfloor>q\<rfloor> = q"
| "isInteger _ \<longleftrightarrow> False"

fun isSafeInteger :: "jsnum \<Rightarrow> bool" where
  "isSafeInteger (Fin q) \<longleftrightarrow> of_int \<lfloor>q\<rfloor> = q \<and> \<bar>\<lfloor>q\<rfloor>\<bar> \<le> MAX_SAFE"
| "isSafeInteger _ \<longleftrightarrow> False"

text \<open>The integer a number that passed \<^verbatim>\<open>isSafeInteger\<close> stands for.\<close>

fun num_int :: "jsnum \<Rightarrow> int" where
  "num_int (Fin q) = \<lfloor>q\<rfloor>"
| "num_int _ = 0"

text \<open>The comparison of a number with an integer bound; with NaN it is false.\<close>

fun num_le :: "jsnum \<Rightarrow> int \<Rightarrow> bool" where
  "num_le (Fin q) i \<longleftrightarrow> q \<le> of_int i"
| "num_le NaN i \<longleftrightarrow> False"
| "num_le PosInf i \<longleftrightarrow> False"
| "num_le NegInf i \<longleftrightarrow> True"

datatype jsval =
    JUndefined
  | JNull
  | JBool bool
  | JNum jsnum
  | JBigInt int
  | JStr string
  | JArr "jsval list"
  | JObj "(string \<times> jsval) list"

type_synonym jsobj = "(string \<times> jsval) list"

text \<open>Reading a property that an object does not have gives \<^verbatim>\<open>undefined\<close>.\<close>

definition fld :: "jsobj \<Rightarrow> string \<Rightarrow> jsval" where
  "fld ob k = (case map_of ob k of None \<Rightarrow> JUndefined | Some v \<Rightarrow> v)"

text \<open>\<^verbatim>\<open>v?.key\<close>: a value that is not an object has no such property.\<close>

definition opt_field :: "jsval \<Rightarrow> string \<Rightarrow> jsval" where
  "opt_field v k = (case v of JObj ob \<Rightarrow> fld ob k | _ \<Rightarrow> JUndefined)"

fun truthy :: "jsval \<Rightarrow> bool" where
  "truthy JUndefined = False"
| "truthy JNull = False"
| "truthy (JBool b) = b"
| "truthy (JNum n) = (n \<noteq> Fin 0 \<and> n \<noteq> NaN)"
| "truthy (JBigInt i) = (i \<noteq> 0)"
| "truthy (JStr s) = (s \<noteq> [])"
| "truthy (JArr _) = True"
| "truthy (JObj _) = True"

fun as_str :: "jsval \<Rightarrow> string option" where
  "as_str (JStr s) = Some s"
| "as_str _ = None"

text \<open>The test \<^verbatim>\<open>typeof v === "string" && v.trim()\<close>.\<close>

definition text_of :: "jsval \<Rightarrow> string option" where
  "text_of v = (case v of JStr s \<Rightarrow> if blank s then None else Some s | _ \<Rightarrow> None)"

text \<open>\<^verbatim>\<open>v ?? d\<close>.\<close>

definition nullish_or :: "jsval \<Rightarrow> jsval \<Rightarrow> jsval" where
  "nullish_or v d = (if v = JUndefined \<or> v = JNull then d else v)"

text \<open>\<^verbatim>\<open>{ ...a, ...b }\<close>: the fields of \<open>b\<close> overwrite those of \<open>a\<close>.\<close>

definition spread :: "jsobj \<Rightarrow> jsobj \<Rightarrow> jsobj" where
  "spread a b = fold (\<lambda>(k, v). AList.update k v) b a"

lemma text_of_Some: "text_of v = Some s \<longleftrightarrow> v = JStr s \<and> \<not> blank s"
  by (cases v) (auto simp: text_of_def)

lemma text_of_JStr [simp]: "text_of (JStr s) = (if blank s then None else Some s)"
  by (simp add: text_of_def)

lemma fld_Nil [simp]: "fld [] k = JUndefined"
  by (simp add: fld_def)

lemma fld_Cons [simp]: "fld ((k', v) # ob) k = (if k = k' then v else fld ob k)"
  by (simp add: fld_def)

section \<open>Date-time strings\<close>

text \<open>
  A string that \<^verbatim>\<open>Date.parse\<close> accepts is represented by the instant it denotes, in
  milliseconds since the epoch: \<open>Iso t\<close>.  \<^verbatim>\<open>new Date(t).toISOString()\<close> is
  \<open>Iso t\<close>.  \<open>NotDate s\<close> is a string that does not parse; \<^verbatim>\<open>Date.parse\<close>
  gives NaN for it, and a comparison with NaN is false.  No modelled operation compares two
  date-time strings as strings.
\<close>

datatype date_str = Iso int | NotDate string

fun date_parse :: "date_str \<Rightarrow> int option" where
  "date_parse (Iso t) = Some t"
| "date_parse (NotDate _) = None"

fun date_truthy :: "date_str \<Rightarrow> bool" where
  "date_truthy (Iso _) = True"
| "date_truthy (NotDate s) = (s \<noteq> [])"

text \<open>\<^verbatim>\<open>Date.parse(d) <= now\<close>.\<close>

definition date_le :: "date_str \<Rightarrow> int \<Rightarrow> bool" where
  "date_le d now = (case date_parse d of None \<Rightarrow> False | Some t \<Rightarrow> t \<le> now)"

lemma date_le_Iso [simp]: "date_le (Iso t) now \<longleftrightarrow> t \<le> now"
  by (simp add: date_le_def)

text \<open>\<^verbatim>\<open>toISOString\<close> for the years 0 to 9999: the proleptic Gregorian date and the time of day.\<close>

definition pad :: "nat \<Rightarrow> int \<Rightarrow> string" where
  "pad w n = (let d = show_nat (nat n) in replicate (w - length d) CHR ''0'' @ d)"

definition iso_text :: "int \<Rightarrow> string" where
  "iso_text t =
     (let ms = t mod 86400000; z = t div 86400000 + 719468; era = z div 146097; doe = z mod 146097;
          yoe = (doe - doe div 1460 + doe div 36524 - doe div 146096) div 365;
          doy = doe - (365 * yoe + yoe div 4 - yoe div 100);
          mp = (5 * doy + 2) div 153;
          d = doy - (153 * mp + 2) div 5 + 1;
          mo = (if mp < 10 then mp + 3 else mp - 9);
          y = yoe + era * 400 + (if mo \<le> 2 then 1 else 0)
      in pad 4 y @ ''-'' @ pad 2 mo @ ''-'' @ pad 2 d @ ''T'' @ pad 2 (ms div 3600000) @ '':'' @
         pad 2 (ms div 60000 mod 60) @ '':'' @ pad 2 (ms div 1000 mod 60) @ ''.'' @ pad 3 (ms mod 1000) @ ''Z'')"

fun date_text :: "date_str \<Rightarrow> string" where
  "date_text (Iso t) = iso_text t"
| "date_text (NotDate s) = s"

lemma iso_text_samples:
  "iso_text 0 = ''1970-01-01T00:00:00.000Z''"
  "iso_text 1709210096789 = ''2024-02-29T12:34:56.789Z''"
  by code_simp+

end
