(* ===== verification/Shared.thy ===== *)
theory Shared
  imports JsValues
begin

text \<open>
  The frozen vocabulary of \<^verbatim>\<open>shared/enums\<close>, \<^verbatim>\<open>shared/types\<close> and
  \<^verbatim>\<open>shared/api.ts\<close>, and the error classes of \<^verbatim>\<open>backend/src/errors.ts\<close>
  and \<^verbatim>\<open>backend/src/blockchain/errors.ts\<close> with the serializer of
  \<^verbatim>\<open>app.ts\<close>.  Record fields carry a prefix for their type, since the source reuses
  names such as \<^verbatim>\<open>identityId\<close> in many types.  An optional field is an
  \<open>option\<close>; \<^verbatim>\<open>null\<close> is \<open>None\<close>.
\<close>

section \<open>Enumerations\<close>

datatype role = ADMIN | MANAGER | ENGINEER | TECHNICIAN | AUDITOR | ISSUER | VERIFIER

definition ROLES :: "role list" where
  "ROLES = [ADMIN, MANAGER, ENGINEER, TECHNICIAN, AUDITOR, ISSUER, VERIFIER]"

fun show_role :: "role \<Rightarrow> string" where
  "show_role ADMIN = ''ADMIN''"
| "show_role MANAGER = ''MANAGER''"
| "show_role ENGINEER = ''ENGINEER''"
| "show_role TECHNICIAN = ''TECHNICIAN''"
| "show_role AUDITOR = ''AUDITOR''"
| "show_role ISSUER = ''ISSUER''"
| "show_role VERIFIER = ''VERIFIER''"

datatype identity_status = I_PENDING | I_ACTIVE | I_SUSPENDED | I_REVOKED

fun show_identity_status :: "identity_status \<Rightarrow> string" where
  "show_identity_status I_PENDING = ''PENDING''"
| "show_identity_status I_ACTIVE = ''ACTIVE''"
| "show_identity_status I_SUSPENDED = ''SUSPENDED''"
| "show_identity_status I_REVOKED = ''REVOKED''"

datatype wallet_status = W_PENDING | W_ACTIVE | W_REVOKED

datatype device_status = D_PENDING | D_ACTIVE | D_REVOKED

datatype asset_status = ACTIVE | IN_MAINTENANCE | DECOMMISSIONED

definition ASSET_STATUSES :: "asset_status list" where
  "ASSET_STATUSES = [ACTIVE, IN_MAINTENANCE, DECOMMISSIONED]"

fun show_asset_status :: "asset_status \<Rightarrow> string" where
  "show_asset_status ACTIVE = ''ACTIVE''"
| "show_asset_status IN_MAINTENANCE = ''IN_MAINTENANCE''"
| "show_asset_status DECOMMISSIONED = ''DECOMMISSIONED''"

datatype job_status = CREATED | ASSIGNED | IN_PROGRESS | COMPLETED | VERIFIED | REJECTED

definition JOB_STATUSES :: "job_status list" where
  "JOB_STATUSES = [CREATED, ASSIGNED, IN_PROGRESS, COMPLETED, VERIFIED, REJECTED]"

fun show_job_status :: "job_status \<Rightarrow> string" where
  "show_job_status CREATED = ''CREATED''"
| "show_job_status ASSIGNED = ''ASSIGNED''"
| "show_job_status IN_PROGRESS = ''IN_PROGRESS''"
| "show_job_status COMPLETED = ''COMPLETED''"
| "show_job_status VERIFIED = ''VERIFIED''"
| "show_job_status REJECTED = ''REJECTED''"

definition JOB_PRIORITIES :: "string list" where
  "JOB_PRIORITIES = [''LOW'', ''MEDIUM'', ''HIGH'', ''CRITICAL'']"

datatype transaction_type =
    IDENTITY_CREATE | IDENTITY_REGISTER | ROLE_ASSIGN | ROLE_REVOKE
  | WALLET_REGISTER | WALLET_ACTIVATE | WALLET_REVOKE
  | ASSET_MINT | ASSET_TRANSFER | ASSET_STATE_CHANGE
  | JOB_CREATE | JOB_ASSIGN | JOB_START | JOB_COMPLETE | JOB_APPROVE | JOB_REJECT
  | COMPONENT_ATTACH | COMPONENT_REMOVE
  | VALIDATOR_ADD | VALIDATOR_REMOVE | VALIDATOR_RESTORE | VALIDATOR_REMOVE_CANCEL
  | GRANT_CREATE | GRANT_REVOKE

fun show_tx :: "transaction_type \<Rightarrow> string" where
  "show_tx IDENTITY_CREATE = ''IDENTITY_CREATE''"
| "show_tx IDENTITY_REGISTER = ''IDENTITY_REGISTER''"
| "show_tx ROLE_ASSIGN = ''ROLE_ASSIGN''"
| "show_tx ROLE_REVOKE = ''ROLE_REVOKE''"
| "show_tx WALLET_REGISTER = ''WALLET_REGISTER''"
| "show_tx WALLET_ACTIVATE = ''WALLET_ACTIVATE''"
| "show_tx WALLET_REVOKE = ''WALLET_REVOKE''"
| "show_tx ASSET_MINT = ''ASSET_MINT''"
| "show_tx ASSET_TRANSFER = ''ASSET_TRANSFER''"
| "show_tx ASSET_STATE_CHANGE = ''ASSET_STATE_CHANGE''"
| "show_tx JOB_CREATE = ''JOB_CREATE''"
| "show_tx JOB_ASSIGN = ''JOB_ASSIGN''"
| "show_tx JOB_START = ''JOB_START''"
| "show_tx JOB_COMPLETE = ''JOB_COMPLETE''"
| "show_tx JOB_APPROVE = ''JOB_APPROVE''"
| "show_tx JOB_REJECT = ''JOB_REJECT''"
| "show_tx COMPONENT_ATTACH = ''COMPONENT_ATTACH''"
| "show_tx COMPONENT_REMOVE = ''COMPONENT_REMOVE''"
| "show_tx VALIDATOR_ADD = ''VALIDATOR_ADD''"
| "show_tx VALIDATOR_REMOVE = ''VALIDATOR_REMOVE''"
| "show_tx VALIDATOR_RESTORE = ''VALIDATOR_RESTORE''"
| "show_tx VALIDATOR_REMOVE_CANCEL = ''VALIDATOR_REMOVE_CANCEL''"
| "show_tx GRANT_CREATE = ''GRANT_CREATE''"
| "show_tx GRANT_REVOKE = ''GRANT_REVOKE''"

section \<open>Records\<close>

text \<open>
  \<^verbatim>\<open>Identity\<close> and \<^verbatim>\<open>PendingIdentity\<close> share one record: the employee id, role
  and department of a pending registration are \<^verbatim>\<open>null\<close>.
\<close>

record identity =
  id_identityId :: string
  id_employeeId :: "string option"
  id_fullName :: string
  id_role :: "role option"
  id_department :: "string option"
  id_status :: identity_status
  id_createdAt :: date_str
  id_verifiedAt :: "date_str option"
  id_verifiedBy :: "string option"

record device =
  dev_deviceId :: string
  dev_identityId :: string
  dev_status :: device_status
  dev_registeredAt :: date_str
  dev_activatedAt :: "date_str option"
  dev_revokedAt :: "date_str option"
  dev_publicKey :: "string option"
  dev_metadata :: "jsobj option"

record wallet =
  wal_address :: string
  wal_identityId :: string
  wal_deviceId :: string
  wal_status :: wallet_status
  wal_activatedAt :: "date_str option"
  wal_revokedAt :: "date_str option"
  wal_revokedReason :: "string option"
  wal_publicKey :: "string option"

datatype challenge_purpose = WALLET_INITIALIZATION | AUTHENTICATION | FRESH_AUTHENTICATION

record challenge =
  ch_challengeId :: string
  ch_deviceId :: string
  ch_challenge :: string
  ch_purpose :: challenge_purpose
  ch_expiresAt :: date_str
  ch_usedAt :: "date_str option"
  ch_metadata :: "jsobj option"

record user =
  usr_employeeId :: string
  usr_identityId :: string
  usr_walletAddress :: string
  usr_role :: role
  usr_department :: string
  usr_status :: identity_status

text \<open>
  The parent of an asset is \<open>None\<close> for an absent field, \<open>Some None\<close> for
  \<^verbatim>\<open>null\<close> and \<open>Some (Some p)\<close> for a parent: the merge of chain and cache
  tells the first two apart.
\<close>

record asset =
  as_assetId :: string
  as_nftId :: string
  as_assetType :: string
  as_ownerId :: string
  as_custodianId :: string
  as_parentAssetId :: "string option option"
  as_status :: asset_status

text \<open>
  The priority and the preselected verifier of a job are stored as the request body has them,
  so they are values of type unknown.
\<close>

record job =
  job_jobId :: string
  job_assetId :: string
  job_createdBy :: string
  job_assignedTo :: string
  job_verifierId :: jsval
  job_status :: job_status
  job_priority :: jsval
  job_createdAt :: date_str
  job_completedAt :: "date_str option"

record transaction =
  tx_txId :: string
  tx_type :: transaction_type
  tx_actorIdentity :: string
  tx_actorWallet :: string
  tx_payload :: jsobj
  tx_timestamp :: date_str
  tx_signature :: string

record prepared =
  pr_from :: string
  pr_to :: string
  pr_data :: string
  pr_chainId :: int
  pr_contract :: string
  pr_method :: string

datatype tx_status = SUCCESS | TX_REJECTED

datatype decoded_revert = DecodedRevert string "string list" string

record tx_result =
  res_txId :: string
  res_status :: tx_status
  res_transactionHash :: "string option"
  res_blockNumber :: "int option"
  res_event :: "string option"
  res_revert :: "decoded_revert option"
  res_nftId :: "string option"

record audit_event =
  ae_eventId :: string
  ae_txId :: string
  ae_entityType :: string
  ae_entityId :: string
  ae_action :: string
  ae_actorIdentityId :: string
  ae_timestamp :: "date_str option"

text \<open>The actor of a write: \<^verbatim>\<open>JobActor\<close> and \<^verbatim>\<open>AssetActor\<close>.\<close>

record actor =
  act_identityId :: string
  act_walletAddress :: string
  act_signature :: "string option"

section \<open>Errors\<close>

datatype chain_kind =
    INVALID_PAYLOAD | UNSUPPORTED_TRANSACTION | CHAIN_NOT_FOUND | CONFIG | SIGNER | NETWORK
  | TIMEOUT | REVERTED

text \<open>
  \<open>PlainError\<close> is a bare \<^verbatim>\<open>Error\<close>; \<open>JobRejectedByChain\<close> is the bare error
  that the jobs service builds from a rejected transaction and its decoded revert.
  \<open>OutOfFuel\<close> stands for no error of the code: a loop whose model has a bound returns it when
  the bound is reached, and the development shows that a large enough bound never is.
\<close>

datatype error =
    ValidationError "string list"
  | NotFoundError string
  | ForbiddenError string
  | UnauthorizedError string
  | ConflictError string
  | NotImplementedError string
  | PayloadTooLargeError
  | UnsupportedMediaTypeError
  | ServiceUnavailableError string
  | IntegrityError
  | HttpError int string string
  | TransactionRejectedError transaction_type
  | BlockchainStateUnavailableError string string
  | BlockchainError chain_kind string
  | JobRejectedByChain transaction_type "decoded_revert option"
  | PlainError string
  | OutOfFuel

fun HTTP :: "chain_kind \<Rightarrow> int \<times> string" where
  "HTTP INVALID_PAYLOAD = (400, ''VALIDATION_FAILED'')"
| "HTTP UNSUPPORTED_TRANSACTION = (400, ''VALIDATION_FAILED'')"
| "HTTP CHAIN_NOT_FOUND = (404, ''NOT_FOUND'')"
| "HTTP CONFIG = (500, ''INTERNAL_ERROR'')"
| "HTTP SIGNER = (500, ''INTERNAL_ERROR'')"
| "HTTP NETWORK = (502, ''INTERNAL_ERROR'')"
| "HTTP TIMEOUT = (504, ''INTERNAL_ERROR'')"
| "HTTP REVERTED = (409, ''CONFLICT'')"

text \<open>Status and code the constructors pass to \<^verbatim>\<open>HttpError\<close>; \<open>None\<close> for a bare error.\<close>

fun http_error :: "error \<Rightarrow> (int \<times> string) option" where
  "http_error (ValidationError _) = Some (400, ''VALIDATION_FAILED'')"
| "http_error (NotFoundError _) = Some (404, ''NOT_FOUND'')"
| "http_error (ForbiddenError _) = Some (403, ''FORBIDDEN'')"
| "http_error (UnauthorizedError _) = Some (401, ''UNAUTHORIZED'')"
| "http_error (ConflictError _) = Some (409, ''CONFLICT'')"
| "http_error (NotImplementedError _) = Some (501, ''NOT_IMPLEMENTED'')"
| "http_error PayloadTooLargeError = Some (413, ''PAYLOAD_TOO_LARGE'')"
| "http_error UnsupportedMediaTypeError = Some (415, ''UNSUPPORTED_MEDIA_TYPE'')"
| "http_error (ServiceUnavailableError _) = Some (503, ''SERVICE_UNAVAILABLE'')"
| "http_error IntegrityError = Some (409, ''INTEGRITY_FAILURE'')"
| "http_error (HttpError st _ code) = Some (st, code)"
| "http_error (TransactionRejectedError _) = Some (502, ''INTERNAL_ERROR'')"
| "http_error (BlockchainStateUnavailableError _ _) = Some (502, ''INTERNAL_ERROR'')"
| "http_error (BlockchainError k _) = Some (HTTP k)"
| "http_error (JobRejectedByChain _ _) = None"
| "http_error (PlainError _) = None"
| "http_error OutOfFuel = None"

text \<open>The single error serializer of \<^verbatim>\<open>app.ts\<close>: a bare error becomes a generic 500.\<close>

definition serialize_error :: "error \<Rightarrow> int \<times> string" where
  "serialize_error e = (case http_error e of Some r \<Rightarrow> r | None \<Rightarrow> (500, ''INTERNAL_ERROR''))"

section \<open>Environment of a request\<close>

text \<open>
  What a request reads from its surroundings: the clock (\<^verbatim>\<open>Date.now()\<close>, one instant
  per request), the successive results of \<^verbatim>\<open>randomUUID()\<close> and of
  \<^verbatim>\<open>randomBytes\<close>, and the process environment.
\<close>

record env =
  now_ms :: int
  uuid :: "nat \<Rightarrow> string"
  nonce :: "nat \<Rightarrow> string"
  BEL_BLOCKCHAIN :: "string option"
  BEL_ENV :: "string option"
  SESSION_TTL :: jsnum
  FRESH_AUTH_ACTIONS :: "string option"

text \<open>\<^verbatim>\<open>process.env.BEL_BLOCKCHAIN?.trim().toLowerCase() === "evm"\<close>.\<close>

definition evm_mode :: "env \<Rightarrow> bool" where
  "evm_mode en \<longleftrightarrow>
     (case BEL_BLOCKCHAIN en of None \<Rightarrow> False | Some v \<Rightarrow> toLowerCase (trim v) = ''evm'')"

definition production :: "env \<Rightarrow> bool" where
  "production en \<longleftrightarrow> BEL_ENV en = Some ''production''"

abbreviation iso_now :: "env \<Rightarrow> date_str" where
  "iso_now en \<equiv> Iso (now_ms en)"

text \<open>A development environment, and an actor without a device signature, for concrete runs.\<close>

definition demo_env :: env where
  "demo_env = \<lparr>now_ms = 1000, uuid = (\<lambda>n. ''u'' @ show_nat n), nonce = (\<lambda>n. ''r'' @ show_nat n), BEL_BLOCKCHAIN = None,
     BEL_ENV = None, SESSION_TTL = Fin 3600, FRESH_AUTH_ACTIONS = None\<rparr>"

definition demo_actor :: "string \<Rightarrow> actor" where
  "demo_actor who = \<lparr>act_identityId = who, act_walletAddress = ''0x'' @ who, act_signature = None\<rparr>"

end
