(* ===== verification/Payloads.thy ===== *)
theory Payloads
  imports Shared "HOL-Library.Word"
begin

text \<open>
  \<^verbatim>\<open>backend/src/blockchain/payloads.ts\<close>: the mapping of a transaction envelope to one
  call of a registry contract.  The payload is an object of type unknown, so every field is
  tested before it is used; identities given as a DID and assets given by id are resolved on the
  chain through two lookups, which are methods of the same monad as the rest and arguments of
  the model here (the EVM adapter supplies them).  The address functions of ethers and the
  implementation-defined part of \<^verbatim>\<open>Date.parse\<close> are the record \<open>ethers\<close>.
\<close>

section \<open>Library functions and lookups\<close>

text \<open>
  \<open>dateParse v\<close> is \<^verbatim>\<open>Date.parse(String(v))\<close>, \<open>None\<close> for NaN.
\<close>

record ethers =
  isAddress :: "string \<Rightarrow> bool"
  getAddress :: "string \<Rightarrow> string"
  dateParse :: "jsval \<Rightarrow> int option"

text \<open>
  What the code relies on of ethers: \<^verbatim>\<open>getAddress\<close> gives the checksummed spelling of an
  address, which is again an address and never the empty string.
\<close>

definition ethers_ok :: "ethers \<Rightarrow> bool" where
  "ethers_ok et \<longleftrightarrow>
     (\<forall>a. isAddress et a \<longrightarrow> isAddress et (getAddress et a)) \<and> \<not> isAddress et []"

record 's lookups =
  nftIdOf :: "string \<Rightarrow> ('s, error, nat) m"
  walletOfIdentity :: "string \<Rightarrow> bool \<Rightarrow> ('s, error, string option) m"

section \<open>Call plans\<close>

datatype contract_name =
  IdentityRegistry | RoleRegistry | AssetRegistry | JobManager | AuditRegistry | ValidatorRegistry

definition CONTRACT_NAMES :: "contract_name list" where
  "CONTRACT_NAMES =
     [IdentityRegistry, RoleRegistry, AssetRegistry, JobManager, AuditRegistry, ValidatorRegistry]"

text \<open>An argument of a call: a string, a number that is an integer, a bigint or a boolean.\<close>

datatype call_arg = AStr string | ANum int | ABig int | ABool bool

record call_plan =
  cp_contract :: contract_name
  cp_method :: string
  cp_args :: "call_arg list"

definition TRANSACTION_TYPES :: "transaction_type list" where
  "TRANSACTION_TYPES =
     [IDENTITY_CREATE, IDENTITY_REGISTER, ROLE_ASSIGN, ROLE_REVOKE, WALLET_REGISTER, WALLET_ACTIVATE,
      WALLET_REVOKE, ASSET_MINT, ASSET_TRANSFER, ASSET_STATE_CHANGE, JOB_CREATE, JOB_ASSIGN, JOB_START,
      JOB_COMPLETE, JOB_APPROVE, JOB_REJECT, COMPONENT_ATTACH, COMPONENT_REMOVE, VALIDATOR_ADD,
      VALIDATOR_REMOVE, VALIDATOR_RESTORE, VALIDATOR_REMOVE_CANCEL, GRANT_CREATE, GRANT_REVOKE]"

section \<open>Fields of a payload\<close>

definition invalid :: "transaction_type \<Rightarrow> string \<Rightarrow> error" where
  "invalid ty msg = BlockchainError INVALID_PAYLOAD (show_tx ty @ '': '' @ msg)"

text \<open>The loop of \<^verbatim>\<open>str\<close>: the first key whose value is a string that is not blank.\<close>

fun str_opt :: "jsobj \<Rightarrow> string list \<Rightarrow> string option" where
  "str_opt p [] = None"
| "str_opt p (k # ks) =
     (case fld p k of JStr v \<Rightarrow> if trim v \<noteq> [] then Some (trim v) else str_opt p ks
      | _ \<Rightarrow> str_opt p ks)"

definition payload_str :: "transaction_type \<Rightarrow> jsobj \<Rightarrow> string list \<Rightarrow> ('s, error, string) m" where
  "payload_str ty p ks =
     required (str_opt p ks) (invalid ty (''payload.'' @ hd ks @ '' is required''))"

definition optionalAddress ::
  "ethers \<Rightarrow> transaction_type \<Rightarrow> jsobj \<Rightarrow> string list \<Rightarrow> ('s, error, string option) m" where
  "optionalAddress et ty p ks =
     (case str_opt p ks of None \<Rightarrow> ret None
      | Some v \<Rightarrow>
          thenE (throwIf (\<not> isAddress et v)
                   (invalid ty (''payload.'' @ hd ks @ '' is not a valid address'')))
            (ret (Some (getAddress et v))))"

definition requiredAddress ::
  "ethers \<Rightarrow> transaction_type \<Rightarrow> jsobj \<Rightarrow> string list \<Rightarrow> ('s, error, string) m" where
  "requiredAddress et ty p ks =
     bindE (optionalAddress et ty p ks)
       (\<lambda>a. required a (invalid ty (''payload.'' @ hd ks @ '' is required'')))"

text \<open>
  \<^verbatim>\<open>Math.floor\<close> of a number, \<open>None\<close> when the result is not finite.  The literal
  \<^verbatim>\<open>0xffffffffffffffff\<close> is not a double: it is read as the nearest one, $2^{64}$.
\<close>

fun floor_num :: "jsnum \<Rightarrow> int option" where
  "floor_num (Fin q) = Some \<lfloor>q\<rfloor>"
| "floor_num _ = None"

definition grantExpiry :: "ethers \<Rightarrow> transaction_type \<Rightarrow> jsobj \<Rightarrow> ('s, error, int) m" where
  "grantExpiry et ty p =
     (let v = fld p ''expiresAt'' in
      if v = JUndefined \<or> v = JNull \<or> v = JStr [] then ret 0
      else
        let seconds = (case v of JNum n \<Rightarrow> floor_num n
                       | _ \<Rightarrow> map_option (\<lambda>t. t div 1000) (dateParse et v)) in
        case seconds of
          None \<Rightarrow> throw (invalid ty ''payload.expiresAt is invalid'')
        | Some n \<Rightarrow>
            thenE (throwIf (n < 0 \<or> n > 2 ^ 64) (invalid ty ''payload.expiresAt is invalid''))
              (ret n))"

definition party ::
  "ethers \<Rightarrow> 's lookups \<Rightarrow> transaction_type \<Rightarrow> jsobj \<Rightarrow> string list \<Rightarrow> bool \<Rightarrow> ('s, error, string) m"
where
  "party et lk ty p ks requireActive =
     bindE (payload_str ty p ks) (\<lambda>ref.
       if isAddress et ref then ret (getAddress et ref)
       else bindE (walletOfIdentity lk ref requireActive) (\<lambda>w.
         let missing = throw (BlockchainError CHAIN_NOT_FOUND
               (show_tx ty @ '': identity '' @ ref @ '' has no '' @
                (if requireActive then ''ACTIVE '' else []) @ ''wallet on-chain'')) in
         case w of None \<Rightarrow> missing | Some a \<Rightarrow> if a = [] then missing else ret a))"

text \<open>\<^verbatim>\<open>BigInt(s)\<close> of a string of decimal digits.\<close>

definition digits_val :: "string \<Rightarrow> nat" where
  "digits_val s = foldl (\<lambda>acc c. 10 * acc + (of_char c - 48)) 0 s"

text \<open>A value that passes the test of \<^verbatim>\<open>nftRef\<close>, as a bigint.\<close>

fun nft_value :: "jsval \<Rightarrow> int option" where
  "nft_value (JStr v) =
     (if v \<noteq> [] \<and> list_all is_digit v then Some (int (digits_val v)) else None)"
| "nft_value (JNum n) =
     (if isSafeInteger n \<and> num_int n > 0 then Some (num_int n) else None)"
| "nft_value (JBigInt i) = Some i"
| "nft_value _ = None"

fun nft_key :: "jsobj \<Rightarrow> string list \<Rightarrow> int option" where
  "nft_key p [] = None"
| "nft_key p (k # ks) =
     (case nft_value (fld p k) of Some n \<Rightarrow> if n > 0 then Some n else nft_key p ks
      | None \<Rightarrow> nft_key p ks)"

definition nftRef ::
  "'s lookups \<Rightarrow> transaction_type \<Rightarrow> jsobj \<Rightarrow> string list \<Rightarrow> string list \<Rightarrow> ('s, error, int) m" where
  "nftRef lk ty p idKeys nftKeys =
     (case nft_key p nftKeys of Some n \<Rightarrow> ret n
      | None \<Rightarrow>
          bindE (required (str_opt p idKeys)
                   (invalid ty (''payload.'' @ hd idKeys @ '' or payload.'' @ hd nftKeys @ '' is required'')))
            (\<lambda>assetId. bindE (nftIdOf lk assetId) (\<lambda>n.
               thenE (throwIf (n = 0) (BlockchainError CHAIN_NOT_FOUND
                        (show_tx ty @ '': asset '' @ assetId @ '' is not registered on-chain'')))
                 (ret (int n)))))"

text \<open>\<^verbatim>\<open>xs.indexOf(x)\<close>, \<open>None\<close> for -1.\<close>

fun indexOf :: "'a list \<Rightarrow> 'a \<Rightarrow> nat option" where
  "indexOf [] x = None"
| "indexOf (y # ys) x = (if y = x then Some 0 else map_option Suc (indexOf ys x))"

definition roleIndex :: "transaction_type \<Rightarrow> jsobj \<Rightarrow> ('s, error, nat) m" where
  "roleIndex ty p =
     bindE (payload_str ty p [''role'']) (\<lambda>role.
       required (indexOf (map show_role ROLES) role) (invalid ty (''unknown role '' @ role)))"

definition normalizeBytes32 :: "transaction_type \<Rightarrow> string \<Rightarrow> ('s, error, string) m" where
  "normalizeBytes32 ty v =
     (let hex = (if startsWith v ''0x'' \<or> startsWith v ''0X'' then drop 2 v else v) in
      thenE (throwIf (\<not> hex_of_length 64 hex)
               (invalid ty ''evidenceHash must be a 32-byte hex string (e.g. a SHA-256 digest)''))
        (thenE (throwIf (hex \<noteq> [] \<and> list_all (\<lambda>c. c = CHR ''0'') hex)
                  (invalid ty ''evidenceHash must not be zero''))
          (ret (''0x'' @ toLowerCase hex))))"

section \<open>The call of each transaction type\<close>

text \<open>\<^verbatim>\<open>typeof h === "number" && Number.isSafeInteger(h) && h > 0\<close>.\<close>

definition positive_height :: "jsval \<Rightarrow> int option" where
  "positive_height v =
     (case v of JNum n \<Rightarrow> if isSafeInteger n \<and> num_int n > 0 then Some (num_int n) else None
      | _ \<Rightarrow> None)"

definition call ::
  "contract_name \<Rightarrow> string \<Rightarrow> call_arg list \<Rightarrow> ('s, error, call_plan) m" where
  "call c f xs = ret \<lparr>cp_contract = c, cp_method = f, cp_args = xs\<rparr>"

definition plan_validator :: "ethers \<Rightarrow> transaction_type \<Rightarrow> jsobj \<Rightarrow> ('s, error, call_plan) m" where
  "plan_validator et ty p =
     bindE (requiredAddress et ty p [''validatorId'', ''validator'', ''address'']) (\<lambda>validator.
       case ty of
         VALIDATOR_ADD \<Rightarrow>
           bindE (payload_str ty p [''publicKey'']) (\<lambda>publicKey.
           bindE (payload_str ty p [''signingPublicKey'']) (\<lambda>signingPublicKey.
           bindE (required (positive_height (fld p ''activationHeight''))
                    (invalid ty ''payload.activationHeight must be a positive integer'')) (\<lambda>h.
             call ValidatorRegistry ''addValidator''
               [AStr validator, AStr publicKey, AStr signingPublicKey, ANum h])))
       | VALIDATOR_REMOVE \<Rightarrow>
           bindE (required (positive_height (fld p ''removalHeight''))
                    (invalid ty ''payload.removalHeight must be a positive integer'')) (\<lambda>h.
           bindE (payload_str ty p [''reason'']) (\<lambda>reason.
             call ValidatorRegistry ''removeValidator'' [AStr validator, ANum h, AStr reason]))
       | VALIDATOR_RESTORE \<Rightarrow>
           bindE (payload_str ty p [''reason'']) (\<lambda>reason.
             call ValidatorRegistry ''restoreValidator'' [AStr validator, AStr reason])
       | _ \<Rightarrow>
           bindE (payload_str ty p [''reason'']) (\<lambda>reason.
             call ValidatorRegistry ''cancelScheduledRemoval'' [AStr validator, AStr reason]))"

definition wallet_keys :: "string list" where
  "wallet_keys = [''walletAddress'', ''address'', ''wallet'']"

definition plan_identity ::
  "ethers \<Rightarrow> transaction_type \<Rightarrow> jsobj \<Rightarrow> ('s, error, call_plan) m" where
  "plan_identity et ty p =
     (case ty of
        WALLET_ACTIVATE \<Rightarrow>
          bindE (requiredAddress et ty p wallet_keys) (\<lambda>a.
            call IdentityRegistry ''activateWallet'' [AStr a])
      | WALLET_REVOKE \<Rightarrow>
          bindE (requiredAddress et ty p wallet_keys) (\<lambda>a.
          bindE (payload_str ty p [''reason'']) (\<lambda>reason.
            call IdentityRegistry ''revokeWallet'' [AStr a, AStr reason]))
      | _ \<Rightarrow>
          bindE (requiredAddress et ty p wallet_keys) (\<lambda>a.
          bindE (payload_str ty p [''identityId'', ''did'']) (\<lambda>did.
            call IdentityRegistry ''createIdentity'' [AStr a, AStr did])))"

definition plan_role ::
  "ethers \<Rightarrow> 's lookups \<Rightarrow> transaction_type \<Rightarrow> jsobj \<Rightarrow> ('s, error, call_plan) m" where
  "plan_role et lk ty p =
     bindE (optionalAddress et ty p wallet_keys) (\<lambda>a.
     bindE (case a of Some w \<Rightarrow> ret w | None \<Rightarrow> party et lk ty p [''identityId''] False) (\<lambda>target.
     bindE (roleIndex ty p) (\<lambda>i.
       call RoleRegistry (if ty = ROLE_ASSIGN then ''assignRole'' else ''revokeRole'')
         [AStr target, ANum (int i)])))"

definition new_owner_keys :: "string list" where
  "new_owner_keys = [''newOwnerId'', ''newOwnerWallet'', ''newOwner'']"

definition plan_asset ::
  "ethers \<Rightarrow> 's lookups \<Rightarrow> transaction_type \<Rightarrow> jsobj \<Rightarrow> ('s, error, call_plan) m" where
  "plan_asset et lk ty p =
     (case ty of
        ASSET_MINT \<Rightarrow>
          bindE (payload_str ty p [''assetId'']) (\<lambda>assetId.
          bindE (party et lk ty p [''ownerId'', ''ownerWallet'', ''owner''] True) (\<lambda>ow.
            call AssetRegistry ''mintAsset'' [AStr assetId, AStr ow]))
      | _ \<Rightarrow>
          bindE (payload_str ty p new_owner_keys) (\<lambda>newOwner.
          thenE (throwIf (case str_opt p [''newCustodianId''] of None \<Rightarrow> False | Some c \<Rightarrow> c \<noteq> newOwner)
                   (BlockchainError UNSUPPORTED_TRANSACTION
                      ''ASSET_TRANSFER: a custodian different from the new owner cannot be recorded on-chain (IAssetRegistry.transferAsset moves both together)''))
          (bindE (nftRef lk ty p [''assetId''] [''nftId'']) (\<lambda>nft.
           bindE (party et lk ty p new_owner_keys True) (\<lambda>ow.
             call AssetRegistry ''transferAsset'' [ABig nft, AStr ow])))))"

definition plan_component ::
  "'s lookups \<Rightarrow> transaction_type \<Rightarrow> jsobj \<Rightarrow> ('s, error, call_plan) m" where
  "plan_component lk ty p =
     (case ty of
        ASSET_STATE_CHANGE \<Rightarrow>
          bindE (payload_str ty p [''newState'', ''status'']) (\<lambda>st.
          thenE (throwIf (st \<notin> set (map show_asset_status ASSET_STATUSES))
                   (invalid ty (''unknown asset state '' @ st)))
          (bindE (nftRef lk ty p [''assetId''] [''nftId'']) (\<lambda>nft.
             call AssetRegistry ''changeAssetState'' [ABig nft, AStr st])))
      | _ \<Rightarrow>
          bindE (nftRef lk ty p [''parentAssetId''] [''parentNftId'']) (\<lambda>par.
          bindE (nftRef lk ty p [''componentAssetId'', ''componentId''] [''componentNftId'']) (\<lambda>comp.
            call AssetRegistry (if ty = COMPONENT_ATTACH then ''attachComponent'' else ''removeComponent'')
              [ABig par, ABig comp])))"

definition plan_grant ::
  "ethers \<Rightarrow> 's lookups \<Rightarrow> transaction_type \<Rightarrow> jsobj \<Rightarrow> ('s, error, call_plan) m" where
  "plan_grant et lk ty p =
     bindE (payload_str ty p [''actorIdentityId'']) (\<lambda>_.
     bindE (payload_str ty p [''authorizationGrantId'']) (\<lambda>grantId.
     bindE (nftRef lk ty p [''resourceId'', ''assetId''] [''nftId'']) (\<lambda>nft.
     bindE (party et lk ty p [''actorIdentityId''] True) (\<lambda>who.
     bindE (grantExpiry et ty p) (\<lambda>until.
       call AssetRegistry ''setTransferGrant''
         [ABig nft, AStr who, ANum until, ABool (ty = GRANT_CREATE), AStr grantId])))))"

definition plan_job ::
  "ethers \<Rightarrow> 's lookups \<Rightarrow> transaction_type \<Rightarrow> jsobj \<Rightarrow> ('s, error, call_plan) m" where
  "plan_job et lk ty p =
     bindE (payload_str ty p [''jobId'']) (\<lambda>jobId.
       case ty of
         JOB_CREATE \<Rightarrow>
           bindE (nftRef lk ty p [''assetId''] [''assetNftId'']) (\<lambda>nft.
             call JobManager ''createJob'' [AStr jobId, ABig nft])
       | JOB_ASSIGN \<Rightarrow>
           bindE (party et lk ty p [''technicianId'', ''technicianWallet'', ''technician''] True) (\<lambda>who.
             call JobManager ''assignJob'' [AStr jobId, AStr who])
       | JOB_START \<Rightarrow> call JobManager ''startJob'' [AStr jobId]
       | JOB_COMPLETE \<Rightarrow>
           bindE (payload_str ty p [''evidenceHash'']) (\<lambda>h.
           bindE (normalizeBytes32 ty h) (\<lambda>h32.
             call JobManager ''completeJob'' [AStr jobId, AStr h32]))
       | JOB_APPROVE \<Rightarrow> call JobManager ''approveJob'' [AStr jobId]
       | _ \<Rightarrow>
           bindE (payload_str ty p [''reason'']) (\<lambda>reason.
             call JobManager ''rejectJob'' [AStr jobId, AStr reason]))"

definition buildCallPlan ::
  "ethers \<Rightarrow> 's lookups \<Rightarrow> transaction \<Rightarrow> ('s, error, call_plan) m" where
  "buildCallPlan et lk tx =
     (let ty = tx_type tx; p = tx_payload tx in
      thenE (throwIf (ty \<notin> set TRANSACTION_TYPES)
               (BlockchainError UNSUPPORTED_TRANSACTION (''Unknown transaction type '' @ show_tx ty)))
      (if ty \<in> {VALIDATOR_ADD, VALIDATOR_REMOVE, VALIDATOR_RESTORE, VALIDATOR_REMOVE_CANCEL}
         then plan_validator et ty p
       else if ty \<in> {IDENTITY_CREATE, IDENTITY_REGISTER, WALLET_REGISTER, WALLET_ACTIVATE, WALLET_REVOKE}
         then plan_identity et ty p
       else if ty \<in> {ROLE_ASSIGN, ROLE_REVOKE} then plan_role et lk ty p
       else if ty \<in> {GRANT_CREATE, GRANT_REVOKE} then plan_grant et lk ty p
       else if ty \<in> {ASSET_MINT, ASSET_TRANSFER} then plan_asset et lk ty p
       else if ty \<in> {ASSET_STATE_CHANGE, COMPONENT_ATTACH, COMPONENT_REMOVE} then plan_component lk ty p
       else plan_job et lk ty p))"

section \<open>The interface of the contracts\<close>

text \<open>
  The inputs of the functions a plan may call, from the committed interface files under
  \<^verbatim>\<open>contracts/abis\<close>.
\<close>

datatype abi_type = TAddress | TString | TBytes32 | TUint8 | TUint64 | TUint256 | TBool

definition abi :: "((contract_name \<times> string) \<times> abi_type list) list" where
  "abi =
    [((IdentityRegistry, ''createIdentity''), [TAddress, TString]),
     ((IdentityRegistry, ''activateWallet''), [TAddress]),
     ((IdentityRegistry, ''revokeWallet''), [TAddress, TString]),
     ((RoleRegistry, ''assignRole''), [TAddress, TUint8]),
     ((RoleRegistry, ''revokeRole''), [TAddress, TUint8]),
     ((AssetRegistry, ''mintAsset''), [TString, TAddress]),
     ((AssetRegistry, ''transferAsset''), [TUint256, TAddress]),
     ((AssetRegistry, ''changeAssetState''), [TUint256, TString]),
     ((AssetRegistry, ''attachComponent''), [TUint256, TUint256]),
     ((AssetRegistry, ''removeComponent''), [TUint256, TUint256]),
     ((AssetRegistry, ''setTransferGrant''), [TUint256, TAddress, TUint64, TBool, TString]),
     ((JobManager, ''createJob''), [TString, TUint256]),
     ((JobManager, ''assignJob''), [TString, TAddress]),
     ((JobManager, ''startJob''), [TString]),
     ((JobManager, ''completeJob''), [TString, TBytes32]),
     ((JobManager, ''approveJob''), [TString]),
     ((JobManager, ''rejectJob''), [TString, TString]),
     ((ValidatorRegistry, ''addValidator''), [TAddress, TString, TString, TUint64]),
     ((ValidatorRegistry, ''removeValidator''), [TAddress, TUint64, TString]),
     ((ValidatorRegistry, ''restoreValidator''), [TAddress, TString]),
     ((ValidatorRegistry, ''cancelScheduledRemoval''), [TAddress, TString])]"

text \<open>A canonical 32-byte value: \<^verbatim>\<open>0x\<close> and 64 lower-case hexadecimal digits.\<close>

definition is_bytes32 :: "string \<Rightarrow> bool" where
  "is_bytes32 s \<longleftrightarrow> startsWith s ''0x'' \<and> hex_of_length 64 (drop 2 s) \<and> toLowerCase (drop 2 s) = drop 2 s"

text \<open>
  The value has the type: a text is not blank and has no outer white space, an address is one
  that ethers accepts, and a number lies in the range that \<open>payloads.ts\<close> enforces (for
  \<^verbatim>\<open>uint64\<close> that is $2^{64}$ inclusive, one more than the contract's type holds; for a
  token id given as digits there is no upper bound).
\<close>

fun fits :: "ethers \<Rightarrow> abi_type \<Rightarrow> call_arg \<Rightarrow> bool" where
  "fits et TAddress (AStr a) \<longleftrightarrow> isAddress et a"
| "fits et TString (AStr s) \<longleftrightarrow> s \<noteq> [] \<and> trim s = s"
| "fits et TBytes32 (AStr s) \<longleftrightarrow> is_bytes32 s"
| "fits et TUint8 (ANum n) \<longleftrightarrow> 0 \<le> n \<and> n < int (length ROLES)"
| "fits et TUint64 (ANum n) \<longleftrightarrow> 0 \<le> n \<and> n \<le> 2 ^ 64"
| "fits et TUint256 (ABig n) \<longleftrightarrow> 0 < n"
| "fits et TBool (ABool b) \<longleftrightarrow> True"
| "fits et _ _ \<longleftrightarrow> False"

definition typed_plan :: "ethers \<Rightarrow> call_plan \<Rightarrow> bool" where
  "typed_plan et pl \<longleftrightarrow>
     (case map_of abi (cp_contract pl, cp_method pl) of None \<Rightarrow> False
      | Some ins \<Rightarrow> list_all2 (fits et) ins (cp_args pl))"

text \<open>The lookups answer with addresses.\<close>

definition lookups_ok :: "ethers \<Rightarrow> 's lookups \<Rightarrow> bool" where
  "lookups_ok et lk \<longleftrightarrow>
     (\<forall>ref b s w s'. walletOfIdentity lk ref b s = (Inr (Some w), s') \<longrightarrow> isAddress et w)"

section \<open>Fields that were accepted\<close>

lemma TRANSACTION_TYPES_all [simp]: "ty \<in> set TRANSACTION_TYPES"
  by (cases ty) (simp_all add: TRANSACTION_TYPES_def)

lemma str_opt_text: "str_opt p ks = Some v \<Longrightarrow> v \<noteq> [] \<and> trim v = v"
  by (induction ks) (auto split: jsval.splits if_splits)

lemma payload_str_ok [run]: "payload_str ty p ks s = (Inr v, s') \<longleftrightarrow> str_opt p ks = Some v \<and> s' = s"
  by (simp add: payload_str_def run)

lemma optionalAddress_ok:
  "optionalAddress et ty p ks s = (Inr (Some a), s') \<Longrightarrow> ethers_ok et \<Longrightarrow> isAddress et a \<and> s' = s"
  by (auto simp: optionalAddress_def ethers_ok_def run split: option.splits)

lemma requiredAddress_ok:
  "requiredAddress et ty p ks s = (Inr a, s') \<Longrightarrow> ethers_ok et \<Longrightarrow> isAddress et a"
  by (auto simp: requiredAddress_def run dest: optionalAddress_ok)

lemma party_ok:
  assumes "party et lk ty p ks b s = (Inr a, s')" "ethers_ok et" "lookups_ok et lk"
  shows "isAddress et a"
proof -
  from assms(1) obtain ref where "isAddress et ref \<and> a = getAddress et ref \<or>
      walletOfIdentity lk ref b s = (Inr (Some a), s')"
    by (auto simp: party_def run Let_def split: if_splits option.splits)
  with assms(2,3) show ?thesis unfolding ethers_ok_def lookups_ok_def by blast
qed

lemma nft_key_pos: "nft_key p ks = Some n \<Longrightarrow> 0 < n"
  by (induction ks) (auto split: option.splits if_splits)

lemma nftRef_ok: "nftRef lk ty p ik nk s = (Inr n, s') \<Longrightarrow> 0 < n"
  by (auto simp: nftRef_def run nft_key_pos split: option.splits)

lemma indexOf_bound: "indexOf xs x = Some i \<Longrightarrow> i < length xs \<and> xs ! i = x"
  by (induction xs arbitrary: i) (auto split: if_splits)

lemma roleIndex_ok: "roleIndex ty p s = (Inr i, s') \<Longrightarrow> i < length ROLES"
  by (auto simp: roleIndex_def run dest: indexOf_bound)

lemma positive_height_ok: "positive_height v = Some h \<Longrightarrow> 0 < h \<and> h \<le> MAX_SAFE"
  by (auto simp: positive_height_def split: jsval.splits if_splits elim!: isSafeInteger.elims)

lemma positive_height_u64: "positive_height v = Some h \<Longrightarrow> 0 \<le> h \<and> h \<le> 2 ^ 64"
  using positive_height_ok [of v h] by (simp add: MAX_SAFE_def)

lemma grantExpiry_ok: "grantExpiry et ty p s = (Inr n, s') \<Longrightarrow> 0 \<le> n \<and> n \<le> 2 ^ 64"
  by (auto simp: grantExpiry_def run Let_def split: if_splits option.splits)

lemma drop_prefix: "drop 2 (''0x'' @ h) = h" "startsWith (''0x'' @ h) ''0x''"
  by (simp_all add: startsWith_def)

lemma lower_hex_list:
  "list_all is_hex h \<Longrightarrow> list_all is_hex (toLowerCase h) \<and> toLowerCase (toLowerCase h) = toLowerCase h"
  by (induction h) (auto simp: toLowerCase_def lower_hex)

lemma is_bytes32_prefix: "hex_of_length 64 h \<Longrightarrow> is_bytes32 (''0x'' @ toLowerCase h)"
  unfolding is_bytes32_def drop_prefix hex_of_length_def
  using lower_hex_list [of h] by (simp add: toLowerCase_def startsWith_def)

text \<open>The digits of a value, without the prefix that \<^verbatim>\<open>normalizeBytes32\<close> removes.\<close>

definition hex_digits :: "string \<Rightarrow> string" where
  "hex_digits v = (if startsWith v ''0x'' \<or> startsWith v ''0X'' then drop 2 v else v)"

lemma hex64_Nil [simp]: "\<not> hex_of_length 64 []"
  by (simp add: hex_of_length_def)

lemma normalizeBytes32_run:
  "normalizeBytes32 ty v s = (Inr h, s') \<longleftrightarrow>
     hex_of_length 64 (hex_digits v) \<and> \<not> list_all (\<lambda>c. c = CHR ''0'') (hex_digits v) \<and>
     h = ''0x'' @ toLowerCase (hex_digits v) \<and> s' = s"
  by (auto simp: normalizeBytes32_def hex_digits_def run Let_def)

lemma normalizeBytes32_ok: "normalizeBytes32 ty v s = (Inr h, s') \<Longrightarrow> is_bytes32 h"
  by (auto simp only: normalizeBytes32_run intro: is_bytes32_prefix)

lemma show_asset_status_text: "st \<in> set (map show_asset_status ASSET_STATUSES) \<Longrightarrow> st \<noteq> []"
  by (auto simp: ASSET_STATUSES_def)

lemmas field_ok = str_opt_text requiredAddress_ok party_ok nftRef_ok roleIndex_ok
  positive_height_u64 grantExpiry_ok normalizeBytes32_ok

section \<open>Plans are well typed\<close>

lemma typed_call:
  assumes "call c f xs s = (Inr pl, s')" "map_of abi (c, f) = Some ins" "list_all2 (fits et) ins xs"
  shows "typed_plan et pl"
  using assms by (auto simp: call_def run typed_plan_def)

lemma abi_lookup:
  "map_of abi (IdentityRegistry, ''createIdentity'') = Some [TAddress, TString]"
  "map_of abi (IdentityRegistry, ''activateWallet'') = Some [TAddress]"
  "map_of abi (IdentityRegistry, ''revokeWallet'') = Some [TAddress, TString]"
  "map_of abi (RoleRegistry, ''assignRole'') = Some [TAddress, TUint8]"
  "map_of abi (RoleRegistry, ''revokeRole'') = Some [TAddress, TUint8]"
  "map_of abi (AssetRegistry, ''mintAsset'') = Some [TString, TAddress]"
  "map_of abi (AssetRegistry, ''transferAsset'') = Some [TUint256, TAddress]"
  "map_of abi (AssetRegistry, ''changeAssetState'') = Some [TUint256, TString]"
  "map_of abi (AssetRegistry, ''attachComponent'') = Some [TUint256, TUint256]"
  "map_of abi (AssetRegistry, ''removeComponent'') = Some [TUint256, TUint256]"
  "map_of abi (AssetRegistry, ''setTransferGrant'') = Some [TUint256, TAddress, TUint64, TBool, TString]"
  "map_of abi (JobManager, ''createJob'') = Some [TString, TUint256]"
  "map_of abi (JobManager, ''assignJob'') = Some [TString, TAddress]"
  "map_of abi (JobManager, ''startJob'') = Some [TString]"
  "map_of abi (JobManager, ''completeJob'') = Some [TString, TBytes32]"
  "map_of abi (JobManager, ''approveJob'') = Some [TString]"
  "map_of abi (JobManager, ''rejectJob'') = Some [TString, TString]"
  "map_of abi (ValidatorRegistry, ''addValidator'') = Some [TAddress, TString, TString, TUint64]"
  "map_of abi (ValidatorRegistry, ''removeValidator'') = Some [TAddress, TUint64, TString]"
  "map_of abi (ValidatorRegistry, ''restoreValidator'') = Some [TAddress, TString]"
  "map_of abi (ValidatorRegistry, ''cancelScheduledRemoval'') = Some [TAddress, TString]"
  by (simp_all add: abi_def)

text \<open>\<open>yields P f\<close>: a value that \<open>f\<close> returns satisfies \<open>P\<close>.\<close>

definition yields :: "('a \<Rightarrow> bool) \<Rightarrow> ('s, 'e, 'a) m \<Rightarrow> bool" where
  "yields P f \<longleftrightarrow> (\<forall>s x s'. f s = (Inr x, s') \<longrightarrow> P x)"

lemma yieldsD: "yields P f \<Longrightarrow> f s = (Inr x, s') \<Longrightarrow> P x"
  unfolding yields_def by blast

lemma yields_bind: "yields P f \<Longrightarrow> (\<And>x. P x \<Longrightarrow> yields Q (g x)) \<Longrightarrow> yields Q (bindE f g)"
  unfolding yields_def by (auto simp: run) blast

lemma yields_then: "(\<not> b \<Longrightarrow> yields Q g) \<Longrightarrow> yields Q (thenE (throwIf b e) g)"
  unfolding yields_def by (auto simp: run)

lemma yields_fields:
  "yields (\<lambda>v. fits et TString (AStr v)) (payload_str ty p ks)"
  "yields (\<lambda>n. fits et TUint256 (ABig n)) (nftRef lk ty p ik nk)"
  "yields (\<lambda>i. fits et TUint8 (ANum (int i))) (roleIndex ty p)"
  "yields (\<lambda>n. fits et TUint64 (ANum n)) (grantExpiry et ty p)"
  "yields (\<lambda>h. fits et TUint64 (ANum h)) (required (positive_height v) e)"
  "yields (\<lambda>h. fits et TBytes32 (AStr h)) (normalizeBytes32 ty w)"
  by (auto simp: yields_def run dest: field_ok)

lemma yields_addresses:
  assumes "ethers_ok et"
  shows "yields (\<lambda>a. fits et TAddress (AStr a)) (requiredAddress et ty p ks)"
    "yields (\<lambda>a. pred_option (\<lambda>a. fits et TAddress (AStr a)) a) (optionalAddress et ty p ks)"
    "lookups_ok et lk \<Longrightarrow> yields (\<lambda>a. fits et TAddress (AStr a)) (party et lk ty p ks b)"
  using assms
  by (auto simp: yields_def dest: field_ok optionalAddress_ok split: option.splits)
     (metis (full_types) not_None_eq option.pred_inject optionalAddress_ok)

lemma yields_call:
  "map_of abi (c, f) = Some ins \<Longrightarrow> list_all2 (fits et) ins xs \<Longrightarrow> yields (typed_plan et) (call c f xs)"
  unfolding yields_def by (blast intro: typed_call)

lemmas typed_rules = yields_call abi_lookup yields_bind yields_then

lemma typed_validator: "ethers_ok et \<Longrightarrow> yields (typed_plan et) (plan_validator et ty p)"
  unfolding plan_validator_def
  by (rule yields_bind, rule yields_addresses, assumption)
     (cases ty; simp; (rule yields_bind, rule yields_fields)+; rule yields_call, rule abi_lookup; simp)

lemma typed_identity: "ethers_ok et \<Longrightarrow> yields (typed_plan et) (plan_identity et ty p)"
  unfolding plan_identity_def
  by (cases ty; simp; (rule yields_bind, (rule yields_addresses | rule yields_fields), assumption?)+;
      rule yields_call, rule abi_lookup; simp)

lemma typed_role:
  "ethers_ok et \<Longrightarrow> lookups_ok et lk \<Longrightarrow> yields (typed_plan et) (plan_role et lk ty p)"
  unfolding plan_role_def
  apply (rule yields_bind [OF yields_addresses(2)], assumption)
  apply (rule yields_bind [where P = "\<lambda>a. fits et TAddress (AStr a)"])
   apply (auto simp: yields_def run dest: party_ok split: option.splits) [1]
  apply (rule yields_bind [OF yields_fields(3)])
  apply (cases "ty = ROLE_ASSIGN"; simp; rule yields_call, rule abi_lookup; simp)
  done

lemma typed_grant:
  "ethers_ok et \<Longrightarrow> lookups_ok et lk \<Longrightarrow> yields (typed_plan et) (plan_grant et lk ty p)"
  unfolding plan_grant_def
  by ((rule yields_bind, (rule yields_addresses(3) | rule yields_fields), (assumption+)?)+;
      rule yields_call, rule abi_lookup; simp)

lemma typed_asset:
  "ethers_ok et \<Longrightarrow> lookups_ok et lk \<Longrightarrow> yields (typed_plan et) (plan_asset et lk ty p)"
  unfolding plan_asset_def
  by (cases ty; simp;
      ((rule yields_bind, (rule yields_addresses(3) | rule yields_fields), (assumption+)?) | rule yields_then)+;
      rule yields_call, rule abi_lookup; simp)

lemma typed_component: "yields (typed_plan et) (plan_component lk ty p)"
  unfolding plan_component_def
  by (cases ty; simp; ((rule yields_bind, rule yields_fields) | rule yields_then)+;
      rule yields_call, rule abi_lookup; simp)

lemma typed_job:
  "ethers_ok et \<Longrightarrow> lookups_ok et lk \<Longrightarrow> yields (typed_plan et) (plan_job et lk ty p)"
  unfolding plan_job_def
  by (rule yields_bind, rule yields_fields)
     (cases ty; simp;
      ((rule yields_bind, (rule yields_addresses(3) | rule yields_fields), (assumption+)?)+)?;
      rule yields_call, rule abi_lookup; simp)

text \<open>Concrete library functions and lookups, for the witnesses.\<close>

definition demo_ethers :: ethers where
  "demo_ethers = \<lparr>isAddress = (\<lambda>a. startsWith a ''0x'' \<and> hex_of_length 40 (drop 2 a)),
     getAddress = (\<lambda>a. ''0x'' @ toLowerCase (drop 2 a)), dateParse = (\<lambda>_. None)\<rparr>"

definition demo_wallet :: string where
  "demo_wallet = ''0x'' @ replicate 40 CHR ''a''"

definition demo_lookups :: "unit lookups" where
  "demo_lookups = \<lparr>nftIdOf = (\<lambda>i. ret (if i = ''A1'' then 7 else 0)),
     walletOfIdentity = (\<lambda>d _. ret (if d = ''did:tech'' then Some demo_wallet else None))\<rparr>"

definition demo_envelope :: "transaction_type \<Rightarrow> jsobj \<Rightarrow> transaction" where
  "demo_envelope ty p = \<lparr>tx_txId = ''t1'', tx_type = ty, tx_actorIdentity = ''did:boss'',
     tx_actorWallet = demo_wallet, tx_payload = p, tx_timestamp = Iso 0, tx_signature = ''development''\<rparr>"

lemma demo_ethers_ok: "ethers_ok demo_ethers"
proof -
  have "hex_of_length 40 h \<Longrightarrow> hex_of_length 40 (toLowerCase h)" for h
    using lower_hex_list [of h] by (simp add: hex_of_length_def toLowerCase_def)
  then show ?thesis by (simp add: ethers_ok_def demo_ethers_def startsWith_def)
qed

lemma demo_lookups_ok: "lookups_ok demo_ethers demo_lookups"
proof -
  have "isAddress demo_ethers demo_wallet" by code_simp
  then show ?thesis by (auto simp: lookups_ok_def demo_lookups_def run split: if_splits)
qed



section \<open>Canonical evidence hashes\<close>

lemma lower_zero: "is_hex c \<Longrightarrow> js_lower_char c = CHR ''0'' \<longleftrightarrow> c = CHR ''0''"
proof -
  have "list_all (\<lambda>c. js_lower_char c = CHR ''0'' \<longleftrightarrow> c = CHR ''0'') ''0123456789abcdefABCDEF''"
    by code_simp
  then show "is_hex c \<Longrightarrow> js_lower_char c = CHR ''0'' \<longleftrightarrow> c = CHR ''0''"
    unfolding list_all_iff is_hex_def by blast
qed

lemma lower_zeros:
  "list_all is_hex h \<Longrightarrow>
     list_all (\<lambda>c. c = CHR ''0'') (toLowerCase h) \<longleftrightarrow> list_all (\<lambda>c. c = CHR ''0'') h"
  by (induction h) (auto simp: toLowerCase_def lower_zero)

text \<open>
  Normalising an evidence hash gives \<^verbatim>\<open>0x\<close> and 64 lower-case digits, keeps the digits of
  the input up to case, and is a normal form: normalising the result changes nothing, and two
  accepted spellings of one digest (bare, \<^verbatim>\<open>0x\<close>, \<^verbatim>\<open>0X\<close>, upper or lower case)
  give the same argument of \<^verbatim>\<open>completeJob\<close>.
\<close>

theorem evidence_hash_canonical:
  assumes "normalizeBytes32 ty v s = (Inr h, s')"
  shows "is_bytes32 h \<and> drop 2 h = toLowerCase (hex_digits v) \<and> normalizeBytes32 ty h t = (Inr h, t) \<and>
    (\<forall>w h' s''. normalizeBytes32 ty w s = (Inr h', s'') \<longrightarrow>
       (h' = h \<longleftrightarrow> toLowerCase (hex_digits w) = toLowerCase (hex_digits v)))"
proof -
  let ?d = "hex_digits v"
  have d: "hex_of_length 64 ?d" "\<not> list_all (\<lambda>c. c = CHR ''0'') ?d" "h = ''0x'' @ toLowerCase ?d"
    using assms unfolding normalizeBytes32_run by blast+
  have hex: "list_all is_hex ?d" using d(1) by (simp add: hex_of_length_def)
  have "hex_digits h = toLowerCase ?d" using d(3) by (simp add: hex_digits_def startsWith_def)
  with d lower_hex_list [OF hex] lower_zeros [OF hex]
  have "normalizeBytes32 ty h t = (Inr h, t)"
    unfolding normalizeBytes32_run by (simp add: hex_of_length_def toLowerCase_def)
  moreover have "h' = h \<longleftrightarrow> toLowerCase (hex_digits w) = toLowerCase ?d"
    if "normalizeBytes32 ty w s = (Inr h', s'')" for w h' s''
    using that d(3) unfolding normalizeBytes32_run by auto
  ultimately show ?thesis using normalizeBytes32_ok [OF assms] d(3) by simp
qed

theorem evidence_hash_canonical_witness:
  "normalizeBytes32 JOB_COMPLETE (''0x'' @ replicate 64 CHR ''a'') ()
     = (Inr (''0x'' @ replicate 64 CHR ''a''), ())"
proof -
  have "normalizeBytes32 JOB_COMPLETE (''0X'' @ replicate 64 CHR ''A'') ()
      = (Inr (''0x'' @ replicate 64 CHR ''a''), ())"
    by code_simp
  from evidence_hash_canonical [OF this, THEN conjunct2, THEN conjunct2, THEN conjunct1] show ?thesis .
qed

section \<open>Token ids\<close>

lemma digits_val_snoc: "digits_val (s @ [c]) = 10 * digits_val s + (of_char c - 48)"
  by (simp add: digits_val_def)

lemma digit_char: "d < 10 \<Longrightarrow> of_char (char_of (48 + d) :: char) = 48 + (d :: nat)"
  by (simp add: of_char_of)

lemma digit_char_ok: "d < 10 \<Longrightarrow> is_digit (char_of (48 + d :: nat))"
proof -
  assume "d < 10"
  then have "d \<in> set [0..<10]" by simp
  moreover have "list_all (\<lambda>d. is_digit (char_of (48 + d :: nat))) [0..<10]" by code_simp
  ultimately show ?thesis unfolding list_all_iff by blast
qed

lemma show_nat_digits: "list_all is_digit (show_nat n) \<and> digits_val (show_nat n) = n"
proof (induction n rule: less_induct)
  case (less n)
  show ?case
  proof (cases "n < 10")
    case True
    then show ?thesis
      by (simp add: show_nat.simps [of n] digit_char_ok digits_val_def digit_char)
  next
    case False
    then have "n div 10 < n" by simp
    from less.IH [OF this] False show ?thesis
      by (simp add: show_nat.simps [of n] digit_char_ok digits_val_snoc digit_char)
  qed
qed

text \<open>
  A token id survives the trip through a payload: the decimal text of a positive token id, as the
  chain reports it in \<^verbatim>\<open>nftId\<close>, is read back as that very id, of whatever size, without
  asking the chain; the text of zero is not taken for an id, and the lookup by asset id decides.
\<close>

theorem nft_id_roundtrip:
  "nftRef lk ty ((k, JStr (show_nat (Suc n))) # p) ik [k] s = (Inr (int (Suc n)), s) \<and>
   nft_key ((k, JStr (show_nat 0)) # p) [k] = None"
  using show_nat_digits [of "Suc n"] show_nat_digits [of 0] by (simp add: nftRef_def ret_def)

section \<open>Grant expiry\<close>

text \<open>
  The expiry of a grant that a payload gives as a number is accepted exactly when its whole part
  lies between 0 and $2^{64}$, and is passed on as that whole part.  The upper bound is one too
  large for the contract's \<^verbatim>\<open>uint64\<close>: the accepted value $2^{64}$ is 0 as a 64-bit word.
\<close>

theorem grant_expiry_bounds:
  "grantExpiry et ty [(''expiresAt'', JNum (Fin q))] s =
     (if 0 \<le> \<lfloor>q\<rfloor> \<and> \<lfloor>q\<rfloor> \<le> 2 ^ 64 then (Inr \<lfloor>q\<rfloor>, s)
      else (Inl (invalid ty ''payload.expiresAt is invalid''), s))
   \<and> fst (grantExpiry et ty [(''expiresAt'', JNum (Fin (2 ^ 64)))] s) = Inr (2 ^ 64)
   \<and> word_of_int (2 ^ 64) = (0 :: 64 word)"
  by (simp add: grantExpiry_def exec_defs floor_eq_iff)

end
