(* ===== verification/Chain.thy ===== *)
theory Chain
  imports Shared
begin

text \<open>
  The frozen \<^verbatim>\<open>BlockchainService\<close> interface as a record of operations over the
  state type \<open>'c\<close> of whatever implements it, and the in-memory implementation of
  \<^verbatim>\<open>mocks/mock-blockchain/index.ts\<close>.  The services of the backend take the record as
  an argument, so their lemmas hold for every chain.
\<close>

record chain_status =
  cs_height :: int
  cs_healthy :: bool
  cs_finalityLag :: int
  cs_lastFinalizedHeight :: int

text \<open>
  A submission may change the chain and may throw; reads leave the chain as it is.
  \<open>prepareTransaction\<close> and \<open>submitTransactionDetailed\<close> are optional members.
\<close>

record 'c chain_api =
  submitTransaction :: "env \<Rightarrow> transaction \<Rightarrow> 'c \<Rightarrow> (error + tx_result) \<times> 'c"
  submitTransactionDetailed :: "(env \<Rightarrow> transaction \<Rightarrow> 'c \<Rightarrow> (error + tx_result) \<times> 'c) option"
  prepareTransaction :: "(env \<Rightarrow> transaction \<Rightarrow> 'c \<Rightarrow> error + prepared) option"
  getIdentity :: "string \<Rightarrow> 'c \<Rightarrow> error + identity option"
  getWallet :: "string \<Rightarrow> 'c \<Rightarrow> error + wallet option"
  getAsset :: "string \<Rightarrow> 'c \<Rightarrow> error + asset option"
  getJob :: "string \<Rightarrow> 'c \<Rightarrow> error + job option"
  getStatus :: "'c \<Rightarrow> error + chain_status"

section \<open>The mock chain\<close>

record mock_chain =
  mc_txCounter :: nat
  mc_identities :: "(string, identity) jsmap"
  mc_wallets :: "(string, wallet) jsmap"
  mc_assets :: "(string, asset) jsmap"
  mc_jobs :: "(string, job) jsmap"
  mc_submitted :: "transaction list"
  mc_nftCounter :: nat

definition mock_init :: mock_chain where
  "mock_init = \<lparr>mc_txCounter = 0, mc_identities = [], mc_wallets = [], mc_assets = [],
     mc_jobs = [], mc_submitted = [], mc_nftCounter = 0\<rparr>"

text \<open>The local \<^verbatim>\<open>s(k)\<close> of \<^verbatim>\<open>record\<close>: a non-empty string field of the payload.\<close>

definition pstr :: "jsobj \<Rightarrow> string \<Rightarrow> string option" where
  "pstr p k = (case fld p k of JStr v \<Rightarrow> if v = [] then None else Some v | _ \<Rightarrow> None)"

definition or_else :: "'a option \<Rightarrow> 'a option \<Rightarrow> 'a option" where
  "or_else x y = (case x of None \<Rightarrow> y | Some v \<Rightarrow> Some v)"

definition pstr_or :: "jsobj \<Rightarrow> string \<Rightarrow> string \<Rightarrow> string" where
  "pstr_or p k d = (case pstr p k of None \<Rightarrow> d | Some v \<Rightarrow> v)"

text \<open>In-place mutation of an object held in a map: nothing happens when it is absent.\<close>

definition on_entry :: "string option \<Rightarrow> ('v \<Rightarrow> 'v) \<Rightarrow> (string, 'v) jsmap \<Rightarrow> (string, 'v) jsmap" where
  "on_entry k f m = (case k of None \<Rightarrow> m
     | Some i \<Rightarrow> (case js_get m i of None \<Rightarrow> m | Some v \<Rightarrow> js_set i (f v) m))"

definition mock_mint :: "transaction \<Rightarrow> mock_chain \<Rightarrow> mock_chain" where
  "mock_mint tx c =
     (let p = tx_payload tx in
      case pstr p ''assetId'' of
        None \<Rightarrow> c
      | Some i \<Rightarrow>
          if js_get (mc_assets c) i \<noteq> None then c
          else
            let owner = pstr_or p ''ownerId'' (tx_actorIdentity tx); n = mc_nftCounter c + 1
            in c\<lparr>mc_nftCounter := n,
                 mc_assets := js_set i
                   \<lparr>as_assetId = i, as_nftId = show_nat n, as_assetType = pstr_or p ''assetType'' [],
                    as_ownerId = owner, as_custodianId = pstr_or p ''custodianId'' owner,
                    as_parentAssetId = Some (pstr p ''parentAssetId''), as_status = ACTIVE\<rparr>
                   (mc_assets c)\<rparr>)"

definition mock_job_create :: "transaction \<Rightarrow> date_str \<Rightarrow> mock_chain \<Rightarrow> mock_chain" where
  "mock_job_create tx now c =
     (let p = tx_payload tx in
      case (pstr p ''jobId'', pstr p ''assetId'') of
        (Some i, Some a) \<Rightarrow>
          if js_get (mc_jobs c) i \<noteq> None then c
          else c\<lparr>mc_jobs := js_set i
             \<lparr>job_jobId = i, job_assetId = a, job_createdBy = tx_actorIdentity tx, job_assignedTo = [],
              job_verifierId = (case pstr p ''verifierId'' of None \<Rightarrow> JNull | Some v \<Rightarrow> JStr v),
              job_status = CREATED,
              job_priority = (case pstr p ''priority'' of
                  Some v \<Rightarrow> if v \<in> {''LOW'', ''HIGH'', ''CRITICAL''} then JStr v else JStr ''MEDIUM''
                | None \<Rightarrow> JStr ''MEDIUM''),
              job_createdAt = now, job_completedAt = None\<rparr> (mc_jobs c)\<rparr>
      | _ \<Rightarrow> c)"

definition asset_status_of :: "string \<Rightarrow> asset_status option" where
  "asset_status_of v =
     (if v = ''ACTIVE'' then Some ACTIVE
      else if v = ''IN_MAINTENANCE'' then Some IN_MAINTENANCE
      else if v = ''DECOMMISSIONED'' then Some DECOMMISSIONED else None)"

definition mock_record :: "env \<Rightarrow> transaction \<Rightarrow> mock_chain \<Rightarrow> mock_chain" where
  "mock_record en tx c =
     (let p = tx_payload tx;
          now = (if date_truthy (tx_timestamp tx) then tx_timestamp tx else iso_now en);
          asset_key = pstr p ''assetId'';
          job_key = pstr p ''jobId'';
          upd_asset = (\<lambda>k f. c\<lparr>mc_assets := on_entry k f (mc_assets c)\<rparr>);
          upd_job = (\<lambda>f. c\<lparr>mc_jobs := on_entry job_key f (mc_jobs c)\<rparr>);
          component = Some (case or_else (pstr p ''componentAssetId'') (pstr p ''componentId'') of
                        None \<Rightarrow> [] | Some v \<Rightarrow> v)
      in case tx_type tx of
        ASSET_MINT \<Rightarrow> mock_mint tx c
      | ASSET_TRANSFER \<Rightarrow>
          (case pstr p ''newOwnerId'' of None \<Rightarrow> c
           | Some ow \<Rightarrow> upd_asset asset_key
               (\<lambda>a. a\<lparr>as_ownerId := ow, as_custodianId := pstr_or p ''newCustodianId'' ow\<rparr>))
      | ASSET_STATE_CHANGE \<Rightarrow>
          (case or_else (pstr p ''newState'') (pstr p ''status'') of None \<Rightarrow> c
           | Some v \<Rightarrow> (case asset_status_of v of None \<Rightarrow> c
               | Some st \<Rightarrow> upd_asset asset_key (\<lambda>a. a\<lparr>as_status := st\<rparr>)))
      | COMPONENT_ATTACH \<Rightarrow>
          upd_asset component (\<lambda>a. a\<lparr>as_parentAssetId := Some (pstr p ''parentAssetId'')\<rparr>)
      | COMPONENT_REMOVE \<Rightarrow> upd_asset component (\<lambda>a. a\<lparr>as_parentAssetId := Some None\<rparr>)
      | JOB_CREATE \<Rightarrow> mock_job_create tx now c
      | JOB_ASSIGN \<Rightarrow>
          upd_job (\<lambda>j. j\<lparr>job_assignedTo := pstr_or p ''technicianId'' (job_assignedTo j),
                         job_status := ASSIGNED\<rparr>)
      | JOB_START \<Rightarrow> upd_job (\<lambda>j. j\<lparr>job_status := IN_PROGRESS\<rparr>)
      | JOB_COMPLETE \<Rightarrow> upd_job (\<lambda>j. j\<lparr>job_status := COMPLETED, job_completedAt := Some now\<rparr>)
      | JOB_APPROVE \<Rightarrow> upd_job (\<lambda>j. j\<lparr>job_status := VERIFIED\<rparr>)
      | JOB_REJECT \<Rightarrow> upd_job (\<lambda>j. j\<lparr>job_status := REJECTED\<rparr>)
      | _ \<Rightarrow> c)"

fun mock_event :: "transaction_type \<Rightarrow> string option" where
  "mock_event VALIDATOR_ADD = Some ''ValidatorAdded''"
| "mock_event VALIDATOR_REMOVE = Some ''ValidatorRemoved''"
| "mock_event VALIDATOR_RESTORE = Some ''ValidatorRestored''"
| "mock_event VALIDATOR_REMOVE_CANCEL = Some ''ValidatorRemovalCancelled''"
| "mock_event _ = None"

definition mock_submit :: "env \<Rightarrow> transaction \<Rightarrow> mock_chain \<Rightarrow> (error + tx_result) \<times> mock_chain" where
  "mock_submit en tx c =
     (let n = mc_txCounter c + 1;
          c1 = c\<lparr>mc_txCounter := n, mc_submitted := mc_submitted c @ [tx]\<rparr>
      in (Inr \<lparr>res_txId = (if tx_txId tx = [] then ''mock-tx-'' @ show_nat n else tx_txId tx),
               res_status = SUCCESS, res_transactionHash = Some (''0xmock'' @ show_nat n),
               res_blockNumber = Some (42 + int n), res_event = mock_event (tx_type tx),
               res_revert = None, res_nftId = None\<rparr>,
          mock_record en tx c1))"

definition mock_status :: chain_status where
  "mock_status = \<lparr>cs_height = 42, cs_healthy = True, cs_finalityLag = 0, cs_lastFinalizedHeight = 42\<rparr>"

definition mock_api :: "mock_chain chain_api" where
  "mock_api = \<lparr>submitTransaction = mock_submit, submitTransactionDetailed = None,
     prepareTransaction = None,
     getIdentity = (\<lambda>i c. Inr (js_get (mc_identities c) i)),
     getWallet = (\<lambda>a c. Inr (js_get (mc_wallets c) a)),
     getAsset = (\<lambda>i c. Inr (js_get (mc_assets c) i)),
     getJob = (\<lambda>i c. Inr (js_get (mc_jobs c) i)),
     getStatus = (\<lambda>c. Inr mock_status)\<rparr>"

lemmas mock_api_simps [simp] = mock_api_def [THEN arg_cong, of submitTransaction, simplified]
  mock_api_def [THEN arg_cong, of submitTransactionDetailed, simplified]
  mock_api_def [THEN arg_cong, of prepareTransaction, simplified]
  mock_api_def [THEN arg_cong, of getIdentity, simplified]
  mock_api_def [THEN arg_cong, of getWallet, simplified]
  mock_api_def [THEN arg_cong, of getAsset, simplified]
  mock_api_def [THEN arg_cong, of getJob, simplified]
  mock_api_def [THEN arg_cong, of getStatus, simplified]

subsection \<open>Committee selection\<close>

datatype validator_status = V_ACTIVE | V_INACTIVE | V_SLASHED

record validator =
  val_validatorId :: string
  val_publicKey :: string
  val_status :: validator_status
  val_joinedAt :: date_str

definition mock_validators :: "date_str \<Rightarrow> validator list" where
  "mock_validators started =
     map (\<lambda>n. \<lparr>val_validatorId = ''val_'' @ show_nat n, val_publicKey = ''0xMockPubKey'' @ show_nat n,
               val_status = V_ACTIVE, val_joinedAt = started\<rparr>) [0, 1, 2, 3]"

definition committee_size :: "nat \<Rightarrow> nat" where
  "committee_size n = max 1 (min n (nat \<lceil>of_nat n * (2 / 100 :: rat)\<rceil>))"

definition mock_committee :: "validator list \<Rightarrow> nat \<Rightarrow> string list" where
  "mock_committee vs height =
     (let active = filter (\<lambda>v. val_status v = V_ACTIVE) vs; n = length active
      in if n = 0 then []
         else map (\<lambda>i. val_validatorId (active ! ((height mod n + i) mod n))) [0..<committee_size n])"

lemma pstr_JStr: "fld p k = JStr v \<Longrightarrow> v \<noteq> [] \<Longrightarrow> pstr p k = Some v"
  by (simp add: pstr_def)

lemma pstr_nonempty: "pstr p k = Some v \<Longrightarrow> v \<noteq> []"
  by (auto simp: pstr_def split: jsval.splits if_splits)

lemma get_on_entry:
  "js_get (on_entry k f m) i = (if k = Some i then map_option f (js_get m i) else js_get m i)"
  by (auto simp: on_entry_def split: option.splits)

end
