(* ===== verification/EvmAdapter.thy ===== *)
theory EvmAdapter
  imports Payloads Chain
begin

text \<open>
  \<^verbatim>\<open>backend/src/blockchain/evm-adapter.ts\<close>: errors of the transport, the wait for a
  receipt and the write path.  The JSON-RPC node and the parts of ethers that the adapter calls
  are arguments: \<open>provider\<close> holds the calls to the node, each a method over the state
  \<open>'n\<close> of the outside world, and \<open>codec\<close> the encoders and decoders.  A foreign
  exception is the record \<open>js_error\<close>; the adapter's own exceptions are values of the type
  \<open>error\<close>.  The \<^verbatim>\<open>details\<close> that the adapter adds to a
  \<^verbatim>\<open>BlockchainError\<close> for the log are not represented: no caller branches on them.
\<close>

section \<open>Exceptions\<close>

text \<open>
  A value thrown by foreign code: its own properties, and the text \<^verbatim>\<open>err.message\<close>
  (\<^verbatim>\<open>String(err)\<close> when it is not an \<^verbatim>\<open>Error\<close>).
\<close>

record js_error =
  je_value :: jsval
  je_text :: string

datatype exn = Foreign js_error | Typed error

text \<open>What the error serializer sees: a foreign exception is a bare error.\<close>

fun to_error :: "exn \<Rightarrow> error" where
  "to_error (Foreign e) = PlainError (je_text e)"
| "to_error (Typed e) = e"

definition catchE :: "('s, 'e, 'a) m \<Rightarrow> ('e \<Rightarrow> ('s, 'f, 'a) m) \<Rightarrow> ('s, 'f, 'a) m" where
  "catchE f h = (\<lambda>s. case f s of (Inl e, s') \<Rightarrow> h e s' | (Inr x, s') \<Rightarrow> (Inr x, s'))"

lemma catchE_ok [run]:
  "catchE f h s = (Inr x, s') \<longleftrightarrow>
     f s = (Inr x, s') \<or> (\<exists>e s1. f s = (Inl e, s1) \<and> h e s1 = (Inr x, s'))"
  by (auto simp: catchE_def split: prod.splits sum.splits)

lemma catchE_err [run]:
  "catchE f h s = (Inl e', s') \<longleftrightarrow> (\<exists>e s1. f s = (Inl e, s1) \<and> h e s1 = (Inl e', s'))"
  by (auto simp: catchE_def split: prod.splits sum.splits)

text \<open>The text \<^verbatim>\<open>/^0x[0-9a-fA-F]*$/\<close>.\<close>

definition is_hex_data :: "string \<Rightarrow> bool" where
  "is_hex_data s \<longleftrightarrow> startsWith s ''0x'' \<and> list_all is_hex (drop 2 s)"

fun first_some :: "'a option list \<Rightarrow> 'a option" where
  "first_some [] = None"
| "first_some (None # xs) = first_some xs"
| "first_some (Some x # xs) = Some x"

definition error_keys :: "string list" where
  "error_keys = [''error'', ''info'', ''cause'', ''revert'']"

definition data_of :: "jsobj \<Rightarrow> string option" where
  "data_of e = (case fld e ''data'' of JStr s \<Rightarrow> if is_hex_data s then Some s else None | _ \<Rightarrow> None)"

text \<open>
  \<open>extractRevertData err depth\<close>.  An array is an object without the properties that are read,
  so it yields nothing; the depth bound makes the search end on an error that is its own cause.
\<close>

function extractRevertData :: "jsval \<Rightarrow> nat \<Rightarrow> string option" where
  "extractRevertData err depth =
     (case err of
        JObj e \<Rightarrow>
          if depth > 6 then None
          else (case data_of e of Some d \<Rightarrow> Some d
                | None \<Rightarrow> first_some (map (\<lambda>k. extractRevertData (fld e k) (Suc depth)) error_keys))
      | _ \<Rightarrow> None)"
  by pat_completeness auto
termination
  by (relation "measure (\<lambda>(err, depth). 7 - depth)") auto

declare extractRevertData.simps [simp del]

definition code_of :: "jsval \<Rightarrow> jsval" where
  "code_of v = (case v of JObj e \<Rightarrow> fld e ''code'' | _ \<Rightarrow> JUndefined)"

definition isCallException :: "js_error \<Rightarrow> bool" where
  "isCallException e \<longleftrightarrow> code_of (je_value e) = JStr ''CALL_EXCEPTION''"

definition first_line :: "string \<Rightarrow> string" where
  "first_line s = takeWhile (\<lambda>c. c \<noteq> CHR 0x0A) s"

text \<open>
  An error that is a \<^verbatim>\<open>BlockchainError\<close> already is kept; the adapter throws no other
  typed error where the function is used.
\<close>

fun classifyError :: "exn \<Rightarrow> string \<Rightarrow> error" where
  "classifyError (Foreign e) context =
     (if code_of (je_value e) = JStr ''TIMEOUT'' then BlockchainError TIMEOUT (context @ '': timed out'')
      else BlockchainError NETWORK (context @ '': '' @ first_line (je_text e)))"
| "classifyError (Typed e) context = e"

section \<open>The node and the library\<close>

record log =
  lg_address :: string
  lg_topics :: "string list"
  lg_data :: string
  lg_index :: nat

record receipt =
  rc_status :: nat
  rc_blockNumber :: int
  rc_logs :: "log list"

record known_tx =
  kt_from :: string
  kt_nonce :: int
  kt_blockNumber :: "int option"

record block_info =
  bi_number :: int
  bi_miner :: string
  bi_transactions :: "string list"
  bi_timestamp :: nat

text \<open>
  \<open>pv_now\<close> and \<open>pv_sleep\<close> are \<^verbatim>\<open>Date.now\<close> and \<^verbatim>\<open>setTimeout\<close>;
  \<open>pv_send key to data nonce gas\<close> signs with a development key and broadcasts.
\<close>

record 'n provider =
  pv_chainId :: "('n, js_error, int) m"
  pv_pendingCount :: "string \<Rightarrow> ('n, js_error, int) m"
  pv_latestCount :: "string \<Rightarrow> ('n, js_error, int) m"
  pv_estimateGas :: "string \<Rightarrow> string \<Rightarrow> string \<Rightarrow> ('n, js_error, string) m"
  pv_call :: "string \<Rightarrow> string \<Rightarrow> string \<Rightarrow> ('n, js_error, string) m"
  pv_broadcast :: "string \<Rightarrow> ('n, js_error, string) m"
  pv_send :: "string \<Rightarrow> string \<Rightarrow> string \<Rightarrow> int \<Rightarrow> string \<Rightarrow> ('n, js_error, string) m"
  pv_receipt :: "string \<Rightarrow> ('n, js_error, receipt option) m"
  pv_blockNumber :: "('n, js_error, int) m"
  pv_block :: "int \<Rightarrow> ('n, js_error, block_info option) m"
  pv_finalized :: "('n, js_error, block_info option) m"
  pv_transaction :: "string \<Rightarrow> ('n, js_error, known_tx option) m"
  pv_now :: "'n \<Rightarrow> int"
  pv_sleep :: "int \<Rightarrow> 'n \<Rightarrow> 'n"

text \<open>The view functions of the contracts that the adapter calls.\<close>

record chain_wallet =
  cw_status :: nat
  cw_registeredAt :: nat
  cw_activatedAt :: nat
  cw_revokedAt :: nat
  cw_revokedReason :: string

record chain_asset =
  ca_assetId :: string
  ca_custodian :: string
  ca_parent :: nat

record chain_job =
  cj_assetNftId :: nat
  cj_createdBy :: string
  cj_technician :: string
  cj_verifier :: string
  cj_status :: nat
  cj_createdAt :: nat
  cj_completedAt :: nat

record chain_audit =
  cx_entityType :: string
  cx_entityId :: string
  cx_action :: string
  cx_actor :: string
  cx_timestamp :: nat

record 'n views =
  vw_nftIdOf :: "string \<Rightarrow> ('n, js_error, nat) m"
  vw_walletsOf :: "string \<Rightarrow> ('n, js_error, string list) m"
  vw_isActiveWallet :: "string \<Rightarrow> ('n, js_error, bool) m"
  vw_rolesOfIdentity :: "string \<Rightarrow> ('n, js_error, nat) m"
  vw_getWallet :: "string \<Rightarrow> ('n, js_error, chain_wallet) m"
  vw_identityOf :: "string \<Rightarrow> ('n, js_error, string) m"
  vw_getAsset :: "nat \<Rightarrow> ('n, js_error, chain_asset) m"
  vw_ownerOfAsset :: "nat \<Rightarrow> ('n, js_error, string) m"
  vw_stateOf :: "nat \<Rightarrow> ('n, js_error, string) m"
  vw_jobExists :: "string \<Rightarrow> ('n, js_error, bool) m"
  vw_getJob :: "string \<Rightarrow> ('n, js_error, chain_job) m"
  vw_getAuditTrail :: "string \<Rightarrow> ('n, js_error, string list) m"
  vw_getAuditRecord :: "string \<Rightarrow> ('n, js_error, chain_audit) m"

text \<open>A decoded value of the ABI: a bigint, an array, or something else by its text.\<close>

datatype abi_value = VBig int | VText string | VArray "abi_value list"

record evm_tx =
  et_from :: "string option"
  et_to :: "string option"
  et_data :: string
  et_chainId :: int
  et_value :: int

text \<open>
  \<open>cd_fromRaw\<close> is \<^verbatim>\<open>EvmTransaction.from\<close> for a transaction that carries a
  signature; \<open>cd_parseError\<close> and \<open>cd_parseLog\<close> are \<open>None\<close> when the
  interface does not know the data or throws.
\<close>

record codec =
  cd_encode :: "contract_name \<Rightarrow> string \<Rightarrow> call_arg list \<Rightarrow> js_error + string"
  cd_fromRaw :: "string \<Rightarrow> evm_tx option"
  cd_errorString :: "string \<Rightarrow> js_error + string"
  cd_parseError :: "contract_name \<Rightarrow> string \<Rightarrow> (string \<times> abi_value list) option"
  cd_parseLog :: "contract_name \<Rightarrow> log \<Rightarrow> (string \<times> (string \<times> abi_value) list) option"
  cd_walletAddress :: "string \<Rightarrow> string"

record deployment =
  dp_network :: string
  dp_chainId :: int
  dp_contracts :: "contract_name \<Rightarrow> string"

record evm_config =
  cf_rpcUrl :: string
  cf_deployment :: deployment
  cf_confirmations :: int
  cf_txTimeoutMs :: int
  cf_pollingIntervalMs :: int
  cf_devSignerKeys :: "string list"

text \<open>The adapter: what it is built from, and the state that outlives a request.\<close>

record 'n adapter =
  ad_ethers :: ethers
  ad_codec :: codec
  ad_provider :: "'n provider"
  ad_views :: "'n views"
  ad_config :: evm_config

record 'n evm =
  ev_node :: 'n
  ev_networkChecked :: bool

type_synonym ('n, 'a) adm = "('n evm, exn, 'a) m"

definition foreign :: "('n, js_error, 'a) m \<Rightarrow> ('n, exn, 'a) m" where
  "foreign f = catchE f (\<lambda>e. throw (Foreign e))"

text \<open>A method of the outside world, run from within the adapter.\<close>

definition world :: "('n, exn, 'a) m \<Rightarrow> ('n, 'a) adm" where
  "world f = (\<lambda>s. case f (ev_node s) of (r, n) \<Rightarrow> (r, s\<lparr>ev_node := n\<rparr>))"

definition rpc :: "('n, js_error, 'a) m \<Rightarrow> ('n, 'a) adm" where
  "rpc f = world (foreign f)"

abbreviation fail :: "chain_kind \<Rightarrow> string \<Rightarrow> ('n, 'a) adm" where
  "fail k msg \<equiv> throw (Typed (BlockchainError k msg))"

section \<open>Waiting for a receipt\<close>

text \<open>
  The polling loop.  \<open>n\<close> bounds the number of rounds; the caller passes one round per
  millisecond of the timeout and two more, which is never reached when the clock moves on
  during a sleep (theorem \<open>wait_returns\<close>).
\<close>

fun wait_loop ::
  "'n provider \<Rightarrow> string \<Rightarrow> int \<Rightarrow> int \<Rightarrow> int \<Rightarrow> nat \<Rightarrow> ('n, exn, receipt option) m" where
  "wait_loop pv h confs deadline interval 0 = throw (Typed OutOfFuel)"
| "wait_loop pv h confs deadline interval (Suc n) =
     (let next =
        bindE (reads (pv_now pv)) (\<lambda>t.
          if t \<ge> deadline then ret None
          else bindE (reads (pv_now pv)) (\<lambda>t'.
            thenE (modifyS (pv_sleep pv (min interval (max 1 (deadline - t')))))
              (wait_loop pv h confs deadline interval n)))
      in bindE (foreign (pv_receipt pv h)) (\<lambda>r.
           case r of None \<Rightarrow> next
           | Some rc \<Rightarrow>
               if confs \<le> 1 then ret (Some rc)
               else bindE (foreign (pv_blockNumber pv)) (\<lambda>head.
                 if head - rc_blockNumber rc + 1 \<ge> confs then ret (Some rc) else next)))"

definition wait_rounds :: "int \<Rightarrow> nat" where
  "wait_rounds timeoutMs = nat timeoutMs + 2"

definition waitForReceipt ::
  "'n provider \<Rightarrow> string \<Rightarrow> int \<Rightarrow> int \<Rightarrow> int \<Rightarrow> ('n, exn, receipt option) m" where
  "waitForReceipt pv h confs timeoutMs interval =
     bindE (reads (\<lambda>w. pv_now pv w + timeoutMs)) (\<lambda>deadline.
       wait_loop pv h confs deadline interval (wait_rounds timeoutMs))"


section \<open>Decoding\<close>

fun join :: "string \<Rightarrow> string list \<Rightarrow> string" where
  "join sep [] = []"
| "join sep [x] = x"
| "join sep (x # y # ys) = x @ sep @ join sep (y # ys)"

text \<open>\<open>plain_text v\<close> is \<^verbatim>\<open>String(plain(v))\<close>.\<close>

fun plain_text :: "abi_value \<Rightarrow> string" where
  "plain_text (VBig i) = show_int i"
| "plain_text (VText s) = s"
| "plain_text (VArray vs) = join '','' (map plain_text vs)"

datatype plain_value = PText string | PTexts "string list"

fun plain :: "abi_value \<Rightarrow> plain_value" where
  "plain (VArray vs) = PTexts (map plain_text vs)"
| "plain (VBig i) = PText (show_int i)"
| "plain (VText s) = PText s"

definition decodeRevert :: "codec \<Rightarrow> string \<Rightarrow> js_error + decoded_revert" where
  "decodeRevert cd d =
     (if startsWith d ''0x08c379a0'' then
        (case cd_errorString cd d of Inl e \<Rightarrow> Inl e
         | Inr reason \<Rightarrow> Inr (DecodedRevert ''Error'' [reason] reason))
      else (case first_some (map (\<lambda>c. cd_parseError cd c d) CONTRACT_NAMES) of
          Some (name, vs) \<Rightarrow>
            let args = map plain_text vs
            in Inr (DecodedRevert name args (name @ ''('' @ join '', '' args @ '')''))
        | None \<Rightarrow>
            Inr (DecodedRevert ''UnknownRevert'' (if d = ''0x'' then [] else [d])
                  (''Reverted'' @ (if d = ''0x'' then [] else '' with '' @ d)))))"

definition decodeRevertFrom :: "codec \<Rightarrow> exn \<Rightarrow> js_error + decoded_revert option" where
  "decodeRevertFrom cd err =
     (case err of Typed _ \<Rightarrow> Inr None
      | Foreign e \<Rightarrow>
          (case extractRevertData (je_value e) 0 of
             None \<Rightarrow> if isCallException e then map_sum id Some (decodeRevert cd ''0x'') else Inr None
           | Some d \<Rightarrow> map_sum id Some (decodeRevert cd d)))"

definition decode :: "codec \<Rightarrow> exn \<Rightarrow> ('n, decoded_revert option) adm" where
  "decode cd err = query (\<lambda>_. map_sum Foreign id (decodeRevertFrom cd err))"

record chain_event =
  ce_contract :: contract_name
  ce_name :: string
  ce_args :: "(string \<times> plain_value) list"
  ce_logIndex :: nat

text \<open>The contracts configured at an address, in the order of \<open>CONTRACT_NAMES\<close>.\<close>

definition byAddress :: "evm_config \<Rightarrow> string \<Rightarrow> contract_name list" where
  "byAddress cf key =
     filter (\<lambda>c. toLowerCase (dp_contracts (cf_deployment cf) c) = key) CONTRACT_NAMES"

definition parse_log :: "codec \<Rightarrow> evm_config \<Rightarrow> log \<Rightarrow> chain_event option" where
  "parse_log cd cf lg =
     first_some (map (\<lambda>c. map_option (\<lambda>(name, vs).
         \<lparr>ce_contract = c, ce_name = name, ce_args = map (\<lambda>(k, v). (k, plain v)) vs,
          ce_logIndex = lg_index lg\<rparr>) (cd_parseLog cd c lg))
       (byAddress cf (toLowerCase (lg_address lg))))"

definition parseEvents :: "codec \<Rightarrow> evm_config \<Rightarrow> log list \<Rightarrow> chain_event list" where
  "parseEvents cd cf logs = List.map_filter (parse_log cd cf) logs"

section \<open>Preparing a call\<close>

definition read :: "'n adapter \<Rightarrow> ('n, js_error, 'a) m \<Rightarrow> ('n, 'a) adm" where
  "read ad f =
     catchE (rpc f) (\<lambda>err.
       if (case err of Foreign e \<Rightarrow> isCallException e | Typed _ \<Rightarrow> False) then
         bindE (decode (ad_codec ad) err) (\<lambda>d.
           fail CHAIN_NOT_FOUND (''On-chain read failed: '' @
             (case d of Some (DecodedRevert _ _ msg) \<Rightarrow> msg | None \<Rightarrow> ''reverted'')))
       else throw (Typed (classifyError err ''Blockchain read failed'')))"

definition ensureNetwork :: "'n adapter \<Rightarrow> ('n, unit) adm" where
  "ensureNetwork ad =
     bindE (reads ev_networkChecked) (\<lambda>checked.
       if checked then ret ()
       else
         bindE (catchE (rpc (pv_chainId (ad_provider ad)))
                  (\<lambda>err. throw (Typed (classifyError err ''Cannot reach blockchain RPC'')))) (\<lambda>chainId.
           let dp = cf_deployment (ad_config ad) in
           if chainId \<noteq> dp_chainId dp then
             fail CONFIG (''RPC chainId '' @ show_int chainId @ '' does not match deployment '' @
               [CHR 0x22] @ dp_network dp @ [CHR 0x22] @ '' (chainId '' @ show_int (dp_chainId dp) @ '')'')
           else modifyS (ev_networkChecked_update (\<lambda>_. True))))"

definition actorWallet :: "'n adapter \<Rightarrow> transaction \<Rightarrow> ('n, string) adm" where
  "actorWallet ad tx =
     (if isAddress (ad_ethers ad) (tx_actorWallet tx)
      then ret (getAddress (ad_ethers ad) (tx_actorWallet tx))
      else fail INVALID_PAYLOAD (show_tx (tx_type tx) @ '': actorWallet must be an EVM address''))"

text \<open>
  The lookups of a plan.  The newest wallet of an identity comes last in the list the chain
  returns, and the search runs from the end.
\<close>

fun newest_wallet :: "'n adapter \<Rightarrow> bool \<Rightarrow> string list \<Rightarrow> ('n, string option) adm" where
  "newest_wallet ad requireActive [] = ret None"
| "newest_wallet ad requireActive (w # ws) =
     (if \<not> requireActive then ret (Some (getAddress (ad_ethers ad) w))
      else bindE (read ad (vw_isActiveWallet (ad_views ad) w)) (\<lambda>active.
        if active then ret (Some (getAddress (ad_ethers ad) w)) else newest_wallet ad requireActive ws))"

definition as_error :: "('n, 'a) adm \<Rightarrow> ('n evm, error, 'a) m" where
  "as_error f = catchE f (\<lambda>e. throw (to_error e))"

definition adapter_lookups :: "'n adapter \<Rightarrow> 'n evm lookups" where
  "adapter_lookups ad =
     \<lparr>nftIdOf = (\<lambda>assetId. as_error (read ad (vw_nftIdOf (ad_views ad) assetId))),
      walletOfIdentity = (\<lambda>did requireActive. as_error (
        bindE (read ad (vw_walletsOf (ad_views ad) did)) (\<lambda>ws.
          newest_wallet ad requireActive (rev ws))))\<rparr>"

definition plan :: "'n adapter \<Rightarrow> transaction \<Rightarrow> ('n, call_plan) adm" where
  "plan ad tx = catchE (buildCallPlan (ad_ethers ad) (adapter_lookups ad) tx) (\<lambda>e. throw (Typed e))"

record prepared_tx =
  pt_from :: string
  pt_to :: string
  pt_data :: string
  pt_chainId :: int
  pt_value :: string
  pt_contract :: contract_name
  pt_method :: string
  pt_nonce :: "int option"
  pt_gasLimit :: "string option"

definition buildPreparedTransaction :: "'n adapter \<Rightarrow> transaction \<Rightarrow> bool \<Rightarrow> ('n, prepared_tx) adm" where
  "buildPreparedTransaction ad tx estimateGas =
     bindE (actorWallet ad tx) (\<lambda>from.
     thenE (ensureNetwork ad) (
     bindE (plan ad tx) (\<lambda>pl.
     let dp = cf_deployment (ad_config ad); to = dp_contracts dp (cp_contract pl) in
     bindE (query (\<lambda>_. map_sum Foreign id (cd_encode (ad_codec ad) (cp_contract pl) (cp_method pl) (cp_args pl)))) (\<lambda>data.
     let prepared = \<lparr>pt_from = from, pt_to = to, pt_data = data, pt_chainId = dp_chainId dp, pt_value = ''0'',
           pt_contract = cp_contract pl, pt_method = cp_method pl, pt_nonce = None, pt_gasLimit = None\<rparr> in
     if estimateGas then
       bindE (rpc (pv_pendingCount (ad_provider ad) from)) (\<lambda>nonce.
       bindE (rpc (pv_estimateGas (ad_provider ad) from to data)) (\<lambda>gas.
         ret (prepared\<lparr>pt_nonce := Some nonce, pt_gasLimit := Some gas\<rparr>)))
     else ret prepared))))"

definition evm_prepareTransaction :: "'n adapter \<Rightarrow> transaction \<Rightarrow> ('n, prepared_tx) adm" where
  "evm_prepareTransaction ad tx = buildPreparedTransaction ad tx True"

section \<open>Signatures\<close>

text \<open>The text \<^verbatim>\<open>/^0x[0-9a-fA-F]+$/i\<close>: the flag also admits the prefix \<^verbatim>\<open>0X\<close>.\<close>

definition is_raw_tx :: "string \<Rightarrow> bool" where
  "is_raw_tx s \<longleftrightarrow> startsWith (toLowerCase s) ''0x'' \<and> drop 2 s \<noteq> [] \<and> list_all is_hex (drop 2 s)"

definition parseSignedTransaction :: "codec \<Rightarrow> string \<Rightarrow> evm_tx option" where
  "parseSignedTransaction cd sig = (if is_raw_tx (trim sig) then cd_fromRaw cd (trim sig) else None)"

fun show_contract :: "contract_name \<Rightarrow> string" where
  "show_contract IdentityRegistry = ''IdentityRegistry''"
| "show_contract RoleRegistry = ''RoleRegistry''"
| "show_contract AssetRegistry = ''AssetRegistry''"
| "show_contract JobManager = ''JobManager''"
| "show_contract AuditRegistry = ''AuditRegistry''"
| "show_contract ValidatorRegistry = ''ValidatorRegistry''"

definition same_text :: "string option \<Rightarrow> string \<Rightarrow> bool" where
  "same_text x y \<longleftrightarrow> (case x of None \<Rightarrow> False | Some v \<Rightarrow> v \<noteq> [] \<and> toLowerCase v = toLowerCase y)"

definition signature_problems :: "evm_tx \<Rightarrow> prepared_tx \<Rightarrow> string list" where
  "signature_problems raw p =
     (if same_text (et_from raw) (pt_from p) then [] else [''signer is not actorWallet'']) @
     (if same_text (et_to raw) (pt_to p) then [] else [''target is not '' @ show_contract (pt_contract p)]) @
     (if toLowerCase (et_data raw) = toLowerCase (pt_data p) then []
      else [''calldata does not match '' @ pt_method p @ ''(payload)'']) @
     (if et_chainId raw = pt_chainId p then [] else [''wrong chainId'']) @
     (if et_value raw = 0 then [] else [''value must be 0''])"

definition verifySignedTransaction :: "evm_tx \<Rightarrow> prepared_tx \<Rightarrow> ('n, unit) adm" where
  "verifySignedTransaction raw p =
     (let problems = signature_problems raw p in
      throwIf (problems \<noteq> [])
        (Typed (BlockchainError SIGNER (''Signed transaction rejected: '' @ join ''; '' problems))))"

text \<open>The development signers by lower-case address; a later key replaces an earlier one.\<close>

definition signers :: "'n adapter \<Rightarrow> (string, string) jsmap" where
  "signers ad =
     fold (\<lambda>key. js_set (toLowerCase (cd_walletAddress (ad_codec ad) key)) key)
       (cf_devSignerKeys (ad_config ad)) []"

definition signerFor :: "'n adapter \<Rightarrow> string \<Rightarrow> ('n, string) adm" where
  "signerFor ad address =
     required (js_get (signers ad) (toLowerCase address))
       (Typed (BlockchainError SIGNER (''No signature for '' @ address @
          '': submit a device-signed raw transaction in tx.signature (see prepareTransaction)'')))"

section \<open>Submission\<close>

definition simulate :: "'n adapter \<Rightarrow> prepared_tx \<Rightarrow> ('n, decoded_revert option) adm" where
  "simulate ad p =
     catchE (bindE (rpc (pv_call (ad_provider ad) (pt_from p) (pt_to p) (pt_data p))) (\<lambda>_. ret None))
       (\<lambda>err. bindE (decode (ad_codec ad) err) (\<lambda>d.
          case d of Some r \<Rightarrow> ret (Some r)
          | None \<Rightarrow> throw (Typed (classifyError err (''Simulating '' @ pt_method p @ '' failed'')))))"

text \<open>
  One send of the development path, once its turn in the wallet's queue has come; the queue
  itself is the subject of the theory \<open>SendQueue\<close>.
\<close>

definition sendAs :: "'n adapter \<Rightarrow> string \<Rightarrow> prepared_tx \<Rightarrow> ('n, string) adm" where
  "sendAs ad key p =
     (let pv = ad_provider ad; address = cd_walletAddress (ad_codec ad) key in
      bindE (rpc (pv_pendingCount pv address)) (\<lambda>nonce.
      bindE (case pt_gasLimit p of Some g \<Rightarrow> ret g
             | None \<Rightarrow> rpc (pv_estimateGas pv address (pt_to p) (pt_data p))) (\<lambda>gas.
        rpc (pv_send pv key (pt_to p) (pt_data p) nonce gas))))"

record submit_result =
  sr_txId :: string
  sr_status :: tx_status
  sr_hash :: "string option"
  sr_blockNumber :: "int option"
  sr_events :: "chain_event list"
  sr_revert :: "decoded_revert option"
  sr_nftId :: "string option"
  sr_auditTxIds :: "string list"

definition rejected :: "transaction \<Rightarrow> decoded_revert \<Rightarrow> submit_result" where
  "rejected tx r = \<lparr>sr_txId = tx_txId tx, sr_status = TX_REJECTED, sr_hash = None, sr_blockNumber = None,
     sr_events = [], sr_revert = Some r, sr_nftId = None, sr_auditTxIds = []\<rparr>"

definition diagnoseMissingReceipt :: "'n adapter \<Rightarrow> string \<Rightarrow> ('n, string) adm" where
  "diagnoseMissingReceipt ad h =
     (let pv = ad_provider ad in
      bindE (rpc (pv_transaction pv h)) (\<lambda>t.
        case t of None \<Rightarrow> ret ''the node does not know this transaction (dropped or never broadcast)''
        | Some k \<Rightarrow>
            (case kt_blockNumber k of
               Some b \<Rightarrow> ret (''mined in block '' @ show_int b @ '' but the receipt was not returned in time'')
             | None \<Rightarrow>
                 bindE (rpc (pv_latestCount pv (kt_from k))) (\<lambda>next.
                   if kt_nonce k > next
                   then ret (''still pending with nonce '' @ show_int (kt_nonce k) @ '', but '' @ kt_from k @
                          '' has only mined up to nonce '' @ show_int (next - 1) @
                          '' (nonce gap: an earlier transaction is missing)'')
                   else ret (''still pending with nonce '' @ show_int (kt_nonce k) @
                          '' (not yet included in a block; is the chain producing blocks?)'')))))"

text \<open>\<^verbatim>\<open>String(args[k])\<close> of an event; an absent argument is \<^verbatim>\<open>undefined\<close>.\<close>

definition arg_text :: "chain_event \<Rightarrow> string \<Rightarrow> string" where
  "arg_text e k = (case map_of (ce_args e) k of None \<Rightarrow> ''undefined'' | Some (PText s) \<Rightarrow> s
     | Some (PTexts ss) \<Rightarrow> join '','' ss)"

definition settled :: "'n adapter \<Rightarrow> transaction \<Rightarrow> string \<Rightarrow> receipt \<Rightarrow> submit_result" where
  "settled ad tx h rc =
     (if rc_status rc \<noteq> 1 then
        (rejected tx (DecodedRevert ''ExecutionReverted'' []
            ''Transaction reverted on-chain after passing simulation''))
          \<lparr>sr_hash := Some h, sr_blockNumber := Some (rc_blockNumber rc)\<rparr>
      else
        let events = parseEvents (ad_codec ad) (ad_config ad) (rc_logs rc) in
        \<lparr>sr_txId = tx_txId tx, sr_status = SUCCESS, sr_hash = Some h, sr_blockNumber = Some (rc_blockNumber rc),
         sr_events = events, sr_revert = None,
         sr_nftId = map_option (\<lambda>e. arg_text e ''nftId'') (find (\<lambda>e. ce_name e = ''AssetMinted'') events),
         sr_auditTxIds = map (\<lambda>e. arg_text e ''txId'') (filter (\<lambda>e. ce_name e = ''AuditRecorded'') events)\<rparr>)"

definition awaitResult :: "'n adapter \<Rightarrow> transaction \<Rightarrow> string \<Rightarrow> ('n, submit_result) adm" where
  "awaitResult ad tx h =
     (let cf = ad_config ad in
      bindE (catchE (world (waitForReceipt (ad_provider ad) h (cf_confirmations cf) (cf_txTimeoutMs cf)
                              (cf_pollingIntervalMs cf)))
               (\<lambda>err. throw (Typed (classifyError err
                  (''Waiting for '' @ show_tx (tx_type tx) @ '' ('' @ h @ '')''))))) (\<lambda>r.
        case r of
          Some rc \<Rightarrow> ret (settled ad tx h rc)
        | None \<Rightarrow>
            bindE (catchE (diagnoseMissingReceipt ad h) (\<lambda>_. ret ''could not query the node for details'')) (\<lambda>why.
              fail TIMEOUT (''No receipt for '' @ show_tx (tx_type tx) @ '' ('' @ h @ '') within '' @
                show_int (cf_txTimeoutMs cf) @ ''ms: '' @ why))))"

definition broadcast ::
  "'n adapter \<Rightarrow> transaction \<Rightarrow> evm_tx option \<Rightarrow> string \<Rightarrow> prepared_tx \<Rightarrow> ('n, string) adm" where
  "broadcast ad tx raw signer p =
     (case raw of Some _ \<Rightarrow> rpc (pv_broadcast (ad_provider ad) (trim (tx_signature tx)))
      | None \<Rightarrow> sendAs ad signer p)"

definition evm_submitDetailed :: "'n adapter \<Rightarrow> transaction \<Rightarrow> ('n, submit_result) adm" where
  "evm_submitDetailed ad tx =
     bindE (buildPreparedTransaction ad tx False) (\<lambda>p.
     let dev = (tx_signature tx = ''development'');
         raw = (if dev then None else parseSignedTransaction (ad_codec ad) (tx_signature tx)) in
     thenE (throwIf (\<not> dev \<and> raw = None)
              (Typed (BlockchainError SIGNER ''Invalid device-signed raw transaction in tx.signature''))) (
     thenE (case raw of Some r \<Rightarrow> verifySignedTransaction r p | None \<Rightarrow> ret ()) (
     bindE (case raw of Some _ \<Rightarrow> ret [] | None \<Rightarrow> signerFor ad (pt_from p)) (\<lambda>signer.
     bindE (simulate ad p) (\<lambda>revert.
     case revert of Some r \<Rightarrow> ret (rejected tx r)
     | None \<Rightarrow>
       bindE (catchE (bindE (broadcast ad tx raw signer p) (\<lambda>h. ret (Inl h)))
                (\<lambda>err. bindE (decode (ad_codec ad) err) (\<lambda>d.
                   case d of Some r \<Rightarrow> ret (Inr (rejected tx r))
                   | None \<Rightarrow> throw (Typed (classifyError err
                       (show_tx (tx_type tx) @ '' submission failed'')))))) (\<lambda>out.
       case out of Inl h \<Rightarrow> awaitResult ad tx h | Inr r \<Rightarrow> ret r))))))"

definition evm_submitTransaction :: "'n adapter \<Rightarrow> transaction \<Rightarrow> ('n, tx_result) adm" where
  "evm_submitTransaction ad tx =
     bindE (evm_submitDetailed ad tx) (\<lambda>r.
       ret \<lparr>res_txId = sr_txId r, res_status = sr_status r, res_transactionHash = sr_hash r,
            res_blockNumber = sr_blockNumber r,
            res_event = map_option ce_name (find (\<lambda>e. ce_contract e = ValidatorRegistry \<and>
                          startsWith (ce_name e) ''Validator'') (sr_events r)),
            res_revert = sr_revert r, res_nftId = None\<rparr>)"

end
