(* ===== verification/EvmSubmission.thy ===== *)
theory EvmSubmission
  imports EvmAdapter "HOL-Library.Sublist"
begin

text \<open>
  Properties of the write path of the EVM adapter: the search for revert data, the wait for a
  receipt, the verification of a device-signed transaction, rejections as results and the
  decoding of events.
\<close>

section \<open>Revert data\<close>

text \<open>The value a path of property names leads to.\<close>

fun follow :: "jsval \<Rightarrow> string list \<Rightarrow> jsval" where
  "follow v [] = v"
| "follow v (k # ks) = (case v of JObj e \<Rightarrow> follow (fld e k) ks | _ \<Rightarrow> JUndefined)"

definition has_data :: "jsval \<Rightarrow> string \<Rightarrow> bool" where
  "has_data v d \<longleftrightarrow> (case v of JObj e \<Rightarrow> data_of e = Some d | _ \<Rightarrow> False)"

lemma first_some_Some: "first_some xs = Some x \<Longrightarrow> Some x \<in> set xs"
  by (induction xs rule: first_some.induct) auto

lemma first_some_None: "first_some xs = None \<longleftrightarrow> (\<forall>x \<in> set xs. x = None)"
  by (induction xs rule: first_some.induct) auto

lemma extract_sound:
  "extractRevertData v n = Some d \<Longrightarrow>
     \<exists>path. length path + n \<le> 6 \<and> set path \<subseteq> set error_keys \<and> has_data (follow v path) d"
proof (induction v n rule: extractRevertData.induct)
  case (1 v n)
  from "1.prems" obtain e where v: "v = JObj e" and n: "n \<le> 6"
    by (subst (asm) extractRevertData.simps) (auto split: jsval.splits if_splits)
  show ?case
  proof (cases "data_of e")
    case (Some d')
    with "1.prems" v n have "has_data (follow v []) d"
      by (subst (asm) extractRevertData.simps) (simp add: has_data_def)
    with n show ?thesis by (intro exI [of _ "[]"]) simp
  next
    case None
    with "1.prems" v n obtain k where k: "k \<in> set error_keys"
        and sub: "extractRevertData (fld e k) (Suc n) = Some d"
      by (subst (asm) extractRevertData.simps) (auto dest!: first_some_Some)
    from "1.IH" [OF v _ None k sub] n obtain path where
      "length path + Suc n \<le> 6" "set path \<subseteq> set error_keys" "has_data (follow (fld e k) path) d"
      by auto
    with v k show ?thesis by (intro exI [of _ "k # path"]) simp
  qed
qed

lemma extract_complete:
  "length path + n \<le> 6 \<Longrightarrow> set path \<subseteq> set error_keys \<Longrightarrow> has_data (follow v path) d \<Longrightarrow>
     extractRevertData v n \<noteq> None"
proof (induction path arbitrary: v n)
  case Nil
  then show ?case
    by (subst extractRevertData.simps) (auto simp: has_data_def split: jsval.splits)
next
  case (Cons k path)
  then obtain e where v: "v = JObj e"
    by (cases v) (auto simp: has_data_def)
  from Cons have "extractRevertData (fld e k) (Suc n) \<noteq> None" by (simp add: v)
  then have "first_some (map (\<lambda>k. extractRevertData (fld e k) (Suc n)) error_keys) \<noteq> None"
    using Cons.prems(2) unfolding first_some_None by auto
  with Cons.prems v show ?case
    by (subst extractRevertData.simps) (simp split: option.splits)
qed

text \<open>
  The search for revert data in a chain of errors always ends, and finds data exactly when some
  path of at most six of the properties \<^verbatim>\<open>error\<close>, \<^verbatim>\<open>info\<close>,
  \<^verbatim>\<open>cause\<close> and \<^verbatim>\<open>revert\<close> leads to an object whose \<^verbatim>\<open>data\<close> is
  hexadecimal; what it returns is the data at the end of such a path.
\<close>

theorem revert_data_search:
  "(extractRevertData err 0 \<noteq> None) =
      (\<exists>path d. length path \<le> 6 \<and> set path \<subseteq> set error_keys \<and> has_data (follow err path) d)
   \<and> extractRevertData err 0 \<in> insert None (Some ` {d. is_hex_data d \<and>
        (\<exists>path. length path \<le> 6 \<and> set path \<subseteq> set error_keys \<and> has_data (follow err path) d)})"
proof -
  have hex: "has_data v d \<Longrightarrow> is_hex_data d" for v d
    by (auto simp: has_data_def data_of_def split: jsval.splits if_splits)
  show ?thesis
  proof (cases "extractRevertData err 0")
    case None
    with extract_complete [of _ 0 err] show ?thesis by auto
  next
    case (Some d)
    from extract_sound [OF this] hex show ?thesis by (auto simp: Some)
  qed
qed

section \<open>Waiting for a receipt\<close>

text \<open>
  What the code relies on of the runtime: a sleep lasts at least as long as asked, and the clock
  does not run backwards during a call to the node.
\<close>

definition clock_ok :: "'n provider \<Rightarrow> bool" where
  "clock_ok pv \<longleftrightarrow>
     (\<forall>w d. pv_now pv w + d \<le> pv_now pv (pv_sleep pv d w)) \<and>
     (\<forall>w h. pv_now pv w \<le> pv_now pv (snd (pv_receipt pv h w))) \<and>
     (\<forall>w. pv_now pv w \<le> pv_now pv (snd (pv_blockNumber pv w)))"

lemma foreign_ok [run]: "foreign f w = (Inr x, w') \<longleftrightarrow> f w = (Inr x, w')"
  by (auto simp: foreign_def run)

lemma foreign_err [run]: "foreign f w = (Inl x, w') \<longleftrightarrow> (\<exists>e. x = Foreign e \<and> f w = (Inl e, w'))"
  by (auto simp: foreign_def run)

text \<open>One round: it ends the wait, or it sleeps and the next round begins later.\<close>

definition confirmed :: "'n provider \<Rightarrow> string \<Rightarrow> int \<Rightarrow> receipt \<Rightarrow> bool" where
  "confirmed pv h confs rc \<longleftrightarrow>
     (\<exists>w w1. pv_receipt pv h w = (Inr (Some rc), w1) \<and>
       (confs \<le> 1 \<or> (\<exists>head w2. pv_blockNumber pv w1 = (Inr head, w2) \<and>
          confs \<le> head - rc_blockNumber rc + 1)))"

lemma sleep_round:
  fixes pv :: "'n provider" and k :: "('n, exn, receipt option) m"
  assumes "clock_ok pv" "1 \<le> interval" "t0 \<le> pv_now pv v"
    and "bindE (reads (pv_now pv)) (\<lambda>t.
          if t \<ge> deadline then ret None
          else bindE (reads (pv_now pv)) (\<lambda>t'.
            thenE (modifyS (pv_sleep pv (min interval (max 1 (deadline - t'))))) k)) v = (r, w')"
  shows "r = Inr None \<and> deadline \<le> pv_now pv w' \<or>
     (\<exists>w1. t0 + 1 \<le> pv_now pv w1 \<and> t0 < deadline \<and> k w1 = (r, w'))"
proof (cases "deadline \<le> pv_now pv v")
  case True
  with assms(4) show ?thesis by (auto simp: bindE_def reads_def ret_def)
next
  case False
  let ?d = "min interval (max 1 (deadline - pv_now pv v))"
  have "k (pv_sleep pv ?d v) = (r, w')"
    using assms(4) False by (simp add: bindE_def thenE_def reads_def modifyS_def)
  moreover have "pv_now pv v + ?d \<le> pv_now pv (pv_sleep pv ?d v)"
    using assms(1) unfolding clock_ok_def by blast
  ultimately show ?thesis using False assms(2,3)
    by (intro disjI2 exI [of _ "pv_sleep pv ?d v"]) linarith
qed

lemma wait_round:
  assumes "clock_ok pv" "1 \<le> interval"
    and "wait_loop pv h confs deadline interval (Suc n) w = (r, w')"
  shows "(\<exists>e. r = Inl (Foreign e)) \<or> (\<exists>rc. r = Inr (Some rc) \<and> confirmed pv h confs rc) \<or>
     r = Inr None \<and> deadline \<le> pv_now pv w' \<or>
     (\<exists>w1. pv_now pv w + 1 \<le> pv_now pv w1 \<and> pv_now pv w < deadline \<and>
        wait_loop pv h confs deadline interval n w1 = (r, w'))"
proof -
  obtain r1 w1 where rcpt: "pv_receipt pv h w = (r1, w1)" by fastforce
  obtain r2 w2 where head: "pv_blockNumber pv w1 = (r2, w2)" by fastforce
  have t1: "pv_now pv w \<le> pv_now pv w1"
    using assms(1) rcpt unfolding clock_ok_def by (metis snd_conv)
  have t2: "pv_now pv w \<le> pv_now pv w2"
    using assms(1) head t1 unfolding clock_ok_def by (metis order_trans snd_conv)
  note step = assms(3) [unfolded wait_loop.simps Let_def]
  note later = sleep_round [OF assms(1,2), where k = "wait_loop pv h confs deadline interval n"]
  note forward = foreign_def catchE_def bindE_Inr bindE_Inl throw_def ret_def
  consider (err) e where "r1 = Inl e" | (none) "r1 = Inr None"
    | (early) rc where "r1 = Inr (Some rc)" "confs \<le> 1"
    | (lost) rc e where "r1 = Inr (Some rc)" "\<not> confs \<le> 1" "r2 = Inl e"
    | (deep) rc hd where "r1 = Inr (Some rc)" "\<not> confs \<le> 1" "r2 = Inr hd" "confs \<le> hd - rc_blockNumber rc + 1"
    | (shallow) rc hd where "r1 = Inr (Some rc)" "\<not> confs \<le> 1" "r2 = Inr hd" "\<not> confs \<le> hd - rc_blockNumber rc + 1"
    by (metis option.exhaust sum.exhaust)
  then show ?thesis
  proof cases
    case none
    with step rcpt later [OF t1] show ?thesis by (auto simp: forward)
  next
    case early
    with rcpt have "confirmed pv h confs rc" unfolding confirmed_def by blast
    with early step rcpt show ?thesis by (auto simp: forward)
  next
    case deep
    with rcpt head have "confirmed pv h confs rc" unfolding confirmed_def by blast
    with deep step rcpt head show ?thesis by (auto simp: forward)
  next
    case shallow
    with step rcpt head later [OF t2] show ?thesis by (auto simp: forward)
  qed (use step rcpt head in \<open>auto simp: forward\<close>)
qed

lemma wait_loop_returns:
  assumes "clock_ok pv" "1 \<le> interval" "deadline - pv_now pv w \<le> int n"
    and "wait_loop pv h confs deadline interval (Suc n) w = (r, w')"
  shows "(\<exists>e. r = Inl (Foreign e)) \<or> (\<exists>rc. r = Inr (Some rc) \<and> confirmed pv h confs rc) \<or>
     r = Inr None \<and> deadline \<le> pv_now pv w'"
  using assms(3,4)
proof (induction n arbitrary: w)
  case 0
  with wait_round [OF assms(1,2) 0(2)] show ?case by fastforce
next
  case (Suc n)
  from wait_round [OF assms(1,2) Suc.prems(2)] show ?case
  proof (elim disjE exE conjE)
    fix w1
    assume "pv_now pv w + 1 \<le> pv_now pv w1"
      and loop: "wait_loop pv h confs deadline interval (Suc n) w1 = (r, w')"
    with Suc.prems(1) have "deadline - pv_now pv w1 \<le> int n" by simp
    from Suc.IH [OF this loop] show ?thesis .
  qed auto
qed


lemma wait_end:
  assumes "clock_ok pv" "1 \<le> interval" "waitForReceipt pv h confs timeoutMs interval w = (r, w')"
  shows "(\<exists>e. r = Inl (Foreign e)) \<or> (\<exists>rc. r = Inr (Some rc) \<and> confirmed pv h confs rc) \<or>
     r = Inr None \<and> pv_now pv w + timeoutMs \<le> pv_now pv w'"
proof -
  let ?d = "pv_now pv w + timeoutMs"
  have "wait_loop pv h confs ?d interval (Suc (nat timeoutMs + 1)) w = (r, w')"
    using assms(3) by (simp add: waitForReceipt_def wait_rounds_def bindE_def reads_def)
  moreover have "?d - pv_now pv w \<le> int (nat timeoutMs + 1)" by simp
  ultimately show ?thesis using wait_loop_returns [OF assms(1,2)] by blast
qed

text \<open>A world in which the receipt appears after some time, for the witnesses.\<close>

definition demo_receipt :: receipt where
  "demo_receipt = \<lparr>rc_status = 1, rc_blockNumber = 5, rc_logs = []\<rparr>"

definition demo_provider :: "int \<Rightarrow> int provider" where
  "demo_provider mined = \<lparr>pv_chainId = ret 1337, pv_pendingCount = (\<lambda>_. ret 0), pv_latestCount = (\<lambda>_. ret 0),
     pv_estimateGas = (\<lambda>_ _ _. ret ''21000''), pv_call = (\<lambda>_ _ _. ret ''0x''),
     pv_broadcast = (\<lambda>_. ret ''0xhash''), pv_send = (\<lambda>_ _ _ _ _. ret ''0xhash''),
     pv_receipt = (\<lambda>_. reads (\<lambda>t. if mined \<le> t then Some demo_receipt else None)),
     pv_blockNumber = ret 5, pv_block = (\<lambda>_. ret None), pv_finalized = ret None,
     pv_transaction = (\<lambda>_. ret None), pv_now = id, pv_sleep = (\<lambda>d t. t + d)\<rparr>"

lemma demo_clock_ok: "clock_ok (demo_provider mined)"
  by (simp add: clock_ok_def demo_provider_def reads_def ret_def)

text \<open>
  C23. The wait for a receipt always ends: with a polling interval of at least a millisecond, and a clock
  that advances by at least what a sleep asks for, the bound on the rounds is never reached.
  The wait ends with a foreign exception of the node, with a receipt that the node returned and
  that had the required confirmations, or with \<^verbatim>\<open>null\<close> after the deadline.
\<close>

theorem wait_returns:
  assumes "clock_ok pv" "1 \<le> interval" "waitForReceipt pv h confs timeoutMs interval w = (r, w')"
  shows "r \<noteq> Inl (Typed OutOfFuel) \<and>
    ((\<exists>e. r = Inl (Foreign e)) \<or> (\<exists>rc. r = Inr (Some rc) \<and> confirmed pv h confs rc) \<or>
     r = Inr None \<and> pv_now pv w + timeoutMs \<le> pv_now pv w')"
  using wait_end [OF assms] by auto

theorem wait_returns_witness:
  "waitForReceipt (demo_provider 20) ''0xhash'' 1 30 8 0 = (Inr (Some demo_receipt), 24) \<and>
   Inr (Some demo_receipt) \<noteq> (Inl (Typed OutOfFuel) :: exn + receipt option)"
proof -
  have *: "waitForReceipt (demo_provider 20) ''0xhash'' 1 30 8 0 = (Inr (Some demo_receipt), 24)"
    by code_simp
  from wait_returns [OF demo_clock_ok _ this] * show ?thesis by simp
qed

section \<open>Device signatures\<close>

text \<open>What a relayed transaction has to agree with.\<close>

definition signed_for :: "evm_tx \<Rightarrow> prepared_tx \<Rightarrow> bool" where
  "signed_for raw p \<longleftrightarrow>
     (\<exists>from to. et_from raw = Some from \<and> et_to raw = Some to \<and> from \<noteq> [] \<and> to \<noteq> [] \<and>
        toLowerCase from = toLowerCase (pt_from p) \<and> toLowerCase to = toLowerCase (pt_to p)) \<and>
     toLowerCase (et_data raw) = toLowerCase (pt_data p) \<and>
     et_chainId raw = pt_chainId p \<and> et_value raw = 0"

lemma no_problems: "signature_problems raw p = [] \<longleftrightarrow> signed_for raw p"
  by (auto simp: signature_problems_def signed_for_def same_text_def split: option.splits)

text \<open>The device-signed transaction of an envelope that is not for the development path.\<close>

definition device_tx :: "'n adapter \<Rightarrow> transaction \<Rightarrow> evm_tx option" where
  "device_tx ad tx =
     (if tx_signature tx = ''development'' then None else parseSignedTransaction (ad_codec ad) (tx_signature tx))"

text \<open>
  C11. A transaction that is not for the development path is relayed only when its signature is a raw
  transaction signed by the envelope's wallet, for the contract the envelope maps to, with
  exactly the calldata it maps to, for this chain and of value 0.  Otherwise the submission
  fails with a signer error, and the node has seen nothing but the calls of the preparation.
\<close>

theorem unmatched_signature_not_relayed:
  assumes "buildPreparedTransaction ad tx False s = (Inr p, s1)"
    and "tx_signature tx \<noteq> ''development''"
    and "pred_option (\<lambda>raw. \<not> signed_for raw p) (device_tx ad tx)"
  shows "\<exists>msg. evm_submitDetailed ad tx s = (Inl (Typed (BlockchainError SIGNER msg)), s1)"
proof (cases "parseSignedTransaction (ad_codec ad) (tx_signature tx)")
  case None
  with assms(1,2) show ?thesis
    by (simp add: evm_submitDetailed_def bindE_def thenE_def throwIf_def throw_def)
next
  case (Some raw)
  with assms(2,3) have "signature_problems raw p \<noteq> []" by (simp add: device_tx_def no_problems)
  with Some assms(1,2) show ?thesis
    by (simp add: evm_submitDetailed_def bindE_def thenE_def throwIf_def throw_def ret_def
        verifySignedTransaction_def)
qed

text \<open>A concrete adapter: the codec writes the method's name as calldata.\<close>

definition demo_codec :: "evm_tx option \<Rightarrow> codec" where
  "demo_codec raw = \<lparr>cd_encode = (\<lambda>_ f _. Inr (''0x'' @ f)), cd_fromRaw = (\<lambda>_. raw),
     cd_errorString = (\<lambda>_. Inr ''denied''), cd_parseError = (\<lambda>_ _. None), cd_parseLog = (\<lambda>_ _. None),
     cd_walletAddress = (\<lambda>_. demo_wallet)\<rparr>"

definition demo_views :: "int views" where
  "demo_views = \<lparr>vw_nftIdOf = (\<lambda>_. ret 7), vw_walletsOf = (\<lambda>_. ret [demo_wallet]),
     vw_isActiveWallet = (\<lambda>_. ret True), vw_rolesOfIdentity = (\<lambda>_. ret 8),
     vw_getWallet = (\<lambda>_. ret \<lparr>cw_status = 2, cw_registeredAt = 1, cw_activatedAt = 2, cw_revokedAt = 0,
       cw_revokedReason = []\<rparr>),
     vw_identityOf = (\<lambda>_. ret ''did:tech''),
     vw_getAsset = (\<lambda>_. ret \<lparr>ca_assetId = ''A1'', ca_custodian = demo_wallet, ca_parent = 0\<rparr>),
     vw_ownerOfAsset = (\<lambda>_. ret demo_wallet), vw_stateOf = (\<lambda>_. ret ''ACTIVE''),
     vw_jobExists = (\<lambda>_. ret True),
     vw_getJob = (\<lambda>_. ret \<lparr>cj_assetNftId = 7, cj_createdBy = demo_wallet, cj_technician = demo_wallet,
       cj_verifier = demo_wallet, cj_status = 3, cj_createdAt = 1, cj_completedAt = 0\<rparr>),
     vw_getAuditTrail = (\<lambda>_. ret []),
     vw_getAuditRecord = (\<lambda>_. ret \<lparr>cx_entityType = ''ASSET'', cx_entityId = ''A1'', cx_action = ''MINT'',
       cx_actor = demo_wallet, cx_timestamp = 1\<rparr>)\<rparr>"

definition demo_config :: evm_config where
  "demo_config = \<lparr>cf_rpcUrl = ''http://127.0.0.1:8545'',
     cf_deployment = \<lparr>dp_network = ''local'', dp_chainId = 1337, dp_contracts = (\<lambda>c. ''0x'' @ show_contract c)\<rparr>,
     cf_confirmations = 1, cf_txTimeoutMs = 30, cf_pollingIntervalMs = 8, cf_devSignerKeys = [''k'']\<rparr>"

definition demo_adapter :: "evm_tx option \<Rightarrow> int provider \<Rightarrow> int adapter" where
  "demo_adapter raw pv = \<lparr>ad_ethers = demo_ethers, ad_codec = demo_codec raw, ad_provider = pv,
     ad_views = demo_views, ad_config = demo_config\<rparr>"

definition demo_evm :: "int evm" where
  "demo_evm = \<lparr>ev_node = 0, ev_networkChecked = False\<rparr>"

definition demo_start :: "string \<Rightarrow> transaction" where
  "demo_start sig = (demo_envelope JOB_START [(''jobId'', JStr ''J1'')])\<lparr>tx_signature := sig\<rparr>"

definition demo_prepared :: prepared_tx where
  "demo_prepared = \<lparr>pt_from = demo_wallet, pt_to = ''0xJobManager'', pt_data = ''0xstartJob'', pt_chainId = 1337,
     pt_value = ''0'', pt_contract = JobManager, pt_method = ''startJob'', pt_nonce = None, pt_gasLimit = None\<rparr>"

lemma demo_prepares:
  "buildPreparedTransaction (demo_adapter None (demo_provider 20)) (demo_start ''0xff'') False demo_evm
     = (Inr demo_prepared, demo_evm\<lparr>ev_networkChecked := True\<rparr>)"
  by code_simp

theorem unmatched_signature_not_relayed_witness:
  "\<exists>msg. evm_submitDetailed (demo_adapter None (demo_provider 20)) (demo_start ''0xff'') demo_evm
     = (Inl (Typed (BlockchainError SIGNER msg)), demo_evm\<lparr>ev_networkChecked := True\<rparr>)"
  by (rule unmatched_signature_not_relayed [OF demo_prepares])
     (simp_all add: demo_start_def device_tx_def parseSignedTransaction_def demo_adapter_def demo_codec_def)

section \<open>Outcomes of a submission\<close>

lemma world_run [run]:
  "world f s = (r, s') \<longleftrightarrow> (\<exists>n. f (ev_node s) = (r, n) \<and> s' = s\<lparr>ev_node := n\<rparr>)"
  by (auto simp: world_def split: prod.splits)

lemma decode_run [run]:
  "decode cd err s = (r, s') \<longleftrightarrow> r = map_sum Foreign id (decodeRevertFrom cd err) \<and> s' = s"
  by (auto simp: decode_def run)

lemma yields_ret: "P x \<Longrightarrow> yields P (ret x)"
  by (simp add: yields_def ret_def)

lemma yields_after: "(\<And>x. yields Q (g x)) \<Longrightarrow> yields Q (bindE f g)"
  by (rule yields_bind [where P = "\<lambda>_. True"]) (simp_all add: yields_def)

text \<open>
  A result is sound: it carries the id of the envelope; a success names the hash and the block
  of a receipt of status 1 that the node returned with the required confirmations, and has no
  revert; a rejection has one.
\<close>

definition sound_result :: "'n adapter \<Rightarrow> transaction \<Rightarrow> submit_result \<Rightarrow> bool" where
  "sound_result ad tx r \<longleftrightarrow>
     sr_txId r = tx_txId tx \<and>
     (case sr_status r of
        SUCCESS \<Rightarrow> sr_revert r = None \<and>
          (\<exists>h rc. confirmed (ad_provider ad) h (cf_confirmations (ad_config ad)) rc \<and> rc_status rc = 1 \<and>
             sr_hash r = Some h \<and> sr_blockNumber r = Some (rc_blockNumber rc) \<and>
             sr_events r = parseEvents (ad_codec ad) (ad_config ad) (rc_logs rc))
      | TX_REJECTED \<Rightarrow> sr_revert r \<noteq> None \<and> sr_events r = [] \<and> sr_auditTxIds r = [])"

lemma sound_rejected: "sound_result ad tx (rejected tx r)"
  by (simp add: sound_result_def rejected_def)

lemma sound_settled:
  "confirmed (ad_provider ad) h (cf_confirmations (ad_config ad)) rc \<Longrightarrow> sound_result ad tx (settled ad tx h rc)"
  by (auto simp: sound_result_def settled_def rejected_def Let_def)

lemma awaitResult_sound:
  assumes "clock_ok (ad_provider ad)" "1 \<le> cf_pollingIntervalMs (ad_config ad)"
    and "awaitResult ad tx h s = (Inr r, s')"
  shows "sound_result ad tx r"
proof -
  let ?cf = "ad_config ad"
  from assms(3) obtain w rc where
    "waitForReceipt (ad_provider ad) h (cf_confirmations ?cf) (cf_txTimeoutMs ?cf) (cf_pollingIntervalMs ?cf)
       (ev_node s) = (Inr (Some rc), w)" "r = settled ad tx h rc"
    by (auto simp: awaitResult_def run Let_def split: option.splits)
  with wait_end [OF assms(1,2)] show ?thesis by (fastforce intro: sound_settled)
qed



text \<open>The signature of the envelope allows a submission of the prepared call.\<close>

definition may_submit :: "'n adapter \<Rightarrow> transaction \<Rightarrow> prepared_tx \<Rightarrow> bool" where
  "may_submit ad tx p \<longleftrightarrow>
     (if tx_signature tx = ''development'' then js_get (signers ad) (toLowerCase (pt_from p)) \<noteq> None
      else \<exists>raw. device_tx ad tx = Some raw \<and> signed_for raw p)"

text \<open>
  A call that the contract would revert never reaches the chain: when the dry run of an admissible
  submission fails with decodable revert data, the submission returns a rejection with the
  decoded error, and nothing is broadcast after the dry run.
\<close>

theorem revert_is_rejection:
  assumes "buildPreparedTransaction ad tx False s = (Inr p, s1)" "may_submit ad tx p"
    and "pv_call (ad_provider ad) (pt_from p) (pt_to p) (pt_data p) (ev_node s1) = (Inl e, n)"
    and "decodeRevertFrom (ad_codec ad) (Foreign e) = Inr (Some r)"
  shows "evm_submitDetailed ad tx s = (Inr (rejected tx r), s1\<lparr>ev_node := n\<rparr>)"
proof -
  have sim: "simulate ad p s1 = (Inr (Some r), s1\<lparr>ev_node := n\<rparr>)"
    using assms(3,4) by (simp add: simulate_def rpc_def world_def foreign_def catchE_def bindE_def
        throw_def ret_def decode_def query_def)
  show ?thesis
  proof (cases "tx_signature tx = ''development''")
    case True
    with assms(2) obtain k where "js_get (signers ad) (toLowerCase (pt_from p)) = Some k"
      by (auto simp: may_submit_def)
    with True assms(1) sim show ?thesis
      by (simp add: evm_submitDetailed_def signerFor_def exec_defs)
  next
    case False
    with assms(2) obtain raw where
      "parseSignedTransaction (ad_codec ad) (tx_signature tx) = Some raw" "signature_problems raw p = []"
      by (auto simp: may_submit_def device_tx_def no_problems)
    with False assms(1) sim show ?thesis
      by (simp add: evm_submitDetailed_def verifySignedTransaction_def exec_defs)
  qed
qed

definition denying_provider :: "int provider" where
  "denying_provider = (demo_provider 20)\<lparr>pv_call := (\<lambda>_ _ _. throw \<lparr>je_value = JObj [(''code'', JStr ''CALL_EXCEPTION''),
     (''info'', JObj [(''error'', JObj [(''data'', JStr ''0x08c379a0'')])])], je_text = ''execution reverted''\<rparr>)\<rparr>"

theorem revert_is_rejection_witness:
  "evm_submitDetailed (demo_adapter None denying_provider) (demo_start ''development'') demo_evm =
     (Inr (rejected (demo_start ''development'') (DecodedRevert ''Error'' [''denied''] ''denied'')),
      demo_evm\<lparr>ev_networkChecked := True\<rparr>)"
proof -
  let ?ad = "demo_adapter None denying_provider" and ?tx = "demo_start ''development''"
  have "buildPreparedTransaction ?ad ?tx False demo_evm = (Inr demo_prepared, demo_evm\<lparr>ev_networkChecked := True\<rparr>)"
    by code_simp
  moreover have "may_submit ?ad ?tx demo_prepared"
  proof -
    have "js_get (signers ?ad) (toLowerCase (pt_from demo_prepared)) = Some ''k''" by code_simp
    then show ?thesis by (simp add: may_submit_def demo_start_def)
  qed
  ultimately show ?thesis
    using revert_is_rejection [of ?ad ?tx demo_evm demo_prepared _ _ 0 "DecodedRevert ''Error'' [''denied''] ''denied''"]
    by (fastforce simp: demo_adapter_def denying_provider_def demo_evm_def throw_def decodeRevertFrom_def
        extractRevertData.simps error_keys_def data_of_def is_hex_data_def startsWith_def is_hex_def
        decodeRevert_def demo_codec_def)
qed

section \<open>Events\<close>

text \<open>
  The events of a result come from the logs of the receipt, in their order, at most one per log, and
  only from logs of a configured contract, decoded by that contract's interface.
\<close>

theorem events_of_configured_contracts:
  "subseq (map ce_logIndex (parseEvents cd cf logs)) (map lg_index logs)
   \<and> set (parseEvents cd cf logs) \<subseteq> {e. \<exists>lg \<in> set logs.
        toLowerCase (dp_contracts (cf_deployment cf) (ce_contract e)) = toLowerCase (lg_address lg) \<and>
        map_option fst (cd_parseLog cd (ce_contract e) lg) = Some (ce_name e)}"
proof -
  have log: "ce_logIndex e = lg_index lg \<and>
      toLowerCase (dp_contracts (cf_deployment cf) (ce_contract e)) = toLowerCase (lg_address lg) \<and>
      map_option fst (cd_parseLog cd (ce_contract e) lg) = Some (ce_name e)"
    if "parse_log cd cf lg = Some e" for lg e
    using first_some_Some [OF that [unfolded parse_log_def]]
    by (auto simp: byAddress_def eq_commute [of "Some e"])
  have "subseq (map ce_logIndex (parseEvents cd cf logs)) (map lg_index logs)"
    by (induction logs) (auto simp: parseEvents_def map_filter_simps dest: log split: option.splits)
  with log show ?thesis by (fastforce simp: parseEvents_def map_filter_def)
qed

end
