(* ===== verification/EvmReads.thy ===== *)
theory EvmReads
  imports EvmSubmission
begin

text \<open>
  The reads of \<^verbatim>\<open>evm-adapter.ts\<close>: identities, wallets, assets, jobs, the audit trail,
  blocks and the status of the chain, each from the view functions of the contracts and the
  optional off-chain metadata.  What the metadata provider and the consensus source return is an
  argument.  A job's status and creation time are optional here, because the source asserts them
  with \<^verbatim>\<open>!\<close> and does not test them.
\<close>

section \<open>Values of the contracts\<close>

fun WALLET_STATUS :: "nat \<Rightarrow> wallet_status option" where
  "WALLET_STATUS n = (if n = 1 then Some W_PENDING else if n = 2 then Some W_ACTIVE
     else if n = 3 then Some W_REVOKED else None)"

fun JOB_STATUS :: "nat \<Rightarrow> job_status option" where
  "JOB_STATUS n = (if n = 1 then Some CREATED else if n = 2 then Some ASSIGNED
     else if n = 3 then Some IN_PROGRESS else if n = 4 then Some COMPLETED
     else if n = 5 then Some VERIFIED else if n = 6 then Some REJECTED else None)"

definition ZERO :: string where
  "ZERO = ''0x'' @ replicate 40 CHR ''0''"

text \<open>
  \<^verbatim>\<open>iso(seconds)\<close>; a time beyond the range of \<^verbatim>\<open>Date\<close> makes
  \<^verbatim>\<open>toISOString\<close> throw a RangeError.
\<close>

definition iso :: "nat \<Rightarrow> ('n, date_str option) adm" where
  "iso seconds =
     (if seconds = 0 then ret None
      else if seconds > 8640000000000 then throw (Foreign \<lparr>je_value = JObj [], je_text = ''Invalid time value''\<rparr>)
      else ret (Some (Iso (int seconds * 1000))))"

text \<open>A loop that awaits one method per element, in order.\<close>

fun mapE :: "('a \<Rightarrow> ('s, 'e, 'b) m) \<Rightarrow> 'a list \<Rightarrow> ('s, 'e, 'b list) m" where
  "mapE f [] = ret []"
| "mapE f (x # xs) = bindE (f x) (\<lambda>y. bindE (mapE f xs) (\<lambda>ys. ret (y # ys)))"

section \<open>Off-chain metadata and consensus\<close>

record identity_meta =
  im_employeeId :: "string option"
  im_fullName :: "string option"
  im_department :: "string option"
  im_status :: "identity_status option"
  im_verifiedAt :: "date_str option"
  im_verifiedBy :: "string option"

record wallet_meta =
  wm_deviceId :: "string option"
  wm_publicKey :: "string option"

record job_meta =
  jm_priority :: "string option"
  jm_verifierId :: "string option"

record 'n metadata =
  md_identity :: "string \<Rightarrow> ('n, js_error, identity_meta option) m"
  md_wallet :: "string \<Rightarrow> ('n, js_error, wallet_meta option) m"
  md_asset_type :: "string \<Rightarrow> ('n, js_error, string option) m"
  md_job :: "string \<Rightarrow> ('n, js_error, job_meta option) m"

definition no_metadata :: "'n metadata" where
  "no_metadata = \<lparr>md_identity = (\<lambda>_. ret None), md_wallet = (\<lambda>_. ret None),
     md_asset_type = (\<lambda>_. ret None), md_job = (\<lambda>_. ret None)\<rparr>"

record 'n consensus =
  co_getValidators :: "('n evm, exn, validator list) m"
  co_getCommittee :: "jsnum \<Rightarrow> ('n evm, exn, string list) m"

section \<open>Reads\<close>

definition identityOrAddress :: "'n adapter \<Rightarrow> string \<Rightarrow> ('n, string) adm" where
  "identityOrAddress ad a =
     bindE (read ad (vw_identityOf (ad_views ad) a)) (\<lambda>did.
       ret (if did = [] then getAddress (ad_ethers ad) a else did))"

definition role_of_mask :: "nat \<Rightarrow> role option" where
  "role_of_mask bits = map_option snd (find (\<lambda>(i, _). odd (bits div 2 ^ i)) (enumerate 0 ROLES))"

definition evm_getIdentity :: "'n adapter \<Rightarrow> 'n metadata \<Rightarrow> string \<Rightarrow> ('n, identity option) adm" where
  "evm_getIdentity ad md identityId =
     (let vw = ad_views ad in
      bindE (read ad (vw_walletsOf vw identityId)) (\<lambda>wallets.
      if wallets = [] then ret None
      else
        bindE (read ad (vw_rolesOfIdentity vw identityId)) (\<lambda>roles.
        bindE (mapE (\<lambda>w. read ad (vw_getWallet vw w)) wallets) (\<lambda>records.
        bindE (rpc (md_identity md identityId)) (\<lambda>meta.
        case role_of_mask roles of None \<Rightarrow> ret None
        | Some role \<Rightarrow>
            bindE (iso (cw_registeredAt (hd records))) (\<lambda>created.
            let statuses = map (WALLET_STATUS \<circ> cw_status) records;
                field = (\<lambda>f. case Option.bind meta f of None \<Rightarrow> [] | Some v \<Rightarrow> v) in
            ret (Some \<lparr>id_identityId = identityId, id_employeeId = Some (field im_employeeId),
                  id_fullName = field im_fullName, id_role = Some role,
                  id_department = Some (field im_department),
                  id_status = (case Option.bind meta im_status of Some st \<Rightarrow> st
                    | None \<Rightarrow> if Some W_ACTIVE \<in> set statuses then I_ACTIVE else I_PENDING),
                  id_createdAt = (case created of Some d \<Rightarrow> d | None \<Rightarrow> Iso 0),
                  id_verifiedAt = Option.bind meta im_verifiedAt,
                  id_verifiedBy = Option.bind meta im_verifiedBy\<rparr>)))))))"

definition evm_getWallet :: "'n adapter \<Rightarrow> 'n metadata \<Rightarrow> string \<Rightarrow> ('n, wallet option) adm" where
  "evm_getWallet ad md address =
     (if \<not> isAddress (ad_ethers ad) address then ret None
      else
        let addr = getAddress (ad_ethers ad) address; vw = ad_views ad in
        bindE (read ad (vw_getWallet vw addr)) (\<lambda>r.
        case WALLET_STATUS (cw_status r) of None \<Rightarrow> ret None
        | Some st \<Rightarrow>
            bindE (read ad (vw_identityOf vw addr)) (\<lambda>identityId.
            bindE (rpc (md_wallet md addr)) (\<lambda>meta.
            bindE (iso (cw_activatedAt r)) (\<lambda>activated.
            bindE (iso (cw_revokedAt r)) (\<lambda>revoked.
            ret (Some \<lparr>wal_address = addr, wal_identityId = identityId,
                  wal_deviceId = (case Option.bind meta wm_deviceId of None \<Rightarrow> [] | Some d \<Rightarrow> d), wal_status = st,
                  wal_activatedAt = activated, wal_revokedAt = revoked,
                  wal_revokedReason = (if cw_revokedReason r = [] then None else Some (cw_revokedReason r)),
                  wal_publicKey = Option.bind meta wm_publicKey\<rparr>)))))))"

text \<open>An asset as the adapter reports it: its state is the contract's text.\<close>

record evm_asset =
  xa_assetId :: string
  xa_nftId :: string
  xa_assetType :: string
  xa_ownerId :: string
  xa_custodianId :: string
  xa_parentAssetId :: "string option"
  xa_state :: string

definition evm_getAsset :: "'n adapter \<Rightarrow> 'n metadata \<Rightarrow> string \<Rightarrow> ('n, evm_asset option) adm" where
  "evm_getAsset ad md assetId =
     (let vw = ad_views ad in
      bindE (read ad (vw_nftIdOf vw assetId)) (\<lambda>nft.
      if nft = 0 then ret None
      else
        bindE (read ad (vw_getAsset vw nft)) (\<lambda>rec.
        bindE (read ad (vw_ownerOfAsset vw nft)) (\<lambda>own.
        bindE (read ad (vw_stateOf vw nft)) (\<lambda>state.
        bindE (if ca_parent rec = 0 then ret None
               else bindE (read ad (vw_getAsset vw (ca_parent rec))) (\<lambda>par. ret (Some (ca_assetId par)))) (\<lambda>par.
        bindE (identityOrAddress ad own) (\<lambda>ownerId.
        bindE (identityOrAddress ad (ca_custodian rec)) (\<lambda>custodianId.
        bindE (rpc (md_asset_type md assetId)) (\<lambda>ty.
        ret (Some \<lparr>xa_assetId = assetId, xa_nftId = show_nat nft,
               xa_assetType = (case ty of None \<Rightarrow> [] | Some t \<Rightarrow> t), xa_ownerId = ownerId,
               xa_custodianId = custodianId, xa_parentAssetId = par, xa_state = state\<rparr>))))))))))"

record evm_job =
  ej_jobId :: string
  ej_assetId :: string
  ej_createdBy :: string
  ej_assignedTo :: string
  ej_verifierId :: "string option"
  ej_status :: "job_status option"
  ej_priority :: string
  ej_createdAt :: "date_str option"
  ej_completedAt :: "date_str option"

definition evm_getJob :: "'n adapter \<Rightarrow> 'n metadata \<Rightarrow> string \<Rightarrow> ('n, evm_job option) adm" where
  "evm_getJob ad md jobId =
     (let vw = ad_views ad in
      bindE (read ad (vw_jobExists vw jobId)) (\<lambda>exists.
      if \<not> exists then ret None
      else
        bindE (read ad (vw_getJob vw jobId)) (\<lambda>j.
        bindE (read ad (vw_getAsset vw (cj_assetNftId j))) (\<lambda>asset.
        bindE (identityOrAddress ad (cj_createdBy j)) (\<lambda>createdBy.
        bindE (if cj_technician j = ZERO then ret [] else identityOrAddress ad (cj_technician j)) (\<lambda>assignedTo.
        bindE (if cj_verifier j = ZERO then ret None
               else bindE (identityOrAddress ad (cj_verifier j)) (\<lambda>v. ret (Some v))) (\<lambda>verifierId.
        bindE (rpc (md_job md jobId)) (\<lambda>meta.
        bindE (iso (cj_createdAt j)) (\<lambda>created.
        bindE (iso (cj_completedAt j)) (\<lambda>completed.
        ret (Some \<lparr>ej_jobId = jobId, ej_assetId = ca_assetId asset, ej_createdBy = createdBy,
               ej_assignedTo = assignedTo, ej_verifierId = or_else verifierId (Option.bind meta jm_verifierId),
               ej_status = JOB_STATUS (cj_status j),
               ej_priority = (case Option.bind meta jm_priority of None \<Rightarrow> ''MEDIUM'' | Some p \<Rightarrow> p),
               ej_createdAt = created, ej_completedAt = completed\<rparr>)))))))))))"

definition evm_getAuditTrail :: "'n adapter \<Rightarrow> string \<Rightarrow> ('n, audit_event list) adm" where
  "evm_getAuditTrail ad entityId =
     (let vw = ad_views ad in
      bindE (read ad (vw_getAuditTrail vw entityId)) (\<lambda>txIds.
        mapE (\<lambda>txId.
          bindE (read ad (vw_getAuditRecord vw txId)) (\<lambda>r.
          bindE (identityOrAddress ad (cx_actor r)) (\<lambda>who.
          bindE (iso (cx_timestamp r)) (\<lambda>t.
            ret \<lparr>ae_eventId = txId, ae_txId = txId, ae_entityType = cx_entityType r,
                 ae_entityId = cx_entityId r, ae_action = cx_action r, ae_actorIdentityId = who,
                 ae_timestamp = t\<rparr>)))) txIds))"

definition evm_getValidators :: "'n consensus option \<Rightarrow> ('n, validator list) adm" where
  "evm_getValidators co = (case co of
       None \<Rightarrow> throw (Typed (NotImplementedError
         ''EvmBlockchainAdapter.getValidators() (needs Person 4 consensus source)''))
     | Some c \<Rightarrow> co_getValidators c)"

definition evm_getCommittee :: "'n consensus option \<Rightarrow> jsnum \<Rightarrow> ('n, string list) adm" where
  "evm_getCommittee co height = (case co of
       None \<Rightarrow> throw (Typed (NotImplementedError
         ''EvmBlockchainAdapter.getCommittee() (needs Person 4 consensus source)''))
     | Some c \<Rightarrow> co_getCommittee c height)"

record block =
  bl_height :: int
  bl_leaderId :: string
  bl_committee :: "string list"
  bl_transactions :: "string list"
  bl_finalizedAt :: date_str

definition evm_getBlock :: "'n adapter \<Rightarrow> 'n consensus option \<Rightarrow> jsnum \<Rightarrow> ('n, block option) adm" where
  "evm_getBlock ad co height =
     (if \<not> isInteger height \<or> num_int height < 0 then ret None
      else
        bindE (read ad (pv_block (ad_provider ad) (num_int height))) (\<lambda>b.
        case b of None \<Rightarrow> ret None
        | Some bi \<Rightarrow>
            bindE (case co of None \<Rightarrow> ret [] | Some c \<Rightarrow> co_getCommittee c height) (\<lambda>committee.
            bindE (iso (bi_timestamp bi)) (\<lambda>t.
            ret (Some \<lparr>bl_height = bi_number bi, bl_leaderId = bi_miner bi, bl_committee = committee,
                   bl_transactions = bi_transactions bi,
                   bl_finalizedAt = (case t of Some d \<Rightarrow> d | None \<Rightarrow> Iso 0)\<rparr>)))))"

definition evm_getStatus :: "'n adapter \<Rightarrow> ('n, chain_status) adm" where
  "evm_getStatus ad =
     catchE
       (bindE (rpc (pv_blockNumber (ad_provider ad))) (\<lambda>height.
        bindE (catchE (bindE (rpc (pv_finalized (ad_provider ad))) (\<lambda>b.
                 ret (case b of Some bi \<Rightarrow> bi_number bi | None \<Rightarrow> height)))
               (\<lambda>_. ret height)) (\<lambda>finalized.
        ret \<lparr>cs_height = height, cs_healthy = True, cs_finalityLag = max 0 (height - finalized),
             cs_lastFinalizedHeight = finalized\<rparr>)))
       (\<lambda>_. ret \<lparr>cs_height = 0, cs_healthy = False, cs_finalityLag = 0, cs_lastFinalizedHeight = 0\<rparr>)"

section \<open>Properties\<close>

lemma rpc_ok [run]: "rpc f s = (Inr x, s') \<longleftrightarrow> (\<exists>n. f (ev_node s) = (Inr x, n) \<and> s' = s\<lparr>ev_node := n\<rparr>)"
  by (simp add: rpc_def run)

text \<open>
  The status of the chain is always reported, never thrown: it is healthy exactly when the node
  returned its block number, the finality lag is never negative, and an unreachable node is
  reported as unhealthy at height 0.
\<close>

theorem status_never_throws:
  "\<exists>st s'. evm_getStatus ad s = (Inr st, s') \<and> cs_finalityLag st \<ge> 0 \<and>
     cs_finalityLag st = max 0 (cs_height st - cs_lastFinalizedHeight st) \<and>
     (if cs_healthy st then fst (pv_blockNumber (ad_provider ad) (ev_node s)) = Inr (cs_height st)
      else (\<exists>e. fst (pv_blockNumber (ad_provider ad) (ev_node s)) = Inl e) \<and> cs_height st = 0)"
proof -
  let ?pv = "ad_provider ad"
  obtain r n where num: "pv_blockNumber ?pv (ev_node s) = (r, n)" by fastforce
  obtain r2 n2 where fin: "pv_finalized ?pv n = (r2, n2)" by fastforce
  show ?thesis
    by (cases r; cases r2)
       (auto simp: evm_getStatus_def catchE_def rpc_def world_def foreign_def bindE_def ret_def throw_def num fin
         split: option.splits)
qed

text \<open>
  The lookups the adapter hands to the plan: of an identity's wallets the newest is taken, or
  the newest active one.
\<close>

lemma read_pure: "f (ev_node s) = (Inr x, ev_node s) \<Longrightarrow> read ad f s = (Inr x, s)"
  by (simp add: read_def catchE_def rpc_def world_def foreign_def)

lemma newest_wallet_find:
  assumes "\<forall>w. vw_isActiveWallet (ad_views ad) w (ev_node s) = (Inr (act w), ev_node s)"
  shows "newest_wallet ad b ws s =
    (Inr (map_option (getAddress (ad_ethers ad)) (find (\<lambda>w. b \<longrightarrow> act w) ws)), s)"
proof (induction ws)
  case (Cons w ws)
  have "read ad (vw_isActiveWallet (ad_views ad) w) s = (Inr (act w), s)"
    by (rule read_pure) (use assms in blast)
  with Cons show ?case by (cases b) (simp_all add: bindE_def ret_def)
qed (simp add: ret_def)

text \<open>
  A party given by its identity is resolved to the newest of the identity's wallets that is active:
  on a node that answers, the lookup returns the last active wallet of the list the registry
  returns, in its checksummed form, and \<^verbatim>\<open>null\<close> exactly when no wallet is active.
\<close>

theorem newest_active_wallet:
  assumes "vw_walletsOf (ad_views ad) did (ev_node s) = (Inr ws, ev_node s)"
    and "\<forall>w. vw_isActiveWallet (ad_views ad) w (ev_node s) = (Inr (act w), ev_node s)"
  shows "walletOfIdentity (adapter_lookups ad) did True s =
    (Inr (map_option (getAddress (ad_ethers ad)) (find act (rev ws))), s)"
proof -
  have "read ad (vw_walletsOf (ad_views ad) did) s = (Inr ws, s)"
    by (rule read_pure) (rule assms(1))
  with newest_wallet_find [OF assms(2)] show ?thesis
    by (simp add: adapter_lookups_def as_error_def catchE_def bindE_def)
qed

theorem newest_active_wallet_witness:
  "walletOfIdentity (adapter_lookups ((demo_adapter None (demo_provider 0))\<lparr>ad_views := demo_views\<lparr>
       vw_walletsOf := \<lambda>_. ret [demo_wallet, ''0xB'', ''0xC''], vw_isActiveWallet := \<lambda>w. ret (w \<noteq> ''0xC'')\<rparr>\<rparr>))
     ''did:tech'' True demo_evm = (Inr (Some ''0xb''), demo_evm)"
  by (subst newest_active_wallet [where ws = "[demo_wallet, ''0xB'', ''0xC'']" and act = "\<lambda>w. w \<noteq> ''0xC''"])
     (simp_all add: ret_def demo_adapter_def demo_ethers_def toLowerCase_def, code_simp)

text \<open>With addresses from the registry the lookups meet the assumption of the typing of plans.\<close>

lemma newest_wallet_address:
  "ethers_ok (ad_ethers ad) \<Longrightarrow> \<forall>w \<in> set ws. isAddress (ad_ethers ad) w \<Longrightarrow>
     newest_wallet ad b ws s = (Inr (Some a), s') \<Longrightarrow> isAddress (ad_ethers ad) a"
  by (induction ws arbitrary: s) (auto simp: run ethers_ok_def split: if_splits)

lemma adapter_lookups_ok:
  assumes "ethers_ok (ad_ethers ad)"
    and "\<And>did n ws n'. vw_walletsOf (ad_views ad) did n = (Inr ws, n') \<Longrightarrow> \<forall>w \<in> set ws. isAddress (ad_ethers ad) w"
  shows "lookups_ok (ad_ethers ad) (adapter_lookups ad)"
  unfolding lookups_ok_def
proof (intro allI impI)
  fix did b s w s'
  assume "walletOfIdentity (adapter_lookups ad) did b s = (Inr (Some w), s')"
  then obtain ws s1 where "read ad (vw_walletsOf (ad_views ad) did) s = (Inr ws, s1)"
    and new: "newest_wallet ad b (rev ws) s1 = (Inr (Some w), s')"
    by (auto simp: adapter_lookups_def as_error_def run)
  then obtain n n' where "vw_walletsOf (ad_views ad) did n = (Inr ws, n')"
    by (auto simp: read_def run split: if_splits)
  from newest_wallet_address [OF assms(1) _ new] assms(2) [OF this]
  show "isAddress (ad_ethers ad) w" by simp
qed

end
