(* ===== verification/Crypto.thy ===== *)
theory Crypto
  imports Payloads
begin

text \<open>
  \<^verbatim>\<open>backend/src/blockchain/crypto.ts\<close>: the frozen representations of public keys and compact
  signatures.  A byte array that came out of hexadecimal text is identified with its lower-case
  hexadecimal text.  Address derivation, message hashing and key recovery are functions of ethers
  and arguments here; each may throw, which is \<open>None\<close>.
\<close>

record crypto_lib =
  cl_computeAddress :: "string \<Rightarrow> string option"
  cl_getAddress :: "string \<Rightarrow> string option"
  cl_hashMessage :: "string \<Rightarrow> string"
  cl_recoverAddress :: "string \<Rightarrow> string \<Rightarrow> string \<Rightarrow> int \<Rightarrow> string option"

definition PUBLIC_KEY_BYTES :: nat where "PUBLIC_KEY_BYTES = 64"

definition SIGNATURE_BYTES :: nat where "SIGNATURE_BYTES = 65"

definition SECP256K1_N :: int where
  "SECP256K1_N = 0xFFFFFFFFFFFFFFFFFFFFFFFFFFFFFFFEBAAEDCE6AF48A03BBFD25E8CD0364141"

definition SECP256K1_HALF_N :: int where
  "SECP256K1_HALF_N = SECP256K1_N div 2"

text \<open>The number a text of hexadecimal digits denotes: \<^verbatim>\<open>BigInt("0x...")\<close>.\<close>

definition digit_value :: "char \<Rightarrow> int" where
  "digit_value c =
     (let n = of_char (js_lower_char c) in if n \<ge> 97 then n - 87 else n - 48)"

definition hex_number :: "string \<Rightarrow> int" where
  "hex_number s = foldl (\<lambda>acc c. 16 * acc + digit_value c) 0 s"

definition canonicalHex :: "string \<Rightarrow> nat \<Rightarrow> string \<Rightarrow> error + string" where
  "canonicalHex value n label =
     (if \<not> startsWith value ''0x'' then Inl (PlainError (label @ '' must use 0x-prefixed hexadecimal encoding''))
      else if \<not> hex_of_length (n * 2) (drop 2 value)
        then Inl (PlainError (label @ '' must be exactly '' @ show_nat n @ '' bytes of hexadecimal data''))
      else Inr (toLowerCase (drop 2 value)))"

definition ethers_error :: error where
  "ethers_error = PlainError ''ethers''"

fun or_throw :: "'a option \<Rightarrow> error + 'a" where
  "or_throw None = Inl ethers_error"
| "or_throw (Some x) = Inr x"

text \<open>Composition of functions that may throw.\<close>

fun andThen :: "error + 'a \<Rightarrow> ('a \<Rightarrow> error + 'b) \<Rightarrow> error + 'b" where
  "andThen (Inl e) f = Inl e"
| "andThen (Inr x) f = f x"

lemma andThen_ok [run]: "andThen x f = Inr y \<longleftrightarrow> (\<exists>z. x = Inr z \<and> f z = Inr y)"
  by (cases x) auto

lemma or_throw_ok [run]: "or_throw x = Inr y \<longleftrightarrow> x = Some y"
  by (cases x) auto

definition publicKeyToEvmAddress :: "crypto_lib \<Rightarrow> string \<Rightarrow> error + string" where
  "publicKeyToEvmAddress cl publicKey =
     andThen (canonicalHex publicKey PUBLIC_KEY_BYTES ''publicKey'') (\<lambda>xy.
     andThen (or_throw (cl_computeAddress cl (''0x04'' @ xy))) (\<lambda>a. or_throw (cl_getAddress cl a)))"

record compact_signature =
  sg_yParity :: int
  sg_r :: string
  sg_s :: string

definition parseCompactSignature :: "string \<Rightarrow> error + compact_signature" where
  "parseCompactSignature signature =
     andThen (canonicalHex signature SIGNATURE_BYTES ''signature'') (\<lambda>hex.
       let yParity = hex_number (take 2 hex); rt = take 64 (drop 2 hex); st = drop 66 hex;
           r = hex_number rt; s = hex_number st in
       if yParity \<noteq> 0 \<and> yParity \<noteq> 1 then Inl (PlainError ''signature yParity must be 0 or 1'')
       else if r < 1 \<or> r \<ge> SECP256K1_N then Inl (PlainError ''signature r is outside secp256k1 range'')
       else if s < 1 \<or> s > SECP256K1_HALF_N then Inl (PlainError ''signature s is zero or not low-s'')
       else Inr \<lparr>sg_yParity = yParity, sg_r = ''0x'' @ rt, sg_s = ''0x'' @ st\<rparr>)"

definition assertWalletMatchesPublicKey :: "crypto_lib \<Rightarrow> string \<Rightarrow> string \<Rightarrow> error + string" where
  "assertWalletMatchesPublicKey cl address publicKey =
     andThen (publicKeyToEvmAddress cl publicKey) (\<lambda>expected.
     andThen (or_throw (cl_getAddress cl address)) (\<lambda>a.
       if a \<noteq> expected then Inl (PlainError ''wallet address does not match public key'') else Inr expected))"

definition verifyCompactSignature :: "crypto_lib \<Rightarrow> string \<Rightarrow> string \<Rightarrow> string \<Rightarrow> bool" where
  "verifyCompactSignature cl message publicKey signature =
     (case andThen (publicKeyToEvmAddress cl publicKey) (\<lambda>expected.
           andThen (parseCompactSignature signature) (\<lambda>sg.
           andThen (or_throw (cl_recoverAddress cl (cl_hashMessage cl message) (sg_r sg) (sg_s sg) (27 + sg_yParity sg))) (\<lambda>a.
           andThen (or_throw (cl_getAddress cl a)) (\<lambda>who. Inr (who = expected))))) of
        Inl _ \<Rightarrow> False | Inr b \<Rightarrow> b)"

section \<open>Signatures are not malleable\<close>

lemma canonicalHex_ok:
  "canonicalHex v n l = Inr h \<longleftrightarrow>
     startsWith v ''0x'' \<and> hex_of_length (n * 2) (drop 2 v) \<and> h = toLowerCase (drop 2 v)"
  by (auto simp: canonicalHex_def)

lemma hex_number_lower: "list_all is_hex s \<Longrightarrow> hex_number (toLowerCase s) = hex_number s"
proof (induction s rule: rev_induct)
  case (snoc c s)
  then have "js_lower_char (js_lower_char c) = js_lower_char c" using lower_hex by simp
  with snoc show ?case by (simp add: hex_number_def toLowerCase_def digit_value_def)
qed (simp add: hex_number_def toLowerCase_def)

text \<open>The parts of an accepted signature, read from its text.\<close>

lemma parse_ok:
  assumes "parseCompactSignature t = Inr sg"
  shows "hex_of_length 130 (drop 2 t)" "hex_number (take 2 (drop 2 t)) \<in> {0, 1}"
    "1 \<le> hex_number (take 64 (drop 4 t)) \<and> hex_number (take 64 (drop 4 t)) < SECP256K1_N"
    "1 \<le> hex_number (drop 68 t) \<and> hex_number (drop 68 t) \<le> SECP256K1_HALF_N"
proof -
  from assms have hex: "hex_of_length 130 (drop 2 t)"
    by (auto simp: parseCompactSignature_def canonicalHex_ok run SIGNATURE_BYTES_def)
  define h where "h = drop 2 t"
  have part: "list_all is_hex (take m (drop n h))" for m n
    using hex set_take_subset [of m "drop n h"] set_drop_subset [of n h]
    unfolding h_def [symmetric] hex_of_length_def list_all_iff by blast
  have lower: "hex_number (take m (drop n (toLowerCase h))) = hex_number (take m (drop n h))" for m n
    using hex_number_lower [OF part [of m n]] by (simp add: toLowerCase_def take_map drop_map)
  have "take (length h) (drop 66 x) = drop 66 x" if "length x = length h" for x :: string
    using that by simp
  then have low: "hex_number (take 2 (toLowerCase h)) = hex_number (take 2 (drop 2 t))"
    "hex_number (take 64 (drop 2 (toLowerCase h))) = hex_number (take 64 (drop 4 t))"
    "hex_number (drop 66 (toLowerCase h)) = hex_number (drop 68 t)"
    using lower [of 2 0] lower [of 64 2] lower [of "length h" 66] by (simp_all add: h_def toLowerCase_def)
  show "hex_of_length 130 (drop 2 t)" by (rule hex)
  show "hex_number (take 2 (drop 2 t)) \<in> {0, 1}"
    "1 \<le> hex_number (take 64 (drop 4 t)) \<and> hex_number (take 64 (drop 4 t)) < SECP256K1_N"
    "1 \<le> hex_number (drop 68 t) \<and> hex_number (drop 68 t) \<le> SECP256K1_HALF_N"
    using assms unfolding low [symmetric] h_def
    by (auto simp: parseCompactSignature_def canonicalHex_ok run Let_def split: if_splits)
qed

text \<open>
  C37. A compact signature that verifies is canonical: 65 bytes, a recovery bit of 0 or 1, \<open>r\<close> below
  the group order and \<open>s\<close> in the lower half of it.  So the second signature that the curve
  gives for the same message, with \<open>s\<close> replaced by its negative modulo the order, is never
  accepted, whatever key recovery would say of it.
\<close>

theorem signature_not_malleable:
  assumes "verifyCompactSignature cl msg key sig"
    and "hex_number (drop 68 sig) + hex_number (drop 68 sig') = SECP256K1_N"
  shows "hex_of_length 130 (drop 2 sig) \<and> hex_number (take 2 (drop 2 sig)) \<in> {0, 1} \<and>
    \<not> verifyCompactSignature cl' msg' key' sig'"
proof -
  have parsed: "\<exists>sg. parseCompactSignature x = Inr sg" if "verifyCompactSignature c m k x" for c m k x
    using that by (auto simp: verifyCompactSignature_def run split: sum.splits)
  from parsed [OF assms(1)] obtain sg where sg: "parseCompactSignature sig = Inr sg" ..
  have "hex_of_length 130 (drop 2 sig)" "hex_number (take 2 (drop 2 sig)) \<in> {0, 1}"
    using parse_ok [OF sg] by auto
  moreover have "\<not> verifyCompactSignature cl' msg' key' sig'"
  proof
    assume "verifyCompactSignature cl' msg' key' sig'"
    from parsed [OF this] obtain sg' where sg': "parseCompactSignature sig' = Inr sg'" ..
    have "hex_number (drop 68 sig) + hex_number (drop 68 sig') \<le> SECP256K1_HALF_N + SECP256K1_HALF_N"
      using parse_ok(4) [OF sg] parse_ok(4) [OF sg'] by simp
    also have "\<dots> < SECP256K1_N" by (simp add: SECP256K1_HALF_N_def SECP256K1_N_def)
    finally show False using assms(2) by simp
  qed
  ultimately show ?thesis by blast
qed

definition demo_recovery :: crypto_lib where
  "demo_recovery = \<lparr>cl_computeAddress = (\<lambda>_. Some ''0xa''), cl_getAddress = Some, cl_hashMessage = id,
     cl_recoverAddress = (\<lambda>_ _ _ _. Some ''0xa'')\<rparr>"

definition demo_signature :: "string \<Rightarrow> string" where
  "demo_signature s = ''0x00'' @ replicate 63 CHR ''0'' @ ''1'' @ s"

definition low_s :: string where
  "low_s = replicate 63 CHR ''0'' @ ''1''"

definition high_s :: string where
  "high_s = ''FFFFFFFFFFFFFFFFFFFFFFFFFFFFFFFEBAAEDCE6AF48A03BBFD25E8CD0364140''"

lemma zero_digit: "js_lower_char CHR ''0'' = CHR ''0''" "js_lower_char CHR ''1'' = CHR ''1''" "digit_value CHR ''0'' = 0"
  "is_hex CHR ''0''" "is_hex CHR ''1''" "hex_number ''1'' = 1"
  by code_simp+

lemma hex_number_zeros: "hex_number (replicate n CHR ''0'' @ s) = hex_number s"
  by (induction n) (simp_all add: hex_number_def zero_digit(3))

lemma hex_number_00: "hex_number ''00'' = 0"
  by code_simp

lemma upper_digits:
  "map digit_value ''0123456789ABCDEF'' = [0, 1, 2, 3, 4, 5, 6, 7, 8, 9, 10, 11, 12, 13, 14, 15]"
  by code_simp

lemma hex_number_high: "hex_number high_s = SECP256K1_N - 1"
  using upper_digits by (simp add: hex_number_def high_s_def SECP256K1_N_def)

lemma list_all_zeros: "list_all is_hex (replicate n CHR ''0'')"
  by (induction n) (simp_all add: zero_digit)

lemma demo_verifies:
  "verifyCompactSignature demo_recovery m (''0x'' @ replicate 128 CHR ''0'') (demo_signature low_s)"
proof -
  let ?h = "''00'' @ replicate 63 CHR ''0'' @ ''1'' @ replicate 63 CHR ''0'' @ ''1''"
  have "canonicalHex (demo_signature low_s) SIGNATURE_BYTES ''signature'' = Inr ?h"
    by (simp add: canonicalHex_def demo_signature_def low_s_def startsWith_def hex_of_length_def
        SIGNATURE_BYTES_def toLowerCase_def zero_digit list_all_zeros)
  moreover have "take 2 ?h = ''00''" by simp
  moreover have "take 64 (drop 2 ?h) = replicate 63 CHR ''0'' @ ''1''" by simp
  moreover have "drop 66 ?h = replicate 63 CHR ''0'' @ ''1''" by simp
  ultimately have "\<exists>sg. parseCompactSignature (demo_signature low_s) = Inr sg"
    by (simp only: parseCompactSignature_def andThen.simps Let_def hex_number_00 hex_number_zeros zero_digit)
       (simp add: SECP256K1_HALF_N_def SECP256K1_N_def)
  moreover have "publicKeyToEvmAddress demo_recovery (''0x'' @ replicate 128 CHR ''0'') = Inr ''0xa''"
    by (simp add: publicKeyToEvmAddress_def canonicalHex_def startsWith_def hex_of_length_def
        PUBLIC_KEY_BYTES_def zero_digit list_all_zeros demo_recovery_def)
  ultimately show ?thesis by (auto simp: verifyCompactSignature_def demo_recovery_def)
qed

theorem signature_not_malleable_witness:
  "verifyCompactSignature demo_recovery ''m'' (''0x'' @ replicate 128 CHR ''0'') (demo_signature low_s) \<and>
   \<not> verifyCompactSignature demo_recovery ''m'' (''0x'' @ replicate 128 CHR ''0'') (demo_signature high_s)"
proof -
  have "drop 68 (demo_signature s) = s" for s by (simp add: demo_signature_def)
  moreover have "hex_number low_s = 1" by (simp only: low_s_def hex_number_zeros zero_digit)
  ultimately have "hex_number (drop 68 (demo_signature low_s)) + hex_number (drop 68 (demo_signature high_s)) = SECP256K1_N"
    by (simp add: hex_number_high)
  from signature_not_malleable [OF demo_verifies this] demo_verifies show ?thesis by blast
qed

end
