(* ===== verification/Consensus.thy ===== *)
theory Consensus
  imports EvmReads Crypto
begin

text \<open>
  \<^verbatim>\<open>backend/src/blockchain/besu-consensus.ts\<close>: the validator set and the committee of a
  height, from two extensions of the Besu node.  The responses are values of type unknown, and
  every field is checked before it is used.  The JSON-RPC call and \<^verbatim>\<open>Date.parse\<close> are
  arguments.
\<close>

section \<open>Checking a response\<close>

definition invalidResponse :: "string \<Rightarrow> string \<Rightarrow> error" where
  "invalidResponse method detail =
     BlockchainError NETWORK (method @ '' returned an invalid response: '' @ detail)"

definition stringField :: "jsval \<Rightarrow> string \<Rightarrow> string \<Rightarrow> error + string" where
  "stringField v field method = (case text_of v of
       Some s \<Rightarrow> Inr s
     | None \<Rightarrow> Inl (invalidResponse method (field @ '' must be a non-empty string'')))"

definition validatorId :: "ethers \<Rightarrow> jsval \<Rightarrow> string \<Rightarrow> string \<Rightarrow> error + string" where
  "validatorId et v field method =
     andThen (stringField v field method) (\<lambda>i.
       if isAddress et i then Inr i
       else Inl (invalidResponse method (field @ '' must be an EVM address'')))"

definition publicKey :: "jsval \<Rightarrow> string \<Rightarrow> string \<Rightarrow> error + string" where
  "publicKey v field method =
     andThen (stringField v field method) (\<lambda>k.
       if startsWith k ''0x'' \<and> hex_of_length 128 (drop 2 k) then Inr k
       else Inl (invalidResponse method (field @ '' must be a 0x-prefixed 64-byte X || Y public key'')))"

definition responseHeight :: "jsval \<Rightarrow> string \<Rightarrow> error + int" where
  "responseHeight v method =
     (let bad = Inl (invalidResponse method ''height must be a non-negative safe integer'') in
      case v of JNum n \<Rightarrow> if isSafeInteger n \<and> num_int n \<ge> 0 then Inr (num_int n) else bad
      | _ \<Rightarrow> bad)"

definition VALIDATOR_STATUSES :: "(string \<times> validator_status) list" where
  "VALIDATOR_STATUSES = [(''ACTIVE'', V_ACTIVE), (''INACTIVE'', V_INACTIVE), (''SLASHED'', V_SLASHED)]"

definition validatorStatus :: "jsval \<Rightarrow> string \<Rightarrow> error + validator_status" where
  "validatorStatus v method =
     (case Option.bind (as_str v) (map_of VALIDATOR_STATUSES) of
        Some st \<Rightarrow> Inr st
      | None \<Rightarrow> Inl (invalidResponse method
          (''status must be one of '' @ join '', '' (map fst VALIDATOR_STATUSES))))"

text \<open>
  The test \<^verbatim>\<open>/^\d{4}-\d{2}-\d{2}T\d{2}:\d{2}:\d{2}(?:\.\d+)?(?:Z|[+-]\d{2}:\d{2})$/\<close>: in a
  template a \<^verbatim>\<open>d\<close> stands for a digit and any other character for itself.
\<close>

definition matches :: "string \<Rightarrow> string \<Rightarrow> bool" where
  "matches template s \<longleftrightarrow>
     list_all2 (\<lambda>t c. if t = CHR ''d'' then is_digit c else t = c) template s"

definition zone_ok :: "string \<Rightarrow> bool" where
  "zone_ok s \<longleftrightarrow> s = ''Z'' \<or> matches ''+dd:dd'' s \<or> matches ''-dd:dd'' s"

definition iso_shape :: "string \<Rightarrow> bool" where
  "iso_shape s \<longleftrightarrow> matches ''dddd-dd-ddTdd:dd:dd'' (take 19 s) \<and>
     (let r = drop 19 s in
      zone_ok r \<or>
      (case r of [] \<Rightarrow> False
       | c # rest \<Rightarrow> c = CHR ''.'' \<and> takeWhile is_digit rest \<noteq> [] \<and> zone_ok (dropWhile is_digit rest)))"

definition isoDate :: "(string \<Rightarrow> int option) \<Rightarrow> jsval \<Rightarrow> string \<Rightarrow> error + date_str" where
  "isoDate parse v method =
     andThen (stringField v ''joinedAt'' method) (\<lambda>s.
       case (if iso_shape s then parse s else None) of
         Some t \<Rightarrow> Inr (Iso t)
       | None \<Rightarrow> Inl (invalidResponse method ''joinedAt must be an ISO date-time string''))"

text \<open>\<^verbatim>\<open>xs.map((x, i) => f(x, i))\<close> for a function that may throw.\<close>

fun map_index :: "(nat \<Rightarrow> 'a \<Rightarrow> error + 'b) \<Rightarrow> nat \<Rightarrow> 'a list \<Rightarrow> error + 'b list" where
  "map_index f i [] = Inr []"
| "map_index f i (x # xs) =
     andThen (f i x) (\<lambda>y. andThen (map_index f (Suc i) xs) (\<lambda>ys. Inr (y # ys)))"

definition at_index :: "string \<Rightarrow> nat \<Rightarrow> string" where
  "at_index name i = name @ ''['' @ show_nat i @ '']''"

definition parse_validator ::
  "ethers \<Rightarrow> (string \<Rightarrow> int option) \<Rightarrow> string \<Rightarrow> nat \<Rightarrow> jsval \<Rightarrow> error + validator" where
  "parse_validator et parse method i v =
     (case v of JObj e \<Rightarrow>
        andThen (validatorId et (fld e ''validatorId'') (at_index ''validators'' i @ ''.validatorId'') method) (\<lambda>vid.
        andThen (publicKey (fld e ''publicKey'') (at_index ''validators'' i @ ''.publicKey'') method) (\<lambda>key.
        andThen (validatorStatus (fld e ''status'') method) (\<lambda>st.
        andThen (isoDate parse (fld e ''joinedAt'') method) (\<lambda>joined.
          Inr \<lparr>val_validatorId = vid, val_publicKey = key, val_status = st, val_joinedAt = joined\<rparr>))))
      | _ \<Rightarrow> Inl (invalidResponse method (at_index ''validators'' i @ '' must be an object'')))"

definition parseValidators ::
  "ethers \<Rightarrow> (string \<Rightarrow> int option) \<Rightarrow> jsval \<Rightarrow> error + int \<times> validator list" where
  "parseValidators et parse v =
     (let method = ''bel_getValidators'' in
      case v of JObj r \<Rightarrow>
        andThen (responseHeight (fld r ''height'') method) (\<lambda>height.
          case fld r ''validators'' of
            JArr vs \<Rightarrow> andThen (map_index (parse_validator et parse method) 0 vs) (\<lambda>ws. Inr (height, ws))
          | _ \<Rightarrow> Inl (invalidResponse method ''validators must be an array''))
      | _ \<Rightarrow> Inl (invalidResponse method ''response must be an object''))"

definition parseCommittee :: "ethers \<Rightarrow> jsval \<Rightarrow> error + int \<times> string list" where
  "parseCommittee et v =
     (let method = ''bel_getCommittee'' in
      case v of JObj r \<Rightarrow>
        andThen (responseHeight (fld r ''height'') method) (\<lambda>height.
          case fld r ''validatorIds'' of
            JArr vs \<Rightarrow>
              andThen (map_index (\<lambda>i x. validatorId et x (at_index ''validatorIds'' i) method) 0 vs)
                (\<lambda>ids. Inr (height, ids))
          | _ \<Rightarrow> Inl (invalidResponse method ''validatorIds must be an array''))
      | _ \<Rightarrow> Inl (invalidResponse method ''response must be an object''))"

text \<open>\<^verbatim>\<open>n.toString(16)\<close>.\<close>

definition hex_char :: "nat \<Rightarrow> char" where
  "hex_char d = char_of (if d < 10 then 48 + d else 87 + d)"

fun to_hex :: "nat \<Rightarrow> string" where
  "to_hex n = (if n < 16 then [hex_char n] else to_hex (n div 16) @ [hex_char (n mod 16)])"

declare to_hex.simps [simp del]

definition quantity :: "jsnum \<Rightarrow> error + string" where
  "quantity height =
     (if \<not> isSafeInteger height \<or> num_int height < 0
      then Inl (BlockchainError INVALID_PAYLOAD ''Committee height must be a non-negative safe integer'')
      else Inr (''0x'' @ to_hex (nat (num_int height))))"

section \<open>The consensus source\<close>

record 'n besu =
  be_send :: "string \<Rightarrow> string \<Rightarrow> ('n, js_error, jsval) m"
  be_ethers :: ethers
  be_dateParse :: "string \<Rightarrow> int option"

definition pureE :: "error + 'a \<Rightarrow> ('n, 'a) adm" where
  "pureE r = query (\<lambda>_. map_sum Typed id r)"

definition besu_send :: "'n besu \<Rightarrow> string \<Rightarrow> string \<Rightarrow> ('n, jsval) adm" where
  "besu_send be method param =
     catchE (rpc (be_send be method param)) (\<lambda>_. fail NETWORK (method @ '' RPC request failed''))"

definition besu_getValidators :: "'n besu \<Rightarrow> ('n, validator list) adm" where
  "besu_getValidators be =
     bindE (besu_send be ''bel_getValidators'' ''latest'') (\<lambda>v.
     bindE (pureE (parseValidators (be_ethers be) (be_dateParse be) v)) (\<lambda>p. ret (snd p)))"

definition besu_getCommittee :: "'n besu \<Rightarrow> jsnum \<Rightarrow> ('n, string list) adm" where
  "besu_getCommittee be height =
     bindE (pureE (quantity height)) (\<lambda>block.
     bindE (besu_send be ''bel_getCommittee'' block) (\<lambda>v.
     bindE (pureE (parseCommittee (be_ethers be) v)) (\<lambda>p.
       if fst p \<noteq> num_int height
       then throw (Typed (invalidResponse ''bel_getCommittee'' (''height '' @ show_int (fst p) @
              '' does not match requested height '' @ show_int (num_int height))))
       else ret (snd p))))"

definition besu_consensus :: "'n besu \<Rightarrow> 'n consensus" where
  "besu_consensus be = \<lparr>co_getValidators = besu_getValidators be, co_getCommittee = besu_getCommittee be\<rparr>"

section \<open>Properties\<close>

lemma map_index_all:
  "map_index f i xs = Inr ys \<Longrightarrow> (\<And>i x y. f i x = Inr y \<Longrightarrow> P y) \<Longrightarrow> length ys = length xs \<and> (\<forall>y \<in> set ys. P y)"
  by (induction xs arbitrary: i ys) (auto simp: run)

lemma pureE_ok [run]: "pureE r s = (Inr x, s') \<longleftrightarrow> r = Inr x \<and> s' = s"
  by (cases r) (auto simp: pureE_def run)

lemma validatorId_ok: "validatorId et v f me = Inr i \<Longrightarrow> isAddress et i"
  by (auto simp: validatorId_def run split: if_splits)

lemma hex_chars:
  "map hex_char [0, 1, 2, 3, 4, 5, 6, 7, 8, 9, 10, 11, 12, 13, 14, 15] = ''0123456789abcdef''"
  "map digit_value ''0123456789abcdef'' = [0, 1, 2, 3, 4, 5, 6, 7, 8, 9, 10, 11, 12, 13, 14, 15]"
  by code_simp+

lemma hex_char_digit: "d < 16 \<Longrightarrow> digit_value (hex_char d) = int d \<and> is_hex (hex_char d)"
proof -
  assume "d < 16"
  then have "d \<in> {0, 1, 2, 3, 4, 5, 6, 7, 8, 9, 10, 11, 12, 13, 14, 15}" by (simp, presburger)
  then show ?thesis using hex_chars by (auto simp: is_hex_def)
qed

lemma to_hex_val: "hex_number (to_hex n) = int n \<and> list_all is_hex (to_hex n)"
proof (induction n rule: less_induct)
  case (less n)
  show ?case
  proof (cases "n < 16")
    case True
    then show ?thesis by (simp add: to_hex.simps [of n] hex_number_def hex_char_digit)
  next
    case False
    then have "n div 16 < n" by simp
    from less.IH [OF this] have "hex_number (to_hex (n div 16) @ [hex_char (n mod 16)]) = 16 * int (n div 16) + int (n mod 16)"
      by (simp add: hex_number_def hex_char_digit)
    also have "\<dots> = int n" by presburger
    finally show ?thesis using less.IH [OF \<open>n div 16 < n\<close>] False
      by (simp add: to_hex.simps [of n] hex_char_digit)
  qed
qed

text \<open>
  A committee is only ever the committee that was asked for: the height is sent as the hexadecimal
  quantity that denotes it, the response must name the same height, and every member of the
  returned list is an EVM address.
\<close>

theorem committee_of_requested_height:
  assumes "besu_getCommittee be height s = (Inr ids, s')"
  shows "isSafeInteger height" "0 \<le> num_int height"
    "\<exists>v n n'. be_send be ''bel_getCommittee'' (''0x'' @ to_hex (nat (num_int height))) n = (Inr v, n') \<and>
       parseCommittee (be_ethers be) v = Inr (num_int height, ids)"
    "hex_number (to_hex (nat (num_int height))) = num_int height" "list_all (isAddress (be_ethers be)) ids"
proof -
  from assms obtain v n n' where q: "isSafeInteger height" "0 \<le> num_int height"
    and send: "be_send be ''bel_getCommittee'' (''0x'' @ to_hex (nat (num_int height))) n = (Inr v, n')"
    and parse: "parseCommittee (be_ethers be) v = Inr (num_int height, ids)"
    by (auto simp: besu_getCommittee_def besu_send_def quantity_def run split: if_splits)
  show "isSafeInteger height" "0 \<le> num_int height" by (fact q)+
  show "\<exists>v n n'. be_send be ''bel_getCommittee'' (''0x'' @ to_hex (nat (num_int height))) n = (Inr v, n') \<and>
       parseCommittee (be_ethers be) v = Inr (num_int height, ids)" using send parse by blast
  show "hex_number (to_hex (nat (num_int height))) = num_int height" using q to_hex_val by simp
  from parse obtain vs where "map_index (\<lambda>i x. validatorId (be_ethers be) x (at_index ''validatorIds'' i) ''bel_getCommittee'') 0 vs = Inr ids"
    by (auto simp: parseCommittee_def run Let_def split: jsval.splits) (metis jsval.exhaust)
  from map_index_all [OF this, of "isAddress (be_ethers be)"] validatorId_ok show "list_all (isAddress (be_ethers be)) ids"
    by (auto simp: list_all_iff)
qed

definition demo_besu :: "int besu" where
  "demo_besu = \<lparr>be_send = (\<lambda>_ p. if p = ''0x1f'' then ret (JObj [(''height'', JNum (Fin 31)), (''validatorIds'', JArr [JStr demo_wallet])])
     else throw \<lparr>je_value = JNull, je_text = ''unknown block''\<rparr>), be_ethers = demo_ethers, be_dateParse = (\<lambda>_. None)\<rparr>"

theorem committee_of_requested_height_witness:
  "besu_getCommittee demo_besu (JsValues.Fin 31) demo_evm = (Inr [demo_wallet], demo_evm) \<and>
   list_all (isAddress demo_ethers) [demo_wallet]"
proof -
  have *: "besu_getCommittee demo_besu (JsValues.Fin 31) demo_evm = (Inr [demo_wallet], demo_evm)" by code_simp
  have "be_ethers demo_besu = demo_ethers" by (simp add: demo_besu_def)
  with committee_of_requested_height(5) [OF *] * show ?thesis by simp
qed

end
