(* ===== verification/Rbac.thy ===== *)
theory Rbac
  imports Shared
begin

text \<open>
  The permission matrix of \<^verbatim>\<open>shared/rbac\<close>, its resolution against a request context, the
  middleware of \<^verbatim>\<open>auth/rbac.middleware.ts\<close> and the runtime shape validators of
  \<^verbatim>\<open>shared/schemas\<close>.  Roles and actions are instances of the library's class of
  enumerable types, so a statement about every cell of the matrix is decided by evaluation.
\<close>

section \<open>The matrix\<close>

datatype action =
    CREATE_EMPLOYEE | REVOKE_WALLET | ACTIVATE_WALLET | REGISTER_ASSET | CREATE_JOB
  | ASSIGN_TECHNICIAN | PERFORM_MAINTENANCE | VERIFY_MAINTENANCE | TRANSFER_ASSET
  | VIEW_AUDIT_HISTORY | VIEW_VALIDATOR_STATUS | MANAGE_VALIDATORS

definition ACTIONS :: "action list" where
  "ACTIONS = [CREATE_EMPLOYEE, REVOKE_WALLET, ACTIVATE_WALLET, REGISTER_ASSET, CREATE_JOB,
     ASSIGN_TECHNICIAN, PERFORM_MAINTENANCE, VERIFY_MAINTENANCE, TRANSFER_ASSET,
     VIEW_AUDIT_HISTORY, VIEW_VALIDATOR_STATUS, MANAGE_VALIDATORS]"

fun show_action :: "action \<Rightarrow> string" where
  "show_action CREATE_EMPLOYEE = ''CREATE_EMPLOYEE''"
| "show_action REVOKE_WALLET = ''REVOKE_WALLET''"
| "show_action ACTIVATE_WALLET = ''ACTIVATE_WALLET''"
| "show_action REGISTER_ASSET = ''REGISTER_ASSET''"
| "show_action CREATE_JOB = ''CREATE_JOB''"
| "show_action ASSIGN_TECHNICIAN = ''ASSIGN_TECHNICIAN''"
| "show_action PERFORM_MAINTENANCE = ''PERFORM_MAINTENANCE''"
| "show_action VERIFY_MAINTENANCE = ''VERIFY_MAINTENANCE''"
| "show_action TRANSFER_ASSET = ''TRANSFER_ASSET''"
| "show_action VIEW_AUDIT_HISTORY = ''VIEW_AUDIT_HISTORY''"
| "show_action VIEW_VALIDATOR_STATUS = ''VIEW_VALIDATOR_STATUS''"
| "show_action MANAGE_VALIDATORS = ''MANAGE_VALIDATORS''"

datatype permission = ALLOW | DENY | AUTH | OWN

text \<open>The rows of the matrix, in the order in which the source writes the roles.\<close>

fun RBAC_MATRIX :: "action \<Rightarrow> (role \<times> permission) list" where
  "RBAC_MATRIX CREATE_EMPLOYEE = zip ROLES [ALLOW, DENY, DENY, DENY, DENY, DENY, DENY]"
| "RBAC_MATRIX REVOKE_WALLET = zip ROLES [ALLOW, DENY, DENY, DENY, DENY, DENY, DENY]"
| "RBAC_MATRIX ACTIVATE_WALLET = zip ROLES [ALLOW, DENY, DENY, DENY, DENY, ALLOW, DENY]"
| "RBAC_MATRIX REGISTER_ASSET = zip ROLES [ALLOW, ALLOW, ALLOW, DENY, DENY, ALLOW, DENY]"
| "RBAC_MATRIX CREATE_JOB = zip ROLES [DENY, ALLOW, ALLOW, DENY, DENY, DENY, DENY]"
| "RBAC_MATRIX ASSIGN_TECHNICIAN = zip ROLES [DENY, ALLOW, ALLOW, DENY, DENY, DENY, DENY]"
| "RBAC_MATRIX PERFORM_MAINTENANCE = zip ROLES [DENY, DENY, ALLOW, ALLOW, DENY, DENY, DENY]"
| "RBAC_MATRIX VERIFY_MAINTENANCE = zip ROLES [DENY, ALLOW, ALLOW, DENY, ALLOW, DENY, ALLOW]"
| "RBAC_MATRIX TRANSFER_ASSET = zip ROLES [ALLOW, ALLOW, AUTH, DENY, DENY, DENY, DENY]"
| "RBAC_MATRIX VIEW_AUDIT_HISTORY = zip ROLES [ALLOW, ALLOW, ALLOW, OWN, ALLOW, DENY, ALLOW]"
| "RBAC_MATRIX VIEW_VALIDATOR_STATUS = zip ROLES [ALLOW, ALLOW, ALLOW, ALLOW, ALLOW, ALLOW, ALLOW]"
| "RBAC_MATRIX MANAGE_VALIDATORS = zip ROLES [ALLOW, DENY, DENY, DENY, DENY, DENY, DENY]"

record permission_context =
  pc_actorId :: "string option"
  pc_resourceOwnerId :: "string option"
  pc_authorizationGrantId :: "string option"
  pc_explicitlyAuthorized :: "bool option"

definition no_context :: permission_context where
  "no_context = \<lparr>pc_actorId = None, pc_resourceOwnerId = None, pc_authorizationGrantId = None,
     pc_explicitlyAuthorized = None\<rparr>"

definition permissionFor :: "role \<Rightarrow> action \<Rightarrow> permission" where
  "permissionFor r a = the (map_of (RBAC_MATRIX a) r)"

definition can :: "role \<Rightarrow> action \<Rightarrow> permission_context \<Rightarrow> bool" where
  "can r a ctx = (case permissionFor r a of
     ALLOW \<Rightarrow> True
   | DENY \<Rightarrow> False
   | AUTH \<Rightarrow> pc_explicitlyAuthorized ctx = Some True \<and>
       (case pc_authorizationGrantId ctx of None \<Rightarrow> False | Some g \<Rightarrow> g \<noteq> [])
   | OWN \<Rightarrow> pc_actorId ctx \<noteq> None \<and> pc_resourceOwnerId ctx \<noteq> None \<and>
       pc_actorId ctx = pc_resourceOwnerId ctx)"

definition rolesDeniedFor :: "action \<Rightarrow> role list" where
  "rolesDeniedFor a = filter (\<lambda>r. map_of (RBAC_MATRIX a) r = Some DENY) (map fst (RBAC_MATRIX a))"

section \<open>Middleware\<close>

text \<open>
  A middleware either calls \<^verbatim>\<open>next()\<close> (\<open>Inr\<close>) or \<^verbatim>\<open>next(err)\<close>
  (\<open>Inl\<close>).  A resolver may throw; in the spread \<^verbatim>\<open>{ actorId, ...ctx }\<close> an
  actor that the resolver sets takes precedence over the actor of the session.
\<close>

definition with_actor :: "string \<Rightarrow> permission_context \<Rightarrow> permission_context" where
  "with_actor i ctx = ctx\<lparr>pc_actorId := (case pc_actorId ctx of None \<Rightarrow> Some i | Some x \<Rightarrow> Some x)\<rparr>"

definition requirePermission ::
    "action \<Rightarrow> (user \<Rightarrow> error + permission_context) option \<Rightarrow> user option \<Rightarrow> error + unit" where
  "requirePermission a resolve u = (case u of
     None \<Rightarrow> Inl (UnauthorizedError ''No valid session'')
   | Some usr \<Rightarrow>
       (case (case resolve of None \<Rightarrow> Inr no_context | Some f \<Rightarrow> f usr) of
          Inl e \<Rightarrow> Inl e
        | Inr ctx \<Rightarrow>
            if can (usr_role usr) a (with_actor (usr_identityId usr) ctx) then Inr ()
            else Inl (ForbiddenError (''Role '' @ show_role (usr_role usr) @ '' may not perform '' @ show_action a))))"

definition requireRole :: "role list \<Rightarrow> user option \<Rightarrow> error + unit" where
  "requireRole allowed u = (case u of
     None \<Rightarrow> Inl (UnauthorizedError ''No valid session'')
   | Some usr \<Rightarrow>
       if usr_role usr \<in> set allowed then Inr ()
       else Inl (ForbiddenError (''Role '' @ show_role (usr_role usr) @ '' is not permitted here'')))"

definition requireActiveIdentity :: "user option \<Rightarrow> error + unit" where
  "requireActiveIdentity u = (case u of
     None \<Rightarrow> Inl (UnauthorizedError ''No valid session'')
   | Some usr \<Rightarrow>
       if usr_status usr \<noteq> I_ACTIVE
       then Inl (ForbiddenError (''Identity is '' @ show_identity_status (usr_status usr)))
       else Inr ())"

definition requireSession :: "user option \<Rightarrow> error + unit" where
  "requireSession u = (case u of None \<Rightarrow> Inl (UnauthorizedError ''No valid session'') | Some _ \<Rightarrow> Inr ())"

text \<open>Middlewares run in order; the first error ends the chain.\<close>

fun middlewares :: "(error + unit) list \<Rightarrow> error + unit" where
  "middlewares [] = Inr ()"
| "middlewares (Inl e # ms) = Inl e"
| "middlewares (Inr u # ms) = middlewares ms"

lemma middlewares_ok [simp]: "middlewares ms = Inr u \<longleftrightarrow> (\<forall>m \<in> set ms. m = Inr ())"
  by (induction ms rule: middlewares.induct) auto

lemma requirePermission_ok:
  "requirePermission a resolve u = Inr v \<longleftrightarrow>
     (\<exists>usr ctx. u = Some usr \<and> (case resolve of None \<Rightarrow> Inr no_context | Some f \<Rightarrow> f usr) = Inr ctx \<and>
        can (usr_role usr) a (with_actor (usr_identityId usr) ctx))"
  by (auto simp: requirePermission_def split: option.splits sum.splits if_splits)

section \<open>Enumerable roles and actions\<close>

instantiation role :: enum
begin

definition enum_role :: "role list" where "enum_role = ROLES"

definition enum_all_role :: "(role \<Rightarrow> bool) \<Rightarrow> bool" where "enum_all_role P \<longleftrightarrow> list_all P ROLES"

definition enum_ex_role :: "(role \<Rightarrow> bool) \<Rightarrow> bool" where "enum_ex_role P \<longleftrightarrow> list_ex P ROLES"

instance
proof
  show univ: "UNIV = set (enum_class.enum :: role list)"
  proof (rule set_eqI)
    show "x \<in> UNIV \<longleftrightarrow> x \<in> set enum_class.enum" for x :: role
      by (cases x) (simp_all add: enum_role_def ROLES_def)
  qed
  show "distinct (enum_class.enum :: role list)" by (simp add: enum_role_def ROLES_def)
  show "enum_class.enum_all P \<longleftrightarrow> Ball UNIV P" for P :: "role \<Rightarrow> bool"
    using univ by (auto simp: enum_all_role_def enum_role_def list_all_iff)
  show "enum_class.enum_ex P \<longleftrightarrow> Bex UNIV P" for P :: "role \<Rightarrow> bool"
    using univ by (auto simp: enum_ex_role_def enum_role_def list_ex_iff)
qed

end

instantiation action :: enum
begin

definition enum_action :: "action list" where "enum_action = ACTIONS"

definition enum_all_action :: "(action \<Rightarrow> bool) \<Rightarrow> bool" where
  "enum_all_action P \<longleftrightarrow> list_all P ACTIONS"

definition enum_ex_action :: "(action \<Rightarrow> bool) \<Rightarrow> bool" where
  "enum_ex_action P \<longleftrightarrow> list_ex P ACTIONS"

instance
proof
  show univ: "UNIV = set (enum_class.enum :: action list)"
  proof (rule set_eqI)
    show "x \<in> UNIV \<longleftrightarrow> x \<in> set enum_class.enum" for x :: action
      by (cases x) (simp_all add: enum_action_def ACTIONS_def)
  qed
  show "distinct (enum_class.enum :: action list)" by (simp add: enum_action_def ACTIONS_def)
  show "enum_class.enum_all P \<longleftrightarrow> Ball UNIV P" for P :: "action \<Rightarrow> bool"
    using univ by (auto simp: enum_all_action_def enum_action_def list_all_iff)
  show "enum_class.enum_ex P \<longleftrightarrow> Bex UNIV P" for P :: "action \<Rightarrow> bool"
    using univ by (auto simp: enum_ex_action_def enum_action_def list_ex_iff)
qed

end

section \<open>Shape validators\<close>

definition isOneOf :: "jsval \<Rightarrow> string list \<Rightarrow> bool" where
  "isOneOf v allowed = (case v of JStr s \<Rightarrow> s \<in> set allowed | _ \<Rightarrow> False)"

definition isValidRole :: "jsval \<Rightarrow> bool" where
  "isValidRole v = isOneOf v (map show_role ROLES)"

definition role_of :: "string \<Rightarrow> role option" where
  "role_of s = find (\<lambda>r. show_role r = s) ROLES"

section \<open>Properties\<close>

lemma matrix_total: "\<forall>a r. map_of (RBAC_MATRIX a) r \<noteq> None"
  by code_simp

lemma can_iff_cell:
  "permissionFor r a = DENY \<Longrightarrow> \<not> can r a ctx"
  "permissionFor r a \<noteq> DENY \<Longrightarrow>
     can r a \<lparr>pc_actorId = Some i, pc_resourceOwnerId = Some i,
       pc_authorizationGrantId = Some ''g'', pc_explicitlyAuthorized = Some True\<rparr>"
  by (cases "permissionFor r a"; simp add: can_def)+

lemma rolesDeniedFor_cell: "\<forall>a r. r \<in> set (rolesDeniedFor a) \<longleftrightarrow> permissionFor r a = DENY"
  by code_simp

text \<open>
  \<^verbatim>\<open>rolesDeniedFor\<close> is exact: it lists precisely the roles for which no request
  context whatsoever makes the action permitted.
\<close>

theorem rolesDeniedFor_exact: "r \<in> set (rolesDeniedFor a) \<longleftrightarrow> (\<forall>ctx. \<not> can r a ctx)"
  using rolesDeniedFor_cell can_iff_cell by blast

text \<open>
  Duties are separated in the matrix: whatever the context, the pure technician role never
  verifies work, the roles that verify without performing never perform it, and administrators
  take no part in jobs; only the engineer role may both perform and verify.
\<close>

theorem duties_separated:
  "{r. (\<exists>c. can r PERFORM_MAINTENANCE c) \<and> (\<exists>c. can r VERIFY_MAINTENANCE c)} = {ENGINEER} \<and>
   (\<forall>c. \<not> can ADMIN CREATE_JOB c \<and> \<not> can ADMIN ASSIGN_TECHNICIAN c \<and>
        \<not> can ADMIN PERFORM_MAINTENANCE c \<and> \<not> can ADMIN VERIFY_MAINTENANCE c)"
proof -
  have "(\<exists>c. can r PERFORM_MAINTENANCE c) \<and> (\<exists>c. can r VERIFY_MAINTENANCE c) \<longleftrightarrow> r = ENGINEER" for r
    by (cases r) (simp_all add: can_def permissionFor_def ROLES_def)
  then show ?thesis by (auto simp: can_def permissionFor_def ROLES_def)
qed

end
