(* ===== verification/Repositories.thy ===== *)
theory Repositories
  imports Shared
begin

text \<open>
  The persistence ports (\<^verbatim>\<open>AssetRepository\<close>, \<^verbatim>\<open>JobRepository\<close> and the ports of
  \<^verbatim>\<open>users/repositories.ts\<close>) as one locale, the in-memory adapters that implement them,
  and the interpretation of the locale on each adapter.  The theory \<open>Durable\<close>
  models the Prisma adapters of the same ports.
\<close>

section \<open>The contract of a keyed repository\<close>

locale repository =
  fixes findById :: "'r \<Rightarrow> 'k \<Rightarrow> 'v option"
    and listAll :: "'r \<Rightarrow> 'v list"
    and save :: "'v \<Rightarrow> 'r \<Rightarrow> 'r"
    and key :: "'v \<Rightarrow> 'k"
    and ok :: "'r \<Rightarrow> bool"
  assumes find_save: "findById (save v r) k = (if k = key v then Some v else findById r k)"
    and find_key: "ok r \<Longrightarrow> findById r k = Some v \<Longrightarrow> key v = k"
    and list_find: "ok r \<Longrightarrow> v \<in> set (listAll r) \<longleftrightarrow> findById r (key v) = Some v"
    and ok_save: "ok r \<Longrightarrow> ok (save v r)"
begin

lemma read_your_write: "findById (save v r) (key v) = Some v"
  by (simp add: find_save)

lemma find_other: "k \<noteq> key v \<Longrightarrow> findById (save v r) k = findById r k"
  by (simp add: find_save)

lemma last_save_wins: "key v = key w \<Longrightarrow> findById (save w (save v r)) = findById (save w r)"
  by (auto simp: find_save fun_eq_iff)

lemma list_save:
  assumes "ok r"
  shows "set (listAll (save v r)) = insert v {w \<in> set (listAll r). key w \<noteq> key v}"
  using list_find [OF ok_save [OF assms]] list_find [OF assms]
  by (auto simp: find_save split: if_splits)

lemma all_save:
  assumes "ok r" "\<forall>w \<in> set (listAll r). P w" "P v"
  shows "\<forall>w \<in> set (listAll (save v r)). P w"
  using assms by (auto simp: list_save)

lemma all_find: "ok r \<Longrightarrow> \<forall>w \<in> set (listAll r). P w \<Longrightarrow> findById r k = Some v \<Longrightarrow> P v"
  using list_find find_key by blast

end

text \<open>An insertion-ordered map in which every value is stored under its key meets the contract.\<close>

lemma keyed_repository:
  "repository (\<lambda>m. js_get m) (\<lambda>m. js_values m) (\<lambda>v. js_set (key v) v) key (keyed key)"
proof
  fix m :: "('a, 'b) jsmap" and v :: 'b
  assume "keyed key m"
  then show "v \<in> set (js_values m) \<longleftrightarrow> js_get m (key v) = Some v" by (rule keyed_values)
qed (auto intro: keyed_set dest: keyed_get)

section \<open>Jobs and assets\<close>

type_synonym job_repo = "(string, job) jsmap"
type_synonym asset_repo = "(string, asset) jsmap"

definition jobs_findById :: "job_repo \<Rightarrow> string \<Rightarrow> job option" where
  "jobs_findById r i = js_get r i"

definition jobs_list :: "job_repo \<Rightarrow> job list" where
  "jobs_list r = js_values r"

definition jobs_save :: "job \<Rightarrow> job_repo \<Rightarrow> job_repo" where
  "jobs_save j r = js_set (job_jobId j) j r"

definition assets_findById :: "asset_repo \<Rightarrow> string \<Rightarrow> asset option" where
  "assets_findById r i = js_get r i"

definition assets_list :: "asset_repo \<Rightarrow> asset list" where
  "assets_list r = js_values r"

definition assets_save :: "asset \<Rightarrow> asset_repo \<Rightarrow> asset_repo" where
  "assets_save a r = js_set (as_assetId a) a r"

lemmas job_repo_defs = jobs_findById_def jobs_list_def jobs_save_def
lemmas asset_repo_defs = assets_findById_def assets_list_def assets_save_def

interpretation job_repo: repository jobs_findById jobs_list jobs_save job_jobId "keyed job_jobId"
  unfolding job_repo_defs [abs_def] by (rule keyed_repository)

interpretation asset_repo: repository assets_findById assets_list assets_save as_assetId "keyed as_assetId"
  unfolding asset_repo_defs [abs_def] by (rule keyed_repository)

end
