(* ===== verification/Evidence.thy ===== *)
theory Evidence
  imports Rbac Repositories
begin

text \<open>
  Maintenance evidence: \<^verbatim>\<open>backend/src/evidence\<close>.  The service, the in-memory repository and
  storage, the IPFS storage over a parameter for \<^verbatim>\<open>fetch\<close>, and the bounded multipart
  parser of the upload route.  A byte is a \<open>char\<close> (eight bits).  The hash and the UTF-8 codec
  of Node are the record \<open>node_lib\<close>; the storage of the service is a record of operations,
  as the interface \<^verbatim>\<open>EvidenceStorage\<close> is.
\<close>

section \<open>Data\<close>

type_synonym bytes = "char list"

record evidence =
  evd_evidenceId :: string
  evd_jobId :: string
  evd_cid :: string
  evd_sha256 :: string
  evd_originalFilename :: string
  evd_contentType :: string
  evd_sizeBytes :: nat
  evd_uploadedBy :: string
  evd_createdAt :: date_str
  evd_updatedAt :: date_str

record evidence_actor =
  ea_identityId :: string
  ea_walletAddress :: string
  ea_role :: role

record upload_input =
  up_bytes :: bytes
  up_filename :: string
  up_contentType :: string

record node_lib =
  sha256_hex :: "bytes \<Rightarrow> string"
  utf8_decode :: "bytes \<Rightarrow> string"
  utf8_encode :: "string \<Rightarrow> bytes"

text \<open>What a storage may throw: an \<^verbatim>\<open>EvidenceStorageError\<close> or something else.\<close>

datatype storage_exn = EvidenceStorageError string | OtherThrow string

record 'g storage =
  stg_upload :: "bytes \<Rightarrow> string \<Rightarrow> ('g, storage_exn, string \<times> nat) m"
  stg_download :: "string \<Rightarrow> ('g, storage_exn, bytes) m"
  stg_exists :: "string \<Rightarrow> ('g, storage_exn, bool) m"

section \<open>Repository and storage in memory\<close>

definition evidence_findById :: "(string, evidence) jsmap \<Rightarrow> string \<Rightarrow> evidence option" where
  "evidence_findById m i = js_get m i"

definition evidence_listByJob :: "(string, evidence) jsmap \<Rightarrow> string \<Rightarrow> evidence list" where
  "evidence_listByJob m jobId = filter (\<lambda>e. evd_jobId e = jobId) (js_values m)"

definition evidence_save :: "evidence \<Rightarrow> (string, evidence) jsmap \<Rightarrow> (string, evidence) jsmap" where
  "evidence_save e m = js_set (evd_evidenceId e) e m"

type_synonym objects = "(string, bytes) jsmap"

definition memory_cid :: "string \<Rightarrow> nat \<Rightarrow> string" where
  "memory_cid prefix n = prefix @ show_nat n"

definition memory_upload :: "string \<Rightarrow> bytes \<Rightarrow> string \<Rightarrow> (objects, storage_exn, string \<times> nat) m" where
  "memory_upload prefix bs ct =
     bindE (reads (\<lambda>os. memory_cid prefix (length os + 1))) (\<lambda>cid.
       thenE (modifyS (js_set cid bs)) (ret (cid, length bs)))"

definition memory_download :: "string \<Rightarrow> (objects, storage_exn, bytes) m" where
  "memory_download cid =
     bindE (reads (\<lambda>os. js_get os cid)) (\<lambda>b.
       required b (EvidenceStorageError ''IPFS object was not found''))"

definition memory_exists :: "string \<Rightarrow> (objects, storage_exn, bool) m" where
  "memory_exists cid = reads (\<lambda>os. js_get os cid \<noteq> None)"

definition memory_storage :: "string \<Rightarrow> objects storage" where
  "memory_storage prefix = \<lparr>stg_upload = memory_upload prefix, stg_download = memory_download,
     stg_exists = memory_exists\<rparr>"

section \<open>IPFS\<close>

text \<open>
  The parts of a fetch response that are read.  The body is the sequence of its chunks and, when
  reading it fails, the message of the failure; \<open>None\<close> stands for a response without a body
  stream, whose bytes are then \<open>hr_buffer\<close>.
\<close>

record http_response =
  hr_ok :: bool
  hr_status :: nat
  hr_text :: string
  hr_contentLength :: jsnum
  hr_body :: "(bytes list \<times> string option) option"
  hr_buffer :: bytes

record 'g ipfs =
  ip_apiUrl :: string
  ip_fetch :: "string \<Rightarrow> bytes option \<Rightarrow> ('g, string, http_response) m"
  ip_json :: "string \<Rightarrow> jsval option"
  ip_number :: "jsval \<Rightarrow> jsnum"
  ip_uri :: "string \<Rightarrow> string"

definition strip_slash :: "string \<Rightarrow> string" where
  "strip_slash s = (if s \<noteq> [] \<and> last s = CHR ''/'' then butlast s else s)"

definition ipfs_request :: "'g ipfs \<Rightarrow> string \<Rightarrow> bytes option \<Rightarrow> ('g, storage_exn, http_response) m" where
  "ipfs_request ip path body = (\<lambda>s.
     case ip_fetch ip (strip_slash (ip_apiUrl ip) @ path) body s of
       (Inl _, s') \<Rightarrow> (Inl (EvidenceStorageError ''Private evidence storage is unavailable''), s')
     | (Inr r, s') \<Rightarrow>
         if hr_ok r then (Inr r, s')
         else if hr_status r = 404 then (Inl (EvidenceStorageError ''IPFS object was not found''), s')
         else (Inl (EvidenceStorageError (''IPFS request failed with status '' @ show_nat (hr_status r))), s'))"

text \<open>\<^verbatim>\<open>s.split(d)\<close> for a separator of one character.\<close>

fun split_at :: "char \<Rightarrow> string \<Rightarrow> string list" where
  "split_at d [] = [[]]"
| "split_at d (c # cs) =
     (if c = d then [] # split_at d cs
      else (case split_at d cs of [] \<Rightarrow> [[c]] | l # ls \<Rightarrow> (c # l) # ls))"

definition last_line :: "string \<Rightarrow> string" where
  "last_line s = (case rev (filter (\<lambda>l. l \<noteq> []) (split_at CHR 0x0A (trim s))) of [] \<Rightarrow> [] | l # _ \<Rightarrow> l)"

text \<open>
  Reading a property of a parsed value; on \<^verbatim>\<open>null\<close> JavaScript throws a TypeError, which no
  handler of the method catches.
\<close>

definition response_field :: "jsval \<Rightarrow> string \<Rightarrow> ('g, storage_exn, jsval) m" where
  "response_field v k = (case v of
     JNull \<Rightarrow> throw (OtherThrow ''TypeError'') | JObj ob \<Rightarrow> ret (fld ob k) | _ \<Rightarrow> ret JUndefined)"

definition ipfs_upload :: "'g ipfs \<Rightarrow> bytes \<Rightarrow> string \<Rightarrow> ('g, storage_exn, string \<times> nat) m" where
  "ipfs_upload ip bs ct =
     bindE (ipfs_request ip ''/api/v0/add?pin=true'' (Some bs)) (\<lambda>r.
     bindE (required (ip_json ip (last_line (hr_text r)))
              (EvidenceStorageError ''IPFS returned an invalid upload response'')) (\<lambda>parsed.
     bindE (response_field parsed ''Hash'') (\<lambda>hash.
     bindE (required (text_of hash) (EvidenceStorageError ''IPFS upload response did not contain a CID'')) (\<lambda>cid.
     bindE (response_field parsed ''Size'') (\<lambda>sz.
     thenE (throwIf (sz \<noteq> JUndefined \<and>
               (\<not> isSafeInteger (ip_number ip sz) \<or> num_le (ip_number ip sz) 0))
              (EvidenceStorageError ''IPFS upload response contained an invalid size''))
       (ret (cid, length bs)))))))"

text \<open>The environment's limit in megabytes, \<open>None\<close> when it is not set, as the number of bytes.\<close>

definition megabytes :: "jsnum option \<Rightarrow> int" where
  "megabytes v = (case v of
       Some (Fin mb) \<Rightarrow> if mb \<le> 0 then 25 * 1024 * 1024 else \<lfloor>mb * 1024 * 1024\<rfloor>
     | _ \<Rightarrow> 25 * 1024 * 1024)"

definition parseMaxDownloadBytes :: "jsnum option \<Rightarrow> int" where
  "parseMaxDownloadBytes v = megabytes v"

definition too_large :: storage_exn where
  "too_large = EvidenceStorageError ''IPFS object exceeds the configured evidence limit''"

fun read_chunks :: "int \<Rightarrow> bytes \<Rightarrow> bytes list \<Rightarrow> string option \<Rightarrow> ('g, storage_exn, bytes) m" where
  "read_chunks mx acc [] broken = (case broken of None \<Rightarrow> ret acc | Some e \<Rightarrow> throw (OtherThrow e))"
| "read_chunks mx acc (c # cs) broken =
     (if int (length acc + length c) > mx then throw too_large
      else read_chunks mx (acc @ c) cs broken)"

fun num_gt :: "jsnum \<Rightarrow> int \<Rightarrow> bool" where
  "num_gt (Fin q) i \<longleftrightarrow> q > of_int i"
| "num_gt PosInf i \<longleftrightarrow> True"
| "num_gt _ i \<longleftrightarrow> False"

definition ipfs_download :: "'g ipfs \<Rightarrow> jsnum option \<Rightarrow> string \<Rightarrow> ('g, storage_exn, bytes) m" where
  "ipfs_download ip limit cid =
     bindE (ipfs_request ip (''/api/v0/cat?arg='' @ ip_uri ip cid) None) (\<lambda>r.
     let mx = parseMaxDownloadBytes limit in
     thenE (throwIf (num_gt (hr_contentLength r) mx) too_large)
       (case hr_body r of
          None \<Rightarrow> thenE (throwIf (int (length (hr_buffer r)) > mx) too_large) (ret (hr_buffer r))
        | Some (chunks, broken) \<Rightarrow> read_chunks mx [] chunks broken))"

definition ipfs_exists :: "'g ipfs \<Rightarrow> string \<Rightarrow> ('g, storage_exn, bool) m" where
  "ipfs_exists ip cid = (\<lambda>s.
     case ipfs_request ip (''/api/v0/block/stat?arg='' @ ip_uri ip cid) None s of
       (Inr _, s') \<Rightarrow> (Inr True, s')
     | (Inl e, s') \<Rightarrow>
         if e = EvidenceStorageError ''IPFS object was not found'' then (Inr False, s') else (Inl e, s'))"

definition ipfs_storage :: "'g ipfs \<Rightarrow> jsnum option \<Rightarrow> 'g storage" where
  "ipfs_storage ip limit = \<lparr>stg_upload = ipfs_upload ip, stg_download = ipfs_download ip limit,
     stg_exists = ipfs_exists ip\<rparr>"

section \<open>The service\<close>

record 'g evidence_svc =
  sv_storage :: "'g storage"
  sv_lib :: node_lib
  sv_jobs :: "(string, job) jsmap"
  sv_maxFileSizeBytes :: int
  sv_allowedMimeTypes :: "string list"

record 'g evidence_state =
  es_records :: "(string, evidence) jsmap"
  es_store :: 'g

type_synonym ('g, 'a) evidence_m = "('g evidence_state, error, 'a) m"

definition name_char :: "char \<Rightarrow> char" where
  "name_char c = (if c \<in> set ''ABCDEFGHIJKLMNOPQRSTUVWXYZabcdefghijklmnopqrstuvwxyz0123456789_.() -''
     then c else CHR ''_'')"

definition sanitizeFilename :: "string \<Rightarrow> string" where
  "sanitizeFilename f =
     (let n = take 180 (trim (map name_char f)) in if n = [] then ''evidence'' else n)"

definition parseMaxFileSize :: "jsnum option \<Rightarrow> int" where
  "parseMaxFileSize v = megabytes v"

definition DEFAULT_ALLOWED_MIME_TYPES :: "string list" where
  "DEFAULT_ALLOWED_MIME_TYPES = [''application/pdf'', ''image/jpeg'', ''image/png'', ''text/plain'']"

definition parseAllowedMimeTypes :: "string option \<Rightarrow> string list" where
  "parseAllowedMimeTypes v = (case v of None \<Rightarrow> DEFAULT_ALLOWED_MIME_TYPES
     | Some s \<Rightarrow> filter (\<lambda>t. t \<noteq> []) (map trim (split_at CHR '','' s)))"

definition requireJob :: "'g evidence_svc \<Rightarrow> string \<Rightarrow> ('g, job) evidence_m" where
  "requireJob sv jobId = required (js_get (sv_jobs sv) jobId) (NotFoundError (''No job '' @ jobId))"

definition assertCanUpload :: "job \<Rightarrow> evidence_actor \<Rightarrow> ('g, unit) evidence_m" where
  "assertCanUpload j a =
     thenE (throwIf (\<not> can (ea_role a) PERFORM_MAINTENANCE no_context)
              (ForbiddenError ''Action not permitted for this role''))
    (thenE (throwIf (job_assignedTo j \<noteq> ea_identityId a)
              (ForbiddenError ''Only the assigned technician may upload evidence''))
           (throwIf (job_status j \<noteq> IN_PROGRESS)
              (ValidationError [''Evidence may only be uploaded while the job is IN_PROGRESS''])))"

definition assertCanView :: "job \<Rightarrow> evidence_actor \<Rightarrow> ('g, unit) evidence_m" where
  "assertCanView j a =
     throwIf (\<not> can (ea_role a) VIEW_AUDIT_HISTORY
                (no_context\<lparr>pc_actorId := Some (ea_identityId a), pc_resourceOwnerId := Some (job_assignedTo j)\<rparr>))
       (ForbiddenError ''You may not view evidence for this job'')"

text \<open>\<^verbatim>\<open>buf[i]\<close> and, with \<open>from_end\<close>, \<^verbatim>\<open>buf.at(-i)\<close>.\<close>

definition byte_at :: "bytes \<Rightarrow> nat \<Rightarrow> char option" where
  "byte_at bs i = (if i < length bs then Some (bs ! i) else None)"

definition from_end :: "bytes \<Rightarrow> nat \<Rightarrow> char option" where
  "from_end bs i = (if i \<le> length bs then byte_at bs (length bs - i) else None)"

definition png_magic :: bytes where
  "png_magic = map char_of [137 :: nat, 80, 78, 71, 13, 10, 26, 10]"

definition jpeg_frame :: "bytes \<Rightarrow> bool" where
  "jpeg_frame bs \<longleftrightarrow> byte_at bs 0 = Some (CHR 0xFF) \<and> byte_at bs 1 = Some (CHR 0xD8) \<and>
     from_end bs 2 = Some (CHR 0xFF) \<and> from_end bs 1 = Some (CHR 0xD9)"

definition validateUpload :: "'g evidence_svc \<Rightarrow> upload_input \<Rightarrow> ('g, unit) evidence_m" where
  "validateUpload sv u =
     (let bs = up_bytes u; ct = toLowerCase (up_contentType u) in
      thenE (throwIf (bs = []) (ValidationError [''Evidence file must not be empty'']))
     (thenE (throwIf (int (length bs) > sv_maxFileSizeBytes sv) PayloadTooLargeError)
     (thenE (throwIf (ct \<notin> set (sv_allowedMimeTypes sv)) UnsupportedMediaTypeError)
     (thenE (throwIf (ct = ''application/pdf'' \<and> take 5 bs \<noteq> ''%PDF-'')
               (ValidationError [''PDF evidence has an invalid file signature'']))
     (thenE (throwIf (ct = ''image/png'' \<and> take 8 bs \<noteq> png_magic)
               (ValidationError [''PNG evidence has an invalid file signature'']))
            (throwIf (ct = ''image/jpeg'' \<and> \<not> jpeg_frame bs)
               (ValidationError [''JPEG evidence has an invalid file signature''])))))))"

text \<open>A call of the storage: its own errors become 503, anything else passes through.\<close>

definition from_storage :: "('g, storage_exn, 'a) m \<Rightarrow> ('g, 'a) evidence_m" where
  "from_storage f = (\<lambda>s. case f (es_store s) of
       (Inr x, g) \<Rightarrow> (Inr x, s\<lparr>es_store := g\<rparr>)
     | (Inl (EvidenceStorageError _), g) \<Rightarrow>
         (Inl (ServiceUnavailableError ''Evidence storage is temporarily unavailable''), s\<lparr>es_store := g\<rparr>)
     | (Inl (OtherThrow e), g) \<Rightarrow> (Inl (PlainError e), s\<lparr>es_store := g\<rparr>))"

definition evidence_upload ::
  "'g evidence_svc \<Rightarrow> env \<Rightarrow> string \<Rightarrow> evidence_actor \<Rightarrow> upload_input \<Rightarrow> ('g, evidence) evidence_m" where
  "evidence_upload sv en jobId a u =
     bindE (requireJob sv jobId) (\<lambda>j.
     thenE (assertCanUpload j a) (
     thenE (validateUpload sv u) (
     bindE (from_storage (stg_upload (sv_storage sv) (up_bytes u) (up_contentType u))) (\<lambda>(cid, sizeBytes).
     thenE (throwIf (sizeBytes \<noteq> length (up_bytes u))
              (ServiceUnavailableError ''Evidence storage rejected the uploaded object'')) (
     let e = \<lparr>evd_evidenceId = uuid en 0, evd_jobId = jobId, evd_cid = cid,
              evd_sha256 = sha256_hex (sv_lib sv) (up_bytes u),
              evd_originalFilename = sanitizeFilename (up_filename u),
              evd_contentType = toLowerCase (up_contentType u), evd_sizeBytes = length (up_bytes u),
              evd_uploadedBy = ea_identityId a, evd_createdAt = iso_now en, evd_updatedAt = iso_now en\<rparr>
     in thenE (modifyS (es_records_update (evidence_save e))) (ret e))))))"

definition evidence_list :: "'g evidence_svc \<Rightarrow> string \<Rightarrow> evidence_actor \<Rightarrow> ('g, evidence list) evidence_m" where
  "evidence_list sv jobId a =
     bindE (requireJob sv jobId) (\<lambda>j.
     thenE (assertCanView j a) (reads (\<lambda>s. evidence_listByJob (es_records s) jobId)))"

text \<open>The record of a job that \<^verbatim>\<open>getHash\<close> and \<^verbatim>\<open>download\<close> look up.\<close>

definition find_evidence :: "'g evidence_svc \<Rightarrow> string \<Rightarrow> string \<Rightarrow> evidence_actor \<Rightarrow> ('g, evidence) evidence_m" where
  "find_evidence sv jobId evidenceId a =
     bindE (requireJob sv jobId) (\<lambda>j.
     thenE (assertCanView j a) (
     bindE (reads (\<lambda>s. evidence_findById (es_records s) evidenceId)) (\<lambda>e.
       case e of None \<Rightarrow> throw (NotFoundError (''No evidence '' @ evidenceId))
       | Some r \<Rightarrow> if evd_jobId r \<noteq> jobId then throw (NotFoundError (''No evidence '' @ evidenceId)) else ret r)))"

definition getHash :: "'g evidence_svc \<Rightarrow> string \<Rightarrow> string \<Rightarrow> evidence_actor \<Rightarrow> ('g, string) evidence_m" where
  "getHash sv jobId evidenceId a =
     bindE (find_evidence sv jobId evidenceId a) (\<lambda>e. ret (evd_sha256 e))"

definition evidence_download ::
  "'g evidence_svc \<Rightarrow> string \<Rightarrow> string \<Rightarrow> evidence_actor \<Rightarrow> ('g, evidence \<times> bytes) evidence_m" where
  "evidence_download sv jobId evidenceId a =
     bindE (find_evidence sv jobId evidenceId a) (\<lambda>e.
     bindE (from_storage (stg_download (sv_storage sv) (evd_cid e))) (\<lambda>bs.
     thenE (throwIf (sha256_hex (sv_lib sv) bs \<noteq> evd_sha256 e \<or> length bs \<noteq> evd_sizeBytes e) IntegrityError)
       (ret (e, bs))))"

section \<open>The multipart parser\<close>

abbreviation CRLF :: string where
  "CRLF \<equiv> [CHR 0x0D, CHR 0x0A]"

abbreviation dquote :: char where
  "dquote \<equiv> CHR 0x22"

text \<open>\<^verbatim>\<open>buf.indexOf(sub)\<close>: the first position at which \<open>sub\<close> occurs.\<close>

fun find_sub :: "'a list \<Rightarrow> 'a list \<Rightarrow> nat option" where
  "find_sub sub [] = (if sub = [] then Some 0 else None)"
| "find_sub sub (x # xs) =
     (if take (length sub) (x # xs) = sub then Some 0 else map_option Suc (find_sub sub xs))"

text \<open>A text up to the next double quote, \<open>None\<close> when there is none.\<close>

definition until_quote :: "string \<Rightarrow> string option" where
  "until_quote s = (if dquote \<in> set s then Some (takeWhile (\<lambda>c. c \<noteq> dquote) s) else None)"

text \<open>
  The leftmost match of \<^verbatim>\<open>/boundary=(?:"([^"]+)"|([^;]+))/i\<close>: a quoted text that is not
  empty, or else everything up to a semicolon.
\<close>

definition quoted_boundary :: "string \<Rightarrow> string option" where
  "quoted_boundary r = (case r of c # cs \<Rightarrow>
       if c = dquote then (case until_quote cs of Some b \<Rightarrow> if b = [] then None else Some b | None \<Rightarrow> None)
       else None
     | [] \<Rightarrow> None)"

fun boundary_of :: "string \<Rightarrow> string option" where
  "boundary_of [] = None"
| "boundary_of (c # cs) =
     (if startsWith (toLowerCase (c # cs)) ''boundary='' then
        (let r = drop 9 (c # cs); u = takeWhile (\<lambda>c. c \<noteq> CHR '';'') r in
         case quoted_boundary r of Some b \<Rightarrow> Some b
         | None \<Rightarrow> if u \<noteq> [] then Some u else boundary_of cs)
      else boundary_of cs)"

text \<open>The leftmost match of \<^verbatim>\<open>/key="([^"]*)"/i\<close>.\<close>

fun quoted_after :: "string \<Rightarrow> string \<Rightarrow> string option" where
  "quoted_after key [] = None"
| "quoted_after key (c # cs) =
     (case (if startsWith (toLowerCase (c # cs)) (key @ ''='' @ [dquote])
            then until_quote (drop (length key + 2) (c # cs)) else None) of
        Some v \<Rightarrow> Some v | None \<Rightarrow> quoted_after key cs)"

text \<open>\<^verbatim>\<open>s.split("\r\n")\<close>.\<close>

fun split_crlf :: "string \<Rightarrow> string list" where
  "split_crlf [] = [[]]"
| "split_crlf [c] = [[c]]"
| "split_crlf (c # d # cs) =
     (if c = CHR 0x0D \<and> d = CHR 0x0A then [] # split_crlf cs
      else (case split_crlf (d # cs) of [] \<Rightarrow> [[c]] | l # ls \<Rightarrow> (c # l) # ls))"

definition header_line :: "string \<Rightarrow> string list \<Rightarrow> string option" where
  "header_line name ls = find (\<lambda>l. startsWith (toLowerCase l) (name @ '':'')) ls"

text \<open>The loop over the request's chunks: the total is checked before a chunk is kept.\<close>

fun collect :: "int \<Rightarrow> bytes \<Rightarrow> bytes list \<Rightarrow> error + bytes" where
  "collect mx acc [] = Inr acc"
| "collect mx acc (c # cs) =
     (if int (length acc + length c) > mx + 32 * 1024 then Inl PayloadTooLargeError
      else collect mx (acc @ c) cs)"

definition malformed :: error where
  "malformed = ValidationError [''Multipart evidence part is malformed'']"

definition part_type :: "string list \<Rightarrow> string" where
  "part_type ls = (case header_line ''content-type'' ls of
       None \<Rightarrow> ''application/octet-stream''
     | Some l \<Rightarrow>
         let t = toLowerCase (trim (drop 1 (dropWhile (\<lambda>c. c \<noteq> CHR '':'') l)))
         in if t = [] then ''application/octet-stream'' else t)"

definition parse_part :: "string list \<Rightarrow> (string \<times> string) option" where
  "parse_part ls =
     (let disposition = (case header_line ''content-disposition'' ls of None \<Rightarrow> [] | Some l \<Rightarrow> l) in
      case (quoted_after ''filename'' disposition, quoted_after ''name'' disposition) of
        (Some f, Some n) \<Rightarrow> if n \<in> {''file'', ''evidence''} then Some (f, part_type ls) else None
      | _ \<Rightarrow> None)"

definition parse_body :: "node_lib \<Rightarrow> int \<Rightarrow> string \<Rightarrow> bytes \<Rightarrow> error + upload_input" where
  "parse_body lib mx b body =
     (case find_sub (CRLF @ CRLF) body of
        None \<Rightarrow> Inl malformed
      | Some headerEnd \<Rightarrow>
          let rest = drop (headerEnd + 4) body in
          (case find_sub (CRLF @ utf8_encode lib (''--'' @ b) @ ''--'') rest of
             None \<Rightarrow> Inl malformed
           | Some n \<Rightarrow>
               (case parse_part (split_crlf (utf8_decode lib (take headerEnd body))) of
                  None \<Rightarrow> Inl (ValidationError [''A file field named file is required''])
                | Some (f, ct) \<Rightarrow>
                    if int n > mx then Inl PayloadTooLargeError
                    else Inr \<lparr>up_bytes = take n rest, up_filename = f, up_contentType = ct\<rparr>)))"

definition readEvidenceMultipart ::
  "node_lib \<Rightarrow> string \<Rightarrow> bytes list \<Rightarrow> int \<Rightarrow> error + upload_input" where
  "readEvidenceMultipart lib header chunks mx =
     (case boundary_of header of
        None \<Rightarrow> Inl UnsupportedMediaTypeError
      | Some b \<Rightarrow> (case collect mx [] chunks of Inl e \<Rightarrow> Inl e | Inr body \<Rightarrow> parse_body lib mx b body))"

end
