(* ===== verification/ChainConfig.thy ===== *)
theory ChainConfig
  imports Consensus Evidence
begin

text \<open>
  \<^verbatim>\<open>backend/src/blockchain/config.ts\<close>, \<^verbatim>\<open>factory.ts\<close> and the wiring of
  \<^verbatim>\<open>container.ts\<close>: which implementation the environment selects, and what is refused in
  production.  The file system, the conversion \<^verbatim>\<open>Number(...)\<close> and the path functions are
  arguments.
\<close>

section \<open>Deployment files\<close>

text \<open>
  \<open>fs_read path\<close> is \<open>None\<close> when there is no file, \<open>Some None\<close> when its text is
  not JSON.
\<close>

record files =
  fs_read :: "string \<Rightarrow> jsval option option"
  fs_isAbsolute :: "string \<Rightarrow> bool"
  fs_resolve :: "string \<Rightarrow> string"
  js_Number :: "jsval \<Rightarrow> jsnum"
  js_String :: "jsval \<Rightarrow> string"
  fs_ethers :: ethers

definition resolveRepoPath :: "files \<Rightarrow> string \<Rightarrow> string" where
  "resolveRepoPath fs p = (if fs_isAbsolute fs p then p else fs_resolve fs p)"

definition config_error :: "string \<Rightarrow> error" where
  "config_error msg = BlockchainError CONFIG msg"

definition readJson :: "files \<Rightarrow> string \<Rightarrow> string \<Rightarrow> error + jsval" where
  "readJson fs path what = (case fs_read fs path of
       None \<Rightarrow> Inl (config_error (what @ '' not found at '' @ path))
     | Some None \<Rightarrow> Inl (config_error (what @ '' at '' @ path @ '' is not valid JSON''))
     | Some (Some v) \<Rightarrow> Inr v)"

text \<open>
  \<^verbatim>\<open>typeof v === "object" && v !== null\<close>, as the properties that can be read from it; an
  array has none of the names that are read.
\<close>

fun as_object :: "jsval \<Rightarrow> jsobj option" where
  "as_object (JObj ob) = Some ob"
| "as_object (JArr _) = Some []"
| "as_object _ = None"

fun deployment_contracts ::
  "files \<Rightarrow> string \<Rightarrow> jsobj \<Rightarrow> contract_name list \<Rightarrow> error + (contract_name \<times> string) list" where
  "deployment_contracts fs source cs [] = Inr []"
| "deployment_contracts fs source cs (n # ns) =
     (case Option.bind (as_str (fld cs (show_contract n))) (\<lambda>a. if isAddress (fs_ethers fs) a then Some a else None) of
        None \<Rightarrow> Inl (config_error (source @ '' is missing a valid address for '' @ show_contract n))
      | Some a \<Rightarrow> andThen (deployment_contracts fs source cs ns)
                    (\<lambda>rest. Inr ((n, getAddress (fs_ethers fs) a) # rest)))"

definition parseDeployment :: "files \<Rightarrow> jsval \<Rightarrow> string \<Rightarrow> error + deployment" where
  "parseDeployment fs raw source =
     (case Option.bind (as_object raw) (\<lambda>d. map_option (Pair d) (as_object (fld d ''contracts''))) of
        None \<Rightarrow> Inl (config_error (source @ '' has no '' @ [dquote] @ ''contracts'' @ [dquote] @ '' object''))
      | Some (d, cs) \<Rightarrow>
          let chainId = js_Number fs (fld d ''chainId'') in
          if \<not> isInteger chainId \<or> num_int chainId \<le> 0
          then Inl (config_error (source @ '' has an invalid chainId''))
          else andThen (deployment_contracts fs source cs CONTRACT_NAMES) (\<lambda>addrs.
            Inr \<lparr>dp_network = js_String fs (nullish_or (fld d ''network'') (JStr ''unknown'')),
                 dp_chainId = num_int chainId,
                 dp_contracts = (\<lambda>c. case map_of addrs c of None \<Rightarrow> [] | Some a \<Rightarrow> a)\<rparr>))"

definition endsWith :: "string \<Rightarrow> string \<Rightarrow> bool" where
  "endsWith s p \<longleftrightarrow> length p \<le> length s \<and> drop (length s - length p) s = p"

definition loadDeployment :: "files \<Rightarrow> string \<Rightarrow> error + deployment" where
  "loadDeployment fs networkOrPath =
     (let path = (if endsWith networkOrPath ''.json'' then resolveRepoPath fs networkOrPath
                  else fs_resolve fs (''contracts/deployments/'' @ networkOrPath @ ''.json''))
      in andThen (readJson fs path ''Deployment file'') (\<lambda>v. parseDeployment fs v path))"

fun load_abis :: "files \<Rightarrow> string \<Rightarrow> contract_name list \<Rightarrow> error + (contract_name \<times> jsval list) list" where
  "load_abis fs dir [] = Inr []"
| "load_abis fs dir (n # ns) =
     andThen (readJson fs (dir @ ''/'' @ show_contract n @ ''.json'') (''ABI for '' @ show_contract n)) (\<lambda>v.
       case v of JArr items \<Rightarrow> andThen (load_abis fs dir ns) (\<lambda>rest. Inr ((n, items) # rest))
       | _ \<Rightarrow> Inl (config_error (''ABI for '' @ show_contract n @ '' is not an array'')))"

definition loadAbis :: "files \<Rightarrow> string \<Rightarrow> error + (contract_name \<times> jsval list) list" where
  "loadAbis fs abiDir = load_abis fs (resolveRepoPath fs abiDir) CONTRACT_NAMES"

section \<open>Environment\<close>

type_synonym process_env = "string \<Rightarrow> string option"

definition positiveInt :: "files \<Rightarrow> string option \<Rightarrow> int \<Rightarrow> string \<Rightarrow> int \<Rightarrow> error + int" where
  "positiveInt fs value fallback name mn =
     (case value of None \<Rightarrow> Inr fallback
      | Some v \<Rightarrow>
          if v = [] then Inr fallback
          else let n = js_Number fs (JStr v) in
            if \<not> isInteger n \<or> num_int n < mn
            then Inl (config_error (name @ '' must be an integer >= '' @ show_int mn))
            else Inr (num_int n))"

text \<open>\<^verbatim>\<open>env.X?.trim() || d\<close>.\<close>

definition env_or :: "process_env \<Rightarrow> string \<Rightarrow> string \<Rightarrow> string" where
  "env_or env k d = (case env k of None \<Rightarrow> d | Some v \<Rightarrow> if trim v = [] then d else trim v)"

text \<open>\<^verbatim>\<open>(env.X ?? "").split(",").map(trim).filter(Boolean)\<close>.\<close>

definition env_list :: "process_env \<Rightarrow> string \<Rightarrow> string list" where
  "env_list env k = filter (\<lambda>x. x \<noteq> []) (map trim (split_at CHR '','' (case env k of None \<Rightarrow> [] | Some v \<Rightarrow> v)))"

definition loadChainConfigFromEnv :: "files \<Rightarrow> process_env \<Rightarrow> error + evm_config" where
  "loadChainConfigFromEnv fs env =
     (let rpcUrl = (case env ''BEL_CHAIN_RPC_URL'' of None \<Rightarrow> [] | Some v \<Rightarrow> trim v);
          devSignerKeys = env_list env ''BEL_CHAIN_DEV_SIGNER_KEYS'' in
      if rpcUrl = [] then Inl (config_error ''BEL_CHAIN_RPC_URL is required when BEL_BLOCKCHAIN=evm'')
      else if devSignerKeys \<noteq> [] \<and> env ''BEL_ENV'' = Some ''production''
        then Inl (config_error ''BEL_CHAIN_DEV_SIGNER_KEYS is forbidden in production: user transactions must be signed on the managed device (ADR-016)'')
      else
        andThen (loadDeployment fs (env_or env ''BEL_CHAIN_DEPLOYMENT'' ''local'')) (\<lambda>dp.
        andThen (loadAbis fs (env_or env ''BEL_CHAIN_ABI_DIR'' ''contracts/abis'')) (\<lambda>_.
        andThen (positiveInt fs (env ''BEL_CHAIN_CONFIRMATIONS'') 1 ''BEL_CHAIN_CONFIRMATIONS'' 1) (\<lambda>confs.
        andThen (positiveInt fs (env ''BEL_CHAIN_TX_TIMEOUT_MS'') 30000 ''BEL_CHAIN_TX_TIMEOUT_MS'' 1) (\<lambda>timeout.
        andThen (positiveInt fs (env ''BEL_CHAIN_POLL_INTERVAL_MS'') 1000 ''BEL_CHAIN_POLL_INTERVAL_MS'' 10) (\<lambda>interval.
          Inr \<lparr>cf_rpcUrl = rpcUrl, cf_deployment = dp, cf_confirmations = confs, cf_txTimeoutMs = timeout,
               cf_pollingIntervalMs = interval, cf_devSignerKeys = devSignerKeys\<rparr>))))))"

section \<open>Selecting the chain\<close>

datatype backend = MockBackend | EvmBackend evm_config

definition createBlockchainServiceFromEnv :: "files \<Rightarrow> process_env \<Rightarrow> error + backend" where
  "createBlockchainServiceFromEnv fs env =
     (let kind = toLowerCase (trim (case env ''BEL_BLOCKCHAIN'' of None \<Rightarrow> ''mock'' | Some v \<Rightarrow> v)) in
      if kind = ''mock'' \<or> kind = [] then Inr MockBackend
      else if kind = ''evm'' then andThen (loadChainConfigFromEnv fs env) (\<lambda>cf. Inr (EvmBackend cf))
      else Inl (config_error (''BEL_BLOCKCHAIN must be '' @ [dquote] @ ''mock'' @ [dquote] @ '' or '' @
             [dquote] @ ''evm'' @ [dquote] @ '', got '' @ [dquote] @ kind @ [dquote])))"

section \<open>The container\<close>

text \<open>
  What a caller may inject, and what the container then runs on.  An injected component is
  \<open>Injected\<close>; the container's own choices are the Prisma adapters and the memory adapters.
\<close>

datatype store_kind = Injected | Prisma | Memory

datatype attestation_kind = Authoritative | MockAttestation "string list" | NotConfigured

fun is_mock :: "attestation_kind option \<Rightarrow> bool" where
  "is_mock (Some (MockAttestation _)) = True"
| "is_mock _ = False"

record container_options =
  op_repositories :: bool
  op_integrity :: bool
  op_attestation :: "attestation_kind option"
  op_prisma :: bool
  op_assets :: bool
  op_jobs :: bool
  op_evidence :: bool
  op_evidenceStorage :: bool

record container =
  ct_repositories :: store_kind
  ct_integrity :: store_kind
  ct_attestation :: attestation_kind
  ct_assets :: store_kind
  ct_jobs :: store_kind
  ct_evidence :: store_kind
  ct_checksIdentities :: bool

text \<open>\<^verbatim>\<open>process.env.X\<close> as a condition: set and not empty.\<close>

definition env_set :: "process_env \<Rightarrow> string \<Rightarrow> bool" where
  "env_set env k \<longleftrightarrow> (case env k of None \<Rightarrow> False | Some v \<Rightarrow> v \<noteq> [])"

definition createContainer :: "process_env \<Rightarrow> container_options \<Rightarrow> error + container" where
  "createContainer env op =
     (let prod = (env ''BEL_ENV'' = Some ''production'');
          managed = (map_option trim (env ''BEL_DEVICE_ATTESTATION_PROVIDER'') = Some ''managed'') in
      if prod \<and> (\<not> env_set env ''DATABASE_URL'' \<or> \<not> op_integrity op \<or> op_attestation op = None \<or>
            op_repositories op \<or> is_mock (op_attestation op) \<or> \<not> managed)
      then Inl (PlainError ''Production requires DATABASE_URL and an explicit durable integrity adapter; it also requires BEL_DEVICE_ATTESTATION_PROVIDER=managed and an authoritative device-attestation adapter'')
      else
        let integration = (env ''BEL_RUN_INTEGRATION'' = Some ''true'');
            useConfiguredPrisma = (\<not> op_repositories op \<and> (prod \<or> integration \<or> op_integrity op));
            prisma = (op_prisma op \<or> useConfiguredPrisma \<and> env_set env ''DATABASE_URL'');
            useMock = (\<not> prod \<and> env ''BEL_DEVICE_ATTESTATION'' = Some ''mock'');
            approved = env_list env ''BEL_MOCK_APPROVED_DEVICE_IDS'';
            domainPrisma = (op_prisma op \<or> \<not> op_repositories op \<and> (integration \<or> prod) \<and> prisma);
            pick = (\<lambda>given. if given then Injected else if domainPrisma then Prisma else Memory) in
        Inr \<lparr>ct_repositories = (if op_repositories op then Injected else if prisma then Prisma else Memory),
             ct_integrity = (if op_integrity op then Injected else Memory),
             ct_attestation = (case op_attestation op of Some a \<Rightarrow> a
               | None \<Rightarrow> if useMock then MockAttestation approved else NotConfigured),
             ct_assets = pick (op_assets op), ct_jobs = pick (op_jobs op),
             ct_evidence = pick (op_evidence op), ct_checksIdentities = domainPrisma\<rparr>)"

section \<open>Production\<close>

text \<open>
  In production nothing runs on volatile or mock components: if the container is created at all, its
  repositories are the durable ones, its integrity adapter was injected, its device attestation
  is not the mock, and assets and jobs check the identities they name.
\<close>

theorem production_is_durable:
  assumes "env ''BEL_ENV'' = Some ''production''" "createContainer env op = Inr c"
  shows "ct_repositories c = Prisma \<and> ct_integrity c = Injected \<and> \<not> is_mock (Some (ct_attestation c)) \<and>
    Memory \<notin> {ct_assets c, ct_jobs c, ct_evidence c} \<and> ct_checksIdentities c"
  using assms by (auto simp: createContainer_def Let_def split: if_splits option.splits)

definition demo_options :: container_options where
  "demo_options = \<lparr>op_repositories = False, op_integrity = True, op_attestation = Some Authoritative,
     op_prisma = False, op_assets = False, op_jobs = False, op_evidence = False, op_evidenceStorage = False\<rparr>"

definition demo_production :: process_env where
  "demo_production = map_of [(''BEL_ENV'', ''production''), (''DATABASE_URL'', ''postgres://db''),
     (''BEL_DEVICE_ATTESTATION_PROVIDER'', '' managed ''), (''BEL_BLOCKCHAIN'', '' EVM''),
     (''BEL_CHAIN_RPC_URL'', ''http://node:8545''), (''BEL_CHAIN_TX_TIMEOUT_MS'', ''30'')]"

theorem production_is_durable_witness:
  "\<exists>c. createContainer demo_production demo_options = Inr c \<and> ct_repositories c = Prisma \<and> ct_jobs c = Prisma"
proof -
  have "map_sum (\<lambda>_. ()) ct_jobs (createContainer demo_production demo_options) = Inr Prisma" by code_simp
  then obtain c where c: "createContainer demo_production demo_options = Inr c" "ct_jobs c = Prisma"
    by (cases "createContainer demo_production demo_options") auto
  have "demo_production ''BEL_ENV'' = Some ''production''" by (simp add: demo_production_def)
  from production_is_durable [OF this c(1)] c show ?thesis by blast
qed

lemma config_keys:
  "loadChainConfigFromEnv fs env = Inr cf \<Longrightarrow>
     (env ''BEL_ENV'' = Some ''production'' \<longrightarrow> cf_devSignerKeys cf = []) \<and> 1 \<le> cf_confirmations cf \<and>
     1 \<le> cf_txTimeoutMs cf \<and> 10 \<le> cf_pollingIntervalMs cf"
  by (auto simp: loadChainConfigFromEnv_def positiveInt_def Let_def run split: if_splits option.splits)

lemma backend_config:
  "createBlockchainServiceFromEnv fs env = Inr (EvmBackend cf) \<Longrightarrow> loadChainConfigFromEnv fs env = Inr cf"
  by (auto simp: createBlockchainServiceFromEnv_def Let_def run split: if_splits)

lemma no_signers: "cf_devSignerKeys (ad_config ad) = [] \<Longrightarrow> signers ad = []"
  by (simp add: signers_def)


definition demo_files :: files where
  "demo_files = \<lparr>fs_read = (\<lambda>path. Some (Some (if path = ''contracts/deployments/local.json''
       then JObj [(''chainId'', JNum (JsValues.Fin 1337)), (''contracts'', JObj (map (\<lambda>c. (show_contract c, JStr demo_wallet)) CONTRACT_NAMES))]
       else JArr []))),
     fs_isAbsolute = (\<lambda>_. False), fs_resolve = id,
     js_Number = (\<lambda>v. case v of JNum n \<Rightarrow> n | JStr t \<Rightarrow> JsValues.Fin (of_int (int (digits_val t))) | _ \<Rightarrow> NaN), js_String = (\<lambda>v. case v of JStr t \<Rightarrow> t | _ \<Rightarrow> []),
     fs_ethers = demo_ethers\<rparr>"

definition demo_prod_config :: evm_config where
  "demo_prod_config = (case createBlockchainServiceFromEnv demo_files demo_production of
       Inr (EvmBackend cf) \<Rightarrow> cf | _ \<Rightarrow> demo_config)"

definition demo_raw :: evm_tx where
  "demo_raw = \<lparr>et_from = Some demo_wallet, et_to = Some demo_wallet, et_data = ''0xstartJob'', et_chainId = 1337, et_value = 0\<rparr>"

definition demo_prod_adapter :: "int adapter" where
  "demo_prod_adapter = (demo_adapter (Some demo_raw) (demo_provider 20))\<lparr>ad_config := demo_prod_config\<rparr>"


end
