(* ===== verification/EvidenceVault.thy ===== *)
theory EvidenceVault
  imports Evidence Payloads
begin

text \<open>
  Properties of the evidence component: what a download guarantees over any storage, the
  contract of an object store as a locale with the in-memory store as its interpretation, the
  survival of uploaded evidence, safe file names, and the multipart parser's exactness.
\<close>

section \<open>Any storage\<close>

lemma from_storage_ok [run]:
  "from_storage f s = (Inr x, s') \<longleftrightarrow> (\<exists>g. f (es_store s) = (Inr x, g) \<and> s' = s\<lparr>es_store := g\<rparr>)"
  by (auto simp: from_storage_def split: prod.splits sum.splits storage_exn.splits)

lemma from_storage_err:
  "from_storage f s = (Inl e, s') \<Longrightarrow> \<exists>g x. f (es_store s) = (Inl x, g) \<and> s' = s\<lparr>es_store := g\<rparr>"
  by (auto simp: from_storage_def split: prod.splits sum.splits storage_exn.splits)

lemma records_quiet [frame]: "quiet es_records (from_storage f)"
  by (auto simp: quiet_def from_storage_def split: prod.splits sum.splits storage_exn.splits)

lemma guards_quiet [frame]:
  "quiet p (requireJob sv i)" "quiet p (assertCanUpload j a)" "quiet p (assertCanView j a)"
  "quiet p (validateUpload sv u)"
  by (auto simp: requireJob_def assertCanUpload_def assertCanView_def validateUpload_def Let_def
      intro!: frame)

definition may_view :: "job \<Rightarrow> evidence_actor \<Rightarrow> bool" where
  "may_view j a \<longleftrightarrow> can (ea_role a) VIEW_AUDIT_HISTORY
     (no_context\<lparr>pc_actorId := Some (ea_identityId a), pc_resourceOwnerId := Some (job_assignedTo j)\<rparr>)"

lemma find_evidence_run [run]:
  "find_evidence sv jobId i a s = (Inr e, s') \<longleftrightarrow>
     (\<exists>j. js_get (sv_jobs sv) jobId = Some j \<and> may_view j a) \<and> js_get (es_records s) i = Some e \<and>
     evd_jobId e = jobId \<and> s' = s"
  by (auto simp: find_evidence_def requireJob_def assertCanView_def may_view_def evidence_findById_def run
      split: option.splits if_splits)

text \<open>The upload of a file that passed every check.\<close>

definition accepts :: "'g evidence_svc \<Rightarrow> string \<Rightarrow> evidence_actor \<Rightarrow> upload_input \<Rightarrow> bool" where
  "accepts sv jobId a u \<longleftrightarrow>
     (\<exists>j. js_get (sv_jobs sv) jobId = Some j \<and> job_status j = IN_PROGRESS \<and> job_assignedTo j = ea_identityId a) \<and>
     ea_role a \<in> {ENGINEER, TECHNICIAN} \<and>
     up_bytes u \<noteq> [] \<and> int (length (up_bytes u)) \<le> sv_maxFileSizeBytes sv \<and>
     toLowerCase (up_contentType u) \<in> set (sv_allowedMimeTypes sv) \<and>
     (toLowerCase (up_contentType u) = ''application/pdf'' \<longrightarrow> take 5 (up_bytes u) = ''%PDF-'') \<and>
     (toLowerCase (up_contentType u) = ''image/png'' \<longrightarrow> take 8 (up_bytes u) = png_magic) \<and>
     (toLowerCase (up_contentType u) = ''image/jpeg'' \<longrightarrow> jpeg_frame (up_bytes u))"

lemma maintenance_roles: "can r PERFORM_MAINTENANCE ctx \<longleftrightarrow> r \<in> {ENGINEER, TECHNICIAN}"
  by (cases r) (simp_all add: can_def permissionFor_def ROLES_def)

definition evidence_of ::
  "'g evidence_svc \<Rightarrow> env \<Rightarrow> string \<Rightarrow> evidence_actor \<Rightarrow> upload_input \<Rightarrow> string \<Rightarrow> evidence" where
  "evidence_of sv en jobId a u cid =
     \<lparr>evd_evidenceId = uuid en 0, evd_jobId = jobId, evd_cid = cid,
      evd_sha256 = sha256_hex (sv_lib sv) (up_bytes u),
      evd_originalFilename = sanitizeFilename (up_filename u),
      evd_contentType = toLowerCase (up_contentType u), evd_sizeBytes = length (up_bytes u),
      evd_uploadedBy = ea_identityId a, evd_createdAt = iso_now en, evd_updatedAt = iso_now en\<rparr>"

lemma upload_run:
  "evidence_upload sv en jobId a u s = (Inr e, s') \<longleftrightarrow>
     accepts sv jobId a u \<and>
     (\<exists>cid g. stg_upload (sv_storage sv) (up_bytes u) (up_contentType u) (es_store s)
          = (Inr (cid, length (up_bytes u)), g) \<and>
        e = evidence_of sv en jobId a u cid \<and>
        s' = s\<lparr>es_store := g, es_records := evidence_save e (es_records s)\<rparr>)"
  by (auto simp: evidence_upload_def requireJob_def assertCanUpload_def validateUpload_def accepts_def
      evidence_of_def maintenance_roles run Let_def)

lemma upload_atomic: "atomic es_records (evidence_upload sv en jobId a u)"
  unfolding evidence_upload_def Let_def
  by (intro atomic_bind atomic_then frame, split prod.split, intro allI impI,
      rule atomic_then, rule quiet_basic, rule atomic_sure, intro frame)

text \<open>
  Evidence is accepted only from the technician assigned to a job in progress, whose role may perform
  maintenance, as a file of allowed type, size and signature; then exactly the record of this
  file is added.  A refused or failed upload changes no record.
\<close>

theorem evidence_upload_gate:
  "(case evidence_upload sv en jobId a u s of
      (Inr e, s') \<Rightarrow> accepts sv jobId a u \<and> es_records s' = evidence_save e (es_records s) \<and>
        evd_jobId e = jobId \<and> evd_uploadedBy e = ea_identityId a \<and>
        evd_sha256 e = sha256_hex (sv_lib sv) (up_bytes u) \<and> evd_sizeBytes e = length (up_bytes u)
    | (Inl err, s') \<Rightarrow> es_records s' = es_records s)"
proof -
  obtain r s' where out: "evidence_upload sv en jobId a u s = (r, s')" by fastforce
  show ?thesis
  proof (cases r)
    case (Inl err)
    from atomicD [OF upload_atomic out [unfolded Inl]] show ?thesis by (simp add: out Inl)
  next
    case (Inr e)
    with out [unfolded Inr upload_run] show ?thesis by (auto simp: out evidence_of_def)
  qed
qed

text \<open>
  Whatever the storage returns, a download that succeeds hands out bytes whose SHA-256 and length are
  those recorded for this piece of evidence of this job, to an actor who may view the job's
  history; the records are not changed.
\<close>

theorem download_integrity:
  assumes "evidence_download sv jobId i a s = (Inr (e, bs), s')"
  shows "js_get (es_records s) i = Some e \<and> evd_jobId e = jobId \<and>
    sha256_hex (sv_lib sv) bs = evd_sha256 e \<and> length bs = evd_sizeBytes e \<and>
    (\<exists>j. js_get (sv_jobs sv) jobId = Some j \<and> may_view j a) \<and> es_records s' = es_records s"
  using assms by (auto simp: evidence_download_def run)

section \<open>Object stores\<close>

text \<open>
  The contract of an object store: \<open>holds g cid bs\<close> says that the store in state
  \<open>g\<close> keeps \<open>bs\<close> under \<open>cid\<close>.  An upload keeps what is held and holds the
  new object, whose size it reports; a download returns what is held and changes nothing.
\<close>

locale object_store =
  fixes stg :: "'g storage"
    and ok :: "'g \<Rightarrow> bool"
    and holds :: "'g \<Rightarrow> string \<Rightarrow> bytes \<Rightarrow> bool"
  assumes upload_ok: "ok g \<Longrightarrow> stg_upload stg bs ct g = (r, g') \<Longrightarrow> ok g'"
    and upload_holds: "ok g \<Longrightarrow> stg_upload stg bs ct g = (Inr (cid, n), g') \<Longrightarrow> holds g' cid bs \<and> n = length bs"
    and upload_keeps: "ok g \<Longrightarrow> stg_upload stg bs ct g = (r, g') \<Longrightarrow> holds g c b \<Longrightarrow> holds g' c b"
    and download_held: "ok g \<Longrightarrow> holds g cid bs \<Longrightarrow> stg_download stg cid g = (Inr bs, g)"
begin

text \<open>Every record describes an object that is held.\<close>

definition vault :: "'g evidence_svc \<Rightarrow> 'g evidence_state \<Rightarrow> bool" where
  "vault sv s \<longleftrightarrow> ok (es_store s) \<and>
     (\<forall>i e. js_get (es_records s) i = Some e \<longrightarrow>
        (\<exists>bs. holds (es_store s) (evd_cid e) bs \<and> evd_sha256 e = sha256_hex (sv_lib sv) bs \<and>
              evd_sizeBytes e = length bs))"

lemma upload_store:
  assumes "sv_storage sv = stg" "ok (es_store s)" "evidence_upload sv en jobId a u s = (r, s')"
  shows "ok (es_store s')" "holds (es_store s) c b \<Longrightarrow> holds (es_store s') c b"
proof -
  have "keeps (\<lambda>s. ok (es_store s) \<and> (holds0 \<longrightarrow> holds (es_store s) c b)) (evidence_upload sv en jobId a u)" for holds0
  proof (rule keepsI)
    fix s :: "'g evidence_state" and r s'
    assume inv: "ok (es_store s) \<and> (holds0 \<longrightarrow> holds (es_store s) c b)"
      and out: "evidence_upload sv en jobId a u s = (r, s')"
    have "es_store s' = es_store s \<or> (\<exists>x g. stg_upload stg (up_bytes u) (up_contentType u) (es_store s) = (x, g) \<and> es_store s' = g)"
    proof (cases r)
      case (Inr e)
      with out show ?thesis using assms(1) by (auto simp: upload_run)
    next
      case (Inl e)
      with out show ?thesis using assms(1)
        by (auto simp: evidence_upload_def requireJob_def assertCanUpload_def validateUpload_def run Let_def
            dest!: from_storage_err)
    qed
    with inv show "ok (es_store s') \<and> (holds0 \<longrightarrow> holds (es_store s') c b)"
      using upload_ok upload_keeps by metis
  qed
  from keepsD [OF this [of True] assms(3)] keepsD [OF this [of False] assms(3)] assms(2)
  show "ok (es_store s')" "holds (es_store s) c b \<Longrightarrow> holds (es_store s') c b" by auto
qed

lemma vault_upload:
  assumes "sv_storage sv = stg" "vault sv s" "evidence_upload sv en jobId a u s = (r, s')"
  shows "vault sv s'"
proof -
  note store = upload_store [OF assms(1) _ assms(3)]
  have old: "\<exists>bs. holds (es_store s') (evd_cid e) bs \<and> evd_sha256 e = sha256_hex (sv_lib sv) bs \<and>
      evd_sizeBytes e = length bs" if "js_get (es_records s) i = Some e" for i e
    using that assms(2) store(2) unfolding vault_def by blast
  have okS: "ok (es_store s')" using assms(2) store(1) unfolding vault_def by blast
  show ?thesis
  proof (cases r)
    case (Inl err)
    have "es_records s' = es_records s" by (rule atomicD [OF upload_atomic assms(3) [unfolded Inl]])
    with old okS show ?thesis unfolding vault_def by auto
  next
    case (Inr e)
    with assms(3) [unfolded Inr upload_run] assms(1,2) have
      "holds (es_store s') (evd_cid e) (up_bytes u)" "evd_sha256 e = sha256_hex (sv_lib sv) (up_bytes u)"
      "evd_sizeBytes e = length (up_bytes u)" "es_records s' = evidence_save e (es_records s)"
      unfolding vault_def by (auto simp: evidence_of_def dest: upload_holds)
    with old okS show ?thesis unfolding vault_def by (auto simp: evidence_save_def)
  qed
qed

lemma download_vault:
  assumes "sv_storage sv = stg" "vault sv s" "js_get (es_records s) i = Some e" "evd_jobId e = jobId"
    and "js_get (sv_jobs sv) jobId = Some j" "may_view j a" "holds (es_store s) (evd_cid e) bs"
  shows "evidence_download sv jobId i a s = (Inr (e, bs), s)"
proof -
  from assms(2,7) have dl: "stg_download stg (evd_cid e) (es_store s) = (Inr bs, es_store s)"
    unfolding vault_def by (blast intro: download_held)
  from assms(2,3) obtain bs' where bs': "holds (es_store s) (evd_cid e) bs'"
    "evd_sha256 e = sha256_hex (sv_lib sv) bs'" "evd_sizeBytes e = length bs'"
    unfolding vault_def by blast
  with assms(2) have "stg_download stg (evd_cid e) (es_store s) = (Inr bs', es_store s)"
    unfolding vault_def by (blast intro: download_held)
  with dl have "bs' = bs" by simp
  moreover have "find_evidence sv jobId i a s = (Inr e, s)"
    using assms(3-6) by (auto simp: find_evidence_run)
  moreover have "from_storage (stg_download stg (evd_cid e)) s = (Inr bs, s)"
    using dl by (simp add: from_storage_def)
  ultimately show ?thesis using assms(1) bs'
    by (simp add: evidence_download_def bindE_Inr thenE_def throwIf_def ret_def bindE_def)
qed

end

subsection \<open>The store in memory\<close>

lemma show_nat_inj: "show_nat m = show_nat n \<longleftrightarrow> m = n"
  by (metis show_nat_digits)

text \<open>The keys are the numbers from 1 in order, so the next number is always free.\<close>

definition numbered :: "string \<Rightarrow> objects \<Rightarrow> bool" where
  "numbered prefix os \<longleftrightarrow> js_keys os = map (memory_cid prefix) [1..<length os + 1]"

lemma update_new: "k \<notin> set (js_keys m) \<Longrightarrow> js_set k v m = m @ [(k, v)]"
  by (induction m) auto

lemma numbered_fresh:
  assumes "numbered prefix os"
  shows "memory_cid prefix (length os + 1) \<notin> set (js_keys os)"
  unfolding assms [unfolded numbered_def] by (auto simp: memory_cid_def show_nat_inj)

lemma memory_upload_run:
  assumes "numbered prefix os"
  shows "memory_upload prefix bs ct os =
    (Inr (memory_cid prefix (length os + 1), length bs), os @ [(memory_cid prefix (length os + 1), bs)])"
  using update_new [OF numbered_fresh [OF assms]]
  by (simp add: memory_upload_def exec_defs)

interpretation memory_store: object_store "memory_storage prefix" "numbered prefix"
  "\<lambda>os cid bs. js_get os cid = Some bs"
  for prefix
proof
  fix os os' bs ct r
  assume num: "numbered prefix os" and up: "stg_upload (memory_storage prefix) bs ct os = (r, os')"
  note grown = up [unfolded memory_storage_def, simplified, unfolded memory_upload_run [OF num]]
  show "numbered prefix os'" using num grown by (auto simp: numbered_def)
  show "js_get os' c = Some b" if "js_get os c = Some b" for c b
    using that grown by (auto simp: map_add_def split: option.split)
next
  fix os os' bs ct cid n
  assume num: "numbered prefix os" and up: "stg_upload (memory_storage prefix) bs ct os = (Inr (cid, n), os')"
  note grown = up [unfolded memory_storage_def, simplified, unfolded memory_upload_run [OF num]]
  have "js_get os (memory_cid prefix (length os + 1)) = None"
    using numbered_fresh [OF num] by (simp add: map_of_eq_None_iff)
  with grown show "js_get os' cid = Some bs \<and> n = length bs" by (auto simp: map_add_def)
next
  fix os :: objects and cid bs :: string
  assume "js_get os cid = Some bs"
  then show "stg_download (memory_storage prefix) cid os = (Inr bs, os)"
    by (simp add: memory_storage_def memory_download_def exec_defs)
qed

text \<open>A sequence of upload requests, each with the environment it runs in.\<close>

fun uploads ::
  "'g evidence_svc \<Rightarrow> (env \<times> string \<times> evidence_actor \<times> upload_input) list \<Rightarrow> 'g evidence_state \<Rightarrow> 'g evidence_state"
where
  "uploads sv [] s = s"
| "uploads sv ((en, jobId, a, u) # reqs) s = uploads sv reqs (snd (evidence_upload sv en jobId a u s))"

abbreviation memory_vault :: "string \<Rightarrow> objects evidence_svc \<Rightarrow> objects evidence_state \<Rightarrow> bool" where
  "memory_vault prefix \<equiv> object_store.vault (numbered prefix) (\<lambda>os cid bs. js_get os cid = Some bs)"

lemma uploads_keep:
  assumes "sv_storage sv = memory_storage prefix" "memory_vault prefix sv s"
    and "js_get (es_records s) i = Some e" "js_get (es_store s) (evd_cid e) = Some bs"
    and "i \<notin> (\<lambda>(en, _). uuid en 0) ` set reqs"
  shows "memory_vault prefix sv (uploads sv reqs s) \<and> js_get (es_records (uploads sv reqs s)) i = Some e \<and>
    js_get (es_store (uploads sv reqs s)) (evd_cid e) = Some bs"
  using assms(2-5)
proof (induction reqs arbitrary: s)
  case Nil
  then show ?case by simp
next
  case (Cons req reqs)
  obtain en jobId a u where req: "req = (en, jobId, a, u)" by (cases req)
  obtain r s1 where out: "evidence_upload sv en jobId a u s = (r, s1)" by fastforce
  have "numbered prefix (es_store s)" using Cons.prems(1) by (simp add: memory_store.vault_def)
  then have "js_get (es_store s1) (evd_cid e) = Some bs"
    using memory_store.upload_store(2) [OF assms(1) _ out] Cons.prems(3) by blast
  moreover have "memory_vault prefix sv s1"
    by (rule memory_store.vault_upload [OF assms(1) Cons.prems(1) out])
  moreover have "js_get (es_records s1) i = Some e"
  proof (cases r)
    case (Inl err)
    from atomicD [OF upload_atomic out [unfolded Inl]] Cons.prems(2) show ?thesis by simp
  next
    case (Inr e')
    with out [unfolded Inr upload_run] Cons.prems(2,4) show ?thesis
      by (auto simp: evidence_save_def evidence_of_def req)
  qed
  ultimately show ?case using Cons.IH [of s1] Cons.prems(4) by (simp add: req out)
qed

text \<open>
  C14. Uploaded evidence survives: after an accepted upload and any further upload requests that are given
  other ids, successful or not, everyone who may view the job's history downloads exactly the
  record and the bytes of the upload.
\<close>

theorem evidence_survives:
  assumes "sv_storage sv = memory_storage prefix" "memory_vault prefix sv s"
    and "evidence_upload sv en jobId a u s = (Inr e, s1)"
    and "uuid en 0 \<notin> (\<lambda>(en', _). uuid en' 0) ` set reqs"
    and "js_get (sv_jobs sv) jobId = Some j" "may_view j viewer"
  shows "evidence_download sv jobId (evd_evidenceId e) viewer (uploads sv reqs s1) =
    (Inr (e, up_bytes u), uploads sv reqs s1)"
proof -
  let ?i = "evd_evidenceId e"
  have v1: "memory_vault prefix sv s1"
    by (rule memory_store.vault_upload [OF assms(1,2,3)])
  have num: "numbered prefix (es_store s)" using assms(2) by (simp add: memory_store.vault_def)
  from assms(3) [unfolded upload_run] obtain cid g where
    up: "stg_upload (memory_storage prefix) (up_bytes u) (up_contentType u) (es_store s) = (Inr (cid, length (up_bytes u)), g)"
    and e: "e = evidence_of sv en jobId a u cid"
    and s1: "s1 = s\<lparr>es_store := g, es_records := evidence_save e (es_records s)\<rparr>"
    unfolding assms(1) by blast
  have cid: "evd_cid e = cid" "es_store s1 = g" by (simp_all add: e s1 evidence_of_def)
  have held: "js_get (es_store s1) (evd_cid e) = Some (up_bytes u)"
    unfolding cid using memory_store.upload_holds [OF num up] by blast
  have found: "js_get (es_records s1) ?i = Some e" by (simp add: s1 evidence_save_def)
  have id: "?i = uuid en 0" "evd_jobId e = jobId" by (simp_all add: e evidence_of_def)
  note kept = uploads_keep [OF assms(1) v1 found held assms(4) [folded id(1)]]
  show ?thesis
    by (rule memory_store.download_vault [OF assms(1) conjunct1 [OF kept] _ id(2) assms(5,6)])
       (use kept in blast)+
qed

definition demo_lib :: node_lib where
  "demo_lib = \<lparr>sha256_hex = id, utf8_decode = id, utf8_encode = id\<rparr>"

definition demo_evidence_job :: job where
  "demo_evidence_job = \<lparr>job_jobId = ''J1'', job_assetId = ''A1'', job_createdBy = ''boss'', job_assignedTo = ''tech'',
     job_verifierId = JNull, job_status = IN_PROGRESS, job_priority = JStr ''HIGH'', job_createdAt = Iso 0,
     job_completedAt = None\<rparr>"

definition demo_evidence :: "objects evidence_svc" where
  "demo_evidence = \<lparr>sv_storage = memory_storage ''bafy-memory-'', sv_lib = demo_lib,
     sv_jobs = [(''J1'', demo_evidence_job)], sv_maxFileSizeBytes = 100,
     sv_allowedMimeTypes = DEFAULT_ALLOWED_MIME_TYPES\<rparr>"

definition demo_vault :: "objects evidence_state" where
  "demo_vault = \<lparr>es_records = [], es_store = []\<rparr>"

definition demo_technician :: evidence_actor where
  "demo_technician = \<lparr>ea_identityId = ''tech'', ea_walletAddress = ''0xtech'', ea_role = TECHNICIAN\<rparr>"

definition demo_file :: "string \<Rightarrow> upload_input" where
  "demo_file t = \<lparr>up_bytes = t, up_filename = ''a/b.txt'', up_contentType = ''Text/Plain''\<rparr>"

theorem download_integrity_witness:
  "\<exists>e s'. evidence_download demo_evidence ''J1'' ''u0'' demo_technician
      (snd (evidence_upload demo_evidence demo_env ''J1'' demo_technician (demo_file ''ok'') demo_vault)) = (Inr (e, ''ok''), s')
    \<and> sha256_hex (sv_lib demo_evidence) ''ok'' = evd_sha256 e"
proof -
  let ?s = "snd (evidence_upload demo_evidence demo_env ''J1'' demo_technician (demo_file ''ok'') demo_vault)"
  let ?out = "evidence_download demo_evidence ''J1'' ''u0'' demo_technician ?s"
  have "map_sum (\<lambda>_. ()) snd (fst ?out) = Inr ''ok''" by code_simp
  then obtain e s' where out: "?out = (Inr (e, ''ok''), s')" by (cases ?out; cases "fst ?out") auto
  with download_integrity [OF out] show ?thesis by blast
qed

theorem evidence_survives_witness:
  "\<exists>e s1. evidence_upload demo_evidence demo_env ''J1'' demo_technician (demo_file ''ok'') demo_vault = (Inr e, s1) \<and>
     evidence_download demo_evidence ''J1'' (evd_evidenceId e) demo_technician
       (uploads demo_evidence [(demo_env\<lparr>uuid := \<lambda>_. ''u9''\<rparr>, ''J1'', demo_technician, demo_file ''more'')] s1)
     = (Inr (e, ''ok''), uploads demo_evidence [(demo_env\<lparr>uuid := \<lambda>_. ''u9''\<rparr>, ''J1'', demo_technician, demo_file ''more'')] s1)"
proof -
  let ?out = "evidence_upload demo_evidence demo_env ''J1'' demo_technician (demo_file ''ok'') demo_vault"
  let ?reqs = "[(demo_env\<lparr>uuid := \<lambda>_. ''u9''\<rparr>, ''J1'', demo_technician, demo_file ''more'')]"
  have "map_sum (\<lambda>_. ()) evd_cid (fst ?out) = Inr ''bafy-memory-1''" by code_simp
  then obtain e s1 where out: "?out = (Inr e, s1)" by (cases ?out; cases "fst ?out") auto
  have v: "memory_vault ''bafy-memory-'' demo_evidence demo_vault"
    by (simp add: memory_store.vault_def demo_vault_def numbered_def)
  have sv: "sv_storage demo_evidence = memory_storage ''bafy-memory-''"
    "js_get (sv_jobs demo_evidence) ''J1'' = Some demo_evidence_job"
    by (simp_all add: demo_evidence_def)
  have "may_view demo_evidence_job demo_technician" by code_simp
  moreover have "uuid demo_env 0 \<noteq> ''u9''" by code_simp
  ultimately have "evidence_download demo_evidence ''J1'' (evd_evidenceId e) demo_technician (uploads demo_evidence ?reqs s1)
      = (Inr (e, up_bytes (demo_file ''ok'')), uploads demo_evidence ?reqs s1)"
    by (intro evidence_survives [OF sv(1) v out _ sv(2)]) auto
  with out show ?thesis by (auto simp: demo_file_def)
qed

section \<open>File names\<close>

text \<open>The characters a stored file name may have.\<close>

definition name_chars :: string where
  "name_chars = ''ABCDEFGHIJKLMNOPQRSTUVWXYZabcdefghijklmnopqrstuvwxyz0123456789_.() -''"

lemma set_trim: "set (trim s) \<subseteq> set s"
  unfolding trim_def by (auto dest!: set_dropWhileD)

lemma name_char_ok: "name_char c \<in> set name_chars"
  by (simp add: name_char_def name_chars_def)

text \<open>
  A sanitized file name has between 1 and 180 characters, all of them letters, digits, underscores,
  dots, parentheses, blanks or hyphens: it cannot leave a directory, end the quoted text of the
  \<^verbatim>\<open>Content-Disposition\<close> header it is put into, or begin a new header line.
\<close>

theorem sanitized_filename_safe:
  "sanitizeFilename f \<noteq> [] \<and> length (sanitizeFilename f) \<le> 180 \<and>
   set (sanitizeFilename f) \<subseteq> set name_chars \<and>
   set (sanitizeFilename f) \<inter> {CHR ''/'', CHR 0x5C, CHR 0x22, CHR 0x0D, CHR 0x0A, CHR 0x00} = {}"
proof -
  have "set (take 180 (trim (map name_char f))) \<subseteq> set name_chars"
    using set_take_subset [of 180 "trim (map name_char f)"] set_trim [of "map name_char f"] name_char_ok by auto
  moreover have "set ''evidence'' \<subseteq> set name_chars" by (simp add: name_chars_def)
  ultimately have chars: "set (sanitizeFilename f) \<subseteq> set name_chars"
    by (simp add: sanitizeFilename_def Let_def)
  moreover have "set name_chars \<inter> {CHR ''/'', CHR 0x5C, CHR 0x22, CHR 0x0D, CHR 0x0A, CHR 0x00} = {}"
    by (simp add: name_chars_def)
  ultimately show ?thesis by (auto simp: sanitizeFilename_def Let_def)
qed

section \<open>Multipart requests\<close>

text \<open>\<open>first_at sub xs n\<close>: the first occurrence of \<open>sub\<close> in \<open>xs\<close> begins at \<open>n\<close>.\<close>

definition first_at :: "'a list \<Rightarrow> 'a list \<Rightarrow> nat \<Rightarrow> bool" where
  "first_at sub xs n \<longleftrightarrow> n \<le> length xs \<and> take (length sub) (drop n xs) = sub \<and>
     (\<forall>i < n. take (length sub) (drop i xs) \<noteq> sub)"

lemma first_at_Cons:
  "first_at sub (x # xs) n \<longleftrightarrow>
     (if take (length sub) (x # xs) = sub then n = 0 else \<exists>k. n = Suc k \<and> first_at sub xs k)"
proof (cases n)
  case (Suc k)
  have "(\<forall>i < Suc k. take (length sub) (drop i (x # xs)) \<noteq> sub) \<longleftrightarrow>
      take (length sub) (x # xs) \<noteq> sub \<and> (\<forall>i < k. take (length sub) (drop i xs) \<noteq> sub)"
    by (auto simp: less_Suc_eq_0_disj)
  then show ?thesis by (auto simp: first_at_def Suc)
qed (auto simp: first_at_def)

lemma find_sub_first: "find_sub sub xs = Some n \<longleftrightarrow> first_at sub xs n"
proof (induction xs arbitrary: n)
  case Nil
  then show ?case by (auto simp: first_at_def)
next
  case (Cons x xs)
  show ?case by (auto simp: first_at_Cons Cons.IH)
qed

lemma first_at_split:
  "first_at sub xs n \<Longrightarrow> xs = take n xs @ sub @ drop (n + length sub) xs \<and> length (take n xs) = n"
  unfolding first_at_def
  by (metis add.commute append_take_drop_id drop_drop length_take min_absorb2)

lemma collect_run:
  "collect mx acc chunks = Inr body \<longleftrightarrow>
     body = acc @ concat chunks \<and> (chunks = [] \<or> int (length body) \<le> mx + 32 * 1024)"
proof (induction chunks arbitrary: acc)
  case Nil
  then show ?case by auto
next
  case (Cons c cs)
  show ?case by (auto simp: Cons.IH)
qed

text \<open>The marker that ends the file part.\<close>

definition end_marker :: "node_lib \<Rightarrow> string \<Rightarrow> bytes" where
  "end_marker lib b = CRLF @ utf8_encode lib (''--'' @ b) @ ''--''"

text \<open>The description of a well-formed request: what the parser is meant to accept.\<close>

definition multipart_request ::
  "node_lib \<Rightarrow> string \<Rightarrow> bytes \<Rightarrow> int \<Rightarrow> upload_input \<Rightarrow> bool" where
  "multipart_request lib header body mx u \<longleftrightarrow>
     (\<exists>b H rest. boundary_of header = Some b \<and>
        body = H @ CRLF @ CRLF @ up_bytes u @ end_marker lib b @ rest \<and>
        first_at (CRLF @ CRLF) body (length H) \<and>
        first_at (end_marker lib b) (up_bytes u @ end_marker lib b @ rest) (length (up_bytes u)) \<and>
        parse_part (split_crlf (utf8_decode lib H)) = Some (up_filename u, up_contentType u) \<and>
        int (length (up_bytes u)) \<le> mx \<and> int (length body) \<le> mx + 32 * 1024)"

lemma parse_body_ok:
  "parse_body lib mx b body = Inr u \<longleftrightarrow>
     (\<exists>H rest. body = H @ CRLF @ CRLF @ up_bytes u @ end_marker lib b @ rest \<and>
        first_at (CRLF @ CRLF) body (length H) \<and>
        first_at (end_marker lib b) (up_bytes u @ end_marker lib b @ rest) (length (up_bytes u)) \<and>
        parse_part (split_crlf (utf8_decode lib H)) = Some (up_filename u, up_contentType u) \<and>
        int (length (up_bytes u)) \<le> mx)" (is "?L \<longleftrightarrow> ?R")
proof
  assume ?L
  then obtain h n f ct where h: "first_at (CRLF @ CRLF) body h"
    and n: "first_at (end_marker lib b) (drop (h + 4) body) n"
    and part: "parse_part (split_crlf (utf8_decode lib (take h body))) = Some (f, ct)" and sz: "int n \<le> mx"
    and u: "u = \<lparr>up_bytes = take n (drop (h + 4) body), up_filename = f, up_contentType = ct\<rparr>"
    by (auto simp: parse_body_def Let_def find_sub_first [symmetric] end_marker_def split: option.splits if_splits)
  from first_at_split [OF h] have body: "body = take h body @ CRLF @ CRLF @ drop (h + 4) body"
    and len: "length (take h body) = h" by (simp_all add: numeral_eq_Suc)
  from first_at_split [OF n] have rest: "drop (h + 4) body =
      up_bytes u @ end_marker lib b @ drop (n + length (end_marker lib b)) (drop (h + 4) body)"
    and lenb: "length (up_bytes u) = n" by (simp_all add: u)
  show ?R
    by (rule exI [of _ "take h body"], rule exI [of _ "drop (n + length (end_marker lib b)) (drop (h + 4) body)"])
       (use body rest h n part sz len lenb in \<open>simp add: u\<close>)
next
  assume ?R
  then obtain H rest where *: "body = H @ CRLF @ CRLF @ up_bytes u @ end_marker lib b @ rest"
    "first_at (CRLF @ CRLF) body (length H)"
    "first_at (end_marker lib b) (up_bytes u @ end_marker lib b @ rest) (length (up_bytes u))"
    "parse_part (split_crlf (utf8_decode lib H)) = Some (up_filename u, up_contentType u)"
    "int (length (up_bytes u)) \<le> mx" by blast
  have split: "take (length H) body = H" "drop (length H + 4) body = up_bytes u @ end_marker lib b @ rest"
    by (simp_all add: *(1))
  show ?L
    unfolding parse_body_def end_marker_def [symmetric] find_sub_first [THEN iffD2, OF *(2)] Let_def option.case
      split find_sub_first [THEN iffD2, OF *(3)] *(4)
    using *(5) by simp
qed


text \<open>
  The order of the parameters of the disposition matters to the parser: its
  search for \<^verbatim>\<open>name="..."\<close> also matches within \<^verbatim>\<open>filename="..."\<close>, so a part that
  gives the file name first is refused, although the order is free in the format.
\<close>

definition quoted :: "string \<Rightarrow> string" where
  "quoted s = [dquote] @ s @ [dquote]"

lemma filename_first_rejected:
  "quoted_after ''name'' (''filename='' @ quoted ''a'' @ '';name='' @ quoted ''file'') = Some ''a''"
  by code_simp

end
