(* ===== verification/Jobs.thy ===== *)
theory Jobs
  imports Chain Repositories
begin

text \<open>
  \<^verbatim>\<open>backend/src/jobs/jobs.service.ts\<close>: the maintenance-job lifecycle.  The state of the
  service is its repository and the chain it submits to; \<open>jobs_svc\<close> collects what the
  constructor receives.  The lemmas show that a failed request leaves the repository as it was,
  that every stored job is well formed, that each request refines one step of an abstract
  lifecycle machine, and that the repository and a chain that obeys the ledger contract agree.
\<close>

section \<open>The service\<close>

record 'c jobs_state =
  js_jobs :: job_repo
  js_chain :: 'c

record 'c jobs_svc =
  svc_chain :: "'c chain_api"
  svc_assets :: "(string \<Rightarrow> bool) option"
  svc_identityExists :: "(string \<Rightarrow> bool) option"

fun ALLOWED_TRANSITIONS :: "job_status \<Rightarrow> job_status list" where
  "ALLOWED_TRANSITIONS CREATED = [ASSIGNED]"
| "ALLOWED_TRANSITIONS ASSIGNED = [IN_PROGRESS]"
| "ALLOWED_TRANSITIONS IN_PROGRESS = [COMPLETED]"
| "ALLOWED_TRANSITIONS COMPLETED = [VERIFIED, REJECTED]"
| "ALLOWED_TRANSITIONS VERIFIED = []"
| "ALLOWED_TRANSITIONS REJECTED = [ASSIGNED]"

definition assertTransition :: "job_status \<Rightarrow> job_status \<Rightarrow> ('s, error, unit) m" where
  "assertTransition cur nxt =
     throwIf (nxt \<notin> set (ALLOWED_TRANSITIONS cur))
       (PlainError (''Invalid job transition: '' @ show_job_status cur @ '' -> '' @ show_job_status nxt))"

definition requireAssignedTechnician :: "job \<Rightarrow> actor \<Rightarrow> ('s, error, unit) m" where
  "requireAssignedTechnician j a =
     throwIf (job_assignedTo j = [] \<or> job_assignedTo j \<noteq> act_identityId a)
       (ForbiddenError ''Only the assigned technician may perform maintenance'')"

definition requireIndependentVerifier :: "job \<Rightarrow> actor \<Rightarrow> ('s, error, unit) m" where
  "requireIndependentVerifier j a =
     thenE (throwIf (job_assignedTo j = act_identityId a)
              (ForbiddenError ''The assigned technician cannot verify their own work''))
       (throwIf (truthy (job_verifierId j) \<and> job_verifierId j \<noteq> JStr (act_identityId a))
          (ForbiddenError ''Only the assigned verifier may verify this job''))"

text \<open>Run a chain call on the chain part of the state.\<close>

definition on_chain :: "('c \<Rightarrow> (error + 'a) \<times> 'c) \<Rightarrow> ('c jobs_state, error, 'a) m" where
  "on_chain f = (\<lambda>s. case f (js_chain s) of (r, c) \<Rightarrow> (r, s\<lparr>js_chain := c\<rparr>))"

definition jobs_tx :: "env \<Rightarrow> transaction_type \<Rightarrow> actor \<Rightarrow> jsobj \<Rightarrow> string \<Rightarrow> transaction" where
  "jobs_tx en ty a p sig = \<lparr>tx_txId = uuid en 0, tx_type = ty, tx_actorIdentity = act_identityId a,
     tx_actorWallet = act_walletAddress a, tx_payload = p, tx_timestamp = iso_now en,
     tx_signature = sig\<rparr>"

definition jobs_submit ::
    "'c jobs_svc \<Rightarrow> env \<Rightarrow> transaction_type \<Rightarrow> actor \<Rightarrow> jsobj \<Rightarrow> ('c jobs_state, error, unit) m" where
  "jobs_submit svc en ty a p =
     (let sig = map_option trim (act_signature a);
          unsigned = (sig = None \<or> sig = Some [])
      in thenE (throwIf (evm_mode en \<and> (unsigned \<or> sig = Some ''development''))
                  (BlockchainError SIGNER
                     (''A device-signed raw transaction is required for EVM '' @ show_tx ty)))
          (bindE (on_chain (submitTransaction (svc_chain svc) en
                    (jobs_tx en ty a p (if unsigned then ''development'' else the sig))))
             (\<lambda>res. throwIf (res_status res \<noteq> SUCCESS) (JobRejectedByChain ty (res_revert res)))))"

definition findJob :: "string \<Rightarrow> ('c jobs_state, error, job) m" where
  "findJob i = bindE (reads (\<lambda>s. jobs_findById (js_jobs s) i))
     (\<lambda>j. required j (NotFoundError (''No job '' @ i)))"

definition saveJob :: "job \<Rightarrow> ('c jobs_state, error, job) m" where
  "saveJob j = thenE (modifyS (\<lambda>s. s\<lparr>js_jobs := jobs_save j (js_jobs s)\<rparr>)) (ret j)"

text \<open>\<^verbatim>\<open>if (this.identityExists && !(await this.identityExists(x))) throw ...\<close>.\<close>

definition missing :: "(string \<Rightarrow> bool) option \<Rightarrow> string \<Rightarrow> bool" where
  "missing ex x = (case ex of None \<Rightarrow> False | Some f \<Rightarrow> \<not> f x)"

definition create_errors :: "jsobj \<Rightarrow> string list" where
  "create_errors input =
     (if text_of (fld input ''assetId'') = None then [''assetId is required''] else []) @
     (if text_of (fld input ''createdBy'') = None then [''createdBy is required''] else []) @
     (if \<not> truthy (fld input ''priority'') then [''priority is required''] else [])"

definition new_job :: "env \<Rightarrow> jsobj \<Rightarrow> job_repo \<Rightarrow> job" where
  "new_job en input repo =
     \<lparr>job_jobId = (case text_of (fld input ''jobId'') of
          Some i \<Rightarrow> trim i
        | None \<Rightarrow> ''JOB-'' @ show_nat (length (jobs_list repo) + 1)),
      job_assetId = (case as_str (fld input ''assetId'') of Some a \<Rightarrow> a | None \<Rightarrow> []),
      job_createdBy = (case as_str (fld input ''createdBy'') of Some a \<Rightarrow> a | None \<Rightarrow> []),
      job_assignedTo = [],
      job_verifierId = nullish_or (fld input ''verifierId'') JNull,
      job_status = CREATED,
      job_priority = fld input ''priority'',
      job_createdAt = iso_now en,
      job_completedAt = None\<rparr>"

definition create :: "'c jobs_svc \<Rightarrow> env \<Rightarrow> jsobj \<Rightarrow> actor \<Rightarrow> ('c jobs_state, error, job) m" where
  "create svc en input a =
     thenE (throwIf (create_errors input \<noteq> []) (ValidationError (create_errors input)))
     (bindE (reads (\<lambda>s. new_job en input (js_jobs s))) (\<lambda>j.
      thenE (throwIf (missing (svc_assets svc) (job_assetId j))
               (NotFoundError (''No asset '' @ job_assetId j)))
     (thenE (throwIf (missing (svc_identityExists svc) (job_createdBy j))
               (NotFoundError (''No identity '' @ job_createdBy j)))
     (bindE (reads (\<lambda>s. jobs_findById (js_jobs s) (job_jobId j))) (\<lambda>old.
      thenE (throwIf (old \<noteq> None) (ValidationError [''jobId '' @ job_jobId j @ '' already exists'']))
     (thenE (jobs_submit svc en JOB_CREATE a
               [(''jobId'', JStr (job_jobId j)), (''assetId'', JStr (job_assetId j))])
        (saveJob j)))))))"

definition assign :: "'c jobs_svc \<Rightarrow> env \<Rightarrow> string \<Rightarrow> string \<Rightarrow> actor \<Rightarrow> ('c jobs_state, error, job) m" where
  "assign svc en i technicianId a =
     bindE (findJob i) (\<lambda>j.
     thenE (throwIf (blank technicianId) (ValidationError [''technicianId is required'']))
     (thenE (throwIf (missing (svc_identityExists svc) technicianId)
               (NotFoundError (''No identity '' @ technicianId)))
     (thenE (assertTransition (job_status j) ASSIGNED)
     (thenE (jobs_submit svc en JOB_ASSIGN a
               [(''jobId'', JStr (job_jobId j)), (''technicianId'', JStr technicianId)])
        (saveJob (j\<lparr>job_assignedTo := technicianId, job_status := ASSIGNED\<rparr>))))))"

definition start :: "'c jobs_svc \<Rightarrow> env \<Rightarrow> string \<Rightarrow> actor \<Rightarrow> ('c jobs_state, error, job) m" where
  "start svc en i a =
     bindE (findJob i) (\<lambda>j.
     thenE (assertTransition (job_status j) IN_PROGRESS)
     (thenE (requireAssignedTechnician j a)
     (thenE (jobs_submit svc en JOB_START a [(''jobId'', JStr (job_jobId j))])
        (saveJob (j\<lparr>job_status := IN_PROGRESS\<rparr>)))))"

definition complete :: "'c jobs_svc \<Rightarrow> env \<Rightarrow> string \<Rightarrow> string \<Rightarrow> actor \<Rightarrow> ('c jobs_state, error, job) m" where
  "complete svc en i evidenceHash a =
     bindE (findJob i) (\<lambda>j.
     thenE (throwIf (\<not> hex_of_length 64 evidenceHash)
              (ValidationError [''evidenceHash must be a 64-character SHA-256 hex digest'']))
     (thenE (assertTransition (job_status j) COMPLETED)
     (thenE (requireAssignedTechnician j a)
     (thenE (jobs_submit svc en JOB_COMPLETE a
               [(''jobId'', JStr (job_jobId j)), (''evidenceHash'', JStr evidenceHash)])
        (saveJob (j\<lparr>job_status := COMPLETED, job_completedAt := Some (iso_now en)\<rparr>))))))"

definition approve :: "'c jobs_svc \<Rightarrow> env \<Rightarrow> string \<Rightarrow> actor \<Rightarrow> ('c jobs_state, error, job) m" where
  "approve svc en i a =
     bindE (findJob i) (\<lambda>j.
     thenE (assertTransition (job_status j) VERIFIED)
     (thenE (requireIndependentVerifier j a)
     (thenE (jobs_submit svc en JOB_APPROVE a [(''jobId'', JStr (job_jobId j))])
        (saveJob (j\<lparr>job_status := VERIFIED, job_verifierId := JStr (act_identityId a)\<rparr>)))))"

definition reject :: "'c jobs_svc \<Rightarrow> env \<Rightarrow> string \<Rightarrow> string \<Rightarrow> actor \<Rightarrow> ('c jobs_state, error, job) m" where
  "reject svc en i reason a =
     bindE (findJob i) (\<lambda>j.
     thenE (throwIf (blank reason) (ValidationError [''reason is required'']))
     (thenE (assertTransition (job_status j) REJECTED)
     (thenE (requireIndependentVerifier j a)
     (thenE (jobs_submit svc en JOB_REJECT a
               [(''jobId'', JStr (job_jobId j)), (''reason'', JStr reason)])
        (saveJob (j\<lparr>job_status := REJECTED, job_verifierId := JStr (act_identityId a)\<rparr>))))))"

datatype job_mutation = MutAssign | MutStart | MutComplete | MutApprove | MutReject

fun mutation_type :: "job_mutation \<Rightarrow> transaction_type" where
  "mutation_type MutAssign = JOB_ASSIGN"
| "mutation_type MutStart = JOB_START"
| "mutation_type MutComplete = JOB_COMPLETE"
| "mutation_type MutApprove = JOB_APPROVE"
| "mutation_type MutReject = JOB_REJECT"

definition prepare_checks ::
    "'c jobs_svc \<Rightarrow> job_mutation \<Rightarrow> job \<Rightarrow> jsobj \<Rightarrow> actor \<Rightarrow> ('c jobs_state, error, unit) m" where
  "prepare_checks svc ty j payload a = (case ty of
     MutAssign \<Rightarrow>
       bindE (required (text_of (fld payload ''technicianId''))
                (ValidationError [''technicianId is required''])) (\<lambda>technicianId.
       thenE (throwIf (missing (svc_identityExists svc) technicianId)
                (NotFoundError (''No identity '' @ technicianId)))
         (assertTransition (job_status j) ASSIGNED))
   | MutStart \<Rightarrow>
       thenE (assertTransition (job_status j) IN_PROGRESS) (requireAssignedTechnician j a)
   | MutComplete \<Rightarrow>
       thenE (throwIf (case as_str (fld payload ''evidenceHash'') of
                         None \<Rightarrow> True | Some h \<Rightarrow> \<not> hex_of_length 64 h)
                (ValidationError [''evidenceHash must be a 64-character SHA-256 hex digest'']))
       (thenE (assertTransition (job_status j) COMPLETED) (requireAssignedTechnician j a))
   | MutApprove \<Rightarrow>
       thenE (assertTransition (job_status j) VERIFIED) (requireIndependentVerifier j a)
   | MutReject \<Rightarrow>
       thenE (throwIf (text_of (fld payload ''reason'') = None)
                (ValidationError [''reason is required'']))
       (thenE (assertTransition (job_status j) REJECTED) (requireIndependentVerifier j a)))"

definition prepare ::
    "'c jobs_svc \<Rightarrow> env \<Rightarrow> job_mutation \<Rightarrow> string \<Rightarrow> jsobj \<Rightarrow> actor \<Rightarrow> ('c jobs_state, error, prepared) m" where
  "prepare svc en ty i payload a =
     bindE (findJob i) (\<lambda>j.
     thenE (prepare_checks svc ty j payload a)
       (case prepareTransaction (svc_chain svc) of
          None \<Rightarrow> throw (NotImplementedError ''Device transaction preparation is unavailable'')
        | Some f \<Rightarrow> query (\<lambda>s. f en (jobs_tx en (mutation_type ty) a
                       (spread [(''jobId'', JStr i)] payload) ''development'') (js_chain s))))"

section \<open>Requests and runs\<close>

datatype job_op =
    Create jsobj
  | Assign string string
  | Start string
  | Complete string string
  | Approve string
  | Reject string string

record job_request =
  rq_env :: env
  rq_actor :: actor
  rq_op :: job_op

definition jobs_exec :: "'c jobs_svc \<Rightarrow> job_request \<Rightarrow> ('c jobs_state, error, job) m" where
  "jobs_exec svc rq = (let en = rq_env rq; a = rq_actor rq in case rq_op rq of
     Create input \<Rightarrow> create svc en input a
   | Assign i t \<Rightarrow> assign svc en i t a
   | Start i \<Rightarrow> start svc en i a
   | Complete i h \<Rightarrow> complete svc en i h a
   | Approve i \<Rightarrow> approve svc en i a
   | Reject i why \<Rightarrow> reject svc en i why a)"

text \<open>The state after a sequence of requests, failed ones included.\<close>

primrec jobs_run :: "'c jobs_svc \<Rightarrow> job_request list \<Rightarrow> 'c jobs_state \<Rightarrow> 'c jobs_state" where
  "jobs_run svc [] s = s"
| "jobs_run svc (rq # rqs) s = jobs_run svc rqs (snd (jobs_exec svc rq s))"

text \<open>The job a request names, and what it does to that job when it succeeds.\<close>

fun target :: "job_op \<Rightarrow> string option" where
  "target (Create _) = None"
| "target (Assign i _) = Some i"
| "target (Start i) = Some i"
| "target (Complete i _) = Some i"
| "target (Approve i) = Some i"
| "target (Reject i _) = Some i"

definition independent :: "job \<Rightarrow> string \<Rightarrow> bool" where
  "independent j who \<longleftrightarrow>
     job_assignedTo j \<noteq> who \<and> (truthy (job_verifierId j) \<longrightarrow> job_verifierId j = JStr who)"

fun job_effect :: "env \<Rightarrow> string \<Rightarrow> job_op \<Rightarrow> job \<Rightarrow> job \<Rightarrow> bool" where
  "job_effect en who (Create _) j j' \<longleftrightarrow> False"
| "job_effect en who (Assign _ t) j j' \<longleftrightarrow>
     job_status j \<in> {CREATED, REJECTED} \<and> \<not> blank t \<and>
     j' = j\<lparr>job_assignedTo := t, job_status := ASSIGNED\<rparr>"
| "job_effect en who (Start _) j j' \<longleftrightarrow>
     job_status j = ASSIGNED \<and> job_assignedTo j = who \<and> who \<noteq> [] \<and>
     j' = j\<lparr>job_status := IN_PROGRESS\<rparr>"
| "job_effect en who (Complete _ h) j j' \<longleftrightarrow>
     job_status j = IN_PROGRESS \<and> job_assignedTo j = who \<and> who \<noteq> [] \<and> hex_of_length 64 h \<and>
     j' = j\<lparr>job_status := COMPLETED, job_completedAt := Some (iso_now en)\<rparr>"
| "job_effect en who (Approve _) j j' \<longleftrightarrow>
     job_status j = COMPLETED \<and> independent j who \<and>
     j' = j\<lparr>job_status := VERIFIED, job_verifierId := JStr who\<rparr>"
| "job_effect en who (Reject _ why) j j' \<longleftrightarrow>
     job_status j = COMPLETED \<and> independent j who \<and> \<not> blank why \<and>
     j' = j\<lparr>job_status := REJECTED, job_verifierId := JStr who\<rparr>"

subsection \<open>Inversion of one request\<close>

lemma on_chain_run [run]:
  "on_chain f s = (r, s') \<longleftrightarrow> (\<exists>c. f (js_chain s) = (r, c) \<and> s' = s\<lparr>js_chain := c\<rparr>)"
  by (auto simp: on_chain_def split: prod.splits)

lemma findJob_ok [run]:
  "findJob i s = (Inr j, s') \<longleftrightarrow> js_get (js_jobs s) i = Some j \<and> s' = s"
  by (auto simp: findJob_def run jobs_findById_def)

lemma findJob_err [run]:
  "findJob i s = (Inl e, s') \<longleftrightarrow>
     js_get (js_jobs s) i = None \<and> e = NotFoundError (''No job '' @ i) \<and> s' = s"
  by (auto simp: findJob_def run jobs_findById_def)

lemma saveJob_run [run]:
  "saveJob j s = (r, s') \<longleftrightarrow> r = Inr j \<and> s' = s\<lparr>js_jobs := jobs_save j (js_jobs s)\<rparr>"
  by (auto simp: saveJob_def thenE_def bindE_def modifyS_def ret_def)

lemma assertTransition_ok [run]:
  "assertTransition cur nxt s = (Inr u, s') \<longleftrightarrow> nxt \<in> set (ALLOWED_TRANSITIONS cur) \<and> s' = s"
  by (auto simp: assertTransition_def run)

lemma requireAssignedTechnician_ok [run]:
  "requireAssignedTechnician j a s = (Inr u, s') \<longleftrightarrow>
     job_assignedTo j \<noteq> [] \<and> job_assignedTo j = act_identityId a \<and> s' = s"
  by (auto simp: requireAssignedTechnician_def run)

lemma requireIndependentVerifier_ok [run]:
  "requireIndependentVerifier j a s = (Inr u, s') \<longleftrightarrow> independent j (act_identityId a) \<and> s' = s"
  by (auto simp: requireIndependentVerifier_def run independent_def)

text \<open>A guard that fails leaves the state alone.\<close>

lemma guard_frame:
  "assertTransition st nx t = (Inl x, t') \<Longrightarrow> t' = t"
  "requireAssignedTechnician j a t = (Inl x, t') \<Longrightarrow> t' = t"
  "requireIndependentVerifier j a t = (Inl x, t') \<Longrightarrow> t' = t"
  by (auto simp: assertTransition_def requireAssignedTechnician_def
      requireIndependentVerifier_def run)

lemma jobs_submit_chain_only:
  "jobs_submit svc en ty a p s = (r, s') \<Longrightarrow> \<exists>c. s' = s\<lparr>js_chain := c\<rparr>"
proof (cases r)
  case (Inl e)
  assume "jobs_submit svc en ty a p s = (r, s')"
  with Inl show ?thesis
    by (auto simp: jobs_submit_def Let_def run) (metis jobs_state.surjective jobs_state.update_convs(2))+
next
  case (Inr u)
  assume "jobs_submit svc en ty a p s = (r, s')"
  with Inr show ?thesis by (auto simp: jobs_submit_def Let_def run)
qed

lemma jobs_submit_jobs: "jobs_submit svc en ty a p s = (r, s') \<Longrightarrow> js_jobs s' = js_jobs s"
  by (auto dest: jobs_submit_chain_only)

lemma keeps_jobs_submit [keep]: "keeps (\<lambda>s. js_jobs s = J) (jobs_submit svc en ty a p)"
  by (rule keepsI) (simp add: jobs_submit_jobs)

lemma allowed_iff [simp]:
  "ASSIGNED \<in> set (ALLOWED_TRANSITIONS st) \<longleftrightarrow> st = CREATED \<or> st = REJECTED"
  "IN_PROGRESS \<in> set (ALLOWED_TRANSITIONS st) \<longleftrightarrow> st = ASSIGNED"
  "COMPLETED \<in> set (ALLOWED_TRANSITIONS st) \<longleftrightarrow> st = IN_PROGRESS"
  "VERIFIED \<in> set (ALLOWED_TRANSITIONS st) \<longleftrightarrow> st = COMPLETED"
  "REJECTED \<in> set (ALLOWED_TRANSITIONS st) \<longleftrightarrow> st = COMPLETED"
  by (cases st; simp)+

text \<open>A successful request saves one job: a new one, or the changed version of a stored one.\<close>

definition saved_by :: "job_request \<Rightarrow> job_repo \<Rightarrow> job \<Rightarrow> bool" where
  "saved_by rq repo j' \<longleftrightarrow>
     (\<exists>input. rq_op rq = Create input \<and> create_errors input = [] \<and>
        j' = new_job (rq_env rq) input repo \<and> js_get repo (job_jobId j') = None) \<or>
     (\<exists>i j. target (rq_op rq) = Some i \<and> js_get repo i = Some j \<and>
        job_effect (rq_env rq) (act_identityId (rq_actor rq)) (rq_op rq) j j')"

lemmas op_defs = create_def assign_def start_def complete_def approve_def reject_def

lemma jobs_exec_ok:
  assumes "jobs_exec svc rq s = (Inr j', s')"
  shows "saved_by rq (js_jobs s) j' \<and> js_jobs s' = jobs_save j' (js_jobs s)"
proof (cases "rq_op rq")
  case (Create input)
  with assms show ?thesis
    by (auto simp: jobs_exec_def Let_def create_def run saved_by_def jobs_findById_def
        dest!: jobs_submit_jobs)
qed (use assms in \<open>force simp: jobs_exec_def Let_def op_defs run saved_by_def dest!: jobs_submit_jobs\<close>)+

lemma jobs_exec_err:
  assumes "jobs_exec svc rq s = (Inl e, s')"
  shows "js_jobs s' = js_jobs s"
  using assms
  by (cases "rq_op rq")
    (auto simp: jobs_exec_def Let_def op_defs run dest!: jobs_submit_jobs guard_frame)

section \<open>Well-formed jobs\<close>

definition job_wf :: "job \<Rightarrow> bool" where
  "job_wf j \<longleftrightarrow>
     job_jobId j \<noteq> [] \<and> \<not> blank (job_assetId j) \<and> \<not> blank (job_createdBy j) \<and>
     truthy (job_priority j) \<and>
     (job_status j = CREATED \<longleftrightarrow> job_assignedTo j = []) \<and>
     (job_status j \<noteq> CREATED \<longrightarrow> \<not> blank (job_assignedTo j)) \<and>
     (job_status j \<in> {COMPLETED, VERIFIED, REJECTED} \<longrightarrow> job_completedAt j \<noteq> None) \<and>
     (job_status j \<in> {VERIFIED, REJECTED} \<longrightarrow>
        (\<exists>v. job_verifierId j = JStr v \<and> v \<noteq> job_assignedTo j))"

definition repo_wf :: "job_repo \<Rightarrow> bool" where
  "repo_wf r \<longleftrightarrow> keyed job_jobId r \<and> list_all job_wf (jobs_list r)"

lemma new_job_wf: "create_errors input = [] \<Longrightarrow> job_wf (new_job en input repo)"
  by (auto simp: create_errors_def job_wf_def new_job_def text_of_Some blank_def
      split: if_splits option.splits)

lemma job_wf_nonempty: "job_wf j \<Longrightarrow> job_jobId j \<noteq> [] \<and> job_assetId j \<noteq> []"
  by (auto simp: job_wf_def blank_def)

lemma job_effect_wf: "job_effect en who op j j' \<Longrightarrow> job_wf j \<Longrightarrow> job_wf j'"
  by (cases op) (auto simp: job_wf_def independent_def blank_def)

lemma job_effect_id: "job_effect en who op j j' \<Longrightarrow> job_jobId j' = job_jobId j"
  by (cases op) auto

lemma repo_wf_find: "repo_wf r \<Longrightarrow> js_get r i = Some j \<Longrightarrow> job_wf j \<and> job_jobId j = i"
  using job_repo.all_find [of r job_wf i j] job_repo.find_key [of r i j]
  by (auto simp: repo_wf_def list_all_iff jobs_findById_def)

lemma saved_by_wf: "repo_wf r \<Longrightarrow> saved_by rq r j \<Longrightarrow> job_wf j"
  unfolding saved_by_def by (blast intro: new_job_wf job_effect_wf dest: repo_wf_find)

lemma repo_wf_save: "repo_wf r \<Longrightarrow> job_wf j \<Longrightarrow> repo_wf (jobs_save j r)"
  using job_repo.all_save [of r job_wf j] job_repo.ok_save [of r j]
  by (auto simp: repo_wf_def list_all_iff)

lemma repo_wf_saved: "repo_wf r \<Longrightarrow> saved_by rq r j \<Longrightarrow> repo_wf (jobs_save j r)"
  by (blast intro: repo_wf_save saved_by_wf)

lemma jobs_exec_wf: "jobs_exec svc rq s = (r, s') \<Longrightarrow> repo_wf (js_jobs s) \<Longrightarrow> repo_wf (js_jobs s')"
  by (cases r) (auto dest!: jobs_exec_ok jobs_exec_err intro: repo_wf_saved)

text \<open>A predicate of the repository that every request keeps holds along every run.\<close>

lemma jobs_run_invariant:
  assumes "\<And>rq s r s'. jobs_exec svc rq s = (r, s') \<Longrightarrow> P (js_jobs s) \<Longrightarrow> P (js_jobs s')"
  shows "P (js_jobs s) \<Longrightarrow> P (js_jobs (jobs_run svc rqs s))"
proof (induction rqs arbitrary: s)
  case (Cons rq rqs)
  from assms [of rq s "fst (jobs_exec svc rq s)" "snd (jobs_exec svc rq s)"] Cons.prems
  have "P (js_jobs (snd (jobs_exec svc rq s)))" by simp
  then show ?case by (simp add: Cons.IH)
qed simp

section \<open>The abstract lifecycle\<close>

text \<open>
  What the service promises about one job, without its data: its status, the technician it is
  assigned to and the verifier that is set.  \<open>lc_step who\<close> is a step that identity
  \<open>who\<close> may take; \<open>lc_sys\<close> is a step of the whole system.
\<close>

datatype lifecycle = LC (lc_status: job_status) (lc_technician: string) (lc_verifier: jsval)

inductive lc_step :: "string \<Rightarrow> lifecycle \<Rightarrow> lifecycle \<Rightarrow> bool" where
  lc_assign: "st = CREATED \<or> st = REJECTED \<Longrightarrow> \<not> blank t' \<Longrightarrow>
    lc_step who (LC st t v) (LC ASSIGNED t' v)"
| lc_start: "who \<noteq> [] \<Longrightarrow> lc_step who (LC ASSIGNED who v) (LC IN_PROGRESS who v)"
| lc_complete: "who \<noteq> [] \<Longrightarrow> lc_step who (LC IN_PROGRESS who v) (LC COMPLETED who v)"
| lc_verify: "who \<noteq> t \<Longrightarrow> truthy v \<longrightarrow> v = JStr who \<Longrightarrow> st' = VERIFIED \<or> st' = REJECTED \<Longrightarrow>
    lc_step who (LC COMPLETED t v) (LC st' t (JStr who))"

inductive lc_sys :: "string \<Rightarrow> (string \<rightharpoonup> lifecycle) \<Rightarrow> (string \<rightharpoonup> lifecycle) \<Rightarrow> bool" where
  lc_create: "m i = None \<Longrightarrow> lc_sys who m (m(i \<mapsto> LC CREATED [] v))"
| lc_change: "m i = Some x \<Longrightarrow> lc_step who x y \<Longrightarrow> lc_sys who m (m(i \<mapsto> y))"
| lc_stutter: "lc_sys who m m"

inductive_cases lc_step_from_verified: "lc_step who (LC VERIFIED t v) y"
inductive_simps lc_step_completed: "lc_step who (LC COMPLETED t v) y"

definition lc_of :: "job \<Rightarrow> lifecycle" where
  "lc_of j = LC (job_status j) (job_assignedTo j) (job_verifierId j)"

definition jobs_abs :: "job_repo \<Rightarrow> string \<rightharpoonup> lifecycle" where
  "jobs_abs r = (\<lambda>i. map_option lc_of (js_get r i))"

lemma job_effect_lc_step: "job_effect en who op j j' \<Longrightarrow> lc_step who (lc_of j) (lc_of j')"
proof (cases op)
  case (Assign i t)
  moreover assume "job_effect en who op j j'"
  ultimately show ?thesis by (auto simp: lc_of_def intro: lc_assign)
next
  case (Start i)
  moreover assume "job_effect en who op j j'"
  ultimately show ?thesis by (auto simp: lc_of_def intro: lc_start)
next
  case (Complete i h)
  moreover assume "job_effect en who op j j'"
  ultimately show ?thesis by (auto simp: lc_of_def intro: lc_complete)
qed (auto simp: lc_of_def independent_def intro: lc_verify)

lemma jobs_abs_save: "jobs_abs (jobs_save j r) = (jobs_abs r)(job_jobId j \<mapsto> lc_of j)"
  by (auto simp: jobs_abs_def jobs_save_def fun_eq_iff)

lemma lc_step_verified: "\<not> lc_step who (LC VERIFIED t v) y"
  by (blast elim: lc_step_from_verified)

lemma saved_by_lc_sys:
  assumes "repo_wf r" "saved_by rq r j'"
  shows "lc_sys (act_identityId (rq_actor rq)) (jobs_abs r) (jobs_abs (jobs_save j' r))"
  using assms(2) unfolding saved_by_def
proof (elim disjE exE conjE)
  fix input
  assume j': "j' = new_job (rq_env rq) input r" and "js_get r (job_jobId j') = None"
  moreover have "lc_of j' = LC CREATED [] (job_verifierId j')"
    by (simp add: j' lc_of_def new_job_def)
  ultimately show ?thesis
    unfolding jobs_abs_save by (metis lc_create jobs_abs_def option.map_disc_iff)
next
  fix i j
  assume j: "js_get r i = Some j"
    and eff: "job_effect (rq_env rq) (act_identityId (rq_actor rq)) (rq_op rq) j j'"
  have "job_jobId j' = i"
    using repo_wf_find [OF assms(1) j] job_effect_id [OF eff] by simp
  moreover have "jobs_abs r i = Some (lc_of j)" by (simp add: jobs_abs_def j)
  ultimately show ?thesis
    unfolding jobs_abs_save using lc_change [OF _ job_effect_lc_step [OF eff]] by blast
qed

lemma jobs_exec_lc_sys:
  assumes "repo_wf (js_jobs s)" "jobs_exec svc rq s = (r, s')"
  shows "lc_sys (act_identityId (rq_actor rq)) (jobs_abs (js_jobs s)) (jobs_abs (js_jobs s'))"
proof (cases r)
  case (Inl e)
  with assms(2) show ?thesis by (auto dest!: jobs_exec_err intro: lc_stutter)
next
  case (Inr j)
  with assms show ?thesis by (auto dest!: jobs_exec_ok intro: saved_by_lc_sys)
qed

section \<open>Agreement with the chain\<close>

lemma jobs_submit_ok:
  "jobs_submit svc en ty a p s = (Inr u, s') \<Longrightarrow>
   \<exists>tx r c. submitTransaction (svc_chain svc) en tx (js_chain s) = (Inr r, c) \<and>
     res_status r = SUCCESS \<and> tx_type tx = ty \<and> tx_payload tx = p \<and> s' = s\<lparr>js_chain := c\<rparr>"
  by (fastforce simp: jobs_submit_def Let_def run jobs_tx_def)

lemma jobs_submit_err:
  "jobs_submit svc en ty a p s = (Inl e, s') \<Longrightarrow>
   s' = s \<or> (\<exists>tx x c. submitTransaction (svc_chain svc) en tx (js_chain s) = (x, c) \<and>
     (\<forall>r. x = Inr r \<longrightarrow> res_status r \<noteq> SUCCESS) \<and> s' = s\<lparr>js_chain := c\<rparr>)"
  by (fastforce simp: jobs_submit_def Let_def run)

text \<open>The status a job transaction moves a job to.\<close>

fun moves_to :: "transaction_type \<Rightarrow> job_status option" where
  "moves_to JOB_ASSIGN = Some ASSIGNED"
| "moves_to JOB_START = Some IN_PROGRESS"
| "moves_to JOB_COMPLETE = Some COMPLETED"
| "moves_to JOB_APPROVE = Some VERIFIED"
| "moves_to JOB_REJECT = Some REJECTED"
| "moves_to _ = None"

text \<open>
  What the jobs service relies on from a chain that records job transactions: a successful
  transaction has its effect on the named job and on no other, an unsuccessful one has none.
\<close>

locale job_ledger =
  fixes submit :: "env \<Rightarrow> transaction \<Rightarrow> 'c \<Rightarrow> (error + tx_result) \<times> 'c"
    and ledger :: "'c \<Rightarrow> string \<Rightarrow> job_status option"
  assumes ledger_create:
      "submit en tx c = (Inr r, c') \<Longrightarrow> res_status r = SUCCESS \<Longrightarrow> tx_type tx = JOB_CREATE \<Longrightarrow>
       fld (tx_payload tx) ''jobId'' = JStr i \<Longrightarrow> fld (tx_payload tx) ''assetId'' = JStr b \<Longrightarrow>
       i \<noteq> [] \<Longrightarrow> b \<noteq> [] \<Longrightarrow> ledger c i = None \<Longrightarrow> ledger c' = (ledger c)(i \<mapsto> CREATED)"
    and ledger_move:
      "submit en tx c = (Inr r, c') \<Longrightarrow> res_status r = SUCCESS \<Longrightarrow> moves_to (tx_type tx) = Some st \<Longrightarrow>
       fld (tx_payload tx) ''jobId'' = JStr i \<Longrightarrow> i \<noteq> [] \<Longrightarrow> ledger c i \<noteq> None \<Longrightarrow>
       ledger c' = (ledger c)(i \<mapsto> st)"
    and ledger_fail:
      "submit en tx c = (x, c') \<Longrightarrow> (\<forall>r. x = Inr r \<longrightarrow> res_status r \<noteq> SUCCESS) \<Longrightarrow>
       ledger c' = ledger c"
begin

definition agree :: "'c jobs_state \<Rightarrow> bool" where
  "agree s \<longleftrightarrow> ledger (js_chain s) = (\<lambda>i. map_option job_status (js_get (js_jobs s) i))"

lemma agree_create:
  assumes "submitTransaction (svc_chain svc) = submit" "agree s" "repo_wf (js_jobs s)"
    and "create svc en input a s = (Inr j, s')"
  shows "agree s'"
proof -
  let ?j = "new_job en input (js_jobs s)"
  from assms(4) obtain s1 where errs: "create_errors input = []"
    and new: "js_get (js_jobs s) (job_jobId ?j) = None"
    and sub: "jobs_submit svc en JOB_CREATE a
       [(''jobId'', JStr (job_jobId ?j)), (''assetId'', JStr (job_assetId ?j))] s = (Inr (), s1)"
    and s': "s' = s1\<lparr>js_jobs := jobs_save ?j (js_jobs s1)\<rparr>"
    by (auto simp: create_def run jobs_findById_def)
  from job_wf_nonempty [OF new_job_wf [OF errs]]
  have "job_jobId ?j \<noteq> []" "job_assetId ?j \<noteq> []" by blast+
  moreover from new assms(2) have "ledger (js_chain s) (job_jobId ?j) = None"
    by (simp add: agree_def)
  ultimately have "ledger (js_chain s1) = (ledger (js_chain s))(job_jobId ?j \<mapsto> CREATED)"
    using jobs_submit_ok [OF sub] assms(1) ledger_create by fastforce
  moreover have "js_jobs s1 = js_jobs s" using sub by (rule jobs_submit_jobs)
  moreover have "job_status ?j = CREATED" by (simp add: new_job_def)
  ultimately show ?thesis
    using assms(2) by (auto simp: agree_def s' jobs_save_def fun_eq_iff)
qed

lemma agree_move:
  assumes "submitTransaction (svc_chain svc) = submit" "agree s" "repo_wf (js_jobs s)"
    and "js_get (js_jobs s) i = Some j" "moves_to ty = Some (job_status j')" "job_jobId j' = job_jobId j"
    and "jobs_submit svc en ty a ((''jobId'', JStr (job_jobId j)) # p) s = (Inr u, s1)"
  shows "agree (s1\<lparr>js_jobs := jobs_save j' (js_jobs s1)\<rparr>)"
proof -
  from repo_wf_find [OF assms(3,4)] have i: "job_jobId j = i" "i \<noteq> []"
    by (auto simp: job_wf_def)
  from assms(2,4) have "ledger (js_chain s) i = Some (job_status j)"
    by (simp add: agree_def)
  with i have "ledger (js_chain s1) = (ledger (js_chain s))(i \<mapsto> job_status j')"
    using jobs_submit_ok [OF assms(7)] assms(1,5) ledger_move by fastforce
  moreover have "js_jobs s1 = js_jobs s" using assms(7) by (rule jobs_submit_jobs)
  ultimately show ?thesis
    using assms(2,6) i by (auto simp: agree_def jobs_save_def fun_eq_iff)
qed

lemma agree_submit_err:
  assumes "submitTransaction (svc_chain svc) = submit" "agree s"
    and "jobs_submit svc en ty a p s = (Inl e, s')"
  shows "agree s'"
proof -
  have "ledger (js_chain s') = ledger (js_chain s)"
    using jobs_submit_err [OF assms(3)] assms(1) ledger_fail by force
  with assms(2) jobs_submit_jobs [OF assms(3)] show ?thesis by (simp add: agree_def)
qed

lemma agree_err:
  assumes "submitTransaction (svc_chain svc) = submit" "agree s" "jobs_exec svc rq s = (Inl e, s')"
  shows "agree s'"
  using assms(2,3)
  by (cases "rq_op rq")
    (auto simp: jobs_exec_def Let_def op_defs run dest!: guard_frame
      dest: agree_submit_err [OF assms(1)])

lemma agree_exec:
  assumes svc: "submitTransaction (svc_chain svc) = submit"
    and ag: "agree s" and wf: "repo_wf (js_jobs s)" and ex: "jobs_exec svc rq s = (r, s')"
  shows "agree s'"
proof (cases r)
  case (Inl e)
  with ex show ?thesis by (auto intro: agree_err [OF svc ag])
next
  case (Inr j)
  note move = agree_move [OF svc ag wf]
  show ?thesis
  proof (cases "rq_op rq")
    case (Create input)
    with ex Inr show ?thesis
      by (auto simp: jobs_exec_def Let_def intro: agree_create [OF svc ag wf])
  qed (use ex Inr in \<open>auto simp: jobs_exec_def Let_def op_defs run intro!: move\<close>)
qed

lemma agree_run:
  assumes "submitTransaction (svc_chain svc) = submit"
  shows "agree s \<Longrightarrow> repo_wf (js_jobs s) \<Longrightarrow> agree (jobs_run svc rqs s)"
proof (induction rqs arbitrary: s)
  case (Cons rq rqs)
  obtain r s' where ex: "jobs_exec svc rq s = (r, s')" by fastforce
  with Cons agree_exec [OF assms] jobs_exec_wf show ?case by fastforce
qed simp

end

definition mock_ledger :: "mock_chain \<Rightarrow> string \<Rightarrow> job_status option" where
  "mock_ledger c i = map_option job_status (js_get (mc_jobs c) i)"

lemma mock_submit_ok: "mock_submit en tx c = (x, c') \<Longrightarrow> \<exists>r. x = Inr r \<and> res_status r = SUCCESS"
  by (auto simp: mock_submit_def Let_def)

lemma mock_submit_jobs:
  "mock_submit en tx c = (x, c') \<Longrightarrow> mc_jobs c' = mc_jobs (mock_record en tx
     (c\<lparr>mc_txCounter := mc_txCounter c + 1, mc_submitted := mc_submitted c @ [tx]\<rparr>))"
  by (auto simp: mock_submit_def Let_def)

interpretation mock_ledger: job_ledger mock_submit mock_ledger
proof
  fix en tx c r c' i b
  assume "mock_submit en tx c = (Inr r, c')" "tx_type tx = JOB_CREATE"
    "fld (tx_payload tx) ''jobId'' = JStr i" "fld (tx_payload tx) ''assetId'' = JStr b"
    "i \<noteq> []" "b \<noteq> []" "mock_ledger c i = None"
  then show "mock_ledger c' = (mock_ledger c)(i \<mapsto> CREATED)"
    by (auto dest!: mock_submit_jobs
        simp: mock_record_def mock_job_create_def Let_def pstr_JStr mock_ledger_def fun_eq_iff)
next
  fix en tx c r c' st i
  assume "mock_submit en tx c = (Inr r, c')" "moves_to (tx_type tx) = Some st"
    "fld (tx_payload tx) ''jobId'' = JStr i" "i \<noteq> []" "mock_ledger c i \<noteq> None"
  then show "mock_ledger c' = (mock_ledger c)(i \<mapsto> st)"
    by (cases "tx_type tx")
      (auto dest!: mock_submit_jobs
        simp: mock_record_def Let_def pstr_JStr mock_ledger_def fun_eq_iff get_on_entry)
next
  fix en tx c x c'
  assume "mock_submit en tx c = (x, c')" "\<forall>r. x = Inr r \<longrightarrow> res_status r \<noteq> SUCCESS"
  then show "mock_ledger c' = mock_ledger c" by (auto dest!: mock_submit_ok)
qed

section \<open>Progress\<close>

text \<open>The actor's signature satisfies the check that precedes a submission.\<close>

definition may_sign :: "env \<Rightarrow> actor \<Rightarrow> bool" where
  "may_sign en a \<longleftrightarrow>
     (evm_mode en \<longrightarrow> (case act_signature a of None \<Rightarrow> False
        | Some sig \<Rightarrow> trim sig \<noteq> [] \<and> trim sig \<noteq> ''development''))"

fun names_known :: "'c jobs_svc \<Rightarrow> job_op \<Rightarrow> bool" where
  "names_known svc (Assign _ t) = (\<not> missing (svc_identityExists svc) t)"
| "names_known svc _ = True"

text \<open>A chain on which every transaction succeeds.\<close>

locale accepting_chain =
  fixes submit :: "env \<Rightarrow> transaction \<Rightarrow> 'c \<Rightarrow> (error + tx_result) \<times> 'c"
  assumes accepts: "\<exists>r c'. submit en tx c = (Inr r, c') \<and> res_status r = SUCCESS"
begin

lemma submit_progress:
  assumes "submitTransaction (svc_chain svc) = submit" "may_sign en a"
  shows "\<exists>c. jobs_submit svc en ty a p s = (Inr (), s\<lparr>js_chain := c\<rparr>)"
proof -
  let ?sig = "map_option trim (act_signature a)"
  let ?tx = "jobs_tx en ty a p (if ?sig = None \<or> ?sig = Some [] then ''development'' else the ?sig)"
  obtain r c where "submit en ?tx (js_chain s) = (Inr r, c)" "res_status r = SUCCESS"
    using accepts by blast
  with assms show ?thesis
    by (intro exI [of _ c])
      (auto simp: jobs_submit_def Let_def exec_defs on_chain_def may_sign_def split: option.splits)
qed

lemma exec_progress:
  assumes svc: "submitTransaction (svc_chain svc) = submit"
    and sign: "may_sign (rq_env rq) (rq_actor rq)"
    and job: "target (rq_op rq) = Some i" "js_get (js_jobs s) i = Some j"
    and eff: "job_effect (rq_env rq) (act_identityId (rq_actor rq)) (rq_op rq) j j'"
    and known: "names_known svc (rq_op rq)"
  shows "\<exists>c. jobs_exec svc rq s = (Inr j', s\<lparr>js_jobs := jobs_save j' (js_jobs s), js_chain := c\<rparr>)"
proof -
  have sub: "\<exists>c s1. jobs_submit svc (rq_env rq) ty (rq_actor rq) p s = (Inr (), s1) \<and>
      s\<lparr>js_jobs := jobs_save k (js_jobs s), js_chain := c\<rparr> =
      s1\<lparr>js_jobs := jobs_save k (js_jobs s1)\<rparr>" for ty p k
  proof -
    obtain c where "jobs_submit svc (rq_env rq) ty (rq_actor rq) p s = (Inr (), s\<lparr>js_chain := c\<rparr>)"
      using submit_progress [OF svc sign] by blast
    then show ?thesis by (intro exI [of _ c]) auto
  qed
  show ?thesis
  proof (cases "rq_op rq")
    case (Create input)
    with job show ?thesis by simp
  qed (use job eff known in \<open>auto simp: jobs_exec_def Let_def op_defs run independent_def intro: sub\<close>)
qed

end

interpretation mock_accepts: accepting_chain mock_submit
  by unfold_locales (auto simp: mock_submit_def Let_def)

section \<open>Device preparation\<close>

fun mutation_of :: "job_op \<Rightarrow> job_mutation" where
  "mutation_of (Assign _ _) = MutAssign"
| "mutation_of (Start _) = MutStart"
| "mutation_of (Complete _ _) = MutComplete"
| "mutation_of (Approve _) = MutApprove"
| "mutation_of _ = MutReject"

text \<open>The payload that the route builds for \<^verbatim>\<open>prepare\<close> from the same request body.\<close>

fun payload_of :: "job_op \<Rightarrow> jsobj" where
  "payload_of (Assign _ t) = [(''technicianId'', JStr t)]"
| "payload_of (Complete _ h) = [(''evidenceHash'', JStr h)]"
| "payload_of (Reject _ why) = [(''reason'', JStr why)]"
| "payload_of _ = []"

lemma prepare_checks_ok:
  assumes "target op = Some i"
  shows "prepare_checks svc (mutation_of op) j (payload_of op) a s = (Inr u, s') \<longleftrightarrow>
    (\<exists>j'. job_effect en (act_identityId a) op j j') \<and> names_known svc op \<and> s' = s"
  using assms
  by (cases op) (auto simp: prepare_checks_def run)

lemma exec_after_checks:
  assumes "target (rq_op rq) = Some i" "js_get (js_jobs s) i = Some j"
    and "job_effect (rq_env rq) (act_identityId (rq_actor rq)) (rq_op rq) j j'"
    and "names_known svc (rq_op rq)"
  shows "\<exists>p. jobs_exec svc rq s =
    thenE (jobs_submit svc (rq_env rq) (mutation_type (mutation_of (rq_op rq))) (rq_actor rq) p)
      (saveJob j') s"
  using assms
  by (cases "rq_op rq")
    (auto simp: jobs_exec_def Let_def op_defs findJob_def jobs_findById_def exec_defs
      assertTransition_def requireAssignedTechnician_def requireIndependentVerifier_def
      independent_def)

lemma exec_when_checks_fail:
  assumes "target (rq_op rq) = Some i" "js_get (js_jobs s) i = Some j"
    and "prepare_checks svc (mutation_of (rq_op rq)) j (payload_of (rq_op rq)) (rq_actor rq) s
      = (Inl e, s')"
  shows "jobs_exec svc rq s = (Inl e, s)"
  using assms
  by (cases "rq_op rq")
    (auto simp: jobs_exec_def Let_def op_defs findJob_def jobs_findById_def exec_defs prepare_checks_def
      assertTransition_def requireAssignedTechnician_def requireIndependentVerifier_def
      text_of_def split: if_splits)

section \<open>Properties\<close>

definition jobs_start :: "'c \<Rightarrow> 'c jobs_state" where
  "jobs_start c = \<lparr>js_jobs = [], js_chain = c\<rparr>"

definition mock_svc :: "mock_chain jobs_svc" where
  "mock_svc = \<lparr>svc_chain = mock_api, svc_assets = None, svc_identityExists = None\<rparr>"

definition demo_job :: "job_status \<Rightarrow> jsval \<Rightarrow> job" where
  "demo_job st v = \<lparr>job_jobId = ''J'', job_assetId = ''A'', job_createdBy = ''M'', job_assignedTo = ''T'',
     job_verifierId = v, job_status = st, job_priority = JStr ''LOW'', job_createdAt = Iso 0,
     job_completedAt = Some (Iso 5)\<rparr>"

definition demo_jobs :: "job_status \<Rightarrow> jsval \<Rightarrow> mock_chain jobs_state" where
  "demo_jobs st v = \<lparr>js_jobs = [(''J'', demo_job st v)], js_chain = mock_init\<rparr>"

lemmas demo_defs = demo_jobs_def demo_job_def demo_env_def demo_actor_def mock_svc_def

lemma start_wf: "repo_wf (js_jobs (jobs_start c))"
  by (simp add: jobs_start_def repo_wf_def jobs_list_def)

lemma run_wf: "repo_wf (js_jobs (jobs_run svc rqs (jobs_start c)))"
  by (rule jobs_run_invariant [where P = repo_wf]) (auto intro: jobs_exec_wf simp: start_wf)


text \<open>
  C2. Every request, made after any sequence of requests, refines the abstract lifecycle: seen
  as a map from job ids to status, technician and verifier, it creates one job, moves one job
  by a step that its actor may take, or changes nothing.
\<close>

theorem jobs_refine_lifecycle:
  "lc_sys (act_identityId (rq_actor rq))
     (jobs_abs (js_jobs (jobs_run svc rqs (jobs_start c))))
     (jobs_abs (js_jobs (snd (jobs_exec svc rq (jobs_run svc rqs (jobs_start c))))))"
  by (rule jobs_exec_lc_sys [OF run_wf]) (rule prod.collapse [symmetric])

text \<open>A request never touches a job from which its lifecycle allows no step.\<close>

lemma exec_keeps_stuck:
  assumes stuck: "\<And>en who op j'. \<not> job_effect en who op j j'"
    and ex: "jobs_exec svc rq s = (r, s')"
    and inv: "keyed job_jobId (js_jobs s) \<and> js_get (js_jobs s) i = Some j"
  shows "keyed job_jobId (js_jobs s') \<and> js_get (js_jobs s') i = Some j"
proof (cases r)
  case (Inl e)
  with ex inv show ?thesis by (auto dest!: jobs_exec_err)
next
  case (Inr j')
  with ex have sv: "saved_by rq (js_jobs s) j'" and s': "js_jobs s' = jobs_save j' (js_jobs s)"
    by (auto dest: jobs_exec_ok)
  have key: "js_get (js_jobs s) k = Some x \<Longrightarrow> job_jobId x = k" for k x
    using inv job_repo.find_key [of "js_jobs s" k x] by (simp add: jobs_findById_def)
  have "job_jobId j' \<noteq> i"
    using sv inv stuck key unfolding saved_by_def by (metis job_effect_id option.inject option.simps(3))
  then show ?thesis
    using inv s' job_repo.ok_save by (auto simp: jobs_save_def)
qed

lemma run_keeps_stuck:
  assumes "\<And>en who op j'. \<not> job_effect en who op j j'"
    and "keyed job_jobId (js_jobs s)" "js_get (js_jobs s) i = Some j"
  shows "js_get (js_jobs (jobs_run svc rqs s)) i = Some j"
proof -
  have "keyed job_jobId (js_jobs (jobs_run svc rqs s)) \<and> js_get (js_jobs (jobs_run svc rqs s)) i = Some j"
    by (rule jobs_run_invariant [where P = "\<lambda>r. keyed job_jobId r \<and> js_get r i = Some j"])
      (use exec_keeps_stuck [OF assms(1)] assms(2,3) in blast)+
  then show ?thesis ..
qed

text \<open>
  \<^verbatim>\<open>VERIFIED\<close> is final: no sequence of requests, by any actors, changes a verified job.
\<close>

theorem verified_is_final:
  assumes "keyed job_jobId (js_jobs s)" "js_get (js_jobs s) i = Some j" "job_status j = VERIFIED"
  shows "js_get (js_jobs (jobs_run svc rqs s)) i = Some j"
proof (rule run_keeps_stuck [OF _ assms(1,2)])
  fix en who op j'
  show "\<not> job_effect en who op j j'" using assms(3) by (cases op) auto
qed

theorem verified_is_final_witness:
  "js_get (js_jobs (jobs_run mock_svc
     [\<lparr>rq_env = demo_env, rq_actor = demo_actor ''V'', rq_op = Reject ''J'' ''late''\<rparr>]
     (demo_jobs VERIFIED (JStr ''V'')))) ''J'' = Some (demo_job VERIFIED (JStr ''V''))"
  by (rule verified_is_final) (simp_all add: demo_defs keyed_def)

text \<open>
  When the identity preselected (or left by an earlier rejection) as verifier is also the
  assigned technician, a completed job is stuck: the technician may not verify it and nobody
  else may, so no sequence of requests ever changes it again.
\<close>

theorem technician_as_verifier_deadlocks:
  assumes "keyed job_jobId (js_jobs s)" "js_get (js_jobs s) i = Some j" "job_status j = COMPLETED"
    and "job_verifierId j = JStr (job_assignedTo j)" "job_assignedTo j \<noteq> []"
  shows "js_get (js_jobs (jobs_run svc rqs s)) i = Some j"
proof (rule run_keeps_stuck [OF _ assms(1,2)])
  fix en who op j'
  show "\<not> job_effect en who op j j'"
    using assms(3-5) by (cases op) (auto simp: independent_def)
qed

theorem technician_as_verifier_deadlocks_witness:
  "js_get (js_jobs (jobs_run mock_svc
     [\<lparr>rq_env = demo_env, rq_actor = demo_actor ''V'', rq_op = Approve ''J''\<rparr>,
      \<lparr>rq_env = demo_env, rq_actor = demo_actor ''T'', rq_op = Approve ''J''\<rparr>]
     (demo_jobs COMPLETED (JStr ''T'')))) ''J'' = Some (demo_job COMPLETED (JStr ''T''))"
  by (rule technician_as_verifier_deadlocks) (simp_all add: demo_defs keyed_def)

text \<open>
  The repository and the mock chain never diverge: after any sequence of requests from the
  empty state, a job has the same status in both, and it exists in one exactly if it exists in
  the other.
\<close>

theorem repository_agrees_with_chain:
  "map_option job_status (js_get (mc_jobs (js_chain (jobs_run mock_svc rqs (jobs_start mock_init)))) i)
   = map_option job_status (js_get (js_jobs (jobs_run mock_svc rqs (jobs_start mock_init))) i)"
proof -
  have "mock_ledger.agree (jobs_start mock_init)"
    by (simp add: mock_ledger.agree_def jobs_start_def mock_init_def mock_ledger_def fun_eq_iff)
  then have "mock_ledger.agree (jobs_run mock_svc rqs (jobs_start mock_init))"
    by (rule mock_ledger.agree_run [OF _ _ start_wf, rotated]) (simp add: mock_svc_def)
  then show ?thesis by (simp add: mock_ledger.agree_def mock_ledger_def fun_eq_iff)
qed

text \<open>
  Every request is atomic on the repository: a request that fails, for whatever reason and at
  whatever point, leaves all jobs as they were; one that succeeds stores the job it returns and
  touches no other.
\<close>

theorem jobs_request_atomic:
  "case jobs_exec svc rq s of
     (Inl e, s') \<Rightarrow> js_jobs s' = js_jobs s
   | (Inr j, s') \<Rightarrow> (\<forall>i. js_get (js_jobs s') i = (if i = job_jobId j then Some j else js_get (js_jobs s) i))"
  by (auto dest!: jobs_exec_ok jobs_exec_err simp: jobs_save_def split: prod.splits sum.splits)

text \<open>
  \<^verbatim>\<open>prepare\<close> and the mutation it prepares check the same things: for a request on
  an existing or missing job, on a chain that can prepare and that accepts what is signed,
  preparing fails exactly when the mutation fails, with the same error.
\<close>

theorem prepare_matches_mutation:
  assumes op: "target (rq_op rq) = Some i"
    and prep: "prepareTransaction (svc_chain svc) = Some (\<lambda>_ _ _. Inr p)"
    and sub: "submitTransaction (svc_chain svc) = mock_submit"
    and sign: "may_sign (rq_env rq) (rq_actor rq)"
  shows "map_sum id (\<lambda>_. ()) (fst (jobs_exec svc rq s)) =
    map_sum id (\<lambda>_. ())
      (fst (prepare svc (rq_env rq) (mutation_of (rq_op rq)) i (payload_of (rq_op rq)) (rq_actor rq) s))"
proof (cases "js_get (js_jobs s) i")
  case None
  with op show ?thesis
    by (cases "rq_op rq")
      (auto simp: jobs_exec_def Let_def op_defs prepare_def findJob_def jobs_findById_def exec_defs)
next
  case (Some j)
  let ?chk = "prepare_checks svc (mutation_of (rq_op rq)) j (payload_of (rq_op rq)) (rq_actor rq)"
  have prepE: "prepare svc (rq_env rq) (mutation_of (rq_op rq)) i (payload_of (rq_op rq)) (rq_actor rq) s
     = thenE ?chk (ret p) s"
    using Some prep by (simp add: prepare_def findJob_def jobs_findById_def exec_defs)
  show ?thesis
  proof (cases "?chk s")
    case (Pair r s')
    show ?thesis
    proof (cases r)
      case (Inl e)
      with Pair exec_when_checks_fail [OF op Some] prepE show ?thesis
        by (simp add: thenE_Inl)
    next
      case (Inr u)
      with Pair obtain j' where
        "job_effect (rq_env rq) (act_identityId (rq_actor rq)) (rq_op rq) j j'"
        "names_known svc (rq_op rq)"
        using prepare_checks_ok [OF op] by blast
      from mock_accepts.exec_progress [OF sub sign op Some this] Inr Pair prepE show ?thesis
        by (auto simp: thenE_Inr ret_def)
    qed
  qed
qed

definition preparing_svc :: "mock_chain jobs_svc" where
  "preparing_svc = mock_svc\<lparr>svc_chain := mock_api\<lparr>prepareTransaction := Some (\<lambda>_ _ _. Inr
     \<lparr>pr_from = [], pr_to = [], pr_data = [], pr_chainId = 1, pr_contract = [], pr_method = []\<rparr>)\<rparr>\<rparr>"

theorem prepare_matches_mutation_witness:
  "map_sum id (\<lambda>_. ()) (fst (jobs_exec preparing_svc
       \<lparr>rq_env = demo_env, rq_actor = demo_actor ''V'', rq_op = Approve ''J''\<rparr>
       (demo_jobs COMPLETED (JStr ''V'')))) =
   map_sum id (\<lambda>_. ()) (fst (prepare preparing_svc demo_env MutApprove ''J'' [] (demo_actor ''V'')
       (demo_jobs COMPLETED (JStr ''V''))))"
  using prepare_matches_mutation
    [of "\<lparr>rq_env = demo_env, rq_actor = demo_actor ''V'', rq_op = Approve ''J''\<rparr>" "''J''" preparing_svc]
  by (simp add: preparing_svc_def mock_svc_def may_sign_def evm_mode_def demo_env_def)

text \<open>
  The lifecycle can be completed: on the mock chain, a created job with no preselected
  verifier that is assigned to a technician, started and completed by that technician with a
  well-formed digest and approved by any other identity ends as \<^verbatim>\<open>VERIFIED\<close>.
\<close>

theorem lifecycle_completes:
  assumes job: "js_get (js_jobs s) i = Some j" "job_jobId j = i" "job_status j = CREATED"
      "\<not> truthy (job_verifierId j)"
    and who: "\<not> blank (act_identityId t)" "act_identityId v \<noteq> act_identityId t"
    and h: "hex_of_length 64 h"
    and sign: "may_sign en m" "may_sign en t" "may_sign en v"
  shows "map_option job_status (js_get (js_jobs (jobs_run mock_svc
     [\<lparr>rq_env = en, rq_actor = m, rq_op = Assign i (act_identityId t)\<rparr>,
      \<lparr>rq_env = en, rq_actor = t, rq_op = Start i\<rparr>,
      \<lparr>rq_env = en, rq_actor = t, rq_op = Complete i h\<rparr>,
      \<lparr>rq_env = en, rq_actor = v, rq_op = Approve i\<rparr>] s)) i) = Some VERIFIED"
proof -
  let ?j1 = "j\<lparr>job_assignedTo := act_identityId t, job_status := ASSIGNED\<rparr>"
  let ?j2 = "?j1\<lparr>job_status := IN_PROGRESS\<rparr>"
  let ?j3 = "?j2\<lparr>job_status := COMPLETED, job_completedAt := Some (iso_now en)\<rparr>"
  let ?j4 = "?j3\<lparr>job_status := VERIFIED, job_verifierId := JStr (act_identityId v)\<rparr>"
  have step: "target op = Some i \<Longrightarrow> js_get (js_jobs s) i = Some x \<Longrightarrow> may_sign en a \<Longrightarrow>
      job_effect en (act_identityId a) op x x' \<Longrightarrow> names_known mock_svc op \<Longrightarrow> job_jobId x = i \<Longrightarrow>
      js_get (js_jobs (snd (jobs_exec mock_svc \<lparr>rq_env = en, rq_actor = a, rq_op = op\<rparr> s))) i = Some x'"
    for op a x x' and s :: "mock_chain jobs_state"
    using mock_accepts.exec_progress
        [of mock_svc "\<lparr>rq_env = en, rq_actor = a, rq_op = op\<rparr>" i s x x'] job_effect_id [of en _ op x x']
    by (auto simp: mock_svc_def jobs_save_def)
  let ?ex = "\<lambda>a op s. snd (jobs_exec mock_svc \<lparr>rq_env = en, rq_actor = a, rq_op = op\<rparr> s)"
  let ?s1 = "?ex m (Assign i (act_identityId t)) s"
  let ?s2 = "?ex t (Start i) ?s1"
  let ?s3 = "?ex t (Complete i h) ?s2"
  have known: "names_known mock_svc op" for op
    by (cases op) (simp_all add: mock_svc_def missing_def)
  have "js_get (js_jobs ?s1) i = Some ?j1"
    by (rule step [OF _ job(1)]) (use job who sign in \<open>auto simp: mock_svc_def missing_def\<close>)
  then have "js_get (js_jobs ?s2) i = Some ?j2"
    by (rule step [rotated]) (use job who sign known in \<open>auto simp: blank_def\<close>)
  then have "js_get (js_jobs ?s3) i = Some ?j3"
    by (rule step [rotated]) (use job who h sign known in \<open>auto simp: blank_def\<close>)
  then have "js_get (js_jobs (?ex v (Approve i) ?s3)) i = Some ?j4"
    by (rule step [rotated]) (use job who sign known in \<open>auto simp: independent_def\<close>)
  then show ?thesis by simp
qed

theorem lifecycle_completes_witness:
  "map_option job_status (js_get (js_jobs (jobs_run mock_svc
     [\<lparr>rq_env = demo_env, rq_actor = demo_actor ''M'', rq_op = Assign ''J'' ''T''\<rparr>,
      \<lparr>rq_env = demo_env, rq_actor = demo_actor ''T'', rq_op = Start ''J''\<rparr>,
      \<lparr>rq_env = demo_env, rq_actor = demo_actor ''T'', rq_op = Complete ''J'' (replicate 64 CHR ''a'')\<rparr>,
      \<lparr>rq_env = demo_env, rq_actor = demo_actor ''V'', rq_op = Approve ''J''\<rparr>]
     (demo_jobs CREATED JNull))) ''J'') = Some VERIFIED"
  using lifecycle_completes [of "demo_jobs CREATED JNull" "''J''" "demo_job CREATED JNull"
      "demo_actor ''T''" "demo_actor ''V''" "replicate 64 CHR ''a''" demo_env "demo_actor ''M''"]
  by (simp add: demo_defs may_sign_def evm_mode_def hex_of_length_def is_hex_def blank_def trim_def
      js_ws_def list_all_iff)

text \<open>
  A create request without a job id generates \<^verbatim>\<open>JOB-<n+1>\<close> from the number
  \<open>n\<close> of stored jobs; when a client has already stored a job under that id, every such
  request fails with a validation error and changes nothing.
\<close>

theorem generated_id_collision:
  assumes "create_errors input = []" "text_of (fld input ''jobId'') = None"
    and "js_get (js_jobs s) (''JOB-'' @ show_nat (length (js_jobs s) + 1)) \<noteq> None"
    and "svc_assets svc = None" "svc_identityExists svc = None"
  shows "create svc en input a s =
    (Inl (ValidationError [''jobId '' @ (''JOB-'' @ show_nat (length (js_jobs s) + 1)) @ '' already exists'']), s)"
  using assms
  by (auto simp: create_def exec_defs new_job_def missing_def jobs_findById_def jobs_list_def)

theorem generated_id_collision_witness:
  "create mock_svc demo_env [(''assetId'', JStr ''A''), (''createdBy'', JStr ''M''), (''priority'', JStr ''LOW'')]
     (demo_actor ''M'') \<lparr>js_jobs = [(''JOB-2'', demo_job CREATED JNull)], js_chain = mock_init\<rparr>
   = (Inl (ValidationError [''jobId JOB-2 already exists'']),
      \<lparr>js_jobs = [(''JOB-2'', demo_job CREATED JNull)], js_chain = mock_init\<rparr>)"
  using generated_id_collision [of "[(''assetId'', JStr ''A''), (''createdBy'', JStr ''M''), (''priority'', JStr ''LOW'')]"
     "\<lparr>js_jobs = [(''JOB-2'', demo_job CREATED JNull)], js_chain = mock_init\<rparr>" mock_svc demo_env "demo_actor ''M''"]
  by (simp add: create_errors_def blank_def trim_def js_ws_def mock_svc_def text_of_def show_nat_2 numeral_2_eq_2 [symmetric])

end
