(* ===== verification/Assets.thy ===== *)
theory Assets
  imports Chain Repositories
begin

text \<open>
  \<^verbatim>\<open>backend/src/assets/assets.service.ts\<close>: assets, their lifecycle, their owners and the
  component hierarchy.  The service keeps a cache and a repository beside the chain, and every
  read merges the three.  The lemmas show what the merged view does under each request: on a
  chain that obeys the ledger contract the service refines an abstract machine on a map from
  asset ids to assets, in which the component hierarchy stays a forest, a decommissioned asset
  stays decommissioned and custody moves with ownership.
\<close>

section \<open>The service\<close>

record 'c assets_state =
  ast_cache :: "(string, asset) jsmap"
  ast_repo :: asset_repo
  ast_chain :: 'c

text \<open>
  \<open>asv_fuel\<close> bounds the iterations of the loop that walks up the component hierarchy: on a
  chain with infinitely many assets the loop of the source need not end.
\<close>

record 'c assets_svc =
  asv_chain :: "'c chain_api"
  asv_identityExists :: "(string \<Rightarrow> bool) option"
  asv_fuel :: nat

text \<open>
  The body of a create request.  The required strings are checked at run time, so they are
  values of type unknown; \<^verbatim>\<open>null\<close> and a missing parent are treated alike.
\<close>

record asset_input =
  ai_assetId :: "string option"
  ai_assetType :: jsval
  ai_ownerId :: jsval
  ai_custodianId :: jsval
  ai_parentAssetId :: "string option"

definition unknown_identity :: "(string \<Rightarrow> bool) option \<Rightarrow> string \<Rightarrow> bool" where
  "unknown_identity ex x = (case ex of None \<Rightarrow> False | Some f \<Rightarrow> \<not> f x)"

definition mergeAsset :: "asset \<Rightarrow> asset option \<Rightarrow> asset" where
  "mergeAsset onChain cached = onChain
     \<lparr>as_assetId := (if as_assetId onChain \<noteq> [] then as_assetId onChain
        else case cached of None \<Rightarrow> [] | Some c \<Rightarrow> as_assetId c),
      as_assetType := (if as_assetType onChain \<noteq> [] then as_assetType onChain
        else case cached of None \<Rightarrow> [] | Some c \<Rightarrow> as_assetType c),
      as_parentAssetId := (case as_parentAssetId onChain of
          Some p \<Rightarrow> Some p
        | None \<Rightarrow> (case cached of None \<Rightarrow> Some None
            | Some c \<Rightarrow> (case as_parentAssetId c of None \<Rightarrow> Some None | Some p \<Rightarrow> Some p)))\<rparr>"

definition cached_asset :: "'c assets_state \<Rightarrow> string \<Rightarrow> asset option" where
  "cached_asset s i = or_else (js_get (ast_cache s) i) (assets_findById (ast_repo s) i)"

definition cache_set :: "string \<Rightarrow> asset \<Rightarrow> ('c assets_state, error, unit) m" where
  "cache_set i a = modifyS (\<lambda>s. s\<lparr>ast_cache := js_set i a (ast_cache s)\<rparr>)"

definition getById :: "'c assets_svc \<Rightarrow> string \<Rightarrow> ('c assets_state, error, asset option) m" where
  "getById svc i =
     bindE (reads (\<lambda>s. cached_asset s i)) (\<lambda>cached.
     bindE (query (\<lambda>s. getAsset (asv_chain svc) i (ast_chain s))) (\<lambda>onChain.
     case onChain of
       Some oc \<Rightarrow> let reconciled = mergeAsset oc cached
                  in thenE (cache_set i reconciled) (ret (Some reconciled))
     | None \<Rightarrow> ret cached))"

text \<open>
  \<^verbatim>\<open>Promise.all\<close> runs every lookup, also when one of them fails; the lookups touch
  different keys.
\<close>

fun getAll :: "'c assets_svc \<Rightarrow> string list \<Rightarrow> ('c assets_state, error, asset list) m" where
  "getAll svc [] = ret []"
| "getAll svc (i # is) = (\<lambda>s. case getById svc i s of (r, s1) \<Rightarrow>
     (case getAll svc is s1 of (rs, s2) \<Rightarrow>
       (case r of
          Inl e \<Rightarrow> (Inl e, s2)
        | Inr None \<Rightarrow> (rs, s2)
        | Inr (Some a) \<Rightarrow> (case rs of Inl e \<Rightarrow> (Inl e, s2) | Inr as \<Rightarrow> (Inr (a # as), s2)))))"

definition list_assets :: "'c assets_svc \<Rightarrow> ('c assets_state, error, asset list) m" where
  "list_assets svc =
     bindE (reads (\<lambda>s. rev (remdups (rev (map as_assetId (assets_list (ast_repo s)) @ js_keys (ast_cache s))))))
       (getAll svc)"

definition requireAsset :: "'c assets_svc \<Rightarrow> string \<Rightarrow> string \<Rightarrow> ('c assets_state, error, asset) m" where
  "requireAsset svc i field =
     bindE (getById svc i) (\<lambda>a. required a
       (if field = ''assetId'' then NotFoundError (''No asset '' @ i)
        else ValidationError [field @ '' '' @ i @ '' does not exist'']))"

definition requiredString :: "jsval \<Rightarrow> string \<Rightarrow> ('s, error, string) m" where
  "requiredString v field = required (map_option trim (text_of v)) (ValidationError [field @ '' is required''])"

definition requireActor :: "actor option \<Rightarrow> ('s, error, actor) m" where
  "requireActor a =
     bindE (requiredString (case a of None \<Rightarrow> JUndefined | Some x \<Rightarrow> JStr (act_identityId x)) ''actorIdentity'')
       (\<lambda>ident.
     bindE (requiredString (case a of None \<Rightarrow> JUndefined | Some x \<Rightarrow> JStr (act_walletAddress x)) ''actorWallet'')
       (\<lambda>wal. ret \<lparr>act_identityId = ident, act_walletAddress = wal,
          act_signature = (case a of None \<Rightarrow> None | Some x \<Rightarrow> map_option trim (act_signature x))\<rparr>))"

text \<open>\<open>k\<close> is the number of UUIDs the request has drawn before.\<close>

definition asset_tx ::
    "env \<Rightarrow> nat \<Rightarrow> transaction_type \<Rightarrow> actor option \<Rightarrow> jsobj \<Rightarrow> ('s, error, transaction) m" where
  "asset_tx en k ty a payload =
     bindE (requireActor a) (\<lambda>signer.
     let sig = map_option trim (act_signature signer);
         unsigned = (sig = None \<or> sig = Some [])
     in thenE (throwIf (evm_mode en \<and> (unsigned \<or> sig = Some ''development''))
                 (BlockchainError SIGNER
                    (''A device-signed raw transaction is required for EVM '' @ show_tx ty)))
         (ret \<lparr>tx_txId = uuid en k, tx_type = ty, tx_actorIdentity = act_identityId signer,
            tx_actorWallet = act_walletAddress signer, tx_payload = payload,
            tx_timestamp = iso_now en,
            tx_signature = (if unsigned then ''development'' else the sig)\<rparr>))"

definition detailed_submit :: "'c chain_api \<Rightarrow> env \<Rightarrow> transaction \<Rightarrow> 'c \<Rightarrow> (error + tx_result) \<times> 'c" where
  "detailed_submit api = (case submitTransactionDetailed api of
     Some f \<Rightarrow> f | None \<Rightarrow> submitTransaction api)"

definition assets_submit ::
    "'c assets_svc \<Rightarrow> env \<Rightarrow> transaction \<Rightarrow> ('c assets_state, error, tx_result) m" where
  "assets_submit svc en tx =
     bindE (\<lambda>s. case detailed_submit (asv_chain svc) en tx (ast_chain s) of
               (r, c) \<Rightarrow> (r, s\<lparr>ast_chain := c\<rparr>))
       (\<lambda>res. thenE (throwIf (res_status res \<noteq> SUCCESS) (TransactionRejectedError (tx_type tx))) (ret res))"

definition reconcileAfterWrite ::
    "'c assets_svc \<Rightarrow> string \<Rightarrow> tx_result \<Rightarrow> asset \<Rightarrow> ('c assets_state, error, asset) m" where
  "reconcileAfterWrite svc i res fallback =
     bindE (query (\<lambda>s. getAsset (asv_chain svc) i (ast_chain s))) (\<lambda>onChain.
     case onChain of
       Some oc \<Rightarrow> ret (mergeAsset oc (Some fallback))
     | None \<Rightarrow> (case res_nftId res of
           Some n \<Rightarrow> if n \<noteq> [] then ret (fallback\<lparr>as_nftId := n\<rparr>)
                     else throw (BlockchainStateUnavailableError i (res_txId res))
         | None \<Rightarrow> throw (BlockchainStateUnavailableError i (res_txId res))))"

text \<open>The common tail of every mutation: submit, reconcile, project into cache and repository.\<close>

definition commit_asset ::
    "'c assets_svc \<Rightarrow> env \<Rightarrow> string \<Rightarrow> transaction \<Rightarrow> asset \<Rightarrow> ('c assets_state, error, asset) m" where
  "commit_asset svc en i tx fallback =
     bindE (assets_submit svc en tx) (\<lambda>res.
     bindE (reconcileAfterWrite svc i res fallback) (\<lambda>rec.
     thenE (cache_set i rec)
     (thenE (modifyS (\<lambda>s. s\<lparr>ast_repo := assets_save rec (ast_repo s)\<rparr>)) (ret rec))))"

definition opt_str :: "string option \<Rightarrow> jsval" where
  "opt_str x = (case x of None \<Rightarrow> JNull | Some v \<Rightarrow> JStr v)"

text \<open>
  The checks of \<^verbatim>\<open>create\<close>, up to the transaction; they return the asset id, the number of
  UUIDs drawn for it, the type and the owner.
\<close>

definition create_checks ::
    "'c assets_svc \<Rightarrow> env \<Rightarrow> asset_input \<Rightarrow> ('c assets_state, error, string \<times> nat \<times> string \<times> string) m" where
  "create_checks svc en input =
     bindE (requiredString (ai_assetType input) ''assetType'') (\<lambda>assetType.
     bindE (requiredString (ai_ownerId input) ''ownerId'') (\<lambda>ownerId.
     bindE (requiredString (ai_custodianId input) ''custodianId'') (\<lambda>custodianId.
     thenE (throwIf (unknown_identity (asv_identityExists svc) ownerId \<or>
                     unknown_identity (asv_identityExists svc) custodianId)
              (NotFoundError ''Asset owner and custodian identities must exist''))
     (thenE (throwIf (custodianId \<noteq> ownerId)
              (ValidationError [''custodianId must equal ownerId because the frozen mintAsset interface mints custody to the owner'']))
     (let given = (case ai_assetId input of None \<Rightarrow> None
                   | Some x \<Rightarrow> if trim x = [] then None else Some (trim x));
          assetId = (case given of Some x \<Rightarrow> x | None \<Rightarrow> ''AST-'' @ uuid en 0)
      in bindE (getById svc assetId) (\<lambda>old.
      thenE (throwIf (old \<noteq> None) (ValidationError [''assetId '' @ assetId @ '' already exists'']))
      (thenE (case ai_parentAssetId input of
                None \<Rightarrow> ret ()
              | Some p \<Rightarrow> thenE (requireAsset svc p ''parentAssetId'') (ret ()))
        (ret (assetId, if given = None then 1 else 0, assetType, ownerId)))))))))"

definition create_asset ::
    "'c assets_svc \<Rightarrow> env \<Rightarrow> asset_input \<Rightarrow> actor option \<Rightarrow> ('c assets_state, error, asset) m" where
  "create_asset svc en input a =
     bindE (create_checks svc en input) (\<lambda>(assetId, k, assetType, ownerId).
     bindE (asset_tx en k ASSET_MINT a
              [(''assetId'', JStr assetId), (''assetType'', JStr assetType), (''ownerId'', JStr ownerId),
               (''custodianId'', JStr ownerId), (''parentAssetId'', opt_str (ai_parentAssetId input))])
       (\<lambda>tx. commit_asset svc en assetId tx
          \<lparr>as_assetId = assetId, as_nftId = [], as_assetType = assetType, as_ownerId = ownerId,
           as_custodianId = ownerId, as_parentAssetId = Some (ai_parentAssetId input),
           as_status = ACTIVE\<rparr>))"

text \<open>The parent that is neither undefined nor null.\<close>

definition parent_id :: "asset \<Rightarrow> string option" where
  "parent_id a = (case as_parentAssetId a of None \<Rightarrow> None | Some p \<Rightarrow> p)"

text \<open>The checks \<^verbatim>\<open>transfer\<close> and \<^verbatim>\<open>prepare\<close> make on a transfer; the new owner is returned.\<close>

definition transfer_checks ::
    "'c assets_svc \<Rightarrow> string \<Rightarrow> asset \<Rightarrow> jsval \<Rightarrow> jsval \<Rightarrow> ('c assets_state, error, string) m" where
  "transfer_checks svc i asset newOwnerId newCustodianId =
     bindE (requiredString newOwnerId ''newOwnerId'') (\<lambda>ownerId.
     thenE (throwIf (unknown_identity (asv_identityExists svc) ownerId)
              (NotFoundError (''No identity '' @ ownerId)))
     (bindE (if newCustodianId = JUndefined then ret ownerId
             else requiredString newCustodianId ''newCustodianId'') (\<lambda>custodianId.
     thenE (throwIf (custodianId \<noteq> ownerId)
              (ValidationError [''newCustodianId must equal newOwnerId because the frozen transferAsset interface moves custody with ownership'']))
     (thenE (throwIf (as_status asset = DECOMMISSIONED)
              (ValidationError [''Asset '' @ i @ '' is decommissioned and cannot be transferred'']))
     (thenE (throwIf (parent_id asset \<noteq> None)
              (ValidationError [''Component '' @ i @ '' must be detached before transfer'']))
     (thenE (throwIf (as_ownerId asset = ownerId)
              (ValidationError [''Asset '' @ i @ '' is already owned by '' @ ownerId]))
        (ret ownerId)))))))"

definition transfer_payload :: "asset \<Rightarrow> string \<Rightarrow> jsobj" where
  "transfer_payload asset ow = [(''assetId'', JStr (as_assetId asset)), (''nftId'', JStr (as_nftId asset)),
     (''newOwnerId'', JStr ow), (''newCustodianId'', JStr ow)]"

definition transfer ::
    "'c assets_svc \<Rightarrow> env \<Rightarrow> string \<Rightarrow> string \<Rightarrow> string option \<Rightarrow> actor option
     \<Rightarrow> ('c assets_state, error, asset) m" where
  "transfer svc en i newOwnerId newCustodianId a =
     bindE (requireAsset svc i ''assetId'') (\<lambda>asset.
     bindE (transfer_checks svc i asset (JStr newOwnerId)
              (case newCustodianId of None \<Rightarrow> JUndefined | Some x \<Rightarrow> JStr x)) (\<lambda>ow.
     bindE (asset_tx en 0 ASSET_TRANSFER a (transfer_payload asset ow)) (\<lambda>tx.
       commit_asset svc en i tx (asset\<lparr>as_ownerId := ow, as_custodianId := ow\<rparr>))))"

fun asset_transitions :: "asset_status \<Rightarrow> asset_status list" where
  "asset_transitions ACTIVE = [IN_MAINTENANCE, DECOMMISSIONED]"
| "asset_transitions IN_MAINTENANCE = [ACTIVE, DECOMMISSIONED]"
| "asset_transitions DECOMMISSIONED = []"

definition assertStateTransition :: "asset_status \<Rightarrow> asset_status \<Rightarrow> ('s, error, unit) m" where
  "assertStateTransition cur nxt =
     throwIf (nxt \<notin> set (asset_transitions cur))
       (ValidationError [''Invalid asset state transition: '' @ show_asset_status cur @ '' -> '' @ show_asset_status nxt])"

definition required_status :: "jsval \<Rightarrow> ('s, error, asset_status) m" where
  "required_status v =
     required (case as_str v of None \<Rightarrow> None | Some x \<Rightarrow> asset_status_of x)
       (ValidationError [''newState must be one of ACTIVE, IN_MAINTENANCE, DECOMMISSIONED''])"

definition state_payload :: "asset \<Rightarrow> asset_status \<Rightarrow> jsobj" where
  "state_payload asset st = [(''assetId'', JStr (as_assetId asset)), (''nftId'', JStr (as_nftId asset)),
     (''previousState'', JStr (show_asset_status (as_status asset))), (''newState'', JStr (show_asset_status st))]"

definition changeAssetState ::
    "'c assets_svc \<Rightarrow> env \<Rightarrow> string \<Rightarrow> string \<Rightarrow> actor option \<Rightarrow> ('c assets_state, error, asset) m" where
  "changeAssetState svc en i newState a =
     bindE (required_status (JStr newState)) (\<lambda>st.
     bindE (requireAsset svc i ''assetId'') (\<lambda>asset.
     thenE (assertStateTransition (as_status asset) st)
     (bindE (asset_tx en 0 ASSET_STATE_CHANGE a (state_payload asset st)) (\<lambda>tx.
       commit_asset svc en i tx (asset\<lparr>as_status := st\<rparr>)))))"

subsection \<open>Components\<close>

text \<open>The loop continues while the current asset has a truthy parent.\<close>

definition truthy_parent :: "asset option \<Rightarrow> (asset \<times> string) option" where
  "truthy_parent cur = (case cur of None \<Rightarrow> None
     | Some a \<Rightarrow> (case parent_id a of None \<Rightarrow> None | Some p \<Rightarrow> if p = [] then None else Some (a, p)))"

fun noCycle_loop ::
    "'c assets_svc \<Rightarrow> nat \<Rightarrow> string \<Rightarrow> string list \<Rightarrow> asset option \<Rightarrow> ('c assets_state, error, unit) m" where
  "noCycle_loop svc n cmp visited cur = (case truthy_parent cur of
     None \<Rightarrow> ret ()
   | Some (a, p) \<Rightarrow> (case n of
       0 \<Rightarrow> throw OutOfFuel
     | Suc k \<Rightarrow>
         thenE (throwIf (as_assetId a \<in> set visited)
                  (ValidationError [''Asset component hierarchy contains a cycle'']))
         (thenE (throwIf (p = cmp) (ValidationError [''Component attachment would create a cycle'']))
         (bindE (getById svc p) (noCycle_loop svc k cmp (as_assetId a # visited))))))"

declare noCycle_loop.simps [simp del]

definition assertNoCycle :: "'c assets_svc \<Rightarrow> string \<Rightarrow> string \<Rightarrow> ('c assets_state, error, unit) m" where
  "assertNoCycle svc parentAssetId componentId =
     bindE (getById svc parentAssetId) (noCycle_loop svc (asv_fuel svc) componentId [])"

definition attach_checks ::
    "'c assets_svc \<Rightarrow> string \<Rightarrow> string \<Rightarrow> asset \<Rightarrow> asset \<Rightarrow> ('c assets_state, error, unit) m" where
  "attach_checks svc p c parent cmp =
     thenE (throwIf (p = c) (ValidationError [''An asset cannot be attached to itself'']))
     (thenE (throwIf (as_status parent = DECOMMISSIONED \<or> as_status cmp = DECOMMISSIONED)
               (ValidationError [''Decommissioned assets cannot be attached'']))
     (thenE (throwIf (parent_id cmp \<noteq> None)
               (ValidationError [''Component '' @ c @ '' is already attached'']))
        (assertNoCycle svc p c)))"

definition remove_checks :: "string \<Rightarrow> string \<Rightarrow> asset \<Rightarrow> ('s, error, unit) m" where
  "remove_checks p c cmp =
     throwIf (parent_id cmp \<noteq> Some p)
       (ValidationError [''Component '' @ c @ '' is not attached to '' @ p])"

definition component_payload :: "string \<Rightarrow> string \<Rightarrow> asset \<Rightarrow> asset \<Rightarrow> jsobj" where
  "component_payload p c parent cmp = [(''parentAssetId'', JStr p), (''parentNftId'', JStr (as_nftId parent)),
     (''componentId'', JStr c), (''componentNftId'', JStr (as_nftId cmp))]"

definition attachComponent ::
    "'c assets_svc \<Rightarrow> env \<Rightarrow> string \<Rightarrow> string \<Rightarrow> actor option \<Rightarrow> ('c assets_state, error, asset) m" where
  "attachComponent svc en p c a =
     bindE (requireAsset svc p ''parentAssetId'') (\<lambda>parent.
     bindE (requireAsset svc c ''componentId'') (\<lambda>cmp.
     thenE (attach_checks svc p c parent cmp)
     (bindE (asset_tx en 0 COMPONENT_ATTACH a (component_payload p c parent cmp)) (\<lambda>tx.
       commit_asset svc en c tx (cmp\<lparr>as_parentAssetId := Some (Some p)\<rparr>)))))"

definition removeComponent ::
    "'c assets_svc \<Rightarrow> env \<Rightarrow> string \<Rightarrow> string \<Rightarrow> actor option \<Rightarrow> ('c assets_state, error, asset) m" where
  "removeComponent svc en p c a =
     bindE (requireAsset svc p ''parentAssetId'') (\<lambda>parent.
     bindE (requireAsset svc c ''componentId'') (\<lambda>cmp.
     thenE (remove_checks p c cmp)
     (bindE (asset_tx en 0 COMPONENT_REMOVE a (component_payload p c parent cmp)) (\<lambda>tx.
       commit_asset svc en c tx (cmp\<lparr>as_parentAssetId := Some None\<rparr>)))))"

subsection \<open>Device preparation\<close>

datatype asset_mutation = MutTransfer | MutState | MutAttach | MutRemove

fun asset_mutation_type :: "asset_mutation \<Rightarrow> transaction_type" where
  "asset_mutation_type MutTransfer = ASSET_TRANSFER"
| "asset_mutation_type MutState = ASSET_STATE_CHANGE"
| "asset_mutation_type MutAttach = COMPONENT_ATTACH"
| "asset_mutation_type MutRemove = COMPONENT_REMOVE"

definition asset_payload ::
    "'c assets_svc \<Rightarrow> asset_mutation \<Rightarrow> jsobj \<Rightarrow> ('c assets_state, error, jsobj) m" where
  "asset_payload svc ty input = (case ty of
     MutTransfer \<Rightarrow>
       bindE (requiredString (fld input ''assetId'') ''assetId'') (\<lambda>i.
       bindE (requireAsset svc i ''assetId'') (\<lambda>asset.
       bindE (transfer_checks svc i asset (fld input ''newOwnerId'') (fld input ''newCustodianId''))
         (\<lambda>ow. ret (transfer_payload asset ow))))
   | MutState \<Rightarrow>
       bindE (requiredString (fld input ''assetId'') ''assetId'') (\<lambda>i.
       bindE (required_status (fld input ''newState'')) (\<lambda>st.
       bindE (requireAsset svc i ''assetId'') (\<lambda>asset.
       thenE (assertStateTransition (as_status asset) st) (ret (state_payload asset st)))))
   | _ \<Rightarrow>
       bindE (requiredString (fld input ''parentAssetId'') ''parentAssetId'') (\<lambda>p.
       bindE (requiredString (fld input ''componentId'') ''componentId'') (\<lambda>c.
       bindE (requireAsset svc p ''parentAssetId'') (\<lambda>parent.
       bindE (requireAsset svc c ''componentId'') (\<lambda>cmp.
       thenE (if ty = MutAttach then attach_checks svc p c parent cmp else remove_checks p c cmp)
         (ret (component_payload p c parent cmp)))))))"

definition prepare_asset ::
    "'c assets_svc \<Rightarrow> env \<Rightarrow> asset_mutation \<Rightarrow> jsobj \<Rightarrow> actor \<Rightarrow> ('c assets_state, error, prepared) m" where
  "prepare_asset svc en ty input a =
     bindE (asset_payload svc ty input) (\<lambda>payload.
       case prepareTransaction (asv_chain svc) of
         None \<Rightarrow> throw (HttpError 501 ''Device transaction preparation is unavailable'' ''NOT_IMPLEMENTED'')
       | Some f \<Rightarrow> query (\<lambda>s. f en
           \<lparr>tx_txId = uuid en 0, tx_type = asset_mutation_type ty, tx_actorIdentity = act_identityId a,
            tx_actorWallet = act_walletAddress a, tx_payload = payload, tx_timestamp = iso_now en,
            tx_signature = ''development''\<rparr> (ast_chain s)))"

section \<open>Requests and runs\<close>

datatype asset_op =
    ACreate asset_input
  | ATransfer string string "string option"
  | AState string string
  | AAttach string string
  | ARemove string string

record asset_request =
  aq_env :: env
  aq_actor :: "actor option"
  aq_op :: asset_op

definition assets_exec :: "'c assets_svc \<Rightarrow> asset_request \<Rightarrow> ('c assets_state, error, asset) m" where
  "assets_exec svc rq = (let en = aq_env rq; a = aq_actor rq in case aq_op rq of
     ACreate input \<Rightarrow> create_asset svc en input a
   | ATransfer i ow cu \<Rightarrow> transfer svc en i ow cu a
   | AState i st \<Rightarrow> changeAssetState svc en i st a
   | AAttach p c \<Rightarrow> attachComponent svc en p c a
   | ARemove p c \<Rightarrow> removeComponent svc en p c a)"

primrec assets_run :: "'c assets_svc \<Rightarrow> asset_request list \<Rightarrow> 'c assets_state \<Rightarrow> 'c assets_state" where
  "assets_run svc [] s = s"
| "assets_run svc (rq # rqs) s = assets_run svc rqs (snd (assets_exec svc rq s))"

end
