(* ===== verification/IdentityStore.thy ===== *)
theory IdentityStore
  imports Rbac Repositories
begin

text \<open>
  The identity state: \<^verbatim>\<open>users/identity.store.ts\<close> and the in-memory adapters of
  \<^verbatim>\<open>users/repository-implementations.ts\<close> behind the ports of
  \<^verbatim>\<open>users/repositories.ts\<close>.  Every keyed adapter is an interpretation of the repository
  contract; the challenge adapter also meets the contract of a store of single-use tokens.
\<close>

section \<open>Records\<close>

datatype resource_type = RT_ASSET | RT_JOB

datatype grant_status = G_ACTIVE | G_REVOKED | G_EXPIRED

record grant =
  gr_authorizationGrantId :: string
  gr_actorIdentityId :: string
  gr_resourceType :: resource_type
  gr_resourceId :: string
  gr_action :: action
  gr_grantedByIdentityId :: string
  gr_issuedAt :: date_str
  gr_expiresAt :: "date_str option"
  gr_status :: grant_status

record session =
  ses_token :: string
  ses_identityId :: string
  ses_deviceId :: string
  ses_walletAddress :: string
  ses_expiresAt :: jsnum

datatype registration_status = R_PENDING | R_ACTIVE | R_REMOVAL_SCHEDULED | R_REMOVED

record registration =
  reg_registrationId :: string
  reg_validatorId :: string
  reg_identityId :: string
  reg_walletAddress :: string
  reg_nodeId :: string
  reg_nodeAddress :: string
  reg_publicKey :: string
  reg_signingPublicKey :: string
  reg_status :: registration_status
  reg_requestedAt :: date_str
  reg_activationHeight :: int
  reg_removalHeight :: "int option"
  reg_removalReason :: "string option"
  reg_txHash :: "string option"
  reg_blockNumber :: "int option"

datatype operation_status = OP_SUCCESS | OP_FAILED

record history =
  hist_historyId :: string
  hist_validatorId :: string
  hist_operation :: transaction_type
  hist_actorIdentityId :: string
  hist_actorWallet :: string
  hist_timestamp :: date_str
  hist_blockNumber :: "int option"
  hist_transactionHash :: "string option"
  hist_previousState :: "string option"
  hist_newState :: string
  hist_reason :: "string option"
  hist_status :: operation_status
  hist_inverseTransactionHash :: "string option"

datatype channel = IN_APP | EMAIL

datatype delivery_status = N_PENDING | N_DELIVERED | N_FAILED

record notification =
  not_notificationId :: string
  not_eventType :: transaction_type
  not_validatorId :: string
  not_operation :: string
  not_recipientIdentityId :: string
  not_channel :: channel
  not_createdAt :: date_str
  not_status :: delivery_status

section \<open>The store\<close>

record idstore =
  sto_identities :: "(string, identity) jsmap"
  sto_users :: "(string, user) jsmap"
  sto_devices :: "(string, device) jsmap"
  sto_wallets :: "(string, wallet) jsmap"
  sto_credentials :: "(string, string) jsmap"
  sto_sessions :: "(string, session) jsmap"
  sto_grants :: "(string, grant) jsmap"
  sto_challenges :: "(string, challenge) jsmap"
  sto_validators :: "(string, registration) jsmap"
  sto_validatorHistory :: "(string, history) jsmap"
  sto_notifications :: "(string, notification) jsmap"

definition empty_store :: idstore where
  "empty_store = \<lparr>sto_identities = [], sto_users = [], sto_devices = [], sto_wallets = [],
     sto_credentials = [], sto_sessions = [], sto_grants = [], sto_challenges = [],
     sto_validators = [], sto_validatorHistory = [], sto_notifications = []\<rparr>"

subsection \<open>Identities and users\<close>

definition identities_findById :: "idstore \<Rightarrow> string \<Rightarrow> identity option" where
  "identities_findById s i = js_get (sto_identities s) i"

definition identities_findByEmployeeId :: "idstore \<Rightarrow> string \<Rightarrow> identity option" where
  "identities_findByEmployeeId s e = find (\<lambda>x. id_employeeId x = Some e) (js_values (sto_identities s))"

definition identities_listByStatus :: "idstore \<Rightarrow> identity_status \<Rightarrow> identity list" where
  "identities_listByStatus s st = filter (\<lambda>x. id_status x = st) (js_values (sto_identities s))"

definition identities_save :: "identity \<Rightarrow> idstore \<Rightarrow> idstore" where
  "identities_save x s = s\<lparr>sto_identities := js_set (id_identityId x) x (sto_identities s)\<rparr>"

definition users_findById :: "idstore \<Rightarrow> string \<Rightarrow> user option" where
  "users_findById s i = js_get (sto_users s) i"

definition users_findByIdentityId :: "idstore \<Rightarrow> string \<Rightarrow> user option" where
  "users_findByIdentityId s i = find (\<lambda>u. usr_identityId u = i) (js_values (sto_users s))"

definition users_save :: "user \<Rightarrow> idstore \<Rightarrow> idstore" where
  "users_save u s = s\<lparr>sto_users := js_set (usr_employeeId u) u (sto_users s)\<rparr>"

subsection \<open>Devices, wallets and credentials\<close>

definition devices_findById :: "idstore \<Rightarrow> string \<Rightarrow> device option" where
  "devices_findById s i = js_get (sto_devices s) i"

definition devices_listByIdentityId :: "idstore \<Rightarrow> string \<Rightarrow> device list" where
  "devices_listByIdentityId s i = filter (\<lambda>d. dev_identityId d = i) (js_values (sto_devices s))"

definition devices_save :: "device \<Rightarrow> idstore \<Rightarrow> idstore" where
  "devices_save d s = s\<lparr>sto_devices := js_set (dev_deviceId d) d (sto_devices s)\<rparr>"

definition wallets_findByAddress :: "idstore \<Rightarrow> string \<Rightarrow> wallet option" where
  "wallets_findByAddress s a = js_get (sto_wallets s) a"

definition wallets_listByIdentityId :: "idstore \<Rightarrow> string \<Rightarrow> wallet list" where
  "wallets_listByIdentityId s i = filter (\<lambda>w. wal_identityId w = i) (js_values (sto_wallets s))"

definition wallets_save :: "wallet \<Rightarrow> idstore \<Rightarrow> idstore" where
  "wallets_save w s = s\<lparr>sto_wallets := js_set (wal_address w) w (sto_wallets s)\<rparr>"

definition credentials_findDeviceId :: "idstore \<Rightarrow> string \<Rightarrow> string option" where
  "credentials_findDeviceId s v = js_get (sto_credentials s) v"

definition credentials_save :: "string \<Rightarrow> string \<Rightarrow> idstore \<Rightarrow> idstore" where
  "credentials_save v d s = s\<lparr>sto_credentials := js_set v d (sto_credentials s)\<rparr>"

definition credentials_revoke :: "string \<Rightarrow> idstore \<Rightarrow> idstore" where
  "credentials_revoke v s = s\<lparr>sto_credentials := js_delete v (sto_credentials s)\<rparr>"

definition credentials_revokeForDevice :: "string \<Rightarrow> idstore \<Rightarrow> idstore" where
  "credentials_revokeForDevice d s = s\<lparr>sto_credentials := filter (\<lambda>(v, d'). d' \<noteq> d) (sto_credentials s)\<rparr>"

subsection \<open>Sessions, grants and challenges\<close>

definition sessions_find :: "idstore \<Rightarrow> string \<Rightarrow> session option" where
  "sessions_find s t = js_get (sto_sessions s) t"

definition sessions_save :: "session \<Rightarrow> idstore \<Rightarrow> idstore" where
  "sessions_save x s = s\<lparr>sto_sessions := js_set (ses_token x) x (sto_sessions s)\<rparr>"

definition sessions_delete :: "string \<Rightarrow> idstore \<Rightarrow> idstore" where
  "sessions_delete t s = s\<lparr>sto_sessions := js_delete t (sto_sessions s)\<rparr>"

definition grants_findById :: "idstore \<Rightarrow> string \<Rightarrow> grant option" where
  "grants_findById s i = js_get (sto_grants s) i"

definition grants_listByIdentityId :: "idstore \<Rightarrow> string \<Rightarrow> grant list" where
  "grants_listByIdentityId s i = filter (\<lambda>g. gr_actorIdentityId g = i) (js_values (sto_grants s))"

definition grants_save :: "grant \<Rightarrow> idstore \<Rightarrow> idstore" where
  "grants_save g s = s\<lparr>sto_grants := js_set (gr_authorizationGrantId g) g (sto_grants s)\<rparr>"

definition challenges_findById :: "idstore \<Rightarrow> string \<Rightarrow> challenge option" where
  "challenges_findById s i = js_get (sto_challenges s) i"

definition challenges_save :: "challenge \<Rightarrow> idstore \<Rightarrow> idstore" where
  "challenges_save c s = s\<lparr>sto_challenges := js_set (ch_challengeId c) c (sto_challenges s)\<rparr>"

text \<open>\<^verbatim>\<open>usedAt\<close> is truthy when it is a string that is not empty.\<close>

definition ch_used :: "challenge \<Rightarrow> bool" where
  "ch_used c = (case ch_usedAt c of None \<Rightarrow> False | Some d \<Rightarrow> date_truthy d)"

definition consumeIfUnused :: "string \<Rightarrow> date_str \<Rightarrow> idstore \<Rightarrow> bool \<times> idstore" where
  "consumeIfUnused i used s = (case js_get (sto_challenges s) i of
     None \<Rightarrow> (False, s)
   | Some c \<Rightarrow> if ch_used c then (False, s)
       else (True, s\<lparr>sto_challenges := js_set i (c\<lparr>ch_usedAt := Some used\<rparr>) (sto_challenges s)\<rparr>))"

subsection \<open>Validators and notifications\<close>

definition validators_findByValidatorId :: "idstore \<Rightarrow> string \<Rightarrow> registration option" where
  "validators_findByValidatorId s i = find (\<lambda>r. reg_validatorId r = i) (js_values (sto_validators s))"

definition validators_list :: "idstore \<Rightarrow> registration list" where
  "validators_list s = js_values (sto_validators s)"

definition validators_save :: "registration \<Rightarrow> idstore \<Rightarrow> idstore" where
  "validators_save r s = s\<lparr>sto_validators := js_set (reg_registrationId r) r (sto_validators s)\<rparr>"

definition history_append :: "history \<Rightarrow> idstore \<Rightarrow> idstore" where
  "history_append h s = s\<lparr>sto_validatorHistory := js_set (hist_historyId h) h (sto_validatorHistory s)\<rparr>"

definition notifications_append :: "notification \<Rightarrow> idstore \<Rightarrow> idstore" where
  "notifications_append n s = s\<lparr>sto_notifications := js_set (not_notificationId n) n (sto_notifications s)\<rparr>"

lemmas save_defs = identities_save_def users_save_def devices_save_def wallets_save_def
  sessions_save_def sessions_delete_def grants_save_def challenges_save_def
  credentials_save_def credentials_revoke_def credentials_revokeForDevice_def
  validators_save_def history_append_def notifications_append_def

lemmas find_defs = identities_findById_def users_findById_def devices_findById_def
  wallets_findByAddress_def sessions_find_def grants_findById_def challenges_findById_def
  credentials_findDeviceId_def

section \<open>The adapters meet the repository contract\<close>

interpretation identity_repo: repository identities_findById "\<lambda>s. js_values (sto_identities s)"
  identities_save id_identityId "\<lambda>s. keyed id_identityId (sto_identities s)"
  by unfold_locales
    (auto simp: identities_findById_def identities_save_def intro: keyed_set dest: keyed_get simp: keyed_values simp del: set_map)

interpretation device_repo: repository devices_findById "\<lambda>s. js_values (sto_devices s)"
  devices_save dev_deviceId "\<lambda>s. keyed dev_deviceId (sto_devices s)"
  by unfold_locales
    (auto simp: devices_findById_def devices_save_def intro: keyed_set dest: keyed_get simp: keyed_values simp del: set_map)

interpretation wallet_repo: repository wallets_findByAddress "\<lambda>s. js_values (sto_wallets s)"
  wallets_save wal_address "\<lambda>s. keyed wal_address (sto_wallets s)"
  by unfold_locales
    (auto simp: wallets_findByAddress_def wallets_save_def intro: keyed_set dest: keyed_get simp: keyed_values simp del: set_map)

interpretation user_repo: repository users_findById "\<lambda>s. js_values (sto_users s)"
  users_save usr_employeeId "\<lambda>s. keyed usr_employeeId (sto_users s)"
  by unfold_locales
    (auto simp: users_findById_def users_save_def intro: keyed_set dest: keyed_get simp: keyed_values simp del: set_map)

interpretation grant_repo: repository grants_findById "\<lambda>s. js_values (sto_grants s)"
  grants_save gr_authorizationGrantId "\<lambda>s. keyed gr_authorizationGrantId (sto_grants s)"
  by unfold_locales
    (auto simp: grants_findById_def grants_save_def intro: keyed_set dest: keyed_get simp: keyed_values simp del: set_map)

section \<open>Single-use tokens\<close>

text \<open>
  What the services rely on from \<^verbatim>\<open>consumeIfUnused\<close>: it succeeds at most once for a
  token, and only for a token that is stored and unused.
\<close>

locale single_use =
  fixes consume :: "string \<Rightarrow> date_str \<Rightarrow> 's \<Rightarrow> bool \<times> 's"
    and unused :: "'s \<Rightarrow> string \<Rightarrow> bool"
  assumes consume_iff: "fst (consume i used s) \<longleftrightarrow> unused s i"
    and consume_spends: "consume i used s = (b, s') \<Longrightarrow> date_truthy used \<Longrightarrow> \<not> unused s' i"
    and consume_other: "consume i used s = (b, s') \<Longrightarrow> j \<noteq> i \<Longrightarrow> unused s' j \<longleftrightarrow> unused s j"
begin

lemma consume_twice:
  assumes "consume i used s = (b, s')" "date_truthy used"
  shows "fst (consume i when2 s') = False"
  using consume_spends [OF assms] by (simp add: consume_iff)

lemma consume_never_revives:
  assumes "consume i used s = (b, s')" "\<not> unused s j" "date_truthy used"
  shows "\<not> unused s' j"
  using assms consume_spends consume_other by metis

end

definition challenge_unused :: "idstore \<Rightarrow> string \<Rightarrow> bool" where
  "challenge_unused s i = (case js_get (sto_challenges s) i of None \<Rightarrow> False | Some c \<Rightarrow> \<not> ch_used c)"

interpretation challenges: single_use consumeIfUnused challenge_unused
  by unfold_locales
    (auto simp: consumeIfUnused_def challenge_unused_def ch_used_def split: option.splits if_splits)

end
