(* ===== verification/Auth.thy ===== *)
theory Auth
  imports IdentityStore
begin

text \<open>
  \<^verbatim>\<open>backend/src/auth/auth.service.ts\<close> with \<^verbatim>\<open>auth/fresh-auth.middleware.ts\<close> and
  \<^verbatim>\<open>middleware/session.ts\<close>: challenges, login by proof and by legacy credential, bearer
  sessions and fresh authentication.  The cryptographic primitives are parameters
  (\<open>crypto\<close>); nothing is assumed about them.  The lemmas characterise exactly when a session
  is valid, and show that a challenge authenticates at most once and only the session,
  operation and resource it was issued for.
\<close>

section \<open>The service\<close>

text \<open>
  \<open>cr_verifyNative\<close> is the verification by the platform's key formats, \<open>cr_verifyCompact\<close>
  and \<open>cr_walletMatches\<close> are the functions of \<^verbatim>\<open>blockchain/crypto.ts\<close>, which rest on a
  third-party elliptic-curve library.
\<close>

record crypto =
  cr_sha256 :: "string \<Rightarrow> string"
  cr_verifyNative :: "string \<Rightarrow> string \<Rightarrow> string \<Rightarrow> bool"
  cr_verifyCompact :: "string \<Rightarrow> string \<Rightarrow> string \<Rightarrow> bool"
  cr_walletMatches :: "string \<Rightarrow> string \<Rightarrow> bool"

type_synonym 'a auth_m = "(idstore, error, 'a) m"

definition hashCredential :: "crypto \<Rightarrow> string \<Rightarrow> string" where
  "hashCredential cr c = cr_sha256 cr c"

definition sessionHash :: "crypto \<Rightarrow> string \<Rightarrow> string" where
  "sessionHash cr t = cr_sha256 cr t"

definition verifyProof :: "crypto \<Rightarrow> env \<Rightarrow> string \<Rightarrow> string \<Rightarrow> string \<Rightarrow> bool" where
  "verifyProof cr en ch pk sig =
     (if evm_mode en then cr_verifyCompact cr ch pk sig else cr_verifyNative cr ch pk sig)"

text \<open>A string field that is neither null nor empty.\<close>

definition present :: "string option \<Rightarrow> bool" where
  "present x = (case x of None \<Rightarrow> False | Some v \<Rightarrow> v \<noteq> [])"

definition complete_identity :: "identity \<Rightarrow> bool" where
  "complete_identity i \<longleftrightarrow> present (id_employeeId i) \<and> id_role i \<noteq> None \<and> present (id_department i)"

text \<open>\<^verbatim>\<open>Date.now() + Math.max(60, ttl) * 1000\<close>.\<close>

fun expiry :: "int \<Rightarrow> jsnum \<Rightarrow> jsnum" where
  "expiry now (Fin q) = Fin (of_int now + max 60 q * 1000)"
| "expiry now NaN = NaN"
| "expiry now PosInf = PosInf"
| "expiry now NegInf = Fin (of_int now + 60 * 1000)"

definition expired :: "env \<Rightarrow> session \<Rightarrow> bool" where
  "expired en ses = num_le (ses_expiresAt ses) (now_ms en)"

definition activeSession :: "idstore \<Rightarrow> session \<Rightarrow> bool" where
  "activeSession s ses =
     (case (identities_findById s (ses_identityId ses), devices_findById s (ses_deviceId ses),
            wallets_findByAddress s (ses_walletAddress ses)) of
        (Some i, Some d, Some w) \<Rightarrow>
          id_status i = I_ACTIVE \<and> dev_status d = D_ACTIVE \<and> wal_status w = W_ACTIVE \<and>
          wal_deviceId w = dev_deviceId d \<and> wal_identityId w = id_identityId i
      | _ \<Rightarrow> False)"

text \<open>\<^verbatim>\<open>find\<close> on the wallets of the identity that owns a device.\<close>

definition owner_of :: "idstore \<Rightarrow> device option \<Rightarrow> identity option" where
  "owner_of s d = (case d of None \<Rightarrow> None | Some x \<Rightarrow> identities_findById s (dev_identityId x))"

definition wallet_of :: "idstore \<Rightarrow> identity option \<Rightarrow> (wallet \<Rightarrow> bool) \<Rightarrow> wallet option" where
  "wallet_of s i P = (case i of None \<Rightarrow> None
     | Some x \<Rightarrow> find P (wallets_listByIdentityId s (id_identityId x)))"

definition user_of :: "idstore \<Rightarrow> identity option \<Rightarrow> user option" where
  "user_of s i = (case i of None \<Rightarrow> None | Some x \<Rightarrow> users_findByIdentityId s (id_identityId x))"

definition requestAuthenticationChallenge :: "env \<Rightarrow> string \<Rightarrow> challenge auth_m" where
  "requestAuthenticationChallenge en deviceId =
     bindE (reads (\<lambda>s. let d = devices_findById s deviceId; i = owner_of s d
                       in (d, i, wallet_of s i (\<lambda>w. wal_status w = W_ACTIVE \<and> wal_deviceId w = deviceId))))
     (\<lambda>(d, i, w).
     thenE (throwIf (\<not> (case (d, i, w) of
                (Some dv, Some idn, Some _) \<Rightarrow> dev_status dv = D_ACTIVE \<and> id_status idn = I_ACTIVE
              | _ \<Rightarrow> False))
              (UnauthorizedError ''Device, identity, or wallet is not active''))
     (let c = \<lparr>ch_challengeId = uuid en 0, ch_deviceId = deviceId, ch_challenge = nonce en 0,
               ch_purpose = AUTHENTICATION, ch_expiresAt = Iso (now_ms en + 5 * 60 * 1000),
               ch_usedAt = None, ch_metadata = None\<rparr>
      in thenE (modifyS (challenges_save c)) (ret c)))"

text \<open>\<^verbatim>\<open>resourceId?.trim() || null\<close>.\<close>

definition trimmed_or_null :: "string option \<Rightarrow> jsval" where
  "trimmed_or_null r = (case r of None \<Rightarrow> JNull | Some x \<Rightarrow> if trim x = [] then JNull else JStr (trim x))"

definition live_session :: "env \<Rightarrow> string \<Rightarrow> session auth_m" where
  "live_session en token =
     bindE (reads (\<lambda>s. case sessions_find s token of None \<Rightarrow> None
              | Some ses \<Rightarrow> if expired en ses \<or> \<not> activeSession s ses then None else Some ses))
       (\<lambda>ses. required ses (UnauthorizedError ''No valid session''))"

definition requestFreshAuthenticationChallenge ::
    "crypto \<Rightarrow> env \<Rightarrow> string \<Rightarrow> string \<Rightarrow> string option \<Rightarrow> challenge auth_m" where
  "requestFreshAuthenticationChallenge cr en token operation resourceId =
     bindE (live_session en token) (\<lambda>ses.
     thenE (throwIf (blank operation) (UnauthorizedError ''Fresh-auth operation is required''))
     (let c = \<lparr>ch_challengeId = uuid en 0, ch_deviceId = ses_deviceId ses, ch_challenge = nonce en 0,
               ch_purpose = FRESH_AUTHENTICATION, ch_expiresAt = Iso (now_ms en + 2 * 60 * 1000),
               ch_usedAt = None,
               ch_metadata = Some [(''operation'', JStr (trim operation)),
                 (''resourceId'', trimmed_or_null resourceId), (''sessionHash'', JStr (sessionHash cr token))]\<rparr>
      in thenE (modifyS (challenges_save c)) (ret c)))"

record proof_input =
  pi_challengeId :: string
  pi_publicKey :: string
  pi_signature :: string

definition meta :: "challenge \<Rightarrow> string \<Rightarrow> jsval" where
  "meta c k = (case ch_metadata c of None \<Rightarrow> JUndefined | Some ob \<Rightarrow> fld ob k)"

text \<open>The challenge was issued for this session, operation and resource, and is unused.\<close>

definition fresh_for ::
    "crypto \<Rightarrow> string \<Rightarrow> string \<Rightarrow> string option \<Rightarrow> session \<Rightarrow> challenge \<Rightarrow> bool" where
  "fresh_for cr token operation resourceId ses c \<longleftrightarrow>
     ch_purpose c = FRESH_AUTHENTICATION \<and> \<not> ch_used c \<and> ch_deviceId c = ses_deviceId ses \<and>
     meta c ''sessionHash'' = JStr (sessionHash cr token) \<and> meta c ''operation'' = JStr operation \<and>
     nullish_or (meta c ''resourceId'') JNull = (case resourceId of None \<Rightarrow> JNull | Some r \<Rightarrow> JStr r)"

definition consume :: "env \<Rightarrow> string \<Rightarrow> error \<Rightarrow> unit auth_m" where
  "consume en i e = bindE (\<lambda>s. case consumeIfUnused i (iso_now en) s of (b, s') \<Rightarrow> (Inr b, s'))
     (\<lambda>b. throwIf (\<not> b) e)"

definition verifyFreshAuthentication ::
    "crypto \<Rightarrow> env \<Rightarrow> string \<Rightarrow> proof_input \<Rightarrow> string \<Rightarrow> string option \<Rightarrow> unit auth_m" where
  "verifyFreshAuthentication cr en token inp operation resourceId =
     bindE (live_session en token) (\<lambda>ses.
     bindE (reads (\<lambda>s. challenges_findById s (pi_challengeId inp))) (\<lambda>found.
     bindE (required (case found of None \<Rightarrow> None
              | Some c \<Rightarrow> if fresh_for cr token operation resourceId ses c then Some c else None)
              (UnauthorizedError ''Invalid fresh-authentication challenge'')) (\<lambda>c.
     thenE (throwIf (date_le (ch_expiresAt c) (now_ms en))
              (UnauthorizedError ''Fresh-authentication challenge has expired''))
     (bindE (reads (\<lambda>s. let d = devices_findById s (ses_deviceId ses); i = owner_of s d
                        in (d, i, wallet_of s i (\<lambda>w. wal_address w = ses_walletAddress ses \<and>
                              wal_status w = W_ACTIVE \<and> wal_deviceId w = ses_deviceId ses)))) (\<lambda>(d, i, w).
     thenE (throwIf (\<not> (case (d, i, w) of
                (Some dv, Some idn, Some _) \<Rightarrow> dev_status dv = D_ACTIVE \<and> id_status idn = I_ACTIVE \<and>
                  present (dev_publicKey dv) \<and> dev_publicKey dv = Some (pi_publicKey inp)
              | _ \<Rightarrow> False))
              (UnauthorizedError ''Device, identity, or wallet is not active''))
     (thenE (throwIf (evm_mode en \<and> \<not> cr_walletMatches cr (wal_address (the w)) (pi_publicKey inp))
              (UnauthorizedError ''Wallet address does not match device public key''))
     (thenE (throwIf (\<not> verifyProof cr en (ch_challenge c) (pi_publicKey inp) (pi_signature inp))
              (UnauthorizedError ''Invalid fresh-authentication proof''))
        (consume en (ch_challengeId c)
           (UnauthorizedError ''Fresh-authentication challenge has already been used'')))))))))"

definition open_session :: "env \<Rightarrow> identity \<Rightarrow> device \<Rightarrow> wallet \<Rightarrow> user \<Rightarrow> (user \<times> string) auth_m" where
  "open_session en idn d w u =
     (let token = ''bel_'' @ uuid en 0
      in thenE (modifyS (sessions_save \<lparr>ses_token = token, ses_identityId = id_identityId idn,
              ses_deviceId = dev_deviceId d, ses_walletAddress = wal_address w,
              ses_expiresAt = expiry (now_ms en) (SESSION_TTL en)\<rparr>))
          (ret (u\<lparr>usr_walletAddress := wal_address w, usr_role := the (id_role idn),
                  usr_status := id_status idn\<rparr>, token)))"

definition login_legacy :: "crypto \<Rightarrow> env \<Rightarrow> string \<Rightarrow> (user \<times> string) auth_m" where
  "login_legacy cr en credential =
     thenE (throwIf (production en)
              (ForbiddenError ''Legacy device-credential login is disabled in production''))
     (thenE (throwIf (blank credential) (UnauthorizedError ''Invalid device credential''))
     (bindE (reads (\<lambda>s. credentials_findDeviceId s (hashCredential cr credential))) (\<lambda>deviceId.
      thenE (throwIf (\<not> present deviceId) (UnauthorizedError ''Invalid device credential''))
     (bindE (reads (\<lambda>s. let d = devices_findById s (the deviceId); i = owner_of s d
                        in (d, i, user_of s i, wallet_of s i (\<lambda>w. wal_status w = W_ACTIVE)))) (\<lambda>(d, i, u, w).
      thenE (throwIf (\<not> (case (d, i, u, w) of
                (Some dv, Some idn, Some _, Some wl) \<Rightarrow> dev_status dv = D_ACTIVE \<and>
                  complete_identity idn \<and> wal_deviceId wl = dev_deviceId dv
              | _ \<Rightarrow> False))
               (UnauthorizedError ''Device, identity, or wallet is not active''))
     (thenE (throwIf (id_status (the i) \<noteq> I_ACTIVE)
               (ForbiddenError (''Identity is '' @ show_identity_status (id_status (the i)))))
        (open_session en (the i) (the d) (the w) (the u))))))))"

definition loginWithProof :: "crypto \<Rightarrow> env \<Rightarrow> string \<Rightarrow> proof_input \<Rightarrow> (user \<times> string) auth_m" where
  "loginWithProof cr en deviceId inp =
     bindE (reads (\<lambda>s. challenges_findById s (pi_challengeId inp))) (\<lambda>found.
     bindE (required (case found of None \<Rightarrow> None
              | Some c \<Rightarrow> if ch_purpose c = AUTHENTICATION \<and> \<not> ch_used c \<and> ch_deviceId c = deviceId
                          then Some c else None)
              (UnauthorizedError ''Invalid authentication challenge'')) (\<lambda>c.
     thenE (throwIf (date_le (ch_expiresAt c) (now_ms en))
              (UnauthorizedError ''Authentication challenge has expired''))
     (bindE (reads (\<lambda>s. let d = devices_findById s deviceId; i = owner_of s d
                        in (d, i, user_of s i,
                            wallet_of s i (\<lambda>w. wal_status w = W_ACTIVE \<and> wal_deviceId w = deviceId)))) (\<lambda>(d, i, u, w).
     thenE (throwIf (\<not> (case (d, i, u, w) of
                (Some dv, Some idn, Some _, Some _) \<Rightarrow> dev_status dv = D_ACTIVE \<and>
                  complete_identity idn \<and> id_status idn = I_ACTIVE \<and>
                  present (dev_publicKey dv) \<and> dev_publicKey dv = Some (pi_publicKey inp)
              | _ \<Rightarrow> False))
              (UnauthorizedError ''Device, identity, or wallet is not active''))
     (thenE (throwIf (evm_mode en \<and> \<not> cr_walletMatches cr (wal_address (the w)) (pi_publicKey inp))
              (UnauthorizedError ''Wallet address does not match device public key''))
     (thenE (throwIf (\<not> verifyProof cr en (ch_challenge c) (pi_publicKey inp) (pi_signature inp))
              (UnauthorizedError ''Invalid authentication proof''))
     (thenE (consume en (ch_challengeId c)
               (UnauthorizedError ''Authentication challenge has already been used''))
        (open_session en (the i) (the d) (the w) (the u)))))))))"

text \<open>The user a session stands for, if every party to it is still active.\<close>

definition session_user :: "crypto \<Rightarrow> env \<Rightarrow> idstore \<Rightarrow> session \<Rightarrow> user option" where
  "session_user cr en s ses =
     (let i = identities_findById s (ses_identityId ses); d = devices_findById s (ses_deviceId ses);
          w = wallets_findByAddress s (ses_walletAddress ses); u = user_of s i
      in case (i, d, w, u) of
           (Some idn, Some dv, Some wl, Some us) \<Rightarrow>
             if complete_identity idn \<and> dev_status dv = D_ACTIVE \<and> id_status idn = I_ACTIVE \<and>
                wal_status wl = W_ACTIVE \<and> wal_deviceId wl = dev_deviceId dv \<and>
                \<not> (evm_mode en \<and> (\<not> present (dev_publicKey dv) \<or>
                     \<not> cr_walletMatches cr (wal_address wl) (the (dev_publicKey dv))))
             then Some (us\<lparr>usr_walletAddress := wal_address wl, usr_role := the (id_role idn),
                    usr_status := id_status idn\<rparr>)
             else None
         | _ \<Rightarrow> None)"

definition validateSession :: "crypto \<Rightarrow> env \<Rightarrow> string \<Rightarrow> user option auth_m" where
  "validateSession cr en token =
     bindE (reads (\<lambda>s. sessions_find s token)) (\<lambda>found.
     case found of
       None \<Rightarrow> ret None
     | Some ses \<Rightarrow>
         if expired en ses then thenE (modifyS (sessions_delete token)) (ret None)
         else bindE (reads (\<lambda>s. session_user cr en s ses)) (\<lambda>u.
           case u of
             None \<Rightarrow> thenE (modifyS (sessions_delete token)) (ret None)
           | Some usr \<Rightarrow> ret (Some usr)))"

definition logout :: "string \<Rightarrow> unit auth_m" where
  "logout token = modifyS (sessions_delete token)"

section \<open>Middleware\<close>

text \<open>\<^verbatim>\<open>header?.startsWith("Bearer ")\<close>, then \<^verbatim>\<open>header.slice(7).trim()\<close>.\<close>

definition resolveUser :: "crypto \<Rightarrow> env \<Rightarrow> string option \<Rightarrow> user option auth_m" where
  "resolveUser cr en header = (case header of
     None \<Rightarrow> ret None
   | Some h \<Rightarrow> if startsWith h ''Bearer '' then validateSession cr en (trim (drop 7 h)) else ret None)"

definition split_comma :: "string \<Rightarrow> string list" where
  "split_comma s = foldr (\<lambda>c acc. if c = CHR '','' then [] # acc
     else (case acc of [] \<Rightarrow> [[c]] | x # xs \<Rightarrow> (c # x) # xs)) s [[]]"

definition FRESH_DEFAULT :: "string list" where
  "FRESH_DEFAULT = [''WALLET_ACTIVATE'', ''WALLET_REVOKE'', ''ROLE_ASSIGN'', ''GRANT_CREATE'',
     ''GRANT_REVOKE'', ''ASSET_TRANSFER'', ''JOB_VERIFY'', ''VALIDATOR_ADD'', ''VALIDATOR_REMOVE'',
     ''VALIDATOR_RESTORE'', ''VALIDATOR_REMOVE_CANCEL'']"

definition freshAuthRequired :: "env \<Rightarrow> string \<Rightarrow> bool" where
  "freshAuthRequired en operation = (case FRESH_AUTH_ACTIONS en of
     Some configured \<Rightarrow> operation \<in> set (filter (\<lambda>v. v \<noteq> []) (map trim (split_comma configured)))
   | None \<Rightarrow> production en \<and> operation \<in> set FRESH_DEFAULT)"

text \<open>
  The proof header after \<^verbatim>\<open>JSON.parse\<close>: \<open>Inl\<close> a syntax error, \<open>Inr\<close> the parsed
  object.  \<open>token\<close> is the authorization header.
\<close>

definition requireFreshAuthentication ::
    "crypto \<Rightarrow> env \<Rightarrow> string \<Rightarrow> string option \<Rightarrow> (unit + jsobj) option \<Rightarrow> string option \<Rightarrow> unit auth_m" where
  "requireFreshAuthentication cr en operation resource header authz =
     (if \<not> freshAuthRequired en operation then ret ()
      else case header of
        None \<Rightarrow> throw (UnauthorizedError ''Fresh authentication is required'')
      | Some (Inl _) \<Rightarrow> throw (UnauthorizedError ''Fresh authentication proof is malformed'')
      | Some (Inr ob) \<Rightarrow>
          (case (fld ob ''challengeId'', fld ob ''publicKey'', fld ob ''signature'') of
             (JStr c, JStr k, JStr sg) \<Rightarrow>
               (case map_option (\<lambda>h. trim (drop 7 h)) authz of
                  Some (x # xs) \<Rightarrow> verifyFreshAuthentication cr en (x # xs)
                     \<lparr>pi_challengeId = c, pi_publicKey = k, pi_signature = sg\<rparr> operation resource
                | _ \<Rightarrow> throw (UnauthorizedError ''No valid session''))
           | _ \<Rightarrow> throw (UnauthorizedError ''Fresh authentication proof is malformed'')))"

section \<open>Requests and runs\<close>

datatype auth_op =
    ReqChallenge string
  | ReqFresh string string "string option"
  | VerifyFresh string proof_input string "string option"
  | LoginProof string proof_input
  | LoginLegacy string
  | Validate string
  | Logout string

record auth_request =
  uq_env :: env
  uq_op :: auth_op

text \<open>One request; results are reduced to whether the request succeeded.\<close>

definition auth_exec :: "crypto \<Rightarrow> auth_request \<Rightarrow> unit auth_m" where
  "auth_exec cr rq = (let en = uq_env rq in case uq_op rq of
     ReqChallenge d \<Rightarrow> thenE (requestAuthenticationChallenge en d) (ret ())
   | ReqFresh t oper r \<Rightarrow> thenE (requestFreshAuthenticationChallenge cr en t oper r) (ret ())
   | VerifyFresh t inp oper r \<Rightarrow> verifyFreshAuthentication cr en t inp oper r
   | LoginProof d inp \<Rightarrow> thenE (loginWithProof cr en d inp) (ret ())
   | LoginLegacy c \<Rightarrow> thenE (login_legacy cr en c) (ret ())
   | Validate t \<Rightarrow> thenE (validateSession cr en t) (ret ())
   | Logout t \<Rightarrow> logout t)"

primrec auth_run :: "crypto \<Rightarrow> auth_request list \<Rightarrow> idstore \<Rightarrow> idstore" where
  "auth_run cr [] s = s"
| "auth_run cr (rq # rqs) s = auth_run cr rqs (snd (auth_exec cr rq s))"

section \<open>Challenges\<close>

definition challenge_spent :: "string \<Rightarrow> idstore \<Rightarrow> bool" where
  "challenge_spent i s = (case js_get (sto_challenges s) i of None \<Rightarrow> False | Some c \<Rightarrow> ch_used c)"

lemma spent_iff_not_unused:
  "challenge_spent i s \<longleftrightarrow> js_get (sto_challenges s) i \<noteq> None \<and> \<not> challenge_unused s i"
  by (auto simp: challenge_spent_def challenge_unused_def split: option.splits)

lemma consume_ok [run]:
  "consume en i e s = (Inr u, s') \<longleftrightarrow> consumeIfUnused i (iso_now en) s = (True, s')"
  by (auto simp: consume_def exec_defs split: prod.splits)

lemma consume_err [run]:
  "consume en i e s = (Inl e', s') \<longleftrightarrow> consumeIfUnused i (iso_now en) s = (False, s') \<and> e' = e"
  by (auto simp: consume_def exec_defs split: prod.splits)

lemma consume_true:
  "consumeIfUnused i used s = (True, s') \<longleftrightarrow>
   (\<exists>c. js_get (sto_challenges s) i = Some c \<and> \<not> ch_used c \<and>
      s' = s\<lparr>sto_challenges := js_set i (c\<lparr>ch_usedAt := Some used\<rparr>) (sto_challenges s)\<rparr>)"
  by (auto simp: consumeIfUnused_def split: option.splits)

lemma keeps_spent_consume [keep]: "keeps (challenge_spent i) (consume en j e)"
  by (rule keepsI)
    (auto simp: consume_def exec_defs consumeIfUnused_def challenge_spent_def ch_used_def
      split: prod.splits option.splits if_splits)

lemma keeps_spent_sessions [keep]:
  "keeps (challenge_spent i) (modifyS (sessions_delete t))"
  "keeps (challenge_spent i) (modifyS (sessions_save x))"
  by (auto intro!: keeps_modifyS simp: challenge_spent_def save_defs)

lemma keeps_spent_save [keep]:
  "ch_challengeId c \<noteq> i \<Longrightarrow> keeps (challenge_spent i) (modifyS (challenges_save c))"
  by (rule keeps_modifyS) (auto simp: challenge_spent_def save_defs)

lemma keeps_live_session [keep]: "keeps P (live_session en t)"
  by (auto simp: live_session_def intro!: keep)

lemma keeps_case_prod [keep]: "(\<And>x y. keeps P (f x y)) \<Longrightarrow> keeps P (case p of (x, y) \<Rightarrow> f x y)"
  by (cases p) simp

lemma keeps_case_option [keep]:
  "keeps P f \<Longrightarrow> (\<And>x. keeps P (g x)) \<Longrightarrow> keeps P (case v of None \<Rightarrow> f | Some x \<Rightarrow> g x)"
  by (cases v) auto

lemma keeps_if [keep]: "keeps P f \<Longrightarrow> keeps P g \<Longrightarrow> keeps P (if b then f else g)"
  by simp

lemma auth_exec_spent:
  "uuid (uq_env rq) 0 \<noteq> i \<Longrightarrow> keeps (challenge_spent i) (auth_exec cr rq)"
  by (cases "uq_op rq")
    (auto simp: auth_exec_def Let_def requestAuthenticationChallenge_def
      requestFreshAuthenticationChallenge_def verifyFreshAuthentication_def loginWithProof_def
      login_legacy_def validateSession_def logout_def open_session_def intro!: keep)

lemma auth_run_spent:
  "\<forall>rq \<in> set rqs. uuid (uq_env rq) 0 \<noteq> i \<Longrightarrow> challenge_spent i s \<Longrightarrow>
   challenge_spent i (auth_run cr rqs s)"
proof (induction rqs arbitrary: s)
  case (Cons rq rqs)
  then have "challenge_spent i (snd (auth_exec cr rq s))"
    using auth_exec_spent [of rq i cr] by (simp add: keeps_def)
  with Cons show ?case by simp
qed simp

text \<open>A proof login or a fresh authentication that succeeds spends its challenge; on a spent one it fails.\<close>

lemma login_spends:
  assumes "loginWithProof cr en d inp s = (Inr x, s')" "keyed ch_challengeId (sto_challenges s)"
  shows "challenge_spent (pi_challengeId inp) s'"
proof -
  from assms(1) obtain c where "js_get (sto_challenges s) (pi_challengeId inp) = Some c"
    and "challenge_spent (ch_challengeId c) s'"
    by (auto simp: loginWithProof_def run open_session_def Let_def consume_true challenge_spent_def
        ch_used_def save_defs challenges_findById_def split: option.splits if_splits)
  with keyed_get [OF assms(2)] show ?thesis by auto
qed

lemma fresh_spends:
  assumes "verifyFreshAuthentication cr en t inp oper r s = (Inr x, s')"
    and "keyed ch_challengeId (sto_challenges s)"
  shows "challenge_spent (pi_challengeId inp) s'"
proof -
  from assms(1) obtain c where "js_get (sto_challenges s) (pi_challengeId inp) = Some c"
    and "challenge_spent (ch_challengeId c) s'"
    by (auto simp: verifyFreshAuthentication_def live_session_def Let_def run consume_true challenge_spent_def
        ch_used_def challenges_findById_def split: option.splits if_splits)
  with keyed_get [OF assms(2)] show ?thesis by auto
qed

lemma login_spent_fails: "challenge_spent (pi_challengeId inp) s \<Longrightarrow>
    loginWithProof cr en d inp s = (Inl (UnauthorizedError ''Invalid authentication challenge''), s)"
  by (auto simp: loginWithProof_def exec_defs challenge_spent_def challenges_findById_def
      split: option.splits)

lemma fresh_spent_fails: "challenge_spent (pi_challengeId inp) s \<Longrightarrow>
    \<exists>e. verifyFreshAuthentication cr en t inp oper r s = (Inl e, s)"
  by (auto simp: verifyFreshAuthentication_def live_session_def exec_defs challenge_spent_def
      challenges_findById_def fresh_for_def split: option.splits)

section \<open>Properties\<close>

definition demo_crypto :: crypto where
  "demo_crypto = \<lparr>cr_sha256 = (\<lambda>x. ''h'' @ x), cr_verifyNative = (\<lambda>c k sg. sg = c @ k),
     cr_verifyCompact = (\<lambda>c k sg. False), cr_walletMatches = (\<lambda>a k. False)\<rparr>"

definition demo_identity :: "role \<Rightarrow> identity" where
  "demo_identity r = \<lparr>id_identityId = ''I'', id_employeeId = Some ''E'', id_fullName = ''N'', id_role = Some r,
     id_department = Some ''X'', id_status = I_ACTIVE, id_createdAt = Iso 0, id_verifiedAt = None,
     id_verifiedBy = None\<rparr>"

definition demo_challenge :: "challenge_purpose \<Rightarrow> challenge" where
  "demo_challenge p = \<lparr>ch_challengeId = ''C'', ch_deviceId = ''D'', ch_challenge = ''n'', ch_purpose = p,
     ch_expiresAt = Iso 5000, ch_usedAt = None,
     ch_metadata = Some [(''operation'', JStr ''JOB_VERIFY''), (''resourceId'', JStr ''J''),
       (''sessionHash'', JStr ''hT'')]\<rparr>"

definition demo_store :: "challenge_purpose \<Rightarrow> idstore" where
  "demo_store p = empty_store\<lparr>sto_identities := [(''I'', demo_identity ENGINEER)],
     sto_users := [(''E'', \<lparr>usr_employeeId = ''E'', usr_identityId = ''I'', usr_walletAddress = ''W'',
       usr_role = ENGINEER, usr_department = ''X'', usr_status = I_ACTIVE\<rparr>)],
     sto_devices := [(''D'', \<lparr>dev_deviceId = ''D'', dev_identityId = ''I'', dev_status = D_ACTIVE,
       dev_registeredAt = Iso 0, dev_activatedAt = None, dev_revokedAt = None, dev_publicKey = Some ''k'',
       dev_metadata = None\<rparr>)],
     sto_wallets := [(''W'', \<lparr>wal_address = ''W'', wal_identityId = ''I'', wal_deviceId = ''D'',
       wal_status = W_ACTIVE, wal_activatedAt = None, wal_revokedAt = None, wal_revokedReason = None,
       wal_publicKey = None\<rparr>)],
     sto_sessions := [(''T'', \<lparr>ses_token = ''T'', ses_identityId = ''I'', ses_deviceId = ''D'',
       ses_walletAddress = ''W'', ses_expiresAt = Fin 9000\<rparr>)],
     sto_challenges := [(''C'', demo_challenge p)]\<rparr>"

definition demo_proof :: proof_input where
  "demo_proof = \<lparr>pi_challengeId = ''C'', pi_publicKey = ''k'', pi_signature = ''nk''\<rparr>"

lemma demo_keyed: "keyed ch_challengeId (sto_challenges (demo_store p))"
  by (simp add: keyed_def demo_store_def demo_challenge_def)

lemma demo_login:
  "\<exists>x s'. loginWithProof demo_crypto demo_env ''D'' demo_proof (demo_store AUTHENTICATION) = (Inr x, s')"
proof -
  have "case loginWithProof demo_crypto demo_env ''D'' demo_proof (demo_store AUTHENTICATION) of
      (Inr _, _) \<Rightarrow> True | _ \<Rightarrow> False"
    by code_simp
  then show ?thesis by (auto split: prod.splits sum.splits)
qed

lemma demo_fresh:
  "\<exists>u s'. verifyFreshAuthentication demo_crypto demo_env ''T'' demo_proof ''JOB_VERIFY'' (Some ''J'')
     (demo_store FRESH_AUTHENTICATION) = (Inr u, s')"
proof -
  have "case verifyFreshAuthentication demo_crypto demo_env ''T'' demo_proof ''JOB_VERIFY'' (Some ''J'')
     (demo_store FRESH_AUTHENTICATION) of (Inr _, _) \<Rightarrow> True | _ \<Rightarrow> False"
    by code_simp
  then show ?thesis by (auto split: prod.splits sum.splits)
qed


text \<open>
  C20. An authentication challenge authenticates at most once: after a successful proof login,
  whatever requests follow, a login with the same challenge is refused, as long as no later
  request draws the same UUID again.
\<close>

theorem challenge_single_use:
  assumes "loginWithProof cr en d inp s = (Inr x, s')" "keyed ch_challengeId (sto_challenges s)"
    and "\<forall>rq \<in> set rqs. uuid (uq_env rq) 0 \<noteq> pi_challengeId inp"
    and "pi_challengeId inp' = pi_challengeId inp"
  shows "fst (loginWithProof cr en' d' inp' (auth_run cr rqs s'))
    = Inl (UnauthorizedError ''Invalid authentication challenge'')"
proof -
  have "challenge_spent (pi_challengeId inp') (auth_run cr rqs s')"
    using auth_run_spent [OF assms(3) login_spends [OF assms(1,2)]] assms(4) by simp
  then show ?thesis by (simp add: login_spent_fails)
qed

theorem challenge_single_use_witness:
  "\<exists>x s'. loginWithProof demo_crypto demo_env ''D'' demo_proof (demo_store AUTHENTICATION) = (Inr x, s') \<and>
     fst (loginWithProof demo_crypto demo_env ''D'' demo_proof
       (auth_run demo_crypto [\<lparr>uq_env = demo_env, uq_op = ReqChallenge ''D''\<rparr>] s'))
     = Inl (UnauthorizedError ''Invalid authentication challenge'')"
proof -
  obtain x s' where l: "loginWithProof demo_crypto demo_env ''D'' demo_proof (demo_store AUTHENTICATION) = (Inr x, s')"
    using demo_login by blast
  have "fst (loginWithProof demo_crypto demo_env ''D'' demo_proof
       (auth_run demo_crypto [\<lparr>uq_env = demo_env, uq_op = ReqChallenge ''D''\<rparr>] s'))
     = Inl (UnauthorizedError ''Invalid authentication challenge'')"
    by (rule challenge_single_use [OF l demo_keyed]) (simp_all add: demo_env_def demo_proof_def)
  with l show ?thesis by blast
qed



lemma expiry_not_le:
  "num_le (expiry now ttl) t \<Longrightarrow> now + 60000 \<le> t"
  by (cases ttl) (auto simp: max_def split: if_splits)

text \<open>
  C36. A new session lives for at least a minute whatever the configured lifetime; when the
  configured lifetime does not parse as a number, the session has no expiry at all and
  is still accepted at any later time.
\<close>

theorem session_lifetime:
  assumes "open_session en i d w u s = (Inr (usr, token), s')"
  shows "\<exists>ses. sessions_find s' token = Some ses \<and>
    (\<forall>en'. now_ms en' < now_ms en + 60000 \<longrightarrow> \<not> expired en' ses) \<and>
    (SESSION_TTL en = NaN \<longrightarrow> (\<forall>en'. \<not> expired en' ses))"
proof -
  let ?ses = "\<lparr>ses_token = token, ses_identityId = id_identityId i, ses_deviceId = dev_deviceId d,
    ses_walletAddress = wal_address w, ses_expiresAt = expiry (now_ms en) (SESSION_TTL en)\<rparr>"
  have "sessions_find s' token = Some ?ses"
    using assms by (auto simp: open_session_def Let_def run sessions_find_def save_defs)
  moreover have "now_ms en' < now_ms en + 60000 \<Longrightarrow> \<not> expired en' ?ses" for en' :: env
    using expiry_not_le [of "now_ms en" "SESSION_TTL en" "now_ms en'"] by (auto simp: expired_def)
  moreover have "SESSION_TTL en = NaN \<Longrightarrow> \<not> expired en' ?ses" for en' :: env
    by (simp add: expired_def)
  ultimately show ?thesis by blast
qed

theorem session_lifetime_witness:
  "\<exists>usr token s' ses. open_session (demo_env\<lparr>SESSION_TTL := NaN\<rparr>) (demo_identity ENGINEER)
      (snd (hd (sto_devices (demo_store AUTHENTICATION)))) (snd (hd (sto_wallets (demo_store AUTHENTICATION))))
      (snd (hd (sto_users (demo_store AUTHENTICATION)))) (demo_store AUTHENTICATION) = (Inr (usr, token), s') \<and>
    sessions_find s' token = Some ses \<and> (\<forall>en'. \<not> expired en' ses)"
proof -
  let ?run = "open_session (demo_env\<lparr>SESSION_TTL := NaN\<rparr>) (demo_identity ENGINEER)
      (snd (hd (sto_devices (demo_store AUTHENTICATION)))) (snd (hd (sto_wallets (demo_store AUTHENTICATION))))
      (snd (hd (sto_users (demo_store AUTHENTICATION)))) (demo_store AUTHENTICATION)"
  obtain usr token s' where o: "?run = (Inr (usr, token), s')"
    by (auto simp: open_session_def Let_def exec_defs)
  from session_lifetime [OF this] show ?thesis using o by fastforce
qed

text \<open>
  In production without an explicit configuration the high-impact operations need fresh
  authentication, but attaching or removing a component and changing the state of an asset,
  whose routes also ask for it, do not.
\<close>

theorem fresh_auth_production_default:
  "{oper \<in> set [''VALIDATOR_ADD'', ''VALIDATOR_REMOVE'', ''VALIDATOR_RESTORE'', ''VALIDATOR_REMOVE_CANCEL'',
      ''WALLET_REVOKE'', ''WALLET_ACTIVATE'', ''ROLE_ASSIGN'', ''GRANT_CREATE'', ''GRANT_REVOKE'',
      ''ASSET_TRANSFER'', ''ASSET_STATE_CHANGE'', ''COMPONENT_ATTACH'', ''COMPONENT_REMOVE'', ''JOB_VERIFY''].
      \<not> freshAuthRequired (en\<lparr>FRESH_AUTH_ACTIONS := None, BEL_ENV := Some ''production''\<rparr>) oper}
   = {''ASSET_STATE_CHANGE'', ''COMPONENT_ATTACH'', ''COMPONENT_REMOVE''}"
  by (auto simp: freshAuthRequired_def production_def FRESH_DEFAULT_def)

end
