(* ===== verification/Integrity.thy ===== *)
theory Integrity
  imports Shared "HOL-Library.List_Lexorder" "HOL-Library.Char_ord" "HOL-Library.Multiset"
begin

text \<open>
  \<^verbatim>\<open>backend/src/integrity/integrity.ts\<close>: commitments to the state of an entity.  The state
  objects that the services commit have string or null fields, so a state is a list of keys and
  optional strings; SHA-256 is a parameter.  The lemmas show that the canonical text of a state does not
  depend on the order in which its fields were written.
\<close>

type_synonym state_obj = "(string \<times> string option) list"

datatype entity_type = E_IDENTITY | E_DEVICE | E_WALLET | E_GRANT

record commitment =
  cm_entityType :: entity_type
  cm_entityId :: string
  cm_eventType :: string
  cm_version :: nat
  cm_canonicalStateHash :: string
  cm_actorIdentityId :: string
  cm_timestamp :: date_str

definition hex_digit :: "nat \<Rightarrow> char" where
  "hex_digit n = ''0123456789abcdef'' ! n"

text \<open>\<^verbatim>\<open>JSON.stringify\<close> of a string.\<close>

definition json_escape :: "char \<Rightarrow> string" where
  "json_escape c = (let n = (of_char c :: nat) in
     if n = 34 then [CHR 0x5C, CHR 0x22]
     else if n = 92 then [CHR 0x5C, CHR 0x5C]
     else if n = 8 then [CHR 0x5C, CHR ''b'']
     else if n = 9 then [CHR 0x5C, CHR ''t'']
     else if n = 10 then [CHR 0x5C, CHR ''n'']
     else if n = 12 then [CHR 0x5C, CHR ''f'']
     else if n = 13 then [CHR 0x5C, CHR ''r'']
     else if n < 32 then [CHR 0x5C, CHR ''u'', CHR ''0'', CHR ''0'', hex_digit (n div 16), hex_digit (n mod 16)]
     else [c])"

definition json_string :: "string \<Rightarrow> string" where
  "json_string s = [CHR 0x22] @ concat (map json_escape s) @ [CHR 0x22]"

definition json_field :: "string \<times> string option \<Rightarrow> string" where
  "json_field f = json_string (fst f) @ '':'' @ (case snd f of None \<Rightarrow> ''null'' | Some v \<Rightarrow> json_string v)"

fun join_comma :: "string list \<Rightarrow> string" where
  "join_comma [] = []"
| "join_comma [x] = x"
| "join_comma (x # y # ys) = x @ '','' @ join_comma (y # ys)"

text \<open>\<^verbatim>\<open>Object.keys(state).sort()\<close> orders keys by their code units.\<close>

definition canonical :: "state_obj \<Rightarrow> state_obj" where
  "canonical st = sort_key fst st"

definition canonical_text :: "state_obj \<Rightarrow> string" where
  "canonical_text st = ''{'' @ join_comma (map json_field (canonical st)) @ ''}''"

definition canonicalStateHash :: "(string \<Rightarrow> string) \<Rightarrow> state_obj \<Rightarrow> string" where
  "canonicalStateHash sha256 st = sha256 (canonical_text st)"

definition commitState ::
    "(string \<Rightarrow> string) \<Rightarrow> env \<Rightarrow> entity_type \<Rightarrow> string \<Rightarrow> string \<Rightarrow> nat \<Rightarrow> string \<Rightarrow> state_obj
     \<Rightarrow> commitment list \<Rightarrow> commitment list" where
  "commitState sha256 en ty i ev v who st cs = cs @
     [\<lparr>cm_entityType = ty, cm_entityId = i, cm_eventType = ev, cm_version = v,
       cm_canonicalStateHash = canonicalStateHash sha256 st, cm_actorIdentityId = who,
       cm_timestamp = iso_now en\<rparr>]"

section \<open>The canonical text determines the state\<close>

text \<open>A reader for one escaped character, used to show that escaping loses nothing.\<close>

definition hex_val :: "char \<Rightarrow> nat" where
  "hex_val c = (let n = of_char c in if n \<le> 57 then n - 48 else n - 87)"

fun unescape :: "string \<Rightarrow> (char \<times> string) option" where
  "unescape [] = None"
| "unescape (c # r) =
     (if c = CHR 0x5C then
        (case r of
           [] \<Rightarrow> None
         | d # r1 \<Rightarrow>
             if d = CHR ''u'' then
               (case r1 of _ # _ # p # q # r2 \<Rightarrow> Some (char_of (16 * hex_val p + hex_val q), r2) | _ \<Rightarrow> None)
             else Some (char_of (if d = CHR ''b'' then 8 else if d = CHR ''t'' then 9
               else if d = CHR ''n'' then 10 else if d = CHR ''f'' then 12
               else if d = CHR ''r'' then 13 else of_char d :: nat), r1))
      else Some (c, r))"

lemma hex_val_digit: "n < 16 \<Longrightarrow> hex_val (hex_digit n) = n"
proof -
  have "list_all (\<lambda>n. hex_val (hex_digit n) = n) [0..<16]" by code_simp
  then show "n < 16 \<Longrightarrow> ?thesis" by (simp add: list_all_iff)
qed

lemma unescape_escape: "unescape (json_escape c @ r) = Some (c, r)"
proof -
  define n where "n = (of_char c :: nat)"
  have c: "c = char_of n" by (simp add: n_def)
  have small: "n < 32 \<Longrightarrow> 16 * hex_val (hex_digit (n div 16)) + hex_val (hex_digit (n mod 16)) = n"
    by (simp add: hex_val_digit)
  have "n \<noteq> 92 \<Longrightarrow> c \<noteq> CHR 0x5C" by (auto simp: n_def)
  with small show ?thesis
    unfolding json_escape_def Let_def n_def [symmetric] by (auto simp: c)
qed

lemma escape_head: "\<exists>x xs. json_escape c = x # xs \<and> x \<noteq> CHR 0x22"
  by (auto simp: json_escape_def Let_def)

lemma escape_inj: "json_escape c @ x = json_escape d @ y \<Longrightarrow> c = d \<and> x = y"
  by (metis unescape_escape option.inject prod.inject)

lemma body_inj:
  "concat (map json_escape s) @ CHR 0x22 # x = concat (map json_escape t) @ CHR 0x22 # y \<Longrightarrow> s = t \<and> x = y"
proof (induction s arbitrary: t)
  case Nil
  then show ?case using escape_head by (cases t) (auto, metis append_Cons list.inject)
next
  case (Cons c s)
  show ?case
  proof (cases t)
    case Nil
    with Cons.prems escape_head [of c] show ?thesis by auto
  next
    case (Cons d t')
    with Cons.prems escape_inj have "c = d"
      and "concat (map json_escape s) @ CHR 0x22 # x = concat (map json_escape t') @ CHR 0x22 # y"
      by fastforce+
    with Cons.IH Cons show ?thesis by blast
  qed
qed

lemma json_string_inj: "json_string s @ x = json_string t @ y \<Longrightarrow> s = t \<and> x = y"
  using body_inj [of s x t y] by (simp add: json_string_def)

lemma json_field_inj: "json_field f @ x = json_field g @ y \<Longrightarrow> f = g \<and> x = y"
  by (cases f; cases g)
    (auto simp: json_field_def json_string_def [of "the _"] split: option.splits
      dest!: json_string_inj, auto simp: json_string_def dest!: body_inj)

lemma json_field_head: "\<exists>xs. json_field f = CHR 0x22 # xs"
  by (simp add: json_field_def json_string_def)

lemma fields_inj:
  "join_comma (map json_field s) @ ''}'' = join_comma (map json_field t) @ ''}'' \<Longrightarrow> s = t"
proof (induction s arbitrary: t)
  case Nil
  show ?case
  proof (cases t)
    case (Cons g t')
    obtain xs where "json_field g = CHR 0x22 # xs" using json_field_head by blast
    with Nil Cons show ?thesis by (cases t') auto
  qed simp
next
  case (Cons f s)
  show ?case
  proof (cases t)
    case Nil
    with Cons.prems json_field_head [of f] show ?thesis by (cases s) auto
  next
    case (Cons g t')
    let ?rest = "\<lambda>fs. (if fs = [] then [] else '','' @ join_comma (map json_field fs)) @ ''}''"
    have head: "join_comma (map json_field (h # fs)) @ ''}'' = json_field h @ ?rest fs" for h fs
      by (cases fs) simp_all
    have "json_field f @ ?rest s = json_field g @ ?rest t'"
      using Cons.prems unfolding \<open>t = g # t'\<close> head .
    from json_field_inj [OF this] have "f = g" "?rest s = ?rest t'" by blast+
    moreover from this(2) Cons.IH [of t'] have "s = t'"
      by (cases "s = []"; cases "t' = []") simp_all
    ultimately show ?thesis using Cons by simp
  qed
qed

section \<open>Properties\<close>

text \<open>
  C35. The committed text depends on nothing but the fields: two states with distinct keys have the same
  canonical text exactly when they hold the same fields in some order.
\<close>

theorem canonical_text_exact:
  assumes "distinct (map fst s)" "distinct (map fst t)"
  shows "canonical_text s = canonical_text t \<longleftrightarrow> mset s = mset t"
proof
  assume "canonical_text s = canonical_text t"
  then have "canonical s = canonical t" by (auto simp: canonical_text_def intro: fields_inj)
  then show "mset s = mset t" unfolding canonical_def by (metis mset_sort)
next
  assume "mset s = mset t"
  moreover have "inj_on fst (set s)" using assms(1) by (simp add: distinct_map)
  ultimately show "canonical_text s = canonical_text t"
    by (simp add: canonical_text_def canonical_def sort_key_eq_sort_key)
qed

theorem canonical_text_exact_witness:
  "canonical_text [(''b'', Some ''1''), (''a'', None)] = canonical_text [(''a'', None), (''b'', Some ''1'')]"
  by (subst canonical_text_exact) simp_all

end
