(* ===== verification/Users.thy ===== *)
theory Users
  imports Auth Chain Integrity
begin

text \<open>
  \<^verbatim>\<open>backend/src/users/users.service.ts\<close> and \<^verbatim>\<open>devices/device-attestation.ts\<close>: the
  lifecycle of identities, devices, wallets, roles and authorization grants.  The state of the
  service is the identity store, the chain, the version counters and the list of integrity
  commitments; \<open>users_svc\<close> collects what the constructor receives.
\<close>

section \<open>State and helpers\<close>

record 'c users_state =
  us_store :: idstore
  us_chain :: 'c
  us_versions :: "(string, nat) jsmap"
  us_commits :: "commitment list"
  us_draws :: nat

record attestation =
  att_verified :: bool
  att_managedDevice :: bool
  att_networkApproved :: bool
  att_evidence :: jsval

definition rejecting_attest :: "string \<Rightarrow> jsval \<Rightarrow> attestation" where
  "rejecting_attest d md = \<lparr>att_verified = False, att_managedDevice = False, att_networkApproved = False,
     att_evidence = JObj [(''adapter'', JStr ''unconfigured'')]\<rparr>"

definition mock_attest :: "string list \<Rightarrow> string \<Rightarrow> jsval \<Rightarrow> attestation" where
  "mock_attest approved d md = (let a = d \<in> set approved in
     \<lparr>att_verified = a, att_managedDevice = a, att_networkApproved = a,
      att_evidence = JObj [(''adapter'', JStr ''mock''), (''deviceId'', JStr d),
        (''decision'', JStr (if a then ''approved'' else ''denied''))]\<rparr>)"

record 'c users_svc =
  usv_chain :: "'c chain_api"
  usv_crypto :: crypto
  usv_integrity :: bool
  usv_attest :: "string \<Rightarrow> jsval \<Rightarrow> attestation"
  usv_publicKeyValid :: "string \<Rightarrow> bool"

type_synonym ('c, 'a) users_m = "('c users_state, error, 'a) m"

definition SYSTEM_IDENTITY :: string where "SYSTEM_IDENTITY = ''DID:BEL:SYSTEM''"
definition SYSTEM_WALLET :: string where "SYSTEM_WALLET = ''SYSTEM''"

definition look :: "(idstore \<Rightarrow> 'a) \<Rightarrow> ('c, 'a) users_m" where
  "look f = reads (\<lambda>s. f (us_store s))"

definition store :: "(idstore \<Rightarrow> idstore) \<Rightarrow> ('c, unit) users_m" where
  "store f = modifyS (\<lambda>s. s\<lparr>us_store := f (us_store s)\<rparr>)"

text \<open>The next UUID of the process.\<close>

definition draw :: "env \<Rightarrow> ('c, string) users_m" where
  "draw en = (\<lambda>s. (Inr (uuid en (us_draws s)), s\<lparr>us_draws := us_draws s + 1\<rparr>))"

definition resolveIdentity :: "string \<Rightarrow> idstore \<Rightarrow> identity option" where
  "resolveIdentity i s = (case identities_findById s i of
     Some x \<Rightarrow> Some x | None \<Rightarrow> identities_findByEmployeeId s i)"

definition requireIdentity :: "string \<Rightarrow> ('c, identity) users_m" where
  "requireIdentity i = bindE (look (resolveIdentity i)) (\<lambda>x. required x (NotFoundError ''No identity''))"

definition requireActive :: "identity \<Rightarrow> ('c, unit) users_m" where
  "requireActive i = throwIf (id_status i \<noteq> I_ACTIVE)
     (ForbiddenError (''Identity is '' @ show_identity_status (id_status i)))"

definition toUser :: "identity \<Rightarrow> string \<Rightarrow> user" where
  "toUser i w = \<lparr>usr_employeeId = (case id_employeeId i of None \<Rightarrow> [] | Some e \<Rightarrow> e),
     usr_identityId = id_identityId i, usr_walletAddress = w,
     usr_role = (case id_role i of None \<Rightarrow> ENGINEER | Some r \<Rightarrow> r),
     usr_department = (case id_department i of None \<Rightarrow> ''UNSPECIFIED'' | Some d \<Rightarrow> d),
     usr_status = id_status i\<rparr>"

definition users_commit ::
    "'c users_svc \<Rightarrow> env \<Rightarrow> entity_type \<Rightarrow> string \<Rightarrow> string \<Rightarrow> string \<Rightarrow> state_obj \<Rightarrow> ('c, unit) users_m" where
  "users_commit svc en ty i ev who st =
     (if \<not> usv_integrity svc then ret ()
      else modifyS (\<lambda>s. let v = (case js_get (us_versions s) i of None \<Rightarrow> 0 | Some n \<Rightarrow> n) + 1
        in s\<lparr>us_versions := js_set i v (us_versions s),
             us_commits := commitState (cr_sha256 (usv_crypto svc)) en ty i ev v who st (us_commits s)\<rparr>))"

definition on_users_chain :: "('c \<Rightarrow> (error + 'a) \<times> 'c) \<Rightarrow> ('c, 'a) users_m" where
  "on_users_chain f = (\<lambda>s. case f (us_chain s) of (r, c) \<Rightarrow> (r, s\<lparr>us_chain := c\<rparr>))"

definition actor_wallet :: "identity \<Rightarrow> idstore \<Rightarrow> string option" where
  "actor_wallet a s = (case users_findByIdentityId s (id_identityId a) of
     None \<Rightarrow> None
   | Some u \<Rightarrow> if usr_walletAddress u = [] then None
       else (case wallets_findByAddress s (usr_walletAddress u) of
         None \<Rightarrow> None | Some w \<Rightarrow> if wal_status w = W_ACTIVE then Some (wal_address w) else None))"

definition users_submit ::
    "'c users_svc \<Rightarrow> env \<Rightarrow> transaction_type \<Rightarrow> identity \<Rightarrow> jsobj \<Rightarrow> ('c, unit) users_m" where
  "users_submit svc en ty a payload =
     bindE (look (actor_wallet a)) (\<lambda>wal.
     thenE (throwIf (\<not> present wal \<and> evm_mode en)
              (BlockchainError SIGNER (''No active actor wallet for '' @ id_identityId a)))
     (bindE (draw en) (\<lambda>txId.
      bindE (on_users_chain (submitTransaction (usv_chain svc) en
               \<lparr>tx_txId = txId, tx_type = ty,
                tx_actorIdentity = (if id_identityId a = [] then SYSTEM_IDENTITY else id_identityId a),
                tx_actorWallet = (case wal of None \<Rightarrow> SYSTEM_WALLET | Some w \<Rightarrow> w),
                tx_payload = payload, tx_timestamp = iso_now en, tx_signature = ''development''\<rparr>))
        (\<lambda>res. throwIf (res_status res \<noteq> SUCCESS)
                 (BlockchainError REVERTED (''Blockchain rejected '' @ show_tx ty))))))"

definition jrole :: "role option \<Rightarrow> jsval" where
  "jrole r = (case r of None \<Rightarrow> JNull | Some x \<Rightarrow> JStr (show_role x))"

definition chain_read :: "('c \<Rightarrow> error + 'a) \<Rightarrow> ('c, 'a) users_m" where
  "chain_read f = query (\<lambda>s. f (us_chain s))"

definition ensureIdentityCreated ::
    "'c users_svc \<Rightarrow> env \<Rightarrow> identity \<Rightarrow> identity \<Rightarrow> string \<Rightarrow> ('c, unit) users_m" where
  "ensureIdentityCreated svc en a i wal =
     bindE (if evm_mode en then chain_read (getWallet (usv_chain svc) wal) else ret None) (\<lambda>existing.
       case existing of
         Some w \<Rightarrow> throwIf (wal_identityId w \<noteq> id_identityId i)
           (ConflictError (''Wallet '' @ wal @ '' is already bound to '' @ wal_identityId w @ '' on-chain''))
       | None \<Rightarrow> users_submit svc en IDENTITY_CREATE a
           [(''walletAddress'', JStr wal), (''identityId'', JStr (id_identityId i))])"

definition ensureRoleAssigned ::
    "'c users_svc \<Rightarrow> env \<Rightarrow> identity \<Rightarrow> identity \<Rightarrow> string \<Rightarrow> ('c, unit) users_m" where
  "ensureRoleAssigned svc en a i wal =
     bindE (if evm_mode en then chain_read (getIdentity (usv_chain svc) (id_identityId i)) else ret None) (\<lambda>oc.
       case oc of
         Some x \<Rightarrow> if id_role x = id_role i then ret ()
           else users_submit svc en ROLE_ASSIGN a [(''walletAddress'', JStr wal),
             (''identityId'', JStr (id_identityId i)), (''role'', jrole (id_role i))]
       | None \<Rightarrow> users_submit svc en ROLE_ASSIGN a [(''walletAddress'', JStr wal),
             (''identityId'', JStr (id_identityId i)), (''role'', jrole (id_role i))])"

definition ensureWalletActive ::
    "'c users_svc \<Rightarrow> env \<Rightarrow> identity \<Rightarrow> string \<Rightarrow> string \<Rightarrow> string \<Rightarrow> ('c, unit) users_m" where
  "ensureWalletActive svc en a wal deviceId ident =
     (let submit = users_submit svc en WALLET_ACTIVATE a
        [(''address'', JStr wal), (''deviceId'', JStr deviceId), (''identityId'', JStr ident)]
      in bindE (if evm_mode en then chain_read (getWallet (usv_chain svc) wal) else ret None) (\<lambda>oc.
       case oc of
         Some w \<Rightarrow> (case wal_status w of
             W_ACTIVE \<Rightarrow> ret ()
           | W_REVOKED \<Rightarrow> throw (ConflictError (''Wallet '' @ wal @ '' is already revoked on-chain''))
           | W_PENDING \<Rightarrow> submit)
       | None \<Rightarrow> submit))"

definition ensureWalletRevoked ::
    "'c users_svc \<Rightarrow> env \<Rightarrow> identity \<Rightarrow> string \<Rightarrow> string \<Rightarrow> ('c, unit) users_m" where
  "ensureWalletRevoked svc en a wal reason =
     bindE (if evm_mode en then chain_read (getWallet (usv_chain svc) wal) else ret None) (\<lambda>oc.
       if (case oc of Some w \<Rightarrow> wal_status w = W_REVOKED | None \<Rightarrow> False) then ret ()
       else users_submit svc en WALLET_REVOKE a [(''address'', JStr wal), (''reason'', JStr reason)])"

definition validateEvmWalletBinding :: "'c users_svc \<Rightarrow> env \<Rightarrow> string \<Rightarrow> string \<Rightarrow> ('c, unit) users_m" where
  "validateEvmWalletBinding svc en addr pk =
     throwIf (evm_mode en \<and> \<not> cr_walletMatches (usv_crypto svc) addr pk)
       (ValidationError [''walletAddress must be the EVM address derived from the canonical 64-byte public key''])"

subsection \<open>Attestation\<close>

text \<open>
  The test \<^verbatim>\<open>/private.?key|secret.?key|mnemonic|seed(?:.?phrase)?|backup/i\<close> on a key: a
  dot matches any character but a line terminator.
\<close>

fun has_prefix_gap :: "string \<Rightarrow> string \<Rightarrow> string \<Rightarrow> bool" where
  "has_prefix_gap a b s \<longleftrightarrow> startsWith s a \<and>
     (let r = drop (length a) s
      in startsWith r b \<or> (r \<noteq> [] \<and> hd r \<notin> {CHR 0x0A, CHR 0x0D} \<and> startsWith (tl r) b))"

fun anywhere :: "(string \<Rightarrow> bool) \<Rightarrow> string \<Rightarrow> bool" where
  "anywhere P [] \<longleftrightarrow> P []"
| "anywhere P (c # s) \<longleftrightarrow> P (c # s) \<or> anywhere P s"

definition sensitiveKey :: "string \<Rightarrow> bool" where
  "sensitiveKey k = (let s = toLowerCase k in
     anywhere (\<lambda>t. has_prefix_gap ''private'' ''key'' t \<or> has_prefix_gap ''secret'' ''key'' t \<or>
       startsWith t ''mnemonic'' \<or> startsWith t ''seed'' \<or> startsWith t ''backup'') s)"

text \<open>The indices of an array are its keys; none of them matches.\<close>

fun containsSensitiveKey :: "jsval \<Rightarrow> bool"
  and sensitive_entries :: "(string \<times> jsval) list \<Rightarrow> bool"
  and sensitive_items :: "jsval list \<Rightarrow> bool" where
  "containsSensitiveKey (JObj ob) = sensitive_entries ob"
| "containsSensitiveKey (JArr xs) = sensitive_items xs"
| "containsSensitiveKey _ = False"
| "sensitive_entries [] = False"
| "sensitive_entries ((k, v) # ob) = (sensitiveKey k \<or> containsSensitiveKey v \<or> sensitive_entries ob)"
| "sensitive_items [] = False"
| "sensitive_items (v # xs) = (containsSensitiveKey v \<or> sensitive_items xs)"

definition attestDevice :: "'c users_svc \<Rightarrow> string \<Rightarrow> jsval \<Rightarrow> ('c, attestation) users_m" where
  "attestDevice svc d md =
     thenE (throwIf (containsSensitiveKey md) (ValidationError [''private-key material is not accepted'']))
       (ret (usv_attest svc d md))"

definition approved :: "attestation \<Rightarrow> bool" where
  "approved a \<longleftrightarrow> att_verified a \<and> att_managedDevice a \<and> att_networkApproved a"

definition requireAttestation :: "attestation \<Rightarrow> ('c, unit) users_m" where
  "requireAttestation a = throwIf (\<not> approved a) (ForbiddenError ''Device attestation was not approved'')"

definition attestation_metadata :: "attestation \<Rightarrow> jsobj" where
  "attestation_metadata a = [(''attestation'', nullish_or (att_evidence a) (JObj [])),
     (''managedDevice'', JBool (att_managedDevice a)), (''networkApproved'', JBool (att_networkApproved a))]"

definition is_object :: "jsval \<Rightarrow> bool" where
  "is_object v = (case v of JObj _ \<Rightarrow> True | JArr _ \<Rightarrow> True | _ \<Rightarrow> False)"

section \<open>Operations\<close>

record create_input =
  ci_employeeId :: string
  ci_role :: jsval
  ci_identityId :: "string option"
  ci_fullName :: "string option"
  ci_department :: "string option"
  ci_status :: "identity_status option"
  ci_createdAt :: "date_str option"

definition opt_or :: "'a option \<Rightarrow> 'a \<Rightarrow> 'a" where
  "opt_or x d = (case x of None \<Rightarrow> d | Some v \<Rightarrow> v)"

definition parsed_role :: "jsval \<Rightarrow> role option" where
  "parsed_role v = (case as_str v of None \<Rightarrow> None | Some r \<Rightarrow> role_of r)"

definition new_identity :: "env \<Rightarrow> string \<Rightarrow> role \<Rightarrow> create_input \<Rightarrow> identity" where
  "new_identity en i r inp = \<lparr>id_identityId = i, id_employeeId = Some (ci_employeeId inp),
     id_fullName = opt_or (ci_fullName inp) (ci_employeeId inp), id_role = Some r,
     id_department = Some (opt_or (ci_department inp) ''UNSPECIFIED''),
     id_status = opt_or (ci_status inp) I_ACTIVE, id_createdAt = opt_or (ci_createdAt inp) (iso_now en),
     id_verifiedAt = None, id_verifiedBy = None\<rparr>"

definition identity_state :: "identity \<Rightarrow> state_obj" where
  "identity_state i = [(''entityType'', Some ''IDENTITY''), (''entityId'', Some (id_identityId i)),
     (''status'', Some (show_identity_status (id_status i))), (''role'', map_option show_role (id_role i))]"

definition role_state :: "identity \<Rightarrow> state_obj" where
  "role_state i = [(''entityType'', Some ''IDENTITY''), (''entityId'', Some (id_identityId i)),
     (''role'', map_option show_role (id_role i))]"

definition createUser ::
    "'c users_svc \<Rightarrow> env \<Rightarrow> create_input \<Rightarrow> string option \<Rightarrow> ('c, identity \<times> user) users_m" where
  "createUser svc en inp actorId =
     bindE (required (if ci_employeeId inp = [] then None else parsed_role (ci_role inp))
              (ValidationError [''employeeId and a valid role are required''])) (\<lambda>r.
     bindE (look (\<lambda>s. identities_findByEmployeeId s (ci_employeeId inp))) (\<lambda>dup.
     thenE (throwIf (dup \<noteq> None) (ConflictError (''Employee '' @ ci_employeeId inp @ '' already exists'')))
     (bindE (look (\<lambda>s. if present (ci_identityId inp) then identities_findById s (the (ci_identityId inp)) else None)) (\<lambda>old.
     thenE (throwIf (old \<noteq> None) (ConflictError (''Identity '' @ the (ci_identityId inp) @ '' already exists'')))
     (bindE (case ci_identityId inp of Some x \<Rightarrow> ret x
             | None \<Rightarrow> bindE (draw en) (\<lambda>u. ret (''DID:BEL:'' @ u))) (\<lambda>i.
     let idn = new_identity en i r inp; usr = toUser idn [] in
     bindE (if evm_mode en then chain_read (getIdentity (usv_chain svc) i) else ret None) (\<lambda>oc.
     thenE (throwIf (evm_mode en \<and> oc = None)
       (ConflictError ''Legacy user creation cannot create an EVM identity without a registered wallet; use account initialization and administrator activation''))
     (thenE (case oc of
               Some x \<Rightarrow> if id_role x = id_role idn then ret ()
                 else bindE (requireIdentity (opt_or actorId i)) (\<lambda>a.
                   users_submit svc en ROLE_ASSIGN a [(''identityId'', JStr i), (''role'', JStr (show_role r))])
             | None \<Rightarrow> ret ())
     (thenE (store (identities_save idn))
     (thenE (store (users_save usr))
     (thenE (users_commit svc en E_IDENTITY i ''IDENTITY_CREATE'' i (identity_state idn))
     (thenE (users_commit svc en E_IDENTITY i ''ROLE_ASSIGN'' i (role_state idn))
     (thenE (if oc = None then
               thenE (users_submit svc en IDENTITY_CREATE idn [(''identityId'', JStr i),
                   (''status'', JStr (show_identity_status (id_status idn))), (''role'', JStr (show_role r))])
                 (users_submit svc en ROLE_ASSIGN idn [(''identityId'', JStr i), (''role'', JStr (show_role r))])
             else ret ())
       (ret (idn, usr)))))))))))))))"

definition requestProvisioningChallenge ::
    "'c users_svc \<Rightarrow> env \<Rightarrow> string \<Rightarrow> jsval \<Rightarrow> ('c, challenge) users_m" where
  "requestProvisioningChallenge svc en deviceId md =
     thenE (throwIf (blank deviceId) (ValidationError [''deviceId is required'']))
     (thenE (throwIf (\<not> is_object md) (ValidationError [''deviceMetadata is required'']))
     (bindE (attestDevice svc deviceId md) (\<lambda>att.
      thenE (requireAttestation att)
     (bindE (draw en) (\<lambda>u.
      let c = \<lparr>ch_challengeId = u, ch_deviceId = deviceId, ch_challenge = nonce en 0,
               ch_purpose = WALLET_INITIALIZATION, ch_expiresAt = Iso (now_ms en + 5 * 60 * 1000),
               ch_usedAt = None, ch_metadata = Some (attestation_metadata att)\<rparr>
      in thenE (store (challenges_save c)) (ret c))))))"

record init_input =
  ii_privateKey :: bool
  ii_fullName :: jsval
  ii_deviceId :: jsval
  ii_publicKey :: jsval
  ii_walletAddress :: jsval
  ii_challengeId :: jsval
  ii_signature :: jsval
  ii_deviceMetadata :: jsval
  ii_employeeId :: "string option"
  ii_department :: "string option"

definition init_errors :: "init_input \<Rightarrow> string list" where
  "init_errors inp =
     (if text_of (ii_fullName inp) = None then [''fullName is required''] else []) @
     (if text_of (ii_deviceId inp) = None then [''deviceId is required''] else []) @
     (if text_of (ii_publicKey inp) = None then [''publicKey is required''] else []) @
     (if text_of (ii_walletAddress inp) = None then [''walletAddress is required''] else []) @
     (if text_of (ii_challengeId inp) = None then [''challengeId is required''] else []) @
     (if text_of (ii_signature inp) = None then [''signature is required''] else []) @
     (if \<not> is_object (ii_deviceMetadata inp) then [''deviceMetadata is required''] else [])"

definition str :: "jsval \<Rightarrow> string" where
  "str v = (case as_str v of None \<Rightarrow> [] | Some x \<Rightarrow> x)"

definition trim_or_null :: "string option \<Rightarrow> string option" where
  "trim_or_null x = (case x of None \<Rightarrow> None | Some v \<Rightarrow> if trim v = [] then None else Some (trim v))"

definition pending_identity :: "env \<Rightarrow> string \<Rightarrow> init_input \<Rightarrow> identity" where
  "pending_identity en i inp = \<lparr>id_identityId = i, id_employeeId = trim_or_null (ii_employeeId inp),
     id_fullName = trim (str (ii_fullName inp)), id_role = None,
     id_department = trim_or_null (ii_department inp), id_status = I_PENDING, id_createdAt = iso_now en,
     id_verifiedAt = None, id_verifiedBy = None\<rparr>"

definition pending_device :: "env \<Rightarrow> string \<Rightarrow> attestation \<Rightarrow> init_input \<Rightarrow> device" where
  "pending_device en i att inp = \<lparr>dev_deviceId = trim (str (ii_deviceId inp)), dev_identityId = i,
     dev_status = D_PENDING, dev_registeredAt = iso_now en, dev_activatedAt = None, dev_revokedAt = None,
     dev_publicKey = Some (str (ii_publicKey inp)), dev_metadata = Some (attestation_metadata att)\<rparr>"

definition pending_wallet :: "string \<Rightarrow> init_input \<Rightarrow> wallet" where
  "pending_wallet i inp = \<lparr>wal_address = trim (str (ii_walletAddress inp)), wal_identityId = i,
     wal_deviceId = trim (str (ii_deviceId inp)), wal_status = W_PENDING, wal_activatedAt = None,
     wal_revokedAt = None, wal_revokedReason = None, wal_publicKey = Some (str (ii_publicKey inp))\<rparr>"

fun show_device_status :: "device_status \<Rightarrow> string" where
  "show_device_status D_PENDING = ''PENDING''"
| "show_device_status D_ACTIVE = ''ACTIVE''"
| "show_device_status D_REVOKED = ''REVOKED''"

fun show_wallet_status :: "wallet_status \<Rightarrow> string" where
  "show_wallet_status W_PENDING = ''PENDING''"
| "show_wallet_status W_ACTIVE = ''ACTIVE''"
| "show_wallet_status W_REVOKED = ''REVOKED''"

definition device_state :: "device \<Rightarrow> state_obj" where
  "device_state d = [(''entityType'', Some ''DEVICE''), (''entityId'', Some (dev_deviceId d)),
     (''identityId'', Some (dev_identityId d)), (''status'', Some (show_device_status (dev_status d)))]"

definition wallet_state :: "wallet \<Rightarrow> state_obj" where
  "wallet_state w = [(''entityType'', Some ''WALLET''), (''entityId'', Some (wal_address w)),
     (''identityId'', Some (wal_identityId w)), (''deviceId'', Some (wal_deviceId w)),
     (''status'', Some (show_wallet_status (wal_status w)))]"

text \<open>Everything that is checked before the challenge is consumed; the attestation is returned.\<close>

definition init_checks :: "'c users_svc \<Rightarrow> env \<Rightarrow> init_input \<Rightarrow> ('c, attestation) users_m" where
  "init_checks svc en inp =
     thenE (throwIf (ii_privateKey inp) (ValidationError [''privateKey must never be submitted'']))
     (thenE (throwIf (init_errors inp \<noteq> []) (ValidationError (init_errors inp)))
     (bindE (look (\<lambda>s. challenges_findById s (str (ii_challengeId inp)))) (\<lambda>found.
      bindE (required (case found of None \<Rightarrow> None
               | Some c \<Rightarrow> if ch_purpose c = WALLET_INITIALIZATION then Some c else None)
               (ValidationError [''challenge is invalid''])) (\<lambda>c.
      thenE (throwIf (ch_used c) (ConflictError ''challenge has already been used''))
     (thenE (throwIf (date_le (ch_expiresAt c) (now_ms en)) (ValidationError [''challenge has expired'']))
     (thenE (throwIf (ch_deviceId c \<noteq> str (ii_deviceId inp)) (ValidationError [''challenge is bound to another device'']))
     (thenE (validateEvmWalletBinding svc en (str (ii_walletAddress inp)) (str (ii_publicKey inp)))
     (thenE (throwIf (\<not> verifyProof (usv_crypto svc) en (ch_challenge c) (str (ii_publicKey inp)) (str (ii_signature inp)))
               (ForbiddenError ''Invalid provisioning proof''))
     (bindE (attestDevice svc (str (ii_deviceId inp)) (ii_deviceMetadata inp)) (\<lambda>att.
      thenE (requireAttestation att)
     (bindE (look (\<lambda>s. wallets_findByAddress s (str (ii_walletAddress inp)))) (\<lambda>w.
      thenE (throwIf (w \<noteq> None) (ConflictError ''Wallet address is already registered''))
     (bindE (look (\<lambda>s. devices_findById s (str (ii_deviceId inp)))) (\<lambda>d.
      thenE (throwIf (d \<noteq> None) (ConflictError ''Device is already registered''))
     (bindE (look (\<lambda>s. if present (ii_employeeId inp)
               then identities_findByEmployeeId s (the (ii_employeeId inp)) else None)) (\<lambda>e.
      thenE (throwIf (e \<noteq> None) (ConflictError ''Employee is already registered'')) (ret att)))))))))))))))))"

definition consume_challenge :: "env \<Rightarrow> string \<Rightarrow> ('c, unit) users_m" where
  "consume_challenge en i =
     bindE (\<lambda>s. case consumeIfUnused i (iso_now en) (us_store s) of (b, t) \<Rightarrow> (Inr b, s\<lparr>us_store := t\<rparr>))
       (\<lambda>b. throwIf (\<not> b) (ConflictError ''challenge has already been used''))"

definition initializeAccount ::
    "'c users_svc \<Rightarrow> env \<Rightarrow> init_input \<Rightarrow> ('c, identity \<times> device \<times> wallet) users_m" where
  "initializeAccount svc en inp =
     bindE (init_checks svc en inp) (\<lambda>att.
     bindE (draw en) (\<lambda>u.
     let i = ''DID:BEL:'' @ u; idn = pending_identity en i inp; d = pending_device en i att inp;
         w = pending_wallet i inp in
     thenE (consume_challenge en (str (ii_challengeId inp)))
     (thenE (store (identities_save idn))
     (thenE (store (devices_save d))
     (thenE (store (wallets_save w))
     (thenE (users_commit svc en E_IDENTITY i ''ACCOUNT_INITIALIZATION'' i
        [(''entityType'', Some ''IDENTITY''), (''entityId'', Some i), (''status'', Some ''PENDING''),
         (''fullName'', Some (id_fullName idn))])
     (thenE (users_commit svc en E_DEVICE (dev_deviceId d) ''DEVICE_REGISTER'' i
        (device_state d @ [(''publicKey'', dev_publicKey d)]))
     (thenE (users_commit svc en E_WALLET (wal_address w) ''WALLET_REGISTER'' i
        (wallet_state w @ [(''publicKey'', wal_publicKey w)]))
        (ret (idn, d, w))))))))))"

definition listPendingRegistrations :: "idstore \<Rightarrow> (identity \<times> device \<times> wallet) list" where
  "listPendingRegistrations s = List.map_filter (\<lambda>i.
     case (find (\<lambda>d. dev_status d = D_PENDING) (devices_listByIdentityId s (id_identityId i)),
           find (\<lambda>w. wal_status w = W_PENDING) (wallets_listByIdentityId s (id_identityId i))) of
       (Some d, Some w) \<Rightarrow> Some (i, d, w) | _ \<Rightarrow> None) (identities_listByStatus s I_PENDING)"

definition listActiveEmployees :: "idstore \<Rightarrow> (user \<times> string) list" where
  "listActiveEmployees s = map (\<lambda>i. (toUser i
     (case find (\<lambda>w. wal_status w = W_ACTIVE) (wallets_listByIdentityId s (id_identityId i)) of
        None \<Rightarrow> [] | Some w \<Rightarrow> wal_address w), id_fullName i)) (identities_listByStatus s I_ACTIVE)"

definition requireAdmin :: "string \<Rightarrow> string \<Rightarrow> ('c, identity) users_m" where
  "requireAdmin actorId msg =
     bindE (requireIdentity actorId) (\<lambda>a.
     thenE (throwIf (id_status a \<noteq> I_ACTIVE \<or> id_role a \<noteq> Some ADMIN) (ForbiddenError msg)) (ret a))"

definition verifyRegistration ::
    "'c users_svc \<Rightarrow> env \<Rightarrow> string \<Rightarrow> string \<Rightarrow> string \<Rightarrow> string \<Rightarrow> ('c, identity) users_m" where
  "verifyRegistration svc en actorId userId employeeId department =
     bindE (requireAdmin actorId ''Only an active admin may verify registrations'') (\<lambda>a.
     thenE (throwIf (blank employeeId \<or> blank department)
              (ValidationError [''employeeId and department are required'']))
     (bindE (requireIdentity userId) (\<lambda>target.
      thenE (throwIf (id_status target \<noteq> I_PENDING) (ConflictError ''Only pending registrations can be verified''))
     (bindE (look (\<lambda>s. identities_findByEmployeeId s employeeId)) (\<lambda>existing.
      thenE (throwIf (case existing of None \<Rightarrow> False | Some x \<Rightarrow> id_identityId x \<noteq> id_identityId target)
               (ConflictError ''Employee is already registered''))
     (let t = target\<lparr>id_employeeId := Some (trim employeeId), id_department := Some (trim department),
                     id_verifiedAt := Some (iso_now en), id_verifiedBy := Some (id_identityId a)\<rparr>
      in thenE (store (identities_save t))
        (thenE (users_commit svc en E_IDENTITY (id_identityId t) ''ADMIN_VERIFY'' (id_identityId a)
           [(''entityType'', Some ''IDENTITY''), (''entityId'', Some (id_identityId t)),
            (''employeeId'', id_employeeId t), (''department'', id_department t),
            (''status'', Some (show_identity_status (id_status t)))])
         (ret t))))))))"

definition activateRegistration ::
    "'c users_svc \<Rightarrow> env \<Rightarrow> string \<Rightarrow> string \<Rightarrow> ('c, identity \<times> device \<times> wallet) users_m" where
  "activateRegistration svc en actorId userId =
     bindE (requireAdmin actorId ''Only an active admin may activate registrations'') (\<lambda>a.
     bindE (requireIdentity userId) (\<lambda>idn.
     thenE (throwIf (id_status idn \<noteq> I_PENDING \<or> \<not> complete_identity idn)
              (ConflictError ''Registration must be verified and assigned a role before activation''))
     (bindE (look (\<lambda>s. (find (\<lambda>d. dev_status d = D_PENDING) (devices_listByIdentityId s (id_identityId idn)),
                        find (\<lambda>w. wal_status w = W_PENDING) (wallets_listByIdentityId s (id_identityId idn)))))
        (\<lambda>(dv, wl).
     thenE (throwIf (dv = None \<or> wl = None) (ConflictError ''Pending device and wallet are required''))
     (let d = the dv; w = the wl; i = id_identityId idn in
     thenE (throwIf (\<not> present (wal_publicKey w) \<or> \<not> present (dev_publicKey d) \<or> wal_publicKey w \<noteq> dev_publicKey d)
              (ForbiddenError ''Wallet public key is not bound to the registered device''))
     (thenE (validateEvmWalletBinding svc en (wal_address w) (the (wal_publicKey w)))
     (thenE (ensureIdentityCreated svc en a idn (wal_address w))
     (thenE (ensureRoleAssigned svc en a idn (wal_address w))
     (thenE (ensureWalletActive svc en a (wal_address w) (dev_deviceId d) i)
     (let idn' = idn\<lparr>id_status := I_ACTIVE\<rparr>;
          d' = d\<lparr>dev_status := D_ACTIVE, dev_activatedAt := Some (iso_now en)\<rparr>;
          w' = w\<lparr>wal_status := W_ACTIVE, wal_activatedAt := Some (iso_now en)\<rparr> in
      thenE (store (identities_save idn'))
     (thenE (store (devices_save d'))
     (thenE (store (wallets_save w'))
     (thenE (store (users_save (toUser idn' (wal_address w))))
     (thenE (users_commit svc en E_IDENTITY i ''ROLE_ASSIGN'' (id_identityId a) (role_state idn'))
     (thenE (users_commit svc en E_DEVICE (dev_deviceId d') ''DEVICE_REGISTER'' (id_identityId a)
        [(''entityType'', Some ''DEVICE''), (''entityId'', Some (dev_deviceId d')), (''status'', Some ''ACTIVE'')])
     (thenE (users_commit svc en E_WALLET (wal_address w') ''WALLET_ACTIVATE'' (id_identityId a)
        [(''entityType'', Some ''WALLET''), (''entityId'', Some (wal_address w')), (''status'', Some ''ACTIVE'')])
        (ret (idn', d', w'))))))))))))))))))"

subsection \<open>Devices\<close>

definition registerDevice ::
    "'c users_svc \<Rightarrow> env \<Rightarrow> string \<Rightarrow> string \<Rightarrow> string \<Rightarrow> string option \<Rightarrow> ('c, device) users_m" where
  "registerDevice svc en userId deviceId credential publicKey =
     thenE (throwIf (blank deviceId \<or> blank credential) (ValidationError [''deviceId and credential are required'']))
     (thenE (throwIf (evm_mode en \<and> \<not> present publicKey)
               (ValidationError [''publicKey is required for EVM wallet registration'']))
     (thenE (throwIf (evm_mode en \<and> \<not> usv_publicKeyValid svc (the publicKey))
               (ValidationError [''publicKey must be exactly the canonical 64-byte secp256k1 X || Y representation'']))
     (bindE (requireIdentity userId) (\<lambda>idn.
      bindE (look (\<lambda>s. devices_findById s deviceId)) (\<lambda>existing.
      thenE (throwIf (case existing of None \<Rightarrow> False | Some d \<Rightarrow> dev_identityId d \<noteq> id_identityId idn)
               (ConflictError (''Device '' @ deviceId @ '' is already registered'')))
     (thenE (throwIf (case existing of None \<Rightarrow> False | Some d \<Rightarrow> dev_status d = D_ACTIVE)
               (ConflictError (''Device '' @ deviceId @ '' is already active'')))
     (let d = \<lparr>dev_deviceId = deviceId, dev_identityId = id_identityId idn, dev_status = D_ACTIVE,
               dev_registeredAt = (case existing of None \<Rightarrow> iso_now en | Some x \<Rightarrow> dev_registeredAt x),
               dev_activatedAt = Some (iso_now en), dev_revokedAt = None,
               dev_publicKey = (case publicKey of Some k \<Rightarrow> Some k
                 | None \<Rightarrow> (case existing of None \<Rightarrow> None | Some x \<Rightarrow> dev_publicKey x)),
               dev_metadata = None\<rparr>
      in thenE (store (devices_save d))
        (thenE (store (credentials_save (hashCredential (usv_crypto svc) credential) deviceId))
        (thenE (users_commit svc en E_DEVICE deviceId ''DEVICE_REGISTER'' (id_identityId idn) (device_state d))
          (ret d))))))))))"

definition revoke_for_device ::
    "'c users_svc \<Rightarrow> env \<Rightarrow> string \<Rightarrow> wallet \<Rightarrow> ('c, unit) users_m" where
  "revoke_for_device svc en who w =
     (let w' = w\<lparr>wal_status := W_REVOKED, wal_revokedAt := Some (iso_now en),
                  wal_revokedReason := Some ''Device revoked''\<rparr>
      in thenE (store (wallets_save w'))
        (users_commit svc en E_WALLET (wal_address w') ''WALLET_REVOKE'' who
          (wallet_state w' @ [(''reason'', wal_revokedReason w')])))"

definition revokeDevice :: "'c users_svc \<Rightarrow> env \<Rightarrow> string \<Rightarrow> string option \<Rightarrow> ('c, device) users_m" where
  "revokeDevice svc en deviceId actorId =
     bindE (look (\<lambda>s. devices_findById s deviceId)) (\<lambda>found.
     bindE (required found (NotFoundError (''No device '' @ deviceId))) (\<lambda>d.
     let wasRevoked = (dev_status d = D_REVOKED) in
     bindE (requireIdentity (opt_or actorId (dev_identityId d))) (\<lambda>a.
     bindE (look (\<lambda>s. filter (\<lambda>w. wal_deviceId w = deviceId \<and> wal_status w = W_ACTIVE)
              (wallets_listByIdentityId s (dev_identityId d)))) (\<lambda>wallets.
     thenE (forE wallets (\<lambda>w. ensureWalletRevoked svc en a (wal_address w) ''Device revoked''))
     (let d' = (if wasRevoked then d else d\<lparr>dev_status := D_REVOKED, dev_revokedAt := Some (iso_now en)\<rparr>) in
      thenE (if wasRevoked then ret () else store (devices_save d'))
     (thenE (store (credentials_revokeForDevice deviceId))
     (thenE (forE wallets (revoke_for_device svc en (dev_identityId d)))
     (thenE (if wasRevoked then ret () else users_commit svc en E_DEVICE deviceId ''DEVICE_REVOKE''
               (dev_identityId d) (device_state d'))
        (ret d')))))))))"

subsection \<open>Wallets\<close>

definition active_device :: "identity \<Rightarrow> string \<Rightarrow> ('c, device) users_m" where
  "active_device idn deviceId =
     bindE (look (\<lambda>s. devices_findById s deviceId)) (\<lambda>found.
       required (case found of None \<Rightarrow> None
         | Some d \<Rightarrow> if dev_identityId d \<noteq> id_identityId idn \<or> dev_status d \<noteq> D_ACTIVE then None else Some d)
         (ForbiddenError ''Device is not active for this identity''))"

definition registerWallet ::
    "'c users_svc \<Rightarrow> env \<Rightarrow> string \<Rightarrow> string \<Rightarrow> string \<Rightarrow> ('c, wallet) users_m" where
  "registerWallet svc en userId deviceId address =
     thenE (throwIf (blank address) (ValidationError [''device-generated walletAddress is required'']))
     (bindE (requireIdentity userId) (\<lambda>idn.
      thenE (requireActive idn)
     (bindE (active_device idn deviceId) (\<lambda>d.
      thenE (throwIf (\<not> present (dev_publicKey d))
               (ForbiddenError ''A device-generated public key is required to register a wallet''))
     (thenE (validateEvmWalletBinding svc en address (the (dev_publicKey d)))
     (bindE (look (\<lambda>s. wallets_findByAddress s address)) (\<lambda>old.
      thenE (throwIf (old \<noteq> None) (ConflictError (''Wallet '' @ address @ '' already exists'')))
     (let w = \<lparr>wal_address = trim address, wal_identityId = id_identityId idn, wal_deviceId = deviceId,
               wal_status = W_PENDING, wal_activatedAt = None, wal_revokedAt = None,
               wal_revokedReason = None, wal_publicKey = dev_publicKey d\<rparr>
      in thenE (store (wallets_save w)) (ret w)))))))))"

definition revoked_wallet :: "env \<Rightarrow> string \<Rightarrow> wallet \<Rightarrow> wallet" where
  "revoked_wallet en reason w = w\<lparr>wal_status := W_REVOKED, wal_revokedAt := Some (iso_now en),
     wal_revokedReason := Some reason\<rparr>"

definition revokeWallet ::
    "'c users_svc \<Rightarrow> env \<Rightarrow> string \<Rightarrow> string \<Rightarrow> string \<Rightarrow> ('c, wallet) users_m" where
  "revokeWallet svc en userId reason actorId =
     thenE (throwIf (blank reason) (ValidationError [''reason is required to revoke a wallet'']))
     (bindE (requireIdentity userId) (\<lambda>idn.
      bindE (look (\<lambda>s. find (\<lambda>w. wal_status w = W_ACTIVE) (wallets_listByIdentityId s (id_identityId idn)))) (\<lambda>found.
      bindE (required found (NotFoundError (''No active wallet for '' @ opt_or (id_employeeId idn) ''null''))) (\<lambda>w.
      bindE (requireIdentity actorId) (\<lambda>a.
      thenE (users_submit svc en WALLET_REVOKE a [(''address'', JStr (wal_address w)), (''reason'', JStr reason)])
     (let w' = revoked_wallet en reason w in
      thenE (store (wallets_save w'))
     (thenE (users_commit svc en E_WALLET (wal_address w) ''WALLET_REVOKE'' (id_identityId idn)
        (wallet_state w' @ [(''reason'', Some reason)]))
        (ret w'))))))))"

definition replace_wallet ::
    "'c users_svc \<Rightarrow> env \<Rightarrow> identity \<Rightarrow> string \<Rightarrow> wallet \<Rightarrow> ('c, unit) users_m" where
  "replace_wallet svc en a keepAddress w =
     (if wal_status w = W_ACTIVE \<and> wal_address w \<noteq> keepAddress then
        thenE (users_submit svc en WALLET_REVOKE a [(''address'', JStr (wal_address w)),
                 (''reason'', JStr ''Replaced by wallet activation'')])
       (let w' = revoked_wallet en ''Replaced by wallet activation'' w in
        thenE (store (wallets_save w'))
          (users_commit svc en E_WALLET (wal_address w) ''WALLET_REVOKE'' (id_identityId a)
             (wallet_state w' @ [(''reason'', wal_revokedReason w')])))
      else ret ())"

definition activateWallet ::
    "'c users_svc \<Rightarrow> env \<Rightarrow> string \<Rightarrow> string \<Rightarrow> string \<Rightarrow> string \<Rightarrow> ('c, wallet) users_m" where
  "activateWallet svc en userId deviceId address actorId =
     thenE (throwIf (blank address) (ValidationError [''device-generated walletAddress is required'']))
     (bindE (requireIdentity userId) (\<lambda>idn.
      thenE (requireActive idn)
     (bindE (active_device idn deviceId) (\<lambda>d.
      bindE (look (\<lambda>s. wallets_findByAddress s (trim address))) (\<lambda>existing.
      thenE (throwIf (case existing of None \<Rightarrow> False | Some w \<Rightarrow> wal_identityId w \<noteq> id_identityId idn)
               (ForbiddenError ''Wallet belongs to another identity''))
     (bindE (required (case existing of None \<Rightarrow> None
               | Some w \<Rightarrow> if wal_identityId w \<noteq> id_identityId idn \<or> wal_deviceId w \<noteq> deviceId \<or>
                              wal_status w \<noteq> W_PENDING then None else Some w)
               (NotFoundError ''No pending wallet registered for this device and public address'')) (\<lambda>w.
      thenE (throwIf (\<not> present (wal_publicKey w))
               (ForbiddenError ''A device-generated public key is required to activate a wallet''))
     (thenE (validateEvmWalletBinding svc en address (the (wal_publicKey w)))
     (bindE (requireIdentity actorId) (\<lambda>a.
      bindE (look (\<lambda>s. wallets_listByIdentityId s (id_identityId idn))) (\<lambda>all.
      thenE (forE all (replace_wallet svc en a (wal_address w)))
     (thenE (ensureIdentityCreated svc en a idn (wal_address w))
     (thenE (ensureWalletActive svc en a (wal_address w) deviceId (id_identityId idn))
     (let w' = w\<lparr>wal_deviceId := deviceId, wal_status := W_ACTIVE, wal_activatedAt := Some (iso_now en),
                  wal_revokedAt := None, wal_revokedReason := None\<rparr> in
      thenE (store (wallets_save w'))
     (thenE (store (\<lambda>s. case users_findByIdentityId s (id_identityId idn) of
                 None \<Rightarrow> s | Some u \<Rightarrow> users_save (u\<lparr>usr_walletAddress := wal_address w'\<rparr>) s))
     (thenE (users_commit svc en E_WALLET (wal_address w') ''WALLET_ACTIVATE'' (id_identityId idn) (wallet_state w'))
        (ret w')))))))))))))))))"

subsection \<open>Roles\<close>

definition assignRole ::
    "'c users_svc \<Rightarrow> env \<Rightarrow> string \<Rightarrow> string \<Rightarrow> jsval \<Rightarrow> ('c, user) users_m" where
  "assignRole svc en actorId userId role =
     bindE (required (parsed_role role) (ValidationError [''role is invalid''])) (\<lambda>r.
     bindE (requireAdmin actorId ''Only an active admin may assign roles'') (\<lambda>a.
     bindE (requireIdentity userId) (\<lambda>target.
     thenE (throwIf (id_status target = I_REVOKED) (ForbiddenError ''Revoked identities cannot receive roles''))
     (bindE (look (\<lambda>s. users_findByIdentityId s (id_identityId target))) (\<lambda>found.
      let t = target\<lparr>id_role := Some r\<rparr> in
      case found of
        None \<Rightarrow>
          thenE (throwIf (id_status target \<noteq> I_PENDING)
                   (NotFoundError (''No user for '' @ opt_or (id_employeeId target) ''null'')))
         (thenE (store (identities_save t))
         (thenE (users_commit svc en E_IDENTITY (id_identityId t) ''ROLE_ASSIGN'' (id_identityId a) (role_state t))
            (ret (toUser t []))))
      | Some u \<Rightarrow>
          thenE (users_submit svc en ROLE_ASSIGN a [(''identityId'', JStr (id_identityId target)),
                   (''role'', JStr (show_role r))])
         (let u' = u\<lparr>usr_role := r\<rparr> in
          thenE (store (identities_save t))
         (thenE (store (users_save u'))
         (thenE (users_commit svc en E_IDENTITY (id_identityId t) ''ROLE_ASSIGN'' (id_identityId a) (role_state t))
            (ret u')))))))))"

subsection \<open>Grants\<close>

fun show_resource_type :: "resource_type \<Rightarrow> string" where
  "show_resource_type RT_ASSET = ''ASSET''"
| "show_resource_type RT_JOB = ''JOB''"

fun show_grant_status :: "grant_status \<Rightarrow> string" where
  "show_grant_status G_ACTIVE = ''ACTIVE''"
| "show_grant_status G_REVOKED = ''REVOKED''"
| "show_grant_status G_EXPIRED = ''EXPIRED''"

definition grant_payload :: "grant \<Rightarrow> jsobj" where
  "grant_payload g = [(''authorizationGrantId'', JStr (gr_authorizationGrantId g)),
     (''resourceType'', JStr (show_resource_type (gr_resourceType g))),
     (''resourceId'', JStr (gr_resourceId g)), (''actorIdentityId'', JStr (gr_actorIdentityId g)),
     (''action'', JStr (show_action (gr_action g))),
     (''expiresAt'', case gr_expiresAt g of None \<Rightarrow> JNull | Some d \<Rightarrow> JStr (date_text d))]"

definition grant_state :: "grant \<Rightarrow> state_obj" where
  "grant_state g = [(''entityType'', Some ''GRANT''), (''entityId'', Some (gr_authorizationGrantId g)),
     (''actorIdentityId'', Some (gr_actorIdentityId g)),
     (''resourceType'', Some (show_resource_type (gr_resourceType g))),
     (''resourceId'', Some (gr_resourceId g)), (''action'', Some (show_action (gr_action g))),
     (''grantedByIdentityId'', Some (gr_grantedByIdentityId g)),
     (''status'', Some (show_grant_status (gr_status g))),
     (''expiresAt'', map_option date_text (gr_expiresAt g))]"

definition createGrant ::
    "'c users_svc \<Rightarrow> env \<Rightarrow> string \<Rightarrow> string \<Rightarrow> resource_type \<Rightarrow> string \<Rightarrow> action \<Rightarrow> date_str option
     \<Rightarrow> ('c, grant) users_m" where
  "createGrant svc en actorId targetId rt resourceId act expiresAt =
     bindE (requireIdentity actorId) (\<lambda>a.
     bindE (requireIdentity targetId) (\<lambda>target.
     thenE (throwIf (id_status a \<noteq> I_ACTIVE \<or> id_status target \<noteq> I_ACTIVE)
              (ForbiddenError ''Inactive identity cannot grant authorization''))
     (thenE (throwIf (id_role a \<noteq> Some ADMIN) (ForbiddenError ''Only an admin may create an authorization grant''))
     (thenE (throwIf (rt \<noteq> RT_ASSET \<or> act \<noteq> TRANSFER_ASSET) (ForbiddenError ''Only asset transfer grants may be created''))
     (bindE (draw en) (\<lambda>u.
      let g = \<lparr>gr_authorizationGrantId = ''GRANT-'' @ u, gr_actorIdentityId = id_identityId target,
               gr_resourceType = rt, gr_resourceId = resourceId, gr_action = act,
               gr_grantedByIdentityId = id_identityId a, gr_issuedAt = iso_now en,
               gr_expiresAt = expiresAt, gr_status = G_ACTIVE\<rparr> in
      thenE (users_submit svc en GRANT_CREATE a (grant_payload g))
     (thenE (store (grants_save g))
     (thenE (users_commit svc en E_GRANT (gr_authorizationGrantId g) ''GRANT_CREATE'' (id_identityId a) (grant_state g))
        (ret g)))))))))"

definition grantMatches :: "grant \<Rightarrow> string \<Rightarrow> string \<Rightarrow> action \<Rightarrow> bool" where
  "grantMatches g who r act \<longleftrightarrow> gr_actorIdentityId g = who \<and> gr_resourceId g = r \<and> gr_action g = act"

definition grantIsExpired :: "env \<Rightarrow> grant \<Rightarrow> bool" where
  "grantIsExpired en g = (case gr_expiresAt g of None \<Rightarrow> False
     | Some d \<Rightarrow> date_truthy d \<and> date_le d (now_ms en))"

definition grantIsActive :: "env \<Rightarrow> grant \<Rightarrow> string \<Rightarrow> string \<Rightarrow> action \<Rightarrow> bool" where
  "grantIsActive en g who r act \<longleftrightarrow> gr_status g = G_ACTIVE \<and> grantMatches g who r act \<and> \<not> grantIsExpired en g"

definition findActiveGrant :: "env \<Rightarrow> idstore \<Rightarrow> string \<Rightarrow> resource_type \<Rightarrow> string \<Rightarrow> action \<Rightarrow> grant option" where
  "findActiveGrant en s who rt r act =
     find (\<lambda>g. gr_resourceType g = rt \<and> gr_resourceId g = r \<and> grantIsActive en g who r act)
       (grants_listByIdentityId s who)"

definition revokeGrant :: "'c users_svc \<Rightarrow> env \<Rightarrow> string \<Rightarrow> string \<Rightarrow> ('c, grant) users_m" where
  "revokeGrant svc en actorId grantId =
     bindE (requireIdentity actorId) (\<lambda>a.
     bindE (look (\<lambda>s. grants_findById s grantId)) (\<lambda>found.
     bindE (required found (NotFoundError (''No grant '' @ grantId))) (\<lambda>g.
     thenE (throwIf (gr_grantedByIdentityId g \<noteq> id_identityId a \<and> id_role a \<noteq> Some ADMIN)
              (ForbiddenError ''Only the grantor or admin may revoke a grant''))
     (thenE (users_submit svc en GRANT_REVOKE a (grant_payload g))
     (let g' = g\<lparr>gr_status := G_REVOKED\<rparr> in
      thenE (store (grants_save g'))
     (thenE (users_commit svc en E_GRANT (gr_authorizationGrantId g) ''GRANT_REVOKE'' (id_identityId a) (grant_state g'))
        (ret g')))))))"

definition validateGrant :: "env \<Rightarrow> string \<Rightarrow> string \<Rightarrow> string \<Rightarrow> action \<Rightarrow> ('c, bool) users_m" where
  "validateGrant en grantId who r act =
     bindE (look (\<lambda>s. grants_findById s grantId)) (\<lambda>found.
       case found of
         None \<Rightarrow> ret False
       | Some g \<Rightarrow>
           if \<not> grantMatches g who r act \<or> gr_status g \<noteq> G_ACTIVE then ret False
           else if grantIsExpired en g then
             thenE (store (grants_save (g\<lparr>gr_status := G_EXPIRED\<rparr>))) (ret False)
           else ret True)"

section \<open>Queries\<close>

definition users_getById :: "string \<Rightarrow> ('c, user option) users_m" where
  "users_getById i = look (\<lambda>s. case users_findById s i of
     Some u \<Rightarrow> Some u
   | None \<Rightarrow> (case resolveIdentity i s of None \<Rightarrow> None | Some x \<Rightarrow> users_findByIdentityId s (id_identityId x)))"

definition users_getIdentity :: "string \<Rightarrow> ('c, identity option) users_m" where
  "users_getIdentity i = look (resolveIdentity i)"

definition listDevices :: "string \<Rightarrow> ('c, device list) users_m" where
  "listDevices u = bindE (requireIdentity u) (\<lambda>x. look (\<lambda>s. devices_listByIdentityId s (id_identityId x)))"

definition listWallets :: "string \<Rightarrow> ('c, wallet list) users_m" where
  "listWallets u = bindE (requireIdentity u) (\<lambda>x. look (\<lambda>s. wallets_listByIdentityId s (id_identityId x)))"

definition listGrants :: "string \<Rightarrow> ('c, grant list) users_m" where
  "listGrants u = bindE (requireIdentity u) (\<lambda>x. look (\<lambda>s. grants_listByIdentityId s (id_identityId x)))"

end
