(* ===== verification/UserLifecycle.thy ===== *)
theory UserLifecycle
  imports Users
begin

text \<open>
  Properties of the users service: which operations leave the identity store as it was when
  they fail, what each lifecycle operation establishes when it succeeds, and the composition
  with the authentication service (a revoked device has no session, a pending account cannot
  log in).
\<close>

section \<open>Quiet and sure steps\<close>

lemma quiet_steps [frame]:
  "quiet us_store (look f)" "quiet us_store (draw en)" "quiet us_store (chain_read h)"
  "quiet us_store (users_commit svc en ty i ev who st)"
  "quiet us_store (on_users_chain g)"
  by (auto simp: quiet_def look_def draw_def chain_read_def users_commit_def on_users_chain_def
      exec_defs Let_def split: prod.splits)

lemma sure_steps [frame]:
  "sure (look f)" "sure (draw en)" "sure (store g)" "sure (users_commit svc en ty i ev who st)"
  by (auto simp: sure_def look_def draw_def store_def users_commit_def exec_defs)

lemma quiet_calls [frame]:
  "quiet us_store (users_submit svc en ty a p)"
  "quiet us_store (requireIdentity i)" "quiet us_store (requireActive idn)"
  "quiet us_store (requireAdmin i msg)" "quiet us_store (active_device idn d)"
  "quiet us_store (validateEvmWalletBinding svc en addr pk)"
  "quiet us_store (attestDevice svc d md)" "quiet us_store (requireAttestation att)"
  by (auto simp: users_submit_def requireIdentity_def requireActive_def requireAdmin_def
      active_device_def validateEvmWalletBinding_def attestDevice_def requireAttestation_def intro!: frame)

lemma quiet_ensure [frame]:
  "quiet us_store (ensureIdentityCreated svc en a i wal)"
  "quiet us_store (ensureRoleAssigned svc en a i wal)"
  "quiet us_store (ensureWalletActive svc en a wal d ident)"
  "quiet us_store (ensureWalletRevoked svc en a wal reason)"
  by (auto simp: ensureIdentityCreated_def ensureRoleAssigned_def ensureWalletActive_def
      ensureWalletRevoked_def Let_def intro!: frame split: wallet_status.splits)

lemma quiet_init_checks [frame]: "quiet us_store (init_checks svc en inp)"
  by (auto simp: init_checks_def intro!: frame)

lemma sure_revoke_for_device [frame]: "sure (revoke_for_device svc en who w)"
  by (auto simp: revoke_for_device_def Let_def intro!: frame)

lemma look_run [run]: "look f s = (r, s') \<longleftrightarrow> r = Inr (f (us_store s)) \<and> s' = s"
  by (auto simp: look_def run)

lemma store_run [run]: "store f s = (r, s') \<longleftrightarrow> r = Inr () \<and> s' = s\<lparr>us_store := f (us_store s)\<rparr>"
  by (auto simp: store_def run)

lemma draw_run [run]:
  "draw en s = (r, s') \<longleftrightarrow> r = Inr (uuid en (us_draws s)) \<and> s' = s\<lparr>us_draws := us_draws s + 1\<rparr>"
  by (auto simp: draw_def)

section \<open>Atomic operations\<close>

text \<open>Everything after the first write of an operation is sure.\<close>

lemma atomic_store: "sure g \<Longrightarrow> atomic p (thenE (store f) g)"
  "sure g \<Longrightarrow> atomic p (thenE (if b then ret () else store f) g)"
  by (auto intro!: atomic_sure frame)

lemma atomic_cases:
  "(\<And>x y. atomic p (f x y)) \<Longrightarrow> atomic p (case v of (x, y) \<Rightarrow> f x y)"
  "atomic p h \<Longrightarrow> (\<And>x. atomic p (g x)) \<Longrightarrow> atomic p (case w of None \<Rightarrow> h | Some x \<Rightarrow> g x)"
  by (auto split: prod.splits option.splits)

lemmas atomic_text = atomic_store atomic_cases atomic_bind atomic_then

lemma activateRegistration_atomic: "atomic us_store (activateRegistration svc en a u)"
  unfolding activateRegistration_def Let_def by (intro atomic_text) (auto intro!: frame)

lemma revokeDevice_atomic: "atomic us_store (revokeDevice svc en d a)"
  unfolding revokeDevice_def Let_def by (intro atomic_text) (auto intro!: frame)

lemma revokeWallet_atomic: "atomic us_store (revokeWallet svc en u why a)"
  unfolding revokeWallet_def Let_def by (intro atomic_text) (auto intro!: frame)

lemma createGrant_atomic: "atomic us_store (createGrant svc en a t rt r act ex)"
  unfolding createGrant_def Let_def by (intro atomic_text) (auto intro!: frame)

lemma revokeGrant_atomic: "atomic us_store (revokeGrant svc en a g)"
  unfolding revokeGrant_def Let_def by (intro atomic_text) (auto intro!: frame)

lemma assignRole_atomic: "atomic us_store (assignRole svc en a u r)"
  unfolding assignRole_def Let_def by (intro atomic_text) (auto intro!: frame)

section \<open>Requests and runs\<close>

datatype user_op =
    UCreate create_input "string option"
  | UChallenge string jsval
  | UInit init_input
  | UVerify string string string string
  | UActivate string string
  | URegDevice string string string "string option"
  | URevDevice string "string option"
  | URegWallet string string string
  | URevWallet string string string
  | UActWallet string string string string
  | URole string string jsval
  | UGrant string string resource_type string action "date_str option"
  | UGrantRevoke string string
  | UGrantValidate string string string action

definition unit_of :: "('s, 'e, 'a) m \<Rightarrow> ('s, 'e, unit) m" where
  "unit_of f = thenE f (ret ())"

definition users_exec :: "'c users_svc \<Rightarrow> env \<Rightarrow> user_op \<Rightarrow> ('c, unit) users_m" where
  "users_exec svc en op = (case op of
     UCreate inp a \<Rightarrow> unit_of (createUser svc en inp a)
   | UChallenge d md \<Rightarrow> unit_of (requestProvisioningChallenge svc en d md)
   | UInit inp \<Rightarrow> unit_of (initializeAccount svc en inp)
   | UVerify a u e d \<Rightarrow> unit_of (verifyRegistration svc en a u e d)
   | UActivate a u \<Rightarrow> unit_of (activateRegistration svc en a u)
   | URegDevice u d c k \<Rightarrow> unit_of (registerDevice svc en u d c k)
   | URevDevice d a \<Rightarrow> unit_of (revokeDevice svc en d a)
   | URegWallet u d w \<Rightarrow> unit_of (registerWallet svc en u d w)
   | URevWallet u why a \<Rightarrow> unit_of (revokeWallet svc en u why a)
   | UActWallet u d w a \<Rightarrow> unit_of (activateWallet svc en u d w a)
   | URole a u r \<Rightarrow> unit_of (assignRole svc en a u r)
   | UGrant a t rt r act ex \<Rightarrow> unit_of (createGrant svc en a t rt r act ex)
   | UGrantRevoke a g \<Rightarrow> unit_of (revokeGrant svc en a g)
   | UGrantValidate g who r act \<Rightarrow> unit_of (validateGrant en g who r act))"

primrec users_run :: "'c users_svc \<Rightarrow> (env \<times> user_op) list \<Rightarrow> 'c users_state \<Rightarrow> 'c users_state" where
  "users_run svc [] s = s"
| "users_run svc (rq # rqs) s = users_run svc rqs (snd (users_exec svc (fst rq) (snd rq) s))"

lemma atomic_unit: "atomic p f \<Longrightarrow> atomic p (unit_of f)"
  by (auto simp: atomic_def unit_of_def run)

lemma keeps_unit [keep]: "keeps P f \<Longrightarrow> keeps P (unit_of f)"
  by (auto simp: unit_of_def intro!: keep)

text \<open>The operations that submit to the chain before they write anything.\<close>

fun chain_first :: "user_op \<Rightarrow> bool" where
  "chain_first (UActivate _ _) = True"
| "chain_first (URevDevice _ _) = True"
| "chain_first (URevWallet _ _ _) = True"
| "chain_first (URole _ _ _) = True"
| "chain_first (UGrant _ _ _ _ _ _) = True"
| "chain_first (UGrantRevoke _ _) = True"
| "chain_first _ = False"

lemma chain_first_atomic: "chain_first op \<Longrightarrow> atomic us_store (users_exec svc en op)"
  by (cases op) (auto simp: users_exec_def intro!: atomic_unit activateRegistration_atomic
      revokeDevice_atomic revokeWallet_atomic assignRole_atomic createGrant_atomic revokeGrant_atomic)

section \<open>Grants\<close>

text \<open>A grant that is stored and is no longer active.\<close>

definition dead_grant :: "string \<Rightarrow> 'c users_state \<Rightarrow> bool" where
  "dead_grant gid s = (case js_get (sto_grants (us_store s)) gid of
     None \<Rightarrow> False | Some g \<Rightarrow> gr_authorizationGrantId g = gid \<and> gr_status g \<noteq> G_ACTIVE)"

lemma keeps_quiet: "quiet us_store f \<Longrightarrow> keeps (dead_grant gid) f"
  by (auto simp: keeps_def quiet_def dead_grant_def)

lemma keeps_store: "(\<And>t. sto_grants (f t) = sto_grants t) \<Longrightarrow> keeps (dead_grant gid) (store f)"
  by (auto simp: keeps_def store_def modifyS_def dead_grant_def)

lemma saves_keep_grants:
  "sto_grants (identities_save x t) = sto_grants t" "sto_grants (users_save u t) = sto_grants t"
  "sto_grants (devices_save d t) = sto_grants t" "sto_grants (wallets_save w t) = sto_grants t"
  "sto_grants (challenges_save c t) = sto_grants t" "sto_grants (credentials_save v dd t) = sto_grants t"
  "sto_grants (credentials_revokeForDevice dd t) = sto_grants t"
  "sto_grants (case users_findByIdentityId t i of None \<Rightarrow> t | Some u \<Rightarrow> users_save (k u) t) = sto_grants t"
  by (auto simp: save_defs split: option.splits)

lemma keeps_grant_save:
  "gr_status g \<noteq> G_ACTIVE \<or> gr_authorizationGrantId g \<noteq> gid \<Longrightarrow> keeps (dead_grant gid) (store (grants_save g))"
  by (auto simp: keeps_def store_def modifyS_def dead_grant_def save_defs split: option.splits)

lemma keeps_consume_challenge [keep]: "keeps (dead_grant gid) (consume_challenge en i)"
  by (auto simp: keeps_def consume_challenge_def consumeIfUnused_def dead_grant_def exec_defs
      split: prod.splits option.splits)

lemmas grant_keeps = keep keeps_store [OF saves_keep_grants(1)] keeps_store [OF saves_keep_grants(2)]
  keeps_store [OF saves_keep_grants(3)] keeps_store [OF saves_keep_grants(4)]
  keeps_store [OF saves_keep_grants(5)] keeps_store [OF saves_keep_grants(6)]
  keeps_store [OF saves_keep_grants(7)] keeps_store [OF saves_keep_grants(8)]
  quiet_calls [THEN keeps_quiet] quiet_ensure [THEN keeps_quiet] quiet_steps [THEN keeps_quiet]
  quiet_init_checks [THEN keeps_quiet]

lemma keeps_validateGrant: "keeps (dead_grant gid) (validateGrant en g who r act)"
  by (auto simp: validateGrant_def intro!: grant_keeps keeps_grant_save)

lemma keeps_revokeGrant: "keeps (dead_grant gid) (revokeGrant svc en a g)"
  by (auto simp: revokeGrant_def Let_def intro!: grant_keeps keeps_grant_save)

text \<open>A draw returns a UUID of the request's stream.\<close>

lemma keeps_draw:
  assumes "\<And>k. keeps P (g (uuid en k))" "\<And>s. P s \<Longrightarrow> P (s\<lparr>us_draws := us_draws s + 1\<rparr>)"
  shows "keeps P (bindE (draw en) g)"
proof (rule keepsI)
  fix s r s'
  assume P: "P s" and run: "bindE (draw en) g s = (r, s')"
  then have "g (uuid en (us_draws s)) (s\<lparr>us_draws := us_draws s + 1\<rparr>) = (r, s')"
    by (simp add: bindE_def draw_def)
  with keepsD [OF assms(1)] assms(2) [OF P] show "P s'" by blast
qed

lemma keeps_createGrant:
  assumes "\<And>k. ''GRANT-'' @ uuid en k \<noteq> gid"
  shows "keeps (dead_grant gid) (createGrant svc en a t rt r act ex)"
  unfolding createGrant_def
proof (intro keeps_draw keeps_bindE keeps_thenE)
  fix a target k
  show "keeps (dead_grant gid) (let g = \<lparr>gr_authorizationGrantId = ''GRANT-'' @ uuid en k,
      gr_actorIdentityId = id_identityId target, gr_resourceType = rt, gr_resourceId = r, gr_action = act,
      gr_grantedByIdentityId = id_identityId a, gr_issuedAt = iso_now en, gr_expiresAt = ex,
      gr_status = G_ACTIVE\<rparr> in
      thenE (users_submit svc en GRANT_CREATE a (grant_payload g))
       (thenE (store (grants_save g))
         (thenE (users_commit svc en E_GRANT (gr_authorizationGrantId g) ''GRANT_CREATE'' (id_identityId a) (grant_state g))
           (ret g))))"
    using assms [of k] by (auto simp: Let_def intro!: grant_keeps keeps_grant_save)
qed (auto intro!: grant_keeps simp: dead_grant_def)

lemma keeps_replace_wallet: "keeps (dead_grant gid) (replace_wallet svc en a k w)"
  "keeps (dead_grant gid) (revoke_for_device svc en who w)"
  by (auto simp: replace_wallet_def revoke_for_device_def Let_def intro!: grant_keeps)

lemma users_exec_dead_grant:
  assumes "\<And>k. ''GRANT-'' @ uuid en k \<noteq> gid"
  shows "keeps (dead_grant gid) (users_exec svc en op)"
  using keeps_createGrant [OF assms] keeps_validateGrant keeps_revokeGrant
  by (cases op)
    (auto simp: users_exec_def createUser_def requestProvisioningChallenge_def initializeAccount_def
      verifyRegistration_def activateRegistration_def registerDevice_def revokeDevice_def
      registerWallet_def revokeWallet_def activateWallet_def assignRole_def Let_def
      intro!: grant_keeps keeps_replace_wallet)

lemma users_run_dead_grant:
  "\<forall>(en, op) \<in> set rqs. \<forall>k. ''GRANT-'' @ uuid en k \<noteq> gid \<Longrightarrow> dead_grant gid s \<Longrightarrow>
   dead_grant gid (users_run svc rqs s)"
proof (induction rqs arbitrary: s)
  case (Cons rq rqs)
  then have "dead_grant gid (snd (users_exec svc (fst rq) (snd rq) s))"
    using users_exec_dead_grant [of "fst rq" gid svc "snd rq"] by (auto simp: keeps_def split: prod.splits)
  with Cons show ?case by simp
qed simp

section \<open>Loops over wallets\<close>

text \<open>The wallets after a loop that revokes those of a list that satisfy a condition.\<close>

lemma revoking_loop:
  assumes body: "\<And>w s r s'. f w s = (Inr r, s') \<Longrightarrow>
      us_store s' = (if C w then wallets_save (R w) (us_store s) else us_store s)"
    and key: "\<And>w. wal_address (R w) = wal_address w"
  shows "forE ws f s = (Inr u, s') \<Longrightarrow> distinct (map wal_address ws) \<Longrightarrow>
    (\<forall>w \<in> set ws. wallets_findByAddress (us_store s) (wal_address w) = Some w) \<Longrightarrow>
    keyed wal_address (sto_wallets (us_store s)) \<Longrightarrow>
    (\<exists>m. us_store s' = (us_store s)\<lparr>sto_wallets := m\<rparr>) \<and>
    wallets_findByAddress (us_store s') a =
      (case wallets_findByAddress (us_store s) a of
         None \<Rightarrow> None | Some w \<Rightarrow> if w \<in> set ws \<and> C w then Some (R w) else Some w)"
proof (induction ws arbitrary: s)
  case Nil
  then show ?case by (auto simp: run split: option.splits intro: exI [of _ "sto_wallets (us_store s)"])
next
  case (Cons w ws)
  then obtain x s1 where f: "f w s = (Inr x, s1)" and rest: "forE ws f s1 = (Inr u, s')"
    by (auto simp: run)
  note st = body [OF f]
  have found: "wallets_findByAddress (us_store s1) b =
      (if C w \<and> b = wal_address w then Some (R w) else wallets_findByAddress (us_store s) b)" for b
    using st key by (auto simp: wallet_repo.find_save)
  have "\<forall>v \<in> set ws. wallets_findByAddress (us_store s1) (wal_address v) = Some v"
    using Cons.prems found by (auto simp: image_iff)
  moreover have "keyed wal_address (sto_wallets (us_store s1))"
    using st Cons.prems(4) wallet_repo.ok_save by auto
  ultimately have m: "\<exists>m. us_store s' = (us_store s1)\<lparr>sto_wallets := m\<rparr>"
    and fa: "wallets_findByAddress (us_store s') a = (case wallets_findByAddress (us_store s1) a of
         None \<Rightarrow> None | Some w \<Rightarrow> if w \<in> set ws \<and> C w then Some (R w) else Some w)"
    using Cons.IH [OF rest] Cons.prems(2) by auto
  have here: "wallets_findByAddress (us_store s) (wal_address w) = Some w" using Cons.prems(3) by simp
  have "\<exists>m. us_store s' = (us_store s)\<lparr>sto_wallets := m\<rparr>"
    using m st by (auto simp: wallets_save_def)
  moreover have "R w \<notin> set ws" using Cons.prems(2) key by (auto simp: image_iff)
  moreover have "wallets_findByAddress (us_store s) a = Some w \<longleftrightarrow> a = wal_address w"
    using here wallet_repo.find_key [OF Cons.prems(4), of a w] by auto
  ultimately show ?case
    using fa found [of a] here Cons.prems(2) by (auto split: option.splits)
qed

lemma listed_wallets:
  assumes "keyed wal_address (sto_wallets t)"
  shows "w \<in> set (wallets_listByIdentityId t i) \<longleftrightarrow>
      wallets_findByAddress t (wal_address w) = Some w \<and> wal_identityId w = i"
    and "distinct (map wal_address (filter P (wallets_listByIdentityId t i)))"
proof -
  show "w \<in> set (wallets_listByIdentityId t i) \<longleftrightarrow>
      wallets_findByAddress t (wal_address w) = Some w \<and> wal_identityId w = i"
    using wallet_repo.list_find [OF assms, of w] by (auto simp: wallets_listByIdentityId_def)
  have "map wal_address (js_values (sto_wallets t)) = js_keys (sto_wallets t)"
    using assms by (auto simp: keyed_def)
  then have "distinct (map wal_address (js_values (sto_wallets t)))"
    using assms by (simp only: keyed_def)
  then show "distinct (map wal_address (filter P (wallets_listByIdentityId t i)))"
    unfolding wallets_listByIdentityId_def by (simp add: distinct_map_filter)
qed

section \<open>Successful operations\<close>

lemmas quiet_run = quietD [OF quiet_calls(1)] quietD [OF quiet_calls(2)] quietD [OF quiet_calls(3)]
  quietD [OF quiet_calls(4)] quietD [OF quiet_calls(5)] quietD [OF quiet_calls(6)]
  quietD [OF quiet_ensure(1)] quietD [OF quiet_ensure(2)] quietD [OF quiet_ensure(3)]
  quietD [OF quiet_ensure(4)] quietD [OF quiet_steps(4)]

lemma requireIdentity_ok [run]:
  "requireIdentity i s = (Inr x, s') \<longleftrightarrow> resolveIdentity i (us_store s) = Some x \<and> s' = s"
  by (auto simp: requireIdentity_def run)

lemma requireAdmin_ok [run]:
  "requireAdmin i msg s = (Inr x, s') \<longleftrightarrow> resolveIdentity i (us_store s) = Some x \<and>
     id_status x = I_ACTIVE \<and> id_role x = Some ADMIN \<and> s' = s"
  by (auto simp: requireAdmin_def run)

lemma active_device_ok [run]:
  "active_device idn d s = (Inr x, s') \<longleftrightarrow> devices_findById (us_store s) d = Some x \<and>
     dev_identityId x = id_identityId idn \<and> dev_status x = D_ACTIVE \<and> s' = s"
  by (auto simp: active_device_def run split: option.splits if_splits)

lemma replace_wallet_store:
  assumes "replace_wallet svc en a k w s = (Inr r, s')"
  shows "us_store s' = (if wal_status w = W_ACTIVE \<and> wal_address w \<noteq> k
    then wallets_save (revoked_wallet en ''Replaced by wallet activation'' w) (us_store s) else us_store s)"
  using assms by (auto simp: replace_wallet_def Let_def run dest!: quiet_run split: if_splits)

lemma revoke_for_device_store:
  assumes "revoke_for_device svc en who w s = (Inr r, s')"
  shows "us_store s' = wallets_save (revoked_wallet en ''Device revoked'' w) (us_store s)"
  using assms by (auto simp: revoke_for_device_def revoked_wallet_def Let_def run dest!: quiet_run)

lemma find_after_user_save [simp]: "wallets_findByAddress (users_save u t) a = wallets_findByAddress t a"
  by (simp add: wallets_findByAddress_def users_save_def)

lemma activateWallet_store:
  assumes "activateWallet svc en userId deviceId address actorId s = (Inr w', s')"
    and "keyed wal_address (sto_wallets (us_store s))"
  obtains idn w where "resolveIdentity userId (us_store s) = Some idn" "id_status idn = I_ACTIVE"
    "wallets_findByAddress (us_store s) (trim address) = Some w" "wal_identityId w = id_identityId idn"
    "wal_deviceId w = deviceId" "wal_status w = W_PENDING"
    "w' = w\<lparr>wal_deviceId := deviceId, wal_status := W_ACTIVE, wal_activatedAt := Some (iso_now en),
       wal_revokedAt := None, wal_revokedReason := None\<rparr>"
    "\<And>a. wallets_findByAddress (us_store s') a = (if a = wal_address w then Some w' else
       case wallets_findByAddress (us_store s) a of None \<Rightarrow> None
       | Some v \<Rightarrow> if wal_identityId v = id_identityId idn \<and> wal_status v = W_ACTIVE
           then Some (revoked_wallet en ''Replaced by wallet activation'' v) else Some v)"
proof -
  let ?R = "revoked_wallet en ''Replaced by wallet activation''"
  from assms(1) obtain idn w a s1 where
    idn: "resolveIdentity userId (us_store s) = Some idn" "id_status idn = I_ACTIVE"
    and w: "wallets_findByAddress (us_store s) (trim address) = Some w"
      "wal_identityId w = id_identityId idn" "wal_deviceId w = deviceId" "wal_status w = W_PENDING"
    and loop: "forE (wallets_listByIdentityId (us_store s) (id_identityId idn))
        (replace_wallet svc en a (wal_address w)) s = (Inr (), s1)"
    and w': "w' = w\<lparr>wal_deviceId := deviceId, wal_status := W_ACTIVE, wal_activatedAt := Some (iso_now en),
       wal_revokedAt := None, wal_revokedReason := None\<rparr>"
    and s': "\<forall>a. wallets_findByAddress (us_store s') a = wallets_findByAddress (wallets_save w' (us_store s1)) a"
    by (auto simp: activateWallet_def requireActive_def validateEvmWalletBinding_def Let_def run
        dest!: quiet_run split: option.splits if_splits)
  note listed = listed_wallets [OF assms(2)]
  have "wallets_findByAddress (us_store s1) a =
      (case wallets_findByAddress (us_store s) a of None \<Rightarrow> None
       | Some v \<Rightarrow> if v \<in> set (wallets_listByIdentityId (us_store s) (id_identityId idn)) \<and>
           (wal_status v = W_ACTIVE \<and> wal_address v \<noteq> wal_address w) then Some (?R v) else Some v)" for a
    using revoking_loop [where C = "\<lambda>v. wal_status v = W_ACTIVE \<and> wal_address v \<noteq> wal_address w" and R = ?R,
        OF replace_wallet_store _ loop _ _ assms(2)] listed(1) listed(2) [of "\<lambda>_. True"]
    by (simp add: revoked_wallet_def)
  moreover have "wallets_findByAddress (us_store s') a =
      (if a = wal_address w then Some w' else wallets_findByAddress (us_store s1) a)" for a
    by (simp add: s' w' wallet_repo.find_save)
  moreover have "wallets_findByAddress (us_store s) a = Some v \<Longrightarrow> wal_address v = a" for a v
    by (rule wallet_repo.find_key [OF assms(2)])
  ultimately have "wallets_findByAddress (us_store s') a = (if a = wal_address w then Some w' else
       case wallets_findByAddress (us_store s) a of None \<Rightarrow> None
       | Some v \<Rightarrow> if wal_identityId v = id_identityId idn \<and> wal_status v = W_ACTIVE
           then Some (?R v) else Some v)" for a
    using listed(1) by (auto split: option.splits)
  with that idn w w' show thesis by blast
qed

lemma revokeDevice_store:
  assumes "revokeDevice svc en deviceId actorId s = (Inr d', s')"
    and "keyed wal_address (sto_wallets (us_store s))" "keyed dev_deviceId (sto_devices (us_store s))"
  shows "\<exists>d. devices_findById (us_store s) deviceId = Some d \<and> dev_status d' = D_REVOKED \<and>
      devices_findById (us_store s') deviceId = Some d' \<and> deviceId \<notin> snd ` set (sto_credentials (us_store s')) \<and>
      (\<forall>a v. wallets_findByAddress (us_store s') a = Some v \<longrightarrow> wal_identityId v = dev_identityId d \<longrightarrow>
         wal_deviceId v = deviceId \<longrightarrow> wal_status v \<noteq> W_ACTIVE)"
proof -
  let ?ws = "\<lambda>d. filter (\<lambda>w. wal_deviceId w = deviceId \<and> wal_status w = W_ACTIVE)
      (wallets_listByIdentityId (us_store s) (dev_identityId d))"
  let ?r = "\<lambda>d. d\<lparr>dev_status := D_REVOKED, dev_revokedAt := Some (iso_now en)\<rparr>"
  from assms(1) obtain d a s1 s2 s3 where
    d: "devices_findById (us_store s) deviceId = Some d"
    and chain: "forE (?ws d) (\<lambda>w. ensureWalletRevoked svc en a (wal_address w) ''Device revoked'') s = (Inr (), s1)"
    and dev: "dev_status d = D_REVOKED \<and> d' = d \<and>
        us_store s2 = credentials_revokeForDevice deviceId (us_store s1) \<or>
      d' = ?r d \<and> us_store s2 = credentials_revokeForDevice deviceId (devices_save d' (us_store s1))"
    and loop: "forE (?ws d) (revoke_for_device svc en (dev_identityId d)) s2 = (Inr (), s3)"
    and s': "us_store s' = us_store s3"
  proof -
    obtain d a s1 where d: "devices_findById (us_store s) deviceId = Some d"
      and chain: "forE (?ws d) (\<lambda>w. ensureWalletRevoked svc en a (wal_address w) ''Device revoked'') s = (Inr (), s1)"
      and rest: "thenE (if dev_status d = D_REVOKED then ret () else store (devices_save (if dev_status d = D_REVOKED then d else ?r d)))
         (thenE (store (credentials_revokeForDevice deviceId))
         (thenE (forE (?ws d) (revoke_for_device svc en (dev_identityId d)))
         (thenE (if dev_status d = D_REVOKED then ret () else users_commit svc en E_DEVICE deviceId ''DEVICE_REVOKE''
               (dev_identityId d) (device_state (if dev_status d = D_REVOKED then d else ?r d)))
          (ret (if dev_status d = D_REVOKED then d else ?r d))))) s1 = (Inr d', s')"
      using assms(1) unfolding revokeDevice_def Let_def by (auto simp: run)
    show thesis
    proof (cases "dev_status d = D_REVOKED")
      case True
      with rest have "forE (?ws d) (revoke_for_device svc en (dev_identityId d))
            (s1\<lparr>us_store := credentials_revokeForDevice deviceId (us_store s1)\<rparr>) = (Inr (), s')" "d' = d"
        by (auto simp: run)
      with True that [OF d chain, of "s1\<lparr>us_store := credentials_revokeForDevice deviceId (us_store s1)\<rparr>" s']
      show thesis by simp
    next
      case False
      with rest obtain s3 where "forE (?ws d) (revoke_for_device svc en (dev_identityId d))
            (s1\<lparr>us_store := credentials_revokeForDevice deviceId (devices_save (?r d) (us_store s1))\<rparr>) = (Inr (), s3)"
        "us_store s' = us_store s3" "d' = ?r d"
        by (auto simp: run dest!: quiet_run)
      with that [OF d chain, of "s1\<lparr>us_store := credentials_revokeForDevice deviceId (devices_save (?r d) (us_store s1))\<rparr>" s3]
      show thesis by simp
    qed
  qed
  have s1: "us_store s1 = us_store s"
    using chain by (rule quietD [rotated]) (intro frame)
  have key: "dev_deviceId d = deviceId" using device_repo.find_key [OF assms(3) d] .
  have dev2: "devices_findById (us_store s2) deviceId = Some d'"
    using d key dev by (auto simp: s1 credentials_revokeForDevice_def devices_findById_def devices_save_def)
  have wal2: "wallets_findByAddress (us_store s2) = wallets_findByAddress (us_store s)"
    "keyed wal_address (sto_wallets (us_store s2))"
    using assms(2) dev
    by (auto simp: s1 credentials_revokeForDevice_def wallets_findByAddress_def devices_save_def fun_eq_iff)
  note listed = listed_wallets [OF assms(2)]
  have "\<forall>w \<in> set (?ws d). wallets_findByAddress (us_store s2) (wal_address w) = Some w"
    using listed(1) wal2 by auto
  note loop_effect = revoking_loop [where C = "\<lambda>_. True" and R = "revoked_wallet en ''Device revoked''",
      OF _ _ loop listed(2) this wal2(2)]
  have eff: "(\<exists>m. us_store s3 = (us_store s2)\<lparr>sto_wallets := m\<rparr>) \<and>
      wallets_findByAddress (us_store s3) a = (case wallets_findByAddress (us_store s2) a of
        None \<Rightarrow> None | Some w \<Rightarrow> if w \<in> set (?ws d) \<and> True then Some (revoked_wallet en ''Device revoked'' w) else Some w)" for a
    by (rule loop_effect) (simp_all only: revoke_for_device_store if_True, simp add: revoked_wallet_def)
  then have m: "\<exists>m. us_store s3 = (us_store s2)\<lparr>sto_wallets := m\<rparr>"
    and fa: "\<And>a. wallets_findByAddress (us_store s3) a = (case wallets_findByAddress (us_store s) a of
        None \<Rightarrow> None | Some w \<Rightarrow> if w \<in> set (?ws d) then Some (revoked_wallet en ''Device revoked'' w) else Some w)"
    by (simp_all only: wal2(1) simp_thms)
  have "wallets_findByAddress (us_store s') a = Some v \<Longrightarrow> wal_identityId v = dev_identityId d \<Longrightarrow>
      wal_deviceId v = deviceId \<Longrightarrow> wal_status v \<noteq> W_ACTIVE" for a v
    using fa [of a] listed(1) wallet_repo.find_key [OF assms(2), of a]
    by (auto simp: s' revoked_wallet_def split: option.splits if_splits)
  moreover have "deviceId \<notin> snd ` set (sto_credentials (us_store s3))"
    using m dev by (auto simp: credentials_revokeForDevice_def)
  moreover have "devices_findById (us_store s3) deviceId = Some d'"
    using m dev2 by (auto simp: devices_findById_def)
  moreover have "dev_status d' = D_REVOKED" using dev by auto
  ultimately show ?thesis using d s' by auto
qed

lemma validateSession_needs_device:
  assumes "\<And>d. devices_findById s (ses_deviceId ses) = Some d \<Longrightarrow> dev_status d \<noteq> D_ACTIVE"
    and "sessions_find s token = Some ses"
  shows "fst (validateSession cr en token s) = Inr None"
  using assms
  by (auto simp: validateSession_def exec_defs session_user_def Let_def split: option.splits)

section \<open>Sample states\<close>

definition demo_users :: "idstore \<Rightarrow> mock_chain users_state" where
  "demo_users t = \<lparr>us_store = t, us_chain = mock_init, us_versions = [], us_commits = [], us_draws = 0\<rparr>"

lemma demo_users_store [simp]: "us_store (demo_users t) = t"
  by (simp add: demo_users_def)

definition demo_users_svc :: "mock_chain users_svc" where
  "demo_users_svc = \<lparr>usv_chain = mock_api, usv_crypto = demo_crypto, usv_integrity = True,
     usv_attest = mock_attest [''D''], usv_publicKeyValid = (\<lambda>k. k \<noteq> [])\<rparr>"

text \<open>A chain that rejects every transaction.\<close>

definition deaf_users_svc :: "mock_chain users_svc" where
  "deaf_users_svc = demo_users_svc\<lparr>usv_chain := mock_api\<lparr>submitTransaction :=
     (\<lambda>en tx c. (Inl (BlockchainError REVERTED ''down''), c))\<rparr>\<rparr>"

definition demo_pending :: idstore where
  "demo_pending = wallets_save \<lparr>wal_address = ''W2'', wal_identityId = ''I'', wal_deviceId = ''D'',
     wal_status = W_PENDING, wal_activatedAt = None, wal_revokedAt = None, wal_revokedReason = None,
     wal_publicKey = Some ''k''\<rparr> (demo_store AUTHENTICATION)"

definition succeeds :: "(error + 'a) \<times> 's \<Rightarrow> bool" where
  "succeeds r = (case fst r of Inl _ \<Rightarrow> False | Inr _ \<Rightarrow> True)"

lemma succeedsD: "succeeds r \<Longrightarrow> \<exists>x s. r = (Inr x, s)"
  by (cases r) (auto simp: succeeds_def split: sum.splits)

lemma failsD: "\<not> succeeds r \<Longrightarrow> \<exists>e s. r = (Inl e, s)"
  by (cases r) (auto simp: succeeds_def split: sum.splits)

lemma demo_pending_keyed:
  "keyed wal_address (sto_wallets demo_pending)" "keyed dev_deviceId (sto_devices demo_pending)"
  by (simp_all add: demo_pending_def demo_store_def keyed_def wallets_save_def)

section \<open>Properties\<close>

text \<open>
  Activating a wallet makes it the only active wallet of its identity: the pending wallet
  becomes active on the device, every other active wallet of the identity becomes revoked, and
  no other wallet changes.
\<close>

theorem activateWallet_exclusive:
  assumes "activateWallet svc en userId deviceId address actorId s = (Inr w', s')"
    and "keyed wal_address (sto_wallets (us_store s))"
  shows "wal_status w' = W_ACTIVE \<and> wal_deviceId w' = deviceId \<and>
    wallets_findByAddress (us_store s') (wal_address w') = Some w' \<and>
    (\<forall>a v. wallets_findByAddress (us_store s') a = Some v \<and> wal_identityId v = wal_identityId w' \<and>
       wal_status v = W_ACTIVE \<longrightarrow> v = w')"
proof (rule activateWallet_store [OF assms])
  fix idn w
  assume own: "wal_identityId w = id_identityId idn"
    and w': "w' = w\<lparr>wal_deviceId := deviceId, wal_status := W_ACTIVE, wal_activatedAt := Some (iso_now en),
       wal_revokedAt := None, wal_revokedReason := None\<rparr>"
    and find: "\<And>a. wallets_findByAddress (us_store s') a = (if a = wal_address w then Some w' else
       case wallets_findByAddress (us_store s) a of None \<Rightarrow> None
       | Some v \<Rightarrow> if wal_identityId v = id_identityId idn \<and> wal_status v = W_ACTIVE
           then Some (revoked_wallet en ''Replaced by wallet activation'' v) else Some v)"
  have only: "v = w'" if "wallets_findByAddress (us_store s') a = Some v" "wal_identityId v = wal_identityId w'"
    "wal_status v = W_ACTIVE" for a v
  proof (cases "a = wal_address w")
    case True
    with that(1) show ?thesis by (simp add: find)
  next
    case False
    with that(1) find [of a] obtain v0 where
      "(if wal_identityId v0 = id_identityId idn \<and> wal_status v0 = W_ACTIVE
         then Some (revoked_wallet en ''Replaced by wallet activation'' v0) else Some v0) = Some v"
      by (cases "wallets_findByAddress (us_store s) a") simp_all
    with that(2,3) own show ?thesis by (auto simp: w' revoked_wallet_def split: if_splits)
  qed
  have "wallets_findByAddress (us_store s') (wal_address w') = Some w'"
    unfolding find by (simp add: w')
  moreover have "wal_status w' = W_ACTIVE" "wal_deviceId w' = deviceId" by (simp_all add: w')
  ultimately show ?thesis using only by blast
qed

theorem activateWallet_exclusive_witness:
  "\<exists>w' s'. activateWallet demo_users_svc demo_env ''I'' ''D'' ''W2'' ''I'' (demo_users demo_pending) = (Inr w', s') \<and>
     wallets_findByAddress (us_store s') (wal_address w') = Some w'"
proof -
  have "succeeds (activateWallet demo_users_svc demo_env ''I'' ''D'' ''W2'' ''I'' (demo_users demo_pending))"
    by code_simp
  then obtain w' s' where run: "activateWallet demo_users_svc demo_env ''I'' ''D'' ''W2'' ''I''
      (demo_users demo_pending) = (Inr w', s')" using succeedsD by blast
  with activateWallet_exclusive [OF run] show ?thesis by (simp add: demo_users_def demo_pending_keyed)
qed



text \<open>
  The operations that touch the chain first are atomic on the identity store: when
  activating a registration, revoking a device or a wallet, assigning a role, or creating or
  revoking a grant fails, whatever the reason, identities, users, devices, wallets, credentials,
  sessions and grants are as before.
\<close>

theorem chain_first_operations_atomic:
  assumes "chain_first op" "users_exec svc en op s = (Inl e, s')"
  shows "us_store s' = us_store s"
  using atomicD [OF chain_first_atomic [OF assms(1)] assms(2)] .

theorem chain_first_operations_atomic_witness:
  "\<exists>e s'. users_exec deaf_users_svc demo_env (URevDevice ''D'' None) (demo_users demo_pending) = (Inl e, s') \<and>
     us_store s' = demo_pending"
proof -
  have "\<not> succeeds (users_exec deaf_users_svc demo_env (URevDevice ''D'' None) (demo_users demo_pending))"
    by code_simp
  then obtain e s' where run: "users_exec deaf_users_svc demo_env (URevDevice ''D'' None) (demo_users demo_pending) = (Inl e, s')"
    using failsD by blast
  with chain_first_operations_atomic [OF _ run] show ?thesis by (simp add: demo_users_def)
qed

text \<open>
  C31. A grant that was revoked or has expired never authorises again: whatever operations
  follow, as long as no later request draws its id, validation of the grant fails.
\<close>

theorem dead_grants_stay_dead:
  assumes "js_get (sto_grants (us_store s)) gid = Some g" "gr_authorizationGrantId g = gid"
    and "gr_status g \<noteq> G_ACTIVE"
    and "\<forall>(en, op) \<in> set rqs. \<forall>k. ''GRANT-'' @ uuid en k \<noteq> gid"
  shows "fst (validateGrant en' gid who r act (users_run svc rqs s)) = Inr False"
proof -
  have "dead_grant gid s"
    using assms(1-3) by (simp add: dead_grant_def)
  from users_run_dead_grant [OF assms(4) this, of svc] show ?thesis
    by (auto simp: validateGrant_def look_def exec_defs grants_findById_def dead_grant_def split: option.splits)
qed

theorem dead_grants_stay_dead_witness:
  "fst (validateGrant demo_env ''G'' ''I'' ''P'' TRANSFER_ASSET (users_run demo_users_svc
     [(demo_env, UGrantValidate ''G'' ''I'' ''P'' TRANSFER_ASSET)]
     (demo_users (grants_save \<lparr>gr_authorizationGrantId = ''G'', gr_actorIdentityId = ''I'', gr_resourceType = RT_ASSET,
        gr_resourceId = ''P'', gr_action = TRANSFER_ASSET, gr_grantedByIdentityId = ''M'', gr_issuedAt = Iso 0,
        gr_expiresAt = None, gr_status = G_REVOKED\<rparr> demo_pending)))) = Inr False"
  by (rule dead_grants_stay_dead) (auto simp: demo_users_def grants_save_def)

text \<open>
  Outside EVM mode a wallet registration can replace another identity's wallet: the
  duplicate check looks up the address as given, the record is stored under the trimmed
  address.  An address that differs from a stored one only by surrounding white space passes
  the check, and the stored wallet, active or not and whoever owns it, is overwritten by a
  pending wallet of the requesting identity.
\<close>

theorem registerWallet_overwrites:
  assumes "\<not> evm_mode en" "\<not> blank address"
    and "resolveIdentity userId (us_store s) = Some idn" "id_status idn = I_ACTIVE"
    and "devices_findById (us_store s) deviceId = Some d" "dev_identityId d = id_identityId idn"
      "dev_status d = D_ACTIVE" "dev_publicKey d = Some pk" "pk \<noteq> []"
    and "wallets_findByAddress (us_store s) address = None"
    and "wallets_findByAddress (us_store s) (trim address) = Some victim"
  shows "\<exists>w s'. registerWallet svc en userId deviceId address s = (Inr w, s') \<and>
    wal_identityId w = id_identityId idn \<and> wal_status w = W_PENDING \<and>
    wallets_findByAddress (us_store s') (trim address) = Some w"
  using assms
  by (auto simp: registerWallet_def requireIdentity_def requireActive_def active_device_def
      validateEvmWalletBinding_def look_def store_def exec_defs Let_def present_def
      wallet_repo.find_save)

theorem registerWallet_overwrites_witness:
  "\<exists>w s'. registerWallet demo_users_svc demo_env ''I'' ''D'' '' W'' (demo_users (demo_store AUTHENTICATION)) = (Inr w, s') \<and>
    wal_status w = W_PENDING \<and> wallets_findByAddress (us_store s') ''W'' = Some w"
proof -
  have "\<not> evm_mode demo_env" "\<not> blank '' W''" "trim '' W'' = ''W''" by code_simp+
  with registerWallet_overwrites [where en = demo_env and address = "'' W''" and userId = "''I''"
      and s = "demo_users (demo_store AUTHENTICATION)" and idn = "demo_identity ENGINEER" and deviceId = "''D''"
      and d = "snd (hd (sto_devices (demo_store AUTHENTICATION)))" and pk = "''k''"
      and victim = "snd (hd (sto_wallets (demo_store AUTHENTICATION)))" and svc = demo_users_svc]
  show ?thesis
    by (auto simp: demo_users_def demo_store_def demo_identity_def resolveIdentity_def identities_findById_def
        devices_findById_def wallets_findByAddress_def empty_store_def)
qed

end
