(* ===== verification/Validators.thy ===== *)
theory Validators
  imports UserLifecycle
begin

text \<open>
  \<^verbatim>\<open>backend/src/validators/validator.service.ts\<close> and
  \<^verbatim>\<open>backend/src/notifications/\<close>: validator governance.  The service shares the identity
  store and the chain with the users service, so its state is the same record.  The stored
  status of a registration is not its effective status: the latter depends on the height of the
  chain, and every read goes through \<open>effectiveRegistration\<close>.
\<close>

section \<open>Configuration and helpers\<close>

record email_config =
  em_provider :: "string option"
  em_host :: "string option"
  em_from :: "string option"

record 'c validator_svc =
  vsv_chain :: "'c chain_api"
  vsv_isAddress :: "string \<Rightarrow> bool"
  vsv_email :: email_config

definition validators_findById :: "idstore \<Rightarrow> string \<Rightarrow> registration option" where
  "validators_findById s i = js_get (sto_validators s) i"

fun show_registration_status :: "registration_status \<Rightarrow> string" where
  "show_registration_status R_PENDING = ''PENDING''"
| "show_registration_status R_ACTIVE = ''ACTIVE''"
| "show_registration_status R_REMOVAL_SCHEDULED = ''REMOVAL_SCHEDULED''"
| "show_registration_status R_REMOVED = ''REMOVED''"

definition effective_status :: "int \<Rightarrow> registration \<Rightarrow> registration_status" where
  "effective_status head r =
     (if reg_status r = R_PENDING \<and> reg_activationHeight r \<le> head then R_ACTIVE
      else if reg_status r = R_REMOVAL_SCHEDULED \<and>
        (case reg_removalHeight r of None \<Rightarrow> False | Some h \<Rightarrow> h \<le> head) then R_REMOVED
      else reg_status r)"

definition effectiveRegistration :: "registration \<Rightarrow> int \<Rightarrow> registration" where
  "effectiveRegistration r head = r\<lparr>reg_status := effective_status head r\<rparr>"

definition chain_head :: "'c validator_svc \<Rightarrow> ('c, int) users_m" where
  "chain_head svc = bindE (chain_read (getStatus (vsv_chain svc))) (\<lambda>st. ret (cs_height st))"

definition activeIdentity :: "string \<Rightarrow> ('c, identity) users_m" where
  "activeIdentity i = bindE (look (\<lambda>s. identities_findById s i)) (\<lambda>found.
     required (case found of None \<Rightarrow> None | Some x \<Rightarrow> if id_status x \<noteq> I_ACTIVE then None else Some x)
       (ForbiddenError ''An active identity is required''))"

definition admin :: "string \<Rightarrow> ('c, identity) users_m" where
  "admin i = bindE (activeIdentity i) (\<lambda>x.
     thenE (throwIf (id_role x \<noteq> Some ADMIN) (ForbiddenError ''Only an active admin may manage validators''))
       (ret x))"

definition get_registration :: "'c validator_svc \<Rightarrow> string \<Rightarrow> ('c, registration) users_m" where
  "get_registration svc i =
     bindE (look (\<lambda>s. or_else (validators_findById s i) (validators_findByValidatorId s i))) (\<lambda>found.
     bindE (required found (NotFoundError (''Validator '' @ i @ '' was not found''))) (\<lambda>r.
     bindE (chain_head svc) (\<lambda>head. ret (effectiveRegistration r head))))"

text \<open>\<^verbatim>\<open>user?.walletAddress ?? SYSTEM_WALLET\<close>.\<close>

definition wallet_or_system :: "string \<Rightarrow> idstore \<Rightarrow> string" where
  "wallet_or_system i s = (case users_findByIdentityId s i of None \<Rightarrow> SYSTEM_WALLET | Some u \<Rightarrow> usr_walletAddress u)"

text \<open>
  \<^verbatim>\<open>input?.reason?.trim()\<close>: a missing or blank reason is refused, a reason that is no
  string has no \<^verbatim>\<open>trim\<close>.
\<close>

definition required_reason :: "jsval \<Rightarrow> ('s, error, string) m" where
  "required_reason v = (case v of
     JStr s \<Rightarrow> if blank s then throw (ValidationError [''reason is required'']) else ret (trim s)
   | JUndefined \<Rightarrow> throw (ValidationError [''reason is required''])
   | JNull \<Rightarrow> throw (ValidationError [''reason is required''])
   | _ \<Rightarrow> throw (PlainError ''TypeError''))"

section \<open>Submission, history and notifications\<close>

fun expected_event :: "transaction_type \<Rightarrow> string" where
  "expected_event VALIDATOR_ADD = ''ValidatorAdded''"
| "expected_event VALIDATOR_REMOVE = ''ValidatorRemoved''"
| "expected_event VALIDATOR_RESTORE = ''ValidatorRestored''"
| "expected_event _ = ''ValidatorRemovalCancelled''"

definition envelopeSignature :: "env \<Rightarrow> ('s, error, string) m" where
  "envelopeSignature en =
     (if production en then throw (ForbiddenError ''Production validator transactions require the configured device-signed transaction provider'')
      else ret ''development'')"

definition registration_payload :: "registration \<Rightarrow> jsobj" where
  "registration_payload r = [(''validatorId'', JStr (reg_validatorId r)), (''nodeAddress'', JStr (reg_nodeAddress r)),
     (''publicKey'', JStr (reg_publicKey r)), (''signingPublicKey'', JStr (reg_signingPublicKey r)),
     (''activationHeight'', JNum (Fin (of_int (reg_activationHeight r))))]"

text \<open>\<^verbatim>\<open>try { f } catch (error) { h; throw error; }\<close>.\<close>

definition on_error :: "('s, 'e, 'a) m \<Rightarrow> ('s, 'e, unit) m \<Rightarrow> ('s, 'e, 'a) m" where
  "on_error f h = (\<lambda>s. case f s of
     (Inr x, s1) \<Rightarrow> (Inr x, s1)
   | (Inl e, s1) \<Rightarrow> (case h s1 of (Inl e', s2) \<Rightarrow> (Inl e', s2) | (Inr _, s2) \<Rightarrow> (Inl e, s2)))"

definition validator_submit ::
    "'c validator_svc \<Rightarrow> env \<Rightarrow> transaction_type \<Rightarrow> identity \<Rightarrow> registration \<Rightarrow> jsobj \<Rightarrow> ('c, tx_result) users_m" where
  "validator_submit svc en ty a r extra =
     bindE (look (wallet_or_system (id_identityId a))) (\<lambda>wal.
     on_error
       (bindE (draw en) (\<lambda>txId.
        bindE (envelopeSignature en) (\<lambda>sig.
        bindE (on_users_chain (submitTransaction (vsv_chain svc) en
               \<lparr>tx_txId = txId, tx_type = ty,
                tx_actorIdentity = (if id_identityId a = [] then SYSTEM_IDENTITY else id_identityId a),
                tx_actorWallet = wal, tx_payload = spread (registration_payload r) extra,
                tx_timestamp = iso_now en, tx_signature = sig\<rparr>)) (\<lambda>res.
        thenE (throwIf (res_status res \<noteq> SUCCESS \<or>
                 (case res_event res of None \<Rightarrow> False | Some ev \<Rightarrow> ev \<noteq> [] \<and> ev \<noteq> expected_event ty))
                 (PlainError (''Blockchain did not confirm '' @ expected_event ty)))
          (ret res)))))
       (bindE (draw en) (\<lambda>u. store (history_append
          \<lparr>hist_historyId = ''VH:'' @ u, hist_validatorId = reg_validatorId r, hist_operation = ty,
           hist_actorIdentityId = id_identityId a, hist_actorWallet = wal, hist_timestamp = iso_now en,
           hist_blockNumber = None, hist_transactionHash = None,
           hist_previousState = Some (show_registration_status (reg_status r)),
           hist_newState = show_registration_status (reg_status r),
           hist_reason = as_str (fld extra ''reason''), hist_status = OP_FAILED,
           hist_inverseTransactionHash = None\<rparr>))))"

definition tx_hash :: "tx_result \<Rightarrow> string" where
  "tx_hash res = (case res_transactionHash res of None \<Rightarrow> res_txId res | Some h \<Rightarrow> h)"

definition recordHistory ::
    "env \<Rightarrow> registration \<Rightarrow> identity \<Rightarrow> transaction_type \<Rightarrow> string option \<Rightarrow> string \<Rightarrow> string option \<Rightarrow> tx_result
     \<Rightarrow> ('c, unit) users_m" where
  "recordHistory en r a op previousState newState reason res =
     bindE (draw en) (\<lambda>u.
     bindE (look (wallet_or_system (id_identityId a))) (\<lambda>wal.
     store (history_append
       \<lparr>hist_historyId = ''VH:'' @ u, hist_validatorId = reg_validatorId r, hist_operation = op,
        hist_actorIdentityId = id_identityId a, hist_actorWallet = wal, hist_timestamp = iso_now en,
        hist_blockNumber = res_blockNumber res, hist_transactionHash = Some (tx_hash res),
        hist_previousState = previousState, hist_newState = newState, hist_reason = reason,
        hist_status = OP_SUCCESS, hist_inverseTransactionHash = None\<rparr>)))"

text \<open>\<^verbatim>\<open>ConsoleEmailNotificationProvider.send\<close>: whether the call throws.\<close>

definition email_fails :: "email_config \<Rightarrow> bool" where
  "email_fails cfg \<longleftrightarrow> opt_or (em_provider cfg) ''console'' \<noteq> ''console'' \<and>
     (\<not> present (em_host cfg) \<or> \<not> present (em_from cfg))"

definition notify ::
    "env \<Rightarrow> transaction_type \<Rightarrow> registration \<Rightarrow> channel \<Rightarrow> delivery_status \<Rightarrow> string \<Rightarrow> ('c, unit) users_m" where
  "notify en ev r ch st who = bindE (draw en) (\<lambda>u. store (notifications_append
     \<lparr>not_notificationId = ''N:'' @ u, not_eventType = ev, not_validatorId = reg_validatorId r,
      not_operation = show_tx ev, not_recipientIdentityId = who, not_channel = ch,
      not_createdAt = iso_now en, not_status = st\<rparr>))"

definition recipients :: "idstore \<Rightarrow> string list" where
  "recipients s = rev (remdups (rev (map usr_identityId
     (List.map_filter (\<lambda>i. users_findByIdentityId s (id_identityId i)) (identities_listByStatus s I_ACTIVE)))))"

definition validatorChanged ::
    "'c validator_svc \<Rightarrow> env \<Rightarrow> transaction_type \<Rightarrow> registration \<Rightarrow> ('c, unit) users_m" where
  "validatorChanged svc en ev r =
     bindE (look recipients) (\<lambda>rs. forE rs (\<lambda>who.
       thenE (notify en ev r IN_APP N_DELIVERED who)
         (notify en ev r EMAIL (if email_fails (vsv_email svc) then N_FAILED else N_DELIVERED) who)))"

section \<open>Operations\<close>

definition input_field :: "jsval \<Rightarrow> string \<Rightarrow> jsval" where
  "input_field v k = (case v of JObj ob \<Rightarrow> fld ob k | _ \<Rightarrow> JUndefined)"

definition input_keys :: "jsval \<Rightarrow> string list" where
  "input_keys v = (case v of JObj ob \<Rightarrow> map fst ob | _ \<Rightarrow> [])"

definition secret_key :: "string \<Rightarrow> bool" where
  "secret_key k = anywhere (\<lambda>t. startsWith t ''private'' \<or> startsWith t ''secret'' \<or>
     startsWith t ''mnemonic'' \<or> startsWith t ''seed'') (toLowerCase k)"

definition metadata_errors :: "'c validator_svc \<Rightarrow> jsval \<Rightarrow> string list" where
  "metadata_errors svc input =
     map (\<lambda>f. f @ '' is required'') (filter (\<lambda>f. text_of (input_field input f) = None)
       [''validatorId'', ''nodeAddress'', ''publicKey'', ''signingPublicKey'']) @
     (case as_str (input_field input ''validatorId'') of None \<Rightarrow> []
      | Some v \<Rightarrow> if vsv_isAddress svc (trim v) then [] else [''validatorId must be a valid EVM address'']) @
     (if list_ex secret_key (input_keys input) then [''private key material must never be submitted''] else [])"

definition text_field :: "jsval \<Rightarrow> string \<Rightarrow> string" where
  "text_field input k = trim (str (input_field input k))"

definition num_field :: "jsval \<Rightarrow> string \<Rightarrow> jsnum" where
  "num_field input k = (case input_field input k of JNum n \<Rightarrow> n | _ \<Rightarrow> NaN)"

text \<open>The common tail of the four operations: save, record, notify.\<close>

definition finish_validator ::
    "'c validator_svc \<Rightarrow> env \<Rightarrow> transaction_type \<Rightarrow> identity \<Rightarrow> string option \<Rightarrow> string \<Rightarrow> string option \<Rightarrow>
     tx_result \<Rightarrow> registration \<Rightarrow> ('c, registration) users_m" where
  "finish_validator svc en ty a previous new reason res r =
     (let r' = r\<lparr>reg_txHash := Some (tx_hash res), reg_blockNumber := res_blockNumber res\<rparr> in
      thenE (store (validators_save r'))
     (thenE (recordHistory en r' a ty previous new reason res)
     (thenE (validatorChanged svc en ty r') (ret r'))))"

definition addValidator :: "'c validator_svc \<Rightarrow> env \<Rightarrow> string \<Rightarrow> jsval \<Rightarrow> ('c, registration) users_m" where
  "addValidator svc en actorId input =
     bindE (admin actorId) (\<lambda>a.
     thenE (throwIf (metadata_errors svc input \<noteq> []) (ValidationError (metadata_errors svc input)))
     (let vid = text_field input ''validatorId''; height = num_field input ''activationHeight'' in
     bindE (look (\<lambda>s. validators_findByValidatorId s vid)) (\<lambda>existing.
     thenE (throwIf (case existing of None \<Rightarrow> False | Some x \<Rightarrow> reg_status x \<noteq> R_REMOVED)
              (ConflictError ''Validator is already active or scheduled''))
     (bindE (chain_head svc) (\<lambda>head.
     thenE (throwIf (\<not> isSafeInteger height \<or> num_le height head)
              (ValidationError [''activationHeight must be greater than current chain height '' @ show_int head]))
     (bindE (look (wallet_or_system (id_identityId a))) (\<lambda>wal.
     bindE (case existing of Some x \<Rightarrow> ret (reg_registrationId x)
            | None \<Rightarrow> bindE (draw en) (\<lambda>u. ret (''VREG:'' @ u))) (\<lambda>rid.
     let r = \<lparr>reg_registrationId = rid, reg_validatorId = vid, reg_identityId = id_identityId a,
              reg_walletAddress = wal, reg_nodeId = vid, reg_nodeAddress = text_field input ''nodeAddress'',
              reg_publicKey = text_field input ''publicKey'',
              reg_signingPublicKey = text_field input ''signingPublicKey'',
              reg_status = (if num_int height > head then R_PENDING else R_ACTIVE),
              reg_requestedAt = (case existing of None \<Rightarrow> iso_now en | Some x \<Rightarrow> reg_requestedAt x),
              reg_activationHeight = num_int height, reg_removalHeight = None, reg_removalReason = None,
              reg_txHash = None, reg_blockNumber = None\<rparr> in
     bindE (validator_submit svc en VALIDATOR_ADD a r []) (\<lambda>res.
       finish_validator svc en VALIDATOR_ADD a None (show_registration_status (reg_status r)) None res r)))))))))"

definition removeValidator ::
    "'c validator_svc \<Rightarrow> env \<Rightarrow> string \<Rightarrow> string \<Rightarrow> jsnum \<Rightarrow> jsval \<Rightarrow> ('c, registration) users_m" where
  "removeValidator svc en actorId i removalHeight reason =
     bindE (admin actorId) (\<lambda>a.
     thenE (throwIf (\<not> isSafeInteger removalHeight \<or> num_le removalHeight 0)
              (ValidationError [''removalHeight must be a positive integer'']))
     (bindE (required_reason reason) (\<lambda>why.
      bindE (get_registration svc i) (\<lambda>r.
      thenE (throwIf (reg_status r \<notin> {R_PENDING, R_ACTIVE})
               (ConflictError ''Validator is not removable in its current state''))
     (bindE (chain_head svc) (\<lambda>head.
      thenE (throwIf (num_le removalHeight head \<or> num_le removalHeight (reg_activationHeight r))
               (ValidationError [''removalHeight must be greater than current chain height '' @ show_int head @ '' and activation height'']))
     (bindE (validator_submit svc en VALIDATOR_REMOVE a r
               [(''removalHeight'', JNum removalHeight), (''reason'', JStr why)]) (\<lambda>res.
       finish_validator svc en VALIDATOR_REMOVE a (Some (show_registration_status (reg_status r)))
         ''REMOVAL_SCHEDULED'' (Some why) res
         (r\<lparr>reg_status := R_REMOVAL_SCHEDULED, reg_removalHeight := Some (num_int removalHeight),
             reg_removalReason := Some why\<rparr>)))))))))"

definition reactivated :: "registration \<Rightarrow> registration" where
  "reactivated r = r\<lparr>reg_status := R_ACTIVE, reg_removalHeight := None, reg_removalReason := None\<rparr>"

text \<open>The local \<^verbatim>\<open>effectiveStatus\<close> of \<^verbatim>\<open>restoreValidator\<close>.\<close>

definition effective_removed :: "int \<Rightarrow> registration \<Rightarrow> registration_status" where
  "effective_removed head r = (if reg_status r = R_REMOVAL_SCHEDULED \<and>
     (case reg_removalHeight r of None \<Rightarrow> False | Some h \<Rightarrow> h \<le> head) then R_REMOVED else reg_status r)"

definition restoreValidator ::
    "'c validator_svc \<Rightarrow> env \<Rightarrow> string \<Rightarrow> string \<Rightarrow> jsval \<Rightarrow> ('c, registration) users_m" where
  "restoreValidator svc en actorId i reason =
     bindE (admin actorId) (\<lambda>a.
     bindE (required_reason reason) (\<lambda>why.
     bindE (get_registration svc i) (\<lambda>r.
     bindE (chain_head svc) (\<lambda>head.
     thenE (throwIf (effective_removed head r \<noteq> R_REMOVED \<or>
              (case reg_removalHeight r of None \<Rightarrow> True | Some h \<Rightarrow> h = 0 \<or> h > head))
              (ConflictError ''Only a validator whose removal is effective can be restored; cancel a scheduled removal instead''))
     (bindE (validator_submit svc en VALIDATOR_RESTORE a r [(''reason'', JStr why)]) (\<lambda>res.
       finish_validator svc en VALIDATOR_RESTORE a (Some ''REMOVED'') ''ACTIVE'' (Some why) res (reactivated r)))))))"

definition cancelScheduledRemoval ::
    "'c validator_svc \<Rightarrow> env \<Rightarrow> string \<Rightarrow> string \<Rightarrow> jsval \<Rightarrow> ('c, registration) users_m" where
  "cancelScheduledRemoval svc en actorId i reason =
     bindE (admin actorId) (\<lambda>a.
     bindE (required_reason reason) (\<lambda>why.
     bindE (get_registration svc i) (\<lambda>r.
     thenE (throwIf (reg_status r \<noteq> R_REMOVAL_SCHEDULED) (ConflictError ''Only a scheduled removal can be cancelled''))
     (bindE (validator_submit svc en VALIDATOR_REMOVE_CANCEL a r [(''reason'', JStr why)]) (\<lambda>res.
       finish_validator svc en VALIDATOR_REMOVE_CANCEL a (Some ''REMOVAL_SCHEDULED'') ''ACTIVE'' (Some why) res
         (reactivated r))))))"

definition list_validators :: "'c validator_svc \<Rightarrow> ('c, registration list) users_m" where
  "list_validators svc = bindE (chain_head svc) (\<lambda>head.
     look (\<lambda>s. map (\<lambda>r. effectiveRegistration r head) (validators_list s)))"

text \<open>
  The timestamps of history records are written by \<^verbatim>\<open>toISOString\<close>: strings of one length
  whose order is the order of the instants.  Both sorts are stable.
\<close>

definition hist_time :: "history \<Rightarrow> int" where
  "hist_time h = (case date_parse (hist_timestamp h) of None \<Rightarrow> 0 | Some t \<Rightarrow> t)"

definition getHistory :: "idstore \<Rightarrow> history list" where
  "getHistory s = sort_key hist_time (js_values (sto_validatorHistory s))"

end
