(* ===== verification/Backend.thy ===== *)
theory Backend
  imports Jobs Assets Validators Evidence
begin

text \<open>
  The backend as \<^verbatim>\<open>container.ts\<close> puts it together, and the middlewares in front of every
  route: one chain, one identity store and the repositories, shared by all services.  The state
  \<open>world\<close> holds each of them once; a service runs on the part of it that the container
  gave to its constructor.  A handler is a method on the world, and its response is the value it
  serializes.
\<close>

section \<open>State and services\<close>

record ('c, 'g) world =
  wd_users :: "'c users_state"
  wd_jobs :: job_repo
  wd_cache :: "(string, asset) jsmap"
  wd_assets :: asset_repo
  wd_evidence :: "'g evidence_state"

type_synonym ('c, 'g, 'a) route = "(('c, 'g) world, error, 'a) m"

text \<open>
  The reads of the chain that only the audit and blockchain routes use.
  \<^verbatim>\<open>getAuditTrail\<close> is an optional member.
\<close>

record 'c chain_reads =
  rd_getValidators :: "'c \<Rightarrow> error + validator list"
  rd_getCommittee :: "nat \<Rightarrow> 'c \<Rightarrow> error + string list"
  rd_getAuditTrail :: "(string \<Rightarrow> 'c \<Rightarrow> error + audit_event list) option"

record ('c, 'g) backend_svc =
  bk_crypto :: crypto
  bk_chain :: "'c chain_api"
  bk_reads :: "'c chain_reads"
  bk_attest :: "string \<Rightarrow> jsval \<Rightarrow> attestation"
  bk_publicKeyValid :: "string \<Rightarrow> bool"
  bk_isAddress :: "string \<Rightarrow> bool"
  bk_email :: email_config
  bk_evidence :: "'g evidence_svc"
  bk_checksIdentities :: bool
  bk_fuel :: nat

definition ids :: "('c, 'g) world \<Rightarrow> idstore" where
  "ids w = us_store (wd_users w)"

definition chain_of :: "('c, 'g) world \<Rightarrow> 'c" where
  "chain_of w = us_chain (wd_users w)"

definition identityExists :: "('c, 'g) backend_svc \<Rightarrow> ('c, 'g) world \<Rightarrow> (string \<Rightarrow> bool) option" where
  "identityExists bk w =
     (if bk_checksIdentities bk then Some (\<lambda>i. identities_findById (ids w) i \<noteq> None) else None)"

definition users_service :: "('c, 'g) backend_svc \<Rightarrow> 'c users_svc" where
  "users_service bk = \<lparr>usv_chain = bk_chain bk, usv_crypto = bk_crypto bk, usv_integrity = True,
     usv_attest = bk_attest bk, usv_publicKeyValid = bk_publicKeyValid bk\<rparr>"

definition validators_service :: "('c, 'g) backend_svc \<Rightarrow> 'c validator_svc" where
  "validators_service bk = \<lparr>vsv_chain = bk_chain bk, vsv_isAddress = bk_isAddress bk, vsv_email = bk_email bk\<rparr>"

definition jobs_service :: "('c, 'g) backend_svc \<Rightarrow> ('c, 'g) world \<Rightarrow> 'c jobs_svc" where
  "jobs_service bk w = \<lparr>svc_chain = bk_chain bk,
     svc_assets = Some (\<lambda>i. assets_findById (wd_assets w) i \<noteq> None),
     svc_identityExists = identityExists bk w\<rparr>"

definition assets_service :: "('c, 'g) backend_svc \<Rightarrow> ('c, 'g) world \<Rightarrow> 'c assets_svc" where
  "assets_service bk w = \<lparr>asv_chain = bk_chain bk, asv_identityExists = identityExists bk w, asv_fuel = bk_fuel bk\<rparr>"

definition evidence_service :: "('c, 'g) backend_svc \<Rightarrow> ('c, 'g) world \<Rightarrow> 'g evidence_svc" where
  "evidence_service bk w = (bk_evidence bk)\<lparr>sv_jobs := wd_jobs w\<rparr>"

subsection \<open>Running a service on its part of the world\<close>

definition on_users :: "('c, 'a) users_m \<Rightarrow> ('c, 'g, 'a) route" where
  "on_users f = (\<lambda>w. case f (wd_users w) of (r, s) \<Rightarrow> (r, w\<lparr>wd_users := s\<rparr>))"

definition on_ids :: "(idstore, error, 'a) m \<Rightarrow> ('c, 'g, 'a) route" where
  "on_ids f = on_users (\<lambda>s. case f (us_store s) of (r, i) \<Rightarrow> (r, s\<lparr>us_store := i\<rparr>))"

definition jobs_part :: "('c, 'g) world \<Rightarrow> 'c jobs_state" where
  "jobs_part w = \<lparr>js_jobs = wd_jobs w, js_chain = chain_of w\<rparr>"

definition on_jobs :: "('c, 'g) backend_svc \<Rightarrow> ('c jobs_svc \<Rightarrow> ('c jobs_state, error, 'a) m) \<Rightarrow> ('c, 'g, 'a) route" where
  "on_jobs bk f = (\<lambda>w. case f (jobs_service bk w) (jobs_part w) of
     (r, s) \<Rightarrow> (r, w\<lparr>wd_jobs := js_jobs s, wd_users := (wd_users w)\<lparr>us_chain := js_chain s\<rparr>\<rparr>))"

definition assets_part :: "('c, 'g) world \<Rightarrow> 'c assets_state" where
  "assets_part w = \<lparr>ast_cache = wd_cache w, ast_repo = wd_assets w, ast_chain = chain_of w\<rparr>"

definition on_assets :: "('c, 'g) backend_svc \<Rightarrow> ('c assets_svc \<Rightarrow> ('c assets_state, error, 'a) m) \<Rightarrow> ('c, 'g, 'a) route" where
  "on_assets bk f = (\<lambda>w. case f (assets_service bk w) (assets_part w) of
     (r, s) \<Rightarrow> (r, w\<lparr>wd_cache := ast_cache s, wd_assets := ast_repo s, wd_users := (wd_users w)\<lparr>us_chain := ast_chain s\<rparr>\<rparr>))"

definition on_evidence :: "('c, 'g) backend_svc \<Rightarrow> ('g evidence_svc \<Rightarrow> ('g evidence_state, error, 'a) m) \<Rightarrow> ('c, 'g, 'a) route" where
  "on_evidence bk f = (\<lambda>w. case f (evidence_service bk w) (wd_evidence w) of
     (r, s) \<Rightarrow> (r, w\<lparr>wd_evidence := s\<rparr>))"

section \<open>Requests and middlewares\<close>

text \<open>
  \<open>hq_id\<close> and \<open>hq_sub\<close> are the first and the second parameter of the path.  A body that is
  missing is the empty object, since the handlers read \<^verbatim>\<open>req.body?.field\<close>.
  \<open>hq_freshAuth\<close> is the header \<^verbatim>\<open>x-bel-fresh-auth\<close>: text that is not JSON, or an object.
\<close>

record http_request =
  hq_env :: env
  hq_authorization :: "string option"
  hq_freshAuth :: "(unit + jsobj) option"
  hq_id :: string
  hq_sub :: string
  hq_query :: jsobj
  hq_body :: jsobj

text \<open>A middleware that passes or ends the request.\<close>

definition pass :: "error + unit \<Rightarrow> ('c, 'g, unit) route" where
  "pass r = query (\<lambda>_. r)"

text \<open>
  \<^verbatim>\<open>attachSession\<close> runs before every route; \<open>authed\<close> is a route that begins with
  \<^verbatim>\<open>requireSession\<close>.
\<close>

definition attachSession :: "('c, 'g) backend_svc \<Rightarrow> http_request \<Rightarrow> ('c, 'g, user option) route" where
  "attachSession bk rq = on_ids (resolveUser (bk_crypto bk) (hq_env rq) (hq_authorization rq))"

definition authed ::
  "('c, 'g) backend_svc \<Rightarrow> http_request \<Rightarrow> (user \<Rightarrow> ('c, 'g, 'a) route) \<Rightarrow> ('c, 'g, 'a) route" where
  "authed bk rq k =
     bindE (attachSession bk rq) (\<lambda>u. thenE (pass (requireSession u)) (k (the u)))"

text \<open>A route without \<^verbatim>\<open>requireSession\<close>: the session is attached and not used.\<close>

definition public :: "('c, 'g) backend_svc \<Rightarrow> http_request \<Rightarrow> ('c, 'g, 'a) route \<Rightarrow> ('c, 'g, 'a) route" where
  "public bk rq k = thenE (attachSession bk rq) k"

definition permit :: "action \<Rightarrow> user \<Rightarrow> ('c, 'g, unit) route" where
  "permit a u = pass (requirePermission a None (Some u))"

text \<open>\<^verbatim>\<open>requirePermission\<close> with a resolver, which may itself change the state.\<close>

definition permit_in :: "action \<Rightarrow> ('c, 'g, permission_context) route \<Rightarrow> user \<Rightarrow> ('c, 'g, unit) route" where
  "permit_in a resolve u =
     bindE resolve (\<lambda>ctx. pass (requirePermission a (Some (\<lambda>_. Inr ctx)) (Some u)))"

definition fresh :: "('c, 'g) backend_svc \<Rightarrow> http_request \<Rightarrow> string \<Rightarrow> string option \<Rightarrow> ('c, 'g, unit) route" where
  "fresh bk rq operation resource =
     on_ids (requireFreshAuthentication (bk_crypto bk) (hq_env rq) operation resource
       (hq_freshAuth rq) (hq_authorization rq))"

text \<open>
  A resource named in the body.  The id a challenge is issued for is trimmed, so a value that is
  neither text nor missing, which equals the id of no challenge, is represented by white space.
\<close>

fun body_resource :: "jsval \<Rightarrow> string option" where
  "body_resource (JStr s) = Some s"
| "body_resource JUndefined = None"
| "body_resource JNull = None"
| "body_resource _ = Some '' ''"

definition route_actor :: "http_request \<Rightarrow> user \<Rightarrow> actor" where
  "route_actor rq u = \<lparr>act_identityId = usr_identityId u, act_walletAddress = usr_walletAddress u,
     act_signature = as_str (fld (hq_body rq) ''signature'')\<rparr>"

section \<open>What a successful request shows\<close>

lemma on_users_run [run]:
  "on_users f w = (r, w') \<longleftrightarrow> (\<exists>s. f (wd_users w) = (r, s) \<and> w' = w\<lparr>wd_users := s\<rparr>)"
  by (auto simp: on_users_def split: prod.splits)

lemma on_ids_run [run]:
  "on_ids f w = (r, w') \<longleftrightarrow>
     (\<exists>i. f (ids w) = (r, i) \<and> w' = w\<lparr>wd_users := (wd_users w)\<lparr>us_store := i\<rparr>\<rparr>)"
  by (auto simp: on_ids_def run ids_def split: prod.splits)

lemma on_jobs_run [run]:
  "on_jobs bk f w = (r, w') \<longleftrightarrow> (\<exists>s. f (jobs_service bk w) (jobs_part w) = (r, s) \<and>
     w' = w\<lparr>wd_jobs := js_jobs s, wd_users := (wd_users w)\<lparr>us_chain := js_chain s\<rparr>\<rparr>)"
  by (auto simp: on_jobs_def split: prod.splits)

lemma parts [simp]:
  "js_jobs (jobs_part w) = wd_jobs w" "js_chain (jobs_part w) = chain_of w"
  "ast_cache (assets_part w) = wd_cache w" "ast_repo (assets_part w) = wd_assets w" "ast_chain (assets_part w) = chain_of w"
  by (simp_all add: jobs_part_def assets_part_def)

lemma on_jobs_part: "on_jobs bk f w = (r, w') \<Longrightarrow> f (jobs_service bk w) (jobs_part w) = (r, jobs_part w')"
  by (auto simp: on_jobs_run jobs_part_def chain_of_def)

lemma on_assets_part: "on_assets bk f w = (r, w') \<Longrightarrow> f (assets_service bk w) (assets_part w) = (r, assets_part w')"
  by (auto simp: on_assets_def assets_part_def chain_of_def split: prod.splits)

lemma on_assets_run [run]:
  "on_assets bk f w = (r, w') \<longleftrightarrow> (\<exists>s. f (assets_service bk w) (assets_part w) = (r, s) \<and>
     w' = w\<lparr>wd_cache := ast_cache s, wd_assets := ast_repo s, wd_users := (wd_users w)\<lparr>us_chain := ast_chain s\<rparr>\<rparr>)"
  by (auto simp: on_assets_def split: prod.splits)

lemma on_evidence_run [run]:
  "on_evidence bk f w = (r, w') \<longleftrightarrow>
     (\<exists>s. f (evidence_service bk w) (wd_evidence w) = (r, s) \<and> w' = w\<lparr>wd_evidence := s\<rparr>)"
  by (auto simp: on_evidence_def split: prod.splits)

lemma pass_run [run]: "pass x w = (r, w') \<longleftrightarrow> r = x \<and> w' = w"
  by (auto simp: pass_def run)

text \<open>The user of the session the request carries, and the world once the session was read.\<close>

definition session_of :: "('c, 'g) backend_svc \<Rightarrow> http_request \<Rightarrow> ('c, 'g) world \<Rightarrow> user option" where
  "session_of bk rq w = (case fst (attachSession bk rq w) of Inl _ \<Rightarrow> None | Inr u \<Rightarrow> u)"

definition after_session :: "('c, 'g) backend_svc \<Rightarrow> http_request \<Rightarrow> ('c, 'g) world \<Rightarrow> ('c, 'g) world" where
  "after_session bk rq w = snd (attachSession bk rq w)"

lemma after_session_same [simp]:
  "wd_jobs (after_session bk rq w) = wd_jobs w" "wd_cache (after_session bk rq w) = wd_cache w"
  "wd_assets (after_session bk rq w) = wd_assets w" "wd_evidence (after_session bk rq w) = wd_evidence w"
  "us_chain (wd_users (after_session bk rq w)) = us_chain (wd_users w)"
  by (auto simp: after_session_def attachSession_def on_ids_def on_users_def split: prod.splits)

lemma authed_ok:
  "authed bk rq k w = (Inr x, w') \<Longrightarrow>
     \<exists>u. session_of bk rq w = Some u \<and> k u (after_session bk rq w) = (Inr x, w')"
  by (auto simp: authed_def session_of_def after_session_def requireSession_def run bindE_def thenE_def pass_def query_def
      split: option.splits prod.splits sum.splits)

text \<open>The world after a fresh authentication; only the identity store changes.\<close>

abbreviation with_ids :: "('c, 'g) world \<Rightarrow> idstore \<Rightarrow> ('c, 'g) world" where
  "with_ids w i \<equiv> w\<lparr>wd_users := (wd_users w)\<lparr>us_store := i\<rparr>\<rparr>"

lemma fresh_ok [run]:
  "fresh bk rq op res w = (Inr x, w') \<longleftrightarrow>
     (\<exists>i. requireFreshAuthentication (bk_crypto bk) (hq_env rq) op res (hq_freshAuth rq) (hq_authorization rq) (ids w) = (Inr (), i) \<and>
        w' = with_ids w i)"
  by (auto simp: fresh_def run)

lemma permit_ok [run]:
  "permit a u w = (Inr x, w') \<longleftrightarrow> can (usr_role u) a (with_actor (usr_identityId u) no_context) \<and> w' = w"
  by (auto simp: permit_def run requirePermission_def split: if_splits)

lemma permit_in_ok [run]:
  "permit_in a f u w = (Inr x, w') \<longleftrightarrow>
     (\<exists>ctx. f w = (Inr ctx, w') \<and> can (usr_role u) a (with_actor (usr_identityId u) ctx))"
  by (auto simp: permit_in_def run requirePermission_def split: if_splits)

lemmas world_parts = jobs_part_def assets_part_def chain_of_def ids_def jobs_service_def assets_service_def identityExists_def

text \<open>The roles that may act on jobs and register assets, whatever the context.\<close>

lemma permitted_roles:
  "can r CREATE_JOB c \<longleftrightarrow> r \<in> {MANAGER, ENGINEER}"
  "can r ASSIGN_TECHNICIAN c \<longleftrightarrow> r \<in> {MANAGER, ENGINEER}"
  "can r PERFORM_MAINTENANCE c \<longleftrightarrow> r \<in> {ENGINEER, TECHNICIAN}"
  "can r VERIFY_MAINTENANCE c \<longleftrightarrow> r \<in> {MANAGER, ENGINEER, AUDITOR, VERIFIER}"
  by (cases r; simp add: can_def permissionFor_def ROLES_def)+

section \<open>A concrete backend\<close>

definition demo_backend :: "(mock_chain, unit) backend_svc" where
  "demo_backend = \<lparr>bk_crypto = demo_crypto, bk_chain = mock_api,
     bk_reads = \<lparr>rd_getValidators = (\<lambda>_. Inr (mock_validators (Iso 0))),
       rd_getCommittee = (\<lambda>h _. Inr (mock_committee (mock_validators (Iso 0)) h)), rd_getAuditTrail = None\<rparr>,
     bk_attest = mock_attest [''D''], bk_publicKeyValid = (\<lambda>_. True), bk_isAddress = (\<lambda>_. True),
     bk_email = \<lparr>em_provider = None, em_host = None, em_from = None\<rparr>,
     bk_evidence = \<lparr>sv_storage = \<lparr>stg_upload = (\<lambda>_ _. throw (EvidenceStorageError [])), stg_download = (\<lambda>_. throw (EvidenceStorageError [])),
         stg_exists = (\<lambda>_. ret False)\<rparr>,
       sv_lib = \<lparr>sha256_hex = id, utf8_decode = id, utf8_encode = id\<rparr>, sv_jobs = [], sv_maxFileSizeBytes = 1,
       sv_allowedMimeTypes = []\<rparr>,
     bk_checksIdentities = False, bk_fuel = 5\<rparr>"

definition demo_world :: "(mock_chain, unit) world" where
  "demo_world = \<lparr>wd_users = \<lparr>us_store = demo_store FRESH_AUTHENTICATION, us_chain = mock_init, us_versions = [],
       us_commits = [], us_draws = 0\<rparr>,
     wd_jobs = [], wd_cache = [], wd_assets = [], wd_evidence = \<lparr>es_records = [], es_store = ()\<rparr>\<rparr>"

definition demo_http :: "string \<Rightarrow> jsobj \<Rightarrow> http_request" where
  "demo_http i body = \<lparr>hq_env = demo_env, hq_authorization = Some ''Bearer T'', hq_freshAuth = None, hq_id = i,
     hq_sub = [], hq_query = [], hq_body = body\<rparr>"

end
