(* ===== verification/JobRoutes.thy ===== *)
theory JobRoutes
  imports Backend
begin

text \<open>
  \<^verbatim>\<open>backend/src/routes/jobs.routes.ts\<close> and \<^verbatim>\<open>evidence.routes.ts\<close>: the HTTP surface
  of jobs and of their evidence.
\<close>

section \<open>Jobs\<close>

definition evidence_actor_of :: "user \<Rightarrow> evidence_actor" where
  "evidence_actor_of u = \<lparr>ea_identityId = usr_identityId u, ea_walletAddress = usr_walletAddress u, ea_role = usr_role u\<rparr>"

definition get_jobs :: "('c, 'g) backend_svc \<Rightarrow> http_request \<Rightarrow> ('c, 'g, job list) route" where
  "get_jobs bk rq = authed bk rq (\<lambda>u. reads (\<lambda>w. jobs_list (wd_jobs w)))"

definition get_job :: "('c, 'g) backend_svc \<Rightarrow> http_request \<Rightarrow> ('c, 'g, job) route" where
  "get_job bk rq = authed bk rq (\<lambda>u.
     bindE (reads (\<lambda>w. find (\<lambda>j. job_jobId j = hq_id rq) (jobs_list (wd_jobs w)))) (\<lambda>j.
       required j (NotFoundError (''No job '' @ hq_id rq))))"

definition post_jobs :: "('c, 'g) backend_svc \<Rightarrow> http_request \<Rightarrow> ('c, 'g, job) route" where
  "post_jobs bk rq = authed bk rq (\<lambda>u.
     thenE (permit CREATE_JOB u)
    (thenE (throwIf (as_str (fld (hq_body rq) ''assetId'') = None) (ValidationError [''assetId is required'']))
      (on_jobs bk (\<lambda>sv. create sv (hq_env rq)
         (spread (hq_body rq) [(''createdBy'', JStr (usr_identityId u))]) (route_actor rq u)))))"

definition post_assign :: "('c, 'g) backend_svc \<Rightarrow> http_request \<Rightarrow> ('c, 'g, job) route" where
  "post_assign bk rq = authed bk rq (\<lambda>u.
     thenE (permit ASSIGN_TECHNICIAN u)
    (bindE (required (as_str (fld (hq_body rq) ''technicianId'')) (ValidationError [''technicianId is required''])) (\<lambda>t.
       on_jobs bk (\<lambda>sv. assign sv (hq_env rq) (hq_id rq) t (route_actor rq u)))))"

definition post_start :: "('c, 'g) backend_svc \<Rightarrow> http_request \<Rightarrow> ('c, 'g, job) route" where
  "post_start bk rq = authed bk rq (\<lambda>u.
     thenE (permit PERFORM_MAINTENANCE u)
       (on_jobs bk (\<lambda>sv. start sv (hq_env rq) (hq_id rq) (route_actor rq u))))"

text \<open>\<^verbatim>\<open>h.toLowerCase().replace(/^0x/, "")\<close>.\<close>

definition strip_0x :: "string \<Rightarrow> string" where
  "strip_0x s = (if startsWith s ''0x'' then drop 2 s else s)"

definition stored_hash ::
  "('c, 'g) backend_svc \<Rightarrow> http_request \<Rightarrow> user \<Rightarrow> string \<Rightarrow> ('c, 'g, string) route" where
  "stored_hash bk rq u evidenceId =
     on_evidence bk (\<lambda>sv. getHash sv (hq_id rq) evidenceId (evidence_actor_of u))"

definition complete_hash :: "('c, 'g) backend_svc \<Rightarrow> http_request \<Rightarrow> user \<Rightarrow> ('c, 'g, jsval) route" where
  "complete_hash bk rq u =
     (let given = fld (hq_body rq) ''evidenceHash'' in
      case text_of (fld (hq_body rq) ''evidenceId'') of
        None \<Rightarrow> ret given
      | Some evidenceId \<Rightarrow>
          bindE (stored_hash bk rq u evidenceId) (\<lambda>h.
          thenE (throwIf (given \<noteq> JUndefined \<and>
                    map_option (\<lambda>t. strip_0x (toLowerCase t)) (as_str given) \<noteq> Some h)
                   (ValidationError [''evidenceHash does not match the selected evidence'']))
            (ret (JStr h))))"

definition post_complete :: "('c, 'g) backend_svc \<Rightarrow> http_request \<Rightarrow> ('c, 'g, job) route" where
  "post_complete bk rq = authed bk rq (\<lambda>u.
     thenE (permit PERFORM_MAINTENANCE u)
    (bindE (complete_hash bk rq u) (\<lambda>v.
     bindE (required (text_of v) (ValidationError [''evidenceHash is required''])) (\<lambda>h.
       on_jobs bk (\<lambda>sv. complete sv (hq_env rq) (hq_id rq) h (route_actor rq u))))))"

definition post_approve :: "('c, 'g) backend_svc \<Rightarrow> http_request \<Rightarrow> ('c, 'g, job) route" where
  "post_approve bk rq = authed bk rq (\<lambda>u.
     thenE (fresh bk rq ''JOB_VERIFY'' (Some (hq_id rq)))
    (thenE (permit VERIFY_MAINTENANCE u)
       (on_jobs bk (\<lambda>sv. approve sv (hq_env rq) (hq_id rq) (route_actor rq u)))))"

definition post_reject :: "('c, 'g) backend_svc \<Rightarrow> http_request \<Rightarrow> ('c, 'g, job) route" where
  "post_reject bk rq = authed bk rq (\<lambda>u.
     thenE (fresh bk rq ''JOB_VERIFY'' (Some (hq_id rq)))
    (thenE (permit VERIFY_MAINTENANCE u)
    (bindE (required (text_of (fld (hq_body rq) ''reason'')) (ValidationError [''reason is required''])) (\<lambda>why.
       on_jobs bk (\<lambda>sv. reject sv (hq_env rq) (hq_id rq) why (route_actor rq u))))))"

subsection \<open>Preparation\<close>

definition post_jobs_prepare :: "('c, 'g) backend_svc \<Rightarrow> http_request \<Rightarrow> ('c, 'g, jsobj \<times> prepared) route" where
  "post_jobs_prepare bk rq = authed bk rq (\<lambda>u.
     thenE (permit CREATE_JOB u)
    (bindE (required (as_str (fld (hq_body rq) ''assetId'')) (ValidationError [''assetId is required''])) (\<lambda>assetId.
     case prepareTransaction (bk_chain bk) of
       None \<Rightarrow> throw (NotImplementedError ''Device transaction preparation is unavailable'')
     | Some prep \<Rightarrow>
         bindE (reads (\<lambda>w. case text_of (fld (hq_body rq) ''jobId'') of
             Some i \<Rightarrow> trim i
           | None \<Rightarrow> ''JOB-'' @ show_nat (length (jobs_list (wd_jobs w)) + 1))) (\<lambda>jobId.
         bindE (query (\<lambda>w. prep (hq_env rq)
           \<lparr>tx_txId = uuid (hq_env rq) 0, tx_type = JOB_CREATE, tx_actorIdentity = usr_identityId u,
            tx_actorWallet = usr_walletAddress u, tx_payload = [(''jobId'', JStr jobId), (''assetId'', JStr assetId)],
            tx_timestamp = iso_now (hq_env rq), tx_signature = ''development''\<rparr> (chain_of w))) (\<lambda>p.
         ret (spread (hq_body rq) [(''jobId'', JStr jobId)], p))))))"

definition prepareMutation ::
  "('c, 'g) backend_svc \<Rightarrow> http_request \<Rightarrow> user \<Rightarrow> job_mutation \<Rightarrow> jsobj \<Rightarrow> ('c, 'g, prepared) route" where
  "prepareMutation bk rq u ty payload =
     on_jobs bk (\<lambda>sv. prepare sv (hq_env rq) ty (hq_id rq) payload (route_actor rq u))"

definition post_assign_prepare :: "('c, 'g) backend_svc \<Rightarrow> http_request \<Rightarrow> ('c, 'g, prepared) route" where
  "post_assign_prepare bk rq = authed bk rq (\<lambda>u. thenE (permit ASSIGN_TECHNICIAN u)
     (prepareMutation bk rq u MutAssign [(''technicianId'', fld (hq_body rq) ''technicianId'')]))"

definition post_start_prepare :: "('c, 'g) backend_svc \<Rightarrow> http_request \<Rightarrow> ('c, 'g, prepared) route" where
  "post_start_prepare bk rq = authed bk rq (\<lambda>u. thenE (permit PERFORM_MAINTENANCE u)
     (prepareMutation bk rq u MutStart []))"

definition post_complete_prepare :: "('c, 'g) backend_svc \<Rightarrow> http_request \<Rightarrow> ('c, 'g, prepared) route" where
  "post_complete_prepare bk rq = authed bk rq (\<lambda>u. thenE (permit PERFORM_MAINTENANCE u)
    (bindE (case text_of (fld (hq_body rq) ''evidenceId'') of
              None \<Rightarrow> ret (fld (hq_body rq) ''evidenceHash'')
            | Some i \<Rightarrow> bindE (stored_hash bk rq u i) (\<lambda>h. ret (JStr h))) (\<lambda>v.
     prepareMutation bk rq u MutComplete [(''evidenceHash'', v)])))"

definition post_approve_prepare :: "('c, 'g) backend_svc \<Rightarrow> http_request \<Rightarrow> ('c, 'g, prepared) route" where
  "post_approve_prepare bk rq = authed bk rq (\<lambda>u. thenE (permit VERIFY_MAINTENANCE u)
     (prepareMutation bk rq u MutApprove []))"

definition post_reject_prepare :: "('c, 'g) backend_svc \<Rightarrow> http_request \<Rightarrow> ('c, 'g, prepared) route" where
  "post_reject_prepare bk rq = authed bk rq (\<lambda>u. thenE (permit VERIFY_MAINTENANCE u)
     (prepareMutation bk rq u MutReject [(''reason'', fld (hq_body rq) ''reason'')]))"

section \<open>Evidence\<close>

definition toResponse :: "evidence \<Rightarrow> jsobj" where
  "toResponse e = [(''id'', JStr (evd_evidenceId e)), (''evidenceId'', JStr (evd_evidenceId e)),
     (''jobId'', JStr (evd_jobId e)), (''cid'', JStr (evd_cid e)), (''sha256'', JStr (evd_sha256 e)),
     (''filename'', JStr (evd_originalFilename e)), (''originalFilename'', JStr (evd_originalFilename e)),
     (''contentType'', JStr (evd_contentType e)), (''sizeBytes'', JNum (Fin (of_nat (evd_sizeBytes e)))),
     (''uploadedBy'', JStr (evd_uploadedBy e)), (''createdAt'', JStr (date_text (evd_createdAt e))),
     (''updatedAt'', JStr (date_text (evd_updatedAt e)))]"

definition viewPermission :: "http_request \<Rightarrow> user \<Rightarrow> ('c, 'g, unit) route" where
  "viewPermission rq u = permit_in VIEW_AUDIT_HISTORY
     (reads (\<lambda>w. no_context\<lparr>pc_resourceOwnerId := map_option job_assignedTo (jobs_findById (wd_jobs w) (hq_id rq))\<rparr>)) u"

text \<open>The content type of the request and the chunks of its body are arguments.\<close>

definition post_evidence ::
  "('c, 'g) backend_svc \<Rightarrow> http_request \<Rightarrow> string \<Rightarrow> bytes list \<Rightarrow> ('c, 'g, jsobj) route" where
  "post_evidence bk rq header chunks = authed bk rq (\<lambda>u.
     thenE (permit PERFORM_MAINTENANCE u)
    (bindE (query (\<lambda>_. readEvidenceMultipart (sv_lib (bk_evidence bk)) header chunks (sv_maxFileSizeBytes (bk_evidence bk)))) (\<lambda>file.
     bindE (on_evidence bk (\<lambda>sv. evidence_upload sv (hq_env rq) (hq_id rq) (evidence_actor_of u) file)) (\<lambda>e.
       ret (toResponse e)))))"

definition get_evidence :: "('c, 'g) backend_svc \<Rightarrow> http_request \<Rightarrow> ('c, 'g, jsobj list) route" where
  "get_evidence bk rq = authed bk rq (\<lambda>u.
     thenE (viewPermission rq u)
    (bindE (on_evidence bk (\<lambda>sv. evidence_list sv (hq_id rq) (evidence_actor_of u))) (\<lambda>es.
       ret (map toResponse es))))"

record file_response =
  fr_contentType :: string
  fr_contentLength :: string
  fr_disposition :: string
  fr_body :: bytes

definition get_evidence_file :: "('c, 'g) backend_svc \<Rightarrow> http_request \<Rightarrow> ('c, 'g, file_response) route" where
  "get_evidence_file bk rq = authed bk rq (\<lambda>u.
     thenE (viewPermission rq u)
    (bindE (on_evidence bk (\<lambda>sv. evidence_download sv (hq_id rq) (hq_sub rq) (evidence_actor_of u))) (\<lambda>(e, bs).
       ret \<lparr>fr_contentType = evd_contentType e, fr_contentLength = show_nat (length bs),
            fr_disposition = ''attachment; filename='' @ [dquote] @ sanitizeFilename (evd_originalFilename e) @ [dquote],
            fr_body = bs\<rparr>)))"

section \<open>Properties\<close>

lemma approve_effect:
  "approve sv en i a s = (Inr j, t) \<Longrightarrow>
   \<exists>old. js_get (js_jobs s) i = Some old \<and> job_status old = COMPLETED \<and> independent old (act_identityId a) \<and>
     j = old\<lparr>job_status := VERIFIED, job_verifierId := JStr (act_identityId a)\<rparr> \<and>
     js_get (js_jobs t) (job_jobId old) = Some j"
  by (auto simp: approve_def run jobs_save_def dest: jobs_submit_jobs)

text \<open>
  C3. Verification is a second pair of eyes, end to end: a request that approves a job carries a live
  session whose role may verify, of a person other than the job's technician; where the
  operation demands it, a fresh proof for this very job was checked; and the job was completed
  before and is recorded as verified by exactly this person.
\<close>

theorem approval_four_eyes:
  assumes "post_approve bk rq w = (Inr j, w')"
  shows "\<exists>u old s'. session_of bk rq w = Some u \<and> usr_role u \<in> {MANAGER, ENGINEER, AUDITOR, VERIFIER} \<and>
    requireFreshAuthentication (bk_crypto bk) (hq_env rq) ''JOB_VERIFY'' (Some (hq_id rq)) (hq_freshAuth rq)
      (hq_authorization rq) (ids (after_session bk rq w)) = (Inr (), s') \<and>
    js_get (wd_jobs w) (hq_id rq) = Some old \<and> job_status old = COMPLETED \<and>
    job_assignedTo old \<noteq> usr_identityId u \<and>
    j = old\<lparr>job_status := VERIFIED, job_verifierId := JStr (usr_identityId u)\<rparr> \<and>
    js_get (wd_jobs w') (job_jobId old) = Some j"
proof -
  from authed_ok [OF assms [unfolded post_approve_def]] obtain u i where
    u: "session_of bk rq w = Some u" and role: "can (usr_role u) VERIFY_MAINTENANCE (with_actor (usr_identityId u) no_context)"
    and fr: "requireFreshAuthentication (bk_crypto bk) (hq_env rq) ''JOB_VERIFY'' (Some (hq_id rq)) (hq_freshAuth rq)
      (hq_authorization rq) (ids (after_session bk rq w)) = (Inr (), i)"
    and jobs: "on_jobs bk (\<lambda>sv. approve sv (hq_env rq) (hq_id rq) (route_actor rq u))
      (with_ids (after_session bk rq w) i) = (Inr j, w')"
    by (auto simp: thenE_ok permit_ok fresh_ok)
  from approve_effect [OF on_jobs_part [OF jobs]] u role fr show ?thesis
    unfolding independent_def permitted_roles by (auto simp: route_actor_def)
qed

text \<open>
  A completion that selects a piece of evidence is submitted with that evidence's own hash: the
  evidence belongs to this job, the technician may see it, a hash given beside it must agree
  with it, and the digest that reaches the jobs service is the stored SHA-256.
\<close>

theorem completion_uses_stored_evidence:
  assumes "post_complete bk rq w = (Inr j, w')" "text_of (fld (hq_body rq) ''evidenceId'') = Some i"
  shows "\<exists>u e t. session_of bk rq w = Some u \<and> usr_role u \<in> {ENGINEER, TECHNICIAN} \<and>
    js_get (es_records (wd_evidence w)) i = Some e \<and> evd_jobId e = hq_id rq \<and>
    (fld (hq_body rq) ''evidenceHash'' = JUndefined \<or>
     (\<exists>h. fld (hq_body rq) ''evidenceHash'' = JStr h \<and> strip_0x (toLowerCase h) = evd_sha256 e)) \<and>
    complete (jobs_service bk (after_session bk rq w)) (hq_env rq) (hq_id rq) (evd_sha256 e) (route_actor rq u) (jobs_part w)
      = (Inr j, t) \<and> jobs_part w' = t"
proof -
  from authed_ok [OF assms(1) [unfolded post_complete_def]] obtain u h v w1 t where
    u: "session_of bk rq w = Some u" and role: "usr_role u \<in> {ENGINEER, TECHNICIAN}"
    and hash: "complete_hash bk rq u (after_session bk rq w) = (Inr v, w1)" and h: "text_of v = Some h"
    and cm: "complete (jobs_service bk w1) (hq_env rq) (hq_id rq) h (route_actor rq u) (jobs_part w1) = (Inr j, t)"
    and w': "jobs_part w' = t"
    by (fastforce simp: run permitted_roles jobs_part_def chain_of_def)
  from hash assms(2) obtain e where e: "js_get (es_records (wd_evidence w)) i = Some e" "evd_jobId e = hq_id rq"
    and v: "v = JStr (evd_sha256 e)" and same: "jobs_part w1 = jobs_part w" "jobs_service bk w1 = jobs_service bk (after_session bk rq w)"
    and given: "fld (hq_body rq) ''evidenceHash'' = JUndefined \<or>
      map_option (\<lambda>t. strip_0x (toLowerCase t)) (as_str (fld (hq_body rq) ''evidenceHash'')) = Some (evd_sha256 e)"
    by (auto simp: complete_hash_def stored_hash_def getHash_def find_evidence_def evidence_findById_def
        requireJob_def assertCanView_def run Let_def world_parts split: option.splits if_splits)
  from given have "fld (hq_body rq) ''evidenceHash'' = JUndefined \<or>
      (\<exists>h. fld (hq_body rq) ''evidenceHash'' = JStr h \<and> strip_0x (toLowerCase h) = evd_sha256 e)"
    by (cases "fld (hq_body rq) ''evidenceHash''") auto
  moreover from h v have "h = evd_sha256 e" by (simp split: if_splits)
  ultimately show ?thesis using u role e cm w' same by auto
qed

subsection \<open>Concrete requests\<close>

definition demo_digest :: string where
  "demo_digest = replicate 64 CHR ''a''"

definition demo_piece :: evidence where
  "demo_piece = \<lparr>evd_evidenceId = ''P'', evd_jobId = ''J'', evd_cid = ''c'', evd_sha256 = demo_digest, evd_originalFilename = ''f'',
     evd_contentType = ''text/plain'', evd_sizeBytes = 1, evd_uploadedBy = ''I'', evd_createdAt = Iso 0, evd_updatedAt = Iso 0\<rparr>"

definition demo_job_world :: "job \<Rightarrow> (mock_chain, unit) world" where
  "demo_job_world j = demo_world\<lparr>wd_jobs := [(''J'', j)], wd_evidence := \<lparr>es_records = [(''P'', demo_piece)], es_store = ()\<rparr>\<rparr>"

theorem approval_four_eyes_witness:
  "\<exists>j w'. post_approve demo_backend (demo_http ''J'' []) (demo_job_world (demo_job COMPLETED JNull)) = (Inr j, w') \<and>
     (\<exists>u. session_of demo_backend (demo_http ''J'' []) (demo_job_world (demo_job COMPLETED JNull)) = Some u \<and>
        j = (demo_job COMPLETED JNull)\<lparr>job_status := VERIFIED, job_verifierId := JStr (usr_identityId u)\<rparr>)"
proof -
  let ?w = "demo_job_world (demo_job COMPLETED JNull)"
  let ?out = "post_approve demo_backend (demo_http ''J'' []) ?w"
  have "map_sum (\<lambda>_. ()) job_status (fst ?out) = Inr VERIFIED" by code_simp
  then obtain j w' where out: "?out = (Inr j, w')" by (cases ?out; cases "fst ?out") auto
  have "js_get (wd_jobs ?w) (hq_id (demo_http ''J'' [])) = Some (demo_job COMPLETED JNull)"
    by (simp add: demo_job_world_def demo_http_def)
  with approval_four_eyes [OF out] out show ?thesis by auto
qed

theorem completion_uses_stored_evidence_witness:
  "\<exists>j w' e. post_complete demo_backend (demo_http ''J'' [(''evidenceId'', JStr ''P'')])
       (demo_job_world ((demo_job IN_PROGRESS JNull)\<lparr>job_assignedTo := ''I''\<rparr>)) = (Inr j, w') \<and>
     js_get (es_records (wd_evidence (demo_job_world ((demo_job IN_PROGRESS JNull)\<lparr>job_assignedTo := ''I''\<rparr>)))) ''P'' = Some e \<and>
     evd_jobId e = ''J''"
proof -
  let ?w = "demo_job_world ((demo_job IN_PROGRESS JNull)\<lparr>job_assignedTo := ''I''\<rparr>)"
  let ?rq = "demo_http ''J'' [(''evidenceId'', JStr ''P'')]"
  let ?out = "post_complete demo_backend ?rq ?w"
  have "map_sum (\<lambda>_. ()) job_status (fst ?out) = Inr COMPLETED" by code_simp
  then obtain j w' where out: "?out = (Inr j, w')" by (cases ?out; cases "fst ?out") auto
  have "text_of (fld (hq_body ?rq) ''evidenceId'') = Some ''P''" by code_simp
  from completion_uses_stored_evidence [OF out this] have "\<exists>e. js_get (es_records (wd_evidence ?w)) ''P'' = Some e \<and> evd_jobId e = hq_id ?rq"
    by blast
  with out show ?thesis by (auto simp: demo_http_def)
qed

end
