(* ===== verification/AssetLedger.thy ===== *)
theory AssetLedger
  imports Assets
begin

text \<open>
  The assets service on a chain that obeys the ledger contract.  \<open>peek\<close> is the merged view
  that every read returns; \<open>as_step\<close> is the abstract machine on that view.  The locale
  \<open>asset_ledger\<close> states what the service relies on from the chain, its lemmas show that every
  request refines a step of the machine, and its interpretation on the mock chain discharges
  the contract.
\<close>

section \<open>The abstract machine\<close>

type_synonym asset_map = "string \<rightharpoonup> asset"

definition edges :: "asset_map \<Rightarrow> (string \<times> string) set" where
  "edges m = {(x, y). \<exists>a. m x = Some a \<and> parent_id a = Some y \<and> y \<noteq> []}"

inductive as_step :: "asset_map \<Rightarrow> asset_map \<Rightarrow> bool" where
  as_mint: "m i = None \<Longrightarrow> as_assetId a = i \<Longrightarrow> i \<noteq> [] \<Longrightarrow> as_status a = ACTIVE \<Longrightarrow>
    as_custodianId a = as_ownerId a \<Longrightarrow> \<not> blank (as_ownerId a) \<Longrightarrow>
    (\<forall>p. parent_id a = Some p \<longrightarrow> m p \<noteq> None) \<Longrightarrow> as_step m (m(i \<mapsto> a))"
| as_transfer: "m i = Some a \<Longrightarrow> as_status a \<noteq> DECOMMISSIONED \<Longrightarrow> parent_id a = None \<Longrightarrow> \<not> blank ow \<Longrightarrow>
    as_step m (m(i \<mapsto> a\<lparr>as_ownerId := ow, as_custodianId := ow\<rparr>))"
| as_state: "m i = Some a \<Longrightarrow> st \<in> set (asset_transitions (as_status a)) \<Longrightarrow>
    as_step m (m(i \<mapsto> a\<lparr>as_status := st\<rparr>))"
| as_attach: "m c = Some a \<Longrightarrow> m p = Some b \<Longrightarrow> as_status a \<noteq> DECOMMISSIONED \<Longrightarrow>
    as_status b \<noteq> DECOMMISSIONED \<Longrightarrow> parent_id a = None \<Longrightarrow> (p, c) \<notin> (edges m)\<^sup>* \<Longrightarrow>
    as_step m (m(c \<mapsto> a\<lparr>as_parentAssetId := Some (Some p)\<rparr>))"
| as_remove: "m c = Some a \<Longrightarrow> m p = Some b \<Longrightarrow> parent_id a = Some p \<Longrightarrow>
    as_step m (m(c \<mapsto> a\<lparr>as_parentAssetId := Some None\<rparr>))"
| as_stutter: "as_step m m"

text \<open>The hierarchy is a forest: no cycles, and every parent exists.\<close>

definition forest :: "asset_map \<Rightarrow> bool" where
  "forest m \<longleftrightarrow> acyclic (edges m) \<and> (\<forall>(x, y) \<in> edges m. m y \<noteq> None)"

definition custody :: "asset_map \<Rightarrow> bool" where
  "custody m \<longleftrightarrow> (\<forall>i a. m i = Some a \<longrightarrow> as_custodianId a = as_ownerId a \<and> \<not> blank (as_ownerId a))"

lemma edges_upd_same: "m i = Some a \<Longrightarrow> parent_id b = parent_id a \<Longrightarrow> edges (m(i \<mapsto> b)) = edges m"
  by (auto simp: edges_def split: if_splits)

lemma edges_upd_root: "parent_id b = None \<Longrightarrow> edges (m(i \<mapsto> b)) = {(x, y) \<in> edges m. x \<noteq> i}"
  by (auto simp: edges_def split: if_splits)

lemma edges_upd_child:
  "parent_id b = Some p \<Longrightarrow>
   edges (m(i \<mapsto> b)) = (if p = [] then {} else {(i, p)}) \<union> {(x, y) \<in> edges m. x \<noteq> i}"
  by (auto simp: edges_def split: if_splits)

lemma edges_no_source: "(case m i of None \<Rightarrow> True | Some a \<Rightarrow> parent_id a = None) \<Longrightarrow>
    {(x, y) \<in> edges m. x \<noteq> i} = edges m"
  by (auto simp: edges_def split: option.splits)

lemma rtrancl_no_target: "(\<And>x. (x, c) \<notin> R) \<Longrightarrow> (p, c) \<in> R\<^sup>* \<Longrightarrow> p = c"
  by (metis rtranclE)

lemma parent_id_simps [simp]:
  "parent_id (a\<lparr>as_ownerId := x\<rparr>) = parent_id a"
  "parent_id (a\<lparr>as_custodianId := x\<rparr>) = parent_id a"
  "parent_id (a\<lparr>as_status := st\<rparr>) = parent_id a"
  "parent_id (a\<lparr>as_parentAssetId := Some q\<rparr>) = q"
  by (simp_all add: parent_id_def)

lemma forest_child:
  assumes "forest m" "m i = None \<or> (\<exists>a. m i = Some a \<and> parent_id a = None)"
    and "parent_id b = Some p" "m p \<noteq> None" "(p, i) \<notin> (edges m)\<^sup>*"
  shows "forest (m(i \<mapsto> b))"
proof -
  have same: "{(x, y) \<in> edges m. x \<noteq> i} = edges m"
    using assms(2) by (intro edges_no_source) auto
  have e: "edges (m(i \<mapsto> b)) \<subseteq> insert (i, p) (edges m)"
    unfolding edges_upd_child [OF assms(3)] same by auto
  have "acyclic (insert (i, p) (edges m))"
    using assms(1,5) by (simp add: acyclic_insert forest_def)
  then have "acyclic (edges (m(i \<mapsto> b)))"
    using e acyclic_subset by blast
  moreover have "\<forall>(x, y) \<in> edges (m(i \<mapsto> b)). (m(i \<mapsto> b)) y \<noteq> None"
    using e assms(1,4) by (auto simp: forest_def)
  ultimately show ?thesis by (simp add: forest_def)
qed

lemma forest_root: "forest m \<Longrightarrow> parent_id b = None \<Longrightarrow> forest (m(i \<mapsto> b))"
proof -
  assume "forest m" "parent_id b = None"
  moreover from this have "edges (m(i \<mapsto> b)) \<subseteq> edges m" by (auto simp: edges_upd_root)
  ultimately show ?thesis by (auto simp: forest_def intro: acyclic_subset)
qed

lemma forest_same: "forest m \<Longrightarrow> m i = Some a \<Longrightarrow> parent_id b = parent_id a \<Longrightarrow> forest (m(i \<mapsto> b))"
  by (auto simp: forest_def edges_upd_same)

lemma as_step_forest: "as_step m m' \<Longrightarrow> forest m \<Longrightarrow> forest m'"
proof (induction rule: as_step.induct)
  case (as_mint m i a)
  show ?case
  proof (cases "parent_id a")
    case None
    with as_mint show ?thesis by (intro forest_root)
  next
    case (Some p)
    have "(x, i) \<notin> edges m" for x
      using as_mint by (auto simp: forest_def)
    moreover have "p \<noteq> i" using as_mint Some by auto
    ultimately have "(p, i) \<notin> (edges m)\<^sup>*" using rtrancl_no_target by metis
    with as_mint Some show ?thesis by (intro forest_child) auto
  qed
next
  case (as_attach m c a p b)
  then show ?case by (intro forest_child [of _ _ _ p]) auto
qed (auto intro: forest_same forest_root)

lemma forest_empty: "forest Map.empty"
  by (simp add: forest_def edges_def acyclic_def)

lemma custody_empty: "custody Map.empty"
  by (simp add: custody_def)

lemma as_step_custody: "as_step m m' \<Longrightarrow> custody m \<Longrightarrow> custody m'"
  by (induction rule: as_step.induct) (auto simp: custody_def)

lemma as_step_decommissioned:
  assumes "as_step m m'" "m i = Some a" "as_status a = DECOMMISSIONED"
  shows "\<exists>p. m' i = Some (a\<lparr>as_parentAssetId := p\<rparr>)"
proof -
  have "a = a\<lparr>as_parentAssetId := as_parentAssetId a\<rparr>" by simp
  then have "\<exists>p. a = a\<lparr>as_parentAssetId := p\<rparr>" by blast
  with assms show ?thesis by (induction rule: as_step.induct) auto
qed

text \<open>Ids are never forgotten.\<close>

lemma as_step_dom: "as_step m m' \<Longrightarrow> m i \<noteq> None \<Longrightarrow> m' i \<noteq> None"
  by (induction rule: as_step.induct) auto

section \<open>The view of the service\<close>

definition peek :: "('c \<Rightarrow> asset_map) \<Rightarrow> 'c assets_state \<Rightarrow> asset_map" where
  "peek look s = (\<lambda>i. case look (ast_chain s) i of
     None \<Rightarrow> cached_asset s i | Some oc \<Rightarrow> Some (mergeAsset oc (cached_asset s i)))"

text \<open>Everything in the cache and in the repository is known to the chain.\<close>

definition synced :: "('c \<Rightarrow> asset_map) \<Rightarrow> 'c assets_state \<Rightarrow> bool" where
  "synced look s \<longleftrightarrow> (\<forall>i. cached_asset s i \<noteq> None \<longrightarrow> look (ast_chain s) i \<noteq> None)"

lemma merge_idem [simp]: "mergeAsset oc (Some (mergeAsset oc x)) = mergeAsset oc x"
  by (auto simp: mergeAsset_def split: option.splits)

lemma merge_upd:
  "mergeAsset (oc\<lparr>as_ownerId := ow, as_custodianId := cu\<rparr>)
     (Some ((mergeAsset oc x)\<lparr>as_ownerId := ow, as_custodianId := cu\<rparr>))
   = (mergeAsset oc x)\<lparr>as_ownerId := ow, as_custodianId := cu\<rparr>"
  "mergeAsset (oc\<lparr>as_status := st\<rparr>) (Some ((mergeAsset oc x)\<lparr>as_status := st\<rparr>))
   = (mergeAsset oc x)\<lparr>as_status := st\<rparr>"
  "mergeAsset (oc\<lparr>as_parentAssetId := Some q\<rparr>) (Some ((mergeAsset oc x)\<lparr>as_parentAssetId := Some q\<rparr>))
   = (mergeAsset oc x)\<lparr>as_parentAssetId := Some q\<rparr>"
  by (auto simp: mergeAsset_def split: option.splits)

lemma cached_cache_set:
  "cached_asset (s\<lparr>ast_cache := js_set i a (ast_cache s)\<rparr>) j = (if j = i then Some a else cached_asset s j)"
  by (simp add: cached_asset_def or_else_def)

lemma cached_commit:
  "as_assetId a = i \<Longrightarrow>
   cached_asset (s\<lparr>ast_cache := js_set i a (ast_cache s), ast_repo := assets_save a (ast_repo s)\<rparr>) j
   = (if j = i then Some a else cached_asset s j)"
  by (simp add: cached_asset_def or_else_def asset_repo_defs)

lemma cached_chain [simp]: "cached_asset (s\<lparr>ast_chain := c\<rparr>) = cached_asset s"
  by (simp add: cached_asset_def fun_eq_iff)

section \<open>The ledger contract\<close>

locale asset_ledger =
  fixes svc :: "'c assets_svc"
    and look :: "'c \<Rightarrow> asset_map"
    and ok :: "'c \<Rightarrow> bool"
  assumes read: "getAsset (asv_chain svc) i c = Inr (look c i)"
    and look_key: "ok c \<Longrightarrow> look c i = Some a \<Longrightarrow> as_assetId a = i \<and> i \<noteq> []"
    and ok_submit: "ok c \<Longrightarrow> detailed_submit (asv_chain svc) en tx c = (x, c') \<Longrightarrow> ok c'"
    and l_fail: "detailed_submit (asv_chain svc) en tx c = (x, c') \<Longrightarrow> (\<forall>r. x = Inr r \<longrightarrow> res_status r \<noteq> SUCCESS) \<Longrightarrow>
      look c' = look c"
    and l_mint: "ok c \<Longrightarrow> detailed_submit (asv_chain svc) en tx c = (Inr r, c') \<Longrightarrow> res_status r = SUCCESS \<Longrightarrow>
      tx_type tx = ASSET_MINT \<Longrightarrow>
      tx_payload tx = [(''assetId'', JStr i), (''assetType'', JStr t), (''ownerId'', JStr ow),
        (''custodianId'', JStr ow), (''parentAssetId'', opt_str up)] \<Longrightarrow>
      look c i = None \<Longrightarrow> i \<noteq> [] \<Longrightarrow> t \<noteq> [] \<Longrightarrow> ow \<noteq> [] \<Longrightarrow> up \<noteq> Some [] \<Longrightarrow>
      \<exists>n ty. look c' = (look c)(i \<mapsto> \<lparr>as_assetId = i, as_nftId = n, as_assetType = ty, as_ownerId = ow,
        as_custodianId = ow, as_parentAssetId = Some up, as_status = ACTIVE\<rparr>) \<and> ty \<in> {[], t}"
    and l_transfer: "ok c \<Longrightarrow> detailed_submit (asv_chain svc) en tx c = (Inr r, c') \<Longrightarrow> res_status r = SUCCESS \<Longrightarrow>
      tx_type tx = ASSET_TRANSFER \<Longrightarrow> tx_payload tx = transfer_payload a ow \<Longrightarrow> ow \<noteq> [] \<Longrightarrow>
      look c (as_assetId a) = Some oc \<Longrightarrow>
      look c' = (look c)(as_assetId a \<mapsto> oc\<lparr>as_ownerId := ow, as_custodianId := ow\<rparr>)"
    and l_state: "ok c \<Longrightarrow> detailed_submit (asv_chain svc) en tx c = (Inr r, c') \<Longrightarrow> res_status r = SUCCESS \<Longrightarrow>
      tx_type tx = ASSET_STATE_CHANGE \<Longrightarrow> tx_payload tx = state_payload a st \<Longrightarrow>
      look c (as_assetId a) = Some oc \<Longrightarrow> look c' = (look c)(as_assetId a \<mapsto> oc\<lparr>as_status := st\<rparr>)"
    and l_attach: "ok c \<Longrightarrow> detailed_submit (asv_chain svc) en tx c = (Inr r, c') \<Longrightarrow> res_status r = SUCCESS \<Longrightarrow>
      tx_type tx = COMPONENT_ATTACH \<Longrightarrow> tx_payload tx = component_payload p k a b \<Longrightarrow> p \<noteq> [] \<Longrightarrow>
      look c k = Some oc \<Longrightarrow> look c' = (look c)(k \<mapsto> oc\<lparr>as_parentAssetId := Some (Some p)\<rparr>)"
    and l_remove: "ok c \<Longrightarrow> detailed_submit (asv_chain svc) en tx c = (Inr r, c') \<Longrightarrow> res_status r = SUCCESS \<Longrightarrow>
      tx_type tx = COMPONENT_REMOVE \<Longrightarrow> tx_payload tx = component_payload p k a b \<Longrightarrow>
      look c k = Some oc \<Longrightarrow> look c' = (look c)(k \<mapsto> oc\<lparr>as_parentAssetId := Some None\<rparr>)"
begin

definition inv :: "'c assets_state \<Rightarrow> bool" where
  "inv s \<longleftrightarrow> ok (ast_chain s) \<and> synced look s"

text \<open>States that no reader can tell apart.\<close>

definition same :: "'c assets_state \<Rightarrow> 'c assets_state \<Rightarrow> bool" where
  "same s t \<longleftrightarrow> peek look t = peek look s \<and> ast_chain t = ast_chain s \<and> ast_repo t = ast_repo s \<and>
     synced look t = synced look s"

lemma same_refl [simp]: "same s s"
  by (simp add: same_def)

lemma same_trans: "same s t \<Longrightarrow> same t u \<Longrightarrow> same s u"
  by (simp add: same_def)

lemma same_inv: "same s t \<Longrightarrow> inv s \<Longrightarrow> inv t"
  by (auto simp: same_def inv_def)

lemma getById_run:
  assumes "getById svc i s = (r, s')"
  shows "r = Inr (peek look s i) \<and> same s s'"
proof (cases "look (ast_chain s) i")
  case None
  with assms show ?thesis by (auto simp: getById_def read exec_defs peek_def same_def)
next
  case (Some oc)
  let ?a = "mergeAsset oc (cached_asset s i)"
  from Some assms have r: "r = Inr (Some ?a)"
    and s': "s' = s\<lparr>ast_cache := js_set i ?a (ast_cache s)\<rparr>"
    by (auto simp: getById_def read exec_defs cache_set_def Let_def)
  have "peek look s' j = peek look s j" for j
    using Some by (cases "j = i") (simp_all add: s' peek_def cached_cache_set split: option.splits)
  then have "peek look s' = peek look s" by (rule ext)
  moreover have "synced look s' = synced look s"
    using Some by (auto simp: s' synced_def cached_cache_set)
  ultimately show ?thesis
    using Some by (simp add: r peek_def same_def s')
qed

lemma keeps_getById [keep]: "keeps (same s) (getById svc i)"
  by (rule keepsI) (metis getById_run same_trans)

lemma requireAsset_ok:
  assumes "requireAsset svc i f s = (Inr a, s')"
  shows "peek look s i = Some a \<and> same s s'"
  using assms by (auto simp: requireAsset_def run dest!: getById_run)

lemma keeps_requireAsset [keep]: "keeps (same s) (requireAsset svc i f)"
  by (auto simp: requireAsset_def intro!: keep)

lemma keeps_requiredString [keep, simp]: "keeps P (requiredString v f)"
  by (simp add: requiredString_def)

lemma keeps_required_status [keep, simp]: "keeps P (required_status v)"
  by (simp add: required_status_def)

lemma keeps_transfer_checks [keep, simp]: "keeps P (transfer_checks svc i a x y)"
  by (auto simp: transfer_checks_def intro!: keep)

lemma keeps_asset_tx [keep, simp]: "keeps P (asset_tx en k ty a p)"
  by (auto simp: asset_tx_def requireActor_def Let_def intro!: keep)

lemma keeps_noCycle [keep]:
  "keeps (same s) (noCycle_loop svc n c vis cur)"
  by (induction n arbitrary: vis cur)
    (subst noCycle_loop.simps; auto intro!: keep split: option.splits nat.splits)+

lemma keeps_attach_checks [keep]: "keeps (same s) (attach_checks svc p c a b)"
  by (auto simp: attach_checks_def assertNoCycle_def intro!: keep)

text \<open>A request went well: its outcome is a step of the machine, and its result is what readers see.\<close>

definition stepped :: "'c assets_state \<Rightarrow> error + asset \<Rightarrow> 'c assets_state \<Rightarrow> bool" where
  "stepped s r s' \<longleftrightarrow> inv s' \<and> as_step (peek look s) (peek look s') \<and>
     (case r of Inl e \<Rightarrow> peek look s' = peek look s \<and> ast_repo s' = ast_repo s
      | Inr a \<Rightarrow> peek look s' (as_assetId a) = Some a \<and>
          assets_findById (ast_repo s') (as_assetId a) = Some a)"

lemma same_stepped: "inv s \<Longrightarrow> same s s' \<Longrightarrow> stepped s (Inl e) s'"
  by (auto simp: stepped_def same_def inv_def intro: as_stutter)

lemma same_then_stepped: "same s t \<Longrightarrow> stepped t r s' \<Longrightarrow> stepped s r s'"
  by (auto simp: stepped_def same_def split: sum.splits)

lemma peek_chain:
  "look c = look (ast_chain s) \<Longrightarrow> peek look (s\<lparr>ast_chain := c\<rparr>) = peek look s"
  by (simp add: peek_def cong: option.case_cong)

lemma assets_submit_err:
  assumes "inv s" "assets_submit svc en tx s = (Inl e, s')"
  shows "stepped s (Inl e) s'"
proof -
  obtain x c where d: "detailed_submit (asv_chain svc) en tx (ast_chain s) = (x, c)" by fastforce
  with assms(2) have s': "s' = s\<lparr>ast_chain := c\<rparr>" and "\<forall>r. x = Inr r \<longrightarrow> res_status r \<noteq> SUCCESS"
    by (auto simp: assets_submit_def exec_defs split: sum.splits if_splits)
  then have "look c = look (ast_chain s)" using l_fail [OF d] by blast
  with assms(1) s' ok_submit [OF _ d] show ?thesis
    by (auto simp: stepped_def inv_def synced_def peek_chain intro: as_stutter)
qed

lemma commit_stepped:
  assumes inv: "inv s"
    and run: "commit_asset svc en i tx fb s = (r, s')"
    and eff: "\<And>r c. detailed_submit (asv_chain svc) en tx (ast_chain s) = (Inr r, c) \<Longrightarrow>
      res_status r = SUCCESS \<Longrightarrow>
      \<exists>oc. look c = (look (ast_chain s))(i \<mapsto> oc) \<and> mergeAsset oc (Some fb) = a \<and> as_assetId a = i"
    and step: "as_step (peek look s) ((peek look s)(i \<mapsto> a))"
  shows "stepped s r s'"
proof (cases "assets_submit svc en tx s")
  case (Pair q t)
  show ?thesis
  proof (cases q)
    case (Inl e)
    with Pair run have "r = Inl e" "s' = t" by (auto simp: commit_asset_def exec_defs)
    with assets_submit_err [OF inv] Pair Inl show ?thesis by simp
  next
    case (Inr res)
    with Pair obtain c where d: "detailed_submit (asv_chain svc) en tx (ast_chain s) = (Inr res, c)"
      and t: "t = s\<lparr>ast_chain := c\<rparr>" and "res_status res = SUCCESS"
      by (auto simp: assets_submit_def exec_defs split: prod.splits sum.splits if_splits)
    with eff obtain oc where lk: "look c = (look (ast_chain s))(i \<mapsto> oc)"
      and a: "mergeAsset oc (Some fb) = a" and key: "as_assetId a = i" by blast
    have r: "r = Inr a"
      and s': "s' = t\<lparr>ast_cache := js_set i a (ast_cache t), ast_repo := assets_save a (ast_repo t)\<rparr>"
      using run Pair Inr lk a
      by (auto simp: commit_asset_def reconcileAfterWrite_def read exec_defs cache_set_def t)
    have cs: "cached_asset s' j = (if j = i then Some a else cached_asset s j)" for j
      unfolding s' by (subst cached_commit [OF key]) (simp add: t)
    have ch: "ast_chain s' = c" by (simp add: s' t)
    have "mergeAsset oc (Some a) = a" using a by (metis merge_idem)
    then have pk: "peek look s' = (peek look s)(i \<mapsto> a)"
      using lk by (auto simp: peek_def cs ch fun_eq_iff cong: option.case_cong)
    moreover have "inv s'"
      using inv ok_submit [OF _ d] lk by (auto simp: inv_def synced_def cs ch)
    moreover have "assets_findById (ast_repo s') i = Some a"
      using key asset_repo.read_your_write [of a "ast_repo s"] by (simp add: s' t)
    ultimately show ?thesis using step key by (simp add: stepped_def r)
  qed
qed

lemma peek_look:
  assumes "inv s" "peek look s i = Some a"
  obtains oc where "look (ast_chain s) i = Some oc" "a = mergeAsset oc (cached_asset s i)"
    "as_assetId a = i" "i \<noteq> []"
proof -
  from assms obtain oc where oc: "look (ast_chain s) i = Some oc" "a = mergeAsset oc (cached_asset s i)"
    by (auto simp: peek_def inv_def synced_def split: option.splits)
  moreover from oc assms(1) look_key have "as_assetId oc = i \<and> i \<noteq> []" by (auto simp: inv_def)
  ultimately show thesis by (intro that) (auto simp: mergeAsset_def)
qed

lemma asset_tx_ok:
  "asset_tx en k ty a p s = (Inr tx, s') \<Longrightarrow> s' = s \<and> tx_type tx = ty \<and> tx_payload tx = p"
  by (auto simp: asset_tx_def requireActor_def requiredString_def Let_def run)

lemma requiredString_ok:
  "requiredString v f s = (Inr x, s') \<longleftrightarrow> s' = s \<and> (\<exists>y. v = JStr y \<and> \<not> blank y \<and> x = trim y)"
  by (auto simp: requiredString_def run text_of_Some)

lemma transfer_checks_ok:
  assumes "transfer_checks svc' i a x y s = (Inr ow, s')"
  shows "s' = s \<and> \<not> blank ow \<and> as_status a \<noteq> DECOMMISSIONED \<and> parent_id a = None"
  using assms
  by (auto simp: transfer_checks_def run requiredString_ok split: if_splits)

lemma transfer_commit:
  assumes "inv s" "peek look s i = Some a" "\<not> blank ow" "as_status a \<noteq> DECOMMISSIONED" "parent_id a = None"
    and "tx_type tx = ASSET_TRANSFER" "tx_payload tx = transfer_payload a ow"
    and "commit_asset svc en i tx (a\<lparr>as_ownerId := ow, as_custodianId := ow\<rparr>) s = (r, s')"
  shows "stepped s r s'"
proof -
  from peek_look [OF assms(1,2)] obtain oc where oc: "look (ast_chain s) i = Some oc"
    "a = mergeAsset oc (cached_asset s i)" "as_assetId a = i" "i \<noteq> []" by blast
  have "ow \<noteq> []" using assms(3) by (rule not_blank_nonempty)
  show ?thesis
  proof (rule commit_stepped [OF assms(1,8)])
    fix r c
    assume "detailed_submit (asv_chain svc) en tx (ast_chain s) = (Inr r, c)" "res_status r = SUCCESS"
    from l_transfer [OF _ this assms(6,7) \<open>ow \<noteq> []\<close>] oc assms(1)
    show "\<exists>oc. look c = (look (ast_chain s))(i \<mapsto> oc) \<and>
        mergeAsset oc (Some (a\<lparr>as_ownerId := ow, as_custodianId := ow\<rparr>)) =
          a\<lparr>as_ownerId := ow, as_custodianId := ow\<rparr> \<and>
        as_assetId (a\<lparr>as_ownerId := ow, as_custodianId := ow\<rparr>) = i"
      by (auto simp: inv_def merge_upd)
  qed (use assms in \<open>auto intro: as_transfer\<close>)
qed

lemma state_commit:
  assumes "inv s" "peek look s i = Some a" "st \<in> set (asset_transitions (as_status a))"
    and "tx_type tx = ASSET_STATE_CHANGE" "tx_payload tx = state_payload a st"
    and "commit_asset svc en i tx (a\<lparr>as_status := st\<rparr>) s = (r, s')"
  shows "stepped s r s'"
proof -
  from peek_look [OF assms(1,2)] obtain oc where oc: "look (ast_chain s) i = Some oc"
    "a = mergeAsset oc (cached_asset s i)" "as_assetId a = i" by blast
  show ?thesis
  proof (rule commit_stepped [OF assms(1,6)])
    fix r c
    assume "detailed_submit (asv_chain svc) en tx (ast_chain s) = (Inr r, c)" "res_status r = SUCCESS"
    from l_state [OF _ this assms(4,5)] oc assms(1)
    show "\<exists>oc. look c = (look (ast_chain s))(i \<mapsto> oc) \<and>
        mergeAsset oc (Some (a\<lparr>as_status := st\<rparr>)) = a\<lparr>as_status := st\<rparr> \<and>
        as_assetId (a\<lparr>as_status := st\<rparr>) = i"
      by (auto simp: inv_def merge_upd)
  qed (use assms in \<open>auto intro: as_state\<close>)
qed

lemma component_commit:
  assumes "inv s" "peek look s k = Some a"
    and "tx_payload tx = component_payload p k b x"
    and "tx_type tx = COMPONENT_ATTACH \<and> up = Some p \<and> p \<noteq> [] \<or> tx_type tx = COMPONENT_REMOVE \<and> up = None"
    and "as_step (peek look s) ((peek look s)(k \<mapsto> a\<lparr>as_parentAssetId := Some up\<rparr>))"
    and "commit_asset svc en k tx (a\<lparr>as_parentAssetId := Some up\<rparr>) s = (r, s')"
  shows "stepped s r s'"
proof -
  from peek_look [OF assms(1,2)] obtain oc where oc: "look (ast_chain s) k = Some oc"
    "a = mergeAsset oc (cached_asset s k)" "as_assetId a = k" by blast
  show ?thesis
  proof (rule commit_stepped [OF assms(1,6) _ assms(5)])
    fix r c
    assume d: "detailed_submit (asv_chain svc) en tx (ast_chain s) = (Inr r, c)" "res_status r = SUCCESS"
    have "look c = (look (ast_chain s))(k \<mapsto> oc\<lparr>as_parentAssetId := Some up\<rparr>)"
      using assms(4) l_attach [OF _ d _ assms(3)] l_remove [OF _ d _ assms(3)] oc assms(1)
      by (auto simp: inv_def)
    then show "\<exists>oc. look c = (look (ast_chain s))(k \<mapsto> oc) \<and>
        mergeAsset oc (Some (a\<lparr>as_parentAssetId := Some up\<rparr>)) = a\<lparr>as_parentAssetId := Some up\<rparr> \<and>
        as_assetId (a\<lparr>as_parentAssetId := Some up\<rparr>) = k"
      using oc by (auto simp: merge_upd)
  qed
qed

text \<open>A prefix that only reads, followed by the rest of the request.\<close>

lemma reading_bind:
  assumes "bindE f g s = (r, s')" "inv s" "keeps (same s) f"
    and "\<And>x t. f s = (Inr x, t) \<Longrightarrow> same s t \<Longrightarrow> inv t \<Longrightarrow> g x t = (r, s') \<Longrightarrow> stepped t r s'"
  shows "stepped s r s'"
proof (cases "f s")
  case (Pair q t)
  then have st: "same s t" using assms(3) same_refl by (blast dest: keepsD)
  show ?thesis
  proof (cases q)
    case (Inl e)
    with Pair assms(1) have "r = Inl e" "s' = t" by (auto simp: bindE_def)
    with st assms(2) show ?thesis by (simp add: same_stepped)
  next
    case (Inr x)
    with Pair assms(1) have "g x t = (r, s')" by (simp add: bindE_def)
    with assms(4) Pair Inr st assms(2) show ?thesis by (blast intro: same_then_stepped same_inv)
  qed
qed

lemma reading_then:
  assumes "thenE f g s = (r, s')" "inv s" "keeps (same s) f"
    and "\<And>x t. f s = (Inr x, t) \<Longrightarrow> same s t \<Longrightarrow> inv t \<Longrightarrow> g t = (r, s') \<Longrightarrow> stepped t r s'"
  shows "stepped s r s'"
  using reading_bind [of f "\<lambda>_. g"] assms unfolding thenE_def by blast

lemma transfer_stepped:
  assumes "transfer svc en i x y a s = (r, s')" "inv s"
  shows "stepped s r s'"
  using assms(1) unfolding transfer_def
proof (rule reading_bind [OF _ assms(2) keeps_requireAsset])
  fix asset t
  assume a: "requireAsset svc i ''assetId'' s = (Inr asset, t)" and t: "same s t" "inv t"
  then have pk: "peek look t i = Some asset" by (auto dest!: requireAsset_ok simp: same_def)
  assume "bindE (transfer_checks svc i asset (JStr x) (case y of None \<Rightarrow> JUndefined | Some x \<Rightarrow> JStr x))
    (\<lambda>ow. bindE (asset_tx en 0 ASSET_TRANSFER a (transfer_payload asset ow))
      (\<lambda>tx. commit_asset svc en i tx (asset\<lparr>as_ownerId := ow, as_custodianId := ow\<rparr>))) t = (r, s')"
  then show "stepped t r s'"
  proof (rule reading_bind [OF _ t(2) keeps_transfer_checks])
    fix ow u
    assume c: "transfer_checks svc i asset (JStr x) (case y of None \<Rightarrow> JUndefined | Some x \<Rightarrow> JStr x) t = (Inr ow, u)"
      and "inv u"
      and "bindE (asset_tx en 0 ASSET_TRANSFER a (transfer_payload asset ow))
        (\<lambda>tx. commit_asset svc en i tx (asset\<lparr>as_ownerId := ow, as_custodianId := ow\<rparr>)) u = (r, s')"
    then show "stepped u r s'"
      by (elim reading_bind [OF _ _ keeps_asset_tx])
        (use pk transfer_checks_ok [OF c] in \<open>auto dest!: asset_tx_ok intro: transfer_commit\<close>)
  qed
qed

lemma state_stepped:
  assumes "changeAssetState svc en i x a s = (r, s')" "inv s"
  shows "stepped s r s'"
  using assms(1) unfolding changeAssetState_def
proof (rule reading_bind [OF _ assms(2) keeps_required_status])
  fix st t0
  assume "inv t0" and "bindE (requireAsset svc i ''assetId'') (\<lambda>asset.
     thenE (assertStateTransition (as_status asset) st)
     (bindE (asset_tx en 0 ASSET_STATE_CHANGE a (state_payload asset st)) (\<lambda>tx.
       commit_asset svc en i tx (asset\<lparr>as_status := st\<rparr>)))) t0 = (r, s')"
  then show "stepped t0 r s'"
  proof (elim reading_bind [OF _ _ keeps_requireAsset])
    fix asset t
    assume "requireAsset svc i ''assetId'' t0 = (Inr asset, t)" "same t0 t" and inv: "inv t"
    then have pk: "peek look t i = Some asset" by (auto dest!: requireAsset_ok simp: same_def)
    assume "thenE (assertStateTransition (as_status asset) st)
     (bindE (asset_tx en 0 ASSET_STATE_CHANGE a (state_payload asset st)) (\<lambda>tx.
       commit_asset svc en i tx (asset\<lparr>as_status := st\<rparr>))) t = (r, s')"
    then show "stepped t r s'"
    proof (rule reading_then [OF _ inv])
      fix x u
      assume "assertStateTransition (as_status asset) st t = (Inr x, u)"
      then have ok: "u = t" "st \<in> set (asset_transitions (as_status asset))"
        by (auto simp: assertStateTransition_def run)
      assume "inv u" "bindE (asset_tx en 0 ASSET_STATE_CHANGE a (state_payload asset st)) (\<lambda>tx.
       commit_asset svc en i tx (asset\<lparr>as_status := st\<rparr>)) u = (r, s')"
      then show "stepped u r s'"
        by (elim reading_bind [OF _ _ keeps_asset_tx])
          (use pk ok in \<open>auto dest!: asset_tx_ok intro: state_commit\<close>)
    qed (simp add: assertStateTransition_def)
  qed
qed

text \<open>A walk that ends without an error has seen every ancestor.\<close>

lemma noCycle_ok:
  assumes "noCycle_loop svc n c vis cur s = (Inr u, s')" "cur = peek look s x"
  shows "(x, c) \<notin> (edges (peek look s))\<^sup>+"
  using assms
proof (induction n arbitrary: vis cur s x)
  case 0
  then have "truthy_parent cur = None"
    by (subst (asm) noCycle_loop.simps) (auto simp: run split: option.splits)
  then have "(x, y) \<notin> edges (peek look s)" for y
    using 0 by (auto simp: truthy_parent_def edges_def split: option.splits if_splits)
  then show ?case by (meson tranclD)
next
  case (Suc n)
  show ?case
  proof (cases "truthy_parent cur")
    case None
    then have "(x, y) \<notin> edges (peek look s)" for y
      using Suc.prems by (auto simp: truthy_parent_def edges_def split: option.splits if_splits)
    then show ?thesis by (meson tranclD)
  next
    case (Some ap)
    then obtain a p where ap: "truthy_parent cur = Some (a, p)" by fastforce
    with Suc.prems(1) obtain q t where "p \<noteq> c" and g: "getById svc p s = (Inr q, t)"
      and loop: "noCycle_loop svc n c (as_assetId a # vis) q t = (Inr u, s')"
      by (subst (asm) noCycle_loop.simps) (auto simp: run)
    from getById_run [OF g] have q: "q = peek look t p" and same: "peek look t = peek look s"
      by (auto simp: same_def)
    have next_only: "(x, y) \<in> edges (peek look s) \<Longrightarrow> y = p" for y
      using ap Suc.prems(2) by (auto simp: truthy_parent_def edges_def split: option.splits if_splits)
    have "(p, c) \<notin> (edges (peek look s))\<^sup>+"
      using Suc.IH [OF loop q] same by simp
    with \<open>p \<noteq> c\<close> next_only show ?thesis by (metis tranclD rtranclD)
  qed
qed

lemma attach_checks_ok:
  assumes "attach_checks svc p c b a s = (Inr u, s')"
  shows "same s s' \<and> as_status b \<noteq> DECOMMISSIONED \<and> as_status a \<noteq> DECOMMISSIONED \<and> parent_id a = None \<and>
    (p, c) \<notin> (edges (peek look s))\<^sup>*"
proof -
  from assms obtain q t where ok: "p \<noteq> c" "as_status b \<noteq> DECOMMISSIONED" "as_status a \<noteq> DECOMMISSIONED"
      "parent_id a = None"
    and g: "getById svc p s = (Inr q, t)"
    and loop: "noCycle_loop svc (asv_fuel svc) c [] q t = (Inr u, s')"
    by (auto simp: attach_checks_def assertNoCycle_def run)
  from getById_run [OF g] have q: "q = peek look t p" and st: "same s t"
    by (auto simp: same_def)
  from noCycle_ok [OF loop q] st ok(1) have "(p, c) \<notin> (edges (peek look s))\<^sup>*"
    by (auto simp: same_def dest: rtranclD)
  moreover have "same s s'"
    using keepsD [OF keeps_noCycle loop] same_refl st same_trans by blast
  ultimately show ?thesis using ok by blast
qed

lemma attach_stepped:
  assumes "attachComponent svc en p c a s = (r, s')" "inv s"
  shows "stepped s r s'"
  using assms(1) unfolding attachComponent_def
proof (rule reading_bind [OF _ assms(2) keeps_requireAsset])
  fix b t
  assume "requireAsset svc p ''parentAssetId'' s = (Inr b, t)" "same s t" and inv: "inv t"
  then have pb: "peek look t p = Some b" by (auto dest!: requireAsset_ok simp: same_def)
  assume "bindE (requireAsset svc c ''componentId'') (\<lambda>cmp. thenE (attach_checks svc p c b cmp)
     (bindE (asset_tx en 0 COMPONENT_ATTACH a (component_payload p c b cmp)) (\<lambda>tx.
       commit_asset svc en c tx (cmp\<lparr>as_parentAssetId := Some (Some p)\<rparr>)))) t = (r, s')"
  then show "stepped t r s'"
  proof (rule reading_bind [OF _ inv keeps_requireAsset])
    fix k u
    assume "requireAsset svc c ''componentId'' t = (Inr k, u)" "same t u" and inv_u: "inv u"
    then have pk: "peek look u c = Some k" and pb_u: "peek look u p = Some b"
      using pb by (auto dest!: requireAsset_ok simp: same_def)
    assume "thenE (attach_checks svc p c b k)
      (bindE (asset_tx en 0 COMPONENT_ATTACH a (component_payload p c b k)) (\<lambda>tx.
        commit_asset svc en c tx (k\<lparr>as_parentAssetId := Some (Some p)\<rparr>))) u = (r, s')"
    then show "stepped u r s'"
    proof (rule reading_then [OF _ inv_u keeps_attach_checks])
      fix x v
      assume chk: "attach_checks svc p c b k u = (Inr x, v)" and "same u v" and inv_v: "inv v"
      then have pv: "peek look v c = Some k" "peek look v p = Some b" "p \<noteq> []"
        using pk pb_u peek_look [OF inv_u pb_u] by (auto simp: same_def)
      have "as_step (peek look v) ((peek look v)(c \<mapsto> k\<lparr>as_parentAssetId := Some (Some p)\<rparr>))"
        using attach_checks_ok [OF chk] pv by (intro as_attach [OF pv(1,2)]) (auto simp: same_def)
      moreover assume "bindE (asset_tx en 0 COMPONENT_ATTACH a (component_payload p c b k)) (\<lambda>tx.
        commit_asset svc en c tx (k\<lparr>as_parentAssetId := Some (Some p)\<rparr>)) v = (r, s')"
      ultimately show "stepped v r s'"
        by (elim reading_bind [OF _ inv_v keeps_asset_tx])
          (use pv in \<open>auto dest!: asset_tx_ok intro: component_commit [OF _ pv(1)]\<close>)
    qed
  qed
qed

lemma remove_stepped:
  assumes "removeComponent svc en p c a s = (r, s')" "inv s"
  shows "stepped s r s'"
  using assms(1) unfolding removeComponent_def
proof (rule reading_bind [OF _ assms(2) keeps_requireAsset])
  fix b t
  assume "requireAsset svc p ''parentAssetId'' s = (Inr b, t)" "same s t" and inv: "inv t"
  then have pb: "peek look t p = Some b" by (auto dest!: requireAsset_ok simp: same_def)
  assume "bindE (requireAsset svc c ''componentId'') (\<lambda>cmp. thenE (remove_checks p c cmp)
     (bindE (asset_tx en 0 COMPONENT_REMOVE a (component_payload p c b cmp)) (\<lambda>tx.
       commit_asset svc en c tx (cmp\<lparr>as_parentAssetId := Some None\<rparr>)))) t = (r, s')"
  then show "stepped t r s'"
  proof (rule reading_bind [OF _ inv keeps_requireAsset])
    fix k u
    assume "requireAsset svc c ''componentId'' t = (Inr k, u)" "same t u" and inv_u: "inv u"
    then have pk: "peek look u c = Some k" and pb_u: "peek look u p = Some b"
      using pb by (auto dest!: requireAsset_ok simp: same_def)
    assume "thenE (remove_checks p c k)
      (bindE (asset_tx en 0 COMPONENT_REMOVE a (component_payload p c b k)) (\<lambda>tx.
        commit_asset svc en c tx (k\<lparr>as_parentAssetId := Some None\<rparr>))) u = (r, s')"
    then show "stepped u r s'"
    proof (rule reading_then [OF _ inv_u])
      fix x v
      assume "remove_checks p c k u = (Inr x, v)" and inv_v: "inv v"
      then have v: "v = u" "parent_id k = Some p" by (auto simp: remove_checks_def run)
      then have "as_step (peek look v) ((peek look v)(c \<mapsto> k\<lparr>as_parentAssetId := Some None\<rparr>))"
        using pk pb_u by (auto intro: as_remove)
      moreover assume "bindE (asset_tx en 0 COMPONENT_REMOVE a (component_payload p c b k)) (\<lambda>tx.
        commit_asset svc en c tx (k\<lparr>as_parentAssetId := Some None\<rparr>)) v = (r, s')"
      ultimately show "stepped v r s'"
        by (elim reading_bind [OF _ inv_v keeps_asset_tx])
          (use pk v in \<open>auto dest!: asset_tx_ok intro: component_commit [OF _ pk]\<close>)
    qed (simp add: remove_checks_def)
  qed
qed

lemma mint_commit:
  assumes "inv s" "peek look s i = None" "i \<noteq> []" "t \<noteq> []" "\<not> blank ow"
    and "\<forall>p. up = Some p \<longrightarrow> peek look s p \<noteq> None"
    and "tx_type tx = ASSET_MINT"
    and "tx_payload tx = [(''assetId'', JStr i), (''assetType'', JStr t), (''ownerId'', JStr ow),
        (''custodianId'', JStr ow), (''parentAssetId'', opt_str up)]"
    and run: "commit_asset svc en i tx \<lparr>as_assetId = i, as_nftId = [], as_assetType = t, as_ownerId = ow,
        as_custodianId = ow, as_parentAssetId = Some up, as_status = ACTIVE\<rparr> s = (r, s')"
  shows "stepped s r s'"
proof -
  have up: "up \<noteq> Some []"
    using assms(6) peek_look [OF assms(1)] by (metis not_None_eq)
  have none: "look (ast_chain s) i = None"
    using assms(2) by (simp add: peek_def split: option.splits)
  define mint where "mint n = \<lparr>as_assetId = i, as_nftId = n, as_assetType = t, as_ownerId = ow,
        as_custodianId = ow, as_parentAssetId = Some up, as_status = ACTIVE\<rparr>" for n
  have step: "as_step (peek look s) ((peek look s)(i \<mapsto> mint n))" for n
    using assms by (intro as_mint) (auto simp: mint_def parent_id_def)
  show ?thesis
  proof (cases "assets_submit svc en tx s")
    case (Pair q u)
    show ?thesis
    proof (cases q)
      case (Inl e)
      with Pair run have "r = Inl e" "s' = u" by (auto simp: commit_asset_def exec_defs)
      with assets_submit_err [OF assms(1)] Pair Inl show ?thesis by simp
    next
      case (Inr res)
      with Pair obtain c where d: "detailed_submit (asv_chain svc) en tx (ast_chain s) = (Inr res, c)"
          "res_status res = SUCCESS"
        by (auto simp: assets_submit_def exec_defs split: prod.splits sum.splits if_splits)
      with l_mint [OF _ d assms(7,8) none assms(3,4) not_blank_nonempty [OF assms(5)] up] assms(1)
      obtain n ty where lk: "look c = (look (ast_chain s))(i \<mapsto> (mint n)\<lparr>as_assetType := ty\<rparr>)" "ty \<in> {[], t}"
        by (auto simp: inv_def mint_def)
      show ?thesis
      proof (rule commit_stepped [OF assms(1) run])
        fix r' c'
        assume "detailed_submit (asv_chain svc) en tx (ast_chain s) = (Inr r', c')"
        with d(1) have "c' = c" by simp
        with lk show "\<exists>oc. look c' = (look (ast_chain s))(i \<mapsto> oc) \<and>
            mergeAsset oc (Some \<lparr>as_assetId = i, as_nftId = [], as_assetType = t, as_ownerId = ow,
              as_custodianId = ow, as_parentAssetId = Some up, as_status = ACTIVE\<rparr>) = mint n \<and>
            as_assetId (mint n) = i"
          using assms(3) by (intro exI [of _ "(mint n)\<lparr>as_assetType := ty\<rparr>"]) (auto simp: mergeAsset_def mint_def)
      qed (rule step)
    qed
  qed
qed

lemma keeps_create_checks [keep]: "keeps (same s) (create_checks svc en input)"
  by (auto simp: create_checks_def Let_def intro!: keep split: option.splits)

lemma create_checks_ok:
  assumes "create_checks svc en input s = (Inr (i, k, t, ow), s')"
  shows "peek look s i = None \<and> i \<noteq> [] \<and> t \<noteq> [] \<and> \<not> blank ow \<and>
    (\<forall>p. ai_parentAssetId input = Some p \<longrightarrow> peek look s p \<noteq> None)"
proof -
  from assms obtain u where new: "getById svc i s = (Inr None, u)"
    and up: "(case ai_parentAssetId input of None \<Rightarrow> ret () | Some p \<Rightarrow> thenE (requireAsset svc p ''parentAssetId'') (ret ())) u
      = (Inr (), s')"
    and "i \<noteq> []" "t \<noteq> []" "\<not> blank ow"
    by (auto simp: create_checks_def Let_def run requiredString_ok blank_def split: option.splits if_splits)
  moreover have "peek look s i = None" "same s u" using getById_run [OF new] by auto
  moreover from up \<open>same s u\<close> have "\<forall>p. ai_parentAssetId input = Some p \<longrightarrow> peek look s p \<noteq> None"
    by (auto simp: run same_def dest!: requireAsset_ok split: option.splits)
  ultimately show ?thesis by blast
qed

lemma create_stepped:
  assumes "create_asset svc en input a s = (r, s')" "inv s"
  shows "stepped s r s'"
  using assms(1) unfolding create_asset_def
proof (rule reading_bind [OF _ assms(2) keeps_create_checks])
  fix x t
  assume chk: "create_checks svc en input s = (Inr x, t)" and st: "same s t" and inv: "inv t"
  obtain i k ty ow where x: "x = (i, k, ty, ow)" by (metis prod_cases4)
  from create_checks_ok [OF chk [unfolded x]] st
  have ok: "peek look t i = None" "i \<noteq> []" "ty \<noteq> []" "\<not> blank ow"
    "\<forall>p. ai_parentAssetId input = Some p \<longrightarrow> peek look t p \<noteq> None"
    by (auto simp: same_def)
  assume "(case x of (i, k, ty, ow) \<Rightarrow> bindE (asset_tx en k ASSET_MINT a
              [(''assetId'', JStr i), (''assetType'', JStr ty), (''ownerId'', JStr ow),
               (''custodianId'', JStr ow), (''parentAssetId'', opt_str (ai_parentAssetId input))])
       (\<lambda>tx. commit_asset svc en i tx
          \<lparr>as_assetId = i, as_nftId = [], as_assetType = ty, as_ownerId = ow,
           as_custodianId = ow, as_parentAssetId = Some (ai_parentAssetId input),
           as_status = ACTIVE\<rparr>)) t = (r, s')"
  then show "stepped t r s'"
    unfolding x prod.case
    by (elim reading_bind [OF _ inv keeps_asset_tx])
      (use ok in \<open>auto dest!: asset_tx_ok intro: mint_commit\<close>)
qed

lemma exec_stepped:
  assumes "assets_exec svc rq s = (r, s')" "inv s"
  shows "stepped s r s'"
  using assms
  by (cases "aq_op rq")
    (auto simp: assets_exec_def Let_def
      intro: create_stepped transfer_stepped state_stepped attach_stepped remove_stepped)

text \<open>A predicate of the view that every step of the machine keeps holds along every run.\<close>

lemma run_invariant:
  assumes "\<And>m m'. as_step m m' \<Longrightarrow> P m \<Longrightarrow> P m'"
  shows "inv s \<Longrightarrow> P (peek look s) \<Longrightarrow> inv (assets_run svc rqs s) \<and> P (peek look (assets_run svc rqs s))"
proof (induction rqs arbitrary: s)
  case (Cons rq rqs)
  obtain r s' where ex: "assets_exec svc rq s = (r, s')" by fastforce
  from exec_stepped [OF ex Cons.prems(1)] have "inv s'" "as_step (peek look s) (peek look s')"
    by (auto simp: stepped_def)
  with assms Cons ex show ?case by auto
qed simp

lemma getAll_run:
  "getAll svc is s = (r, s') \<Longrightarrow> r = Inr (List.map_filter (peek look s) is) \<and> same s s'"
proof (induction "is" arbitrary: s r s')
  case Nil
  then show ?case by (simp add: run List.map_filter_simps)
next
  case (Cons i "is")
  obtain q t where g: "getById svc i s = (q, t)" by fastforce
  obtain rs u where gs: "getAll svc is t = (rs, u)" by fastforce
  from getById_run [OF g] Cons.IH [OF gs] Cons.prems g gs show ?case
    by (auto simp: same_def List.map_filter_simps split: option.splits)
qed

lemma list_assets_run:
  assumes "list_assets svc s = (r, s')"
  shows "same s s' \<and> (\<exists>as. r = Inr as \<and> set as =
    {a. \<exists>i. peek look s i = Some a \<and> (i \<in> as_assetId ` set (assets_list (ast_repo s)) \<or> i \<in> set (js_keys (ast_cache s)))})"
  using assms
  by (auto simp: list_assets_def bindE_def reads_def List.map_filter_def dest!: getAll_run) force+

text \<open>With more fuel than there are assets, the walk ends for a reason of the source.\<close>

lemma noCycle_fuel:
  assumes "noCycle_loop svc n c vis cur s = (r, s')" "cur = peek look s x" "inv s"
    and "finite (dom (peek look s))" "card (dom (peek look s) - set vis) < n"
  shows "r \<noteq> Inl OutOfFuel"
  using assms
proof (induction n arbitrary: vis cur s x)
  case (Suc n)
  show ?case
  proof (cases "truthy_parent cur")
    case None
    with Suc.prems(1) show ?thesis by (subst (asm) noCycle_loop.simps) (auto simp: run)
  next
    case (Some ap)
    then obtain a p where ap: "truthy_parent cur = Some (a, p)" by fastforce
    then have a: "peek look s x = Some a"
      using Suc.prems(2) by (auto simp: truthy_parent_def split: option.splits if_splits)
    with peek_look [OF Suc.prems(3)] have key: "as_assetId a = x" by metis
    obtain q t where g: "getById svc p s = (q, t)" by fastforce
    from getById_run [OF g] have q: "q = Inr (peek look t p)" and same: "same s t"
      by (auto simp: same_def)
    show ?thesis
    proof (cases "as_assetId a \<in> set vis \<or> p = c")
      case True
      with Suc.prems(1) ap show ?thesis
        by (subst (asm) noCycle_loop.simps) (auto simp: run)
    next
      case False
      with Suc.prems(1) ap g q
      have loop: "noCycle_loop svc n c (x # vis) (peek look t p) t = (r, s')"
        by (subst (asm) noCycle_loop.simps) (auto simp: exec_defs key)
      have "dom (peek look s) - set (x # vis) \<subset> dom (peek look s) - set vis"
        using a False key by auto
      then have "card (dom (peek look t) - set (x # vis)) < card (dom (peek look s) - set vis)"
        using Suc.prems(4) same by (auto simp: same_def intro!: psubset_card_mono)
      then show ?thesis
        using Suc.IH [OF loop refl] Suc.prems same same_inv by (auto simp: same_def)
    qed
  qed
qed simp

end

section \<open>The mock chain obeys the contract\<close>

definition mock_look :: "mock_chain \<Rightarrow> asset_map" where
  "mock_look c = (\<lambda>i. js_get (mc_assets c) i)"

definition mock_assets_ok :: "mock_chain \<Rightarrow> bool" where
  "mock_assets_ok c \<longleftrightarrow> (\<forall>i a. js_get (mc_assets c) i = Some a \<longrightarrow> as_assetId a = i \<and> i \<noteq> [])"

definition mock_assets_svc :: "(string \<Rightarrow> bool) option \<Rightarrow> nat \<Rightarrow> mock_chain assets_svc" where
  "mock_assets_svc ex n = \<lparr>asv_chain = mock_api, asv_identityExists = ex, asv_fuel = n\<rparr>"

lemma mock_detailed: "detailed_submit (asv_chain (mock_assets_svc ex n)) = mock_submit"
  by (simp add: mock_assets_svc_def detailed_submit_def)

lemma mock_submit_assets:
  "mock_submit en tx c = (x, c') \<Longrightarrow> (\<exists>r. x = Inr r \<and> res_status r = SUCCESS) \<and>
   mc_assets c' = mc_assets (mock_record en tx
     (c\<lparr>mc_txCounter := mc_txCounter c + 1, mc_submitted := mc_submitted c @ [tx]\<rparr>))"
  by (auto simp: mock_submit_def Let_def)

lemma mock_record_ok: "mock_assets_ok c \<Longrightarrow> mock_assets_ok (mock_record en tx c)"
  by (cases "tx_type tx")
    (auto simp: mock_record_def mock_mint_def mock_job_create_def Let_def mock_assets_ok_def get_on_entry
      dest: pstr_nonempty split: option.splits if_splits)

lemma mock_submit_keeps_ok:
  assumes "mock_assets_ok c" "mock_submit en tx c = (x, c')"
  shows "mock_assets_ok c'"
proof -
  let ?c = "c\<lparr>mc_txCounter := mc_txCounter c + 1, mc_submitted := mc_submitted c @ [tx]\<rparr>"
  have "mock_assets_ok ?c" using assms(1) by (simp add: mock_assets_ok_def)
  then have "mock_assets_ok (mock_record en tx ?c)" by (rule mock_record_ok)
  with mock_submit_assets [OF assms(2)] show ?thesis unfolding mock_assets_ok_def by metis
qed

lemma asset_status_of_show [simp]: "asset_status_of (show_asset_status st) = Some st"
  by (cases st) (simp_all add: asset_status_of_def)

lemma show_asset_status_nonempty [simp]: "show_asset_status st \<noteq> []"
  by (cases st) simp_all

interpretation mock_assets: asset_ledger "mock_assets_svc ex n" mock_look mock_assets_ok for ex n
proof (unfold_locales, unfold mock_detailed)
  show "getAsset (asv_chain (mock_assets_svc ex n)) i c = Inr (mock_look c i)" for i c
    by (simp add: mock_assets_svc_def mock_look_def)
  show "mock_assets_ok c \<Longrightarrow> mock_look c i = Some a \<Longrightarrow> as_assetId a = i \<and> i \<noteq> []" for c i a
    by (simp add: mock_assets_ok_def mock_look_def)
  show "mock_assets_ok c \<Longrightarrow> mock_submit en tx c = (x, c') \<Longrightarrow> mock_assets_ok c'" for c en tx x c'
    by (rule mock_submit_keeps_ok)
  show "mock_submit en tx c = (x, c') \<Longrightarrow> \<forall>r. x = Inr r \<longrightarrow> res_status r \<noteq> SUCCESS \<Longrightarrow>
      mock_look c' = mock_look c" for en tx c x c'
    by (auto dest!: mock_submit_assets)
next
  fix c en tx r c' i t ow up
  assume "mock_submit en tx c = (Inr r, c')" "tx_type tx = ASSET_MINT"
    "tx_payload tx = [(''assetId'', JStr i), (''assetType'', JStr t), (''ownerId'', JStr ow),
        (''custodianId'', JStr ow), (''parentAssetId'', opt_str up)]"
    "mock_look c i = None" "i \<noteq> []" "t \<noteq> []" "ow \<noteq> []" "up \<noteq> Some []"
  then show "\<exists>n ty. mock_look c' = (mock_look c)(i \<mapsto> \<lparr>as_assetId = i, as_nftId = n, as_assetType = ty,
      as_ownerId = ow, as_custodianId = ow, as_parentAssetId = Some up, as_status = ACTIVE\<rparr>) \<and> ty \<in> {[], t}"
    by (intro exI [of _ "show_nat (mc_nftCounter c + 1)"] exI [of _ t])
      (auto dest!: mock_submit_assets simp: mock_record_def mock_mint_def Let_def mock_look_def
        pstr_def pstr_or_def opt_str_def fun_eq_iff split: option.splits)
next
  fix c en tx r c' a ow oc
  assume "mock_submit en tx c = (Inr r, c')" "tx_type tx = ASSET_TRANSFER"
    "tx_payload tx = transfer_payload a ow" "ow \<noteq> []" "mock_look c (as_assetId a) = Some oc"
    "mock_assets_ok c"
  then show "mock_look c' = (mock_look c)(as_assetId a \<mapsto> oc\<lparr>as_ownerId := ow, as_custodianId := ow\<rparr>)"
    by (auto dest!: mock_submit_assets simp: mock_record_def Let_def mock_look_def transfer_payload_def
        pstr_def pstr_or_def fun_eq_iff get_on_entry mock_assets_ok_def)
next
  fix c en tx r c' a st oc
  assume "mock_submit en tx c = (Inr r, c')" "tx_type tx = ASSET_STATE_CHANGE"
    "tx_payload tx = state_payload a st" "mock_look c (as_assetId a) = Some oc" "mock_assets_ok c"
  then show "mock_look c' = (mock_look c)(as_assetId a \<mapsto> oc\<lparr>as_status := st\<rparr>)"
    by (auto dest!: mock_submit_assets simp: mock_record_def Let_def mock_look_def state_payload_def
        pstr_def or_else_def fun_eq_iff get_on_entry mock_assets_ok_def)
next
  fix c en tx r c' p k a b oc
  assume "mock_submit en tx c = (Inr r, c')" "tx_type tx = COMPONENT_ATTACH"
    "tx_payload tx = component_payload p k a b" "p \<noteq> []" "mock_look c k = Some oc" "mock_assets_ok c"
  then show "mock_look c' = (mock_look c)(k \<mapsto> oc\<lparr>as_parentAssetId := Some (Some p)\<rparr>)"
    by (auto dest!: mock_submit_assets simp: mock_record_def Let_def mock_look_def component_payload_def
        pstr_def or_else_def fun_eq_iff get_on_entry mock_assets_ok_def)
next
  fix c en tx r c' p k a b oc
  assume "mock_submit en tx c = (Inr r, c')" "tx_type tx = COMPONENT_REMOVE"
    "tx_payload tx = component_payload p k a b" "mock_look c k = Some oc" "mock_assets_ok c"
  then show "mock_look c' = (mock_look c)(k \<mapsto> oc\<lparr>as_parentAssetId := Some None\<rparr>)"
    by (auto dest!: mock_submit_assets simp: mock_record_def Let_def mock_look_def component_payload_def
        pstr_def or_else_def fun_eq_iff get_on_entry mock_assets_ok_def)
qed

section \<open>Properties\<close>

definition assets_start :: "mock_chain assets_state" where
  "assets_start = \<lparr>ast_cache = [], ast_repo = [], ast_chain = mock_init\<rparr>"

abbreviation seen :: "mock_chain assets_state \<Rightarrow> asset_map" where
  "seen \<equiv> peek mock_look"

lemma seen_start [simp]: "seen assets_start = Map.empty"
  by (simp add: peek_def assets_start_def mock_look_def mock_init_def cached_asset_def or_else_def
      assets_findById_def)

lemma inv_start: "mock_assets.inv assets_start"
  by (simp add: mock_assets.inv_def synced_def mock_assets_ok_def assets_start_def mock_look_def
      mock_init_def cached_asset_def or_else_def assets_findById_def)

lemma inv_run: "mock_assets.inv (assets_run (mock_assets_svc ex n) rqs assets_start)"
  using mock_assets.run_invariant [where P = "\<lambda>_. True" and ex = ex and n = n and rqs = rqs, OF _ inv_start] by simp

definition demo_asset_rq :: "asset_op \<Rightarrow> asset_request" where
  "demo_asset_rq op = \<lparr>aq_env = demo_env, aq_actor = Some (demo_actor ''M''), aq_op = op\<rparr>"

definition demo_asset_input :: "string \<Rightarrow> string option \<Rightarrow> asset_input" where
  "demo_asset_input i up = \<lparr>ai_assetId = Some i, ai_assetType = JStr ''pump'', ai_ownerId = JStr ''O'',
     ai_custodianId = JStr ''O'', ai_parentAssetId = up\<rparr>"

text \<open>An asset with a component; the asset is then decommissioned.\<close>

definition demo_assets :: "asset_request list" where
  "demo_assets = map demo_asset_rq
     [ACreate (demo_asset_input ''P'' None), ACreate (demo_asset_input ''C'' (Some ''P'')),
      AState ''P'' ''DECOMMISSIONED'']"

lemma demo_assets_len:
  "length (mc_assets (ast_chain (assets_run (mock_assets_svc None 5) demo_assets assets_start))) = 2"
  by code_simp

lemma demo_assets_P:
  "seen (assets_run (mock_assets_svc None 5) demo_assets assets_start) ''P'' =
   Some \<lparr>as_assetId = ''P'', as_nftId = ''1'', as_assetType = ''pump'', as_ownerId = ''O'',
     as_custodianId = ''O'', as_parentAssetId = Some None, as_status = DECOMMISSIONED\<rparr>"
  by code_simp

text \<open>
  The component hierarchy is a forest after any sequence of requests: no asset is, through
  its parents, a component of itself, and every parent is a registered asset.
\<close>

theorem component_hierarchy_is_forest:
  "forest (seen (assets_run (mock_assets_svc ex n) rqs assets_start))"
  using mock_assets.run_invariant [where P = forest and ex = ex and n = n and rqs = rqs, OF as_step_forest inv_start]
    forest_empty by simp

text \<open>
  Custody moves with ownership: after any sequence of requests the custodian of every
  asset is its owner, and the owner is not blank.
\<close>

theorem custody_follows_ownership:
  "custody (seen (assets_run (mock_assets_svc ex n) rqs assets_start))"
  using mock_assets.run_invariant [where P = custody and ex = ex and n = n and rqs = rqs, OF as_step_custody inv_start]
    custody_empty by simp

text \<open>
  Decommissioning is final: whatever requests follow, a decommissioned asset keeps its
  status, its owner, its custodian, its token and its type; at most it is detached.
\<close>

theorem decommissioned_is_final:
  assumes "seen (assets_run (mock_assets_svc ex n) before assets_start) i = Some a"
    and "as_status a = DECOMMISSIONED"
  shows "\<exists>p. seen (assets_run (mock_assets_svc ex n) after
      (assets_run (mock_assets_svc ex n) before assets_start)) i = Some (a\<lparr>as_parentAssetId := p\<rparr>)"
proof -
  let ?s = "assets_run (mock_assets_svc ex n) before assets_start"
  let ?P = "\<lambda>m :: asset_map. \<exists>p. m i = Some (a\<lparr>as_parentAssetId := p\<rparr>)"
  have "?P m \<Longrightarrow> ?P m'" if "as_step m m'" for m m'
    using as_step_decommissioned [OF that, of i] assms(2) by fastforce
  moreover have "?P (seen ?s)" using assms(1) by (intro exI [of _ "as_parentAssetId a"]) simp
  ultimately show ?thesis
    using mock_assets.run_invariant [where P = ?P and ex = ex and n = n and rqs = after, OF _ inv_run] by blast
qed

theorem decommissioned_is_final_witness:
  "\<exists>p. seen (assets_run (mock_assets_svc None 5) [demo_asset_rq (ATransfer ''P'' ''X'' None)]
     (assets_run (mock_assets_svc None 5) demo_assets assets_start)) ''P'' =
   Some \<lparr>as_assetId = ''P'', as_nftId = ''1'', as_assetType = ''pump'', as_ownerId = ''O'',
     as_custodianId = ''O'', as_parentAssetId = p, as_status = DECOMMISSIONED\<rparr>"
  using decommissioned_is_final [OF demo_assets_P, of "[demo_asset_rq (ATransfer ''P'' ''X'' None)]"] by simp

text \<open>
  Every request is atomic for readers: after any sequence of requests, one that fails
  leaves everything readers see and the repository as they were; one that succeeds returns the
  asset that readers see from then on and that the repository holds.
\<close>

theorem assets_request_atomic:
  "let s = assets_run (mock_assets_svc ex n) rqs assets_start in
   case assets_exec (mock_assets_svc ex n) rq s of
     (Inl e, s') \<Rightarrow> seen s' = seen s \<and> ast_repo s' = ast_repo s
   | (Inr a, s') \<Rightarrow> seen s' (as_assetId a) = Some a \<and>
        assets_findById (ast_repo s') (as_assetId a) = Some a"
proof -
  let ?s = "assets_run (mock_assets_svc ex n) rqs assets_start"
  obtain r s' where ex: "assets_exec (mock_assets_svc ex n) rq ?s = (r, s')" by fastforce
  from mock_assets.exec_stepped [OF this inv_run] ex show ?thesis
    by (cases r) (simp_all add: mock_assets.stepped_def Let_def)
qed

text \<open>
  C9. Every request refines the abstract asset machine: it mints one new asset, or changes one
  field group of one asset under the machine's guard, or changes nothing that readers see.
\<close>

theorem assets_refine_machine:
  "as_step (seen (assets_run (mock_assets_svc ex n) rqs assets_start))
     (seen (snd (assets_exec (mock_assets_svc ex n) rq (assets_run (mock_assets_svc ex n) rqs assets_start))))"
  using mock_assets.exec_stepped [OF _ inv_run [of ex n rqs]] by (metis mock_assets.stepped_def prod.collapse)

subsection \<open>The walk up the hierarchy\<close>

lemma seen_dom:
  assumes "mock_assets.inv s"
  shows "dom (seen s) = set (js_keys (mc_assets (ast_chain s)))"
proof -
  have "dom (seen s) = dom (mock_look (ast_chain s))"
    using assms by (auto simp: mock_assets.inv_def synced_def peek_def dom_def split: option.splits)
  then show ?thesis by (simp add: mock_look_def dom_map_of_conv_image_fst)
qed

lemma attach_out_of_fuel:
  assumes "attachComponent (mock_assets_svc ex n) en p c a s = (Inl OutOfFuel, s')" "mock_assets.inv s"
  shows "\<exists>t u. mock_assets.same s t \<and> noCycle_loop (mock_assets_svc ex n) n c [] (seen t p) t = (Inl OutOfFuel, u)"
proof -
  let ?svc = "mock_assets_svc ex n"
  have no_err: "requireAsset ?svc i f t \<noteq> (Inl OutOfFuel, u)" "asset_tx en k ty a py t \<noteq> (Inl OutOfFuel, u)"
    "commit_asset ?svc en i tx fb t \<noteq> (Inl OutOfFuel, u)" for i f t u k ty py tx fb
    by (auto simp: requireAsset_def asset_tx_def requireActor_def requiredString_def commit_asset_def
        assets_submit_def reconcileAfterWrite_def mock_detailed mock_submit_def Let_def mock_assets.read
        exec_defs cache_set_def
        dest!: mock_assets.getById_run split: prod.splits sum.splits option.splits if_splits)
  have get_ok: "getById ?svc i t \<noteq> (Inl e, u)" for i t e u
    by (auto dest!: mock_assets.getById_run)
  have fuel: "asv_fuel ?svc = n" by (simp add: mock_assets_svc_def)
  from assms(1) obtain b k t1 t2 q t3 where
    "requireAsset ?svc p ''parentAssetId'' s = (Inr b, t1)" "requireAsset ?svc c ''componentId'' t1 = (Inr k, t2)"
    "getById ?svc p t2 = (Inr q, t3)"
    and loop: "noCycle_loop ?svc n c [] q t3 = (Inl OutOfFuel, s')"
    by (auto simp: attachComponent_def run no_err get_ok fuel attach_checks_def assertNoCycle_def)
  then have "mock_assets.same s t1" "mock_assets.same t1 t2" "mock_assets.same t2 t3" "q = seen t2 p"
    by (auto dest!: mock_assets.requireAsset_ok mock_assets.getById_run)
  then show ?thesis
    using loop mock_assets.same_trans by (intro exI [of _ t3] exI [of _ s']) (auto simp: mock_assets.same_def)
qed

text \<open>
  C26. The search for a cycle ends: with a bound above the number of assets on the chain, no
  attach request runs into the bound, so the loop of \<^verbatim>\<open>assertNoCycle\<close> terminates on its own.
\<close>

theorem attach_walk_terminates:
  assumes "length (mc_assets (ast_chain (assets_run (mock_assets_svc ex n) rqs assets_start))) < n"
  shows "fst (attachComponent (mock_assets_svc ex n) en p c a
    (assets_run (mock_assets_svc ex n) rqs assets_start)) \<noteq> Inl OutOfFuel"
proof
  let ?s = "assets_run (mock_assets_svc ex n) rqs assets_start"
  assume "fst (attachComponent (mock_assets_svc ex n) en p c a ?s) = Inl OutOfFuel"
  then obtain t u where same: "mock_assets.same ?s t"
    and loop: "noCycle_loop (mock_assets_svc ex n) n c [] (seen t p) t = (Inl OutOfFuel, u)"
    using attach_out_of_fuel [OF _ inv_run] by (metis prod.collapse)
  have inv: "mock_assets.inv t" using same inv_run mock_assets.same_inv by blast
  have "card (dom (seen t)) \<le> length (mc_assets (ast_chain t))"
    unfolding seen_dom [OF inv] using card_length [of "js_keys (mc_assets (ast_chain t))"] by simp
  with assms same have "card (dom (seen t) - set []) < n" by (simp add: mock_assets.same_def)
  with mock_assets.noCycle_fuel [OF loop refl inv] show False by (simp add: seen_dom [OF inv])
qed

theorem attach_walk_terminates_witness:
  "fst (attachComponent (mock_assets_svc None 5) demo_env ''P'' ''C'' (Some (demo_actor ''M''))
    (assets_run (mock_assets_svc None 5) demo_assets assets_start)) \<noteq> Inl OutOfFuel"
  by (rule attach_walk_terminates) (simp add: demo_assets_len)

end
