(* ===== verification/AssetRoutes.thy ===== *)
theory AssetRoutes
  imports Backend AssetLedger
begin

text \<open>
  \<^verbatim>\<open>backend/src/routes/assets.routes.ts\<close>, and the audit trail of \<^verbatim>\<open>chain.routes.ts\<close>
  with \<^verbatim>\<open>audit/audit.service.ts\<close>: the HTTP surface of the assets component.
\<close>

section \<open>Reads and registration\<close>

definition get_assets :: "('c, 'g) backend_svc \<Rightarrow> http_request \<Rightarrow> ('c, 'g, asset list) route" where
  "get_assets bk rq = authed bk rq (\<lambda>u. on_assets bk list_assets)"

definition get_asset :: "('c, 'g) backend_svc \<Rightarrow> http_request \<Rightarrow> ('c, 'g, asset) route" where
  "get_asset bk rq = authed bk rq (\<lambda>u.
     bindE (on_assets bk (\<lambda>sv. getById sv (hq_id rq))) (\<lambda>a.
       required a (NotFoundError (''No asset '' @ hq_id rq))))"

text \<open>\<open>input\<close> is the body at the type of the service's parameter.\<close>

definition post_assets :: "('c, 'g) backend_svc \<Rightarrow> http_request \<Rightarrow> asset_input \<Rightarrow> ('c, 'g, asset) route" where
  "post_assets bk rq input = authed bk rq (\<lambda>u.
     thenE (permit REGISTER_ASSET u)
    (thenE (throwIf (as_str (ai_assetType input) = None) (ValidationError [''assetType is required'']))
       (on_assets bk (\<lambda>sv. create_asset sv (hq_env rq) input (Some (route_actor rq u))))))"

definition post_assets_prepare :: "('c, 'g) backend_svc \<Rightarrow> http_request \<Rightarrow> ('c, 'g, jsobj \<times> prepared) route" where
  "post_assets_prepare bk rq = authed bk rq (\<lambda>u.
     thenE (permit REGISTER_ASSET u)
    (bindE (required (as_str (fld (hq_body rq) ''assetType'')) (ValidationError [''assetType is required''])) (\<lambda>assetType.
     case prepareTransaction (bk_chain bk) of
       None \<Rightarrow> throw (NotImplementedError ''Device transaction preparation is unavailable'')
     | Some prep \<Rightarrow>
         let given = text_of (fld (hq_body rq) ''assetId'');
             assetId = (case given of Some i \<Rightarrow> trim i | None \<Rightarrow> ''AST-'' @ uuid (hq_env rq) 0) in
         bindE (query (\<lambda>w. prep (hq_env rq)
           \<lparr>tx_txId = uuid (hq_env rq) (if given = None then 1 else 0), tx_type = ASSET_MINT,
            tx_actorIdentity = usr_identityId u, tx_actorWallet = usr_walletAddress u,
            tx_payload = [(''assetId'', JStr assetId), (''assetType'', JStr assetType),
              (''ownerId'', fld (hq_body rq) ''ownerId''), (''custodianId'', fld (hq_body rq) ''custodianId''),
              (''parentAssetId'', nullish_or (fld (hq_body rq) ''parentAssetId'') JNull)],
            tx_timestamp = iso_now (hq_env rq), tx_signature = ''development''\<rparr> (chain_of w))) (\<lambda>p.
         ret (spread (hq_body rq) [(''assetId'', JStr assetId)], p)))))"

section \<open>Transfer\<close>

text \<open>
  The loop over the actor's grants: the first active grant for this transfer that still
  validates.  A grant found expired on the way is stored as such.
\<close>

fun transfer_grant :: "env \<Rightarrow> string \<Rightarrow> string \<Rightarrow> grant list \<Rightarrow> ('c, grant option) users_m" where
  "transfer_grant en who assetId [] = ret None"
| "transfer_grant en who assetId (g # gs) =
     (if gr_resourceType g \<noteq> RT_ASSET \<or> gr_resourceId g \<noteq> assetId \<or> gr_action g \<noteq> TRANSFER_ASSET \<or>
         gr_status g \<noteq> G_ACTIVE
      then transfer_grant en who assetId gs
      else bindE (validateGrant en (gr_authorizationGrantId g) who assetId TRANSFER_ASSET) (\<lambda>valid.
        if valid then ret (Some g) else transfer_grant en who assetId gs))"

definition actor_grant :: "env \<Rightarrow> string \<Rightarrow> asset option \<Rightarrow> ('c, grant option) users_m" where
  "actor_grant en who asset = (case asset of
     None \<Rightarrow> ret None
   | Some a \<Rightarrow> bindE (look (\<lambda>s. grants_listByIdentityId s who)) (transfer_grant en who (as_assetId a)))"

definition transfer_context :: "('c, 'g) backend_svc \<Rightarrow> http_request \<Rightarrow> user \<Rightarrow> ('c, 'g, permission_context) route" where
  "transfer_context bk rq u =
     bindE (on_assets bk (\<lambda>sv. getById sv (hq_id rq))) (\<lambda>asset.
     bindE (on_users (actor_grant (hq_env rq) (usr_identityId u) asset)) (\<lambda>g.
       ret \<lparr>pc_actorId = None, pc_resourceOwnerId = map_option as_ownerId asset,
            pc_authorizationGrantId = map_option gr_authorizationGrantId g, pc_explicitlyAuthorized = Some (g \<noteq> None)\<rparr>))"

definition post_transfer :: "('c, 'g) backend_svc \<Rightarrow> http_request \<Rightarrow> ('c, 'g, asset) route" where
  "post_transfer bk rq = authed bk rq (\<lambda>u.
     thenE (fresh bk rq ''ASSET_TRANSFER'' (Some (hq_id rq)))
    (thenE (permit_in TRANSFER_ASSET (transfer_context bk rq u) u)
    (bindE (required (as_str (fld (hq_body rq) ''newOwnerId'')) (ValidationError [''newOwnerId is required''])) (\<lambda>newOwnerId.
     let newCustodianId = fld (hq_body rq) ''newCustodianId'' in
     thenE (throwIf (newCustodianId \<noteq> JUndefined \<and> as_str newCustodianId = None)
              (ValidationError [''newCustodianId must be a string'']))
       (on_assets bk (\<lambda>sv. transfer sv (hq_env rq) (hq_id rq) newOwnerId (as_str newCustodianId) (Some (route_actor rq u))))))))"

definition prepareAssetMutation ::
  "('c, 'g) backend_svc \<Rightarrow> http_request \<Rightarrow> user \<Rightarrow> asset_mutation \<Rightarrow> jsobj \<Rightarrow> ('c, 'g, prepared) route" where
  "prepareAssetMutation bk rq u ty input =
     on_assets bk (\<lambda>sv. prepare_asset sv (hq_env rq) ty input (route_actor rq u))"

text \<open>The context of the preparation has no grant id.\<close>

definition prepare_context :: "('c, 'g) backend_svc \<Rightarrow> http_request \<Rightarrow> user \<Rightarrow> ('c, 'g, permission_context) route" where
  "prepare_context bk rq u =
     bindE (on_assets bk (\<lambda>sv. getById sv (hq_id rq))) (\<lambda>asset.
     bindE (on_users (actor_grant (hq_env rq) (usr_identityId u) asset)) (\<lambda>g.
       ret \<lparr>pc_actorId = None, pc_resourceOwnerId = map_option as_ownerId asset,
            pc_authorizationGrantId = None, pc_explicitlyAuthorized = Some (g \<noteq> None)\<rparr>))"

definition post_transfer_prepare :: "('c, 'g) backend_svc \<Rightarrow> http_request \<Rightarrow> ('c, 'g, prepared) route" where
  "post_transfer_prepare bk rq = authed bk rq (\<lambda>u.
     thenE (permit_in TRANSFER_ASSET (prepare_context bk rq u) u)
       (prepareAssetMutation bk rq u MutTransfer [(''assetId'', JStr (hq_id rq)),
          (''newOwnerId'', fld (hq_body rq) ''newOwnerId''), (''newCustodianId'', fld (hq_body rq) ''newCustodianId'')]))"

section \<open>State and components\<close>

definition new_state :: "http_request \<Rightarrow> jsval" where
  "new_state rq = nullish_or (fld (hq_body rq) ''newState'') (fld (hq_body rq) ''status'')"

definition post_state :: "('c, 'g) backend_svc \<Rightarrow> http_request \<Rightarrow> ('c, 'g, asset) route" where
  "post_state bk rq = authed bk rq (\<lambda>u.
     thenE (fresh bk rq ''ASSET_STATE_CHANGE'' (Some (hq_id rq)))
    (thenE (permit REGISTER_ASSET u)
    (bindE (required (as_str (new_state rq)) (ValidationError [''newState is required''])) (\<lambda>st.
       on_assets bk (\<lambda>sv. changeAssetState sv (hq_env rq) (hq_id rq) st (Some (route_actor rq u)))))))"

definition post_state_prepare :: "('c, 'g) backend_svc \<Rightarrow> http_request \<Rightarrow> ('c, 'g, prepared) route" where
  "post_state_prepare bk rq = authed bk rq (\<lambda>u. thenE (permit REGISTER_ASSET u)
     (prepareAssetMutation bk rq u MutState [(''assetId'', JStr (hq_id rq)), (''newState'', new_state rq)]))"

definition post_components :: "('c, 'g) backend_svc \<Rightarrow> http_request \<Rightarrow> ('c, 'g, asset) route" where
  "post_components bk rq = authed bk rq (\<lambda>u.
     thenE (fresh bk rq ''COMPONENT_ATTACH'' (Some (hq_id rq)))
    (thenE (permit REGISTER_ASSET u)
    (bindE (required (as_str (fld (hq_body rq) ''componentId'')) (ValidationError [''componentId is required''])) (\<lambda>c.
       on_assets bk (\<lambda>sv. attachComponent sv (hq_env rq) (hq_id rq) c (Some (route_actor rq u)))))))"

definition post_components_prepare :: "('c, 'g) backend_svc \<Rightarrow> http_request \<Rightarrow> ('c, 'g, prepared) route" where
  "post_components_prepare bk rq = authed bk rq (\<lambda>u. thenE (permit REGISTER_ASSET u)
     (prepareAssetMutation bk rq u MutAttach [(''parentAssetId'', JStr (hq_id rq)),
        (''componentId'', fld (hq_body rq) ''componentId'')]))"

definition delete_component :: "('c, 'g) backend_svc \<Rightarrow> http_request \<Rightarrow> ('c, 'g, asset) route" where
  "delete_component bk rq = authed bk rq (\<lambda>u.
     thenE (fresh bk rq ''COMPONENT_REMOVE'' (Some (hq_sub rq)))
    (thenE (permit REGISTER_ASSET u)
       (on_assets bk (\<lambda>sv. removeComponent sv (hq_env rq) (hq_id rq) (hq_sub rq) (Some (route_actor rq u))))))"

definition delete_component_prepare :: "('c, 'g) backend_svc \<Rightarrow> http_request \<Rightarrow> ('c, 'g, prepared) route" where
  "delete_component_prepare bk rq = authed bk rq (\<lambda>u. thenE (permit REGISTER_ASSET u)
     (prepareAssetMutation bk rq u MutRemove [(''parentAssetId'', JStr (hq_id rq)), (''componentId'', JStr (hq_sub rq))]))"

section \<open>The audit trail\<close>

definition getTrailForAsset :: "('c, 'g) backend_svc \<Rightarrow> string \<Rightarrow> ('c, 'g, audit_event list) route" where
  "getTrailForAsset bk assetId = (case rd_getAuditTrail (bk_reads bk) of
     None \<Rightarrow> ret []
   | Some f \<Rightarrow> query (\<lambda>w. f assetId (chain_of w)))"

definition audit_owner :: "string \<Rightarrow> string \<Rightarrow> job list \<Rightarrow> asset option \<Rightarrow> string option" where
  "audit_owner who assetId jobs asset =
     (case find (\<lambda>j. job_assetId j = assetId \<and> (job_assignedTo j = who \<or> job_createdBy j = who)) jobs of
        Some j \<Rightarrow> Some (job_assignedTo j)
      | None \<Rightarrow> map_option as_ownerId asset)"

definition audit_context :: "('c, 'g) backend_svc \<Rightarrow> http_request \<Rightarrow> user \<Rightarrow> ('c, 'g, permission_context) route" where
  "audit_context bk rq u =
     bindE (on_assets bk (\<lambda>sv. getById sv (hq_id rq))) (\<lambda>asset.
       reads (\<lambda>w. no_context\<lparr>pc_resourceOwnerId := audit_owner (usr_identityId u) (hq_id rq) (jobs_list (wd_jobs w)) asset\<rparr>))"

definition get_audit :: "('c, 'g) backend_svc \<Rightarrow> http_request \<Rightarrow> ('c, 'g, audit_event list) route" where
  "get_audit bk rq = authed bk rq (\<lambda>u.
     thenE (permit_in VIEW_AUDIT_HISTORY (audit_context bk rq u) u) (getTrailForAsset bk (hq_id rq)))"

section \<open>Who may transfer\<close>

lemma transfer_roles:
  "can r TRANSFER_ASSET c \<longleftrightarrow> r \<in> {ADMIN, MANAGER} \<or>
     r = ENGINEER \<and> pc_explicitlyAuthorized c = Some True \<and> pc_authorizationGrantId c \<notin> {None, Some []}"
  by (cases r) (auto simp: can_def permissionFor_def ROLES_def split: option.splits)

text \<open>
  Validating a grant may store it as expired and changes nothing else: a grant that is active
  afterwards was stored like this before.
\<close>

definition active_from :: "idstore \<Rightarrow> 'c users_state \<Rightarrow> bool" where
  "active_from s0 s \<longleftrightarrow> (\<forall>i g. grants_findById (us_store s) i = Some g \<longrightarrow> gr_status g = G_ACTIVE \<longrightarrow>
     grants_findById s0 i = Some g)"

lemma active_from_refl [simp]: "active_from (us_store s) s"
  by (simp add: active_from_def)

lemma validateGrant_run:
  assumes "validateGrant en gid who r act s = (Inr b, s')" "active_from s0 s"
  shows "active_from s0 s' \<and> (b \<longrightarrow> (\<exists>g. grants_findById s0 gid = Some g \<and> grantIsActive en g who r act))"
  using assms by (auto simp: validateGrant_def look_def store_def run active_from_def grantIsActive_def
      grants_findById_def grants_save_def split: option.splits if_splits)

lemma transfer_grant_found:
  assumes "transfer_grant en who i gs s = (Inr (Some g), s')" "active_from s0 s"
  shows "g \<in> set gs \<and> gr_resourceType g = RT_ASSET \<and> gr_resourceId g = i \<and> gr_action g = TRANSFER_ASSET \<and>
    gr_status g = G_ACTIVE \<and>
    (\<exists>g'. grants_findById s0 (gr_authorizationGrantId g) = Some g' \<and> grantIsActive en g' who i TRANSFER_ASSET)"
  using assms
proof (induction gs arbitrary: s)
  case (Cons x xs)
  then show ?case
    by (fastforce simp: run split: if_splits dest: validateGrant_run)
qed (simp add: run)

text \<open>
  What an engineer's authorisation rests on: the asset as \<^verbatim>\<open>getById\<close> returns it and a
  grant of the store the request began with.
\<close>

lemma actor_grant_found:
  assumes "actor_grant en who found t = (Inr (Some g), t')"
  shows "\<exists>asset g'. found = Some asset \<and> g \<in> set (grants_listByIdentityId (us_store t) who) \<and>
    gr_resourceType g = RT_ASSET \<and> gr_status g = G_ACTIVE \<and>
    grants_findById (us_store t) (gr_authorizationGrantId g) = Some g' \<and> grantIsActive en g' who (as_assetId asset) TRANSFER_ASSET"
  using assms
  by (fastforce simp: actor_grant_def look_def run split: option.splits dest!: transfer_grant_found [OF _ active_from_refl])

lemma getById_service: "getById (assets_service bk (with_ids (after_session bk rq w) s)) = getById (assets_service bk w)"
  by (simp add: getById_def assets_service_def fun_eq_iff)

lemma transfer_context_granted:
  assumes "transfer_context bk rq u w = (Inr ctx, w')" "pc_explicitlyAuthorized ctx = Some True"
  shows "\<exists>asset g g'. fst (getById (assets_service bk w) (hq_id rq) (assets_part w)) = Inr (Some asset) \<and>
    g \<in> set (grants_listByIdentityId (ids w) (usr_identityId u)) \<and> gr_resourceType g = RT_ASSET \<and> gr_status g = G_ACTIVE \<and>
    grants_findById (ids w) (gr_authorizationGrantId g) = Some g' \<and>
    grantIsActive (hq_env rq) g' (usr_identityId u) (as_assetId asset) TRANSFER_ASSET"
proof -
  from assms obtain found g w1 where get: "on_assets bk (\<lambda>sv. getById sv (hq_id rq)) w = (Inr found, w1)"
    and grant: "on_users (actor_grant (hq_env rq) (usr_identityId u) found) w1 = (Inr (Some g), w')"
    by (auto simp: transfer_context_def bindE_ok ret_def)
  from get have "us_store (wd_users w1) = ids w" by (auto simp: on_assets_run ids_def)
  with actor_grant_found [of _ _ found "wd_users w1" g] grant on_assets_part [OF get] show ?thesis
    by (fastforce simp: on_users_run)
qed

text \<open>
  C4. A transfer of ownership that succeeds was asked for in a live session, with a fresh proof for
  this very asset where the operation demands one, by an administrator or a manager, or by an
  engineer who holds a stored grant: for this asset and this action, active and not expired at
  the moment of the request.
\<close>

theorem transfer_is_authorized:
  assumes "post_transfer bk rq w = (Inr a, w')"
  shows "\<exists>u s. session_of bk rq w = Some u \<and>
    requireFreshAuthentication (bk_crypto bk) (hq_env rq) ''ASSET_TRANSFER'' (Some (hq_id rq)) (hq_freshAuth rq)
      (hq_authorization rq) (ids (after_session bk rq w)) = (Inr (), s) \<and>
    (usr_role u \<in> {ADMIN, MANAGER} \<or>
     usr_role u = ENGINEER \<and> (\<exists>asset g g'. fst (getById (assets_service bk w) (hq_id rq) (assets_part w)) = Inr (Some asset) \<and>
       g \<in> set (grants_listByIdentityId s (usr_identityId u)) \<and> gr_resourceType g = RT_ASSET \<and> gr_status g = G_ACTIVE \<and>
       grants_findById s (gr_authorizationGrantId g) = Some g' \<and>
       grantIsActive (hq_env rq) g' (usr_identityId u) (as_assetId asset) TRANSFER_ASSET))"
proof -
  from authed_ok [OF assms [unfolded post_transfer_def]] obtain u s ctx w1 where
    u: "session_of bk rq w = Some u" and
    fr: "requireFreshAuthentication (bk_crypto bk) (hq_env rq) ''ASSET_TRANSFER'' (Some (hq_id rq)) (hq_freshAuth rq)
      (hq_authorization rq) (ids (after_session bk rq w)) = (Inr (), s)" and
    ctx: "transfer_context bk rq u (with_ids (after_session bk rq w) s) = (Inr ctx, w1)" and
    role: "can (usr_role u) TRANSFER_ASSET (with_actor (usr_identityId u) ctx)"
    by (auto simp: thenE_ok fresh_ok permit_in_ok)
  have "ids (with_ids (after_session bk rq w) s) = s" "assets_part (with_ids (after_session bk rq w) s) = assets_part w"
    by (simp_all add: ids_def assets_part_def chain_of_def)
  with transfer_context_granted [OF ctx] role u fr show ?thesis
    unfolding transfer_roles getById_service by (auto simp: with_actor_def)
qed

text \<open>
  An engineer can never prepare a transfer for signing on the device, whatever grants they
  hold: the permission for the preparation is decided without the id of the grant, and the
  matrix demands one.
\<close>

theorem engineer_cannot_prepare_transfer:
  assumes "session_of bk rq w = Some u" "usr_role u = ENGINEER"
  shows "\<exists>e. fst (post_transfer_prepare bk rq w) = Inl e"
proof (rule ccontr)
  assume "\<not> ?thesis"
  then obtain p w' where "post_transfer_prepare bk rq w = (Inr p, w')"
    by (cases "post_transfer_prepare bk rq w"; cases "fst (post_transfer_prepare bk rq w)") auto
  from authed_ok [OF this [unfolded post_transfer_prepare_def]] assms obtain ctx where
    "can ENGINEER TRANSFER_ASSET (with_actor (usr_identityId u) ctx)" "pc_authorizationGrantId ctx = None"
    by (auto simp: thenE_ok permit_in_ok prepare_context_def bindE_ok ret_def)
  then show False by (simp add: transfer_roles with_actor_def)
qed

text \<open>An engineer with a grant for an asset on the chain.\<close>

definition demo_grant :: grant where
  "demo_grant = \<lparr>gr_authorizationGrantId = ''G'', gr_actorIdentityId = ''I'', gr_resourceType = RT_ASSET,
     gr_resourceId = ''P'', gr_action = TRANSFER_ASSET, gr_grantedByIdentityId = ''M'', gr_issuedAt = Iso 0,
     gr_expiresAt = None, gr_status = G_ACTIVE\<rparr>"

definition demo_asset_world :: "(mock_chain, unit) world" where
  "demo_asset_world = demo_world\<lparr>wd_users := (wd_users demo_world)\<lparr>
     us_store := grants_save demo_grant (demo_store FRESH_AUTHENTICATION),
     us_chain := mock_init\<lparr>mc_assets := [(''P'', \<lparr>as_assetId = ''P'', as_nftId = ''N'', as_assetType = ''X'', as_ownerId = ''M'',
       as_custodianId = ''M'', as_parentAssetId = None, as_status = ACTIVE\<rparr>)]\<rparr>\<rparr>\<rparr>"

lemma demo_engineer:
  "\<exists>u. session_of demo_backend (demo_http ''P'' body) demo_asset_world = Some u \<and> usr_role u = ENGINEER"
proof -
  have "map_option usr_role (session_of demo_backend (demo_http ''P'' []) demo_asset_world) = Some ENGINEER" by code_simp
  moreover have "session_of demo_backend (demo_http ''P'' body) = session_of demo_backend (demo_http ''P'' [])"
    by (simp add: session_of_def attachSession_def demo_http_def fun_eq_iff)
  ultimately show ?thesis by simp
qed

theorem transfer_is_authorized_witness:
  "\<exists>a w' u. post_transfer demo_backend (demo_http ''P'' [(''newOwnerId'', JStr ''Q'')]) demo_asset_world = (Inr a, w') \<and>
     as_ownerId a = ''Q'' \<and>
     session_of demo_backend (demo_http ''P'' [(''newOwnerId'', JStr ''Q'')]) demo_asset_world = Some u \<and>
     usr_role u \<in> {ADMIN, MANAGER, ENGINEER}"
proof -
  let ?out = "post_transfer demo_backend (demo_http ''P'' [(''newOwnerId'', JStr ''Q'')]) demo_asset_world"
  have "map_sum (\<lambda>_. ()) as_ownerId (fst ?out) = Inr ''Q''" by code_simp
  then obtain a w' where out: "?out = (Inr a, w')" and "as_ownerId a = ''Q''" by (cases ?out; cases "fst ?out") auto
  with transfer_is_authorized [OF out] show ?thesis by blast
qed

theorem engineer_cannot_prepare_transfer_witness:
  "\<exists>e. fst (post_transfer_prepare demo_backend (demo_http ''P'' [(''newOwnerId'', JStr ''Q'')]) demo_asset_world) = Inl e"
  using demo_engineer [of "[(''newOwnerId'', JStr ''Q'')]"] engineer_cannot_prepare_transfer by blast

end
