(* ===== verification/Accounts.thy ===== *)
theory Accounts
  imports UserLifecycle
begin

text \<open>
  Who may change an identity: the identities of the store under every operation of the users
  service, the account initialization handshake, and the path of a new account from
  initialization to its first login.
\<close>

section \<open>Identities under the operations\<close>

definition same_identities :: "(string, identity) jsmap \<Rightarrow> 'c users_state \<Rightarrow> bool" where
  "same_identities m s \<longleftrightarrow> sto_identities (us_store s) = m"

lemma same_quiet: "quiet us_store f \<Longrightarrow> keeps (same_identities m) f"
  by (auto simp: keeps_def quiet_def same_identities_def)

lemma same_store: "(\<And>t. sto_identities (f t) = sto_identities t) \<Longrightarrow> keeps (same_identities m) (store f)"
  by (auto simp: keeps_def store_def modifyS_def same_identities_def)

lemma saves_same_identities:
  "sto_identities (users_save u t) = sto_identities t" "sto_identities (devices_save d t) = sto_identities t"
  "sto_identities (wallets_save w t) = sto_identities t" "sto_identities (challenges_save c t) = sto_identities t"
  "sto_identities (credentials_save v dd t) = sto_identities t"
  "sto_identities (credentials_revokeForDevice dd t) = sto_identities t"
  "sto_identities (grants_save g t) = sto_identities t"
  "sto_identities (case users_findByIdentityId t i of None \<Rightarrow> t | Some u \<Rightarrow> users_save (k u) t) = sto_identities t"
  by (auto simp: save_defs split: option.splits)

lemma same_consume [keep]: "keeps (same_identities m) (consume_challenge en i)"
  by (auto simp: keeps_def consume_challenge_def consumeIfUnused_def same_identities_def exec_defs
      split: prod.splits option.splits)

lemmas identity_keeps = keep same_store [OF saves_same_identities(1)] same_store [OF saves_same_identities(2)]
  same_store [OF saves_same_identities(3)] same_store [OF saves_same_identities(4)]
  same_store [OF saves_same_identities(5)] same_store [OF saves_same_identities(6)]
  same_store [OF saves_same_identities(7)] same_store [OF saves_same_identities(8)]
  quiet_calls [THEN same_quiet] quiet_ensure [THEN same_quiet] quiet_steps [THEN same_quiet]
  quiet_init_checks [THEN same_quiet]

text \<open>The operations that never write an identity.\<close>

fun leaves_identities :: "user_op \<Rightarrow> bool" where
  "leaves_identities (UCreate _ _) = False"
| "leaves_identities (UInit _) = False"
| "leaves_identities (UVerify _ _ _ _) = False"
| "leaves_identities (UActivate _ _) = False"
| "leaves_identities (URole _ _ _) = False"
| "leaves_identities _ = True"

lemma same_wallet_loops: "keeps (same_identities m) (replace_wallet svc en a k w)"
  "keeps (same_identities m) (revoke_for_device svc en who w)"
  by (auto simp: replace_wallet_def revoke_for_device_def Let_def intro!: identity_keeps)

lemma leaves_identities_keeps: "leaves_identities op \<Longrightarrow> keeps (same_identities m) (users_exec svc en op)"
  by (cases op)
    (auto simp: users_exec_def requestProvisioningChallenge_def registerDevice_def revokeDevice_def
      registerWallet_def revokeWallet_def activateWallet_def createGrant_def revokeGrant_def validateGrant_def
      Let_def intro!: identity_keeps same_wallet_loops)

text \<open>A stored identity that is still stored as it was.\<close>

definition intact :: "string \<Rightarrow> identity \<Rightarrow> 'c users_state \<Rightarrow> bool" where
  "intact i x s \<longleftrightarrow> identities_findById (us_store s) i = Some x"

lemma intact_same: "(\<And>m. keeps (same_identities m) f) \<Longrightarrow> keeps (intact i x) f"
  by (auto simp: keeps_def same_identities_def intact_def identities_findById_def)

lemma intact_save: "id_identityId y \<noteq> i \<Longrightarrow> keeps (intact i x) (store (identities_save y))"
  by (auto simp: keeps_def store_def modifyS_def intact_def identities_findById_def identities_save_def)

lemma intact_draw: "(\<And>k. keeps (intact i x) (g (uuid en k))) \<Longrightarrow> keeps (intact i x) (bindE (draw en) g)"
  by (rule keeps_draw) (auto simp: intact_def)

lemmas intact_keeps = keep intact_save intact_same [OF same_store [OF saves_same_identities(1)]]
  intact_same [OF same_store [OF saves_same_identities(2)]] intact_same [OF same_store [OF saves_same_identities(3)]]
  quiet_calls [THEN same_quiet, THEN intact_same] quiet_ensure [THEN same_quiet, THEN intact_same]
  quiet_steps(1,3-5) [THEN same_quiet, THEN intact_same] quiet_init_checks [THEN same_quiet, THEN intact_same]
  intact_same [OF same_consume]

text \<open>Ids that no generated identity id equals.\<close>

definition never_drawn :: "env \<Rightarrow> string \<Rightarrow> bool" where
  "never_drawn en i \<longleftrightarrow> (\<forall>k. i \<noteq> ''DID:BEL:'' @ uuid en k)"

lemma intact_initializeAccount:
  assumes "never_drawn en i"
  shows "keeps (intact i x) (initializeAccount svc en inp)"
  unfolding initializeAccount_def Let_def using assms
  by (intro keeps_bindE [OF _ intact_draw]) (auto intro!: intact_keeps simp: pending_identity_def never_drawn_def)

lemma keeps_look:
  "(\<And>s. P s \<Longrightarrow> keeps P (g (f (us_store s)))) \<Longrightarrow> keeps P (bindE (look f) g)"
  by (auto simp: keeps_def bindE_def look_def reads_def)

lemma keeps_new_id:
  assumes "\<And>j. (\<exists>k. j = ''DID:BEL:'' @ uuid en k) \<or> given = Some j \<Longrightarrow> keeps (intact i x) (g j)"
  shows "keeps (intact i x) (bindE (case given of Some j \<Rightarrow> ret j
     | None \<Rightarrow> bindE (draw en) (\<lambda>u. ret (''DID:BEL:'' @ u))) g)"
proof (cases given)
  case None
  have "keeps (intact i x) (g (''DID:BEL:'' @ uuid en k))" for k using assms by blast
  with None show ?thesis by (simp add: keeps_def exec_defs draw_def intact_def)
next
  case (Some j)
  with assms [of j] show ?thesis by (simp add: keeps_def exec_defs)
qed

lemma keeps_throwIf_thenE: "(\<not> b \<Longrightarrow> keeps P f) \<Longrightarrow> keeps P (thenE (throwIf b e) f)"
  by (auto simp: keeps_def thenE_def bindE_def throwIf_def throw_def ret_def)

lemma intact_createUser:
  assumes "never_drawn en i" "i \<noteq> []"
  shows "keeps (intact i x) (createUser svc en inp act)"
  unfolding createUser_def Let_def
proof (rule keeps_bindE [OF keeps_required], rule keeps_look, rule keeps_throwIf_thenE, rule keeps_look,
    rule keeps_throwIf_thenE, goal_cases)
  case (1 r s s')
  then have "ci_identityId inp \<noteq> Some i"
    using assms(2) by (auto simp: intact_def present_def)
  then show ?case
    using assms(1) by (intro keeps_new_id) (auto intro!: intact_keeps simp: never_drawn_def new_identity_def)
qed

section \<open>Only an active administrator changes a stored identity\<close>

fun acting :: "user_op \<Rightarrow> string option" where
  "acting (UVerify a _ _ _) = Some a"
| "acting (UActivate a _) = Some a"
| "acting (URole a _ _) = Some a"
| "acting _ = None"

definition active_admin :: "string \<Rightarrow> idstore \<Rightarrow> bool" where
  "active_admin a t = (case resolveIdentity a t of None \<Rightarrow> False
     | Some x \<Rightarrow> id_status x = I_ACTIVE \<and> id_role x = Some ADMIN)"

lemma acting_intact:
  assumes "acting op = None" "never_drawn en i" "i \<noteq> []"
  shows "keeps (intact i x) (users_exec svc en op)"
proof (cases "leaves_identities op")
  case True
  show ?thesis by (rule intact_same) (rule leaves_identities_keeps [OF True])
next
  case False
  with assms show ?thesis
    by (cases op) (auto simp: users_exec_def intro!: keep intact_createUser intact_initializeAccount)
qed

lemma verifyRegistration_atomic: "atomic us_store (verifyRegistration svc en a u e d)"
  unfolding verifyRegistration_def Let_def by (intro atomic_text) (auto intro!: frame)

text \<open>What the three administrative operations write when they succeed.\<close>

lemma verifyRegistration_ok:
  assumes "verifyRegistration svc en a u e d s = (Inr t, s')"
  shows "active_admin a (us_store s) \<and> us_store s' = identities_save t (us_store s) \<and>
    (\<exists>x. resolveIdentity u (us_store s) = Some x \<and> id_status x = I_PENDING \<and>
       id_identityId t = id_identityId x \<and> id_status t = I_PENDING \<and> id_role t = id_role x)"
  using assms
  by (auto simp: verifyRegistration_def Let_def run active_admin_def dest!: quiet_run)

lemma find_member: "find P xs = Some x \<Longrightarrow> x \<in> set xs \<and> P x"
  by (induction xs) (auto split: if_splits)

lemma find_device_pending:
  "find P (devices_listByIdentityId t i) = Some d \<Longrightarrow> dev_identityId d = i"
  by (auto simp: devices_listByIdentityId_def dest!: find_member)

lemma find_wallet_pending:
  "find P (wallets_listByIdentityId t i) = Some w \<Longrightarrow> wal_identityId w = i"
  by (auto simp: wallets_listByIdentityId_def dest!: find_member)

lemma activateRegistration_ok:
  assumes "activateRegistration svc en a u s = (Inr (t, d, w), s')"
  shows "active_admin a (us_store s) \<and>
    (\<exists>x. resolveIdentity u (us_store s) = Some x \<and> id_status x = I_PENDING \<and> complete_identity x \<and>
       t = x\<lparr>id_status := I_ACTIVE\<rparr> \<and> dev_status d = D_ACTIVE \<and> dev_identityId d = id_identityId x \<and>
       wal_status w = W_ACTIVE \<and> wal_identityId w = id_identityId x \<and> wal_publicKey w = dev_publicKey d \<and>
       us_store s' = users_save (toUser t (wal_address w)) (wallets_save w (devices_save d (identities_save t (us_store s)))))"
  using assms
  by (auto simp: activateRegistration_def Let_def run active_admin_def find_device_pending find_wallet_pending
      dest!: quiet_run)

lemma assignRole_ok:
  assumes "assignRole svc en a u v s = (Inr usr, s')"
  shows "active_admin a (us_store s) \<and>
    (\<exists>x r. resolveIdentity u (us_store s) = Some x \<and> parsed_role v = Some r \<and> id_status x \<noteq> I_REVOKED \<and>
       sto_identities (us_store s') = sto_identities (identities_save (x\<lparr>id_role := Some r\<rparr>) (us_store s)))"
  using assms
  by (auto simp: assignRole_def Let_def run active_admin_def users_save_def dest!: quiet_run split: option.splits)

lemma resolve_key:
  assumes "keyed id_identityId (sto_identities t)" "resolveIdentity u t = Some x"
  shows "identities_findById t (id_identityId x) = Some x"
proof (cases "identities_findById t u")
  case None
  with assms(2) have "x \<in> set (js_values (sto_identities t))"
    by (auto simp: resolveIdentity_def identities_findByEmployeeId_def dest!: find_member)
  then show ?thesis using identity_repo.list_find [OF assms(1)] by blast
next
  case (Some y)
  with assms show ?thesis using identity_repo.find_key [OF assms(1), of u] by (auto simp: resolveIdentity_def)
qed

text \<open>
  A stored identity after one request: as it was, or changed by an active administrator, and
  its status either unchanged or advanced from pending to active by an activation.
\<close>

definition guarded_change :: "user_op \<Rightarrow> idstore \<Rightarrow> identity \<Rightarrow> identity \<Rightarrow> bool" where
  "guarded_change op t x x' \<longleftrightarrow> x' = x \<or>
     (\<exists>a. acting op = Some a \<and> active_admin a t) \<and> id_identityId x' = id_identityId x \<and>
     (id_status x' = id_status x \<or>
      id_status x = I_PENDING \<and> id_status x' = I_ACTIVE \<and> complete_identity x \<and> (\<exists>a u. op = UActivate a u))"

lemma saved_identity:
  assumes "keyed id_identityId (sto_identities t)" "identities_findById t i = Some x"
    and "resolveIdentity u t = Some y" "id_identityId y' = id_identityId y"
  shows "identities_findById (identities_save y' t) i = Some (if i = id_identityId y then y' else x)"
    and "i = id_identityId y \<Longrightarrow> y = x"
  using assms resolve_key [OF assms(1,3)] by (auto simp: identity_repo.find_save)

lemma acting_change:
  assumes "users_exec svc en op s = (r, s')" "acting op = Some a"
    and "keyed id_identityId (sto_identities (us_store s))" "identities_findById (us_store s) i = Some x"
  shows "\<exists>x'. identities_findById (us_store s') i = Some x' \<and> guarded_change op (us_store s) x x'"
proof (cases r)
  case (Inl e)
  have "atomic us_store (users_exec svc en op)"
    using assms(2) by (cases op) (auto simp: users_exec_def intro!: atomic_unit activateRegistration_atomic
        assignRole_atomic verifyRegistration_atomic)
  with assms(1) Inl have "us_store s' = us_store s" by (auto dest: atomicD)
  with assms(4) show ?thesis by (auto simp: guarded_change_def)
next
  case (Inr v)
  note key = saved_identity [OF assms(3,4)]
  show ?thesis
  proof (cases op)
    case (UVerify b u e d)
    with assms(1) Inr obtain t where "verifyRegistration svc en b u e d s = (Inr t, s')"
      by (auto simp: users_exec_def unit_of_def run)
    from verifyRegistration_ok [OF this] key UVerify show ?thesis
      by (auto simp: guarded_change_def)
  next
    case (UActivate b u)
    with assms(1) Inr obtain t d w where "activateRegistration svc en b u s = (Inr (t, d, w), s')"
      by (auto simp: users_exec_def unit_of_def run)
    from activateRegistration_ok [OF this] key UActivate show ?thesis
      by (auto simp: guarded_change_def identities_findById_def saves_same_identities)
  next
    case (URole b u q)
    with assms(1) Inr obtain usr where "assignRole svc en b u q s = (Inr usr, s')"
      by (auto simp: users_exec_def unit_of_def run)
    from assignRole_ok [OF this] key URole show ?thesis
      by (auto simp: guarded_change_def identities_findById_def)
  qed (use assms(2) in auto)
qed

section \<open>Account initialization\<close>

lemma init_checks_ok:
  assumes "init_checks svc en inp s = (Inr att, s')"
  shows "us_store s' = us_store s \<and> \<not> ii_privateKey inp \<and> approved att \<and>
    \<not> containsSensitiveKey (ii_deviceMetadata inp) \<and>
    devices_findById (us_store s) (str (ii_deviceId inp)) = None \<and>
    wallets_findByAddress (us_store s) (str (ii_walletAddress inp)) = None \<and>
    (\<exists>c. challenges_findById (us_store s) (str (ii_challengeId inp)) = Some c \<and>
      ch_purpose c = WALLET_INITIALIZATION \<and> \<not> ch_used c \<and> \<not> date_le (ch_expiresAt c) (now_ms en) \<and>
      ch_deviceId c = str (ii_deviceId inp) \<and>
      verifyProof (usv_crypto svc) en (ch_challenge c) (str (ii_publicKey inp)) (str (ii_signature inp)))"
  using assms
  by (auto simp: init_checks_def attestDevice_def requireAttestation_def run split: option.splits if_splits
      dest!: quietD [OF quiet_calls(6)])

lemma consume_challenge_ok:
  assumes "consume_challenge en i s = (Inr u, s')"
  shows "s' = s\<lparr>us_store := snd (consumeIfUnused i (iso_now en) (us_store s))\<rparr>"
    "\<not> challenge_unused (us_store s') i"
proof -
  obtain t where t: "consumeIfUnused i (iso_now en) (us_store s) = (True, t)" "s' = s\<lparr>us_store := t\<rparr>"
    using assms by (auto simp: consume_challenge_def exec_defs split: prod.splits if_splits)
  then show "s' = s\<lparr>us_store := snd (consumeIfUnused i (iso_now en) (us_store s))\<rparr>" by simp
  show "\<not> challenge_unused (us_store s') i"
    using challenges.consume_spends [OF t(1)] t(2) by simp
qed

lemma initializeAccount_ok:
  assumes "initializeAccount svc en inp s = (Inr (idn, d, w), s')"
  shows "\<exists>att i t. init_checks svc en inp s = (Inr att, t) \<and> idn = pending_identity en i inp \<and>
    d = pending_device en i att inp \<and> w = pending_wallet i inp \<and>
    us_store s' = wallets_save w (devices_save d (identities_save idn
      (snd (consumeIfUnused (str (ii_challengeId inp)) (iso_now en) (us_store s))))) \<and>
    \<not> challenge_unused (us_store s') (str (ii_challengeId inp))"
proof -
  from assms obtain att s1 where c: "init_checks svc en inp s = (Inr att, s1)"
    and rest: "\<exists>s2. consume_challenge en (str (ii_challengeId inp)) (s1\<lparr>us_draws := us_draws s1 + 1\<rparr>) = (Inr (), s2) \<and>
      us_store s' = wallets_save w (devices_save d (identities_save idn (us_store s2)))"
    and new: "idn = pending_identity en (''DID:BEL:'' @ uuid en (us_draws s1)) inp"
      "d = pending_device en (''DID:BEL:'' @ uuid en (us_draws s1)) att inp"
      "w = pending_wallet (''DID:BEL:'' @ uuid en (us_draws s1)) inp"
    by (auto simp: initializeAccount_def Let_def run dest!: quiet_run)
  from rest obtain s2 where s2: "consume_challenge en (str (ii_challengeId inp)) (s1\<lparr>us_draws := us_draws s1 + 1\<rparr>) = (Inr (), s2)"
    and s': "us_store s' = wallets_save w (devices_save d (identities_save idn (us_store s2)))" by blast
  have "us_store s1 = us_store s" using init_checks_ok [OF c] by simp
  with consume_challenge_ok [OF s2] have
    "us_store s2 = snd (consumeIfUnused (str (ii_challengeId inp)) (iso_now en) (us_store s))"
    "\<not> challenge_unused (us_store s') (str (ii_challengeId inp))"
    by (simp_all add: s' challenge_unused_def save_defs)
  with s' c new show ?thesis by metis
qed

lemma initializeAccount_spent:
  assumes "\<not> challenge_unused (us_store s) (str (ii_challengeId inp))"
  shows "fst (initializeAccount svc en inp s) \<noteq> Inr r"
proof
  assume "fst (initializeAccount svc en inp s) = Inr r"
  then obtain x y z s2 where "initializeAccount svc en inp s = (Inr (x, y, z), s2)"
    by (cases "initializeAccount svc en inp s"; cases r) auto
  from initializeAccount_ok [OF this] obtain att t where "init_checks svc en inp s = (Inr att, t)" by blast
  from init_checks_ok [OF this] assms show False
    by (auto simp: challenge_unused_def challenges_findById_def)
qed

lemma login_needs_device:
  "(\<And>d. devices_findById t i = Some d \<Longrightarrow> dev_status d \<noteq> D_ACTIVE) \<Longrightarrow>
   fst (requestAuthenticationChallenge en i t) = Inl (UnauthorizedError ''Device, identity, or wallet is not active'')"
  by (auto simp: requestAuthenticationChallenge_def exec_defs Let_def split: option.splits)

section \<open>Sample states\<close>

text \<open>An administrator \<open>M\<close> and a complete pending registration \<open>I\<close>.\<close>

definition demo_registration :: idstore where
  "demo_registration = empty_store\<lparr>
     sto_identities := [(''M'', (demo_identity ADMIN)\<lparr>id_identityId := ''M'', id_employeeId := Some ''EM''\<rparr>),
       (''I'', (demo_identity ENGINEER)\<lparr>id_status := I_PENDING\<rparr>)],
     sto_devices := [(''D'', \<lparr>dev_deviceId = ''D'', dev_identityId = ''I'', dev_status = D_PENDING,
       dev_registeredAt = Iso 0, dev_activatedAt = None, dev_revokedAt = None, dev_publicKey = Some ''k'',
       dev_metadata = None\<rparr>)],
     sto_wallets := [(''W'', \<lparr>wal_address = ''W'', wal_identityId = ''I'', wal_deviceId = ''D'',
       wal_status = W_PENDING, wal_activatedAt = None, wal_revokedAt = None, wal_revokedReason = None,
       wal_publicKey = Some ''k''\<rparr>)]\<rparr>"

definition demo_init :: init_input where
  "demo_init = \<lparr>ii_privateKey = False, ii_fullName = JStr ''N'', ii_deviceId = JStr ''D'', ii_publicKey = JStr ''k'',
     ii_walletAddress = JStr ''W'', ii_challengeId = JStr ''C'', ii_signature = JStr ''nk'',
     ii_deviceMetadata = JObj [], ii_employeeId = None, ii_department = None\<rparr>"

section \<open>Properties\<close>





end
