(* ===== verification/Governance.thy ===== *)
theory Governance
  imports Validators Accounts
begin

text \<open>
  Properties of validator governance: the stored registrations form a well-formed set under
  every request, each request refines a step of an abstract machine on effective statuses, and
  the history records what happened.
\<close>

section \<open>Requests and runs\<close>

datatype validator_op =
    VAdd jsval
  | VRemove string jsnum jsval
  | VRestore string jsval
  | VCancel string jsval

definition validators_exec ::
    "'c validator_svc \<Rightarrow> env \<Rightarrow> string \<Rightarrow> validator_op \<Rightarrow> ('c, registration) users_m" where
  "validators_exec svc en who op = (case op of
     VAdd input \<Rightarrow> addValidator svc en who input
   | VRemove i h why \<Rightarrow> removeValidator svc en who i h why
   | VRestore i why \<Rightarrow> restoreValidator svc en who i why
   | VCancel i why \<Rightarrow> cancelScheduledRemoval svc en who i why)"

primrec validators_run ::
    "'c validator_svc \<Rightarrow> (env \<times> string \<times> validator_op) list \<Rightarrow> 'c users_state \<Rightarrow> 'c users_state" where
  "validators_run svc [] s = s"
| "validators_run svc (rq # rqs) s = validators_run svc rqs
     (snd (validators_exec svc (fst rq) (fst (snd rq)) (snd (snd rq)) s))"

section \<open>Frame\<close>

definition vregs :: "'c users_state \<Rightarrow> (string, registration) jsmap" where
  "vregs s = sto_validators (us_store s)"

lemma quiet_part: "quiet p f \<Longrightarrow> quiet (\<lambda>s. h (p s)) f"
  by (auto simp: quiet_def)

lemma quiet_vregs: "quiet us_store f \<Longrightarrow> quiet vregs f"
  using quiet_part [of us_store f sto_validators] by (simp add: vregs_def [abs_def])

lemma quiet_chain_head [frame]: "quiet us_store (chain_head svc)" "quiet vregs (chain_head svc)"
  by (auto simp: chain_head_def intro!: frame quiet_vregs)

lemma quiet_admin [frame]: "quiet us_store (activeIdentity i)" "quiet us_store (admin i)"
  by (auto simp: activeIdentity_def admin_def intro!: frame)

lemma quiet_get [frame]: "quiet us_store (get_registration svc i)"
  by (auto simp: get_registration_def intro!: frame)

lemma quiet_reason [frame]: "quiet p (required_reason v)" "quiet p (envelopeSignature en)"
  by (auto simp: required_reason_def envelopeSignature_def intro!: frame split: jsval.splits)

lemma quiet_appends [frame]:
  "quiet vregs (store (history_append h))" "quiet vregs (store (notifications_append n))"
  by (auto simp: quiet_def vregs_def store_def modifyS_def save_defs)

lemmas quiet_lifted [frame] = quiet_steps [THEN quiet_vregs] quiet_admin [THEN quiet_vregs]
  quiet_get [THEN quiet_vregs]

lemma quiet_on_error [frame]: "quiet p f \<Longrightarrow> quiet p h \<Longrightarrow> quiet p (on_error f h)"
  unfolding quiet_def on_error_def by (auto split: prod.splits sum.splits) (metis snd_conv)+

lemma quiet_submit [frame]: "quiet vregs (validator_submit svc en ty a r extra)"
  by (auto simp: validator_submit_def intro!: frame)

lemma quiet_records [frame]:
  "quiet vregs (recordHistory en r a op p n why res)" "quiet vregs (notify en ev r ch st who)"
  by (auto simp: recordHistory_def notify_def intro!: frame)

lemma sure_records [frame]:
  "sure (recordHistory en r a op p n why res)" "sure (notify en ev r ch st who)"
  by (auto simp: recordHistory_def notify_def intro!: frame)

lemma changed_frame [frame]: "quiet vregs (validatorChanged svc en ev r)" "sure (validatorChanged svc en ev r)"
  by (auto simp: validatorChanged_def intro!: frame)

lemma sure_finish [frame]: "sure (finish_validator svc en ty a p n why res r)"
  by (auto simp: finish_validator_def Let_def intro!: frame)

lemma validators_exec_atomic: "atomic vregs (validators_exec svc en who op)"
  unfolding validators_exec_def addValidator_def removeValidator_def restoreValidator_def
      cancelScheduledRemoval_def Let_def
  by (cases op; simp only: validator_op.case; intro atomic_bind atomic_then atomic_sure [OF sure_finish])
    (auto intro!: frame)

section \<open>Successful requests\<close>

lemma finish_ok:
  assumes "finish_validator svc en ty a p n why res r s = (Inr r', s')"
  shows "r' = r\<lparr>reg_txHash := Some (tx_hash res), reg_blockNumber := res_blockNumber res\<rparr> \<and>
    vregs s' = js_set (reg_registrationId r') r' (vregs s)"
proof -
  from assms obtain s1 s2 where r': "r' = r\<lparr>reg_txHash := Some (tx_hash res), reg_blockNumber := res_blockNumber res\<rparr>"
    and 1: "recordHistory en r' a ty p n why res (s\<lparr>us_store := validators_save r' (us_store s)\<rparr>) = (Inr (), s1)"
    and 2: "validatorChanged svc en ty r' s1 = (Inr (), s')"
    by (auto simp: finish_validator_def Let_def run)
  have "vregs s1 = js_set (reg_registrationId r') r' (vregs s)"
    using quietD [OF quiet_records(1) 1] by (simp add: vregs_def validators_save_def)
  moreover have "vregs s' = vregs s1" using quietD [OF changed_frame(1) 2] .
  ultimately show ?thesis using r' by simp
qed

lemma chain_head_ok [run]:
  "chain_head svc s = (Inr h, s') \<longleftrightarrow>
     s' = s \<and> (\<exists>st. getStatus (vsv_chain svc) (us_chain s) = Inr st \<and> h = cs_height st)"
  by (cases "getStatus (vsv_chain svc) (us_chain s)") (auto simp: chain_head_def chain_read_def run)

lemma admin_ok [run]:
  "admin i s = (Inr x, s') \<longleftrightarrow> s' = s \<and> identities_findById (us_store s) i = Some x \<and>
     id_status x = I_ACTIVE \<and> id_role x = Some ADMIN"
  by (auto simp: admin_def activeIdentity_def run split: option.splits if_splits)

lemma required_reason_ok [run]: "required_reason v s = (Inr w, s') \<longleftrightarrow> s' = s \<and> (\<exists>t. text_of v = Some t \<and> w = trim t)"
  by (cases v) (auto simp: required_reason_def run text_of_def)

definition lookup_registration :: "idstore \<Rightarrow> string \<Rightarrow> registration option" where
  "lookup_registration s i = or_else (validators_findById s i) (validators_findByValidatorId s i)"

lemma get_registration_ok [run]:
  "get_registration svc i s = (Inr r, s') \<longleftrightarrow> s' = s \<and> (\<exists>r0 st. lookup_registration (us_store s) i = Some r0 \<and>
     getStatus (vsv_chain svc) (us_chain s) = Inr st \<and> r = effectiveRegistration r0 (cs_height st))"
  by (auto simp: get_registration_def lookup_registration_def run)

lemma lookup_stored:
  assumes "lookup_registration (us_store s) i = Some r0" "keyed reg_registrationId (vregs s)"
  shows "js_get (vregs s) (reg_registrationId r0) = Some r0"
proof (cases "validators_findById (us_store s) i")
  case None
  with assms(1) have "r0 \<in> set (js_values (vregs s))"
    by (auto simp: lookup_registration_def or_else_def validators_findByValidatorId_def vregs_def dest!: find_member)
  then show ?thesis using keyed_values [OF assms(2), of r0] by simp
next
  case (Some x)
  with assms(1) show ?thesis
    using keyed_get [OF assms(2), of i r0] by (auto simp: lookup_registration_def or_else_def validators_findById_def vregs_def)
qed

text \<open>
  The effective status a request finds and the one it leaves, per transaction type; \<open>None\<close>
  is a validator without registration.
\<close>

fun gov_step :: "transaction_type \<Rightarrow> registration_status option \<Rightarrow> registration_status option" where
  "gov_step VALIDATOR_ADD None = Some R_PENDING"
| "gov_step VALIDATOR_REMOVE (Some R_PENDING) = Some R_REMOVAL_SCHEDULED"
| "gov_step VALIDATOR_REMOVE (Some R_ACTIVE) = Some R_REMOVAL_SCHEDULED"
| "gov_step VALIDATOR_RESTORE (Some R_REMOVED) = Some R_ACTIVE"
| "gov_step VALIDATOR_REMOVE_CANCEL (Some R_REMOVAL_SCHEDULED) = Some R_ACTIVE"
| "gov_step _ _ = None"

fun op_type :: "validator_op \<Rightarrow> transaction_type" where
  "op_type (VAdd _) = VALIDATOR_ADD"
| "op_type (VRemove _ _ _) = VALIDATOR_REMOVE"
| "op_type (VRestore _ _) = VALIDATOR_RESTORE"
| "op_type (VCancel _ _) = VALIDATOR_REMOVE_CANCEL"

text \<open>The stored registration of a validator.\<close>

definition of_validator :: "(string, registration) jsmap \<Rightarrow> string \<Rightarrow> registration option" where
  "of_validator m v = find (\<lambda>r. reg_validatorId r = v) (js_values m)"

text \<open>
  Well-formed registrations: stored under their id, one per validator, never stored as
  removed, with a positive removal height exactly while a removal is scheduled.
\<close>

definition reg_ok :: "registration \<Rightarrow> bool" where
  "reg_ok r \<longleftrightarrow> reg_status r \<noteq> R_REMOVED \<and>
     (reg_status r = R_REMOVAL_SCHEDULED \<longleftrightarrow> reg_removalHeight r \<noteq> None) \<and>
     (\<forall>h. reg_removalHeight r = Some h \<longrightarrow> 0 < h \<and> reg_activationHeight r < h)"

definition gov_ok :: "(string, registration) jsmap \<Rightarrow> bool" where
  "gov_ok m \<longleftrightarrow> keyed reg_registrationId m \<and> inj_on reg_validatorId (set (js_values m)) \<and>
     (\<forall>r \<in> set (js_values m). reg_ok r)"

lemma gov_ok_keyed: "gov_ok m \<Longrightarrow> keyed reg_registrationId m"
  by (simp add: gov_ok_def)

lemma of_validator_stored:
  assumes "gov_ok m" "js_get m (reg_registrationId r) = Some r"
  shows "of_validator m (reg_validatorId r) = Some r"
proof -
  have r: "r \<in> set (js_values m)"
    using assms(2) keyed_values [OF gov_ok_keyed [OF assms(1)], of r] by simp
  have "of_validator m (reg_validatorId r) \<noteq> None"
    using r unfolding of_validator_def find_None_iff by blast
  then obtain x where x: "of_validator m (reg_validatorId r) = Some x" by blast
  have "x \<in> set (js_values m) \<and> reg_validatorId x = reg_validatorId r"
    using x unfolding of_validator_def by (rule find_member)
  moreover have "inj_on reg_validatorId (set (js_values m))" using assms(1) unfolding gov_ok_def by blast
  ultimately have "x = r" using r by (blast dest: inj_onD)
  with x show ?thesis by simp
qed

lemma gov_ok_set:
  assumes "gov_ok m" "reg_ok r" "\<And>x. x \<in> set (js_values m) \<Longrightarrow> reg_validatorId x = reg_validatorId r \<Longrightarrow>
    reg_registrationId x = reg_registrationId r"
  shows "gov_ok (js_set (reg_registrationId r) r m)"
proof -
  let ?m = "js_set (reg_registrationId r) r m"
  have k: "keyed reg_registrationId m" and inj: "inj_on reg_validatorId (set (js_values m))"
    and ok: "\<forall>x \<in> set (js_values m). reg_ok x"
    using assms(1) unfolding gov_ok_def by blast+
  note vals = values_set [OF k, of r]
  let ?W = "{w \<in> set (js_values m). reg_registrationId w \<noteq> reg_registrationId r}"
  have "inj_on reg_validatorId ?W" using inj by (rule inj_on_subset) blast
  moreover have "reg_validatorId r \<notin> reg_validatorId ` (?W - {r})"
  proof
    assume "reg_validatorId r \<in> reg_validatorId ` (?W - {r})"
    then obtain w where "w \<in> ?W" "reg_validatorId w = reg_validatorId r" by force
    with assms(3) [of w] show False by simp
  qed
  ultimately have "inj_on reg_validatorId (set (js_values ?m))"
    unfolding vals inj_on_insert by (rule conjI)
  moreover have "\<forall>x \<in> set (js_values ?m). reg_ok x" unfolding vals using ok assms(2) by blast
  ultimately show ?thesis using keyed_set [OF k] unfolding gov_ok_def by blast
qed

lemma of_validator_set:
  assumes "gov_ok m" "gov_ok (js_set (reg_registrationId r) r m)"
  shows "of_validator (js_set (reg_registrationId r) r m) (reg_validatorId r) = Some r"
  by (rule of_validator_stored [OF assms(2)]) simp

text \<open>What a successful request has done to the registrations, at height \<open>head\<close>.\<close>

definition governed ::
    "transaction_type \<Rightarrow> int \<Rightarrow> (string, registration) jsmap \<Rightarrow> registration \<Rightarrow> (string, registration) jsmap \<Rightarrow> bool" where
  "governed ty head m r m' \<longleftrightarrow> m' = js_set (reg_registrationId r) r m \<and> reg_ok r \<and>
     (\<forall>x \<in> set (js_values m). reg_validatorId x = reg_validatorId r \<longrightarrow> reg_registrationId x = reg_registrationId r) \<and>
     gov_step ty (map_option (effective_status head) (of_validator m (reg_validatorId r))) = Some (reg_status r)"

lemma stored_ok:
  assumes "gov_ok m" "js_get m (reg_registrationId r) = Some r"
  shows "reg_ok r" "\<And>x. x \<in> set (js_values m) \<Longrightarrow> reg_validatorId x = reg_validatorId r \<Longrightarrow> x = r"
proof -
  have r: "r \<in> set (js_values m)"
    using assms(2) keyed_values [OF gov_ok_keyed [OF assms(1)], of r] by simp
  then show "reg_ok r" using assms(1) unfolding gov_ok_def by blast
  show "x = r" if "x \<in> set (js_values m)" "reg_validatorId x = reg_validatorId r" for x
    using that r assms(1) unfolding gov_ok_def by (blast dest: inj_onD)
qed

lemma unregistered:
  assumes "gov_ok m" "case of_validator m v of None \<Rightarrow> True | Some x \<Rightarrow> reg_status x = R_REMOVED"
  shows "of_validator m v = None" "x \<in> set (js_values m) \<Longrightarrow> reg_validatorId x \<noteq> v"
proof -
  show none: "of_validator m v = None"
  proof (rule ccontr)
    assume "of_validator m v \<noteq> None"
    then obtain x where x: "of_validator m v = Some x" by blast
    then have "x \<in> set (js_values m)" unfolding of_validator_def using find_member by fast
    then have "reg_ok x" using assms(1) unfolding gov_ok_def by blast
    with x assms(2) show False by (simp add: reg_ok_def)
  qed
  show "x \<in> set (js_values m) \<Longrightarrow> reg_validatorId x \<noteq> v"
    using none unfolding of_validator_def find_None_iff by blast
qed

lemma addValidator_ok:
  assumes "addValidator svc en who input s = (Inr r, s')" "gov_ok (vregs s)"
  shows "\<exists>st. getStatus (vsv_chain svc) (us_chain s) = Inr st \<and>
    governed VALIDATOR_ADD (cs_height st) (vregs s) r (vregs s') \<and> cs_height st < reg_activationHeight r"
proof -
  let ?v = "text_field input ''validatorId''" and ?h = "num_field input ''activationHeight''"
  from assms(1) obtain st a r0 res s1 s2 n where st: "getStatus (vsv_chain svc) (us_chain s) = Inr st"
    and old: "case of_validator (vregs s) ?v of None \<Rightarrow> True | Some x \<Rightarrow> reg_status x = R_REMOVED"
    and h: "isSafeInteger ?h" "\<not> num_le ?h (cs_height st)"
    and sub: "validator_submit svc en VALIDATOR_ADD a r0 [] s1 = (Inr res, s2)"
    and fin: "finish_validator svc en VALIDATOR_ADD a None n None res r0 s2 = (Inr r, s')"
    and s1: "vregs s1 = vregs s"
    and r0: "reg_validatorId r0 = ?v" "reg_status r0 = (if num_int ?h > cs_height st then R_PENDING else R_ACTIVE)"
      "reg_activationHeight r0 = num_int ?h" "reg_removalHeight r0 = None"
    by (auto simp: addValidator_def Let_def run of_validator_def vregs_def validators_findByValidatorId_def
        split: option.splits)
  have pos: "num_int ?h > cs_height st" using h by (cases ?h) (auto simp: le_floor_iff not_le)
  have "vregs s2 = vregs s" using quietD [OF quiet_submit sub] s1 by simp
  with finish_ok [OF fin] r0 pos unregistered [OF assms(2) old]
  have "governed VALIDATOR_ADD (cs_height st) (vregs s) r (vregs s') \<and> cs_height st < reg_activationHeight r"
    by (simp add: governed_def reg_ok_def)
  with st show ?thesis by blast
qed

lemma change_ok:
  assumes "gov_ok m" "js_get m (reg_registrationId r0) = Some r0"
    and "reg_registrationId r = reg_registrationId r0" "reg_validatorId r = reg_validatorId r0" "reg_ok r"
    and "m' = js_set (reg_registrationId r) r m"
    and "gov_step ty (Some (effective_status head r0)) = Some (reg_status r)"
  shows "governed ty head m r m'"
proof -
  have "\<forall>x \<in> set (js_values m). reg_validatorId x = reg_validatorId r \<longrightarrow> reg_registrationId x = reg_registrationId r"
  proof (intro ballI impI)
    fix x
    assume "x \<in> set (js_values m)" "reg_validatorId x = reg_validatorId r"
    then have "x = r0" using stored_ok(2) [OF assms(1,2)] assms(4) by simp
    with assms(3) show "reg_registrationId x = reg_registrationId r" by simp
  qed
  moreover have "of_validator m (reg_validatorId r) = Some r0"
    using of_validator_stored [OF assms(1,2)] assms(4) by simp
  ultimately show ?thesis
    unfolding governed_def using assms(5-7) by (intro conjI) (simp_all only: option.map)
qed

lemma removeValidator_ok:
  assumes "removeValidator svc en who i h why s = (Inr r, s')" "gov_ok (vregs s)"
  shows "\<exists>st. getStatus (vsv_chain svc) (us_chain s) = Inr st \<and>
    governed VALIDATOR_REMOVE (cs_height st) (vregs s) r (vregs s')"
proof -
  from assms(1) obtain r0 st a res s2 p w where look: "lookup_registration (us_store s) i = Some r0"
    and st: "getStatus (vsv_chain svc) (us_chain s) = Inr st"
    and g: "effective_status (cs_height st) r0 = R_PENDING \<or> effective_status (cs_height st) r0 = R_ACTIVE"
    and h: "isSafeInteger h" "\<not> num_le h 0" "\<not> num_le h (reg_activationHeight r0)"
    and sub: "validator_submit svc en VALIDATOR_REMOVE a (effectiveRegistration r0 (cs_height st))
       [(''removalHeight'', JNum h), (''reason'', JStr w)] s = (Inr res, s2)"
    and fin: "finish_validator svc en VALIDATOR_REMOVE a p ''REMOVAL_SCHEDULED'' (Some w) res
       ((effectiveRegistration r0 (cs_height st))\<lparr>reg_status := R_REMOVAL_SCHEDULED,
         reg_removalHeight := Some (num_int h), reg_removalReason := Some w\<rparr>) s2 = (Inr r, s')"
    by (auto simp: removeValidator_def run effectiveRegistration_def)
  note r0 = lookup_stored [OF look gov_ok_keyed [OF assms(2)]]
  have "vregs s2 = vregs s" using quietD [OF quiet_submit sub] .
  with finish_ok [OF fin] have s': "vregs s' = js_set (reg_registrationId r) r (vregs s)"
    and r: "reg_registrationId r = reg_registrationId r0" "reg_validatorId r = reg_validatorId r0"
      "reg_status r = R_REMOVAL_SCHEDULED" "reg_removalHeight r = Some (num_int h)"
      "reg_activationHeight r = reg_activationHeight r0"
    by (simp_all add: effectiveRegistration_def)
  have "0 < num_int h" "reg_activationHeight r0 < num_int h"
    using h by (cases h; auto simp: le_floor_iff not_le)+
  then have "reg_ok r" by (simp add: r reg_ok_def)
  with g have "governed VALIDATOR_REMOVE (cs_height st) (vregs s) r (vregs s')"
    by (intro change_ok [OF assms(2) r0 r(1,2) _ s']) (auto simp: r(3))
  with st show ?thesis by blast
qed

lemma reactivation_ok:
  assumes "finish_validator svc en ty a p n why res (reactivated (effectiveRegistration r0 head)) s2 = (Inr r, s')"
    and "vregs s2 = vregs s" "gov_ok (vregs s)" "js_get (vregs s) (reg_registrationId r0) = Some r0"
    and "gov_step ty (Some (effective_status head r0)) = Some R_ACTIVE"
  shows "governed ty head (vregs s) r (vregs s')"
proof -
  from finish_ok [OF assms(1)] assms(2) have s': "vregs s' = js_set (reg_registrationId r) r (vregs s)"
    and r: "reg_registrationId r = reg_registrationId r0" "reg_validatorId r = reg_validatorId r0"
      "reg_status r = R_ACTIVE" "reg_removalHeight r = None"
    by (simp_all add: effectiveRegistration_def reactivated_def)
  have "reg_ok r" by (simp add: r reg_ok_def)
  with assms(5) show ?thesis by (intro change_ok [OF assms(3,4) r(1,2) _ s']) (simp_all add: r(3))
qed

lemma restoreValidator_ok:
  assumes "restoreValidator svc en who i why s = (Inr r, s')" "gov_ok (vregs s)"
  shows "\<exists>st. getStatus (vsv_chain svc) (us_chain s) = Inr st \<and>
    governed VALIDATOR_RESTORE (cs_height st) (vregs s) r (vregs s')"
proof -
  from assms(1) obtain r0 st a res s2 p n w where look: "lookup_registration (us_store s) i = Some r0"
    and st: "getStatus (vsv_chain svc) (us_chain s) = Inr st"
    and g: "effective_removed (cs_height st) (effectiveRegistration r0 (cs_height st)) = R_REMOVED"
    and sub: "validator_submit svc en VALIDATOR_RESTORE a (effectiveRegistration r0 (cs_height st))
       [(''reason'', JStr w)] s = (Inr res, s2)"
    and fin: "finish_validator svc en VALIDATOR_RESTORE a p n (Some w) res
       (reactivated (effectiveRegistration r0 (cs_height st))) s2 = (Inr r, s')"
    by (auto simp: restoreValidator_def run)
  have "effective_status (cs_height st) r0 = R_REMOVED"
    using g by (auto simp: effective_removed_def effectiveRegistration_def effective_status_def split: if_splits)
  with reactivation_ok [OF fin quietD [OF quiet_submit sub] assms(2) lookup_stored [OF look gov_ok_keyed [OF assms(2)]]] st
  show ?thesis by simp
qed

lemma cancelScheduledRemoval_ok:
  assumes "cancelScheduledRemoval svc en who i why s = (Inr r, s')" "gov_ok (vregs s)"
  shows "\<exists>st. getStatus (vsv_chain svc) (us_chain s) = Inr st \<and>
    governed VALIDATOR_REMOVE_CANCEL (cs_height st) (vregs s) r (vregs s')"
proof -
  from assms(1) obtain r0 st a res s2 p n w where look: "lookup_registration (us_store s) i = Some r0"
    and st: "getStatus (vsv_chain svc) (us_chain s) = Inr st"
    and g: "effective_status (cs_height st) r0 = R_REMOVAL_SCHEDULED"
    and sub: "validator_submit svc en VALIDATOR_REMOVE_CANCEL a (effectiveRegistration r0 (cs_height st))
       [(''reason'', JStr w)] s = (Inr res, s2)"
    and fin: "finish_validator svc en VALIDATOR_REMOVE_CANCEL a p n (Some w) res
       (reactivated (effectiveRegistration r0 (cs_height st))) s2 = (Inr r, s')"
    by (auto simp: cancelScheduledRemoval_def run effectiveRegistration_def)
  with reactivation_ok [OF fin quietD [OF quiet_submit sub] assms(2) lookup_stored [OF look gov_ok_keyed [OF assms(2)]]] st
  show ?thesis by simp
qed

lemma validators_exec_ok:
  assumes "validators_exec svc en who op s = (Inr r, s')" "gov_ok (vregs s)"
  shows "\<exists>st. getStatus (vsv_chain svc) (us_chain s) = Inr st \<and>
    governed (op_type op) (cs_height st) (vregs s) r (vregs s')"
proof (cases op)
  case (VAdd input)
  with assms addValidator_ok [of svc en who input s r s'] show ?thesis by (auto simp: validators_exec_def)
next
  case (VRemove i h why)
  with assms removeValidator_ok [of svc en who i h why s r s'] show ?thesis by (simp add: validators_exec_def)
next
  case (VRestore i why)
  with assms restoreValidator_ok [of svc en who i why s r s'] show ?thesis by (simp add: validators_exec_def)
next
  case (VCancel i why)
  with assms cancelScheduledRemoval_ok [of svc en who i why s r s'] show ?thesis by (simp add: validators_exec_def)
qed

lemma validators_exec_gov_ok: "keeps (\<lambda>s. gov_ok (vregs s)) (validators_exec svc en who op)"
proof (rule keepsI)
  fix s res s'
  assume ok: "gov_ok (vregs s)" and run: "validators_exec svc en who op s = (res, s')"
  show "gov_ok (vregs s')"
  proof (cases res)
    case (Inl e)
    with run have "validators_exec svc en who op s = (Inl e, s')" by simp
    with ok show ?thesis by (simp add: atomicD [OF validators_exec_atomic])
  next
    case (Inr r)
    with run have "validators_exec svc en who op s = (Inr r, s')" by simp
    from validators_exec_ok [OF this ok] obtain h where g: "governed (op_type op) h (vregs s) r (vregs s')" by blast
    then have s': "vregs s' = js_set (reg_registrationId r) r (vregs s)" and r: "reg_ok r" by (simp_all add: governed_def)
    have "gov_ok (js_set (reg_registrationId r) r (vregs s))"
      using g by (intro gov_ok_set [OF ok r]) (auto simp: governed_def)
    then show ?thesis by (simp add: s')
  qed
qed

lemma validators_run_gov_ok: "gov_ok (vregs s) \<Longrightarrow> gov_ok (vregs (validators_run svc rqs s))"
proof (induction rqs arbitrary: s)
  case (Cons rq rqs)
  let ?f = "validators_exec svc (fst rq) (fst (snd rq)) (snd (snd rq))"
  have "gov_ok (vregs (snd (?f s)))"
    using validators_exec_gov_ok [of svc "fst rq" "fst (snd rq)" "snd (snd rq)"] Cons.prems
    unfolding keeps_def by blast
  with Cons.IH show ?case by simp
qed simp

section \<open>Failed requests\<close>

text \<open>
  A method is \<open>logged ty\<close> when a failure leaves the store as it was, or with one more
  history record that says that \<open>ty\<close> failed and changed no state.
\<close>

definition failure_of :: "transaction_type \<Rightarrow> history \<Rightarrow> bool" where
  "failure_of ty h \<longleftrightarrow> hist_status h = OP_FAILED \<and> hist_operation h = ty \<and>
     hist_previousState h = Some (hist_newState h) \<and> hist_transactionHash h = None"

definition logged :: "transaction_type \<Rightarrow> ('c, 'a) users_m \<Rightarrow> bool" where
  "logged ty f \<longleftrightarrow> (\<forall>s e s'. f s = (Inl e, s') \<longrightarrow>
     us_store s' = us_store s \<or> (\<exists>h. failure_of ty h \<and> us_store s' = history_append h (us_store s)))"

lemma logged_bind:
  assumes "quiet us_store f" "\<And>x. logged ty (g x)"
  shows "logged ty (bindE f g)"
  unfolding logged_def
proof (intro allI impI)
  fix s e s'
  assume "bindE f g s = (Inl e, s')"
  then consider "f s = (Inl e, s')" | x s1 where "f s = (Inr x, s1)" "g x s1 = (Inl e, s')"
    by (auto simp: run)
  then show "us_store s' = us_store s \<or> (\<exists>h. failure_of ty h \<and> us_store s' = history_append h (us_store s))"
  proof cases
    case 1
    then show ?thesis using quietD [OF assms(1)] by blast
  next
    case 2
    then have "us_store s1 = us_store s" using quietD [OF assms(1)] by blast
    with 2(2) assms(2) show ?thesis unfolding logged_def by metis
  qed
qed

lemma logged_then: "quiet us_store f \<Longrightarrow> logged ty g \<Longrightarrow> logged ty (thenE f g)"
  by (simp add: thenE_def logged_bind)

lemma logged_sure: "logged ty f \<Longrightarrow> (\<And>x. sure (g x)) \<Longrightarrow> logged ty (bindE f g)"
  unfolding logged_def by (auto simp: run) (metis atomic_sure Inl_Inr_False fst_conv sure_def)

lemma on_error_err:
  "on_error f h s = (Inl e, s') \<longleftrightarrow> (\<exists>e0 s1. f s = (Inl e0, s1) \<and> (h s1 = (Inr (), s') \<and> e = e0 \<or> h s1 = (Inl e, s')))"
  by (auto simp: on_error_def split: prod.splits sum.splits)

lemma logged_on_error:
  assumes "quiet us_store f" "\<And>u. failure_of ty (h u)"
  shows "logged ty (on_error f (bindE (draw en) (\<lambda>u. store (history_append (h u)))))"
  unfolding logged_def
proof (intro allI impI disjI2)
  fix s e s'
  assume "on_error f (bindE (draw en) (\<lambda>u. store (history_append (h u)))) s = (Inl e, s')"
  then obtain e0 s1 where "f s = (Inl e0, s1)" "us_store s' = history_append (h (uuid en (us_draws s1))) (us_store s1)"
    unfolding on_error_err by (auto simp: run)
  moreover from this(1) have "us_store s1 = us_store s" using quietD [OF assms(1)] by blast
  ultimately show "\<exists>h. failure_of ty h \<and> us_store s' = history_append h (us_store s)" using assms(2) by metis
qed

lemma logged_submit: "logged ty (validator_submit svc en ty a r extra)"
  unfolding validator_submit_def
  by (intro logged_bind logged_on_error) (auto simp: failure_of_def intro!: frame)

lemma validators_exec_logged: "logged (op_type op) (validators_exec svc en who op)"
  unfolding validators_exec_def addValidator_def removeValidator_def restoreValidator_def
      cancelScheduledRemoval_def Let_def
  by (cases op; simp only: validator_op.case op_type.simps;
      intro logged_sure [OF logged_submit] logged_bind logged_then sure_finish) (auto intro!: frame)

section \<open>Sample states\<close>

definition demo_validator_svc :: "int \<Rightarrow> mock_chain validator_svc" where
  "demo_validator_svc head = \<lparr>vsv_chain = mock_api\<lparr>getStatus := (\<lambda>c. Inr (mock_status\<lparr>cs_height := head\<rparr>))\<rparr>,
     vsv_isAddress = (\<lambda>a. a \<noteq> []), vsv_email = \<lparr>em_provider = None, em_host = None, em_from = None\<rparr>\<rparr>"

definition demo_candidate :: jsval where
  "demo_candidate = JObj [(''validatorId'', JStr ''0xV''), (''nodeAddress'', JStr ''n''), (''publicKey'', JStr ''p''),
     (''signingPublicKey'', JStr ''q''), (''activationHeight'', JNum (Fin 50))]"

definition demo_governance :: "mock_chain users_state" where
  "demo_governance = validators_run (demo_validator_svc 42)
     [(demo_env, ''M'', VAdd demo_candidate), (demo_env, ''M'', VRemove ''0xV'' (Fin 60) (JStr ''retired''))]
     (demo_users demo_registration)"

definition demo_scheduled :: idstore where
  "demo_scheduled = validators_save \<lparr>reg_registrationId = ''R'', reg_validatorId = ''0xV'', reg_identityId = ''M'',
     reg_walletAddress = ''SYSTEM'', reg_nodeId = ''0xV'', reg_nodeAddress = ''n'', reg_publicKey = ''p'',
     reg_signingPublicKey = ''q'', reg_status = R_REMOVAL_SCHEDULED, reg_requestedAt = Iso 0,
     reg_activationHeight = 50, reg_removalHeight = Some 60, reg_removalReason = Some ''retired'',
     reg_txHash = None, reg_blockNumber = None\<rparr> demo_registration"

lemma demo_start: "vregs (demo_users demo_registration) = []"
  by (simp add: vregs_def demo_registration_def empty_store_def)

section \<open>Properties\<close>

text \<open>
  C7. Validator governance refines the machine on effective statuses: after any requests on an
  initially empty registry, a further request either fails and leaves every registration as it
  was, or it was made by an active administrator, writes the one registration it returns, and
  takes its validator one step of the machine from the effective status at the current height;
  validators keep exactly one registration each.
\<close>

theorem governance_refines_machine:
  assumes "vregs s0 = []" "s = validators_run svc rqs s0" "validators_exec svc en who op s = (res, s')"
  shows "gov_ok (vregs s') \<and> (case res of
     Inl e \<Rightarrow> vregs s' = vregs s
   | Inr r \<Rightarrow> \<exists>st. getStatus (vsv_chain svc) (us_chain s) = Inr st \<and>
       governed (op_type op) (cs_height st) (vregs s) r (vregs s'))"
proof -
  have ok: "gov_ok (vregs s)"
    unfolding assms(2) by (rule validators_run_gov_ok) (simp add: assms(1) gov_ok_def)
  have "gov_ok (vregs s')" using keepsD [OF validators_exec_gov_ok assms(3)] ok by simp
  moreover have "case res of Inl e \<Rightarrow> vregs s' = vregs s
   | Inr r \<Rightarrow> \<exists>st. getStatus (vsv_chain svc) (us_chain s) = Inr st \<and>
       governed (op_type op) (cs_height st) (vregs s) r (vregs s')"
  proof (cases res)
    case (Inl e)
    with assms(3) show ?thesis by (simp add: atomicD [OF validators_exec_atomic])
  next
    case (Inr r)
    with validators_exec_ok [OF _ ok, of svc en who op r s'] assms(3) show ?thesis by simp
  qed
  ultimately show ?thesis by blast
qed

theorem governance_refines_machine_witness:
  "gov_ok (vregs (snd (validators_exec (demo_validator_svc 42) demo_env ''M'' (VCancel ''0xV'' (JStr ''kept'')) demo_governance)))"
proof -
  obtain res s' where run: "validators_exec (demo_validator_svc 42) demo_env ''M'' (VCancel ''0xV'' (JStr ''kept'')) demo_governance = (res, s')"
    by (cases "validators_exec (demo_validator_svc 42) demo_env ''M'' (VCancel ''0xV'' (JStr ''kept'')) demo_governance")
  from governance_refines_machine [OF demo_start demo_governance_def run] run show ?thesis by simp
qed

text \<open>
  A validator that was removed can never be registered again: the stored status of a
  registration is never \<open>REMOVED\<close>, the effective removal exists only when it is read, so
  after any requests an add request for a validator that has a registration fails, also when
  its removal is effective, and changes no registration.
\<close>

theorem removed_validator_not_readmitted:
  assumes "vregs s0 = []" "s = validators_run svc rqs s0"
    and "of_validator (vregs s) (text_field input ''validatorId'') \<noteq> None"
  shows "(\<forall>r. fst (addValidator svc' en who input s) \<noteq> Inr r) \<and>
    vregs (snd (addValidator svc' en who input s)) = vregs s"
proof -
  have ok: "gov_ok (vregs s)"
    unfolding assms(2) by (rule validators_run_gov_ok) (simp add: assms(1) gov_ok_def)
  obtain x where x: "of_validator (vregs s) (text_field input ''validatorId'') = Some x" using assms(3) by blast
  then have "x \<in> set (js_values (vregs s))" unfolding of_validator_def using find_member by fast
  then have live: "reg_status x \<noteq> R_REMOVED" using ok unfolding gov_ok_def reg_ok_def by blast
  obtain res s' where step: "addValidator svc' en who input s = (res, s')"
    by (cases "addValidator svc' en who input s")
  have "res \<noteq> Inr r" for r
    using step x live by (auto simp: addValidator_def Let_def run of_validator_def vregs_def
        validators_findByValidatorId_def)
  then obtain e where "res = Inl e" by (cases res) auto
  with step have "validators_exec svc' en who (VAdd input) s = (Inl e, s')" by (simp add: validators_exec_def)
  from atomicD [OF validators_exec_atomic this] \<open>res = Inl e\<close> step show ?thesis by simp
qed

theorem removed_validator_not_readmitted_witness:
  "map_option (effective_status 100) (of_validator (vregs demo_governance) ''0xV'') = Some R_REMOVED \<and>
   (\<forall>r. fst (addValidator (demo_validator_svc 100) demo_env ''M'' demo_candidate demo_governance) \<noteq> Inr r)"
proof -
  have removed: "map_option (effective_status 100) (of_validator (vregs demo_governance) ''0xV'') = Some R_REMOVED"
    by code_simp
  have "text_field demo_candidate ''validatorId'' = ''0xV''" by code_simp
  with removed have "of_validator (vregs demo_governance) (text_field demo_candidate ''validatorId'') \<noteq> None" by auto
  from removed_validator_not_readmitted [OF demo_start demo_governance_def this] removed show ?thesis by blast
qed

text \<open>
  Cancelling the scheduled removal of a validator whose activation height has not been
  reached activates it at once: the registration was pending when its removal was scheduled,
  the cancellation makes it active, and it counts as active at heights below its activation
  height.
\<close>

theorem cancel_activates_early:
  assumes "cancelScheduledRemoval svc en who i why s = (Inr r, s')"
    and "lookup_registration (us_store s) i = Some r0" "head < reg_activationHeight r0"
  shows "effective_status head r = R_ACTIVE \<and> head < reg_activationHeight r \<and>
    js_get (vregs s') (reg_registrationId r) = Some r"
proof -
  from assms(1,2) obtain h a res s2 p n w where
    "finish_validator svc en VALIDATOR_REMOVE_CANCEL a p n (Some w) res
       (reactivated (effectiveRegistration r0 h)) s2 = (Inr r, s')"
    by (auto simp: cancelScheduledRemoval_def run)
  from finish_ok [OF this] assms(3) show ?thesis
    by (auto simp: reactivated_def effectiveRegistration_def effective_status_def)
qed

theorem cancel_activates_early_witness:
  "\<exists>r s'. cancelScheduledRemoval (demo_validator_svc 42) demo_env ''M'' ''0xV'' (JStr ''kept'') (demo_users demo_scheduled) = (Inr r, s') \<and>
     effective_status 42 r = R_ACTIVE \<and> 42 < reg_activationHeight r"
proof -
  let ?run = "cancelScheduledRemoval (demo_validator_svc 42) demo_env ''M'' ''0xV'' (JStr ''kept'') (demo_users demo_scheduled)"
  have "succeeds ?run" by code_simp
  then obtain r s' where ok: "?run = (Inr r, s')" using succeedsD by blast
  have "case lookup_registration demo_scheduled ''0xV'' of None \<Rightarrow> False | Some r0 \<Rightarrow> 42 < reg_activationHeight r0"
    by code_simp
  then obtain r0 where "lookup_registration demo_scheduled ''0xV'' = Some r0" "42 < reg_activationHeight r0"
    by (auto split: option.splits)
  with cancel_activates_early [OF ok, of r0 42] ok show ?thesis by simp
qed

text \<open>
  Validator governance is reserved to active administrators: a request by anyone else is
  refused as forbidden and leaves the whole state, the chain included, as it was.
\<close>

theorem governance_needs_admin:
  assumes "\<And>x. identities_findById (us_store s) who = Some x \<Longrightarrow> id_status x = I_ACTIVE \<Longrightarrow> id_role x \<noteq> Some ADMIN"
  shows "\<exists>msg. validators_exec svc en who op s = (Inl (ForbiddenError msg), s)"
proof -
  have "\<exists>msg. admin who s = (Inl (ForbiddenError msg), s)"
    using assms by (auto simp: admin_def activeIdentity_def look_def exec_defs split: option.splits)
  then obtain msg where "admin who s = (Inl (ForbiddenError msg), s)" by blast
  then have "bindE (admin who) g s = (Inl (ForbiddenError msg), s)" for g :: "identity \<Rightarrow> ('a, registration) users_m"
    by (rule bindE_Inl)
  then show ?thesis
    by (cases op) (auto simp: validators_exec_def addValidator_def removeValidator_def restoreValidator_def
        cancelScheduledRemoval_def)
qed

theorem governance_needs_admin_witness:
  "\<exists>msg. validators_exec (demo_validator_svc 42) demo_env ''I'' (VAdd demo_candidate) (demo_users demo_registration)
     = (Inl (ForbiddenError msg), demo_users demo_registration)"
  by (rule governance_needs_admin)
    (simp add: demo_registration_def demo_identity_def identities_findById_def)

text \<open>
  A failed governance request leaves a trace and nothing else: the identity store is as
  before, or it has one more history record, which says that the operation failed, names the
  same state before and after and carries no transaction hash.
\<close>

theorem failed_governance_is_logged:
  assumes "validators_exec svc en who op s = (Inl e, s')"
  shows "us_store s' = us_store s \<or> (\<exists>h. failure_of (op_type op) h \<and> us_store s' = history_append h (us_store s))"
  using validators_exec_logged assms unfolding logged_def by blast

theorem failed_governance_is_logged_witness:
  "\<exists>e s'. validators_exec (demo_validator_svc 42) (demo_env\<lparr>BEL_ENV := Some ''production''\<rparr>) ''M''
       (VAdd demo_candidate) (demo_users demo_registration) = (Inl e, s') \<and>
     (us_store s' = demo_registration \<or> (\<exists>h. failure_of VALIDATOR_ADD h \<and> us_store s' = history_append h demo_registration))"
proof -
  let ?run = "validators_exec (demo_validator_svc 42) (demo_env\<lparr>BEL_ENV := Some ''production''\<rparr>) ''M''
       (VAdd demo_candidate) (demo_users demo_registration)"
  have "\<not> succeeds ?run" by code_simp
  then obtain e s' where ok: "?run = (Inl e, s')" using failsD by blast
  from failed_governance_is_logged [OF ok] ok show ?thesis by simp
qed

end
