(* ===== verification/AdminRoutes.thy ===== *)
theory AdminRoutes
  imports Backend Accounts Governance
begin

text \<open>
  \<^verbatim>\<open>backend/src/routes/users.routes.ts\<close> and the blockchain and validator routes of
  \<^verbatim>\<open>chain.routes.ts\<close> with \<^verbatim>\<open>blockchain/blockchain.controller.ts\<close>: login,
  provisioning, administration of identities, devices, wallets, roles, grants and validators.

  Where a handler passes a field of the body to a parameter of type string without a check, a
  value that is not text is read as the empty string: the source fails there with a
  \<^verbatim>\<open>TypeError\<close> of \<^verbatim>\<open>trim\<close>, the model with the validation error of a blank
  field, and neither changes the state.
\<close>

section \<open>Login and provisioning\<close>

definition post_login_challenge :: "('c, 'g) backend_svc \<Rightarrow> http_request \<Rightarrow> ('c, 'g, challenge) route" where
  "post_login_challenge bk rq = public bk rq
     (bindE (required (as_str (fld (hq_body rq) ''deviceId'')) (ValidationError [''deviceId must be a string''])) (\<lambda>d.
        on_ids (requestAuthenticationChallenge (hq_env rq) d)))"

definition post_login :: "('c, 'g) backend_svc \<Rightarrow> http_request \<Rightarrow> ('c, 'g, user \<times> string) route" where
  "post_login bk rq = public bk rq
     (case fld (hq_body rq) ''deviceCredential'' of
        JStr credential \<Rightarrow> on_ids (login_legacy (bk_crypto bk) (hq_env rq) credential)
      | _ \<Rightarrow>
        (case (fld (hq_body rq) ''deviceId'', fld (hq_body rq) ''challengeId'', fld (hq_body rq) ''publicKey'', fld (hq_body rq) ''signature'') of
           (JStr d, JStr c, JStr k, JStr sg) \<Rightarrow>
             on_ids (loginWithProof (bk_crypto bk) (hq_env rq) d \<lparr>pi_challengeId = c, pi_publicKey = k, pi_signature = sg\<rparr>)
         | _ \<Rightarrow> throw (ValidationError [''deviceCredential or device proof fields are required''])))"

text \<open>The bearer token, once \<^verbatim>\<open>requireSession\<close> has passed.\<close>

definition bearer :: "http_request \<Rightarrow> string" where
  "bearer rq = trim (drop 7 (the (hq_authorization rq)))"

definition post_fresh_challenge :: "('c, 'g) backend_svc \<Rightarrow> http_request \<Rightarrow> ('c, 'g, challenge) route" where
  "post_fresh_challenge bk rq = authed bk rq (\<lambda>u.
     bindE (required (text_of (fld (hq_body rq) ''operation'')) (ValidationError [''operation is required''])) (\<lambda>operation.
     let resourceId = fld (hq_body rq) ''resourceId'' in
     thenE (throwIf (resourceId \<noteq> JUndefined \<and> as_str resourceId = None) (ValidationError [''resourceId must be a string'']))
       (on_ids (requestFreshAuthenticationChallenge (bk_crypto bk) (hq_env rq) (bearer rq) operation (as_str resourceId)))))"

definition post_provisioning_challenge :: "('c, 'g) backend_svc \<Rightarrow> http_request \<Rightarrow> ('c, 'g, challenge) route" where
  "post_provisioning_challenge bk rq = public bk rq
     (on_users (requestProvisioningChallenge (users_service bk) (hq_env rq) (str (fld (hq_body rq) ''deviceId''))
        (fld (hq_body rq) ''deviceMetadata'')))"

text \<open>\<open>input\<close> is the body at the type of the service's parameter.\<close>

definition post_initialize_account ::
  "('c, 'g) backend_svc \<Rightarrow> http_request \<Rightarrow> init_input \<Rightarrow> ('c, 'g, identity \<times> device \<times> wallet) route" where
  "post_initialize_account bk rq input = public bk rq
     (on_users (initializeAccount (users_service bk) (hq_env rq) input))"

definition post_logout :: "('c, 'g) backend_svc \<Rightarrow> http_request \<Rightarrow> ('c, 'g, unit) route" where
  "post_logout bk rq = authed bk rq (\<lambda>u. on_ids (logout (bearer rq)))"

section \<open>Registrations and users\<close>

definition admin_role :: "user \<Rightarrow> ('c, 'g, unit) route" where
  "admin_role u = pass (requireRole [ADMIN] (Some u))"

definition get_pending :: "('c, 'g) backend_svc \<Rightarrow> http_request \<Rightarrow> ('c, 'g, (identity \<times> device \<times> wallet) list) route" where
  "get_pending bk rq = authed bk rq (\<lambda>u. thenE (admin_role u) (reads (\<lambda>w. listPendingRegistrations (ids w))))"

definition get_active :: "('c, 'g) backend_svc \<Rightarrow> http_request \<Rightarrow> ('c, 'g, (user \<times> string) list) route" where
  "get_active bk rq = authed bk rq (\<lambda>u. thenE (permit CREATE_EMPLOYEE u) (reads (\<lambda>w. listActiveEmployees (ids w))))"

definition post_verify :: "('c, 'g) backend_svc \<Rightarrow> http_request \<Rightarrow> ('c, 'g, identity) route" where
  "post_verify bk rq = authed bk rq (\<lambda>u. thenE (admin_role u)
     (on_users (verifyRegistration (users_service bk) (hq_env rq) (usr_identityId u) (hq_id rq)
        (str (fld (hq_body rq) ''employeeId'')) (str (fld (hq_body rq) ''department'')))))"

definition post_activate :: "('c, 'g) backend_svc \<Rightarrow> http_request \<Rightarrow> ('c, 'g, identity \<times> device \<times> wallet) route" where
  "post_activate bk rq = authed bk rq (\<lambda>u. thenE (admin_role u)
     (on_users (activateRegistration (users_service bk) (hq_env rq) (usr_identityId u) (hq_id rq))))"

definition user_errors :: "jsobj \<Rightarrow> string list" where
  "user_errors body =
     (if text_of (fld body ''employeeId'') = None then [''employeeId is required''] else []) @
     (if text_of (fld body ''fullName'') = None then [''fullName is required''] else []) @
     (if text_of (fld body ''department'') = None then [''department is required''] else []) @
     (if isValidRole (fld body ''role'') then [] else [''role is invalid''])"

definition post_users :: "('c, 'g) backend_svc \<Rightarrow> http_request \<Rightarrow> create_input \<Rightarrow> ('c, 'g, identity \<times> user) route" where
  "post_users bk rq input = authed bk rq (\<lambda>u.
     thenE (permit CREATE_EMPLOYEE u)
    (thenE (throwIf (production (hq_env rq))
       (ForbiddenError ''Legacy administrator user creation is disabled in production; use account initialization''))
    (thenE (throwIf (user_errors (hq_body rq) \<noteq> []) (ValidationError (user_errors (hq_body rq))))
       (on_users (createUser (users_service bk) (hq_env rq) input (Some (usr_identityId u)))))))"

definition get_me :: "('c, 'g) backend_svc \<Rightarrow> http_request \<Rightarrow> ('c, 'g, user) route" where
  "get_me bk rq = authed bk rq ret"

definition get_user :: "('c, 'g) backend_svc \<Rightarrow> http_request \<Rightarrow> ('c, 'g, user) route" where
  "get_user bk rq = authed bk rq (\<lambda>u.
     bindE (on_users (users_getById (hq_id rq))) (\<lambda>found. required found (NotFoundError (''No user '' @ hq_id rq))))"

section \<open>Devices, wallets and roles\<close>

definition post_revoke_wallet :: "('c, 'g) backend_svc \<Rightarrow> http_request \<Rightarrow> ('c, 'g, wallet) route" where
  "post_revoke_wallet bk rq = authed bk rq (\<lambda>u.
     thenE (pass (requireActiveIdentity (Some u)))
    (thenE (fresh bk rq ''WALLET_REVOKE'' (Some (hq_id rq)))
    (thenE (permit REVOKE_WALLET u)
    (bindE (required (text_of (fld (hq_body rq) ''reason'')) (ValidationError [''reason is required to revoke a wallet''])) (\<lambda>reason.
       on_users (revokeWallet (users_service bk) (hq_env rq) (hq_id rq) reason (usr_identityId u)))))))"

definition post_activate_wallet :: "('c, 'g) backend_svc \<Rightarrow> http_request \<Rightarrow> ('c, 'g, wallet) route" where
  "post_activate_wallet bk rq = authed bk rq (\<lambda>u.
     thenE (pass (requireActiveIdentity (Some u)))
    (thenE (fresh bk rq ''WALLET_ACTIVATE'' (Some (hq_id rq)))
    (thenE (permit ACTIVATE_WALLET u)
       (case (fld (hq_body rq) ''deviceId'', text_of (fld (hq_body rq) ''walletAddress'')) of
          (JStr d, Some address) \<Rightarrow>
            on_users (activateWallet (users_service bk) (hq_env rq) (hq_id rq) d address (usr_identityId u))
        | _ \<Rightarrow> throw (ValidationError [''deviceId and device-generated walletAddress are required''])))))"

definition post_devices :: "('c, 'g) backend_svc \<Rightarrow> http_request \<Rightarrow> ('c, 'g, device) route" where
  "post_devices bk rq = authed bk rq (\<lambda>u. thenE (permit CREATE_EMPLOYEE u)
     (on_users (registerDevice (users_service bk) (hq_env rq) (hq_id rq) (str (fld (hq_body rq) ''deviceId''))
        (str (fld (hq_body rq) ''credential'')) (as_str (fld (hq_body rq) ''publicKey'')))))"

definition get_devices :: "('c, 'g) backend_svc \<Rightarrow> http_request \<Rightarrow> ('c, 'g, device list) route" where
  "get_devices bk rq = authed bk rq (\<lambda>u. thenE (permit CREATE_EMPLOYEE u) (on_users (listDevices (hq_id rq))))"

definition post_revoke_device :: "('c, 'g) backend_svc \<Rightarrow> http_request \<Rightarrow> ('c, 'g, device) route" where
  "post_revoke_device bk rq = authed bk rq (\<lambda>u.
     thenE (fresh bk rq ''WALLET_REVOKE'' (Some (hq_id rq)))
    (thenE (permit REVOKE_WALLET u)
       (on_users (revokeDevice (users_service bk) (hq_env rq) (hq_id rq) (Some (usr_identityId u))))))"

definition post_wallets :: "('c, 'g) backend_svc \<Rightarrow> http_request \<Rightarrow> ('c, 'g, wallet) route" where
  "post_wallets bk rq = authed bk rq (\<lambda>u. thenE (permit ACTIVATE_WALLET u)
     (on_users (registerWallet (users_service bk) (hq_env rq) (hq_id rq) (str (fld (hq_body rq) ''deviceId''))
        (str (fld (hq_body rq) ''walletAddress'')))))"

definition get_wallets :: "('c, 'g) backend_svc \<Rightarrow> http_request \<Rightarrow> ('c, 'g, wallet list) route" where
  "get_wallets bk rq = authed bk rq (\<lambda>u. thenE (permit CREATE_EMPLOYEE u) (on_users (listWallets (hq_id rq))))"

definition post_role :: "('c, 'g) backend_svc \<Rightarrow> http_request \<Rightarrow> ('c, 'g, user) route" where
  "post_role bk rq = authed bk rq (\<lambda>u.
     thenE (fresh bk rq ''ROLE_ASSIGN'' (Some (hq_id rq)))
    (thenE (permit CREATE_EMPLOYEE u)
       (on_users (assignRole (users_service bk) (hq_env rq) (usr_identityId u) (hq_id rq) (fld (hq_body rq) ''role'')))))"

section \<open>Grants\<close>

text \<open>The body of a grant request, at the type of the service's parameter.\<close>

record grant_input =
  gi_resourceType :: resource_type
  gi_resourceId :: string
  gi_action :: action
  gi_expiresAt :: "date_str option"

definition post_grants :: "('c, 'g) backend_svc \<Rightarrow> http_request \<Rightarrow> grant_input \<Rightarrow> ('c, 'g, grant) route" where
  "post_grants bk rq input = authed bk rq (\<lambda>u.
     thenE (fresh bk rq ''GRANT_CREATE'' (Some (gi_resourceId input)))
    (thenE (admin_role u)
       (on_users (createGrant (users_service bk) (hq_env rq) (usr_identityId u) (hq_id rq) (gi_resourceType input)
          (gi_resourceId input) (gi_action input) (gi_expiresAt input)))))"

definition get_grants :: "('c, 'g) backend_svc \<Rightarrow> http_request \<Rightarrow> ('c, 'g, grant list) route" where
  "get_grants bk rq = authed bk rq (\<lambda>u. thenE (permit CREATE_EMPLOYEE u) (on_users (listGrants (hq_id rq))))"

definition post_revoke_grant :: "('c, 'g) backend_svc \<Rightarrow> http_request \<Rightarrow> ('c, 'g, grant) route" where
  "post_revoke_grant bk rq = authed bk rq (\<lambda>u.
     thenE (fresh bk rq ''GRANT_REVOKE'' (Some (hq_sub rq)))
    (thenE (permit CREATE_EMPLOYEE u)
       (on_users (revokeGrant (users_service bk) (hq_env rq) (usr_identityId u) (hq_sub rq)))))"

text \<open>The response of \<^verbatim>\<open>/users/me/grants\<close> is the grant, or its absence.\<close>

definition get_my_grants :: "('c, 'g) backend_svc \<Rightarrow> http_request \<Rightarrow> ('c, 'g, grant option) route" where
  "get_my_grants bk rq = authed bk rq (\<lambda>u.
     bindE (required (if fld (hq_query rq) ''resourceType'' = JStr ''ASSET'' \<and> fld (hq_query rq) ''action'' = JStr ''TRANSFER_ASSET''
                      then text_of (fld (hq_query rq) ''resourceId'') else None)
              (ValidationError [''resourceType=ASSET, resourceId, and action=TRANSFER_ASSET are required''])) (\<lambda>r.
       reads (\<lambda>w. findActiveGrant (hq_env rq) (ids w) (usr_identityId u) RT_ASSET r TRANSFER_ASSET)))"

section \<open>The chain and its validators\<close>

text \<open>\<^verbatim>\<open>BlockchainController\<close>: reads of the chain.\<close>

definition get_status :: "('c, 'g) backend_svc \<Rightarrow> http_request \<Rightarrow> ('c, 'g, chain_status) route" where
  "get_status bk rq = public bk rq (query (\<lambda>w. getStatus (bk_chain bk) (chain_of w)))"

definition get_validators :: "('c, 'g) backend_svc \<Rightarrow> http_request \<Rightarrow> ('c, 'g, validator list) route" where
  "get_validators bk rq = authed bk rq (\<lambda>u. thenE (permit VIEW_VALIDATOR_STATUS u)
     (query (\<lambda>w. rd_getValidators (bk_reads bk) (chain_of w))))"

fun whole_number :: "jsnum \<Rightarrow> nat option" where
  "whole_number (Fin q) = (if of_int \<lfloor>q\<rfloor> = q \<and> 0 \<le> q then Some (nat \<lfloor>q\<rfloor>) else None)"
| "whole_number _ = None"

text \<open>\<open>height\<close> is \<^verbatim>\<open>Number(req.params.height)\<close>.\<close>

definition get_committee :: "('c, 'g) backend_svc \<Rightarrow> http_request \<Rightarrow> jsnum \<Rightarrow> ('c, 'g, nat \<times> string list) route" where
  "get_committee bk rq height = authed bk rq (\<lambda>u. thenE (permit VIEW_VALIDATOR_STATUS u)
    (bindE (required (whole_number height) (ValidationError [''height must be a non-negative integer''])) (\<lambda>h.
     bindE (query (\<lambda>w. rd_getCommittee (bk_reads bk) h (chain_of w))) (\<lambda>vs. ret (h, vs)))))"

definition get_registrations :: "('c, 'g) backend_svc \<Rightarrow> http_request \<Rightarrow> ('c, 'g, registration list) route" where
  "get_registrations bk rq = authed bk rq (\<lambda>u. thenE (permit MANAGE_VALIDATORS u)
     (on_users (list_validators (validators_service bk))))"

definition get_validator_history :: "('c, 'g) backend_svc \<Rightarrow> http_request \<Rightarrow> ('c, 'g, history list) route" where
  "get_validator_history bk rq = authed bk rq (\<lambda>u. thenE (permit MANAGE_VALIDATORS u) (reads (\<lambda>w. getHistory (ids w))))"

definition post_validators :: "('c, 'g) backend_svc \<Rightarrow> http_request \<Rightarrow> ('c, 'g, registration) route" where
  "post_validators bk rq = authed bk rq (\<lambda>u. thenE (permit MANAGE_VALIDATORS u)
    (thenE (fresh bk rq ''VALIDATOR_ADD'' (body_resource (fld (hq_body rq) ''validatorId'')))
       (on_users (addValidator (validators_service bk) (hq_env rq) (usr_identityId u) (JObj (hq_body rq))))))"

text \<open>\<open>height\<close> is \<^verbatim>\<open>Number(req.body?.removalHeight)\<close>.\<close>

definition post_remove_validator :: "('c, 'g) backend_svc \<Rightarrow> http_request \<Rightarrow> jsnum \<Rightarrow> ('c, 'g, registration) route" where
  "post_remove_validator bk rq height = authed bk rq (\<lambda>u. thenE (permit MANAGE_VALIDATORS u)
    (thenE (fresh bk rq ''VALIDATOR_REMOVE'' (Some (hq_id rq)))
       (on_users (removeValidator (validators_service bk) (hq_env rq) (usr_identityId u) (hq_id rq) height
          (fld (hq_body rq) ''reason'')))))"

definition post_restore_validator :: "('c, 'g) backend_svc \<Rightarrow> http_request \<Rightarrow> ('c, 'g, registration) route" where
  "post_restore_validator bk rq = authed bk rq (\<lambda>u. thenE (permit MANAGE_VALIDATORS u)
    (thenE (fresh bk rq ''VALIDATOR_RESTORE'' (Some (hq_id rq)))
       (on_users (restoreValidator (validators_service bk) (hq_env rq) (usr_identityId u) (hq_id rq) (fld (hq_body rq) ''reason'')))))"

definition post_cancel_removal :: "('c, 'g) backend_svc \<Rightarrow> http_request \<Rightarrow> ('c, 'g, registration) route" where
  "post_cancel_removal bk rq = authed bk rq (\<lambda>u. thenE (permit MANAGE_VALIDATORS u)
    (thenE (fresh bk rq ''VALIDATOR_REMOVE_CANCEL'' (Some (hq_id rq)))
       (on_users (cancelScheduledRemoval (validators_service bk) (hq_env rq) (usr_identityId u) (hq_id rq) (fld (hq_body rq) ''reason'')))))"

end
