(* ===== verification/System.thy ===== *)
theory System
  imports JobRoutes AssetRoutes AdminRoutes
begin

text \<open>
  The whole backend as one state machine: every route of the five routers is an endpoint, and a
  run is a sequence of requests.  The services share one chain; the locale
  \<open>shared_ledger\<close> states what they rely on from it together, its lemmas show that the
  invariants of jobs and of assets survive every request of every component, and its
  interpretation on the mock chain discharges the contract.
\<close>

section \<open>Endpoints\<close>

text \<open>The routes that do not ask for a session.\<close>

datatype public_endpoint =
    PostLoginChallenge | PostLogin | PostProvisioningChallenge | PostInitializeAccount init_input
   | GetStatus

primrec handle_public :: "('c, 'g) backend_svc \<Rightarrow> http_request \<Rightarrow> public_endpoint \<Rightarrow> ('c, 'g, unit) route" where
  "handle_public bk rq PostLoginChallenge = unit_of (post_login_challenge bk rq)"
| "handle_public bk rq PostLogin = unit_of (post_login bk rq)"
| "handle_public bk rq PostProvisioningChallenge = unit_of (post_provisioning_challenge bk rq)"
| "handle_public bk rq (PostInitializeAccount input) = unit_of (post_initialize_account bk rq input)"
| "handle_public bk rq GetStatus = unit_of (get_status bk rq)"

datatype admin_endpoint =
    PostFreshChallenge | PostLogout | GetPending | GetActive | PostVerify | PostActivate
   | PostUsers create_input | GetMe | GetUser | PostRevokeWallet | PostActivateWallet | PostDevices
   | GetDevices | PostRevokeDevice | PostWallets | GetWallets | PostRole | PostGrants grant_input
   | GetGrants | PostRevokeGrant | GetMyGrants | GetValidators | GetCommittee jsnum
   | GetRegistrations | GetValidatorHistory | PostValidators | PostRemoveValidator jsnum
   | PostRestoreValidator | PostCancelRemoval

primrec handle_admin :: "('c, 'g) backend_svc \<Rightarrow> http_request \<Rightarrow> admin_endpoint \<Rightarrow> ('c, 'g, unit) route" where
  "handle_admin bk rq PostFreshChallenge = unit_of (post_fresh_challenge bk rq)"
| "handle_admin bk rq PostLogout = unit_of (post_logout bk rq)"
| "handle_admin bk rq GetPending = unit_of (get_pending bk rq)"
| "handle_admin bk rq GetActive = unit_of (get_active bk rq)"
| "handle_admin bk rq PostVerify = unit_of (post_verify bk rq)"
| "handle_admin bk rq PostActivate = unit_of (post_activate bk rq)"
| "handle_admin bk rq (PostUsers input) = unit_of (post_users bk rq input)"
| "handle_admin bk rq GetMe = unit_of (get_me bk rq)"
| "handle_admin bk rq GetUser = unit_of (get_user bk rq)"
| "handle_admin bk rq PostRevokeWallet = unit_of (post_revoke_wallet bk rq)"
| "handle_admin bk rq PostActivateWallet = unit_of (post_activate_wallet bk rq)"
| "handle_admin bk rq PostDevices = unit_of (post_devices bk rq)"
| "handle_admin bk rq GetDevices = unit_of (get_devices bk rq)"
| "handle_admin bk rq PostRevokeDevice = unit_of (post_revoke_device bk rq)"
| "handle_admin bk rq PostWallets = unit_of (post_wallets bk rq)"
| "handle_admin bk rq GetWallets = unit_of (get_wallets bk rq)"
| "handle_admin bk rq PostRole = unit_of (post_role bk rq)"
| "handle_admin bk rq (PostGrants input) = unit_of (post_grants bk rq input)"
| "handle_admin bk rq GetGrants = unit_of (get_grants bk rq)"
| "handle_admin bk rq PostRevokeGrant = unit_of (post_revoke_grant bk rq)"
| "handle_admin bk rq GetMyGrants = unit_of (get_my_grants bk rq)"
| "handle_admin bk rq GetValidators = unit_of (get_validators bk rq)"
| "handle_admin bk rq (GetCommittee height) = unit_of (get_committee bk rq height)"
| "handle_admin bk rq GetRegistrations = unit_of (get_registrations bk rq)"
| "handle_admin bk rq GetValidatorHistory = unit_of (get_validator_history bk rq)"
| "handle_admin bk rq PostValidators = unit_of (post_validators bk rq)"
| "handle_admin bk rq (PostRemoveValidator height) = unit_of (post_remove_validator bk rq height)"
| "handle_admin bk rq PostRestoreValidator = unit_of (post_restore_validator bk rq)"
| "handle_admin bk rq PostCancelRemoval = unit_of (post_cancel_removal bk rq)"

datatype asset_endpoint =
    GetAssets | GetAsset | PostAssets asset_input | PostAssetsPrepare | PostTransfer
   | PostTransferPrepare | PostState | PostStatePrepare | PostComponents | PostComponentsPrepare
   | DeleteComponent | DeleteComponentPrepare | GetAudit

primrec handle_asset :: "('c, 'g) backend_svc \<Rightarrow> http_request \<Rightarrow> asset_endpoint \<Rightarrow> ('c, 'g, unit) route" where
  "handle_asset bk rq GetAssets = unit_of (get_assets bk rq)"
| "handle_asset bk rq GetAsset = unit_of (get_asset bk rq)"
| "handle_asset bk rq (PostAssets input) = unit_of (post_assets bk rq input)"
| "handle_asset bk rq PostAssetsPrepare = unit_of (post_assets_prepare bk rq)"
| "handle_asset bk rq PostTransfer = unit_of (post_transfer bk rq)"
| "handle_asset bk rq PostTransferPrepare = unit_of (post_transfer_prepare bk rq)"
| "handle_asset bk rq PostState = unit_of (post_state bk rq)"
| "handle_asset bk rq PostStatePrepare = unit_of (post_state_prepare bk rq)"
| "handle_asset bk rq PostComponents = unit_of (post_components bk rq)"
| "handle_asset bk rq PostComponentsPrepare = unit_of (post_components_prepare bk rq)"
| "handle_asset bk rq DeleteComponent = unit_of (delete_component bk rq)"
| "handle_asset bk rq DeleteComponentPrepare = unit_of (delete_component_prepare bk rq)"
| "handle_asset bk rq GetAudit = unit_of (get_audit bk rq)"

datatype job_endpoint =
    GetJobs | GetJob | PostJobs | PostJobsPrepare | PostAssign | PostAssignPrepare | PostStart
   | PostStartPrepare | PostComplete | PostCompletePrepare | PostApprove | PostApprovePrepare
   | PostReject | PostRejectPrepare | PostEvidence string "bytes list" | GetEvidence
   | GetEvidenceFile

primrec handle_job :: "('c, 'g) backend_svc \<Rightarrow> http_request \<Rightarrow> job_endpoint \<Rightarrow> ('c, 'g, unit) route" where
  "handle_job bk rq GetJobs = unit_of (get_jobs bk rq)"
| "handle_job bk rq GetJob = unit_of (get_job bk rq)"
| "handle_job bk rq PostJobs = unit_of (post_jobs bk rq)"
| "handle_job bk rq PostJobsPrepare = unit_of (post_jobs_prepare bk rq)"
| "handle_job bk rq PostAssign = unit_of (post_assign bk rq)"
| "handle_job bk rq PostAssignPrepare = unit_of (post_assign_prepare bk rq)"
| "handle_job bk rq PostStart = unit_of (post_start bk rq)"
| "handle_job bk rq PostStartPrepare = unit_of (post_start_prepare bk rq)"
| "handle_job bk rq PostComplete = unit_of (post_complete bk rq)"
| "handle_job bk rq PostCompletePrepare = unit_of (post_complete_prepare bk rq)"
| "handle_job bk rq PostApprove = unit_of (post_approve bk rq)"
| "handle_job bk rq PostApprovePrepare = unit_of (post_approve_prepare bk rq)"
| "handle_job bk rq PostReject = unit_of (post_reject bk rq)"
| "handle_job bk rq PostRejectPrepare = unit_of (post_reject_prepare bk rq)"
| "handle_job bk rq (PostEvidence header chunks) = unit_of (post_evidence bk rq header chunks)"
| "handle_job bk rq GetEvidence = unit_of (get_evidence bk rq)"
| "handle_job bk rq GetEvidenceFile = unit_of (get_evidence_file bk rq)"

datatype endpoint = Public public_endpoint | Admin admin_endpoint | Asset asset_endpoint | Job job_endpoint

primrec handle :: "('c, 'g) backend_svc \<Rightarrow> http_request \<Rightarrow> endpoint \<Rightarrow> ('c, 'g, unit) route" where
  "handle bk rq (Public ep) = handle_public bk rq ep"
| "handle bk rq (Admin ep) = handle_admin bk rq ep"
| "handle bk rq (Asset ep) = handle_asset bk rq ep"
| "handle bk rq (Job ep) = handle_job bk rq ep"

primrec serve :: "('c, 'g) backend_svc \<Rightarrow> (http_request \<times> endpoint) list \<Rightarrow> ('c, 'g) world \<Rightarrow> ('c, 'g) world" where
  "serve bk [] w = w"
| "serve bk (rq # rqs) w = serve bk rqs (snd (handle bk (fst rq) (snd rq) w))"

section \<open>What every request keeps\<close>

lemmas route_defs =
  get_jobs_def get_job_def post_jobs_def post_jobs_prepare_def post_assign_def post_assign_prepare_def
  post_start_def post_start_prepare_def post_complete_def post_complete_prepare_def post_approve_def
  post_approve_prepare_def post_reject_def post_reject_prepare_def post_evidence_def get_evidence_def get_evidence_file_def
  get_assets_def get_asset_def post_assets_def post_assets_prepare_def post_transfer_def
  post_transfer_prepare_def post_state_def post_state_prepare_def post_components_def post_components_prepare_def
  delete_component_def delete_component_prepare_def get_audit_def
  post_fresh_challenge_def post_logout_def get_pending_def get_active_def post_verify_def post_activate_def
  post_users_def get_me_def get_user_def post_revoke_wallet_def post_activate_wallet_def post_devices_def get_devices_def
  post_revoke_device_def post_wallets_def get_wallets_def post_role_def post_grants_def get_grants_def
  post_revoke_grant_def get_my_grants_def get_validators_def get_committee_def get_registrations_def
  get_validator_history_def post_validators_def post_remove_validator_def post_restore_validator_def post_cancel_removal_def

subsection \<open>Rules for the middlewares\<close>

lemma keeps_pass [keep, simp]: "keeps P (pass r)"
  by (simp add: pass_def)

lemma keeps_permit [keep, simp]: "keeps P (permit a u)" "keeps P (admin_role u)"
  by (simp_all add: permit_def admin_role_def)

lemma keeps_permit_in [keep]: "keeps P f \<Longrightarrow> keeps P (permit_in a f u)"
  by (auto simp: permit_in_def intro!: keep)

text \<open>A predicate that does not depend on the identity store.\<close>

definition store_free :: "(('c, 'g) world \<Rightarrow> bool) \<Rightarrow> bool" where
  "store_free P \<longleftrightarrow> (\<forall>w i. P (with_ids w i) = P w)"

lemma keeps_on_ids: "store_free P \<Longrightarrow> keeps P (on_ids f)"
  by (auto simp: keeps_def store_free_def on_ids_def on_users_def split: prod.splits)

lemma keeps_session:
  assumes "store_free P"
  shows "keeps P (attachSession bk rq)" "keeps P (fresh bk rq op res)"
    "(\<And>u. keeps P (k u)) \<Longrightarrow> keeps P (authed bk rq k)" "keeps P k' \<Longrightarrow> keeps P (public bk rq k')"
proof -
  show s: "keeps P (attachSession bk rq)"
    unfolding attachSession_def by (rule keeps_on_ids [OF assms])
  show "keeps P (fresh bk rq op res)" unfolding fresh_def by (rule keeps_on_ids [OF assms])
  show "(\<And>u. keeps P (k u)) \<Longrightarrow> keeps P (authed bk rq k)" unfolding authed_def by (intro keep s)
  show "keeps P k' \<Longrightarrow> keeps P (public bk rq k')" unfolding public_def by (intro keep s)
qed

subsection \<open>The chain under the operations of users and validators\<close>

definition job_types :: "transaction_type set" where
  "job_types = {JOB_CREATE, JOB_ASSIGN, JOB_START, JOB_COMPLETE, JOB_APPROVE, JOB_REJECT}"

definition asset_types :: "transaction_type set" where
  "asset_types = {ASSET_MINT, ASSET_TRANSFER, ASSET_STATE_CHANGE, COMPONENT_ATTACH, COMPONENT_REMOVE}"

text \<open>
  \<open>kept_by chain T Q\<close>: a submission of a transaction whose type is not in \<open>T\<close> keeps the
  predicate \<open>Q\<close> of the chain.
\<close>

definition kept_by :: "'c chain_api \<Rightarrow> transaction_type set \<Rightarrow> ('c \<Rightarrow> bool) \<Rightarrow> bool" where
  "kept_by chain T Q \<longleftrightarrow> (\<forall>en tx c. tx_type tx \<notin> T \<longrightarrow> Q c \<longrightarrow>
     Q (snd (submitTransaction chain en tx c)) \<and> Q (snd (detailed_submit chain en tx c)))"

abbreviation of_chain :: "('c \<Rightarrow> bool) \<Rightarrow> 'c users_state \<Rightarrow> bool" where
  "of_chain Q \<equiv> \<lambda>s. Q (us_chain s)"

lemma kept_step: "keeps (of_chain Q) (look f)" "keeps (of_chain Q) (store g)"
  "keeps (of_chain Q) (draw en)" "keeps (of_chain Q) (chain_read h)"
  "keeps (of_chain Q) (users_commit svc en ty i ev who st)"
  "keeps (of_chain Q) (consume_challenge en ch)"
  by (auto simp: keeps_def look_def store_def draw_def chain_read_def users_commit_def consume_challenge_def exec_defs Let_def
      split: prod.splits)

lemma kept_on_chain:
  assumes "kept_by chain T Q" "tx_type tx \<notin> T"
  shows "keeps (of_chain Q) (on_users_chain (submitTransaction chain en tx))"
proof (rule keepsI)
  fix s r s' assume "Q (us_chain s)" and run: "on_users_chain (submitTransaction chain en tx) s = (r, s')"
  with assms have "Q (snd (submitTransaction chain en tx (us_chain s)))" unfolding kept_by_def by blast
  with run show "Q (us_chain s')" by (auto simp: on_users_chain_def split: prod.splits)
qed

lemma kept_users_submit:
  "kept_by (usv_chain svc) T Q \<Longrightarrow> ty \<notin> T \<Longrightarrow> keeps (of_chain Q) (users_submit svc en ty a p)"
  by (auto simp: users_submit_def intro!: keep kept_step kept_on_chain)

text \<open>Neither users nor validators submit a transaction of a job or of an asset.\<close>

definition foreign_types :: "transaction_type set" where
  "foreign_types = job_types \<union> asset_types"

lemmas type_defs = foreign_types_def job_types_def asset_types_def

lemma kept_calls:
  assumes "kept_by (usv_chain svc) foreign_types Q"
  shows "keeps (of_chain Q) (requireIdentity i)" "keeps (of_chain Q) (requireActive idn)"
    "keeps (of_chain Q) (requireAdmin i msg)" "keeps (of_chain Q) (active_device idn d)"
    "keeps (of_chain Q) (validateEvmWalletBinding svc en addr pk)"
    "keeps (of_chain Q) (attestDevice svc d md)" "keeps (of_chain Q) (requireAttestation att)"
    "keeps (of_chain Q) (init_checks svc en inp)"
    "keeps (of_chain Q) (ensureIdentityCreated svc en a idn wal)"
    "keeps (of_chain Q) (ensureRoleAssigned svc en a idn wal)"
    "keeps (of_chain Q) (ensureWalletActive svc en a wal d ident)"
    "keeps (of_chain Q) (ensureWalletRevoked svc en a wal reason)"
    "keeps (of_chain Q) (replace_wallet svc en a k w)"
    "keeps (of_chain Q) (revoke_for_device svc en who w)"
  by (auto simp: requireIdentity_def requireActive_def requireAdmin_def active_device_def validateEvmWalletBinding_def
      attestDevice_def requireAttestation_def init_checks_def ensureIdentityCreated_def ensureRoleAssigned_def
      ensureWalletActive_def ensureWalletRevoked_def replace_wallet_def revoke_for_device_def Let_def type_defs
      intro!: keep kept_step kept_users_submit [OF assms] split: wallet_status.splits option.splits)

lemma kept_grants: "keeps (of_chain Q) (validateGrant en g who rs ac)"
  "keeps (of_chain Q) (transfer_grant en who i gs)" "keeps (of_chain Q) (actor_grant en who as)"
proof -
  show v: "keeps (of_chain Q) (validateGrant en g who rs ac)" for g who rs ac
    by (auto simp: validateGrant_def intro!: keep kept_step split: option.splits)
  show t: "keeps (of_chain Q) (transfer_grant en who i gs)" for i gs
    by (induction gs) (auto intro!: keep v)
  show "keeps (of_chain Q) (actor_grant en who as)"
    by (auto simp: actor_grant_def intro!: keep kept_step t split: option.splits)
qed

lemma kept_queries:
  "keeps (of_chain Q) (users_getById i)" "keeps (of_chain Q) (listDevices u)" "keeps (of_chain Q) (listWallets u)"
  "keeps (of_chain Q) (listGrants u)"
  by (auto simp: users_getById_def listDevices_def listWallets_def listGrants_def requireIdentity_def
      intro!: keep kept_step split: option.splits)

lemma kept_users:
  assumes "kept_by (usv_chain svc) foreign_types Q"
  shows "keeps (of_chain Q) (createUser svc en ci act)"
    "keeps (of_chain Q) (requestProvisioningChallenge svc en d md)"
    "keeps (of_chain Q) (initializeAccount svc en inp)"
    "keeps (of_chain Q) (verifyRegistration svc en a u e dp)"
    "keeps (of_chain Q) (activateRegistration svc en a u)"
    "keeps (of_chain Q) (registerDevice svc en u d cr pk)"
    "keeps (of_chain Q) (revokeDevice svc en d act)"
    "keeps (of_chain Q) (registerWallet svc en u d w)"
    "keeps (of_chain Q) (revokeWallet svc en u why a)"
    "keeps (of_chain Q) (activateWallet svc en u d w a)"
    "keeps (of_chain Q) (assignRole svc en a u r)"
    "keeps (of_chain Q) (createGrant svc en a t rt rs ac ex)"
    "keeps (of_chain Q) (revokeGrant svc en a g)"
  by (auto simp: activateRegistration_def activateWallet_def assignRole_def createGrant_def createUser_def
      initializeAccount_def registerDevice_def registerWallet_def requestProvisioningChallenge_def revokeDevice_def
      revokeGrant_def revokeWallet_def verifyRegistration_def Let_def type_defs
      intro!: keep kept_step kept_calls [OF assms] kept_users_submit [OF assms] split: option.splits prod.splits)

lemma kept_on_error: "keeps P f \<Longrightarrow> keeps P h \<Longrightarrow> keeps P (on_error f h)"
  unfolding keeps_def on_error_def by (auto split: prod.splits sum.splits)

lemma kept_validator_steps:
  "keeps (of_chain Q) (chain_head vs)" "keeps (of_chain Q) (admin i)" "keeps (of_chain Q) (get_registration vs i)"
  "keeps P (required_reason v)" "keeps P (envelopeSignature en)"
  "keeps (of_chain Q) (finish_validator vs en ty a pv nw why res r)"
  by (auto simp: chain_head_def admin_def activeIdentity_def get_registration_def required_reason_def envelopeSignature_def
      requireIdentity_def finish_validator_def recordHistory_def validatorChanged_def notify_def Let_def
      intro!: keep kept_step split: jsval.splits)

lemma kept_validator_submit:
  "kept_by (vsv_chain vs) T Q \<Longrightarrow> ty \<notin> T \<Longrightarrow> keeps (of_chain Q) (validator_submit vs en ty a r extra)"
  by (auto simp: validator_submit_def intro!: keep kept_step kept_on_error kept_validator_steps kept_on_chain)

lemma kept_validators:
  assumes "kept_by (vsv_chain vs) foreign_types Q"
  shows "keeps (of_chain Q) (addValidator vs en who input)" "keeps (of_chain Q) (removeValidator vs en who i h v)"
    "keeps (of_chain Q) (restoreValidator vs en who i v)" "keeps (of_chain Q) (cancelScheduledRemoval vs en who i v)"
    "keeps (of_chain Q) (list_validators vs)"
  by (auto simp: addValidator_def removeValidator_def restoreValidator_def cancelScheduledRemoval_def list_validators_def
      Let_def type_defs intro!: keep kept_step kept_validator_steps kept_validator_submit [OF assms] split: option.splits)

subsection \<open>The chain under the operations of jobs and assets\<close>

lemma kept_jobs_submit:
  assumes "kept_by (svc_chain svc) T Q" "ty \<notin> T"
  shows "keeps (\<lambda>s. Q (js_chain s)) (jobs_submit svc en ty a p)"
proof -
  have "keeps (\<lambda>s. Q (js_chain s)) (on_chain (submitTransaction (svc_chain svc) en tx))" if "tx_type tx = ty" for tx
  proof (rule keepsI)
    fix s r s' assume "Q (js_chain s)" and run: "on_chain (submitTransaction (svc_chain svc) en tx) s = (r, s')"
    with assms that have "Q (snd (submitTransaction (svc_chain svc) en tx (js_chain s)))" unfolding kept_by_def by blast
    with run show "Q (js_chain s')" by (auto simp: on_chain_def split: prod.splits)
  qed
  then show ?thesis by (auto simp: jobs_submit_def jobs_tx_def Let_def intro!: keep)
qed

lemma kept_jobs:
  assumes "kept_by (svc_chain svc) asset_types Q"
  shows "keeps (\<lambda>s. Q (js_chain s)) (jobs_exec svc rq)"
  by (cases "rq_op rq")
    (auto simp: jobs_exec_def op_defs findJob_def saveJob_def assertTransition_def requireAssignedTechnician_def
      requireIndependentVerifier_def Let_def type_defs
      intro!: keep keeps_modifyS kept_jobs_submit [OF assms])

lemma kept_assets_submit:
  assumes "kept_by (asv_chain svc) T Q" "tx_type tx \<notin> T"
  shows "keeps (\<lambda>s. Q (ast_chain s)) (assets_submit svc en tx)"
proof (rule keepsI)
  fix s r s' assume "Q (ast_chain s)" and run: "assets_submit svc en tx s = (r, s')"
  with assms have "Q (snd (detailed_submit (asv_chain svc) en tx (ast_chain s)))" unfolding kept_by_def by blast
  with run show "Q (ast_chain s')" by (auto simp: assets_submit_def exec_defs split: prod.splits sum.splits if_splits)
qed

lemma kept_asset_steps:
  "keeps (\<lambda>s. Q (ast_chain s)) (getById svc i)" "keeps (\<lambda>s. Q (ast_chain s)) (requireAsset svc i f)"
  "keeps (\<lambda>s. Q (ast_chain s)) (create_checks svc en input)" "keeps P (requiredString v fd)"
  "keeps P (required_status v)" "keeps P (assertStateTransition x y)"
  "keeps (\<lambda>s. Q (ast_chain s)) (transfer_checks svc i a ow cu)" "keeps (\<lambda>s. Q (ast_chain s)) (attach_checks svc p c a b)"
  "keeps P (remove_checks p c b)"
proof -
  show g: "keeps (\<lambda>s. Q (ast_chain s)) (getById svc i)" for i
    by (auto simp: getById_def cache_set_def Let_def intro!: keep keeps_modifyS split: option.splits)
  show r: "keeps (\<lambda>s. Q (ast_chain s)) (requireAsset svc i f)" for i f
    by (auto simp: requireAsset_def intro!: keep g)
  show q: "keeps P (requiredString v fd)" for v fd and P :: "'z \<Rightarrow> bool" by (auto simp: requiredString_def intro!: keep)
  show "keeps P (required_status v)" "keeps P (assertStateTransition x y)" "keeps P (remove_checks p c b)"
    by (auto simp: required_status_def assertStateTransition_def remove_checks_def intro!: keep)
  show "keeps (\<lambda>s. Q (ast_chain s)) (create_checks svc en input)" "keeps (\<lambda>s. Q (ast_chain s)) (transfer_checks svc i a ow cu)"
    by (auto simp: create_checks_def transfer_checks_def Let_def intro!: keep g r q split: option.splits)
  have "keeps (\<lambda>s. Q (ast_chain s)) (noCycle_loop svc n c vis cur)" for n vis cur
    by (induction n arbitrary: vis cur)
      (subst noCycle_loop.simps; auto intro!: keep g split: option.splits nat.splits)+
  then show "keeps (\<lambda>s. Q (ast_chain s)) (attach_checks svc p c a b)"
    by (auto simp: attach_checks_def assertNoCycle_def intro!: keep g)
qed

lemma keeps_bind_value:
  assumes "keeps P f" "\<And>x s s'. f s = (Inr x, s') \<Longrightarrow> keeps P (g x)"
  shows "keeps P (bindE f g)"
proof (rule keepsI)
  fix s r s' assume "P s" and run: "bindE f g s = (r, s')"
  obtain q t where f: "f s = (q, t)" by fastforce
  with assms(1) \<open>P s\<close> have "P t" by (blast dest: keepsD)
  with run f assms(2) [of s] show "P s'" by (cases q) (auto simp: bindE_def dest: keepsD)
qed

lemma kept_commit:
  assumes "kept_by (asv_chain svc) T Q" "ty \<notin> T"
  shows "keeps (\<lambda>s. Q (ast_chain s)) (bindE (asset_tx en k ty a p) (\<lambda>tx. commit_asset svc en i tx fb))"
proof (rule keeps_bind_value)
  show "keeps (\<lambda>s. Q (ast_chain s)) (asset_tx en k ty a p)"
    by (auto simp: asset_tx_def requireActor_def Let_def intro!: keep kept_asset_steps)
next
  fix tx and s s' :: "'a assets_state" assume "asset_tx en k ty a p s = (Inr tx, s')"
  then have "tx_type tx \<notin> T" using assms(2) by (auto simp: asset_tx_def requireActor_def Let_def run)
  then show "keeps (\<lambda>s. Q (ast_chain s)) (commit_asset svc en i tx fb)"
    by (auto simp: commit_asset_def reconcileAfterWrite_def cache_set_def
        intro!: keep keeps_modifyS kept_assets_submit [OF assms(1)] split: option.splits)
qed

lemma kept_assets:
  assumes "kept_by (asv_chain svc) job_types Q"
  shows "keeps (\<lambda>s. Q (ast_chain s)) (assets_exec svc rq)"
  by (cases "aq_op rq")
    (auto simp: assets_exec_def create_asset_def transfer_def changeAssetState_def attachComponent_def removeComponent_def
      Let_def type_defs intro!: keep kept_asset_steps kept_commit [OF assms] split: prod.splits)

section \<open>Consistency\<close>

text \<open>
  A consistent world: stored jobs are well formed, repository and chain agree on every job, the
  chain knows every asset the backend knows, the component hierarchy as readers see it is a
  forest, and custody follows ownership.
\<close>

definition consistent ::
  "('c \<Rightarrow> string \<Rightarrow> job_status option) \<Rightarrow> ('c \<Rightarrow> asset_map) \<Rightarrow> ('c \<Rightarrow> bool) \<Rightarrow> ('c, 'g) world \<Rightarrow> bool" where
  "consistent ledger view ok w \<longleftrightarrow>
     repo_wf (wd_jobs w) \<and> ledger (chain_of w) = (\<lambda>i. map_option job_status (js_get (wd_jobs w) i)) \<and>
     ok (chain_of w) \<and> synced view (assets_part w) \<and>
     forest (peek view (assets_part w)) \<and> custody (peek view (assets_part w))"

lemma consistent_store_free: "store_free (consistent ledger view ok)"
  by (simp add: store_free_def consistent_def assets_part_def chain_of_def)

text \<open>The operations of the services as requests of their components.\<close>

lemma jobs_requests:
  "create sv en input a = jobs_exec sv \<lparr>rq_env = en, rq_actor = a, rq_op = Create input\<rparr>"
  "assign sv en i t a = jobs_exec sv \<lparr>rq_env = en, rq_actor = a, rq_op = Assign i t\<rparr>"
  "start sv en i a = jobs_exec sv \<lparr>rq_env = en, rq_actor = a, rq_op = Start i\<rparr>"
  "complete sv en i h a = jobs_exec sv \<lparr>rq_env = en, rq_actor = a, rq_op = Complete i h\<rparr>"
  "approve sv en i a = jobs_exec sv \<lparr>rq_env = en, rq_actor = a, rq_op = Approve i\<rparr>"
  "reject sv en i why a = jobs_exec sv \<lparr>rq_env = en, rq_actor = a, rq_op = Reject i why\<rparr>"
  by (simp_all add: jobs_exec_def)

lemma assets_requests:
  "create_asset sv en input a = assets_exec sv \<lparr>aq_env = en, aq_actor = a, aq_op = ACreate input\<rparr>"
  "transfer sv en i ow cu a = assets_exec sv \<lparr>aq_env = en, aq_actor = a, aq_op = ATransfer i ow cu\<rparr>"
  "changeAssetState sv en i st a = assets_exec sv \<lparr>aq_env = en, aq_actor = a, aq_op = AState i st\<rparr>"
  "attachComponent sv en p c a = assets_exec sv \<lparr>aq_env = en, aq_actor = a, aq_op = AAttach p c\<rparr>"
  "removeComponent sv en p c a = assets_exec sv \<lparr>aq_env = en, aq_actor = a, aq_op = ARemove p c\<rparr>"
  by (simp_all add: assets_exec_def)

text \<open>A preparation of a job mutation only reads.\<close>

lemma prepare_reads: "prepare sv en ty i p a s = (r, s') \<Longrightarrow> s' = s"
proof -
  have "quiet id (prepare sv en ty i p a)"
    by (cases ty) (auto simp: prepare_def prepare_checks_def findJob_def assertTransition_def requireAssignedTechnician_def
      requireIndependentVerifier_def intro!: frame split: option.splits)
  then show "prepare sv en ty i p a s = (r, s') \<Longrightarrow> s' = s" by (auto dest: quietD)
qed

locale shared_ledger = job_ledger "submitTransaction chain" ledger
  for chain :: "'c chain_api" and ledger :: "'c \<Rightarrow> string \<Rightarrow> job_status option" +
  fixes view :: "'c \<Rightarrow> asset_map" and ok :: "'c \<Rightarrow> bool"
  assumes assets: "asset_ledger \<lparr>asv_chain = chain, asv_identityExists = ex, asv_fuel = n\<rparr> view ok"
    and other_jobs: "kept_by chain job_types (\<lambda>c. ledger c = L)"
    and other_assets: "kept_by chain asset_types (\<lambda>c. view c = A \<and> ok c)"
begin

abbreviation sound :: "('c, 'g) world \<Rightarrow> bool" where
  "sound \<equiv> consistent ledger view ok"

lemma foreign_kept: "kept_by chain foreign_types (\<lambda>c. ledger c = L \<and> view c = A \<and> ok c)"
  using other_jobs [of L] other_assets [of A] by (simp add: kept_by_def foreign_types_def)

lemma sound_users:
  assumes "\<And>Q. kept_by chain foreign_types Q \<Longrightarrow> keeps (of_chain Q) f"
  shows "keeps sound (on_users f)"
proof (rule keepsI)
  fix w r w'
  assume w: "sound w" and "on_users f w = (r, w')"
  then obtain s where f: "f (wd_users w) = (r, s)" and w': "w' = w\<lparr>wd_users := s\<rparr>" by (auto simp: run)
  from keepsD [OF assms [OF foreign_kept] f, of "ledger (chain_of w)" "view (chain_of w)"] w
  have "ledger (us_chain s) = ledger (chain_of w)" "view (us_chain s) = view (chain_of w)" "ok (us_chain s)"
    by (auto simp: chain_of_def consistent_def)
  with w show "sound w'"
    by (simp add: consistent_def w' chain_of_def assets_part_def synced_def peek_def cached_asset_def cong: option.case_cong)
qed

lemma sound_jobs:
  assumes "bk_chain bk = chain"
  shows "keeps sound (on_jobs bk (\<lambda>sv. jobs_exec sv rq))"
proof (rule keepsI)
  fix w r w'
  assume w: "sound w" and run: "on_jobs bk (\<lambda>sv. jobs_exec sv rq) w = (r, w')"
  note ex = on_jobs_part [OF run]
  have sv: "svc_chain (jobs_service bk w) = chain" using assms by (simp add: jobs_service_def)
  from w have "agree (jobs_part w)" "repo_wf (wd_jobs w)" by (simp_all add: consistent_def agree_def)
  with agree_exec [OF _ _ _ ex] jobs_exec_wf [OF ex] sv have "agree (jobs_part w')" "repo_wf (wd_jobs w')" by simp_all
  moreover from keepsD [OF kept_jobs [OF other_assets [of "view (chain_of w)", folded sv]] ex] w
  have "view (chain_of w') = view (chain_of w)" "ok (chain_of w')" by (simp_all add: consistent_def)
  moreover have "wd_cache w' = wd_cache w" "wd_assets w' = wd_assets w" using run by (auto simp: on_jobs_run)
  ultimately show "sound w'" using w
    by (simp add: consistent_def agree_def assets_part_def synced_def peek_def cached_asset_def cong: option.case_cong)
qed

lemma sound_prepare: "keeps sound (on_jobs bk (\<lambda>sv. prepare sv en ty i p a))"
  by (rule keepsI) (auto simp: on_jobs_run jobs_part_def chain_of_def dest!: prepare_reads)

lemma sound_evidence: "keeps sound (on_evidence bk f)"
  by (rule keepsI) (auto simp: run consistent_def assets_part_def chain_of_def)

text \<open>An asset request keeps consistency when it refines the asset machine or only reads.\<close>

lemma sound_asset_step:
  assumes "bk_chain bk = chain" "on_assets bk f w = (r, w')" "sound w"
    and "asset_ledger.inv view ok (assets_part w')" "as_step (peek view (assets_part w)) (peek view (assets_part w'))"
    and "ledger (chain_of w') = ledger (chain_of w)"
  shows "sound w'"
proof -
  have "wd_jobs w' = wd_jobs w" using assms(2) by (auto simp: on_assets_run)
  moreover from assms(4) have "ok (chain_of w')" "synced view (assets_part w')"
    by (simp_all add: asset_ledger.inv_def [OF assets])
  moreover from as_step_forest [OF assms(5)] as_step_custody [OF assms(5)] assms(3)
  have "forest (peek view (assets_part w'))" "custody (peek view (assets_part w'))" by (simp_all add: consistent_def)
  ultimately show ?thesis using assms(3,6) by (simp add: consistent_def)
qed

lemma sound_inv: "sound w \<Longrightarrow> asset_ledger.inv view ok (assets_part w)"
  by (simp add: asset_ledger.inv_def [OF assets] consistent_def)

lemma sound_assets:
  assumes "bk_chain bk = chain"
  shows "keeps sound (on_assets bk (\<lambda>sv. assets_exec sv rq))"
proof (rule keepsI)
  fix w r w'
  assume w: "sound w" and run: "on_assets bk (\<lambda>sv. assets_exec sv rq) w = (r, w')"
  note ex = on_assets_part [OF run, unfolded assets_service_def assms]
  have "asset_ledger.stepped view ok (assets_part w) r (assets_part w')"
    using asset_ledger.exec_stepped [OF assets ex] sound_inv [OF w] by blast
  moreover have "ledger (ast_chain (assets_part w')) = ledger (chain_of w)"
    by (rule keepsD [OF kept_assets ex]) (simp_all add: other_jobs)
  ultimately show "sound w'"
    using sound_asset_step [OF assms run w] by (simp add: asset_ledger.stepped_def [OF assets])
qed

lemma sound_asset_read:
  assumes bk: "bk_chain bk = chain"
    and reads: "\<And>ex n s. keeps (asset_ledger.same view s) (f \<lparr>asv_chain = chain, asv_identityExists = ex, asv_fuel = n\<rparr>)"
  shows "keeps sound (on_assets bk f)"
proof (rule keepsI)
  fix w r w'
  assume w: "sound w" and run: "on_assets bk f w = (r, w')"
  from keepsD [OF reads on_assets_part [OF run, unfolded assets_service_def bk], of "assets_part w"]
  have same: "asset_ledger.same view (assets_part w) (assets_part w')"
    by (simp add: asset_ledger.same_refl [OF assets])
  then have "asset_ledger.inv view ok (assets_part w')"
    using asset_ledger.same_inv [OF assets] sound_inv [OF w] by blast
  with same show "sound w'"
    by (intro sound_asset_step [OF bk run w]) (simp_all add: asset_ledger.same_def [OF assets] as_stutter)
qed

lemma asset_reads:
  "keeps (asset_ledger.same view s) (getById \<lparr>asv_chain = chain, asv_identityExists = ex, asv_fuel = n\<rparr> i)"
  "keeps (asset_ledger.same view s) (list_assets \<lparr>asv_chain = chain, asv_identityExists = ex, asv_fuel = n\<rparr>)"
  "keeps (asset_ledger.same view s) (prepare_asset \<lparr>asv_chain = chain, asv_identityExists = ex, asv_fuel = n\<rparr> en ty input a)"
proof -
  let ?sv = "\<lparr>asv_chain = chain, asv_identityExists = ex, asv_fuel = n\<rparr>"
  note ledger = asset_ledger.keeps_requireAsset [OF assets] asset_ledger.keeps_transfer_checks [OF assets]
    asset_ledger.keeps_attach_checks [OF assets] kept_asset_steps(4-6,9)
  show "keeps (asset_ledger.same view s) (getById ?sv i)" by (rule asset_ledger.keeps_getById [OF assets])
  show "keeps (asset_ledger.same view s) (list_assets ?sv)"
    by (rule keepsI) (metis asset_ledger.list_assets_run [OF assets] asset_ledger.same_trans [OF assets])
  have "keeps (asset_ledger.same view s) (asset_payload ?sv ty input)"
    by (cases ty) (auto simp: asset_payload_def intro!: keep ledger)
  then show "keeps (asset_ledger.same view s) (prepare_asset ?sv en ty input a)"
    by (auto simp: prepare_asset_def intro!: keep split: option.splits)
qed

lemma sound_asset_reads:
  assumes "bk_chain bk = chain"
  shows "keeps sound (on_assets bk (\<lambda>sv. getById sv i))" "keeps sound (on_assets bk list_assets)"
    "keeps sound (on_assets bk (\<lambda>sv. prepare_asset sv en ty input a))"
  by (rule sound_asset_read [OF assms], rule asset_reads)+

lemmas sound_session = keeps_session [OF consistent_store_free, of ledger view ok]
  keeps_on_ids [OF consistent_store_free, of ledger view ok]

lemma sound_contexts:
  assumes "bk_chain bk = chain"
  shows "keeps sound (transfer_context bk rq u)" "keeps sound (prepare_context bk rq u)" "keeps sound (audit_context bk rq u)"
    "keeps sound (viewPermission rq u)" "keeps sound (getTrailForAsset bk i)" "keeps sound (stored_hash bk rq u e)"
    "keeps sound (complete_hash bk rq u)"
  by (auto simp: transfer_context_def prepare_context_def audit_context_def viewPermission_def getTrailForAsset_def
      stored_hash_def complete_hash_def Let_def
      intro!: keep sound_asset_reads [OF assms] sound_users kept_grants sound_evidence split: option.splits)

lemma sound_job_routes:
  assumes "bk_chain bk = chain"
  shows "keeps sound (handle_job bk rq ep)"
  by (cases ep)
    (auto simp: route_defs prepareMutation_def jobs_requests Let_def
      intro!: keep sound_session sound_contexts [OF assms] sound_jobs [OF assms] sound_prepare sound_evidence
      split: option.splits prod.splits)

lemma sound_asset_routes:
  assumes "bk_chain bk = chain"
  shows "keeps sound (handle_asset bk rq ep)"
  by (cases ep)
    (auto simp: route_defs prepareAssetMutation_def assets_requests Let_def
      intro!: keep sound_session sound_contexts [OF assms] sound_assets [OF assms] sound_asset_reads [OF assms]
      split: option.splits)

lemma sound_admin_routes:
  assumes "bk_chain bk = chain"
  shows "keeps sound (handle_admin bk rq ep)"
  using assms
  by (cases ep)
    (auto simp: route_defs Let_def users_service_def validators_service_def
      intro!: keep sound_session sound_users kept_users kept_queries kept_validators split: option.splits jsval.splits)

lemma sound_public_routes:
  assumes "bk_chain bk = chain"
  shows "keeps sound (handle_public bk rq ep)"
  using assms
  by (cases ep)
    (auto simp: post_login_challenge_def post_login_def post_provisioning_challenge_def post_initialize_account_def
      get_status_def users_service_def
      intro!: keep sound_session sound_users kept_users split: option.splits jsval.splits)

lemma sound_handle: "bk_chain bk = chain \<Longrightarrow> keeps sound (handle bk rq ep)"
  by (cases ep) (simp_all add: sound_job_routes sound_asset_routes sound_admin_routes sound_public_routes)

lemma sound_serve: "bk_chain bk = chain \<Longrightarrow> sound w \<Longrightarrow> sound (serve bk rqs w)"
  using sound_handle [of bk] by (induction rqs arbitrary: w) (auto simp: keeps_def)

end

section \<open>The mock chain\<close>

lemma mock_kept:
  "kept_by mock_api job_types (\<lambda>c. mock_ledger c = L)" "kept_by mock_api asset_types (\<lambda>c. mock_look c = A \<and> mock_assets_ok c)"
proof -
  have d: "detailed_submit mock_api = mock_submit" by (simp add: detailed_submit_def)
  have "mock_ledger (snd (mock_submit en tx c)) = mock_ledger c" if "tx_type tx \<notin> job_types" for en tx c
    using that by (cases "tx_type tx")
      (auto simp: mock_submit_def mock_record_def mock_mint_def job_types_def mock_ledger_def Let_def fun_eq_iff split: option.splits)
  then show "kept_by mock_api job_types (\<lambda>c. mock_ledger c = L)" by (simp add: kept_by_def d)
  have "mc_assets (snd (mock_submit en tx c)) = mc_assets c" if "tx_type tx \<notin> asset_types" for en tx c
    using that by (cases "tx_type tx")
      (auto simp: mock_submit_def mock_record_def mock_job_create_def asset_types_def Let_def split: option.splits)
  then show "kept_by mock_api asset_types (\<lambda>c. mock_look c = A \<and> mock_assets_ok c)"
    by (simp add: kept_by_def d mock_look_def mock_assets_ok_def)
qed

interpretation mock_backend: shared_ledger mock_api mock_ledger mock_look mock_assets_ok
proof (intro shared_ledger.intro shared_ledger_axioms.intro)
  show "job_ledger (submitTransaction mock_api) mock_ledger"
    using mock_ledger.job_ledger_axioms by simp
  show "asset_ledger \<lparr>asv_chain = mock_api, asv_identityExists = ex, asv_fuel = n\<rparr> mock_look mock_assets_ok" for ex n
    using mock_assets.asset_ledger_axioms [of ex n] by (simp add: mock_assets_svc_def)
qed (rule mock_kept)+

section \<open>Requests without a session\<close>

text \<open>Everything but the users component: the chain, jobs, assets with their cache, and evidence.\<close>

definition ledger_side ::
  "('c, 'g) world \<Rightarrow> 'c \<times> job_repo \<times> (string, asset) jsmap \<times> asset_repo \<times> 'g evidence_state" where
  "ledger_side w = (chain_of w, wd_jobs w, wd_cache w, wd_assets w, wd_evidence w)"

lemma ledger_side_session [simp]: "ledger_side (after_session bk rq w) = ledger_side w"
  by (simp add: ledger_side_def chain_of_def)

lemma quiet_users:
  assumes f: "\<And>Q. keeps (of_chain Q) f"
  shows "quiet ledger_side (on_users f)"
proof (unfold quiet_def, rule allI)
  fix w
  from keepsD [OF f [of "\<lambda>c. c = us_chain (wd_users w)"], of "wd_users w"]
  show "ledger_side (snd (on_users f w)) = ledger_side w"
    by (auto simp: on_users_def ledger_side_def chain_of_def split: prod.splits)
qed

lemma quiet_ids: "quiet ledger_side (on_ids f)"
  by (auto simp: quiet_def ledger_side_def chain_of_def on_ids_def on_users_def split: prod.splits)

lemma quiet_public: "quiet ledger_side k \<Longrightarrow> quiet ledger_side (public bk rq k)"
  unfolding public_def attachSession_def by (intro frame quiet_ids)

text \<open>Provisioning reads the chain and does not submit.\<close>

lemma kept_provisioning:
  "keeps (of_chain Q) (requestProvisioningChallenge svc en d md)" "keeps (of_chain Q) (initializeAccount svc en inp)"
  by (auto simp: requestProvisioningChallenge_def initializeAccount_def init_checks_def validateEvmWalletBinding_def
      attestDevice_def requireAttestation_def Let_def intro!: keep kept_step split: option.splits)

lemma quiet_handle_public: "quiet ledger_side (handle_public bk rq ep)"
  by (cases ep)
    (auto simp: post_login_challenge_def post_login_def post_provisioning_challenge_def post_initialize_account_def
      get_status_def unit_of_def intro!: frame quiet_public quiet_ids quiet_users kept_provisioning split: jsval.splits)

lemma authed_without_session:
  "session_of bk rq w = None \<Longrightarrow> \<exists>e. authed bk rq k w = (Inl e, after_session bk rq w)"
  by (auto simp: authed_def session_of_def after_session_def requireSession_def bindE_def thenE_def pass_def query_def
      split: option.splits prod.splits sum.splits)

lemma refused: "session_of bk rq w = None \<Longrightarrow> \<exists>e. unit_of (authed bk rq k) w = (Inl e, after_session bk rq w)"
  using authed_without_session [of bk rq w k] by (auto simp: unit_of_def bindE_def thenE_def)

lemmas handler_simps = handle_admin.simps handle_asset.simps handle_job.simps

lemma handle_without_session:
  assumes "session_of bk rq w = None" "\<forall>ep'. ep \<noteq> Public ep'"
  shows "\<exists>e. handle bk rq ep w = (Inl e, after_session bk rq w)"
proof (cases ep)
  case (Admin e)
  then show ?thesis by (cases e) (simp_all only: handle.simps handler_simps route_defs, (rule refused [OF assms(1)])+)
next
  case (Asset e)
  then show ?thesis by (cases e) (simp_all only: handle.simps handler_simps route_defs, (rule refused [OF assms(1)])+)
next
  case (Job e)
  then show ?thesis by (cases e) (simp_all only: handle.simps handler_simps route_defs, (rule refused [OF assms(1)])+)
qed (use assms in simp)

text \<open>A session that was deleted is not accepted.\<close>

lemma session_of_deleted:
  assumes "hq_authorization rq = Some h" "sessions_find (ids w) (trim (drop 7 h)) = None"
  shows "session_of bk rq w = None"
  using assms
  by (auto simp: session_of_def attachSession_def on_ids_def on_users_def ids_def resolveUser_def validateSession_def exec_defs)

end
