(* ===== verification/Durable.thy ===== *)
theory Durable
  imports IdentityStore Evidence
begin

text \<open>
  The database adapters: the \<^verbatim>\<open>Prisma\<close> classes of \<^verbatim>\<open>users/repository-implementations.ts\<close>,
  \<^verbatim>\<open>domain/repositories.ts\<close> and \<^verbatim>\<open>evidence/evidence.repository.ts\<close>.  The generated client is
  not part of the repository: the operations it offers on one table are the record \<open>delegate\<close>,
  an argument of every adapter, and its documented behaviour is \<open>table_ok\<close>.  Jobs and sessions
  in the database are shown to behave like those of the in-memory adapters, and a challenge is
  consumed at most once.
\<close>

section \<open>The client\<close>

text \<open>
  The operations of one table.  A condition is a predicate on rows, the data of an update a
  function on rows; each operation may throw.  \<^verbatim>\<open>orderBy\<close> names a column with a date or
  one with a text, whose order is the collation of the database.
\<close>

datatype column = DateCol int | TextCol string

fun column_le :: "column \<Rightarrow> column \<Rightarrow> bool" where
  "column_le (DateCol a) (DateCol b) \<longleftrightarrow> a \<le> b"
| "column_le _ _ \<longleftrightarrow> True"

type_synonym ('db, 'a) db_m = "('db, error, 'a) m"

record ('db, 'row) delegate =
  findUnique :: "('row \<Rightarrow> bool) \<Rightarrow> ('db, 'row option) db_m"
  findMany :: "('row \<Rightarrow> bool) \<Rightarrow> ('row \<Rightarrow> column) \<Rightarrow> ('db, 'row list) db_m"
  upsert :: "('row \<Rightarrow> bool) \<Rightarrow> 'row \<Rightarrow> ('row \<Rightarrow> 'row) \<Rightarrow> ('db, unit) db_m"
  updateMany :: "('row \<Rightarrow> bool) \<Rightarrow> ('row \<Rightarrow> 'row) \<Rightarrow> ('db, nat) db_m"
  create_row :: "'row \<Rightarrow> ('db, unit) db_m"

text \<open>
  The rows of a table with the primary key \<open>pk\<close> are a finite set in which the key is unique.
  An operation that throws changes nothing.
\<close>

definition table_ok :: "('db, 'row) delegate \<Rightarrow> ('row \<Rightarrow> string) \<Rightarrow> ('db \<Rightarrow> 'row set) \<Rightarrow> bool" where
  "table_ok dg pk rows \<longleftrightarrow>
     (\<forall>db. finite (rows db) \<and> inj_on pk (rows db)) \<and>
     (\<forall>P db r db'. findUnique dg P db = (r, db') \<longrightarrow> rows db' = rows db \<and>
        (\<forall>x. r = Inr (Some x) \<longrightarrow> x \<in> rows db \<and> P x) \<and> (r = Inr None \<longrightarrow> (\<forall>x \<in> rows db. \<not> P x))) \<and>
     (\<forall>P c db r db'. findMany dg P c db = (r, db') \<longrightarrow> rows db' = rows db \<and>
        (\<forall>xs. r = Inr xs \<longrightarrow> set xs = {x \<in> rows db. P x} \<and> distinct xs \<and> sorted_wrt (\<lambda>x y. column_le (c x) (c y)) xs)) \<and>
     (\<forall>P new upd db r db'. upsert dg P new upd db = (r, db') \<longrightarrow>
        (case r of Inl _ \<Rightarrow> rows db' = rows db
         | Inr _ \<Rightarrow> (if \<exists>x \<in> rows db. P x then \<exists>x \<in> rows db. P x \<and> rows db' = insert (upd x) (rows db - {x})
                    else rows db' = insert new (rows db)))) \<and>
     (\<forall>P upd db r db'. updateMany dg P upd db = (r, db') \<longrightarrow>
        (case r of Inl _ \<Rightarrow> rows db' = rows db
         | Inr n \<Rightarrow> n = card {x \<in> rows db. P x} \<and> rows db' = (\<lambda>x. if P x then upd x else x) ` rows db)) \<and>
     (\<forall>new db r db'. create_row dg new db = (r, db') \<longrightarrow>
        (case r of Inl _ \<Rightarrow> rows db' = rows db | Inr _ \<Rightarrow> rows db' = insert new (rows db)))"

text \<open>
  \<^verbatim>\<open>new Date(text)\<close> and \<^verbatim>\<open>toISOString\<close>.  The client refuses data that holds an invalid
  date, so the conversion to a row is partial.
\<close>

definition asDate :: "date_str \<Rightarrow> int option" where
  "asDate d = date_parse d"

definition asIso :: "int \<Rightarrow> date_str" where
  "asIso t = Iso t"

definition opt_date :: "date_str option \<Rightarrow> int option option" where
  "opt_date d = (case d of None \<Rightarrow> Some None
     | Some x \<Rightarrow> if date_truthy x then map_option Some (asDate x) else Some None)"

definition checked :: "'row option \<Rightarrow> ('row \<Rightarrow> ('db, 'a) db_m) \<Rightarrow> ('db, 'a) db_m" where
  "checked d f = (case d of None \<Rightarrow> throw (PlainError ''Invalid Date'') | Some row \<Rightarrow> f row)"

section \<open>Rows and their conversion\<close>

record identity_row =
  ir_identityId :: string
  ir_employeeId :: "string option"
  ir_fullName :: string
  ir_role :: "role option"
  ir_department :: "string option"
  ir_status :: identity_status
  ir_createdAt :: int
  ir_verifiedAt :: "int option"
  ir_verifiedBy :: "string option"

definition identityData :: "identity \<Rightarrow> identity_row option" where
  "identityData v = (case (asDate (id_createdAt v), opt_date (id_verifiedAt v)) of
     (Some d_createdAt, Some d_verifiedAt) \<Rightarrow> Some \<lparr>ir_identityId = id_identityId v,
       ir_employeeId = id_employeeId v, ir_fullName = id_fullName v, ir_role = id_role v,
       ir_department = id_department v, ir_status = id_status v, ir_createdAt = d_createdAt,
       ir_verifiedAt = d_verifiedAt, ir_verifiedBy = id_verifiedBy v\<rparr>
   | _ \<Rightarrow> None)"

definition mapIdentity :: "identity_row \<Rightarrow> identity" where
  "mapIdentity r = \<lparr>id_identityId = ir_identityId r, id_employeeId = ir_employeeId r,
       id_fullName = ir_fullName r, id_role = ir_role r, id_department = ir_department r,
       id_status = ir_status r, id_createdAt = asIso (ir_createdAt r),
       id_verifiedAt = map_option asIso (ir_verifiedAt r), id_verifiedBy = ir_verifiedBy r\<rparr>"

record device_row =
  dr_deviceId :: string
  dr_identityId :: string
  dr_status :: device_status
  dr_registeredAt :: int
  dr_activatedAt :: "int option"
  dr_revokedAt :: "int option"
  dr_publicKey :: "string option"
  dr_metadata :: "jsobj option"

definition deviceData :: "device \<Rightarrow> device_row option" where
  "deviceData v = (case (asDate (dev_registeredAt v), opt_date (dev_activatedAt v), opt_date (dev_revokedAt v)) of
     (Some d_registeredAt, Some d_activatedAt,
       Some d_revokedAt) \<Rightarrow> Some \<lparr>dr_deviceId = dev_deviceId v,
       dr_identityId = dev_identityId v, dr_status = dev_status v, dr_registeredAt = d_registeredAt,
       dr_activatedAt = d_activatedAt, dr_revokedAt = d_revokedAt, dr_publicKey = dev_publicKey v,
       dr_metadata = dev_metadata v\<rparr>
   | _ \<Rightarrow> None)"

definition mapDevice :: "device_row \<Rightarrow> device" where
  "mapDevice r = \<lparr>dev_deviceId = dr_deviceId r, dev_identityId = dr_identityId r,
       dev_status = dr_status r, dev_registeredAt = asIso (dr_registeredAt r),
       dev_activatedAt = map_option asIso (dr_activatedAt r), dev_revokedAt = map_option asIso (dr_revokedAt r),
       dev_publicKey = dr_publicKey r, dev_metadata = dr_metadata r\<rparr>"

record wallet_row =
  wr_address :: string
  wr_identityId :: string
  wr_deviceId :: string
  wr_status :: wallet_status
  wr_activatedAt :: "int option"
  wr_revokedAt :: "int option"
  wr_revokedReason :: "string option"
  wr_publicKey :: "string option"

definition walletData :: "wallet \<Rightarrow> wallet_row option" where
  "walletData v = (case (opt_date (wal_activatedAt v), opt_date (wal_revokedAt v)) of
     (Some d_activatedAt, Some d_revokedAt) \<Rightarrow> Some \<lparr>wr_address = wal_address v,
       wr_identityId = wal_identityId v, wr_deviceId = wal_deviceId v, wr_status = wal_status v,
       wr_activatedAt = d_activatedAt, wr_revokedAt = d_revokedAt, wr_revokedReason = wal_revokedReason v,
       wr_publicKey = wal_publicKey v\<rparr>
   | _ \<Rightarrow> None)"

definition mapWallet :: "wallet_row \<Rightarrow> wallet" where
  "mapWallet r = \<lparr>wal_address = wr_address r, wal_identityId = wr_identityId r,
       wal_deviceId = wr_deviceId r, wal_status = wr_status r,
       wal_activatedAt = map_option asIso (wr_activatedAt r), wal_revokedAt = map_option asIso (wr_revokedAt r),
       wal_revokedReason = wr_revokedReason r, wal_publicKey = wr_publicKey r\<rparr>"

record grant_row =
  gw_authorizationGrantId :: string
  gw_actorIdentityId :: string
  gw_resourceType :: resource_type
  gw_resourceId :: string
  gw_action :: action
  gw_grantedByIdentityId :: string
  gw_issuedAt :: int
  gw_expiresAt :: "int option"
  gw_status :: grant_status

definition grantData :: "grant \<Rightarrow> grant_row option" where
  "grantData v = (case (asDate (gr_issuedAt v), opt_date (gr_expiresAt v)) of
     (Some d_issuedAt,
       Some d_expiresAt) \<Rightarrow> Some \<lparr>gw_authorizationGrantId = gr_authorizationGrantId v,
       gw_actorIdentityId = gr_actorIdentityId v, gw_resourceType = gr_resourceType v,
       gw_resourceId = gr_resourceId v, gw_action = gr_action v,
       gw_grantedByIdentityId = gr_grantedByIdentityId v, gw_issuedAt = d_issuedAt, gw_expiresAt = d_expiresAt,
       gw_status = gr_status v\<rparr>
   | _ \<Rightarrow> None)"

definition mapGrant :: "grant_row \<Rightarrow> grant" where
  "mapGrant r = \<lparr>gr_authorizationGrantId = gw_authorizationGrantId r,
       gr_actorIdentityId = gw_actorIdentityId r, gr_resourceType = gw_resourceType r,
       gr_resourceId = gw_resourceId r, gr_action = gw_action r,
       gr_grantedByIdentityId = gw_grantedByIdentityId r, gr_issuedAt = asIso (gw_issuedAt r),
       gr_expiresAt = map_option asIso (gw_expiresAt r), gr_status = gw_status r\<rparr>"

record challenge_row =
  cr_challengeId :: string
  cr_deviceId :: string
  cr_challenge :: string
  cr_purpose :: challenge_purpose
  cr_expiresAt :: int
  cr_usedAt :: "int option"
  cr_metadata :: "jsobj option"

definition challengeData :: "challenge \<Rightarrow> challenge_row option" where
  "challengeData v = (case (asDate (ch_expiresAt v), opt_date (ch_usedAt v)) of
     (Some d_expiresAt, Some d_usedAt) \<Rightarrow> Some \<lparr>cr_challengeId = ch_challengeId v,
       cr_deviceId = ch_deviceId v, cr_challenge = ch_challenge v, cr_purpose = ch_purpose v,
       cr_expiresAt = d_expiresAt, cr_usedAt = d_usedAt, cr_metadata = ch_metadata v\<rparr>
   | _ \<Rightarrow> None)"

definition mapChallenge :: "challenge_row \<Rightarrow> challenge" where
  "mapChallenge r = \<lparr>ch_challengeId = cr_challengeId r, ch_deviceId = cr_deviceId r,
       ch_challenge = cr_challenge r, ch_purpose = cr_purpose r, ch_expiresAt = asIso (cr_expiresAt r),
       ch_usedAt = map_option asIso (cr_usedAt r), ch_metadata = cr_metadata r\<rparr>"

record validator_row =
  vr_registrationId :: string
  vr_validatorId :: string
  vr_identityId :: string
  vr_walletAddress :: string
  vr_nodeId :: string
  vr_nodeAddress :: string
  vr_publicKey :: string
  vr_signingPublicKey :: string
  vr_status :: registration_status
  vr_requestedAt :: int
  vr_activationHeight :: int
  vr_removalHeight :: "int option"
  vr_removalReason :: "string option"
  vr_txHash :: "string option"
  vr_blockNumber :: "int option"

definition validatorData :: "registration \<Rightarrow> validator_row option" where
  "validatorData v = (case asDate (reg_requestedAt v) of
     Some d_requestedAt \<Rightarrow> Some \<lparr>vr_registrationId = reg_registrationId v,
       vr_validatorId = reg_validatorId v, vr_identityId = reg_identityId v,
       vr_walletAddress = reg_walletAddress v, vr_nodeId = reg_nodeId v, vr_nodeAddress = reg_nodeAddress v,
       vr_publicKey = reg_publicKey v, vr_signingPublicKey = reg_signingPublicKey v, vr_status = reg_status v,
       vr_requestedAt = d_requestedAt, vr_activationHeight = reg_activationHeight v,
       vr_removalHeight = reg_removalHeight v, vr_removalReason = reg_removalReason v, vr_txHash = reg_txHash v,
       vr_blockNumber = reg_blockNumber v\<rparr>
   | _ \<Rightarrow> None)"

definition mapValidator :: "validator_row \<Rightarrow> registration" where
  "mapValidator r = \<lparr>reg_registrationId = vr_registrationId r, reg_validatorId = vr_validatorId r,
       reg_identityId = vr_identityId r, reg_walletAddress = vr_walletAddress r, reg_nodeId = vr_nodeId r,
       reg_nodeAddress = vr_nodeAddress r, reg_publicKey = vr_publicKey r,
       reg_signingPublicKey = vr_signingPublicKey r, reg_status = vr_status r,
       reg_requestedAt = asIso (vr_requestedAt r), reg_activationHeight = vr_activationHeight r,
       reg_removalHeight = vr_removalHeight r, reg_removalReason = vr_removalReason r, reg_txHash = vr_txHash r,
       reg_blockNumber = vr_blockNumber r\<rparr>"

record history_row =
  hr_historyId :: string
  hr_validatorId :: string
  hr_operation :: transaction_type
  hr_actorIdentityId :: string
  hr_actorWallet :: string
  hr_timestamp :: int
  hr_blockNumber :: "int option"
  hr_transactionHash :: "string option"
  hr_previousState :: "string option"
  hr_newState :: string
  hr_reason :: "string option"
  hr_status :: operation_status
  hr_inverseTransactionHash :: "string option"

definition historyData :: "history \<Rightarrow> history_row option" where
  "historyData v = (case asDate (hist_timestamp v) of
     Some d_timestamp \<Rightarrow> Some \<lparr>hr_historyId = hist_historyId v,
       hr_validatorId = hist_validatorId v, hr_operation = hist_operation v,
       hr_actorIdentityId = hist_actorIdentityId v, hr_actorWallet = hist_actorWallet v,
       hr_timestamp = d_timestamp, hr_blockNumber = hist_blockNumber v,
       hr_transactionHash = hist_transactionHash v, hr_previousState = hist_previousState v,
       hr_newState = hist_newState v, hr_reason = hist_reason v, hr_status = hist_status v,
       hr_inverseTransactionHash = hist_inverseTransactionHash v\<rparr>
   | _ \<Rightarrow> None)"

definition mapHistory :: "history_row \<Rightarrow> history" where
  "mapHistory r = \<lparr>hist_historyId = hr_historyId r, hist_validatorId = hr_validatorId r,
       hist_operation = hr_operation r, hist_actorIdentityId = hr_actorIdentityId r,
       hist_actorWallet = hr_actorWallet r, hist_timestamp = asIso (hr_timestamp r),
       hist_blockNumber = hr_blockNumber r, hist_transactionHash = hr_transactionHash r,
       hist_previousState = hr_previousState r, hist_newState = hr_newState r, hist_reason = hr_reason r,
       hist_status = hr_status r, hist_inverseTransactionHash = hr_inverseTransactionHash r\<rparr>"

record notification_row =
  nr_notificationId :: string
  nr_eventType :: transaction_type
  nr_validatorId :: string
  nr_operation :: string
  nr_recipientIdentityId :: string
  nr_channel :: channel
  nr_createdAt :: int
  nr_status :: delivery_status

definition notificationData :: "notification \<Rightarrow> notification_row option" where
  "notificationData v = (case asDate (not_createdAt v) of
     Some d_createdAt \<Rightarrow> Some \<lparr>nr_notificationId = not_notificationId v,
       nr_eventType = not_eventType v, nr_validatorId = not_validatorId v, nr_operation = not_operation v,
       nr_recipientIdentityId = not_recipientIdentityId v, nr_channel = not_channel v,
       nr_createdAt = d_createdAt, nr_status = not_status v\<rparr>
   | _ \<Rightarrow> None)"

definition mapNotification :: "notification_row \<Rightarrow> notification" where
  "mapNotification r = \<lparr>not_notificationId = nr_notificationId r, not_eventType = nr_eventType r,
       not_validatorId = nr_validatorId r, not_operation = nr_operation r,
       not_recipientIdentityId = nr_recipientIdentityId r, not_channel = nr_channel r,
       not_createdAt = asIso (nr_createdAt r), not_status = nr_status r\<rparr>"

text \<open>
  The columns of a job are text: a priority that is not a text, or a verifier that is neither a
  text nor missing, is refused by the client.
\<close>

record job_row =
  jr_jobId :: string
  jr_assetId :: string
  jr_createdBy :: string
  jr_assignedTo :: "string option"
  jr_verifierId :: "string option"
  jr_status :: job_status
  jr_priority :: string
  jr_createdAt :: int
  jr_completedAt :: "int option"

fun text_or_null :: "jsval \<Rightarrow> string option option" where
  "text_or_null (JStr s) = Some (Some s)"
| "text_or_null JNull = Some None"
| "text_or_null JUndefined = Some None"
| "text_or_null _ = None"

definition jobData :: "job \<Rightarrow> job_row option" where
  "jobData v = (case (asDate (job_createdAt v), opt_date (job_completedAt v), text_or_null (job_verifierId v), as_str (job_priority v)) of
     (Some created, Some completed, Some verifier, Some priority) \<Rightarrow>
       Some \<lparr>jr_jobId = job_jobId v, jr_assetId = job_assetId v, jr_createdBy = job_createdBy v,
         jr_assignedTo = (if job_assignedTo v = [] then None else Some (job_assignedTo v)), jr_verifierId = verifier,
         jr_status = job_status v, jr_priority = priority, jr_createdAt = created, jr_completedAt = completed\<rparr>
   | _ \<Rightarrow> None)"

definition mapJob :: "job_row \<Rightarrow> job" where
  "mapJob r = \<lparr>job_jobId = jr_jobId r, job_assetId = jr_assetId r, job_createdBy = jr_createdBy r,
     job_assignedTo = (case jr_assignedTo r of None \<Rightarrow> [] | Some x \<Rightarrow> x),
     job_verifierId = (case jr_verifierId r of None \<Rightarrow> JNull | Some x \<Rightarrow> JStr x), job_status = jr_status r,
     job_priority = JStr (jr_priority r), job_createdAt = asIso (jr_createdAt r),
     job_completedAt = map_option asIso (jr_completedAt r)\<rparr>"

record asset_row =
  ar_assetId :: string
  ar_nftId :: string
  ar_assetType :: string
  ar_ownerId :: string
  ar_custodianId :: string
  ar_parentAssetId :: "string option"
  ar_status :: asset_status

definition assetData :: "asset \<Rightarrow> asset_row" where
  "assetData v = \<lparr>ar_assetId = as_assetId v, ar_nftId = as_nftId v, ar_assetType = as_assetType v,
       ar_ownerId = as_ownerId v,
     ar_custodianId = as_custodianId v, ar_parentAssetId = (case as_parentAssetId v of None \<Rightarrow> None | Some p \<Rightarrow> p),
     ar_status = as_status v\<rparr>"

definition mapAsset :: "asset_row \<Rightarrow> asset" where
  "mapAsset r = \<lparr>as_assetId = ar_assetId r, as_nftId = ar_nftId r, as_assetType = ar_assetType r,
       as_ownerId = ar_ownerId r,
     as_custodianId = ar_custodianId r, as_parentAssetId = Some (ar_parentAssetId r), as_status = ar_status r\<rparr>"

record evidence_row =
  er_evidenceId :: string
  er_jobId :: string
  er_cid :: string
  er_sha256 :: string
  er_originalFilename :: string
  er_contentType :: string
  er_sizeBytes :: nat
  er_uploadedBy :: string
  er_createdAt :: int
  er_updatedAt :: int

definition evidenceData :: "evidence \<Rightarrow> evidence_row option" where
  "evidenceData v = (case (asDate (evd_createdAt v), asDate (evd_updatedAt v)) of
     (Some d_createdAt, Some d_updatedAt) \<Rightarrow> Some \<lparr>er_evidenceId = evd_evidenceId v,
       er_jobId = evd_jobId v, er_cid = evd_cid v, er_sha256 = evd_sha256 v,
       er_originalFilename = evd_originalFilename v, er_contentType = evd_contentType v,
       er_sizeBytes = evd_sizeBytes v, er_uploadedBy = evd_uploadedBy v, er_createdAt = d_createdAt,
       er_updatedAt = d_updatedAt\<rparr>
   | _ \<Rightarrow> None)"

definition mapEvidence :: "evidence_row \<Rightarrow> evidence" where
  "mapEvidence r = \<lparr>evd_evidenceId = er_evidenceId r, evd_jobId = er_jobId r, evd_cid = er_cid r,
       evd_sha256 = er_sha256 r, evd_originalFilename = er_originalFilename r,
       evd_contentType = er_contentType r, evd_sizeBytes = er_sizeBytes r, evd_uploadedBy = er_uploadedBy r,
       evd_createdAt = asIso (er_createdAt r), evd_updatedAt = asIso (er_updatedAt r)\<rparr>"

text \<open>A session is stored under the hash of its token; a credential is never deleted, only deactivated.\<close>

record session_row =
  sr_tokenHash :: string
  sr_identityId :: string
  sr_deviceId :: string
  sr_walletAddress :: string
  sr_expiresAt :: int
  sr_revokedAt :: "int option"

record credential_row =
  kr_id :: string
  kr_verifier :: string
  kr_deviceId :: string
  kr_active :: bool

section \<open>Adapters\<close>

text \<open>The shape the keyed adapters share: a lookup by a unique column, a listing, and an upsert of the whole row.\<close>

definition find_row :: "('db, 'row) delegate \<Rightarrow> ('row \<Rightarrow> bool) \<Rightarrow> ('row \<Rightarrow> 'v) \<Rightarrow> ('db, 'v option) db_m" where
  "find_row dg P f = bindE (findUnique dg P) (\<lambda>r. ret (map_option f r))"

definition list_rows :: "('db, 'row) delegate \<Rightarrow> ('row \<Rightarrow> bool) \<Rightarrow> ('row \<Rightarrow> column) \<Rightarrow> ('row \<Rightarrow> 'v) \<Rightarrow> ('db, 'v list) db_m" where
  "list_rows dg P c f = bindE (findMany dg P c) (\<lambda>rs. ret (map f rs))"

definition save_row :: "('db, 'row) delegate \<Rightarrow> ('row \<Rightarrow> bool) \<Rightarrow> 'row option \<Rightarrow> ('db, unit) db_m" where
  "save_row dg P d = checked d (\<lambda>row. upsert dg P row (\<lambda>_. row))"

definition prisma_identity_findById :: "('db, identity_row) delegate \<Rightarrow> string \<Rightarrow> ('db, identity option) db_m" where
  "prisma_identity_findById dg i = find_row dg (\<lambda>r. ir_identityId r = i) mapIdentity"

definition prisma_identity_findByEmployeeId :: "('db, identity_row) delegate \<Rightarrow> string \<Rightarrow> ('db, identity option) db_m" where
  "prisma_identity_findByEmployeeId dg i = find_row dg (\<lambda>r. ir_employeeId r = Some i) mapIdentity"

definition prisma_identity_listByStatus :: "('db, identity_row) delegate \<Rightarrow> identity_status \<Rightarrow> ('db, identity list) db_m" where
  "prisma_identity_listByStatus dg x = list_rows dg (\<lambda>r. ir_status r = x) (\<lambda>r. DateCol (ir_createdAt r)) mapIdentity"

definition prisma_identity_save :: "('db, identity_row) delegate \<Rightarrow> identity \<Rightarrow> ('db, unit) db_m" where
  "prisma_identity_save dg v = save_row dg (\<lambda>r. ir_identityId r = id_identityId v) (identityData v)"

text \<open>A user has no dates; its row is the record itself.\<close>

definition prisma_user_findById :: "('db, user) delegate \<Rightarrow> string \<Rightarrow> ('db, user option) db_m" where
  "prisma_user_findById dg i = find_row dg (\<lambda>r. usr_employeeId r = i) id"

definition prisma_user_findByIdentityId :: "('db, user) delegate \<Rightarrow> string \<Rightarrow> ('db, user option) db_m" where
  "prisma_user_findByIdentityId dg i = find_row dg (\<lambda>r. usr_identityId r = i) id"

definition prisma_user_save :: "('db, user) delegate \<Rightarrow> user \<Rightarrow> ('db, unit) db_m" where
  "prisma_user_save dg v = save_row dg (\<lambda>r. usr_employeeId r = usr_employeeId v) (Some v)"

definition prisma_device_findById :: "('db, device_row) delegate \<Rightarrow> string \<Rightarrow> ('db, device option) db_m" where
  "prisma_device_findById dg i = find_row dg (\<lambda>r. dr_deviceId r = i) mapDevice"

definition prisma_device_listByIdentityId :: "('db, device_row) delegate \<Rightarrow> string \<Rightarrow> ('db, device list) db_m" where
  "prisma_device_listByIdentityId dg x = list_rows dg (\<lambda>r. dr_identityId r = x) (\<lambda>r. DateCol (dr_registeredAt r)) mapDevice"

definition prisma_device_save :: "('db, device_row) delegate \<Rightarrow> device \<Rightarrow> ('db, unit) db_m" where
  "prisma_device_save dg v = save_row dg (\<lambda>r. dr_deviceId r = dev_deviceId v) (deviceData v)"

definition prisma_wallet_findByAddress :: "('db, wallet_row) delegate \<Rightarrow> string \<Rightarrow> ('db, wallet option) db_m" where
  "prisma_wallet_findByAddress dg i = find_row dg (\<lambda>r. wr_address r = i) mapWallet"

definition prisma_wallet_listByIdentityId :: "('db, wallet_row) delegate \<Rightarrow> string \<Rightarrow> ('db, wallet list) db_m" where
  "prisma_wallet_listByIdentityId dg x = list_rows dg (\<lambda>r. wr_identityId r = x) (\<lambda>r. TextCol (wr_address r)) mapWallet"

definition prisma_wallet_save :: "('db, wallet_row) delegate \<Rightarrow> wallet \<Rightarrow> ('db, unit) db_m" where
  "prisma_wallet_save dg v = save_row dg (\<lambda>r. wr_address r = wal_address v) (walletData v)"

definition prisma_validator_findById :: "('db, validator_row) delegate \<Rightarrow> string \<Rightarrow> ('db, registration option) db_m" where
  "prisma_validator_findById dg i = find_row dg (\<lambda>r. vr_registrationId r = i) mapValidator"

definition prisma_validator_findByValidatorId :: "('db, validator_row) delegate \<Rightarrow> string \<Rightarrow> ('db, registration option) db_m" where
  "prisma_validator_findByValidatorId dg i = find_row dg (\<lambda>r. vr_validatorId r = i) mapValidator"

definition prisma_validator_list :: "('db, validator_row) delegate \<Rightarrow> ('db, registration list) db_m" where
  "prisma_validator_list dg = list_rows dg (\<lambda>r. True) (\<lambda>r. DateCol (vr_requestedAt r)) mapValidator"

definition prisma_validator_save :: "('db, validator_row) delegate \<Rightarrow> registration \<Rightarrow> ('db, unit) db_m" where
  "prisma_validator_save dg v = save_row dg (\<lambda>r. vr_registrationId r = reg_registrationId v) (validatorData v)"

definition prisma_grant_findById :: "('db, grant_row) delegate \<Rightarrow> string \<Rightarrow> ('db, grant option) db_m" where
  "prisma_grant_findById dg i = find_row dg (\<lambda>r. gw_authorizationGrantId r = i) mapGrant"

definition prisma_grant_listByIdentityId :: "('db, grant_row) delegate \<Rightarrow> string \<Rightarrow> ('db, grant list) db_m" where
  "prisma_grant_listByIdentityId dg x = list_rows dg (\<lambda>r. gw_actorIdentityId r = x) (\<lambda>r. DateCol (gw_issuedAt r)) mapGrant"

definition prisma_grant_save :: "('db, grant_row) delegate \<Rightarrow> grant \<Rightarrow> ('db, unit) db_m" where
  "prisma_grant_save dg v = save_row dg (\<lambda>r. gw_authorizationGrantId r = gr_authorizationGrantId v) (grantData v)"

definition prisma_asset_findById :: "('db, asset_row) delegate \<Rightarrow> string \<Rightarrow> ('db, asset option) db_m" where
  "prisma_asset_findById dg i = find_row dg (\<lambda>r. ar_assetId r = i) mapAsset"

definition prisma_asset_list :: "('db, asset_row) delegate \<Rightarrow> ('db, asset list) db_m" where
  "prisma_asset_list dg = list_rows dg (\<lambda>r. True) (\<lambda>r. TextCol (ar_assetId r)) mapAsset"

definition prisma_asset_save :: "('db, asset_row) delegate \<Rightarrow> asset \<Rightarrow> ('db, unit) db_m" where
  "prisma_asset_save dg v = save_row dg (\<lambda>r. ar_assetId r = as_assetId v) (Some (assetData v))"

definition prisma_job_findById :: "('db, job_row) delegate \<Rightarrow> string \<Rightarrow> ('db, job option) db_m" where
  "prisma_job_findById dg i = find_row dg (\<lambda>r. jr_jobId r = i) mapJob"

definition prisma_job_list :: "('db, job_row) delegate \<Rightarrow> ('db, job list) db_m" where
  "prisma_job_list dg = list_rows dg (\<lambda>r. True) (\<lambda>r. DateCol (jr_createdAt r)) mapJob"

definition prisma_job_save :: "('db, job_row) delegate \<Rightarrow> job \<Rightarrow> ('db, unit) db_m" where
  "prisma_job_save dg v = save_row dg (\<lambda>r. jr_jobId r = job_jobId v) (jobData v)"

definition prisma_challenge_findById :: "('db, challenge_row) delegate \<Rightarrow> string \<Rightarrow> ('db, challenge option) db_m" where
  "prisma_challenge_findById dg i = find_row dg (\<lambda>r. cr_challengeId r = i) mapChallenge"

definition prisma_challenge_save :: "('db, challenge_row) delegate \<Rightarrow> challenge \<Rightarrow> ('db, unit) db_m" where
  "prisma_challenge_save dg v = save_row dg (\<lambda>r. cr_challengeId r = ch_challengeId v) (challengeData v)"

definition prisma_consumeIfUnused :: "('db, challenge_row) delegate \<Rightarrow> string \<Rightarrow> date_str \<Rightarrow> ('db, bool) db_m" where
  "prisma_consumeIfUnused dg i used = checked (asDate used) (\<lambda>t.
     bindE (updateMany dg (\<lambda>r. cr_challengeId r = i \<and> cr_usedAt r = None) (\<lambda>r. r\<lparr>cr_usedAt := Some t\<rparr>)) (\<lambda>count.
       ret (count = 1)))"

text \<open>\<open>sha\<close> is the SHA-256 digest in hexadecimal digits.\<close>

definition prisma_credential_findDeviceId :: "('db, credential_row) delegate \<Rightarrow> string \<Rightarrow> ('db, string option) db_m" where
  "prisma_credential_findDeviceId dg v = bindE (findUnique dg (\<lambda>r. kr_verifier r = v)) (\<lambda>found.
     ret (case found of None \<Rightarrow> None | Some r \<Rightarrow> if kr_active r then Some (kr_deviceId r) else None))"

definition prisma_credential_save ::
  "(string \<Rightarrow> string) \<Rightarrow> ('db, credential_row) delegate \<Rightarrow> string \<Rightarrow> string \<Rightarrow> ('db, unit) db_m" where
  "prisma_credential_save sha dg v deviceId = upsert dg (\<lambda>r. kr_verifier r = v)
     \<lparr>kr_id = sha v, kr_verifier = v, kr_deviceId = deviceId, kr_active = True\<rparr>
     (\<lambda>r. r\<lparr>kr_deviceId := deviceId, kr_active := True\<rparr>)"

definition prisma_credential_revoke :: "('db, credential_row) delegate \<Rightarrow> string \<Rightarrow> ('db, nat) db_m" where
  "prisma_credential_revoke dg v = updateMany dg (\<lambda>r. kr_verifier r = v) (\<lambda>r. r\<lparr>kr_active := False\<rparr>)"

definition prisma_credential_revokeForDevice :: "('db, credential_row) delegate \<Rightarrow> string \<Rightarrow> ('db, nat) db_m" where
  "prisma_credential_revokeForDevice dg deviceId =
     updateMany dg (\<lambda>r. kr_deviceId r = deviceId) (\<lambda>r. r\<lparr>kr_active := False\<rparr>)"

definition prisma_session_find ::
  "(string \<Rightarrow> string) \<Rightarrow> ('db, session_row) delegate \<Rightarrow> string \<Rightarrow> ('db, session option) db_m" where
  "prisma_session_find sha dg token = bindE (findUnique dg (\<lambda>r. sr_tokenHash r = sha token)) (\<lambda>found.
     ret (case found of None \<Rightarrow> None
       | Some r \<Rightarrow> if sr_revokedAt r \<noteq> None then None
           else Some \<lparr>ses_token = token, ses_identityId = sr_identityId r, ses_deviceId = sr_deviceId r,
             ses_walletAddress = sr_walletAddress r, ses_expiresAt = Fin (of_int (sr_expiresAt r))\<rparr>))"

text \<open>\<^verbatim>\<open>new Date(number)\<close>: the number is truncated; NaN and numbers out of range give an invalid date.\<close>

fun date_of_num :: "jsnum \<Rightarrow> int option" where
  "date_of_num (Fin q) = (if \<bar>q\<bar> \<le> 8640000000000000 then Some (if 0 \<le> q then \<lfloor>q\<rfloor> else \<lceil>q\<rceil>) else None)"
| "date_of_num _ = None"

definition prisma_session_save ::
  "(string \<Rightarrow> string) \<Rightarrow> ('db, session_row) delegate \<Rightarrow> session \<Rightarrow> ('db, unit) db_m" where
  "prisma_session_save sha dg s = checked (date_of_num (ses_expiresAt s)) (\<lambda>t.
     upsert dg (\<lambda>r. sr_tokenHash r = sha (ses_token s))
       \<lparr>sr_tokenHash = sha (ses_token s), sr_identityId = ses_identityId s, sr_deviceId = ses_deviceId s,
        sr_walletAddress = ses_walletAddress s, sr_expiresAt = t, sr_revokedAt = None\<rparr>
       (\<lambda>r. r\<lparr>sr_identityId := ses_identityId s, sr_deviceId := ses_deviceId s, sr_walletAddress := ses_walletAddress s,
          sr_expiresAt := t, sr_revokedAt := None\<rparr>))"

definition prisma_session_delete ::
  "(string \<Rightarrow> string) \<Rightarrow> ('db, session_row) delegate \<Rightarrow> int \<Rightarrow> string \<Rightarrow> ('db, nat) db_m" where
  "prisma_session_delete sha dg now token =
     updateMany dg (\<lambda>r. sr_tokenHash r = sha token) (\<lambda>r. r\<lparr>sr_revokedAt := Some now\<rparr>)"

definition prisma_history_list :: "('db, history_row) delegate \<Rightarrow> ('db, history list) db_m" where
  "prisma_history_list dg = list_rows dg (\<lambda>r. True) (\<lambda>r. DateCol (hr_timestamp r)) mapHistory"

definition prisma_history_append :: "('db, history_row) delegate \<Rightarrow> history \<Rightarrow> ('db, unit) db_m" where
  "prisma_history_append dg v = checked (historyData v) (create_row dg)"

definition prisma_notification_list :: "('db, notification_row) delegate \<Rightarrow> ('db, notification list) db_m" where
  "prisma_notification_list dg = list_rows dg (\<lambda>r. True) (\<lambda>r. DateCol (nr_createdAt r)) mapNotification"

definition prisma_notification_append :: "('db, notification_row) delegate \<Rightarrow> notification \<Rightarrow> ('db, unit) db_m" where
  "prisma_notification_append dg v = checked (notificationData v) (create_row dg)"

text \<open>
  The evidence adapter converts the row without a test for \<^verbatim>\<open>null\<close>, so a lookup that finds
  nothing reads a field of \<^verbatim>\<open>null\<close>, and it always creates a row.
\<close>

definition prisma_evidence_findById :: "('db, evidence_row) delegate \<Rightarrow> string \<Rightarrow> ('db, evidence option) db_m" where
  "prisma_evidence_findById dg i = bindE (findUnique dg (\<lambda>r. er_evidenceId r = i)) (\<lambda>found.
     case found of None \<Rightarrow> throw (PlainError ''TypeError'') | Some r \<Rightarrow> ret (Some (mapEvidence r)))"

definition prisma_evidence_listByJob :: "('db, evidence_row) delegate \<Rightarrow> string \<Rightarrow> ('db, evidence list) db_m" where
  "prisma_evidence_listByJob dg j = list_rows dg (\<lambda>r. er_jobId r = j) (\<lambda>r. DateCol (er_createdAt r)) mapEvidence"

definition prisma_evidence_save :: "env \<Rightarrow> ('db, evidence_row) delegate \<Rightarrow> evidence \<Rightarrow> ('db, unit) db_m" where
  "prisma_evidence_save en dg v = checked
     (evidenceData (if evd_evidenceId v = [] then v\<lparr>evd_evidenceId := uuid en 0\<rparr> else v)) (create_row dg)"

section \<open>What the client promises\<close>

lemma spec4: "\<forall>a b c d. P a b c d \<Longrightarrow> P a b c d"
  by blast

lemma table_rows: "table_ok dg pk rows \<Longrightarrow> finite (rows db) \<and> inj_on pk (rows db)"
  by (simp add: table_ok_def)

lemma table_findUnique:
  assumes "table_ok dg pk rows" "findUnique dg P db = (r, db')"
  shows "rows db' = rows db \<and>
     (\<forall>x. r = Inr (Some x) \<longrightarrow> x \<in> rows db \<and> P x) \<and> (r = Inr None \<longrightarrow> (\<forall>x \<in> rows db. \<not> P x))"
  by (rule assms(1) [unfolded table_ok_def, THEN conjunct2, THEN conjunct1, THEN spec4, THEN mp, OF assms(2)])

lemma table_findMany:
  assumes "table_ok dg pk rows" "findMany dg P c db = (r, db')"
  shows "rows db' = rows db \<and>
     (\<forall>xs. r = Inr xs \<longrightarrow> set xs = {x \<in> rows db. P x} \<and> distinct xs \<and> sorted_wrt (\<lambda>x y. column_le (c x) (c y)) xs)"
  by (rule assms(1) [unfolded table_ok_def, THEN conjunct2, THEN conjunct2, THEN conjunct1, THEN spec4, THEN spec, THEN mp, OF assms(2)])

lemma table_upsert:
  assumes "table_ok dg pk rows" "upsert dg P new upd db = (r, db')"
  shows "case r of Inl _ \<Rightarrow> rows db' = rows db
     | Inr _ \<Rightarrow> (if \<exists>x \<in> rows db. P x then \<exists>x \<in> rows db. P x \<and> rows db' = insert (upd x) (rows db - {x})
                else rows db' = insert new (rows db))"
  by (rule assms(1) [unfolded table_ok_def, THEN conjunct2, THEN conjunct2, THEN conjunct2, THEN conjunct1,
      THEN spec4, THEN spec, THEN spec, THEN mp, OF assms(2)])

lemma table_updateMany:
  assumes "table_ok dg pk rows" "updateMany dg P upd db = (r, db')"
  shows "case r of Inl _ \<Rightarrow> rows db' = rows db
     | Inr n \<Rightarrow> n = card {x \<in> rows db. P x} \<and> rows db' = (\<lambda>x. if P x then upd x else x) ` rows db"
  by (rule assms(1) [unfolded table_ok_def, THEN conjunct2, THEN conjunct2, THEN conjunct2, THEN conjunct2, THEN conjunct1,
      THEN spec4, THEN spec, THEN mp, OF assms(2)])

text \<open>An upsert under the primary key that writes the whole row replaces the row with this key.\<close>

lemma upsert_replaces:
  assumes "table_ok dg pk rows" "upsert dg (\<lambda>r. pk r = k) row upd db = (Inr u, db')"
    and "\<And>x. pk x = k \<Longrightarrow> upd x = row"
  shows "rows db' = insert row {r \<in> rows db. pk r \<noteq> k}"
proof (cases "\<exists>x \<in> rows db. pk x = k")
  case True
  from table_upsert [OF assms(1,2)] True obtain x where x: "x \<in> rows db" "pk x = k"
    and new: "rows db' = insert (upd x) (rows db - {x})" by auto
  have "r = x" if "r \<in> rows db" "pk r = k" for r
    by (rule inj_onD [of pk "rows db"]) (use that x table_rows [OF assms(1)] in simp_all)
  then have "rows db - {x} = {r \<in> rows db. pk r \<noteq> k}" using x(2) by auto
  with new assms(3) [OF x(2)] show ?thesis by simp
next
  case False
  with table_upsert [OF assms(1,2)] show ?thesis by auto
qed

section \<open>Keyed adapters refine the memory adapters\<close>

text \<open>The rows of a table represent a map when they convert to exactly its entries.\<close>

definition represents :: "('row \<Rightarrow> string) \<Rightarrow> ('row \<Rightarrow> 'v) \<Rightarrow> 'row set \<Rightarrow> (string \<Rightarrow> 'v option) \<Rightarrow> bool" where
  "represents pk f R m \<longleftrightarrow> (\<forall>k v. m k = Some v \<longleftrightarrow> (\<exists>r \<in> R. pk r = k \<and> f r = v))"

lemma find_row_refines:
  assumes "table_ok dg pk rows" "represents pk f (rows db) m" "find_row dg (\<lambda>r. pk r = k) f db = (r, db')"
  shows "rows db' = rows db \<and> (\<forall>v. r = Inr v \<longrightarrow> v = m k)"
proof (cases "findUnique dg (\<lambda>r. pk r = k) db")
  case (Pair q db1)
  note u = table_findUnique [OF assms(1) this]
  have none: "m k = None" if "\<forall>x \<in> rows db. pk x \<noteq> k"
    using assms(2) that unfolding represents_def by (metis option.exhaust)
  have some: "m k = Some (f x)" if "x \<in> rows db" "pk x = k" for x
    using assms(2) that unfolding represents_def by blast
  show ?thesis
  proof (cases q)
    case (Inr found)
    with u Pair assms(3) none some show ?thesis by (cases found) (auto simp: find_row_def exec_defs)
  qed (use u Pair assms(3) in \<open>auto simp: find_row_def exec_defs\<close>)
qed

lemma list_rows_refines:
  assumes "table_ok dg pk rows" "represents pk f (rows db) m" "list_rows dg (\<lambda>r. True) c f db = (r, db')"
  shows "rows db' = rows db \<and> (\<forall>vs. r = Inr vs \<longrightarrow> set vs = ran m)"
proof (cases "findMany dg (\<lambda>r. True) c db")
  case (Pair q db1)
  note u = table_findMany [OF assms(1) this]
  have "f ` rows db = ran m" using assms(2) unfolding represents_def ran_def by (auto simp: image_iff)
  with u Pair assms(3) show ?thesis by (cases q) (auto simp: list_rows_def exec_defs)
qed

lemma save_row_refines:
  assumes "table_ok dg pk rows" "represents pk f (rows db) m" "save_row dg (\<lambda>r. pk r = k) d db = (r, db')"
    and "\<And>row. d = Some row \<Longrightarrow> pk row = k \<and> f row = v"
  shows "represents pk f (rows db') (case r of Inl _ \<Rightarrow> m | Inr _ \<Rightarrow> m(k \<mapsto> v))"
proof (cases "d")
  case (Some row)
  with assms have up: "upsert dg (\<lambda>r. pk r = pk row) row (\<lambda>_. row) db = (r, db')" and row: "pk row = k" "f row = v"
    by (auto simp: save_row_def checked_def)
  show ?thesis
  proof (cases r)
    case Inl
    with table_upsert [OF assms(1) up] assms(2) show ?thesis by auto
  next
    case (Inr u)
    with up row have "upsert dg (\<lambda>r. pk r = k) row (\<lambda>_. row) db = (Inr u, db')" by simp
    from upsert_replaces [OF assms(1) this] have "rows db' = insert row {r \<in> rows db. pk r \<noteq> k}" by simp
    with Inr row assms(2) show ?thesis unfolding represents_def by auto
  qed
qed (use assms(2,3) in \<open>auto simp: save_row_def checked_def exec_defs\<close>)

text \<open>What the conversions keep: a job comes back as it was saved, but for a missing verifier, which comes back as \<^verbatim>\<open>null\<close>.\<close>

definition stored_job :: "job \<Rightarrow> job" where
  "stored_job j = j\<lparr>job_verifierId := (if job_verifierId j = JUndefined then JNull else job_verifierId j),
     job_completedAt := (case job_completedAt j of None \<Rightarrow> None | Some d \<Rightarrow> if date_truthy d then Some d else None)\<rparr>"

lemma date_roundtrip:
  "asDate d = Some t \<Longrightarrow> asIso t = d"
  "opt_date od = Some x \<Longrightarrow> map_option asIso x = (case od of None \<Rightarrow> None | Some d \<Rightarrow> if date_truthy d then Some d else None)"
proof -
  show d: "asDate d = Some t \<Longrightarrow> asIso t = d" for d t by (cases d) (auto simp: asDate_def asIso_def)
  show "opt_date od = Some x \<Longrightarrow> map_option asIso x = (case od of None \<Rightarrow> None | Some d \<Rightarrow> if date_truthy d then Some d else None)"
    by (auto simp: opt_date_def d split: option.splits if_splits)
qed

lemma text_or_null_back: "text_or_null x = Some y \<Longrightarrow>
  (case y of None \<Rightarrow> JNull | Some s \<Rightarrow> JStr s) = (if x = JUndefined then JNull else x)"
  by (cases x) auto

lemma job_roundtrip:
  assumes "jobData j = Some row"
  shows "jr_jobId row = job_jobId j \<and> mapJob row = stored_job j"
proof -
  from assms obtain c d v p where parts: "asDate (job_createdAt j) = Some c" "opt_date (job_completedAt j) = Some d"
      "text_or_null (job_verifierId j) = Some v" "as_str (job_priority j) = Some p"
    and row: "row = \<lparr>jr_jobId = job_jobId j, jr_assetId = job_assetId j, jr_createdBy = job_createdBy j,
      jr_assignedTo = (if job_assignedTo j = [] then None else Some (job_assignedTo j)), jr_verifierId = v,
      jr_status = job_status j, jr_priority = p, jr_createdAt = c, jr_completedAt = d\<rparr>"
    by (auto simp: jobData_def split: option.splits)
  have "job_priority j = JStr p" using parts(4) by (cases "job_priority j") auto
  with date_roundtrip(1) [OF parts(1)] date_roundtrip(2) [OF parts(2)] text_or_null_back [OF parts(3)] show ?thesis
    unfolding row mapJob_def stored_job_def by (cases j) simp
qed

text \<open>
  The database adapter of jobs behaves like the in-memory one.  While the rows represent the
  jobs of the memory adapter, a lookup and a listing return the same jobs, and a save leads to
  rows that represent the memory adapter after the same save; a save that throws changes
  nothing.
\<close>

theorem durable_jobs_refine_memory:
  assumes "table_ok dg jr_jobId rows" "keyed job_jobId m" "represents jr_jobId mapJob (rows db) (jobs_findById m)"
  shows "(\<forall>i r db'. prisma_job_findById dg i db = (Inr r, db') \<longrightarrow> r = jobs_findById m i \<and> rows db' = rows db) \<and>
    (\<forall>r db'. prisma_job_list dg db = (Inr r, db') \<longrightarrow> set r = set (jobs_list m) \<and> rows db' = rows db) \<and>
    (\<forall>j r db'. prisma_job_save dg j db = (r, db') \<longrightarrow>
       represents jr_jobId mapJob (rows db') (jobs_findById (case r of Inl _ \<Rightarrow> m | Inr _ \<Rightarrow> jobs_save (stored_job j) m)))"
proof (intro conjI allI impI)
  fix i r db' assume "prisma_job_findById dg i db = (Inr r, db')"
  from find_row_refines [OF assms(1,3) this [unfolded prisma_job_findById_def]]
  show "r = jobs_findById m i" "rows db' = rows db" by auto
next
  fix r db' assume "prisma_job_list dg db = (Inr r, db')"
  note l = list_rows_refines [OF assms(1,3) this [unfolded prisma_job_list_def]]
  then show "rows db' = rows db" by simp
  have "ran (jobs_findById m) = set (jobs_list m)"
    using assms(2) job_repo.list_find job_repo.find_key unfolding ran_def by blast
  with l show "set r = set (jobs_list m)" by simp
next
  fix j r db' assume save: "prisma_job_save dg j db = (r, db')"
  have "represents jr_jobId mapJob (rows db') (case r of Inl _ \<Rightarrow> jobs_findById m | Inr _ \<Rightarrow> (jobs_findById m)(job_jobId j \<mapsto> stored_job j))"
    by (rule save_row_refines [OF assms(1,3) save [unfolded prisma_job_save_def]]) (simp add: job_roundtrip)
  moreover have "jobs_findById (jobs_save (stored_job j) m) = (jobs_findById m)(job_jobId j \<mapsto> stored_job j)"
    by (auto simp: job_repo_defs stored_job_def)
  ultimately show "represents jr_jobId mapJob (rows db') (jobs_findById (case r of Inl _ \<Rightarrow> m | Inr _ \<Rightarrow> jobs_save (stored_job j) m))"
    by (cases r) simp_all
qed

section \<open>Sessions\<close>

text \<open>The sessions the rows stand for: a row that is not revoked, under the hash of the token.\<close>

definition session_of_row :: "string \<Rightarrow> session_row \<Rightarrow> session" where
  "session_of_row token r = \<lparr>ses_token = token, ses_identityId = sr_identityId r, ses_deviceId = sr_deviceId r,
     ses_walletAddress = sr_walletAddress r, ses_expiresAt = Fin (of_int (sr_expiresAt r))\<rparr>"

definition session_rows :: "(string \<Rightarrow> string) \<Rightarrow> session_row set \<Rightarrow> (string \<Rightarrow> session option) \<Rightarrow> bool" where
  "session_rows sha R m \<longleftrightarrow> (\<forall>t s. m t = Some s \<longleftrightarrow>
     (\<exists>r \<in> R. sr_tokenHash r = sha t \<and> sr_revokedAt r = None \<and> session_of_row t r = s))"

lemma session_find_rows:
  assumes "table_ok dg sr_tokenHash rows" "session_rows sha (rows db) m" "prisma_session_find sha dg t db = (r, db')"
  shows "rows db' = rows db \<and> (\<forall>s. r = Inr s \<longrightarrow> s = m t)"
proof (cases "findUnique dg (\<lambda>r. sr_tokenHash r = sha t) db")
  case (Pair q db1)
  note u = table_findUnique [OF assms(1) this]
  have none: "m t = None" if "\<forall>x \<in> rows db. sr_tokenHash x = sha t \<longrightarrow> sr_revokedAt x \<noteq> None"
    using assms(2) that unfolding session_rows_def by (metis option.exhaust)
  have some: "m t = Some (session_of_row t x)" if "x \<in> rows db" "sr_tokenHash x = sha t" "sr_revokedAt x = None" for x
    using assms(2) that unfolding session_rows_def by blast
  have dead: "m t = None" if "x \<in> rows db" "sr_tokenHash x = sha t" "sr_revokedAt x \<noteq> None" for x
    using none that table_rows [OF assms(1), of db] by (metis inj_onD)
  show ?thesis
  proof (cases q)
    case (Inr found)
    with u Pair assms(3) none some dead show ?thesis
      by (cases found) (auto simp: prisma_session_find_def exec_defs session_of_row_def split: if_splits)
  qed (use u Pair assms(3) in \<open>auto simp: prisma_session_find_def exec_defs\<close>)
qed

lemma session_save_rows:
  assumes "table_ok dg sr_tokenHash rows" "inj sha" "session_rows sha (rows db) m"
    and "prisma_session_save sha dg s db = (Inr u, db')"
  shows "\<exists>t. date_of_num (ses_expiresAt s) = Some t \<and>
    session_rows sha (rows db') (m(ses_token s \<mapsto> s\<lparr>ses_expiresAt := Fin (of_int t)\<rparr>))"
proof -
  from assms(4) obtain t where t: "date_of_num (ses_expiresAt s) = Some t"
    by (auto simp: prisma_session_save_def checked_def exec_defs split: option.splits)
  let ?row = "\<lparr>sr_tokenHash = sha (ses_token s), sr_identityId = ses_identityId s, sr_deviceId = ses_deviceId s,
     sr_walletAddress = ses_walletAddress s, sr_expiresAt = t, sr_revokedAt = None\<rparr>"
  let ?upd = "\<lambda>r. r\<lparr>sr_identityId := ses_identityId s, sr_deviceId := ses_deviceId s, sr_walletAddress := ses_walletAddress s,
     sr_expiresAt := t, sr_revokedAt := None\<rparr>"
  from assms(4) t have up: "upsert dg (\<lambda>r. sr_tokenHash r = sha (ses_token s)) ?row ?upd db = (Inr u, db')"
    by (simp add: prisma_session_save_def checked_def)
  have "rows db' = insert ?row {r \<in> rows db. sr_tokenHash r \<noteq> sha (ses_token s)}"
    by (rule upsert_replaces [OF assms(1) up]) simp
  with assms(2,3) have "session_rows sha (rows db') (m(ses_token s \<mapsto> s\<lparr>ses_expiresAt := Fin (of_int t)\<rparr>))"
    unfolding session_rows_def by (auto simp: session_of_row_def inj_eq)
  with t show ?thesis by blast
qed

lemma session_delete_rows:
  assumes "table_ok dg sr_tokenHash rows" "inj sha" "session_rows sha (rows db) m"
    and "prisma_session_delete sha dg now t db = (Inr n, db')"
  shows "session_rows sha (rows db') (m(t := None))"
proof -
  from table_updateMany [OF assms(1) assms(4) [unfolded prisma_session_delete_def]]
  have "rows db' = (\<lambda>x. if sr_tokenHash x = sha t then x\<lparr>sr_revokedAt := Some now\<rparr> else x) ` rows db" by simp
  with assms(2,3) show ?thesis
    unfolding session_rows_def by (auto simp: session_of_row_def inj_eq)
qed


section \<open>Challenges\<close>

datatype challenge_op = FindChallenge string | SaveChallenge challenge | ConsumeChallenge string date_str

primrec challenge_step :: "('db, challenge_row) delegate \<Rightarrow> challenge_op \<Rightarrow> 'db \<Rightarrow> 'db" where
  "challenge_step dg (FindChallenge i) db = snd (prisma_challenge_findById dg i db)"
| "challenge_step dg (SaveChallenge c) db = snd (prisma_challenge_save dg c db)"
| "challenge_step dg (ConsumeChallenge i t) db = snd (prisma_consumeIfUnused dg i t db)"

definition challenge_steps :: "('db, challenge_row) delegate \<Rightarrow> challenge_op list \<Rightarrow> 'db \<Rightarrow> 'db" where
  "challenge_steps dg ops db = fold (challenge_step dg) ops db"

text \<open>Every row of the challenge is used.\<close>

definition used_up :: "string \<Rightarrow> challenge_row set \<Rightarrow> bool" where
  "used_up i R \<longleftrightarrow> (\<forall>r \<in> R. cr_challengeId r = i \<longrightarrow> cr_usedAt r \<noteq> None)"

lemma find_row_same: "table_ok dg pk rows \<Longrightarrow> rows (snd (find_row dg P f db)) = rows db"
  using table_findUnique [of dg pk rows P db]
  by (auto simp: find_row_def exec_defs split: prod.splits sum.splits)

lemma consume_run:
  assumes "table_ok dg cr_challengeId rows" "prisma_consumeIfUnused dg i t db = (r, db')"
  shows "(used_up i (rows db) \<longrightarrow> r \<noteq> Inr True) \<and> (r = Inr True \<longrightarrow> used_up i (rows db')) \<and>
    (used_up j (rows db) \<longrightarrow> used_up j (rows db'))"
proof (cases "asDate t")
  case (Some d)
  let ?P = "\<lambda>r. cr_challengeId r = i \<and> cr_usedAt r = None" and ?u = "\<lambda>r. r\<lparr>cr_usedAt := Some d\<rparr>"
  obtain q db1 where up: "updateMany dg ?P ?u db = (q, db1)" by fastforce
  have run: "prisma_consumeIfUnused dg i t db = (map_sum id (\<lambda>n. n = 1) q, db1)"
    by (cases q) (simp_all add: prisma_consumeIfUnused_def checked_def exec_defs Some up)
  show ?thesis
  proof (cases q)
    case (Inl e)
    with table_updateMany [OF assms(1) up] run assms(2) show ?thesis by auto
  next
    case (Inr n)
    with table_updateMany [OF assms(1) up] have n: "n = card {r \<in> rows db. ?P r}"
      and rows: "rows db1 = (\<lambda>r. if ?P r then ?u r else r) ` rows db" by auto
    have "n = 0" if "used_up i (rows db)"
    proof -
      from that have "{r \<in> rows db. ?P r} = {}" by (auto simp: used_up_def)
      with n show ?thesis by (simp only: card.empty)
    qed
    moreover have "used_up i (rows db1)" unfolding used_up_def rows by (rule ballI, erule imageE) simp
    moreover have "used_up j (rows db) \<Longrightarrow> used_up j (rows db1)" unfolding used_up_def rows by (rule ballI, erule imageE) simp
    moreover have "r = Inr (n = 1)" "db' = db1" using run assms(2) Inr by simp_all
    ultimately show ?thesis by auto
  qed
qed (use assms(2) in \<open>auto simp: prisma_consumeIfUnused_def checked_def exec_defs\<close>)

lemma challenge_data_key: "challengeData c = Some row \<Longrightarrow> cr_challengeId row = ch_challengeId c"
  by (auto simp: challengeData_def split: option.splits)

lemma save_used_up:
  assumes "table_ok dg cr_challengeId rows" "ch_challengeId c \<noteq> i" "used_up i (rows db)"
  shows "used_up i (rows (snd (prisma_challenge_save dg c db)))"
proof (cases "challengeData c")
  case (Some row)
  let ?up = "upsert dg (\<lambda>r. cr_challengeId r = ch_challengeId c) row (\<lambda>_. row) db"
  have run: "prisma_challenge_save dg c db = ?up" by (simp add: prisma_challenge_save_def save_row_def checked_def Some)
  show ?thesis
  proof (cases "fst ?up")
    case (Inr u)
    then have "?up = (Inr u, snd ?up)" by (simp add: prod_eq_iff)
    from upsert_replaces [OF assms(1) this] challenge_data_key [OF Some] assms(2,3) show ?thesis
      by (auto simp: run used_up_def)
  next
    case (Inl e)
    then have "?up = (Inl e, snd ?up)" by (simp add: prod_eq_iff)
    from table_upsert [OF assms(1) this] assms(3) show ?thesis by (simp add: run)
  qed
qed (use assms(3) in \<open>simp add: prisma_challenge_save_def save_row_def checked_def exec_defs\<close>)

lemma steps_used_up:
  assumes "table_ok dg cr_challengeId rows" "\<forall>op \<in> set ops. \<forall>c. op = SaveChallenge c \<longrightarrow> ch_challengeId c \<noteq> i"
  shows "used_up i (rows db) \<Longrightarrow> used_up i (rows (challenge_steps dg ops db))"
  using assms(2)
proof (induction ops arbitrary: db)
  case (Cons op ops)
  have "used_up i (rows (challenge_step dg op db))"
  proof (cases op)
    case (FindChallenge k)
    with Cons.prems find_row_same [OF assms(1), of "\<lambda>r. cr_challengeId r = k" mapChallenge db] show ?thesis
      by (simp add: prisma_challenge_findById_def)
  next
    case (SaveChallenge c)
    with Cons.prems save_used_up [OF assms(1)] show ?thesis by simp
  next
    case (ConsumeChallenge k t)
    with Cons.prems consume_run [OF assms(1) prod.collapse [symmetric]] show ?thesis by simp
  qed
  with Cons show ?case by (simp add: challenge_steps_def)
qed (simp add: challenge_steps_def)

text \<open>
  In the database a challenge is consumed at most once.  After a consumption that succeeded,
  whatever lookups, saves of other challenges and consumptions follow, by any number of
  processes whose statements the database executes one after another, no further consumption of
  this challenge succeeds.
\<close>

theorem durable_challenge_single_use:
  assumes "table_ok dg cr_challengeId rows" "prisma_consumeIfUnused dg i t db = (Inr True, db')"
    and "\<forall>op \<in> set ops. \<forall>c. op = SaveChallenge c \<longrightarrow> ch_challengeId c \<noteq> i"
  shows "fst (prisma_consumeIfUnused dg i t' (challenge_steps dg ops db')) \<noteq> Inr True"
proof -
  from consume_run [OF assms(1,2)] have "used_up i (rows db')" by blast
  from steps_used_up [OF assms(1,3) this] consume_run [OF assms(1) prod.collapse [symmetric]] show ?thesis by blast
qed

section \<open>Evidence\<close>

text \<open>
  A lookup of evidence that does not exist never returns: the adapter throws a plain error, which
  the server answers with an internal error, where the memory adapter returns nothing and the
  service answers that there is no such evidence.
\<close>

theorem missing_durable_evidence_throws:
  assumes "table_ok dg er_evidenceId rows" "\<forall>r \<in> rows db. er_evidenceId r \<noteq> i"
  shows "\<exists>e. fst (prisma_evidence_findById dg i db) = Inl e \<and>
    ((\<exists>q db'. findUnique dg (\<lambda>r. er_evidenceId r = i) db = (Inr q, db')) \<longrightarrow> serialize_error e = (500, ''INTERNAL_ERROR''))"
proof (cases "findUnique dg (\<lambda>r. er_evidenceId r = i) db")
  case (Pair q db1)
  with table_findUnique [OF assms(1) Pair] assms(2) have "\<forall>x. q \<noteq> Inr (Some x)" by auto
  then consider e where "q = Inl e" | "q = Inr None" by (cases q; cases "projr q") auto
  then show ?thesis by cases (auto simp: prisma_evidence_findById_def exec_defs serialize_error_def Pair)
qed

section \<open>A concrete table\<close>

text \<open>A list of rows, of which the first of each key counts; writes that would repeat a key throw.\<close>

primrec unique_rows :: "('row \<Rightarrow> string) \<Rightarrow> 'row list \<Rightarrow> 'row list" where
  "unique_rows pk [] = []"
| "unique_rows pk (x # xs) = x # filter (\<lambda>y. pk y \<noteq> pk x) (unique_rows pk xs)"

definition commit_rows :: "('row \<Rightarrow> string) \<Rightarrow> 'row list \<Rightarrow> 'a \<Rightarrow> 'row list \<Rightarrow> (error + 'a) \<times> 'row list" where
  "commit_rows pk xs x db = (if distinct (map pk xs) then (Inr x, xs) else (Inl (PlainError ''Unique constraint failed''), db))"

definition list_table :: "('row \<Rightarrow> string) \<Rightarrow> ('row list, 'row) delegate" where
  "list_table pk = \<lparr>
     findUnique = (\<lambda>P db. (Inr (find P (unique_rows pk db)), db)),
     findMany = (\<lambda>P c db. (Inr (sort_key (\<lambda>x. case c x of DateCol d \<Rightarrow> d | TextCol _ \<Rightarrow> 0) (filter P (unique_rows pk db))), db)),
     upsert = (\<lambda>P new upd db. let xs = unique_rows pk db in
       commit_rows pk (case find P xs of None \<Rightarrow> new # xs | Some x \<Rightarrow> upd x # filter (\<lambda>y. pk y \<noteq> pk x) xs) () db),
     updateMany = (\<lambda>P upd db. let xs = unique_rows pk db in
       commit_rows pk (map (\<lambda>x. if P x then upd x else x) xs) (length (filter P xs)) db),
     create_row = (\<lambda>new db. commit_rows pk (new # unique_rows pk db) () db)\<rparr>"

lemma unique_rows_distinct: "distinct (map pk (unique_rows pk xs))"
  by (induction xs) (auto simp: distinct_map intro: inj_on_subset)

lemma unique_rows_id: "distinct (map pk xs) \<Longrightarrow> unique_rows pk xs = xs"
  by (induction xs) (auto simp: filter_id_conv rev_image_eqI)

lemma commit_rows_run:
  assumes "commit_rows pk xs x db = (r, db')"
  shows "case r of Inl _ \<Rightarrow> db' = db | Inr y \<Rightarrow> y = x \<and> set (unique_rows pk db') = set xs"
  using assms by (auto simp: commit_rows_def unique_rows_id split: if_splits)

lemma filter_key: "distinct (map pk xs) \<Longrightarrow> x \<in> set xs \<Longrightarrow> set (filter (\<lambda>y. pk y \<noteq> pk x) xs) = set xs - {x}"
  by (auto simp: distinct_map inj_on_def)

lemma list_sorted:
  "sorted_wrt (\<lambda>x y. column_le (c x) (c y)) (sort_key (\<lambda>x. case c x of DateCol d \<Rightarrow> d | TextCol _ \<Rightarrow> 0) xs)"
proof -
  let ?k = "\<lambda>x. case c x of DateCol d \<Rightarrow> d | TextCol _ \<Rightarrow> 0"
  have "sorted_wrt (\<lambda>x y. ?k x \<le> ?k y) (sort_key ?k xs)"
    using sorted_sort_key [of ?k xs] by (simp add: sorted_map)
  then show ?thesis by (rule sorted_wrt_mono_rel [rotated]) (auto split: column.splits)
qed

lemma list_upsert:
  assumes "upsert (list_table pk) P new upd db = (r, db')"
  shows "case r of Inl _ \<Rightarrow> set (unique_rows pk db') = set (unique_rows pk db)
    | Inr _ \<Rightarrow> (if \<exists>x \<in> set (unique_rows pk db). P x
        then \<exists>x \<in> set (unique_rows pk db). P x \<and> set (unique_rows pk db') = insert (upd x) (set (unique_rows pk db) - {x})
        else set (unique_rows pk db') = insert new (set (unique_rows pk db)))"
proof (cases "find P (unique_rows pk db)")
  case None
  with assms have "commit_rows pk (new # unique_rows pk db) () db = (r, db')" by (simp add: list_table_def Let_def)
  from commit_rows_run [OF this] None show ?thesis by (cases r) (simp_all add: find_None_iff)
next
  case (Some x)
  then have x: "x \<in> set (unique_rows pk db)" "P x" by (auto simp: find_Some_iff)
  from assms Some have "commit_rows pk (upd x # filter (\<lambda>y. pk y \<noteq> pk x) (unique_rows pk db)) () db = (r, db')"
    by (simp add: list_table_def Let_def)
  from commit_rows_run [OF this] x filter_key [OF unique_rows_distinct x(1)] show ?thesis
    by (cases r) (auto simp del: set_filter)
qed

lemma list_updateMany:
  assumes "updateMany (list_table pk) P upd db = (r, db')"
  shows "case r of Inl _ \<Rightarrow> set (unique_rows pk db') = set (unique_rows pk db)
    | Inr n \<Rightarrow> n = card {x \<in> set (unique_rows pk db). P x} \<and>
        set (unique_rows pk db') = (\<lambda>x. if P x then upd x else x) ` set (unique_rows pk db)"
proof -
  have "card {x \<in> set (unique_rows pk db). P x} = length (filter P (unique_rows pk db))"
    using distinct_card [of "filter P (unique_rows pk db)"] unique_rows_distinct [of pk db] by (simp add: distinct_map)
  moreover from assms have "commit_rows pk (map (\<lambda>x. if P x then upd x else x) (unique_rows pk db))
      (length (filter P (unique_rows pk db))) db = (r, db')"
    by (simp add: list_table_def Let_def)
  note commit_rows_run [OF this]
  ultimately show ?thesis by (cases r) simp_all
qed

lemma list_reads:
  "findUnique (list_table pk) P db = (Inr (find P (unique_rows pk db)), db)"
  "findMany (list_table pk) P c db =
     (Inr (sort_key (\<lambda>x. case c x of DateCol d \<Rightarrow> d | TextCol _ \<Rightarrow> 0) (filter P (unique_rows pk db))), db)"
  by (simp_all add: list_table_def)

lemma list_create:
  assumes "create_row (list_table pk) new db = (r, db')"
  shows "case r of Inl _ \<Rightarrow> set (unique_rows pk db') = set (unique_rows pk db)
    | Inr _ \<Rightarrow> set (unique_rows pk db') = insert new (set (unique_rows pk db))"
  using commit_rows_run [of pk "new # unique_rows pk db" "()" db r db'] assms by (cases r) (simp_all add: list_table_def)

lemma list_table_ok: "table_ok (list_table pk) pk (\<lambda>db. set (unique_rows pk db))"
  unfolding table_ok_def
proof (intro conjI allI impI)
  show "inj_on pk (set (unique_rows pk db))" "finite (set (unique_rows pk db))" for db
    using unique_rows_distinct [of pk db] by (simp_all add: distinct_map)
next
  fix P db r db' assume "findUnique (list_table pk) P db = (r, db')"
  then show "set (unique_rows pk db') = set (unique_rows pk db)" "r = Inr (Some x) \<Longrightarrow> x \<in> set (unique_rows pk db)"
    "r = Inr (Some x) \<Longrightarrow> P x" "r = Inr None \<Longrightarrow> \<forall>x \<in> set (unique_rows pk db). \<not> P x" for x
    by (auto simp: list_reads find_Some_iff find_None_iff)
next
  fix P c db r db' assume "findMany (list_table pk) P c db = (r, db')"
  then show "set (unique_rows pk db') = set (unique_rows pk db)" "r = Inr xs \<Longrightarrow> set xs = {x \<in> set (unique_rows pk db). P x}"
    "r = Inr xs \<Longrightarrow> distinct xs" "r = Inr xs \<Longrightarrow> sorted_wrt (\<lambda>x y. column_le (c x) (c y)) xs" for xs
    using unique_rows_distinct [of pk db] by (auto simp: list_reads list_sorted distinct_map)
qed (erule list_upsert list_updateMany list_create)+

section \<open>Concrete runs\<close>

definition demo_stored_job :: job where
  "demo_stored_job = \<lparr>job_jobId = ''J'', job_assetId = ''P'', job_createdBy = ''M'', job_assignedTo = [], job_verifierId = JUndefined,
     job_status = CREATED, job_priority = JStr ''LOW'', job_createdAt = Iso 0, job_completedAt = None\<rparr>"

theorem durable_jobs_refine_memory_witness:
  "\<exists>db'. prisma_job_save (list_table jr_jobId) demo_stored_job [] = (Inr (), db') \<and>
     represents jr_jobId mapJob (set (unique_rows jr_jobId db')) (jobs_findById (jobs_save (stored_job demo_stored_job) []))"
proof -
  let ?out = "prisma_job_save (list_table jr_jobId) demo_stored_job []"
  have "fst ?out = Inr ()" by code_simp
  then obtain db' where out: "?out = (Inr (), db')" by (cases ?out) auto
  have "represents jr_jobId mapJob (set (unique_rows jr_jobId [])) (jobs_findById [])"
    by (simp add: represents_def jobs_findById_def)
  from durable_jobs_refine_memory [OF list_table_ok keyed_Nil this] out show ?thesis by fastforce
qed

definition demo_session_row :: session where
  "demo_session_row = \<lparr>ses_token = ''T'', ses_identityId = ''I'', ses_deviceId = ''D'', ses_walletAddress = ''W'',
     ses_expiresAt = Fin 9000\<rparr>"


definition demo_challenge_row :: challenge_row where
  "demo_challenge_row = \<lparr>cr_challengeId = ''C'', cr_deviceId = ''D'', cr_challenge = ''n'', cr_purpose = AUTHENTICATION,
     cr_expiresAt = 5000, cr_usedAt = None, cr_metadata = None\<rparr>"

theorem durable_challenge_single_use_witness:
  "\<exists>db'. prisma_consumeIfUnused (list_table cr_challengeId) ''C'' (Iso 1) [demo_challenge_row] = (Inr True, db') \<and>
     fst (prisma_consumeIfUnused (list_table cr_challengeId) ''C'' (Iso 2)
       (challenge_steps (list_table cr_challengeId) [FindChallenge ''C'', ConsumeChallenge ''X'' (Iso 3)] db')) \<noteq> Inr True"
proof -
  let ?out = "prisma_consumeIfUnused (list_table cr_challengeId) ''C'' (Iso 1) [demo_challenge_row]"
  have "fst ?out = Inr True" by code_simp
  then obtain db' where out: "?out = (Inr True, db')" by (cases ?out) auto
  from durable_challenge_single_use [OF list_table_ok out, of "[FindChallenge ''C'', ConsumeChallenge ''X'' (Iso 3)]" "Iso 2"] out
  show ?thesis by auto
qed

theorem missing_durable_evidence_throws_witness:
  "\<exists>e. fst (prisma_evidence_findById (list_table er_evidenceId) ''E'' []) = Inl e"
  using missing_durable_evidence_throws [OF list_table_ok, of "[]" "''E''"] by auto

end
