(* ===== verification/DurablePorts.thy ===== *)
theory DurablePorts
  imports Durable Validators
begin

text \<open>
  The keyed Prisma adapters as refinements of the in-memory adapters, over whole sequences of
  operations.  A port has a lookup, a save and a listing; the locale \<open>durable_port\<close> says how the
  rows of a table stand for the entries of a memory repository, and proves once that every
  sequence of operations on the table gets the answers of the memory repository.  It is
  interpreted for identities, devices, wallets, grants, validators, assets and jobs.
\<close>

section \<open>Ports and sequences of operations\<close>

datatype ('v, 'q) port_op = FindOne string | SaveOne 'v | ListBy 'q

text \<open>The two adapters may list in different orders, so a listing counts as a set.\<close>

datatype 'v port_answer = Found "'v option" | Saved | Listed "'v set"

record ('db, 'v, 'q) db_port =
  dp_find :: "string \<Rightarrow> ('db, 'v option) db_m"
  dp_save :: "'v \<Rightarrow> ('db, unit) db_m"
  dp_list :: "'q \<Rightarrow> ('db, 'v list) db_m"

record ('s, 'v, 'q) memory_port =
  mp_find :: "'s \<Rightarrow> string \<Rightarrow> 'v option"
  mp_save :: "'v \<Rightarrow> 's \<Rightarrow> 's"
  mp_list :: "'s \<Rightarrow> 'q \<Rightarrow> 'v list"

fun ask_db :: "('db, 'v, 'q) db_port \<Rightarrow> ('v, 'q) port_op \<Rightarrow> ('db, 'v port_answer) db_m" where
  "ask_db dp (FindOne k) = bindE (dp_find dp k) (\<lambda>x. ret (Found x))"
| "ask_db dp (SaveOne v) = bindE (dp_save dp v) (\<lambda>_. ret Saved)"
| "ask_db dp (ListBy q) = bindE (dp_list dp q) (\<lambda>xs. ret (Listed (set xs)))"

text \<open>\<open>kept\<close> is what the conversion to a row and back makes of a value.\<close>

fun ask_memory :: "('s, 'v, 'q) memory_port \<Rightarrow> ('v \<Rightarrow> 'v) \<Rightarrow> ('v, 'q) port_op \<Rightarrow> 's \<Rightarrow> 'v port_answer \<times> 's" where
  "ask_memory mp kept (FindOne k) s = (Found (mp_find mp s k), s)"
| "ask_memory mp kept (SaveOne v) s = (Saved, mp_save mp (kept v) s)"
| "ask_memory mp kept (ListBy q) s = (Listed (set (mp_list mp s q)), s)"

text \<open>
  Both adapters run the operations; one that throws in the database is left out of the memory
  run.  Every answer of the database is the answer of the memory.
\<close>

primrec same_answers ::
  "('db, 'v, 'q) db_port \<Rightarrow> ('s, 'v, 'q) memory_port \<Rightarrow> ('v \<Rightarrow> 'v) \<Rightarrow> ('v, 'q) port_op list \<Rightarrow> 'db \<Rightarrow> 's \<Rightarrow> bool" where
  "same_answers dp mp kept [] db s = True"
| "same_answers dp mp kept (op # ops) db s = (case ask_db dp op db of
     (Inl e, db') \<Rightarrow> same_answers dp mp kept ops db' s
   | (Inr x, db') \<Rightarrow> (case ask_memory mp kept op s of (y, s') \<Rightarrow> x = y \<and> same_answers dp mp kept ops db' s'))"

section \<open>The rows of a table as a repository\<close>

lemma list_rows_where:
  assumes "table_ok dg pk rows" "represents pk f (rows db) m" "list_rows dg (\<lambda>r. P (f r)) c f db = (r, db')"
  shows "rows db' = rows db \<and> (\<forall>vs. r = Inr vs \<longrightarrow> set vs = {v \<in> ran m. P v})"
proof (cases "findMany dg (\<lambda>r. P (f r)) c db")
  case (Pair q db1)
  note u = table_findMany [OF assms(1) this]
  have "f ` {r \<in> rows db. P (f r)} = {v \<in> ran m. P v}"
    using assms(2) unfolding represents_def ran_def by (auto simp: image_iff)
  with u Pair assms(3) show ?thesis by (cases q) (auto simp: list_rows_def exec_defs)
qed

locale durable_port = repository findById listAll save key ok
  for findById :: "'s \<Rightarrow> string \<Rightarrow> 'v option" and listAll :: "'s \<Rightarrow> 'v list" and save :: "'v \<Rightarrow> 's \<Rightarrow> 's"
    and key :: "'v \<Rightarrow> string" and ok :: "'s \<Rightarrow> bool" +
  fixes pk :: "'row \<Rightarrow> string" and to_row :: "'v \<Rightarrow> 'row option" and of_row :: "'row \<Rightarrow> 'v" and kept :: "'v \<Rightarrow> 'v"
    and listBy :: "'s \<Rightarrow> 'q \<Rightarrow> 'v list" and wanted :: "'q \<Rightarrow> 'v \<Rightarrow> bool"
  assumes row_key: "to_row v = Some row \<Longrightarrow> pk row = key v"
    and row_back: "to_row v = Some row \<Longrightarrow> of_row row = kept v"
    and kept_key: "key (kept v) = key v"
    and list_by: "set (listBy s q) = {v \<in> set (listAll s). wanted q v}"
begin

lemma ran_find: "ok s \<Longrightarrow> ran (findById s) = set (listAll s)"
  using list_find find_key unfolding ran_def by blast

lemma one_step:
  assumes "table_ok dg pk rows" "ok s" "represents pk of_row (rows db) (findById s)"
    and "dp = \<lparr>dp_find = (\<lambda>k. find_row dg (\<lambda>r. pk r = k) of_row), dp_save = (\<lambda>v. save_row dg (\<lambda>r. pk r = key v) (to_row v)),
      dp_list = (\<lambda>q. list_rows dg (\<lambda>r. wanted q (of_row r)) order of_row)\<rparr>"
    and "mp = \<lparr>mp_find = findById, mp_save = save, mp_list = listBy\<rparr>"
    and "ask_db dp op db = (r, db')" "ask_memory mp kept op s = (y, s')"
  shows "case r of Inl _ \<Rightarrow> represents pk of_row (rows db') (findById s)
    | Inr x \<Rightarrow> x = y \<and> ok s' \<and> represents pk of_row (rows db') (findById s')"
proof (cases op)
  case (FindOne k)
  with assms(4,6) obtain q where run: "find_row dg (\<lambda>r. pk r = k) of_row db = (q, db')" and r: "r = map_sum id Found q"
    by (auto simp: exec_defs split: prod.splits sum.splits)
  from find_row_refines [OF assms(1,3) run] r FindOne assms(2,3,5,7) show ?thesis by (cases q) auto
next
  case (ListBy x)
  with assms(4,6) obtain q where run: "list_rows dg (\<lambda>r. wanted x (of_row r)) order of_row db = (q, db')"
    and r: "r = map_sum id (\<lambda>xs. Listed (set xs)) q"
    by (auto simp: exec_defs split: prod.splits sum.splits)
  from list_rows_where [OF assms(1,3) run] r ListBy assms(2,3,5,7) show ?thesis
    by (cases q) (auto simp: list_by ran_find)
next
  case (SaveOne v)
  with assms(4,6) obtain q where run: "save_row dg (\<lambda>r. pk r = key v) (to_row v) db = (q, db')" and r: "r = map_sum id (\<lambda>_. Saved) q"
    by (auto simp: exec_defs split: prod.splits sum.splits)
  have "represents pk of_row (rows db') (case q of Inl _ \<Rightarrow> findById s | Inr _ \<Rightarrow> (findById s)(key v \<mapsto> kept v))"
    by (rule save_row_refines [OF assms(1,3) run]) (simp add: row_key row_back)
  moreover have "findById (save (kept v) s) = (findById s)(key v \<mapsto> kept v)"
    by (rule ext) (simp add: find_save kept_key)
  ultimately show ?thesis using r SaveOne assms(2,5,7) ok_save by (cases q) auto
qed

text \<open>The simulation over a sequence of operations.\<close>

lemma sequences:
  assumes "table_ok dg pk rows"
    and "dp = \<lparr>dp_find = (\<lambda>k. find_row dg (\<lambda>r. pk r = k) of_row), dp_save = (\<lambda>v. save_row dg (\<lambda>r. pk r = key v) (to_row v)),
      dp_list = (\<lambda>q. list_rows dg (\<lambda>r. wanted q (of_row r)) order of_row)\<rparr>"
    and "mp = \<lparr>mp_find = findById, mp_save = save, mp_list = listBy\<rparr>"
  shows "ok s \<Longrightarrow> represents pk of_row (rows db) (findById s) \<Longrightarrow> same_answers dp mp kept ops db s"
proof (induction ops arbitrary: db s)
  case (Cons op ops)
  obtain r db' where run: "ask_db dp op db = (r, db')" by fastforce
  obtain y s' where mem: "ask_memory mp kept op s = (y, s')" by fastforce
  from one_step [OF assms(1) Cons.prems assms(2,3) run mem] Cons show ?case by (cases r) (simp_all add: run mem)
qed simp

end

section \<open>What a row keeps\<close>

text \<open>A date that is the empty text becomes \<^verbatim>\<open>null\<close>, and an asset without a parent field gets one that is \<^verbatim>\<open>null\<close>.\<close>

definition kept_date :: "date_str option \<Rightarrow> date_str option" where
  "kept_date od = (case od of None \<Rightarrow> None | Some d \<Rightarrow> if date_truthy d then Some d else None)"

definition kept_identity :: "identity \<Rightarrow> identity" where
  "kept_identity v = v\<lparr>id_verifiedAt := kept_date (id_verifiedAt v)\<rparr>"

definition kept_device :: "device \<Rightarrow> device" where
  "kept_device v = v\<lparr>dev_activatedAt := kept_date (dev_activatedAt v), dev_revokedAt := kept_date (dev_revokedAt v)\<rparr>"

definition kept_wallet :: "wallet \<Rightarrow> wallet" where
  "kept_wallet v = v\<lparr>wal_activatedAt := kept_date (wal_activatedAt v), wal_revokedAt := kept_date (wal_revokedAt v)\<rparr>"

definition kept_grant :: "grant \<Rightarrow> grant" where
  "kept_grant v = v\<lparr>gr_expiresAt := kept_date (gr_expiresAt v)\<rparr>"

definition kept_asset :: "asset \<Rightarrow> asset" where
  "kept_asset v = v\<lparr>as_parentAssetId := Some (case as_parentAssetId v of None \<Rightarrow> None | Some p \<Rightarrow> p)\<rparr>"

lemmas kept_defs = kept_identity_def kept_device_def kept_wallet_def kept_grant_def kept_asset_def

lemma kept_iso: "asDate d = Some t \<Longrightarrow> asIso t = d" "opt_date od = Some x \<Longrightarrow> map_option asIso x = kept_date od"
  using date_roundtrip by (simp_all add: kept_date_def)

lemma identity_kept: "identityData v = Some r \<Longrightarrow> ir_identityId r = id_identityId v \<and> mapIdentity r = kept_identity v"
  by (cases v) (auto simp: identityData_def mapIdentity_def kept_identity_def kept_iso split: option.splits)

lemma device_kept: "deviceData v = Some r \<Longrightarrow> dr_deviceId r = dev_deviceId v \<and> mapDevice r = kept_device v"
  by (cases v) (auto simp: deviceData_def mapDevice_def kept_device_def kept_iso split: option.splits)

lemma wallet_kept: "walletData v = Some r \<Longrightarrow> wr_address r = wal_address v \<and> mapWallet r = kept_wallet v"
  by (cases v) (auto simp: walletData_def mapWallet_def kept_wallet_def kept_iso split: option.splits)

lemma grant_kept: "grantData v = Some r \<Longrightarrow> gw_authorizationGrantId r = gr_authorizationGrantId v \<and> mapGrant r = kept_grant v"
  by (cases v) (auto simp: grantData_def mapGrant_def kept_grant_def kept_iso split: option.splits)

lemma validator_kept: "validatorData v = Some r \<Longrightarrow> vr_registrationId r = reg_registrationId v \<and> mapValidator r = v"
  by (cases v) (auto simp: validatorData_def mapValidator_def kept_iso split: option.splits)

lemma asset_kept: "ar_assetId (assetData v) = as_assetId v \<and> mapAsset (assetData v) = kept_asset v"
  by (cases v) (simp add: assetData_def mapAsset_def kept_asset_def)

section \<open>The ports\<close>

text \<open>The adapters of \<^verbatim>\<open>createPrismaRepositories\<close> and of \<^verbatim>\<open>createMemoryRepositories\<close>.\<close>

definition prisma_identities :: "('db, identity_row) delegate \<Rightarrow> ('db, identity, identity_status) db_port" where
  "prisma_identities dg = \<lparr>dp_find = prisma_identity_findById dg, dp_save = prisma_identity_save dg,
     dp_list = prisma_identity_listByStatus dg\<rparr>"

definition memory_identities :: "(idstore, identity, identity_status) memory_port" where
  "memory_identities = \<lparr>mp_find = identities_findById, mp_save = identities_save, mp_list = identities_listByStatus\<rparr>"

definition prisma_devices :: "('db, device_row) delegate \<Rightarrow> ('db, device, string) db_port" where
  "prisma_devices dg = \<lparr>dp_find = prisma_device_findById dg, dp_save = prisma_device_save dg,
     dp_list = prisma_device_listByIdentityId dg\<rparr>"

definition memory_devices :: "(idstore, device, string) memory_port" where
  "memory_devices = \<lparr>mp_find = devices_findById, mp_save = devices_save, mp_list = devices_listByIdentityId\<rparr>"

definition prisma_wallets :: "('db, wallet_row) delegate \<Rightarrow> ('db, wallet, string) db_port" where
  "prisma_wallets dg = \<lparr>dp_find = prisma_wallet_findByAddress dg, dp_save = prisma_wallet_save dg,
     dp_list = prisma_wallet_listByIdentityId dg\<rparr>"

definition memory_wallets :: "(idstore, wallet, string) memory_port" where
  "memory_wallets = \<lparr>mp_find = wallets_findByAddress, mp_save = wallets_save, mp_list = wallets_listByIdentityId\<rparr>"

definition prisma_grants :: "('db, grant_row) delegate \<Rightarrow> ('db, grant, string) db_port" where
  "prisma_grants dg = \<lparr>dp_find = prisma_grant_findById dg, dp_save = prisma_grant_save dg,
     dp_list = prisma_grant_listByIdentityId dg\<rparr>"

definition memory_grants :: "(idstore, grant, string) memory_port" where
  "memory_grants = \<lparr>mp_find = grants_findById, mp_save = grants_save, mp_list = grants_listByIdentityId\<rparr>"

definition prisma_validators :: "('db, validator_row) delegate \<Rightarrow> ('db, registration, unit) db_port" where
  "prisma_validators dg = \<lparr>dp_find = prisma_validator_findById dg, dp_save = prisma_validator_save dg,
     dp_list = (\<lambda>_. prisma_validator_list dg)\<rparr>"

definition memory_validators :: "(idstore, registration, unit) memory_port" where
  "memory_validators = \<lparr>mp_find = validators_findById, mp_save = validators_save, mp_list = (\<lambda>s _. validators_list s)\<rparr>"

definition prisma_assets :: "('db, asset_row) delegate \<Rightarrow> ('db, asset, unit) db_port" where
  "prisma_assets dg = \<lparr>dp_find = prisma_asset_findById dg, dp_save = prisma_asset_save dg,
     dp_list = (\<lambda>_. prisma_asset_list dg)\<rparr>"

definition memory_assets :: "((string, asset) jsmap, asset, unit) memory_port" where
  "memory_assets = \<lparr>mp_find = assets_findById, mp_save = assets_save, mp_list = (\<lambda>s _. assets_list s)\<rparr>"

definition prisma_jobs :: "('db, job_row) delegate \<Rightarrow> ('db, job, unit) db_port" where
  "prisma_jobs dg = \<lparr>dp_find = prisma_job_findById dg, dp_save = prisma_job_save dg, dp_list = (\<lambda>_. prisma_job_list dg)\<rparr>"

definition memory_jobs :: "((string, job) jsmap, job, unit) memory_port" where
  "memory_jobs = \<lparr>mp_find = jobs_findById, mp_save = jobs_save, mp_list = (\<lambda>s _. jobs_list s)\<rparr>"

interpretation identity_rows: durable_port identities_findById "\<lambda>s. js_values (sto_identities s)" identities_save id_identityId
  "\<lambda>s. keyed id_identityId (sto_identities s)" ir_identityId identityData mapIdentity kept_identity
  identities_listByStatus "\<lambda>st v. id_status v = st"
  by unfold_locales (simp_all add: identity_kept identities_listByStatus_def, simp add: kept_identity_def)

interpretation device_rows: durable_port devices_findById "\<lambda>s. js_values (sto_devices s)" devices_save dev_deviceId
  "\<lambda>s. keyed dev_deviceId (sto_devices s)" dr_deviceId deviceData mapDevice kept_device
  devices_listByIdentityId "\<lambda>i v. dev_identityId v = i"
  by unfold_locales (simp_all add: device_kept devices_listByIdentityId_def, simp add: kept_device_def)

interpretation wallet_rows: durable_port wallets_findByAddress "\<lambda>s. js_values (sto_wallets s)" wallets_save wal_address
  "\<lambda>s. keyed wal_address (sto_wallets s)" wr_address walletData mapWallet kept_wallet
  wallets_listByIdentityId "\<lambda>i v. wal_identityId v = i"
  by unfold_locales (simp_all add: wallet_kept wallets_listByIdentityId_def, simp add: kept_wallet_def)

interpretation grant_rows: durable_port grants_findById "\<lambda>s. js_values (sto_grants s)" grants_save gr_authorizationGrantId
  "\<lambda>s. keyed gr_authorizationGrantId (sto_grants s)" gw_authorizationGrantId grantData mapGrant kept_grant
  grants_listByIdentityId "\<lambda>i v. gr_actorIdentityId v = i"
  by unfold_locales (simp_all add: grant_kept grants_listByIdentityId_def, simp add: kept_grant_def)

interpretation validator_rows: durable_port validators_findById validators_list validators_save reg_registrationId
  "\<lambda>s. keyed reg_registrationId (sto_validators s)" vr_registrationId validatorData mapValidator id
  "\<lambda>s _. validators_list s" "\<lambda>(_ :: unit) _. True"
  by unfold_locales (auto simp: validator_kept validators_findById_def validators_save_def validators_list_def
      intro: keyed_set dest: keyed_get simp: keyed_values simp del: set_map)

interpretation asset_rows: durable_port assets_findById assets_list assets_save as_assetId "keyed as_assetId"
  ar_assetId "\<lambda>v. Some (assetData v)" mapAsset kept_asset "\<lambda>s _. assets_list s" "\<lambda>(_ :: unit) _. True"
  by unfold_locales (auto simp: asset_kept, simp add: kept_asset_def)

interpretation job_rows: durable_port jobs_findById jobs_list jobs_save job_jobId "keyed job_jobId"
  jr_jobId jobData mapJob stored_job "\<lambda>s _. jobs_list s" "\<lambda>(_ :: unit) _. True"
  by unfold_locales (auto simp: job_roundtrip, simp add: stored_job_def)

text \<open>A table stands for the entries of a memory repository in which every entry is under its key.\<close>

definition stands_for ::
  "('row \<Rightarrow> string) \<Rightarrow> ('row \<Rightarrow> 'v) \<Rightarrow> 'row set \<Rightarrow> ('v \<Rightarrow> string) \<Rightarrow> (string, 'v) jsmap \<Rightarrow> bool" where
  "stands_for pk of_row R key m \<longleftrightarrow> keyed key m \<and> represents pk of_row R (js_get m)"

lemmas port_defs = prisma_identities_def memory_identities_def prisma_devices_def memory_devices_def
  prisma_wallets_def memory_wallets_def prisma_grants_def memory_grants_def prisma_validators_def memory_validators_def
  prisma_assets_def memory_assets_def prisma_jobs_def memory_jobs_def

lemmas port_parts = prisma_identity_findById_def prisma_identity_save_def prisma_identity_listByStatus_def
  prisma_device_findById_def prisma_device_save_def prisma_device_listByIdentityId_def
  prisma_wallet_findByAddress_def prisma_wallet_save_def prisma_wallet_listByIdentityId_def
  prisma_grant_findById_def prisma_grant_save_def prisma_grant_listByIdentityId_def
  prisma_validator_findById_def prisma_validator_save_def prisma_validator_list_def
  prisma_asset_findById_def prisma_asset_save_def prisma_asset_list_def
  prisma_job_findById_def prisma_job_save_def prisma_job_list_def

lemmas row_fields = mapIdentity_def mapDevice_def mapWallet_def mapGrant_def

lemma identities_simulate:
  assumes "table_ok dg ir_identityId rows" "stands_for ir_identityId mapIdentity (rows db) id_identityId (sto_identities s)"
  shows "same_answers (prisma_identities dg) memory_identities kept_identity ops db s"
  by (rule identity_rows.sequences [OF assms(1)])
    (use assms(2) in \<open>auto simp: port_defs port_parts row_fields fun_eq_iff stands_for_def find_defs [abs_def]\<close>)

lemma devices_simulate:
  assumes "table_ok dg dr_deviceId rows" "stands_for dr_deviceId mapDevice (rows db) dev_deviceId (sto_devices s)"
  shows "same_answers (prisma_devices dg) memory_devices kept_device ops db s"
  by (rule device_rows.sequences [OF assms(1)])
    (use assms(2) in \<open>auto simp: port_defs port_parts row_fields fun_eq_iff stands_for_def find_defs [abs_def]\<close>)

lemma wallets_simulate:
  assumes "table_ok dg wr_address rows" "stands_for wr_address mapWallet (rows db) wal_address (sto_wallets s)"
  shows "same_answers (prisma_wallets dg) memory_wallets kept_wallet ops db s"
  by (rule wallet_rows.sequences [OF assms(1)])
    (use assms(2) in \<open>auto simp: port_defs port_parts row_fields fun_eq_iff stands_for_def find_defs [abs_def]\<close>)

lemma grants_simulate:
  assumes "table_ok dg gw_authorizationGrantId rows"
    "stands_for gw_authorizationGrantId mapGrant (rows db) gr_authorizationGrantId (sto_grants s)"
  shows "same_answers (prisma_grants dg) memory_grants kept_grant ops db s"
  by (rule grant_rows.sequences [OF assms(1)])
    (use assms(2) in \<open>auto simp: port_defs port_parts row_fields fun_eq_iff stands_for_def find_defs [abs_def]\<close>)

lemma validators_simulate:
  assumes "table_ok dg vr_registrationId rows"
    "stands_for vr_registrationId mapValidator (rows db) reg_registrationId (sto_validators s)"
  shows "same_answers (prisma_validators dg) memory_validators id ops db s"
  by (rule validator_rows.sequences [OF assms(1)])
    (use assms(2) in \<open>auto simp: port_defs port_parts fun_eq_iff stands_for_def validators_findById_def [abs_def]\<close>)

lemma assets_simulate:
  assumes "table_ok dg ar_assetId rows" "stands_for ar_assetId mapAsset (rows db) as_assetId m"
  shows "same_answers (prisma_assets dg) memory_assets kept_asset ops db m"
  by (rule asset_rows.sequences [OF assms(1)])
    (use assms(2) in \<open>auto simp: port_defs port_parts fun_eq_iff stands_for_def assets_findById_def [abs_def]\<close>)

lemma jobs_simulate:
  assumes "table_ok dg jr_jobId rows" "stands_for jr_jobId mapJob (rows db) job_jobId m"
  shows "same_answers (prisma_jobs dg) memory_jobs stored_job ops db m"
  by (rule job_rows.sequences [OF assms(1)])
    (use assms(2) in \<open>auto simp: port_defs port_parts fun_eq_iff stands_for_def jobs_findById_def [abs_def]\<close>)


section \<open>A concrete run\<close>

lemma stands_for_empty: "stands_for pk of_row {} key []"
  by (simp add: stands_for_def represents_def)

definition demo_wallet_entry :: wallet where
  "demo_wallet_entry = \<lparr>wal_address = ''0xa'', wal_identityId = ''I'', wal_deviceId = ''D'', wal_status = W_ACTIVE,
     wal_activatedAt = Some (Iso 5), wal_revokedAt = None, wal_revokedReason = None, wal_publicKey = None\<rparr>"


end
