(* ===== verification/SendQueue.thy ===== *)
theory SendQueue
  imports Prelude
begin

text \<open>
  The queue of development sends, \<^verbatim>\<open>sendAs\<close> of \<^verbatim>\<open>blockchain/evm-adapter.ts\<close>, with
  requests interleaved at every \<^verbatim>\<open>await\<close>.  The single send is in \<open>EvmAdapter\<close>; here a send is
  a process, the promises that order the processes are part of the state, and an event is one
  piece of code between two suspensions, or the settlement of a promise.
\<close>

section \<open>The machine\<close>

text \<open>
  A process that waits for \<^verbatim>\<open>previous\<close>, has its turn and asks for the nonce, holds the nonce
  that it read, has sent or failed and is about to run the \<^verbatim>\<open>finally\<close> block, or has run it.
\<close>

datatype phase = Waiting | Turn | Holding nat | Finishing | Released

text \<open>
  \<open>pc_previous\<close> is the process whose \<^verbatim>\<open>tail\<close> is awaited, \<open>None\<close> for the resolved promise;
  \<open>pc_settled\<close> says that the process's own \<^verbatim>\<open>tail\<close> has settled.
\<close>

record process =
  pc_key :: string
  pc_previous :: "nat option"
  pc_phase :: phase
  pc_settled :: bool

text \<open>
  \<open>sq_tails\<close> is the map \<^verbatim>\<open>sendQueues\<close>: the process whose \<^verbatim>\<open>tail\<close> is stored under a wallet.
  \<open>sq_count\<close> is the node's pending transaction count of a wallet, \<open>sq_sent\<close> the sends that it
  accepted.
\<close>

record queue =
  sq_tails :: "string \<Rightarrow> nat option"
  sq_procs :: "process list"
  sq_count :: "string \<Rightarrow> nat"
  sq_sent :: "(string \<times> nat) list"

datatype event = Arrive string | Enter nat | ReadNonce nat | Send nat | Fail nat | Release nat | Settle nat

definition queue_init :: "(string \<Rightarrow> nat) \<Rightarrow> queue" where
  "queue_init count = \<lparr>sq_tails = (\<lambda>_. None), sq_procs = [], sq_count = count, sq_sent = []\<rparr>"

definition set_phase :: "nat \<Rightarrow> phase \<Rightarrow> queue \<Rightarrow> queue" where
  "set_phase p ph s = s\<lparr>sq_procs := (sq_procs s)[p := (sq_procs s ! p)\<lparr>pc_phase := ph\<rparr>]\<rparr>"

definition phase_of :: "queue \<Rightarrow> nat \<Rightarrow> phase option" where
  "phase_of s p = (if p < length (sq_procs s) then Some (pc_phase (sq_procs s ! p)) else None)"

text \<open>Whether the promise that a process awaits has settled.\<close>

definition previous_settled :: "queue \<Rightarrow> nat \<Rightarrow> bool" where
  "previous_settled s p = (case pc_previous (sq_procs s ! p) of None \<Rightarrow> True | Some q \<Rightarrow> pc_settled (sq_procs s ! q))"

fun fire :: "event \<Rightarrow> queue \<Rightarrow> queue option" where
  "fire (Arrive k) s = Some (s\<lparr>
     sq_procs := sq_procs s @ [\<lparr>pc_key = k, pc_previous = sq_tails s k, pc_phase = Waiting, pc_settled = False\<rparr>],
     sq_tails := (sq_tails s)(k \<mapsto> length (sq_procs s))\<rparr>)"
| "fire (Enter p) s =
     (if phase_of s p = Some Waiting \<and> previous_settled s p then Some (set_phase p Turn s) else None)"
| "fire (ReadNonce p) s =
     (if phase_of s p = Some Turn then Some (set_phase p (Holding (sq_count s (pc_key (sq_procs s ! p)))) s) else None)"
| "fire (Send p) s = (case phase_of s p of
     Some (Holding n) \<Rightarrow>
       let k = pc_key (sq_procs s ! p) in
       Some ((set_phase p Finishing s)\<lparr>sq_sent := (k, n) # sq_sent s,
         sq_count := (sq_count s)(k := max (sq_count s k) (n + 1))\<rparr>)
   | _ \<Rightarrow> None)"
| "fire (Fail p) s = (case phase_of s p of
     Some Turn \<Rightarrow> Some (set_phase p Finishing s)
   | Some (Holding _) \<Rightarrow> Some (set_phase p Finishing s)
   | _ \<Rightarrow> None)"
| "fire (Release p) s =
     (if phase_of s p = Some Finishing then
        let k = pc_key (sq_procs s ! p) in
        Some ((set_phase p Released s)\<lparr>sq_tails := (if sq_tails s k = Some p then (sq_tails s)(k := None) else sq_tails s)\<rparr>)
      else None)"
| "fire (Settle p) s =
     (if phase_of s p = Some Released \<and> previous_settled s p \<and> \<not> pc_settled (sq_procs s ! p)
      then Some (s\<lparr>sq_procs := (sq_procs s)[p := (sq_procs s ! p)\<lparr>pc_settled := True\<rparr>]\<rparr>) else None)"

text \<open>The states some interleaving of the events leads to, with any pending counts at the start.\<close>

inductive reachable :: "queue \<Rightarrow> bool" where
  start: "reachable (queue_init count)"
| step: "reachable s \<Longrightarrow> fire e s = Some s' \<Longrightarrow> reachable s'"

section \<open>The invariant\<close>

abbreviation key_of :: "queue \<Rightarrow> nat \<Rightarrow> string" where
  "key_of s p \<equiv> pc_key (sq_procs s ! p)"

abbreviation prev_of :: "queue \<Rightarrow> nat \<Rightarrow> nat option" where
  "prev_of s p \<equiv> pc_previous (sq_procs s ! p)"

abbreviation settled_at :: "queue \<Rightarrow> nat \<Rightarrow> bool" where
  "settled_at s p \<equiv> pc_settled (sq_procs s ! p)"

text \<open>All earlier processes of the wallet have run their \<^verbatim>\<open>finally\<close> block.\<close>

definition first_in_line :: "queue \<Rightarrow> nat \<Rightarrow> bool" where
  "first_in_line s p \<longleftrightarrow> (\<forall>r < p. key_of s r = key_of s p \<longrightarrow> phase_of s r = Some Released)"

definition chained :: "queue \<Rightarrow> nat \<Rightarrow> bool" where
  "chained s p \<longleftrightarrow> (case prev_of s p of
     None \<Rightarrow> first_in_line s p
   | Some q \<Rightarrow> q < p \<and> key_of s q = key_of s p \<and> (\<forall>r. q < r \<longrightarrow> r < p \<longrightarrow> key_of s r \<noteq> key_of s p))"

definition tail_ok :: "queue \<Rightarrow> string \<Rightarrow> bool" where
  "tail_ok s k \<longleftrightarrow> (case sq_tails s k of
     None \<Rightarrow> (\<forall>r < length (sq_procs s). key_of s r = k \<longrightarrow> phase_of s r = Some Released)
   | Some p \<Rightarrow> p < length (sq_procs s) \<and> key_of s p = k \<and> (\<forall>r < length (sq_procs s). key_of s r = k \<longrightarrow> r \<le> p))"

definition process_ok :: "queue \<Rightarrow> nat \<Rightarrow> bool" where
  "process_ok s p \<longleftrightarrow> chained s p \<and> (phase_of s p \<noteq> Some Waiting \<longrightarrow> first_in_line s p) \<and>
     (settled_at s p \<longrightarrow> phase_of s p = Some Released) \<and>
     (\<forall>n. phase_of s p = Some (Holding n) \<longrightarrow> n = sq_count s (key_of s p))"

definition queue_ok :: "queue \<Rightarrow> bool" where
  "queue_ok s \<longleftrightarrow> (\<forall>p < length (sq_procs s). process_ok s p) \<and> (\<forall>k. tail_ok s k) \<and>
     distinct (sq_sent s) \<and> (\<forall>(k, n) \<in> set (sq_sent s). n < sq_count s k)"

lemma phase_of_length: "phase_of s p = Some ph \<Longrightarrow> p < length (sq_procs s)"
  by (auto simp: phase_of_def split: if_splits)

text \<open>What the update of one phase leaves alone.\<close>

lemma set_phase_nth:
  "sq_procs (set_phase p ph s) ! r =
     (if r = p \<and> p < length (sq_procs s) then (sq_procs s ! p)\<lparr>pc_phase := ph\<rparr> else sq_procs s ! r)"
proof (cases "p < length (sq_procs s)")
  case True
  then show ?thesis by (simp add: set_phase_def nth_list_update)
next
  case False
  then show ?thesis by (simp add: set_phase_def list_update_beyond)
qed

lemma set_phase_same [simp]:
  "length (sq_procs (set_phase p ph s)) = length (sq_procs s)"
  "sq_tails (set_phase p ph s) = sq_tails s" "sq_count (set_phase p ph s) = sq_count s" "sq_sent (set_phase p ph s) = sq_sent s"
  "key_of (set_phase p ph s) r = key_of s r" "prev_of (set_phase p ph s) r = prev_of s r"
  "settled_at (set_phase p ph s) r = settled_at s r"
  by (simp_all add: set_phase_nth) (simp_all add: set_phase_def)

lemma set_phase_phase [simp]:
  "phase_of (set_phase p ph s) r = (if r = p \<and> p < length (sq_procs s) then Some ph else phase_of s r)"
  by (auto simp: set_phase_def phase_of_def nth_list_update)

text \<open>What depends on which part of the state.\<close>

lemma ok_cong:
  assumes "sq_procs s' = sq_procs s"
  shows "phase_of s' p = phase_of s p" "first_in_line s' p = first_in_line s p" "chained s' p = chained s p"
    "previous_settled s' p = previous_settled s p"
  using assms by (simp_all add: phase_of_def first_in_line_def chained_def previous_settled_def cong: option.case_cong)

lemma tail_cong:
  assumes "sq_procs s' = sq_procs s" "sq_tails s' j = sq_tails s j"
  shows "tail_ok s' j = tail_ok s j"
  by (cases "sq_tails s j") (simp_all add: tail_ok_def ok_cong(1) [OF assms(1)] assms)

lemma ok_process: "queue_ok s \<Longrightarrow> p < length (sq_procs s) \<Longrightarrow> process_ok s p"
  by (simp add: queue_ok_def)

lemma ok_tail: "queue_ok s \<Longrightarrow> tail_ok s k"
  by (simp add: queue_ok_def)

text \<open>A process that leaves its waiting phase was first in line, and stays so.\<close>

lemma enter_first:
  assumes "queue_ok s" "p < length (sq_procs s)" "previous_settled s p"
  shows "first_in_line s p"
proof (cases "prev_of s p")
  case None
  with ok_process [OF assms(1,2)] show ?thesis by (simp add: process_ok_def chained_def)
next
  case (Some q)
  with ok_process [OF assms(1,2)] have q: "q < p" "key_of s q = key_of s p"
    "\<forall>r. q < r \<longrightarrow> r < p \<longrightarrow> key_of s r \<noteq> key_of s p" by (simp_all add: process_ok_def chained_def)
  from Some assms(3) have "settled_at s q" by (simp add: previous_settled_def)
  with ok_process [OF assms(1), of q] q(1) assms(2) have "phase_of s q = Some Released" "first_in_line s q"
    by (simp_all add: process_ok_def)
  with q show ?thesis unfolding first_in_line_def by (metis linorder_neqE_nat)
qed

lemma moved_ok:
  assumes "queue_ok s" "p < length (sq_procs s)" "phase_of s p \<noteq> Some Released" "first_in_line s p" "ph \<noteq> Waiting"
    and "\<And>n. ph = Holding n \<Longrightarrow> n = sq_count s (key_of s p)"
  shows "queue_ok (set_phase p ph s)"
proof -
  let ?s = "set_phase p ph s"
  have stays: "phase_of ?s r = Some Released" if "phase_of s r = Some Released" for r
    using that assms(3) by auto
  have line: "first_in_line ?s r" if "first_in_line s r" for r
    using that stays unfolding first_in_line_def by simp
  have proc: "process_ok ?s r" if "r < length (sq_procs s)" for r
  proof -
    from ok_process [OF assms(1) that] have r: "chained s r" "phase_of s r \<noteq> Some Waiting \<longrightarrow> first_in_line s r"
      "settled_at s r \<longrightarrow> phase_of s r = Some Released" "\<forall>n. phase_of s r = Some (Holding n) \<longrightarrow> n = sq_count s (key_of s r)"
      by (simp_all add: process_ok_def)
    from r(1) line have "chained ?s r" by (simp add: chained_def split: option.splits)
    with r assms(2-6) line show ?thesis by (auto simp: process_ok_def)
  qed
  have "tail_ok ?s k" for k
    using ok_tail [OF assms(1), of k] assms(2,3) stays unfolding tail_ok_def by (auto split: option.splits)
  with proc assms(1) show ?thesis by (simp add: queue_ok_def)
qed

lemma move_ok:
  assumes "queue_ok s" "phase_of s p = Some ph" "ph \<noteq> Released" "first_in_line s p" "ph' \<noteq> Waiting"
    and "case ph' of Holding n \<Rightarrow> n = sq_count s (key_of s p) | _ \<Rightarrow> True"
  shows "queue_ok (set_phase p ph' s)"
proof (rule moved_ok [OF assms(1) phase_of_length [OF assms(2)] _ assms(4,5)])
  show "phase_of s p \<noteq> Some Released" using assms(2,3) by simp
  show "n = sq_count s (key_of s p)" if "ph' = Holding n" for n using assms(6) that by simp
qed

lemma busy_first: "queue_ok s \<Longrightarrow> phase_of s p = Some ph \<Longrightarrow> ph \<noteq> Waiting \<Longrightarrow> first_in_line s p"
  using ok_process phase_of_length unfolding process_ok_def by fastforce

text \<open>Two processes of one wallet are never both between their turn and their release.\<close>

lemma one_at_a_time:
  assumes "queue_ok s" "phase_of s p = Some a" "phase_of s q = Some b" "a \<notin> {Waiting, Released}" "b \<notin> {Waiting, Released}"
    and "key_of s p = key_of s q"
  shows "p = q"
proof (rule ccontr)
  assume "p \<noteq> q"
  then consider "p < q" | "q < p" by linarith
  then show False
    using busy_first [OF assms(1,2)] busy_first [OF assms(1,3)] assms(2-6) unfolding first_in_line_def by cases auto
qed

lemma arrive_ok:
  assumes "queue_ok s" "fire (Arrive k) s = Some s'"
  shows "queue_ok s'"
proof -
  let ?n = "length (sq_procs s)"
  have s': "s' = s\<lparr>sq_procs := sq_procs s @ [\<lparr>pc_key = k, pc_previous = sq_tails s k, pc_phase = Waiting, pc_settled = False\<rparr>],
     sq_tails := (sq_tails s)(k \<mapsto> ?n)\<rparr>" using assms(2) by simp
  have at: "sq_procs s' ! r = sq_procs s ! r" "phase_of s' r = phase_of s r" if "r < ?n" for r
    using that by (simp_all add: s' nth_append phase_of_def)
  have new: "key_of s' ?n = k" "prev_of s' ?n = sq_tails s k" "phase_of s' ?n = Some Waiting" "\<not> settled_at s' ?n"
    and len: "length (sq_procs s') = ?n + 1"
    by (simp_all add: s' phase_of_def)
  have line: "first_in_line s' r = first_in_line s r" if "r < ?n" for r
    using that at unfolding first_in_line_def by (metis less_trans)
  have old: "process_ok s' r" if "r < ?n" for r
  proof -
    have "chained s r" using ok_process [OF assms(1) that] by (simp add: process_ok_def)
    then have "chained s' r" using at line that unfolding chained_def by (auto split: option.splits)
    with ok_process [OF assms(1) that] at [OF that] line [OF that] show ?thesis by (simp add: process_ok_def s')
  qed
  have tail: "case sq_tails s k of None \<Rightarrow> \<forall>r < ?n. key_of s r = k \<longrightarrow> phase_of s r = Some Released
      | Some p \<Rightarrow> p < ?n \<and> key_of s p = k \<and> (\<forall>r < ?n. key_of s r = k \<longrightarrow> r \<le> p)"
    using ok_tail [OF assms(1), of k] unfolding tail_ok_def .
  then have "chained s' ?n" using at new unfolding chained_def first_in_line_def by (auto split: option.splits)
  then have "process_ok s' ?n" using new by (simp add: process_ok_def)
  with old have procs: "\<forall>r < length (sq_procs s'). process_ok s' r" using len by (simp add: less_Suc_eq)
  have "tail_ok s' j" for j
  proof (cases "j = k")
    case True
    then show ?thesis using new len by (simp add: tail_ok_def s')
  next
    case False
    with ok_tail [OF assms(1), of j] at new len show ?thesis
      unfolding tail_ok_def by (auto simp: less_Suc_eq s' split: option.splits)
  qed
  with procs assms(1) show ?thesis by (simp add: queue_ok_def s')
qed

lemma send_ok:
  assumes "queue_ok s" "fire (Send p) s = Some s'"
  shows "queue_ok s'"
proof -
  let ?k = "key_of s p" and ?s = "set_phase p Finishing s"
  from assms(2) obtain n where p: "phase_of s p = Some (Holding n)"
    and s': "s' = ?s\<lparr>sq_sent := (?k, n) # sq_sent s, sq_count := (sq_count s)(?k := max (sq_count s ?k) (n + 1))\<rparr>"
    by (auto simp: Let_def split: option.splits phase.splits)
  note len = phase_of_length [OF p]
  have n: "n = sq_count s ?k" using ok_process [OF assms(1) len] p by (simp add: process_ok_def)
  have ok: "queue_ok ?s" by (rule move_ok [OF assms(1) p]) (simp_all add: busy_first [OF assms(1) p])
  have procs: "sq_procs s' = sq_procs ?s" by (simp add: s')
  have other: "key_of s r \<noteq> ?k" if "phase_of ?s r = Some (Holding m)" for r m
  proof
    assume "key_of s r = ?k"
    moreover have "phase_of s r = Some (Holding m)" "r \<noteq> p" using that len by (auto split: if_splits)
    ultimately show False using one_at_a_time [OF assms(1) p, of r "Holding m"] by simp
  qed
  have count: "sq_count s' j = sq_count s j" if "j \<noteq> ?k" for j using that by (simp add: s')
  have "process_ok s' r" if "r < length (sq_procs ?s)" for r
    using ok_process [OF ok that] other [of r] count [of "key_of s r"] unfolding process_ok_def ok_cong [OF procs] procs
    by (auto simp del: set_phase_phase)
  moreover have "tail_ok s' j" for j
    using ok_tail [OF ok, of j] tail_cong [OF procs, of j] by (simp add: s')
  moreover have below: "m < sq_count s j" if "(j, m) \<in> set (sq_sent s)" for j m
    using assms(1) that unfolding queue_ok_def by blast
  moreover have "distinct (sq_sent s')" "\<forall>(j, m) \<in> set (sq_sent s'). m < sq_count s' j"
    using assms(1) n below by (auto simp: s' queue_ok_def less_Suc_eq)
  ultimately show ?thesis by (simp add: queue_ok_def procs)
qed

lemma release_ok:
  assumes "queue_ok s" "fire (Release p) s = Some s'"
  shows "queue_ok s'"
proof -
  let ?k = "key_of s p" and ?s = "set_phase p Released s"
  from assms(2) have p: "phase_of s p = Some Finishing"
    and s': "s' = ?s\<lparr>sq_tails := (if sq_tails s ?k = Some p then (sq_tails s)(?k := None) else sq_tails s)\<rparr>"
    by (auto simp: Let_def split: if_splits)
  note len = phase_of_length [OF p]
  note first = busy_first [OF assms(1) p]
  have ok: "queue_ok ?s" by (rule move_ok [OF assms(1) p]) (simp_all add: first)
  have procs: "sq_procs s' = sq_procs ?s" by (simp add: s')
  have "tail_ok s' j" for j
  proof (cases "j = ?k \<and> sq_tails s ?k = Some p")
    case True
    with ok_tail [OF assms(1), of j] have "r \<le> p" if "r < length (sq_procs s)" "key_of s r = ?k" for r
      using that by (simp add: tail_ok_def)
    then have "phase_of ?s r = Some Released" if "r < length (sq_procs s)" "key_of s r = ?k" for r
      using that first len unfolding first_in_line_def by (auto simp: nat_less_le)
    moreover have "sq_tails s' j = None" using True by (simp add: s')
    ultimately show ?thesis using True unfolding tail_ok_def ok_cong [OF procs] procs by simp
  next
    case False
    then have "sq_tails s' j = sq_tails ?s j" by (auto simp: s')
    with ok_tail [OF ok, of j] show ?thesis by (simp add: tail_cong [OF procs])
  qed
  moreover have "process_ok s' r" if "r < length (sq_procs ?s)" for r
    using ok_process [OF ok that] by (simp add: process_ok_def ok_cong [OF procs] procs) (simp add: s')
  moreover have "distinct (sq_sent s')" "\<forall>(j, m) \<in> set (sq_sent s'). m < sq_count s' j"
    using assms(1) by (auto simp: s' queue_ok_def)
  ultimately show ?thesis by (simp add: queue_ok_def procs)
qed

lemma settle_ok:
  assumes "queue_ok s" "fire (Settle p) s = Some s'"
  shows "queue_ok s'"
proof -
  from assms(2) have p: "phase_of s p = Some Released"
    and s': "s' = s\<lparr>sq_procs := (sq_procs s)[p := (sq_procs s ! p)\<lparr>pc_settled := True\<rparr>]\<rparr>"
    by (auto split: if_splits)
  have nth: "sq_procs s' ! r = (if r = p then (sq_procs s ! p)\<lparr>pc_settled := True\<rparr> else sq_procs s ! r)" for r
    using phase_of_length [OF p] by (simp add: s' nth_list_update)
  have same: "key_of s' r = key_of s r" "prev_of s' r = prev_of s r" "phase_of s' r = phase_of s r" for r
    by (simp_all add: nth phase_of_def) (simp_all add: s')
  have line: "first_in_line s' r = first_in_line s r" "chained s' r = chained s r" for r
    by (simp_all add: first_in_line_def chained_def same cong: option.case_cong)
  have rest: "length (sq_procs s') = length (sq_procs s)" "sq_tails s' = sq_tails s" "sq_count s' = sq_count s" "sq_sent s' = sq_sent s"
    by (simp_all add: s')
  have "process_ok s' r" if "r < length (sq_procs s)" for r
    using ok_process [OF assms(1) that] p by (auto simp: process_ok_def line same rest) (auto simp: nth split: if_splits)
  moreover have "tail_ok s' j" for j
    using ok_tail [OF assms(1), of j] by (auto simp: tail_ok_def same rest split: option.splits)
  ultimately show ?thesis using assms(1) by (simp add: queue_ok_def rest)
qed

lemma fire_ok:
  assumes "queue_ok s" "fire e s = Some s'"
  shows "queue_ok s'"
proof (cases e)
  case (Enter p)
  with assms have p: "phase_of s p = Some Waiting" "previous_settled s p" and s': "s' = set_phase p Turn s"
    by (auto split: if_splits)
  show ?thesis unfolding s'
    by (rule move_ok [OF assms(1) p(1)]) (simp_all add: enter_first [OF assms(1) phase_of_length [OF p(1)] p(2)])
next
  case (ReadNonce p)
  with assms have p: "phase_of s p = Some Turn" and s': "s' = set_phase p (Holding (sq_count s (key_of s p))) s"
    by (auto split: if_splits)
  show ?thesis unfolding s' by (rule move_ok [OF assms(1) p]) (simp_all add: busy_first [OF assms(1) p])
next
  case (Fail p)
  with assms obtain ph where p: "phase_of s p = Some ph" "ph \<notin> {Waiting, Released}" and s': "s' = set_phase p Finishing s"
    by (auto split: option.splits phase.splits)
  show ?thesis unfolding s' by (rule move_ok [OF assms(1) p(1)]) (use p busy_first [OF assms(1) p(1)] in simp_all)
qed (use assms arrive_ok send_ok release_ok settle_ok in blast)+

lemma reachable_ok: "reachable s \<Longrightarrow> queue_ok s"
proof (induction rule: reachable.induct)
  case (start count)
  show ?case by (simp add: queue_ok_def queue_init_def tail_ok_def)
qed (rule fire_ok)

section \<open>Properties\<close>

text \<open>
  C15. However the requests interleave, two development sends of one wallet never use the same
  nonce, and never overlap between the reading of the nonce and the end of the send.
\<close>

theorem nonces_never_shared:
  assumes "reachable s"
  shows "distinct (sq_sent s) \<and>
    (\<forall>p q n m. phase_of s p = Some (Holding n) \<longrightarrow> phase_of s q = Some (Holding m) \<longrightarrow> key_of s p = key_of s q \<longrightarrow> p = q) \<and>
    (\<forall>p n. phase_of s p = Some (Holding n) \<longrightarrow> (key_of s p, n) \<notin> set (sq_sent s))"
proof (intro conjI allI impI)
  note ok = reachable_ok [OF assms]
  then show "distinct (sq_sent s)" by (simp add: queue_ok_def)
  show "p = q" if "phase_of s p = Some (Holding n)" "phase_of s q = Some (Holding m)" "key_of s p = key_of s q" for p q n m
    using one_at_a_time [OF ok that(1,2)] that(3) by simp
  show "(key_of s p, n) \<notin> set (sq_sent s)" if "phase_of s p = Some (Holding n)" for p n
  proof -
    have "n = sq_count s (key_of s p)" using ok_process [OF ok phase_of_length [OF that]] that by (simp add: process_ok_def)
    with ok show ?thesis unfolding queue_ok_def by fastforce
  qed
qed

subsection \<open>Progress\<close>

fun rank :: "phase \<Rightarrow> nat" where
  "rank Waiting = 4"
| "rank Turn = 3"
| "rank (Holding _) = 2"
| "rank Finishing = 1"
| "rank Released = 0"

definition work :: "queue \<Rightarrow> nat" where
  "work s = sum_list (map (\<lambda>pc. rank (pc_phase pc) + (if pc_settled pc then 0 else 1)) (sq_procs s))"

lemma sum_list_update_less:
  assumes "p < length xs" "f y < f (xs ! p)"
  shows "sum_list (map f (xs[p := y])) < sum_list (map (f :: 'a \<Rightarrow> nat) xs)"
proof -
  have "sum_list (map f xs) \<ge> f (xs ! p)" using assms(1) by (simp add: member_le_sum_list)
  moreover have "sum_list (map f (xs[p := y])) + f (xs ! p) = sum_list (map f xs) + f y"
    using assms(1) by (induction xs arbitrary: p) (auto simp: nth_Cons split: nat.splits)
  ultimately show ?thesis using assms(2) by linarith
qed

lemma set_phase_work:
  assumes "phase_of s p = Some ph" "rank ph' < rank ph"
  shows "work (set_phase p ph' s) < work s"
proof -
  note len = phase_of_length [OF assms(1)]
  with assms(1) have "pc_phase (sq_procs s ! p) = ph" by (simp add: phase_of_def)
  with assms(2) len show ?thesis unfolding work_def set_phase_def by (simp add: sum_list_update_less)
qed

lemma work_cong: "sq_procs s' = sq_procs s \<Longrightarrow> work s' = work s"
  by (simp add: work_def)

lemma fire_work:
  assumes "fire e s = Some s'" "\<forall>k. e \<noteq> Arrive k"
  shows "work s' < work s"
proof (cases "\<exists>p. e = Settle p")
  case True
  then obtain p where e: "e = Settle p" by blast
  with assms(1) have "phase_of s p = Some Released" "\<not> settled_at s p"
    "s' = s\<lparr>sq_procs := (sq_procs s)[p := (sq_procs s ! p)\<lparr>pc_settled := True\<rparr>]\<rparr>"
    by (auto split: if_splits)
  note this phase_of_length [OF this(1)]
  then show ?thesis unfolding work_def by (auto intro!: sum_list_update_less)
next
  case False
  with assms obtain p ph ph' where "phase_of s p = Some ph" "rank ph' < rank ph" "sq_procs s' = sq_procs (set_phase p ph' s)"
  proof (cases e)
    case (Send p)
    with assms(1) obtain n where "phase_of s p = Some (Holding n)" "sq_procs s' = sq_procs (set_phase p Finishing s)"
      by (auto simp: Let_def split: option.splits phase.splits)
    then show ?thesis using that [of p "Holding n" Finishing] by simp
  next
    case (Fail p)
    with assms(1) obtain ph where "phase_of s p = Some ph" "ph = Turn \<or> (\<exists>n. ph = Holding n)" "s' = set_phase p Finishing s"
      by (auto split: option.splits phase.splits)
    then show ?thesis using that [of p ph Finishing] by auto
  next
    case (Enter p)
    with assms(1) show ?thesis using that [of p Waiting Turn] by (auto split: if_splits)
  next
    case (ReadNonce p)
    with assms(1) show ?thesis using that [of p Turn "Holding (sq_count s (key_of s p))"] by (auto split: if_splits)
  next
    case (Release p)
    with assms(1) show ?thesis using that [of p Finishing Released] by (auto simp: Let_def split: if_splits)
  qed auto
  with set_phase_work work_cong show ?thesis by metis
qed

text \<open>The earliest process that is not done can move.\<close>

definition idle :: "queue \<Rightarrow> nat \<Rightarrow> bool" where
  "idle s p \<longleftrightarrow> phase_of s p = Some Released \<and> settled_at s p"

lemma earliest_moves:
  assumes "queue_ok s" "p < length (sq_procs s)" "\<not> idle s p" "\<forall>r < p. idle s r"
  shows "\<exists>e s'. (\<forall>k. e \<noteq> Arrive k) \<and> fire e s = Some s'"
proof -
  have "previous_settled s p"
    using ok_process [OF assms(1,2)] assms(4)
    by (auto simp: previous_settled_def process_ok_def chained_def idle_def split: option.splits)
  moreover obtain ph where ph: "phase_of s p = Some ph" using assms(2) by (simp add: phase_of_def)
  ultimately consider "fire (Enter p) s \<noteq> None" | "fire (ReadNonce p) s \<noteq> None" | "fire (Send p) s \<noteq> None"
    | "fire (Release p) s \<noteq> None" | "fire (Settle p) s \<noteq> None"
    using assms(3) by (cases ph) (auto simp: idle_def Let_def)
  then show ?thesis by cases blast+
qed


text \<open>Two requests of one wallet and one of another, the second of them queued behind the first.\<close>

primrec fire_all :: "event list \<Rightarrow> queue \<Rightarrow> queue option" where
  "fire_all [] s = Some s"
| "fire_all (e # es) s = (case fire e s of None \<Rightarrow> None | Some s' \<Rightarrow> fire_all es s')"

lemma fire_all_reachable: "reachable s \<Longrightarrow> fire_all es s = Some s' \<Longrightarrow> reachable s'"
  by (induction es arbitrary: s) (auto split: option.splits intro: reachable.step)

definition demo_events :: "event list" where
  "demo_events = [Arrive ''a'', Arrive ''a'', Arrive ''b'', Enter 0, Enter 2, ReadNonce 0, ReadNonce 2, Send 0, Release 0,
     Settle 0, Enter 1, ReadNonce 1]"

lemma demo_reachable: "\<exists>s. fire_all demo_events (queue_init (\<lambda>_. 7)) = Some s \<and> reachable s"
proof -
  have "fire_all demo_events (queue_init (\<lambda>_. 7)) \<noteq> None"
    by (simp add: demo_events_def queue_init_def phase_of_def previous_settled_def set_phase_def Let_def)
  with fire_all_reachable [OF reachable.start] show ?thesis by blast
qed

theorem nonces_never_shared_witness:
  "\<exists>s. fire_all demo_events (queue_init (\<lambda>_. 7)) = Some s \<and> distinct (sq_sent s)"
  using demo_reachable nonces_never_shared by blast


end
