(* ===== verification/Client.thy ===== *)
theory Client
  imports JsValues
begin

text \<open>
  The browser side of the API: \<^verbatim>\<open>frontend/src/api/client.ts\<close> and
  \<^verbatim>\<open>frontend/src/api/deviceWallet.ts\<close>.  The network (\<^verbatim>\<open>fetch\<close>) and the wallet of the
  managed device are arguments; the state is the token in the session storage, the listener for
  an expired session and the surroundings those arguments act on.
\<close>

section \<open>State and surroundings\<close>

datatype wallet_reason = CANCELLED | UNAVAILABLE | FAILED | UNVERIFIED

text \<open>What can be thrown: the two error classes, a \<^verbatim>\<open>DOMException\<close>, another error, any other value.\<close>

datatype client_error =
    HttpApiError int jsval jsval
  | DeviceWalletError wallet_reason jsval
  | DOMException string string
  | ScriptError string
  | Thrown

datatype call_body = JsonText jsval | FormData string

text \<open>A header with a text, or with the JSON text of an object.\<close>

datatype header_value = Plain string | Json jsobj

type_synonym headers = "(string \<times> header_value) list"

record http_call =
  ca_method :: string
  ca_url :: string
  ca_headers :: headers
  ca_body :: "call_body option"

text \<open>
  A response, with its body as JSON and as a blob, \<open>None\<close> when reading it fails.
\<close>

record response =
  rs_status :: int
  rs_json :: "jsval option"
  rs_blob :: "jsval option"

definition rs_ok :: "response \<Rightarrow> bool" where
  "rs_ok r \<longleftrightarrow> 200 \<le> rs_status r \<and> rs_status r \<le> 299"

record 'n client =
  cs_token :: "string option"
  cs_listener :: "nat option"
  cs_fired :: "nat list"
  cs_net :: 'n

type_synonym ('n, 'a) client_m = "('n client, client_error, 'a) m"

text \<open>The result of a wallet; \<^verbatim>\<open>undefined\<close> is \<open>None\<close>.\<close>

record wallet_signature =
  ws_signature :: jsval
  ws_userVerified :: jsval
  ws_development :: jsval

record 'n wallet_bridge =
  wb_getIdentity :: "('n, jsval) client_m"
  wb_sign :: "jsval \<Rightarrow> string \<Rightarrow> ('n, wallet_signature option) client_m"
  wb_signTransaction :: "(jsval \<Rightarrow> string \<Rightarrow> ('n, wallet_signature option) client_m) option"

text \<open>
  \<open>cv_fetch\<close> is \<^verbatim>\<open>fetch\<close>, without a result when it rejects.  \<open>cv_window\<close> is the bridge a managed
  device installs, \<open>cv_devWallet\<close> the address of the development wallet, \<open>cv_dev\<close> the flag of a
  development build.
\<close>

record 'n client_svc =
  cv_base :: "string option"
  cv_fetch :: "http_call \<Rightarrow> 'n \<Rightarrow> response option \<times> 'n"
  cv_window :: "'n wallet_bridge option"
  cv_devWallet :: "string option"
  cv_dev :: bool

definition on_net :: "('n \<Rightarrow> 'a \<times> 'n) \<Rightarrow> ('n, 'a) client_m" where
  "on_net f = (\<lambda>s. case f (cs_net s) of (x, n) \<Rightarrow> (Inr x, s\<lparr>cs_net := n\<rparr>))"

text \<open>\<^verbatim>\<open>v.key\<close> on a value of a response: \<^verbatim>\<open>null\<close> has no properties.\<close>

definition prop_of :: "jsval \<Rightarrow> string \<Rightarrow> ('n, jsval) client_m" where
  "prop_of v k = thenE (throwIf (v = JNull \<or> v = JUndefined) (ScriptError (''Cannot read properties of null (reading '' @ k @ '')'')))
     (ret (opt_field v k))"

section \<open>Requests\<close>

definition drop_slash :: "string \<Rightarrow> string" where
  "drop_slash s = (if s \<noteq> [] \<and> last s = CHR ''/'' then butlast s else s)"

definition API_BASE_URL :: "'n client_svc \<Rightarrow> string" where
  "API_BASE_URL cv = drop_slash (case cv_base cv of
     None \<Rightarrow> ''/api'' | Some b \<Rightarrow> if trim b = [] then ''/api'' else trim b)"

definition endpoint_url :: "'n client_svc \<Rightarrow> string \<Rightarrow> string" where
  "endpoint_url cv path = API_BASE_URL cv @ (if startsWith path ''/'' then path else CHR ''/'' # path)"

definition saveToken :: "string option \<Rightarrow> 'n client \<Rightarrow> 'n client" where
  "saveToken v s = s\<lparr>cs_token := (case v of Some (x # xs) \<Rightarrow> Some (x # xs) | _ \<Rightarrow> None)\<rparr>"

text \<open>\<^verbatim>\<open>token()\<close> where it is tested: an empty token counts as none.\<close>

definition current_token :: "'n client \<Rightarrow> string option" where
  "current_token s = (case cs_token s of Some (x # xs) \<Rightarrow> Some (x # xs) | _ \<Rightarrow> None)"

definition onSessionExpired :: "nat \<Rightarrow> 'n client \<Rightarrow> 'n client" where
  "onSessionExpired l s = s\<lparr>cs_listener := Some l\<rparr>"

definition unsubscribe :: "nat \<Rightarrow> 'n client \<Rightarrow> 'n client" where
  "unsubscribe l s = (if cs_listener s = Some l then s\<lparr>cs_listener := None\<rparr> else s)"

definition session_expired :: "'n client \<Rightarrow> 'n client" where
  "session_expired s = (let s' = saveToken None s in
     case cs_listener s' of None \<Rightarrow> s' | Some l \<Rightarrow> s'\<lparr>cs_fired := l # cs_fired s'\<rparr>)"

definition request_headers :: "headers \<Rightarrow> call_body option \<Rightarrow> bool \<Rightarrow> string option \<Rightarrow> headers" where
  "request_headers extra body authenticated tok = extra @ [(''Accept'', Plain ''application/json'')] @
     (case body of Some (JsonText _) \<Rightarrow> [(''Content-Type'', Plain ''application/json'')] | _ \<Rightarrow> []) @
     (case tok of Some t \<Rightarrow> if authenticated then [(''Authorization'', Plain (''Bearer '' @ t))] else [] | None \<Rightarrow> [])"

definition request ::
  "'n client_svc \<Rightarrow> string \<Rightarrow> string \<Rightarrow> call_body option \<Rightarrow> headers \<Rightarrow> bool \<Rightarrow> bool \<Rightarrow> ('n, jsval) client_m" where
  "request cv path meth body extra authenticated blob =
     bindE (reads current_token) (\<lambda>tok.
     bindE (on_net (cv_fetch cv \<lparr>ca_method = meth, ca_url = endpoint_url cv path,
       ca_headers = request_headers extra body authenticated tok, ca_body = body\<rparr>)) (\<lambda>got.
     case got of
       None \<Rightarrow> throw (HttpApiError 0 (JStr ''NETWORK_ERROR'') (JStr ''The BEL backend could not be reached.''))
     | Some r \<Rightarrow>
         let value = (if rs_status r = 204 then JNull
           else case (if blob then rs_blob r else rs_json r) of None \<Rightarrow> JNull | Some v \<Rightarrow> v) in
         if rs_ok r then ret value
         else
           let code = nullish_or (opt_field value ''code'')
                 (JStr (if rs_status r = 501 then ''NOT_IMPLEMENTED'' else ''INTERNAL_ERROR''));
               message = nullish_or (opt_field value ''message'')
                 (JStr (''BEL backend request failed ('' @ show_nat (nat (rs_status r)) @ '').'')) in
           thenE (whenE (rs_status r = 401 \<and> authenticated) (modifyS session_expired))
             (throw (HttpApiError (rs_status r) code message))))"

definition json_call :: "'n client_svc \<Rightarrow> string \<Rightarrow> jsval \<Rightarrow> bool \<Rightarrow> ('n, jsval) client_m" where
  "json_call cv path v authenticated = request cv path ''POST'' (Some (JsonText v)) [] authenticated False"

definition post_call :: "'n client_svc \<Rightarrow> string \<Rightarrow> bool \<Rightarrow> ('n, jsval) client_m" where
  "post_call cv path authenticated = request cv path ''POST'' None [] authenticated False"

definition get_call :: "'n client_svc \<Rightarrow> string \<Rightarrow> bool \<Rightarrow> ('n, jsval) client_m" where
  "get_call cv path authenticated = request cv path ''GET'' None [] authenticated False"

section \<open>The device wallet\<close>

definition unavailable_bridge :: "'n wallet_bridge" where
  "unavailable_bridge =
     (let gone = DeviceWalletError UNAVAILABLE (JStr ''Secure device authentication is unavailable on this workstation.'') in
      \<lparr>wb_getIdentity = throw gone, wb_sign = (\<lambda>_ _. throw gone), wb_signTransaction = Some (\<lambda>_ _. throw gone)\<rparr>)"

definition wallet_fetch :: "'n client_svc \<Rightarrow> http_call \<Rightarrow> ('n, response) client_m" where
  "wallet_fetch cv c = bindE (on_net (cv_fetch cv c)) (\<lambda>got. required got (ScriptError ''Failed to fetch''))"

definition dev_identity :: "'n client_svc \<Rightarrow> string \<Rightarrow> ('n, jsval) client_m" where
  "dev_identity cv base =
     bindE (wallet_fetch cv \<lparr>ca_method = ''GET'', ca_url = base @ ''/identity'', ca_headers = [], ca_body = None\<rparr>) (\<lambda>r.
     thenE (throwIf (\<not> rs_ok r)
              (DeviceWalletError UNAVAILABLE (JStr ''The development device-wallet service is unavailable.'')))
       (required (rs_json r) (ScriptError ''SyntaxError'')))"

definition signature_of :: "jsval \<Rightarrow> wallet_signature" where
  "signature_of v = \<lparr>ws_signature = opt_field v ''signature'', ws_userVerified = opt_field v ''userVerified'',
     ws_development = opt_field v ''developmentUserVerification''\<rparr>"

text \<open>\<open>field\<close> and \<open>v\<close> are the name and the value of what is signed.\<close>

definition dev_sign :: "'n client_svc \<Rightarrow> string \<Rightarrow> string \<Rightarrow> string \<Rightarrow> jsval \<Rightarrow> string \<Rightarrow> ('n, wallet_signature option) client_m" where
  "dev_sign cv base path field v operation =
     bindE (dev_identity cv base) (\<lambda>i.
     bindE (prop_of i ''deviceId'') (\<lambda>device.
     bindE (wallet_fetch cv \<lparr>ca_method = ''POST'', ca_url = base @ path, ca_headers = [(''content-type'', Plain ''application/json'')],
       ca_body = Some (JsonText (JObj [(''deviceId'', device), (field, v),
         (''options'', JObj [(''operation'', JStr operation), (''requireUserVerification'', JBool True)])]))\<rparr>) (\<lambda>r.
     let answer = (case rs_json r of None \<Rightarrow> JObj [] | Some x \<Rightarrow> x) in
     if rs_ok r then ret (if truthy answer then Some (signature_of answer) else None)
     else bindE (prop_of answer ''message'') (\<lambda>message. throw (DeviceWalletError FAILED
       (case message of JStr m \<Rightarrow> JStr m | _ \<Rightarrow> JStr ''Development device-wallet signing failed.''))))))"

definition bridge :: "'n client_svc \<Rightarrow> 'n wallet_bridge" where
  "bridge cv = (case cv_window cv of
     Some b \<Rightarrow> b
   | None \<Rightarrow> (case (if cv_dev cv then map_option (\<lambda>u. drop_slash (trim u)) (cv_devWallet cv) else None) of
       Some (x # xs) \<Rightarrow> \<lparr>wb_getIdentity = dev_identity cv (x # xs),
         wb_sign = dev_sign cv (x # xs) ''/sign'' ''challenge'',
         wb_signTransaction = Some (dev_sign cv (x # xs) ''/sign-transaction'' ''transaction'')\<rparr>
     | _ \<Rightarrow> unavailable_bridge))"

fun contains :: "string \<Rightarrow> string \<Rightarrow> bool" where
  "contains [] p \<longleftrightarrow> p = []"
| "contains (c # cs) p \<longleftrightarrow> startsWith (c # cs) p \<or> contains cs p"

definition cancelled_text :: "string \<Rightarrow> bool" where
  "cancelled_text m \<longleftrightarrow> list_ex (contains (toLowerCase m)) [''cancel'', ''abort'', ''not allowed'']"

text \<open>A \<^verbatim>\<open>DOMException\<close> is also an \<^verbatim>\<open>Error\<close>.\<close>

definition mapSigningError :: "client_error \<Rightarrow> client_error" where
  "mapSigningError e =
     (let cancelled = DeviceWalletError CANCELLED (JStr ''Device verification was cancelled. The operation was not performed.'');
          failed = DeviceWalletError FAILED (JStr ''Device verification failed. The operation was not performed.'') in
      case e of
        DeviceWalletError r m \<Rightarrow> e
      | DOMException name m \<Rightarrow> if name \<in> {''AbortError'', ''NotAllowedError''} \<or> cancelled_text m then cancelled else failed
      | ScriptError m \<Rightarrow> if cancelled_text m then cancelled else failed
      | HttpApiError _ _ (JStr m) \<Rightarrow> if cancelled_text m then cancelled else failed
      | _ \<Rightarrow> failed)"

definition mapping_error :: "(client_error \<Rightarrow> client_error) \<Rightarrow> ('n, 'a) client_m \<Rightarrow> ('n, 'a) client_m" where
  "mapping_error f g = (\<lambda>s. case g s of (Inl e, s') \<Rightarrow> (Inl (f e), s') | r \<Rightarrow> r)"

text \<open>A result that shows a user verification; in a development build the flag of the development wallet suffices.\<close>

definition verified_result :: "'n client_svc \<Rightarrow> wallet_signature \<Rightarrow> bool" where
  "verified_result cv r \<longleftrightarrow> ws_userVerified r = JBool True \<or> cv_dev cv \<and> ws_development r = JBool True"

definition unverified :: client_error where
  "unverified = DeviceWalletError UNVERIFIED (JStr ''Secure device verification was not completed. The operation was not performed.'')"

definition accept_signature :: "'n client_svc \<Rightarrow> bool \<Rightarrow> wallet_signature option \<Rightarrow> ('n, string) client_m" where
  "accept_signature cv nonempty result = (case result of
     None \<Rightarrow> throw unverified
   | Some r \<Rightarrow> (case ws_signature r of
       JStr sg \<Rightarrow> if (nonempty \<and> sg = []) \<or> \<not> verified_result cv r then throw unverified else ret sg
     | _ \<Rightarrow> throw unverified))"

definition wallet_sign :: "'n client_svc \<Rightarrow> jsval \<Rightarrow> string \<Rightarrow> ('n, string) client_m" where
  "wallet_sign cv challenge operation =
     bindE (mapping_error mapSigningError (wb_sign (bridge cv) challenge operation)) (accept_signature cv True)"

definition signDeviceTransaction :: "'n client_svc \<Rightarrow> jsval \<Rightarrow> ('n, string) client_m" where
  "signDeviceTransaction cv tx = (case wb_signTransaction (bridge cv) of
     None \<Rightarrow> throw (DeviceWalletError UNAVAILABLE
       (JStr ''Secure device transaction signing is unavailable on this workstation.''))
   | Some f \<Rightarrow> bindE (f tx ''BLOCKCHAIN_TRANSACTION'') (accept_signature cv False))"

section \<open>Writes\<close>

definition freshHeaders :: "'n client_svc \<Rightarrow> string \<Rightarrow> string option \<Rightarrow> ('n, headers) client_m" where
  "freshHeaders cv operation resourceId =
     bindE (wb_getIdentity (bridge cv)) (\<lambda>i.
     bindE (json_call cv ''/auth/fresh-challenge'' (JObj ((''operation'', JStr operation) #
       (case resourceId of Some (x # xs) \<Rightarrow> [(''resourceId'', JStr (x # xs))] | _ \<Rightarrow> []))) True) (\<lambda>challenge.
     bindE (prop_of challenge ''challenge'') (\<lambda>text.
     bindE (wallet_sign cv text operation) (\<lambda>sg.
     bindE (prop_of i ''publicKey'') (\<lambda>key.
       ret [(''X-BEL-Fresh-Auth'', Json [(''challengeId'', opt_field challenge ''challengeId''),
         (''publicKey'', key), (''signature'', JStr sg)])])))))"

text \<open>A body that is \<^verbatim>\<open>undefined\<close> is not sent.\<close>

definition json_body :: "jsval \<Rightarrow> call_body option" where
  "json_body v = (if v = JUndefined then None else Some (JsonText v))"

definition freshJson :: "'n client_svc \<Rightarrow> string \<Rightarrow> jsval \<Rightarrow> string \<Rightarrow> string option \<Rightarrow> ('n, jsval) client_m" where
  "freshJson cv path v operation resourceId =
     bindE (freshHeaders cv operation resourceId) (\<lambda>hs. request cv path ''POST'' (json_body v) hs True False)"

definition obj_fields :: "jsval \<Rightarrow> jsobj" where
  "obj_fields v = (case v of JObj ob \<Rightarrow> ob | _ \<Rightarrow> [])"

definition deviceSignedWrite :: "'n client_svc \<Rightarrow> string \<Rightarrow> jsobj \<Rightarrow> ('n, jsval) client_m" where
  "deviceSignedWrite cv path input =
     bindE (json_call cv (path @ ''/prepare'') (JObj input) True) (\<lambda>prepared.
     bindE (prop_of prepared ''transaction'') (\<lambda>tx.
     bindE (signDeviceTransaction cv tx) (\<lambda>sg.
       json_call cv path (JObj (spread (spread input (obj_fields (opt_field prepared ''intent''))) [(''signature'', JStr sg)])) True)))"

definition deviceSignedMutationWrite ::
  "'n client_svc \<Rightarrow> string \<Rightarrow> jsobj \<Rightarrow> (string \<times> string) option \<Rightarrow> string \<Rightarrow> ('n, jsval) client_m" where
  "deviceSignedMutationWrite cv path input fresh meth =
     bindE (case fresh of None \<Rightarrow> ret [] | Some (operation, resourceId) \<Rightarrow> freshHeaders cv operation (Some resourceId)) (\<lambda>hs.
     bindE (request cv (path @ ''/prepare'') ''POST'' (Some (JsonText (JObj input))) hs True False) (\<lambda>prepared.
     bindE (prop_of prepared ''transaction'') (\<lambda>tx.
     bindE (signDeviceTransaction cv tx) (\<lambda>sg.
       request cv path meth (Some (JsonText (JObj (spread input [(''signature'', JStr sg)])))) hs True False))))"

section \<open>The API client\<close>

text \<open>
  \<^verbatim>\<open>encodeURIComponent\<close> on code units below 256: letters, digits and eight marks stay, every other
  unit becomes the bytes of its UTF-8 form.
\<close>

definition percent_digit :: "nat \<Rightarrow> char" where
  "percent_digit n = (if n < 10 then char_of (48 + n) else char_of (55 + n))"

definition percent :: "nat \<Rightarrow> string" where
  "percent n = [CHR ''%'', percent_digit (n div 16), percent_digit (n mod 16)]"

definition unreserved :: "char \<Rightarrow> bool" where
  "unreserved c \<longleftrightarrow> (let n = of_char c :: nat in 48 \<le> n \<and> n \<le> 57 \<or> 65 \<le> n \<and> n \<le> 90 \<or> 97 \<le> n \<and> n \<le> 122) \<or>
     c \<in> set ''-_.!~*()'' \<or> of_char c = (39 :: nat)"

definition encode_char :: "char \<Rightarrow> string" where
  "encode_char c = (let n = of_char c in
     if unreserved c then [c] else if n < 128 then percent n else percent (192 + n div 64) @ percent (128 + n mod 64))"

definition encodeURIComponent :: "string \<Rightarrow> string" where
  "encodeURIComponent s = concat (map encode_char s)"

text \<open>The client's methods with the arguments that vary; a token of a login answer that is not text is none.\<close>

datatype api_call =
    Login jsval | RequestProvisioningChallenge jsval | InitializeAccount jsval | RequestAuthenticationChallenge jsval
  | GetPendingRegistrations | GetActiveEmployees | VerifyRegistration string jsval | AssignRole string jsval
  | ActivateRegistration string | RegisterDevice string jsval | GetDevices string | RegisterWallet string jsval
  | GetWallets string | RevokeDevice string | CreateUser jsval | RevokeWallet string string | ActivateWallet string jsval
  | Logout | GetMe | GetCurrentUserGrant string | GetUser string | GetAssets | GetAsset string | CreateAsset jsobj
  | TransferAsset string jsobj | ChangeAssetState string jsobj | AttachComponent string jsobj | RemoveComponent string string
  | GetGrants string | CreateTransferGrant string jsobj | RevokeGrant string string | GetJobs | GetJob string
  | CreateJob jsobj | AssignJob string jsobj | StartJob string | CompleteJob string jsobj
  | CompleteJobWithEvidence string string | ApproveJob string | RejectJob string jsobj | GetAssetAuditTrail string
  | GetBlockchainStatus | GetValidators | GetValidatorRegistrations | GetValidatorHistory | AddValidator jsobj
  | RemoveValidator string jsval | RestoreValidator string jsval | CancelScheduledRemoval string jsval
  | GetCommittee string | UploadEvidence string string | GetEvidence string | DownloadEvidence string string

text \<open>\<^verbatim>\<open>catch\<close> of a 404: the method returns \<^verbatim>\<open>null\<close>.\<close>

definition null_if_missing :: "('n, jsval) client_m \<Rightarrow> ('n, jsval) client_m" where
  "null_if_missing f = (\<lambda>s. case f s of (Inl (HttpApiError st c m), s') \<Rightarrow> (if st = 404 then Inr JNull else Inl (HttpApiError st c m), s') | r \<Rightarrow> r)"

text \<open>\<^verbatim>\<open>finally\<close> of the logout: the token is removed whatever happens.\<close>

definition and_finally :: "('n client \<Rightarrow> 'n client) \<Rightarrow> ('n, 'a) client_m \<Rightarrow> ('n, 'a) client_m" where
  "and_finally g f = (\<lambda>s. case f s of (r, s') \<Rightarrow> (r, g s'))"

abbreviation user_path :: "string \<Rightarrow> string \<Rightarrow> string" where
  "user_path i rest \<equiv> ''/admin/users/'' @ encodeURIComponent i @ rest"

abbreviation job_path :: "string \<Rightarrow> string \<Rightarrow> string" where
  "job_path i rest \<equiv> ''/jobs/'' @ encodeURIComponent i @ rest"

abbreviation asset_path :: "string \<Rightarrow> string \<Rightarrow> string" where
  "asset_path i rest \<equiv> ''/assets/'' @ encodeURIComponent i @ rest"

abbreviation validator_path :: "string \<Rightarrow> string \<Rightarrow> string" where
  "validator_path i rest \<equiv> ''/admin/validators/'' @ encodeURIComponent i @ rest"

definition login_body :: "jsval \<Rightarrow> jsval" where
  "login_body v = (case v of JStr c \<Rightarrow> JObj [(''deviceCredential'', JStr c)] | _ \<Rightarrow> v)"

fun apiClient :: "'n client_svc \<Rightarrow> api_call \<Rightarrow> ('n, jsval) client_m" where
  "apiClient cv (Login v) = bindE (json_call cv ''/auth/login'' (login_body v) False) (\<lambda>session.
     bindE (prop_of session ''token'') (\<lambda>tok. thenE (modifyS (saveToken (as_str tok))) (ret session)))"
| "apiClient cv (RequestProvisioningChallenge v) = json_call cv ''/auth/provisioning-challenge'' v False"
| "apiClient cv (InitializeAccount v) = json_call cv ''/auth/initialize-account'' v False"
| "apiClient cv (RequestAuthenticationChallenge d) = json_call cv ''/auth/login-challenge'' (JObj [(''deviceId'', d)]) False"
| "apiClient cv GetPendingRegistrations = get_call cv ''/admin/registrations/pending'' True"
| "apiClient cv GetActiveEmployees = get_call cv ''/admin/users/active'' True"
| "apiClient cv (VerifyRegistration i v) = json_call cv (user_path i ''/verify'') v True"
| "apiClient cv (AssignRole i v) = freshJson cv (user_path i ''/role'') v ''ROLE_ASSIGN'' (Some i)"
| "apiClient cv (ActivateRegistration i) = post_call cv (user_path i ''/activate'') True"
| "apiClient cv (RegisterDevice i v) = json_call cv (user_path i ''/devices'') v True"
| "apiClient cv (GetDevices i) = get_call cv (user_path i ''/devices'') True"
| "apiClient cv (RegisterWallet i v) = json_call cv (user_path i ''/wallets'') v True"
| "apiClient cv (GetWallets i) = get_call cv (user_path i ''/wallets'') True"
| "apiClient cv (RevokeDevice d) =
     freshJson cv (''/admin/devices/'' @ encodeURIComponent d @ ''/revoke'') JUndefined ''WALLET_REVOKE'' (Some d)"
| "apiClient cv (CreateUser v) = json_call cv ''/admin/users'' v True"
| "apiClient cv (RevokeWallet i why) =
     freshJson cv (user_path i ''/revoke-wallet'') (JObj [(''reason'', JStr why)]) ''WALLET_REVOKE'' (Some i)"
| "apiClient cv (ActivateWallet i v) = freshJson cv (user_path i ''/activate-wallet'') v ''WALLET_ACTIVATE'' (Some i)"
| "apiClient cv Logout = and_finally (saveToken None)
     (bindE (reads current_token) (\<lambda>tok. if tok = None then ret JUndefined
        else thenE (request cv ''/auth/logout'' ''POST'' None [] True False) (ret JUndefined)))"
| "apiClient cv GetMe = get_call cv ''/users/me'' True"
| "apiClient cv (GetCurrentUserGrant r) = get_call cv
     (''/users/me/grants?resourceType=ASSET&resourceId='' @ encodeURIComponent r @ ''&action=TRANSFER_ASSET'') True"
| "apiClient cv (GetUser i) = null_if_missing (get_call cv (''/users/'' @ encodeURIComponent i) True)"
| "apiClient cv GetAssets = get_call cv ''/assets'' True"
| "apiClient cv (GetAsset i) = null_if_missing (get_call cv (asset_path i []) True)"
| "apiClient cv (CreateAsset v) = deviceSignedWrite cv ''/assets'' v"
| "apiClient cv (TransferAsset i v) =
     deviceSignedMutationWrite cv (asset_path i ''/transfer'') v (Some (''ASSET_TRANSFER'', i)) ''POST''"
| "apiClient cv (ChangeAssetState i v) =
     deviceSignedMutationWrite cv (asset_path i ''/state'') v (Some (''ASSET_STATE_CHANGE'', i)) ''POST''"
| "apiClient cv (AttachComponent i v) =
     deviceSignedMutationWrite cv (asset_path i ''/components'') v (Some (''COMPONENT_ATTACH'', i)) ''POST''"
| "apiClient cv (RemoveComponent i c) =
     deviceSignedMutationWrite cv (asset_path i (''/components/'' @ encodeURIComponent c)) [] (Some (''COMPONENT_REMOVE'', c)) ''DELETE''"
| "apiClient cv (GetGrants i) = get_call cv (user_path i ''/grants'') True"
| "apiClient cv (CreateTransferGrant i v) =
     freshJson cv (user_path i ''/grants'') (JObj v) ''GRANT_CREATE'' (as_str (fld v ''resourceId''))"
| "apiClient cv (RevokeGrant i g) =
     freshJson cv (user_path i (''/grants/'' @ encodeURIComponent g @ ''/revoke'')) JUndefined ''GRANT_REVOKE'' (Some g)"
| "apiClient cv GetJobs = get_call cv ''/jobs'' True"
| "apiClient cv (GetJob i) = null_if_missing (get_call cv (job_path i []) True)"
| "apiClient cv (CreateJob v) = deviceSignedWrite cv ''/jobs'' v"
| "apiClient cv (AssignJob i v) = deviceSignedMutationWrite cv (job_path i ''/assign'') v None ''POST''"
| "apiClient cv (StartJob i) = deviceSignedMutationWrite cv (job_path i ''/start'') [] None ''POST''"
| "apiClient cv (CompleteJob i v) = deviceSignedMutationWrite cv (job_path i ''/complete'') v None ''POST''"
| "apiClient cv (CompleteJobWithEvidence i e) =
     deviceSignedMutationWrite cv (job_path i ''/complete'') [(''evidenceId'', JStr e)] None ''POST''"
| "apiClient cv (ApproveJob i) = deviceSignedMutationWrite cv (job_path i ''/approve'') [] (Some (''JOB_VERIFY'', i)) ''POST''"
| "apiClient cv (RejectJob i v) = deviceSignedMutationWrite cv (job_path i ''/reject'') v (Some (''JOB_VERIFY'', i)) ''POST''"
| "apiClient cv (GetAssetAuditTrail i) = get_call cv (''/audit/assets/'' @ encodeURIComponent i) True"
| "apiClient cv GetBlockchainStatus = get_call cv ''/blockchain/status'' False"
| "apiClient cv GetValidators = get_call cv ''/blockchain/validators'' True"
| "apiClient cv GetValidatorRegistrations = get_call cv ''/admin/validators'' True"
| "apiClient cv GetValidatorHistory = get_call cv ''/admin/validators/history'' True"
| "apiClient cv (AddValidator v) = freshJson cv ''/admin/validators'' (JObj v) ''VALIDATOR_ADD'' (as_str (fld v ''validatorId''))"
| "apiClient cv (RemoveValidator i v) = freshJson cv (validator_path i ''/remove'') v ''VALIDATOR_REMOVE'' (Some i)"
| "apiClient cv (RestoreValidator i v) = freshJson cv (validator_path i ''/restore'') v ''VALIDATOR_RESTORE'' (Some i)"
| "apiClient cv (CancelScheduledRemoval i v) =
     freshJson cv (validator_path i ''/remove/cancel'') v ''VALIDATOR_REMOVE_CANCEL'' (Some i)"
| "apiClient cv (GetCommittee height) = get_call cv (''/blockchain/committee/'' @ height) True"
| "apiClient cv (UploadEvidence j file) = request cv (job_path j ''/evidence'') ''POST'' (Some (FormData file)) [] True False"
| "apiClient cv (GetEvidence j) = get_call cv (job_path j ''/evidence'') True"
| "apiClient cv (DownloadEvidence j e) =
     request cv (job_path j (''/evidence/'' @ encodeURIComponent e)) ''GET'' None [] True True"

definition restoreSession :: "'n client_svc \<Rightarrow> ('n, (jsval \<times> string) option) client_m" where
  "restoreSession cv = bindE (reads current_token) (\<lambda>current.
     case current of
       None \<Rightarrow> ret None
     | Some t \<Rightarrow> (\<lambda>s. case apiClient cv GetMe s of
         (Inr u, s') \<Rightarrow> (Inr (Some (u, t)), s')
       | (Inl (HttpApiError st c m), s') \<Rightarrow> (if st = 401 then Inr None else Inl (HttpApiError st c m), s')
       | (Inl e, s') \<Rightarrow> (Inl e, s')))"

definition clearSession :: "'n client \<Rightarrow> 'n client" where
  "clearSession = saveToken None"

section \<open>Properties\<close>

lemma accept_signature_ok:
  "accept_signature cv b result s = (Inr sg, s') \<longleftrightarrow>
     s' = s \<and> (\<exists>r. result = Some r \<and> ws_signature r = JStr sg \<and> verified_result cv r \<and> \<not> (b \<and> sg = []))"
  by (auto simp: accept_signature_def run split: option.splits jsval.splits if_splits)

lemma signDeviceTransaction_ok:
  assumes "signDeviceTransaction cv tx s = (Inr sg, s')"
  shows "\<exists>f r. wb_signTransaction (bridge cv) = Some f \<and> f tx ''BLOCKCHAIN_TRANSACTION'' s = (Inr (Some r), s') \<and>
    ws_signature r = JStr sg \<and> verified_result cv r"
  using assms by (auto simp: signDeviceTransaction_def bindE_ok accept_signature_ok throw_run split: option.splits)

lemma production_verified: "\<not> cv_dev cv \<Longrightarrow> verified_result cv r \<Longrightarrow> ws_userVerified r = JBool True"
  by (simp add: verified_result_def)

lemma prop_of_ok [run]: "prop_of v k s = (Inr x, s') \<longleftrightarrow> s' = s \<and> v \<notin> {JNull, JUndefined} \<and> x = opt_field v k"
  by (auto simp: prop_of_def run)

text \<open>When the wallet refuses, the write is not sent: the operation ends in the state the wallet left.\<close>

lemma refused_write_not_sent:
  assumes "request cv (path @ ''/prepare'') ''POST'' (Some (JsonText (JObj input))) [] True False s = (Inr prepared, s1)"
    and "prepared \<notin> {JNull, JUndefined}"
    and "signDeviceTransaction cv (opt_field prepared ''transaction'') s1 = (Inl e, s2)"
  shows "deviceSignedMutationWrite cv path input None meth s = (Inl e, s2)"
  using assms by (simp add: deviceSignedMutationWrite_def prop_of_def exec_defs)


text \<open>What a request does with the session, whatever the answer.\<close>

lemma request_token:
  assumes "request cv path meth body extra a blob s = (r, s')"
  shows "cs_token s' = (if \<exists>c m. r = Inl (HttpApiError 401 c m) \<and> a then None else cs_token s)"
  using assms
  by (auto simp: request_def on_net_def session_expired_def saveToken_def Let_def exec_defs
      split: prod.splits option.splits if_splits)

text \<open>
  The browser keeps a session token exactly as long as the backend accepts it: a request leaves
  the token alone unless it was authenticated and answered with 401, then the token is gone;
  after a logout the token is gone even when the request fails; and without a token no request
  carries an authorization.
\<close>

theorem client_session_discipline:
  "cs_token (snd (request cv path meth body extra a blob s)) =
     (if (\<exists>c m. fst (request cv path meth body extra a blob s) = Inl (HttpApiError 401 c m)) \<and> a then None else cs_token s) \<and>
   cs_token (snd (apiClient cv Logout s)) = None \<and>
   (\<forall>h. (''Authorization'', h) \<notin> set (request_headers [] body a None))"
proof (intro conjI)
  show "cs_token (snd (request cv path meth body extra a blob s)) =
      (if (\<exists>c m. fst (request cv path meth body extra a blob s) = Inl (HttpApiError 401 c m)) \<and> a then None else cs_token s)"
    by (simp add: request_token [OF prod.collapse [symmetric]])
  show "cs_token (snd (apiClient cv Logout s)) = None"
    by (simp add: and_finally_def saveToken_def split: prod.splits)
  show "\<forall>h. (''Authorization'', h) \<notin> set (request_headers [] body a None)"
    by (auto simp: request_headers_def split: option.splits call_body.splits)
qed

section \<open>A concrete client\<close>

definition demo_client :: "unit client_svc" where
  "demo_client = \<lparr>cv_base = None, cv_fetch = (\<lambda>c n. (Some \<lparr>rs_status = 200, rs_json = Some (JObj [(''transaction'', JObj [])]), rs_blob = None\<rparr>, n)),
     cv_window = Some \<lparr>wb_getIdentity = ret (JObj [(''deviceId'', JStr ''D''), (''publicKey'', JStr ''k'')]),
       wb_sign = (\<lambda>_ _. ret None),
       wb_signTransaction = Some (\<lambda>_ _. ret (Some \<lparr>ws_signature = JStr ''0x1'', ws_userVerified = JBool True, ws_development = JUndefined\<rparr>))\<rparr>,
     cv_devWallet = None, cv_dev = False\<rparr>"

definition demo_client_state :: "unit client" where
  "demo_client_state = \<lparr>cs_token = Some ''T'', cs_listener = None, cs_fired = [], cs_net = ()\<rparr>"


end
