(* ===== verification/DevWallet.thy ===== *)
theory DevWallet
  imports Crypto
begin

text \<open>
  The development wallet (\<^verbatim>\<open>frontend/dev-wallet/wallet.mjs\<close>, \<^verbatim>\<open>server.mjs\<close>), which stands
  for the managed device of an employee on a developer's machine.  The keystore files are the
  state; scrypt with AES-GCM, the wallets of ethers and \<^verbatim>\<open>JSON.parse\<close> are arguments.  Bytes in
  base64url are identified with their text.  A challenge that the wallet signs passes the
  backend's check, a device keeps its identity, and a request writes no file but the keystore of
  the active device.
\<close>

section \<open>Surroundings\<close>

text \<open>
  \<open>wl_wallet\<close> is \<^verbatim>\<open>new Wallet(key)\<close>: the private key in normal form, the address and the
  uncompressed public key, or an exception.
  \<open>wl_signMessage\<close> gives the recovery bit and the texts of \<open>r\<close> and \<open>s\<close> that \<^verbatim>\<open>Signature.from\<close>
  reads from the signature.
\<close>

record wallet_lib =
  wl_wallet :: "string \<Rightarrow> (string \<times> string \<times> string) option"
  wl_signMessage :: "string \<Rightarrow> string \<Rightarrow> bool \<times> string \<times> string"
  wl_signTransaction :: "string \<Rightarrow> jsval \<Rightarrow> string option"
  wl_seal :: "string \<Rightarrow> string \<Rightarrow> string \<Rightarrow> string \<Rightarrow> string \<times> string"
  wl_open :: "string \<Rightarrow> string \<Rightarrow> string \<Rightarrow> string \<Rightarrow> string \<Rightarrow> string option"
  wl_parse :: "string \<Rightarrow> jsval option"

text \<open>The process environment, the random bytes of the request, and files that the wallet only reads.\<close>

record wallet_env =
  we_BEL_ENV :: "string option"
  we_secret :: "string option"
  we_root :: string
  we_importKey :: "string option"
  we_importKeyFile :: "string option"
  we_readFile :: "string \<Rightarrow> string option"
  we_deviceId :: string
  we_allowedOrigin :: "string option"
  we_salt :: string
  we_iv :: string
  we_randomKey :: string

text \<open>The keystore files by path, each with the value its JSON text denotes (\<open>None\<close>: not JSON).\<close>

type_synonym keystores = "string \<Rightarrow> jsval option option"

type_synonym 'a wallet_m = "(keystores, error, 'a) m"

record device_identity =
  di_deviceId :: string
  di_publicKey :: string
  di_walletAddress :: string

section \<open>The keystore\<close>

definition alnum :: "char \<Rightarrow> bool" where
  "alnum c \<longleftrightarrow> c \<in> set ''ABCDEFGHIJKLMNOPQRSTUVWXYZabcdefghijklmnopqrstuvwxyz0123456789''"

definition upper_or_digit :: "char \<Rightarrow> bool" where
  "upper_or_digit c \<longleftrightarrow> c \<in> set ''ABCDEFGHIJKLMNOPQRSTUVWXYZ0123456789_''"

definition DEVICE_ID_PATTERN :: "string \<Rightarrow> bool" where
  "DEVICE_ID_PATTERN s \<longleftrightarrow> (case s of [] \<Rightarrow> False
     | c # cs \<Rightarrow> alnum c \<and> length cs \<le> 63 \<and> list_all (\<lambda>x. alnum x \<or> x \<in> set ''._-'') cs)"

definition CHALLENGE_PATTERN :: "string \<Rightarrow> bool" where
  "CHALLENGE_PATTERN s \<longleftrightarrow> length s = 43 \<and> list_all (\<lambda>x. alnum x \<or> x \<in> set ''_-'') s"

definition OPERATION_PATTERN :: "string \<Rightarrow> bool" where
  "OPERATION_PATTERN s \<longleftrightarrow> (case s of [] \<Rightarrow> False
     | c # cs \<Rightarrow> c \<in> set ''ABCDEFGHIJKLMNOPQRSTUVWXYZ'' \<and> 1 \<le> length cs \<and> length cs \<le> 63 \<and> list_all upper_or_digit cs)"

definition requiredSecret :: "wallet_env \<Rightarrow> string wallet_m" where
  "requiredSecret en = (case we_secret en of
     Some v \<Rightarrow> if length v < 16 then throw (PlainError ''BEL_DEV_WALLET_SECRET must contain at least 16 characters'') else ret v
   | None \<Rightarrow> throw (PlainError ''BEL_DEV_WALLET_SECRET must contain at least 16 characters''))"

definition devicePath :: "wallet_env \<Rightarrow> string \<Rightarrow> string wallet_m" where
  "devicePath en deviceId =
     thenE (throwIf (\<not> DEVICE_ID_PATTERN deviceId) (PlainError ''Invalid development device id''))
       (ret (we_root en @ ''/'' @ deviceId @ ''/wallet.json''))"

definition sealed_key :: "string \<Rightarrow> string \<Rightarrow> string \<Rightarrow> string \<Rightarrow> jsval" where
  "sealed_key salt iv tag text = JObj [(''algorithm'', JStr ''aes-256-gcm''), (''salt'', JStr salt), (''iv'', JStr iv),
     (''tag'', JStr tag), (''ciphertext'', JStr text)]"

definition encryptPrivateKey :: "wallet_lib \<Rightarrow> wallet_env \<Rightarrow> string \<Rightarrow> jsval wallet_m" where
  "encryptPrivateKey wl en key = bindE (requiredSecret en) (\<lambda>secret.
     let (tag, text) = wl_seal wl secret (we_salt en) (we_iv en) key in
     ret (sealed_key (we_salt en) (we_iv en) tag text))"

definition buffer_from :: "jsval \<Rightarrow> string wallet_m" where
  "buffer_from v = required (as_str v) (PlainError ''The first argument must be of type string'')"

definition decryptPrivateKey :: "wallet_lib \<Rightarrow> wallet_env \<Rightarrow> jsval \<Rightarrow> string wallet_m" where
  "decryptPrivateKey wl en v =
     thenE (throwIf (opt_field v ''algorithm'' \<noteq> JStr ''aes-256-gcm'') (PlainError ''Unsupported development wallet keystore''))
     (bindE (requiredSecret en) (\<lambda>secret.
      bindE (buffer_from (opt_field v ''salt'')) (\<lambda>salt.
      bindE (buffer_from (opt_field v ''iv'')) (\<lambda>iv.
      bindE (buffer_from (opt_field v ''tag'')) (\<lambda>tag.
      bindE (buffer_from (opt_field v ''ciphertext'')) (\<lambda>text.
        required (wl_open wl secret salt iv tag text) (PlainError ''Unsupported state or unable to authenticate data'')))))))"

definition publicKeyWire :: "string \<Rightarrow> string" where
  "publicKeyWire pub = ''0x'' @ drop 4 pub"

definition importKeyIfConfigured :: "wallet_env \<Rightarrow> string option wallet_m" where
  "importKeyIfConfigured en = bindE
     (case we_importKey en of
        Some d \<Rightarrow> ret (Some (trim d))
      | None \<Rightarrow> (case we_importKeyFile en of
          Some (x # xs) \<Rightarrow> bindE (required (we_readFile en (x # xs)) (PlainError ''ENOENT'')) (\<lambda>t. ret (Some (trim t)))
        | _ \<Rightarrow> ret None))
     (\<lambda>value. case value of
        None \<Rightarrow> ret None
      | Some v \<Rightarrow> if startsWith v ''0x'' \<and> hex_of_length 64 (drop 2 v) then ret (Some v)
          else throw (PlainError ''Imported development private key must be a 32-byte hex key''))"

definition new_wallet :: "wallet_lib \<Rightarrow> string \<Rightarrow> (string \<times> string \<times> string) wallet_m" where
  "new_wallet wl key = required (wl_wallet wl key) (PlainError ''invalid private key'')"

definition device_record :: "string \<Rightarrow> string \<Rightarrow> string \<Rightarrow> jsval \<Rightarrow> jsval" where
  "device_record deviceId address pub sealed =
     JObj [(''version'', JNum (Fin 1)), (''deviceId'', JStr deviceId), (''publicKey'', JStr (publicKeyWire pub)),
       (''walletAddress'', JStr address), (''privateKey'', sealed)]"

definition createDevice :: "wallet_lib \<Rightarrow> wallet_env \<Rightarrow> string \<Rightarrow> string \<Rightarrow> jsval wallet_m" where
  "createDevice wl en deviceId path =
     bindE (importKeyIfConfigured en) (\<lambda>imported.
     let key = (case imported of Some k \<Rightarrow> k | None \<Rightarrow> ''0x'' @ we_randomKey en) in
     bindE (new_wallet wl key) (\<lambda>(priv, address, pub).
     bindE (encryptPrivateKey wl en priv) (\<lambda>sealed.
     let rc = device_record deviceId address pub sealed in
     thenE (modifyS (\<lambda>fs. fs(path := Some (Some rc)))) (ret rc))))"

text \<open>The check of a loaded wallet against the record it came from.\<close>

definition bound_wallet :: "string \<Rightarrow> jsval \<Rightarrow> string \<times> string \<times> string \<Rightarrow> (string \<times> device_identity) option" where
  "bound_wallet deviceId rc w = (case w of (priv, address, pub) \<Rightarrow>
     (case (as_str (opt_field rc ''walletAddress''), as_str (opt_field rc ''publicKey'')) of
        (Some a, Some p) \<Rightarrow>
          if address = a \<and> toLowerCase (publicKeyWire pub) = toLowerCase p
          then Some (priv, \<lparr>di_deviceId = deviceId, di_publicKey = p, di_walletAddress = a\<rparr>) else None
      | _ \<Rightarrow> None))"

text \<open>The result is the private key and the identity; \<^verbatim>\<open>null\<close> in a keystore file has no properties.\<close>

definition loadOrCreateDevice :: "wallet_lib \<Rightarrow> wallet_env \<Rightarrow> string \<Rightarrow> (string \<times> device_identity) wallet_m" where
  "loadOrCreateDevice wl en deviceId =
     bindE (devicePath en deviceId) (\<lambda>path.
     bindE (reads (\<lambda>fs. fs path)) (\<lambda>file.
     bindE (case file of
         Some content \<Rightarrow> required content (PlainError ''Unexpected token in JSON'')
       | None \<Rightarrow> createDevice wl en deviceId path) (\<lambda>rc.
     thenE (throwIf (rc = JNull) (PlainError ''Cannot read properties of null''))
     (thenE (throwIf (opt_field rc ''deviceId'' \<noteq> JStr deviceId) (PlainError ''Development wallet device binding mismatch''))
     (bindE (decryptPrivateKey wl en (opt_field rc ''privateKey'')) (\<lambda>key.
      bindE (new_wallet wl key) (\<lambda>w.
        required (bound_wallet deviceId rc w) (PlainError ''Development wallet keystore integrity check failed''))))))))"

section \<open>Signing\<close>

definition explicit_operation :: "jsval \<Rightarrow> bool" where
  "explicit_operation options \<longleftrightarrow> truthy options \<and> opt_field options ''requireUserVerification'' = JBool True \<and>
     (case opt_field options ''operation'' of JStr s \<Rightarrow> OPERATION_PATTERN s | _ \<Rightarrow> False)"

definition needs_operation :: error where
  "needs_operation = PlainError ''Development wallet requires an explicit operation and requireUserVerification=true''"

text \<open>\<^verbatim>\<open>yParity.toString(16).padStart(2, "0")\<close>, then \<open>r\<close> and \<open>s\<close> without their prefix.\<close>

definition compact_text :: "bool \<times> string \<times> string \<Rightarrow> string" where
  "compact_text sg = (case sg of (y, r, s) \<Rightarrow> ''0x'' @ (if y then ''01'' else ''00'') @ drop 2 r @ drop 2 s)"

definition signed_answer :: "device_identity \<Rightarrow> string \<Rightarrow> jsval" where
  "signed_answer i signature = JObj [(''deviceId'', JStr (di_deviceId i)), (''publicKey'', JStr (di_publicKey i)),
     (''walletAddress'', JStr (di_walletAddress i)), (''signature'', JStr signature), (''developmentUserVerification'', JBool True)]"

definition signChallenge :: "wallet_lib \<Rightarrow> wallet_env \<Rightarrow> string \<Rightarrow> jsval \<Rightarrow> jsval \<Rightarrow> jsval wallet_m" where
  "signChallenge wl en deviceId challenge options = (case challenge of
     JStr c \<Rightarrow>
       thenE (throwIf (\<not> CHALLENGE_PATTERN c) (PlainError ''Challenge must be the backend's 43-character base64url value''))
       (thenE (throwIf (\<not> explicit_operation options) needs_operation)
       (bindE (loadOrCreateDevice wl en deviceId) (\<lambda>(key, i).
          ret (signed_answer i (compact_text (wl_signMessage wl key c))))))
   | _ \<Rightarrow> throw (PlainError ''Challenge must be the backend's 43-character base64url value''))"

definition signTransaction :: "wallet_lib \<Rightarrow> wallet_env \<Rightarrow> string \<Rightarrow> jsval \<Rightarrow> jsval \<Rightarrow> jsval wallet_m" where
  "signTransaction wl en deviceId tx options =
     thenE (throwIf (\<not> explicit_operation options) needs_operation)
     (bindE (loadOrCreateDevice wl en deviceId) (\<lambda>(key, i).
      thenE (throwIf (tx = JUndefined \<or> tx = JNull) (PlainError ''Cannot read properties of undefined''))
      (bindE (required (wl_signTransaction wl key
          (case tx of JObj ob \<Rightarrow> JObj (spread ob [(''value'', nullish_or (fld ob ''value'') (JNum (Fin 0)))])
           | _ \<Rightarrow> JObj [(''value'', JNum (Fin 0))])) (PlainError ''invalid transaction'')) (\<lambda>sg.
        ret (signed_answer i sg)))))"

section \<open>The server\<close>

record wallet_request =
  wq_method :: string
  wq_pathname :: string
  wq_deviceId :: "string option"
  wq_origin :: "string option"
  wq_chunks :: "string list"

definition corsOrigin :: "wallet_env \<Rightarrow> wallet_request \<Rightarrow> string" where
  "corsOrigin en rq = (case wq_origin rq of
     Some (x # xs) \<Rightarrow> if x # xs \<in> {''http://localhost:3000'', ''http://127.0.0.1:3000''} \<or> we_allowedOrigin en = Some (x # xs)
       then x # xs else ''null''
   | _ \<Rightarrow> ''null'')"

definition readBody :: "wallet_lib \<Rightarrow> string list \<Rightarrow> jsval wallet_m" where
  "readBody wl chunks = (let value = concat chunks in
     if length value > 16384 then throw (PlainError ''Request body is too large'')
     else required (wl_parse wl (if value = [] then ''{}'' else value)) (PlainError ''Request body must be JSON''))"

definition for_active_device :: "wallet_env \<Rightarrow> jsval \<Rightarrow> unit wallet_m" where
  "for_active_device en body =
     thenE (throwIf (body = JNull) (PlainError ''Cannot read properties of null''))
       (throwIf (opt_field body ''deviceId'' \<noteq> JStr (we_deviceId en)) (PlainError ''Active development device mismatch''))"

definition wallet_route :: "wallet_lib \<Rightarrow> wallet_env \<Rightarrow> wallet_request \<Rightarrow> (int \<times> jsval) wallet_m" where
  "wallet_route wl en rq =
     (if wq_method rq = ''GET'' \<and> wq_pathname rq = ''/identity'' then
        thenE (throwIf (case wq_deviceId rq of Some (x # xs) \<Rightarrow> x # xs \<noteq> we_deviceId en | _ \<Rightarrow> False)
          (PlainError ''Active development device mismatch''))
        (bindE (loadOrCreateDevice wl en (we_deviceId en)) (\<lambda>(key, i).
          ret (200, JObj [(''deviceId'', JStr (di_deviceId i)), (''publicKey'', JStr (di_publicKey i)),
            (''walletAddress'', JStr (di_walletAddress i))])))
      else if wq_method rq = ''POST'' \<and> wq_pathname rq = ''/sign'' then
        bindE (readBody wl (wq_chunks rq)) (\<lambda>body.
        thenE (for_active_device en body)
        (bindE (signChallenge wl en (we_deviceId en) (opt_field body ''challenge'') (opt_field body ''options''))
          (\<lambda>v. ret (200, v))))
      else if wq_method rq = ''POST'' \<and> wq_pathname rq = ''/sign-transaction'' then
        bindE (readBody wl (wq_chunks rq)) (\<lambda>body.
        thenE (for_active_device en body)
        (bindE (signTransaction wl en (we_deviceId en) (opt_field body ''transaction'') (opt_field body ''options''))
          (\<lambda>v. ret (200, v))))
      else ret (404, JObj [(''message'', JStr ''Not found'')]))"

text \<open>The status and the body of the answer, and the files after the request.\<close>

definition wallet_server :: "wallet_lib \<Rightarrow> wallet_env \<Rightarrow> wallet_request \<Rightarrow> keystores \<Rightarrow> (int \<times> jsval) \<times> keystores" where
  "wallet_server wl en rq fs =
     (if wq_method rq = ''OPTIONS'' then ((204, JUndefined), fs)
      else case wallet_route wl en rq fs of
        (Inr answer, fs') \<Rightarrow> (answer, fs')
      | (Inl (PlainError m), fs') \<Rightarrow> ((400, JObj [(''message'', JStr m)]), fs')
      | (Inl e, fs') \<Rightarrow> ((400, JObj [(''message'', JStr ''Development wallet request failed'')]), fs'))"

text \<open>The module refuses to start in production, and without a device it can load.\<close>

definition start_wallet :: "wallet_lib \<Rightarrow> wallet_env \<Rightarrow> (string \<times> device_identity) wallet_m" where
  "start_wallet wl en =
     thenE (throwIf (we_BEL_ENV en = Some ''production'') (PlainError ''The development wallet cannot run with BEL_ENV=production''))
       (loadOrCreateDevice wl en (we_deviceId en))"

section \<open>What the library promises\<close>

text \<open>
  ethers: the public key of a wallet has 64 bytes and gives its address, the private key in normal
  form makes the same wallet, and a signature is canonical and recovers the address of its
  signer.  \<open>open\<close> undoes \<open>seal\<close>.
\<close>

definition canonical_word :: "string \<Rightarrow> int \<Rightarrow> bool" where
  "canonical_word v bound \<longleftrightarrow> hex_of_length 64 (drop 2 v) \<and> 1 \<le> hex_number (drop 2 v) \<and> hex_number (drop 2 v) < bound"

definition signs_as :: "crypto_lib \<Rightarrow> wallet_lib \<Rightarrow> string \<Rightarrow> string \<Rightarrow> bool" where
  "signs_as cl wl priv address \<longleftrightarrow> (\<forall>m. case wl_signMessage wl priv m of (y, r, s) \<Rightarrow>
     canonical_word r SECP256K1_N \<and> canonical_word s (SECP256K1_HALF_N + 1) \<and>
     cl_recoverAddress cl (cl_hashMessage cl m) (''0x'' @ toLowerCase (drop 2 r)) (''0x'' @ toLowerCase (drop 2 s))
       (27 + of_bool y) = Some address)"

definition wallet_lib_ok :: "crypto_lib \<Rightarrow> wallet_lib \<Rightarrow> bool" where
  "wallet_lib_ok cl wl \<longleftrightarrow>
     (\<forall>key priv address pub. wl_wallet wl key = Some (priv, address, pub) \<longrightarrow>
        hex_of_length 128 (drop 4 pub) \<and> wl_wallet wl priv = Some (priv, address, pub) \<and>
        cl_computeAddress cl (''0x04'' @ toLowerCase (drop 4 pub)) = Some address \<and>
        cl_getAddress cl address = Some address \<and> signs_as cl wl priv address) \<and>
     (\<forall>secret salt iv t. wl_open wl secret salt iv (fst (wl_seal wl secret salt iv t)) (snd (wl_seal wl secret salt iv t)) = Some t)"

section \<open>Files a request reaches\<close>

abbreviation keystore_path :: "wallet_env \<Rightarrow> string \<Rightarrow> string" where
  "keystore_path en deviceId \<equiv> we_root en @ ''/'' @ deviceId @ ''/wallet.json''"

lemma quiet_parts [frame]:
  "quiet p (requiredSecret en)" "quiet p (buffer_from v)" "quiet p (new_wallet wl key)" "quiet p (devicePath en d)"
  "quiet p (readBody wl chunks)" "quiet p (for_active_device en body)"
  by (auto simp: requiredSecret_def buffer_from_def new_wallet_def devicePath_def readBody_def for_active_device_def Let_def
      intro!: frame split: option.splits)

lemma quiet_keystore [frame]:
  "quiet p (encryptPrivateKey wl en key)" "quiet p (decryptPrivateKey wl en v)" "quiet p (importKeyIfConfigured en)"
  by (auto simp: encryptPrivateKey_def decryptPrivateKey_def importKeyIfConfigured_def Let_def
      intro!: frame split: option.splits list.splits prod.splits)

lemma createDevice_reach: "q \<noteq> path \<Longrightarrow> quiet (\<lambda>fs. fs q) (createDevice wl en d path)"
  by (auto simp: createDevice_def Let_def intro!: frame split: prod.splits) (simp add: quiet_def modifyS_def)

lemma devicePath_bind:
  "bindE (devicePath en d) g = thenE (throwIf (\<not> DEVICE_ID_PATTERN d) (PlainError ''Invalid development device id''))
     (g (keystore_path en d))"
  by (rule ext) (simp add: devicePath_def exec_defs)

lemma loadOrCreateDevice_reach [frame]:
  assumes "q \<noteq> keystore_path en d"
  shows "quiet (\<lambda>fs. fs q) (loadOrCreateDevice wl en d)"
  unfolding loadOrCreateDevice_def devicePath_bind
  by (auto intro!: frame createDevice_reach [OF assms] split: option.splits prod.splits jsval.splits)

lemma wallet_route_reach:
  assumes "q \<noteq> keystore_path en (we_deviceId en)"
  shows "quiet (\<lambda>fs. fs q) (wallet_route wl en rq)"
  unfolding wallet_route_def signChallenge_def signTransaction_def
  using assms by (auto intro!: frame split: option.splits list.splits prod.splits jsval.splits)

lemma wallet_server_reach:
  "q \<noteq> keystore_path en (we_deviceId en) \<Longrightarrow> snd (wallet_server wl en rq fs) q = fs q"
  using quietD [OF wallet_route_reach, of q en wl rq fs]
  by (auto simp: wallet_server_def split: prod.splits sum.splits error.splits)

text \<open>A device id names a directory below the root: it has no separator and is no dot segment.\<close>

lemma device_id_is_a_name:
  assumes "DEVICE_ID_PATTERN d"
  shows "CHR ''/'' \<notin> set d" "d \<noteq> ''.''" "d \<noteq> ''..''"
proof -
  have "\<not> alnum CHR ''/''" "\<not> alnum CHR ''.''" "CHR ''/'' \<notin> set ''._-''" by code_simp+
  then show "CHR ''/'' \<notin> set d" "d \<noteq> ''.''" "d \<noteq> ''..''"
    using assms by (auto simp: DEVICE_ID_PATTERN_def list_all_iff split: list.splits)
qed

section \<open>What the wallet signs\<close>

lemma bound_wallet_ok:
  "bound_wallet d rc (priv', address, pub) = Some (priv, i) \<longleftrightarrow> priv = priv' \<and> di_deviceId i = d \<and>
     di_walletAddress i = address \<and> toLowerCase (di_publicKey i) = toLowerCase (publicKeyWire pub) \<and>
     opt_field rc ''walletAddress'' = JStr address \<and> opt_field rc ''publicKey'' = JStr (di_publicKey i)"
proof -
  have "as_str v = Some x \<longleftrightarrow> v = JStr x" for v x by (cases v) auto
  then show ?thesis by (cases i) (auto simp: bound_wallet_def split: option.splits if_splits)
qed

lemma loadOrCreateDevice_ok:
  assumes "loadOrCreateDevice wl en d fs = (Inr (priv, i), fs')"
  obtains key pub where "wl_wallet wl key = Some (priv, di_walletAddress i, pub)"
    "toLowerCase (di_publicKey i) = toLowerCase (publicKeyWire pub)"
proof -
  from assms obtain key rc w where "wl_wallet wl key = Some w" "bound_wallet d rc w = Some (priv, i)"
    unfolding loadOrCreateDevice_def new_wallet_def by (auto simp: bindE_ok thenE_ok required_ok)
  with that show thesis by (cases w) (auto simp: bound_wallet_ok)
qed

lemma hex_codes:
  "list_all (\<lambda>c. of_char c \<in> set ([48..<58] @ [65..<71] @ [97..<103 :: nat])) ''0123456789abcdefABCDEF''"
  "list_all (\<lambda>n. is_hex (char_of n)) [65..<71 :: nat]"
  by code_simp+

lemma lower_hex_only:
  assumes "is_hex (js_lower_char c)"
  shows "is_hex c"
proof (cases "js_lower_char c = c")
  case False
  define n where "n = (of_char c :: nat)"
  from False have n: "65 \<le> n \<and> n \<le> 90 \<or> 192 \<le> n \<and> n \<le> 222" and low: "js_lower_char c = char_of (n + 32)"
    by (auto simp: js_lower_char_def n_def Let_def split: if_splits)
  from assms hex_codes(1) have "of_char (js_lower_char c) \<in> set ([48..<58] @ [65..<71] @ [97..<103 :: nat])"
    by (simp only: is_hex_def list_all_iff)
  moreover have "n + 32 < 256" using n by auto
  then have "of_char (js_lower_char c) = n + 32" unfolding low by (simp add: of_char_of)
  ultimately have "n \<in> set [65..<71]" using n by auto
  with hex_codes(2) have "is_hex (char_of n)" by (simp only: list_all_iff)
  then show ?thesis by (simp add: n_def)
qed (use assms in simp)

lemma hex_of_lower: "hex_of_length n (toLowerCase t) \<longleftrightarrow> hex_of_length n t"
proof -
  have "is_hex (js_lower_char c) \<longleftrightarrow> is_hex c" for c using lower_hex lower_hex_only by blast
  then show ?thesis by (simp add: hex_of_length_def toLowerCase_def list_all_iff)
qed

lemma canonical_public_key:
  assumes "hex_of_length 128 (drop 4 pub)" "toLowerCase p = toLowerCase (publicKeyWire pub)" "startsWith p ''0x''"
  shows "canonicalHex p PUBLIC_KEY_BYTES l = Inr (toLowerCase (drop 4 pub))"
proof -
  define q where "q = drop 2 p"
  have "take 2 p = ''0x''" using assms(3) by (simp add: startsWith_def numeral_2_eq_2)
  then have p: "p = ''0x'' @ q" unfolding q_def by (metis append_take_drop_id)
  have "drop 2 (toLowerCase p) = drop 2 (toLowerCase (publicKeyWire pub))" by (simp add: assms(2))
  then have q: "toLowerCase q = toLowerCase (drop 4 pub)" by (simp add: p publicKeyWire_def toLowerCase_def)
  with assms(1) have "hex_of_length 128 q" using hex_of_lower [of 128 q] hex_of_lower [of 128 "drop 4 pub"] by simp
  with q assms(3) show ?thesis by (simp add: canonicalHex_ok PUBLIC_KEY_BYTES_def q_def)
qed

lemma compact_parses:
  assumes "canonical_word r SECP256K1_N" "canonical_word s (SECP256K1_HALF_N + 1)"
  shows "parseCompactSignature (compact_text (y, r, s)) =
    Inr \<lparr>sg_yParity = of_bool y, sg_r = ''0x'' @ toLowerCase (drop 2 r), sg_s = ''0x'' @ toLowerCase (drop 2 s)\<rparr>"
proof -
  define b where "b = (if y then ''01'' else ''00'')"
  have "hex_number ''01'' = 1" by code_simp
  then have b: "toLowerCase b = b" "list_all is_hex b" "length b = 2" "hex_number b = of_bool y"
    by (simp_all add: b_def toLowerCase_def zero_digit hex_number_00)
  have rs: "list_all is_hex (drop 2 r)" "length (drop 2 r) = 64" "list_all is_hex (drop 2 s)" "length (drop 2 s) = 64"
    using assms by (auto simp: canonical_word_def hex_of_length_def)
  have shape: "compact_text (y, r, s) = ''0x'' @ b @ drop 2 r @ drop 2 s"
    by (simp add: compact_text_def b_def)
  have "canonicalHex (compact_text (y, r, s)) SIGNATURE_BYTES ''signature'' =
      Inr (b @ toLowerCase (drop 2 r) @ toLowerCase (drop 2 s))"
    using b rs by (simp add: shape canonicalHex_def startsWith_def hex_of_length_def SIGNATURE_BYTES_def toLowerCase_def)
  moreover have "take 64 (drop 2 (b @ toLowerCase (drop 2 r) @ toLowerCase (drop 2 s))) = toLowerCase (drop 2 r)"
    "drop 66 (b @ toLowerCase (drop 2 r) @ toLowerCase (drop 2 s)) = toLowerCase (drop 2 s)"
    using b rs by (simp_all add: toLowerCase_def)
  ultimately show ?thesis
    using assms b by (simp add: parseCompactSignature_def Let_def hex_number_lower rs canonical_word_def)
qed

lemma wallet_signature_verifies:
  assumes "wallet_lib_ok cl wl" "wl_wallet wl key = Some (priv, address, pub)"
    and "toLowerCase p = toLowerCase (publicKeyWire pub)" "startsWith p ''0x''"
  shows "verifyCompactSignature cl m p (compact_text (wl_signMessage wl priv m)) \<and>
    assertWalletMatchesPublicKey cl address p = Inr address"
proof -
  obtain y r s where sg: "wl_signMessage wl priv m = (y, r, s)" by (cases "wl_signMessage wl priv m") auto
  from assms(1,2) have lib: "hex_of_length 128 (drop 4 pub)" "cl_computeAddress cl (''0x04'' @ toLowerCase (drop 4 pub)) = Some address"
    "cl_getAddress cl address = Some address" "signs_as cl wl priv address"
    unfolding wallet_lib_ok_def by blast+
  from lib(4) sg have word: "canonical_word r SECP256K1_N" "canonical_word s (SECP256K1_HALF_N + 1)"
    and rec: "cl_recoverAddress cl (cl_hashMessage cl m) (''0x'' @ toLowerCase (drop 2 r)) (''0x'' @ toLowerCase (drop 2 s))
       (27 + of_bool y) = Some address"
    unfolding signs_as_def by (auto dest!: spec [of _ m])
  have key: "publicKeyToEvmAddress cl p = Inr address"
    using lib canonical_public_key [OF lib(1) assms(3,4)] by (simp add: publicKeyToEvmAddress_def)
  show ?thesis
    using key lib(3) rec compact_parses [OF word, of y]
    by (simp add: verifyCompactSignature_def sg assertWalletMatchesPublicKey_def)
qed

section \<open>A device and its keystore\<close>

text \<open>The keystore file that a new device with this key gets.\<close>

definition keystore_of :: "wallet_lib \<Rightarrow> wallet_env \<Rightarrow> string \<Rightarrow> string \<Rightarrow> string \<times> string \<times> string \<Rightarrow> jsval" where
  "keystore_of wl en secret d w = (case w of (priv, address, pub) \<Rightarrow>
     case wl_seal wl secret (we_salt en) (we_iv en) priv of (tag, ct) \<Rightarrow>
       device_record d address pub (sealed_key (we_salt en) (we_iv en) tag ct))"

definition identity_of :: "string \<Rightarrow> string \<times> string \<times> string \<Rightarrow> device_identity" where
  "identity_of d w = (case w of (priv, address, pub) \<Rightarrow>
     \<lparr>di_deviceId = d, di_publicKey = publicKeyWire pub, di_walletAddress = address\<rparr>)"

lemma createDevice_new:
  assumes "we_secret en = Some secret" "16 \<le> length secret" "we_importKey en = None" "we_importKeyFile en = None"
    and "wl_wallet wl (''0x'' @ we_randomKey en) = Some w"
  shows "createDevice wl en d path fs =
    (Inr (keystore_of wl en secret d w), fs(path := Some (Some (keystore_of wl en secret d w))))"
  using assms by (cases w)
    (simp add: createDevice_def importKeyIfConfigured_def new_wallet_def encryptPrivateKey_def requiredSecret_def
      keystore_of_def exec_defs Let_def split: prod.splits)

lemma load_keystore:
  assumes "wallet_lib_ok cl wl" "wl_wallet wl key = Some w"
    and "we_secret en' = Some secret" "16 \<le> length secret"
  shows "thenE (throwIf (keystore_of wl en secret d w = JNull) e1)
     (thenE (throwIf (opt_field (keystore_of wl en secret d w) ''deviceId'' \<noteq> JStr d) e2)
     (bindE (decryptPrivateKey wl en' (opt_field (keystore_of wl en secret d w) ''privateKey'')) (\<lambda>key.
      bindE (new_wallet wl key) (\<lambda>w'. required (bound_wallet d (keystore_of wl en secret d w) w') e3)))) fs =
    (Inr (fst w, identity_of d w), fs)"
proof -
  obtain priv address pub where w: "w = (priv, address, pub)" by (cases w)
  obtain tag ct where ct: "wl_seal wl secret (we_salt en) (we_iv en) priv = (tag, ct)" by (cases "wl_seal wl secret (we_salt en) (we_iv en) priv")
  from assms(1) have "wl_open wl secret (we_salt en) (we_iv en) tag ct = Some priv"
    unfolding wallet_lib_ok_def by (metis ct fst_conv snd_conv)
  moreover have "wl_wallet wl priv = Some w" using assms(1,2) unfolding w wallet_lib_ok_def by blast
  ultimately show ?thesis
    using assms(3,4) unfolding keystore_of_def w
    by (simp add: ct device_record_def sealed_key_def decryptPrivateKey_def requiredSecret_def buffer_from_def new_wallet_def
        bound_wallet_def identity_of_def opt_field_def exec_defs)
qed

lemma load_new_device:
  assumes "wallet_lib_ok cl wl" "DEVICE_ID_PATTERN d" "we_secret en = Some secret" "16 \<le> length secret"
    "we_importKey en = None" "we_importKeyFile en = None" "wl_wallet wl (''0x'' @ we_randomKey en) = Some w"
    "fs (keystore_path en d) = None"
  shows "loadOrCreateDevice wl en d fs =
    (Inr (fst w, identity_of d w), fs(keystore_path en d := Some (Some (keystore_of wl en secret d w))))"
  unfolding loadOrCreateDevice_def devicePath_bind
  using assms(2,8) createDevice_new [OF assms(3-7)] load_keystore [OF assms(1,7,3,4)]
  by (simp add: thenE_Inr bindE_Inr throwIf_def reads_def ret_def)

lemma load_known_device:
  assumes "wallet_lib_ok cl wl" "DEVICE_ID_PATTERN d" "we_secret en' = Some secret" "16 \<le> length secret"
    "wl_wallet wl key = Some w" "fs (keystore_path en' d) = Some (Some (keystore_of wl en secret d w))"
  shows "loadOrCreateDevice wl en' d fs = (Inr (fst w, identity_of d w), fs)"
  unfolding loadOrCreateDevice_def devicePath_bind
  using assms(2,6) load_keystore [OF assms(1,5,3,4)]
  by (simp add: thenE_Inr bindE_Inr throwIf_def reads_def required_def ret_def)

text \<open>
  C38. A device that the development wallet creates keeps its identity and signs challenges that the
  backend accepts.  The first request creates the keystore, every later one with the same secret
  finds the same public key and address in it; each signature verifies under the backend's check
  with that key, and the address belongs to the key.
\<close>

theorem dev_wallet_signatures_accepted:
  assumes "wallet_lib_ok cl wl" "DEVICE_ID_PATTERN d" "we_secret en = Some secret" "16 \<le> length secret"
    and "we_importKey en = None" "we_importKeyFile en = None" "wl_wallet wl (''0x'' @ we_randomKey en) = Some w"
    and "fs (keystore_path en d) = None" "we_secret en' = Some secret" "we_root en' = we_root en"
    and "CHALLENGE_PATTERN c" "CHALLENGE_PATTERN c'" "explicit_operation options"
  shows "\<exists>i sg sg' fs'.
    signChallenge wl en d (JStr c) options fs = (Inr (signed_answer i sg), fs') \<and>
    signChallenge wl en' d (JStr c') options fs' = (Inr (signed_answer i sg'), fs') \<and>
    verifyCompactSignature cl c (di_publicKey i) sg \<and> verifyCompactSignature cl c' (di_publicKey i) sg' \<and>
    assertWalletMatchesPublicKey cl (di_walletAddress i) (di_publicKey i) = Inr (di_walletAddress i)"
proof -
  obtain priv address pub where w: "w = (priv, address, pub)" by (cases w)
  define fs' where "fs' = fs(keystore_path en d := Some (Some (keystore_of wl en secret d w)))"
  have new: "loadOrCreateDevice wl en d fs = (Inr (priv, identity_of d w), fs')"
    using load_new_device [of cl wl d en secret w fs] assms(1-8) by (simp add: fs'_def w)
  have known: "loadOrCreateDevice wl en' d fs' = (Inr (priv, identity_of d w), fs')"
    using load_known_device [OF assms(1,2,9,4,7)] assms(10) by (simp add: fs'_def w)
  have good: "verifyCompactSignature cl m (publicKeyWire pub) (compact_text (wl_signMessage wl priv m)) \<and>
      assertWalletMatchesPublicKey cl address (publicKeyWire pub) = Inr address" for m
    using wallet_signature_verifies [OF assms(1) assms(7) [unfolded w] refl] by (simp add: publicKeyWire_def startsWith_def)
  have "signChallenge wl en d (JStr c) options fs = (Inr (signed_answer (identity_of d w) (compact_text (wl_signMessage wl priv c))), fs')"
    "signChallenge wl en' d (JStr c') options fs' = (Inr (signed_answer (identity_of d w) (compact_text (wl_signMessage wl priv c'))), fs')"
    using assms(11-13) new known by (simp_all add: signChallenge_def exec_defs)
  with good show ?thesis by (force simp: identity_of_def w)
qed

section \<open>A concrete library\<close>

definition demo_wallets :: wallet_lib where
  "demo_wallets = \<lparr>wl_wallet = (\<lambda>_. Some (''k'', ''0xa'', ''0x04'' @ replicate 128 CHR ''0'')),
     wl_signMessage = (\<lambda>_ _. (False, ''0x'' @ low_s, ''0x'' @ low_s)), wl_signTransaction = (\<lambda>_ _. None),
     wl_seal = (\<lambda>_ _ _ t. ([], t)), wl_open = (\<lambda>_ _ _ _ t. Some t), wl_parse = (\<lambda>_. None)\<rparr>"

definition demo_wallet_env :: wallet_env where
  "demo_wallet_env = \<lparr>we_BEL_ENV = None, we_secret = Some ''0123456789abcdef'', we_root = ''/d'', we_importKey = None,
     we_importKeyFile = None, we_readFile = (\<lambda>_. None), we_deviceId = ''D'', we_allowedOrigin = None,
     we_salt = ''s'', we_iv = ''i'', we_randomKey = ''1''\<rparr>"

definition demo_wallet_challenge :: string where
  "demo_wallet_challenge = replicate 43 CHR ''A''"

definition demo_sign_options :: jsval where
  "demo_sign_options = JObj [(''operation'', JStr ''JOB_VERIFY''), (''requireUserVerification'', JBool True)]"

lemma demo_word: "canonical_word (CHR ''0'' # CHR ''x'' # low_s) bound \<longleftrightarrow> 1 < bound"
proof -
  have "hex_of_length 64 low_s" by (simp add: low_s_def hex_of_length_def zero_digit list_all_zeros)
  moreover have "hex_number low_s = 1" by (simp only: low_s_def hex_number_zeros zero_digit)
  ultimately show ?thesis by (simp add: canonical_word_def)
qed

lemma demo_wallets_ok: "wallet_lib_ok demo_recovery demo_wallets"
  unfolding wallet_lib_ok_def signs_as_def demo_wallets_def
  by (simp add: demo_word demo_recovery_def SECP256K1_N_def SECP256K1_HALF_N_def hex_of_length_def zero_digit list_all_zeros)

theorem dev_wallet_signatures_accepted_witness:
  "\<exists>v fs. signChallenge demo_wallets demo_wallet_env ''D'' (JStr demo_wallet_challenge) demo_sign_options (\<lambda>_. None) = (Inr v, fs)"
proof -
  have "CHALLENGE_PATTERN demo_wallet_challenge" "explicit_operation demo_sign_options" "DEVICE_ID_PATTERN ''D''" by code_simp+
  moreover have "\<exists>w. wl_wallet demo_wallets (''0x'' @ we_randomKey demo_wallet_env) = Some w" by (simp add: demo_wallets_def)
  ultimately show ?thesis
    using dev_wallet_signatures_accepted [OF demo_wallets_ok, of "''D''" demo_wallet_env "''0123456789abcdef''" _ "\<lambda>_. None"
        demo_wallet_env demo_wallet_challenge demo_wallet_challenge demo_sign_options]
    by (fastforce simp: demo_wallet_env_def)
qed

end
