(* ===== verification/Schemas.thy ===== *)
theory Schemas
  imports Jobs Rbac Users EvmAdapter
begin

text \<open>
  The shape validators of \<^verbatim>\<open>shared/schemas/index.ts\<close> on values of type unknown, and the JSON form
  of the records they describe.  No validator accepts a value that is not an object; identities,
  wallets and assets of the model always have the shape, and a job that the jobs service creates
  has it exactly when the priority of the request is a declared one: the service only asks for a
  truthy priority.
\<close>

section \<open>Validators\<close>

definition is_text :: "jsval \<Rightarrow> bool" where
  "is_text v \<longleftrightarrow> as_str v \<noteq> None"

definition IDENTITY_STATUSES :: "string list" where
  "IDENTITY_STATUSES = [''PENDING'', ''ACTIVE'', ''SUSPENDED'', ''REVOKED'']"

definition WALLET_STATUSES :: "string list" where
  "WALLET_STATUSES = [''PENDING'', ''ACTIVE'', ''REVOKED'']"

text \<open>\<^verbatim>\<open>if (!ok) errors.push(message)\<close>.\<close>

definition unless :: "bool \<Rightarrow> string \<Rightarrow> string list" where
  "unless ok message = (if ok then [] else [message])"

definition validateIdentity :: "jsval \<Rightarrow> string list" where
  "validateIdentity ob =
     unless (is_text (opt_field ob ''identityId'')) ''identityId must be a string'' @
     unless (opt_field ob ''employeeId'' = JNull \<or> is_text (opt_field ob ''employeeId''))
       ''employeeId must be a string or null'' @
     unless (opt_field ob ''role'' = JNull \<or> isOneOf (opt_field ob ''role'') (map show_role ROLES))
       (''role must be one of '' @ join '', '' (map show_role ROLES) @ '' or null'') @
     unless (isOneOf (opt_field ob ''status'') IDENTITY_STATUSES) ''status is invalid''"

definition validateWallet :: "jsval \<Rightarrow> string list" where
  "validateWallet ob =
     unless (is_text (opt_field ob ''address'')) ''address must be a string'' @
     unless (is_text (opt_field ob ''identityId'')) ''identityId must be a string'' @
     unless (isOneOf (opt_field ob ''status'') WALLET_STATUSES) ''status is invalid''"

definition validateAuthorizationGrant :: "jsval \<Rightarrow> string list" where
  "validateAuthorizationGrant ob =
     unless (is_text (opt_field ob ''authorizationGrantId'')) ''authorizationGrantId must be a string'' @
     unless (is_text (opt_field ob ''actorIdentityId'')) ''actorIdentityId must be a string'' @
     unless (is_text (opt_field ob ''resourceId'')) ''resourceId must be a string'' @
     unless (is_text (opt_field ob ''grantedByIdentityId'')) ''grantedByIdentityId must be a string'' @
     unless (is_text (opt_field ob ''issuedAt'')) ''issuedAt must be an ISO 8601 string''"

definition validateAsset :: "jsval \<Rightarrow> string list" where
  "validateAsset ob =
     unless (is_text (opt_field ob ''assetId'')) ''assetId must be a string'' @
     unless (is_text (opt_field ob ''nftId'')) ''nftId must be a string'' @
     unless (is_text (opt_field ob ''ownerId'')) ''ownerId must be a string'' @
     unless (isOneOf (opt_field ob ''status'') (map show_asset_status ASSET_STATUSES)) ''status is invalid''"

definition validateJob :: "jsval \<Rightarrow> string list" where
  "validateJob ob =
     unless (is_text (opt_field ob ''jobId'')) ''jobId must be a string'' @
     unless (is_text (opt_field ob ''assetId'')) ''assetId must be a string'' @
     unless (isOneOf (opt_field ob ''status'') (map show_job_status JOB_STATUSES)) ''status is invalid'' @
     unless (isOneOf (opt_field ob ''priority'') JOB_PRIORITIES) ''priority is invalid''"

section \<open>The JSON form of the records\<close>

definition json_text :: "string option \<Rightarrow> jsval" where
  "json_text v = (case v of None \<Rightarrow> JNull | Some s \<Rightarrow> JStr s)"

definition identity_json :: "(date_str \<Rightarrow> string) \<Rightarrow> identity \<Rightarrow> jsval" where
  "identity_json d i = JObj [(''identityId'', JStr (id_identityId i)), (''employeeId'', json_text (id_employeeId i)),
     (''fullName'', JStr (id_fullName i)), (''role'', json_text (map_option show_role (id_role i))),
     (''department'', json_text (id_department i)), (''status'', JStr (show_identity_status (id_status i))),
     (''createdAt'', JStr (d (id_createdAt i))), (''verifiedAt'', json_text (map_option d (id_verifiedAt i))),
     (''verifiedBy'', json_text (id_verifiedBy i))]"

definition wallet_json :: "(date_str \<Rightarrow> string) \<Rightarrow> wallet \<Rightarrow> jsval" where
  "wallet_json d w = JObj [(''address'', JStr (wal_address w)), (''identityId'', JStr (wal_identityId w)),
     (''deviceId'', JStr (wal_deviceId w)), (''status'', JStr (show_wallet_status (wal_status w))),
     (''activatedAt'', json_text (map_option d (wal_activatedAt w))),
     (''revokedAt'', json_text (map_option d (wal_revokedAt w))),
     (''revokedReason'', json_text (wal_revokedReason w)), (''publicKey'', json_text (wal_publicKey w))]"

definition asset_json :: "asset \<Rightarrow> jsval" where
  "asset_json v = JObj ([(''assetId'', JStr (as_assetId v)), (''nftId'', JStr (as_nftId v)),
     (''assetType'', JStr (as_assetType v)), (''ownerId'', JStr (as_ownerId v)),
     (''custodianId'', JStr (as_custodianId v)), (''status'', JStr (show_asset_status (as_status v)))] @
     (case as_parentAssetId v of None \<Rightarrow> [] | Some p \<Rightarrow> [(''parentAssetId'', json_text p)]))"

definition job_json :: "(date_str \<Rightarrow> string) \<Rightarrow> job \<Rightarrow> jsval" where
  "job_json d j = JObj [(''jobId'', JStr (job_jobId j)), (''assetId'', JStr (job_assetId j)),
     (''createdBy'', JStr (job_createdBy j)), (''assignedTo'', JStr (job_assignedTo j)),
     (''verifierId'', job_verifierId j), (''status'', JStr (show_job_status (job_status j))),
     (''priority'', job_priority j), (''createdAt'', JStr (d (job_createdAt j))),
     (''completedAt'', json_text (map_option d (job_completedAt j)))]"

section \<open>What the validators accept\<close>

lemma unless_ok [simp]: "unless ok message = [] \<longleftrightarrow> ok"
  by (simp add: unless_def)

lemma is_text_JStr [simp]: "is_text (JStr s)"
  by (simp add: is_text_def)

lemma opt_field_JObj [simp]: "opt_field (JObj ob) k = fld ob k"
  by (simp add: opt_field_def)

lemma isOneOf_JStr [simp]: "isOneOf (JStr s) allowed \<longleftrightarrow> s \<in> set allowed"
  by (simp add: isOneOf_def)

lemma show_role_declared [simp]: "show_role r \<in> set (map show_role ROLES)"
  by (cases r) (simp_all add: ROLES_def)

lemma identity_status_declared [simp]: "show_identity_status st \<in> set IDENTITY_STATUSES"
  by (cases st) (simp_all add: IDENTITY_STATUSES_def)

lemma wallet_status_declared [simp]: "show_wallet_status st \<in> set WALLET_STATUSES"
  by (cases st) (simp_all add: WALLET_STATUSES_def)

lemma asset_status_declared [simp]: "show_asset_status st \<in> set (map show_asset_status ASSET_STATUSES)"
  by (cases st) (simp_all add: ASSET_STATUSES_def)

lemma job_status_declared [simp]: "show_job_status st \<in> set (map show_job_status JOB_STATUSES)"
  by (cases st) (simp_all add: JOB_STATUSES_def)

lemma validateIdentity_identity: "validateIdentity (identity_json d i) = []"
  by (cases "id_role i"; cases "id_employeeId i")
     (simp_all add: validateIdentity_def identity_json_def json_text_def fld_def del: set_map)

lemma validateWallet_wallet: "validateWallet (wallet_json d w) = []"
  by (simp add: validateWallet_def wallet_json_def fld_def)

lemma validateAsset_asset: "validateAsset (asset_json v) = []"
  by (simp add: validateAsset_def asset_json_def fld_def del: set_map)

lemma validateJob_job: "validateJob (job_json d j) = [] \<longleftrightarrow> isOneOf (job_priority j) JOB_PRIORITIES"
  by (simp add: validateJob_def job_json_def fld_def del: set_map)

text \<open>The validators reject every value that is not an object.\<close>

lemma validators_need_an_object:
  assumes "\<And>ob. v \<noteq> JObj ob"
  shows "validateIdentity v \<noteq> []" "validateWallet v \<noteq> []" "validateAuthorizationGrant v \<noteq> []"
    "validateAsset v \<noteq> []" "validateJob v \<noteq> []"
proof -
  have "\<not> is_text (opt_field v k)" for k
    using assms by (auto simp: opt_field_def is_text_def split: jsval.splits)
  then show "validateIdentity v \<noteq> []" "validateWallet v \<noteq> []" "validateAuthorizationGrant v \<noteq> []"
    "validateAsset v \<noteq> []" "validateJob v \<noteq> []"
    by (simp_all add: validateIdentity_def validateWallet_def validateAuthorizationGrant_def
        validateAsset_def validateJob_def)
qed

lemma create_priority:
  assumes "create svc en input a s = (Inr j, s')"
  shows "job_priority j = fld input ''priority''"
  using assms by (auto simp: create_def new_job_def run)

text \<open>
  A job that the service creates has the shape of a job exactly when the request names a declared
  priority; every other truthy value is stored too.
\<close>

lemma created_job_schema:
  assumes "create svc en input a s = (Inr j, s')"
  shows "validateJob (job_json d j) = [] \<longleftrightarrow> isOneOf (fld input ''priority'') JOB_PRIORITIES"
  using assms by (simp add: validateJob_job create_priority)

end
