(* ===== verification/Diagnostics.thy ===== *)
theory Diagnostics
  imports Auth
begin

text \<open>
  The error log of the application (\<^verbatim>\<open>app.ts\<close>, \<^verbatim>\<open>writeBackendErrorLog\<close>) and
  the origins it lets cross-origin requests come from.  The log never takes a device signature:
  it is the same for a request whose body is replaced by a masked one.
\<close>

section \<open>The error log\<close>

text \<open>
  A thrown value: an \<^verbatim>\<open>Error\<close> object with its class as \<open>error\<close>, the stack the engine
  recorded and the details of a \<^verbatim>\<open>BlockchainError\<close>, or any other value with its
  \<^verbatim>\<open>String\<close> form.
\<close>

record raised =
  rz_error :: error
  rz_name :: string
  rz_message :: string
  rz_stack :: "string option"
  rz_details :: jsval

datatype thrown = AnError raised | NotAnError string

record log_request =
  lr_env :: env
  lr_method :: string
  lr_originalUrl :: string
  lr_path :: string
  lr_requestId :: "string option"
  lr_user :: "user option"
  lr_body :: jsval

record log_entry =
  le_timestamp :: date_str
  le_method :: string
  le_path :: string
  le_requestId :: "string option"
  le_status :: int
  le_errorName :: string
  le_message :: string
  le_stack :: "string option"
  le_actorIdentity :: "string option"
  le_actorWallet :: "string option"
  le_signaturePresent :: bool
  le_signatureLength :: nat
  le_transactionType :: "string option"
  le_blockchainKind :: "chain_kind option"
  le_blockchainDetails :: jsval

definition thrown_status :: "thrown \<Rightarrow> int" where
  "thrown_status t = (case t of
     AnError r \<Rightarrow> (case http_error (rz_error r) of Some (status, _) \<Rightarrow> status | None \<Rightarrow> 500)
   | NotAnError _ \<Rightarrow> 500)"

definition blockchain_kind :: "thrown \<Rightarrow> chain_kind option" where
  "blockchain_kind t = (case t of
     AnError r \<Rightarrow> (case rz_error r of BlockchainError k _ \<Rightarrow> Some k | _ \<Rightarrow> None)
   | NotAnError _ \<Rightarrow> None)"

definition log_transactionType :: "string \<Rightarrow> string option" where
  "log_transactionType path = (if path = ''/assets'' then Some ''ASSET_MINT''
     else if path = ''/jobs'' then Some ''JOB_CREATE'' else None)"

definition error_log_entry :: "log_request \<Rightarrow> thrown \<Rightarrow> log_entry" where
  "error_log_entry rq t =
    (let signature = as_str (opt_field (lr_body rq) ''signature'') in
     \<lparr>le_timestamp = iso_now (lr_env rq),
      le_method = lr_method rq,
      le_path = (if lr_originalUrl rq \<noteq> [] then lr_originalUrl rq else lr_path rq),
      le_requestId = lr_requestId rq,
      le_status = thrown_status t,
      le_errorName = (case t of AnError r \<Rightarrow> rz_name r | NotAnError _ \<Rightarrow> ''UnknownError''),
      le_message = (case t of AnError r \<Rightarrow> rz_message r | NotAnError s \<Rightarrow> s),
      le_stack = (case t of AnError r \<Rightarrow> rz_stack r | NotAnError _ \<Rightarrow> None),
      le_actorIdentity = map_option usr_identityId (lr_user rq),
      le_actorWallet = map_option usr_walletAddress (lr_user rq),
      le_signaturePresent = (case signature of Some s \<Rightarrow> s \<noteq> [] | None \<Rightarrow> False),
      le_signatureLength = (case signature of Some s \<Rightarrow> length s | None \<Rightarrow> 0),
      le_transactionType = log_transactionType (lr_path rq),
      le_blockchainKind = blockchain_kind t,
      le_blockchainDetails = (case t of AnError r \<Rightarrow> (if blockchain_kind t \<noteq> None then rz_details r else JUndefined)
        | NotAnError _ \<Rightarrow> JUndefined)\<rparr>)"

text \<open>
  The file system may refuse to create the directory or to append: the entry is lost then, and
  nothing is thrown.
\<close>

definition writeBackendErrorLog :: "bool \<Rightarrow> log_request \<Rightarrow> thrown \<Rightarrow> log_entry list \<Rightarrow> log_entry list" where
  "writeBackendErrorLog writable rq t file = (if writable then file @ [error_log_entry rq t] else file)"

text \<open>The error handler: the status and the code of the response, and the log after it.\<close>

definition handle_error :: "bool \<Rightarrow> log_request \<Rightarrow> thrown \<Rightarrow> log_entry list \<Rightarrow> (int \<times> string) \<times> log_entry list" where
  "handle_error writable rq t file =
    ((case t of AnError r \<Rightarrow> serialize_error (rz_error r) | NotAnError _ \<Rightarrow> (500, ''INTERNAL_ERROR'')),
     writeBackendErrorLog writable rq t file)"

section \<open>Cross-origin requests\<close>

definition cors_setting :: "env \<Rightarrow> string option \<Rightarrow> string" where
  "cors_setting en configured = (case configured of Some v \<Rightarrow> v
     | None \<Rightarrow> if production en then [] else ''http://localhost:3000,http://127.0.0.1:3000'')"

text \<open>The option \<^verbatim>\<open>origin\<close> of the middleware, \<open>None\<close> for \<^verbatim>\<open>false\<close>.\<close>

definition cors_origins :: "env \<Rightarrow> string option \<Rightarrow> string list option" where
  "cors_origins en configured =
    (let origins = filter (\<lambda>v. v \<noteq> []) (map trim (split_comma (cors_setting en configured))) in
     if origins = [] then None else Some origins)"

section \<open>What the log and the response carry\<close>

text \<open>The request with a body of which only the length of the signature is left.\<close>

definition masked :: "log_request \<Rightarrow> log_request" where
  "masked rq = rq\<lparr>lr_body := JObj (case as_str (opt_field (lr_body rq) ''signature'') of
     None \<Rightarrow> [] | Some s \<Rightarrow> [(''signature'', JStr (replicate (length s) CHR ''*''))])\<rparr>"

lemma masked_fields [simp]:
  "lr_env (masked rq) = lr_env rq" "lr_method (masked rq) = lr_method rq" "lr_path (masked rq) = lr_path rq"
  "lr_originalUrl (masked rq) = lr_originalUrl rq" "lr_requestId (masked rq) = lr_requestId rq"
  "lr_user (masked rq) = lr_user rq"
  by (simp_all add: masked_def)

lemma masked_signature:
  "as_str (opt_field (lr_body (masked rq)) ''signature'') =
     map_option (\<lambda>s. replicate (length s) CHR ''*'') (as_str (opt_field (lr_body rq) ''signature''))"
  by (simp add: masked_def opt_field_def fld_def split: option.splits)

lemma error_log_entry_masked: "error_log_entry (masked rq) t = error_log_entry rq t"
proof (cases "as_str (opt_field (lr_body rq) ''signature'')")
  case None
  then show ?thesis by (simp add: error_log_entry_def masked_signature Let_def)
next
  case (Some s)
  then show ?thesis by (cases s) (simp_all add: error_log_entry_def masked_signature Let_def)
qed

lemma handle_error_status: "fst (fst (handle_error writable rq t file)) = thrown_status t"
  by (auto simp: handle_error_def thrown_status_def serialize_error_def split: thrown.splits option.splits)

lemma production_has_no_default_origin: "production en \<Longrightarrow> cors_origins en None = None"
  by (simp add: cors_origins_def cors_setting_def split_comma_def trim_def)

text \<open>
  Whatever was thrown, the response and the log are those of the same request with every
  character of its signature masked and the rest of its body gone, and a logged entry carries
  the status of the response.
\<close>

theorem error_log_hides_signatures:
  "handle_error writable rq t file = handle_error writable (masked rq) t file \<and>
   (\<forall>e. snd (handle_error writable rq t file) = file @ [e] \<longrightarrow>
      le_status e = fst (fst (handle_error writable rq t file)))"
proof -
  have "handle_error writable rq t file = handle_error writable (masked rq) t file"
    by (simp add: handle_error_def writeBackendErrorLog_def error_log_entry_masked)
  moreover have "le_status e = thrown_status t"
    if "snd (handle_error writable rq t file) = file @ [e]" for e
    using that by (auto simp: handle_error_def writeBackendErrorLog_def error_log_entry_def Let_def split: if_splits)
  ultimately show ?thesis by (simp add: handle_error_status)
qed

end
