(* ===== verification/Pages.thy ===== *)
theory Pages
  imports AssetRoutes JobRoutes AdminRoutes Governance
begin

text \<open>
  What the pages of the web application offer: the decisions of \<^verbatim>\<open>frontend/src/App.tsx\<close> and of the
  pages about sections, buttons and fields, as functions of the signed-in user and of the record
  a page shows.  The rendering is not modelled.  The lemmas compare each decision with the route
  that the button calls: what is hidden is refused, and where an offer is not honoured the lemma
  says so.
\<close>

section \<open>The application shell\<close>

datatype view =
    DashboardView | AssetsView | AssetView string | JobsView | JobView string | EmployeesView
  | AuditView string | ValidatorsView | ValidatorManagementView

record nav_item =
  nav_label :: string
  nav_view :: view
  nav_requires :: "action option"

definition NAV :: "nav_item list" where
  "NAV = [
     \<lparr>nav_label = ''Overview'', nav_view = DashboardView, nav_requires = None\<rparr>,
     \<lparr>nav_label = ''Assets'', nav_view = AssetsView, nav_requires = None\<rparr>,
     \<lparr>nav_label = ''Maintenance jobs'', nav_view = JobsView, nav_requires = None\<rparr>,
     \<lparr>nav_label = ''Employees'', nav_view = EmployeesView, nav_requires = Some CREATE_EMPLOYEE\<rparr>,
     \<lparr>nav_label = ''Network'', nav_view = ValidatorsView, nav_requires = Some VIEW_VALIDATOR_STATUS\<rparr>,
     \<lparr>nav_label = ''Validator management'', nav_view = ValidatorManagementView, nav_requires = Some MANAGE_VALIDATORS\<rparr>]"

text \<open>\<^verbatim>\<open>can(user.role, action)\<close>: no context is given.\<close>

definition offers :: "user \<Rightarrow> action \<Rightarrow> bool" where
  "offers u a \<longleftrightarrow> can (usr_role u) a no_context"

definition visible :: "user \<Rightarrow> nav_item list" where
  "visible u = filter (\<lambda>item. case nav_requires item of None \<Rightarrow> True | Some a \<Rightarrow> offers u a) NAV"

record app =
  app_user :: "user option"
  app_view :: view
  app_restoring :: bool

definition app_start :: app where
  "app_start = \<lparr>app_user = None, app_view = DashboardView, app_restoring = True\<rparr>"

text \<open>The answer of \<^verbatim>\<open>restoreSession\<close>: an error counts as no session.\<close>

definition app_restored :: "user option \<Rightarrow> app \<Rightarrow> app" where
  "app_restored session a = (case session of Some u \<Rightarrow> a\<lparr>app_user := Some u\<rparr> | None \<Rightarrow> a)\<lparr>app_restoring := False\<rparr>"

definition app_expired :: "app \<Rightarrow> app" where
  "app_expired a = a\<lparr>app_user := None\<rparr>"

definition app_login :: "user \<Rightarrow> app \<Rightarrow> app" where
  "app_login u a = a\<lparr>app_user := Some u, app_view := DashboardView\<rparr>"

definition app_go :: "view \<Rightarrow> app \<Rightarrow> app" where
  "app_go v a = a\<lparr>app_view := v\<rparr>"

definition app_sign_out :: "app \<Rightarrow> app" where
  "app_sign_out a = a\<lparr>app_user := None\<rparr>"

datatype screen = Restoring | SignIn | Shell "nav_item list" view

definition app_screen :: "app \<Rightarrow> screen" where
  "app_screen a = (if app_restoring a then Restoring
     else case app_user a of None \<Rightarrow> SignIn | Some u \<Rightarrow> Shell (visible u) (app_view a))"

section \<open>Jobs\<close>

record job_offers =
  jo_assign :: bool
  jo_start :: bool
  jo_complete :: bool
  jo_verify :: bool

definition canMaintain :: "user \<Rightarrow> job \<Rightarrow> bool" where
  "canMaintain u j \<longleftrightarrow> offers u PERFORM_MAINTENANCE \<and> job_assignedTo j = usr_identityId u"

definition job_actions :: "user \<Rightarrow> job \<Rightarrow> job_offers" where
  "job_actions u j = \<lparr>
     jo_assign = (offers u ASSIGN_TECHNICIAN \<and> job_status j \<in> set [CREATED, REJECTED]),
     jo_start = (canMaintain u j \<and> job_status j = ASSIGNED),
     jo_complete = (canMaintain u j \<and> job_status j = IN_PROGRESS),
     jo_verify = (offers u VERIFY_MAINTENANCE \<and> job_status j = COMPLETED)\<rparr>"

section \<open>Assets\<close>

definition canManage :: "user \<Rightarrow> bool" where
  "canManage u \<longleftrightarrow> offers u REGISTER_ASSET"

text \<open>The state that the page preselects, and the options it lists.\<close>

fun preselected :: "asset_status \<Rightarrow> asset_status option" where
  "preselected ACTIVE = Some IN_MAINTENANCE"
| "preselected IN_MAINTENANCE = Some ACTIVE"
| "preselected DECOMMISSIONED = None"

fun stateOptions :: "asset_status \<Rightarrow> asset_status list" where
  "stateOptions ACTIVE = [IN_MAINTENANCE, DECOMMISSIONED]"
| "stateOptions IN_MAINTENANCE = [ACTIVE, DECOMMISSIONED]"
| "stateOptions DECOMMISSIONED = []"

text \<open>\<open>answer\<close> is what \<^verbatim>\<open>getCurrentUserGrant\<close> returned; \<open>None\<close> before it did.\<close>

definition transferAuthorized :: "user \<Rightarrow> grant option option \<Rightarrow> bool" where
  "transferAuthorized u answer = can (usr_role u) TRANSFER_ASSET
     \<lparr>pc_actorId = None, pc_resourceOwnerId = None,
      pc_authorizationGrantId = (case answer of Some (Some g) \<Rightarrow> Some (gr_authorizationGrantId g) | _ \<Rightarrow> None),
      pc_explicitlyAuthorized = Some (case answer of Some (Some g) \<Rightarrow> True | _ \<Rightarrow> False)\<rparr>"

section \<open>Validators\<close>

definition offers_removal :: "registration \<Rightarrow> bool" where
  "offers_removal r \<longleftrightarrow> reg_status r = R_ACTIVE"

definition offers_restore :: "registration \<Rightarrow> bool" where
  "offers_restore r \<longleftrightarrow> reg_status r = R_REMOVED"

text \<open>\<^verbatim>\<open>removalHeight: validator.activationHeight + 1\<close>.\<close>

definition offered_removalHeight :: "registration \<Rightarrow> jsnum" where
  "offered_removalHeight r = Fin (of_int (reg_activationHeight r + 1))"

definition removal_reason :: jsval where "removal_reason = JStr ''Administrator removal''"
definition restore_reason :: jsval where "restore_reason = JStr ''Administrator recovery''"

section \<open>Hidden means refused\<close>

lemma roles_offered:
  "can (usr_role u) ASSIGN_TECHNICIAN c \<longleftrightarrow> offers u ASSIGN_TECHNICIAN"
  "can (usr_role u) CREATE_JOB c \<longleftrightarrow> offers u CREATE_JOB"
  "can (usr_role u) PERFORM_MAINTENANCE c \<longleftrightarrow> offers u PERFORM_MAINTENANCE"
  "can (usr_role u) VERIFY_MAINTENANCE c \<longleftrightarrow> offers u VERIFY_MAINTENANCE"
  by (simp_all add: offers_def permitted_roles)

lemma manage_offered:
  "can (usr_role u) REGISTER_ASSET c \<longleftrightarrow> offers u REGISTER_ASSET"
  "can (usr_role u) CREATE_EMPLOYEE c \<longleftrightarrow> offers u CREATE_EMPLOYEE"
  "can (usr_role u) MANAGE_VALIDATORS c \<longleftrightarrow> offers u MANAGE_VALIDATORS"
  "can (usr_role u) VIEW_VALIDATOR_STATUS c \<longleftrightarrow> offers u VIEW_VALIDATOR_STATUS"
  by (cases "usr_role u"; simp add: offers_def can_def permissionFor_def ROLES_def)+

text \<open>What the job page shows the user of the session for the stored job.\<close>

definition job_offer ::
  "('c, 'g) backend_svc \<Rightarrow> http_request \<Rightarrow> ('c, 'g) world \<Rightarrow> (job_offers \<Rightarrow> bool) \<Rightarrow> bool" where
  "job_offer bk rq w sel = (case (session_of bk rq w, js_get (wd_jobs w) (hq_id rq)) of
     (Some u, Some j) \<Rightarrow> sel (job_actions u j) | _ \<Rightarrow> False)"

lemma job_offerI:
  "session_of bk rq w = Some u \<Longrightarrow> js_get (wd_jobs w) (hq_id rq) = Some j \<Longrightarrow> sel (job_actions u j) \<Longrightarrow> job_offer bk rq w sel"
  by (simp add: job_offer_def)

lemma assign_offered: "post_assign bk rq w = (Inr x, w') \<Longrightarrow> job_offer bk rq w jo_assign"
  unfolding post_assign_def
  by (drule authed_ok) (auto simp: run assign_def roles_offered job_actions_def intro!: job_offerI)

lemma start_offered: "post_start bk rq w = (Inr x, w') \<Longrightarrow> job_offer bk rq w jo_start"
  unfolding post_start_def
  by (drule authed_ok)
    (auto simp: run start_def roles_offered job_actions_def canMaintain_def route_actor_def intro!: job_offerI)

lemma complete_offered:
  assumes "post_complete bk rq w = (Inr x, w')"
  shows "job_offer bk rq w jo_complete"
proof -
  from authed_ok [OF assms [unfolded post_complete_def]] obtain u v w1 h where
    u: "session_of bk rq w = Some u" "offers u PERFORM_MAINTENANCE"
    and hash: "complete_hash bk rq u (after_session bk rq w) = (Inr v, w1)"
    and fin: "on_jobs bk (\<lambda>sv. complete sv (hq_env rq) (hq_id rq) h (route_actor rq u)) w1 = (Inr x, w')"
    by (auto simp: thenE_ok bindE_ok permit_ok required_ok roles_offered)
  have "keeps (\<lambda>w1. wd_jobs w1 = wd_jobs w) (complete_hash bk rq u)"
    by (auto simp: keeps_def complete_hash_def stored_hash_def Let_def exec_defs on_evidence_def
        split: option.splits prod.splits sum.splits)
  with hash have "wd_jobs w1 = wd_jobs w" by (auto dest: keepsD)
  with on_jobs_part [OF fin] u show ?thesis
    by (auto simp: complete_def run job_actions_def canMaintain_def route_actor_def intro!: job_offerI)
qed

lemma verify_offered:
  "post_approve bk rq w = (Inr x, w') \<Longrightarrow> job_offer bk rq w jo_verify"
  "post_reject bk rq w = (Inr x, w') \<Longrightarrow> job_offer bk rq w jo_verify"
  unfolding post_approve_def post_reject_def
  by (drule authed_ok; auto simp: run approve_def reject_def roles_offered job_actions_def intro!: job_offerI)+

text \<open>The asset page, and the sections of the shell.\<close>

definition manages :: "('c, 'g) backend_svc \<Rightarrow> http_request \<Rightarrow> ('c, 'g) world \<Rightarrow> bool" where
  "manages bk rq w = (case session_of bk rq w of None \<Rightarrow> False | Some u \<Rightarrow> canManage u)"

definition section_offer :: "('c, 'g) backend_svc \<Rightarrow> http_request \<Rightarrow> ('c, 'g) world \<Rightarrow> view \<Rightarrow> bool" where
  "section_offer bk rq w v = (case session_of bk rq w of None \<Rightarrow> False | Some u \<Rightarrow> v \<in> nav_view ` set (visible u))"

lemma visible_sections:
  "EmployeesView \<in> nav_view ` set (visible u) \<longleftrightarrow> offers u CREATE_EMPLOYEE"
  "ValidatorsView \<in> nav_view ` set (visible u) \<longleftrightarrow> offers u VIEW_VALIDATOR_STATUS"
  "ValidatorManagementView \<in> nav_view ` set (visible u) \<longleftrightarrow> offers u MANAGE_VALIDATORS"
  by (auto simp: visible_def NAV_def)

lemma admin_offered: "requireRole [ADMIN] (Some u) = Inr x \<Longrightarrow> offers u CREATE_EMPLOYEE"
  by (auto simp: requireRole_def offers_def can_def permissionFor_def ROLES_def split: if_splits)

lemma manage_needed:
  "post_state bk rq w = (Inr x, w') \<Longrightarrow> manages bk rq w"
  "post_components bk rq w = (Inr x, w') \<Longrightarrow> manages bk rq w"
  "delete_component bk rq w = (Inr x, w') \<Longrightarrow> manages bk rq w"
  unfolding post_state_def post_components_def delete_component_def
  by (drule authed_ok; auto simp: manages_def canManage_def thenE_ok permit_ok manage_offered)+

text \<open>The options for the next state are the transitions that the service accepts.\<close>

lemma options_exact: "stateOptions st = asset_transitions st" "(preselected st = None) = (asset_transitions st = [])"
  by (cases st; simp)+


section \<open>Offers that are honoured\<close>

text \<open>What is left of a request once every guard of the routes and of the service has passed.\<close>

definition job_write ::
  "('c, 'g) backend_svc \<Rightarrow> http_request \<Rightarrow> user \<Rightarrow> transaction_type \<Rightarrow> jsobj \<Rightarrow> job \<Rightarrow> ('c, 'g, job) route" where
  "job_write bk rq u ty p j = on_jobs bk (\<lambda>sv. thenE (jobs_submit sv (hq_env rq) ty (route_actor rq u) p) (saveJob j))"

lemma authed_session:
  "session_of bk rq w = Some u \<Longrightarrow> authed bk rq k w = k u (after_session bk rq w)"
  by (auto simp: authed_def session_of_def after_session_def requireSession_def pass_def exec_defs split: prod.splits sum.splits)

lemma permit_passed:
  "can (usr_role u) a (with_actor (usr_identityId u) no_context) \<Longrightarrow> thenE (permit a u) k w = k w"
  by (rule thenE_Inr) (simp add: permit_ok)

lemma found_job:
  "js_get (wd_jobs w) i = Some j \<Longrightarrow> bindE (findJob i) k (jobs_part w) = k j (jobs_part w)"
  by (rule bindE_Inr) (simp add: findJob_ok)

lemma go_on: "bindE (ret x) k = k x" "thenE (ret x) m = m"
  by (simp_all add: exec_defs fun_eq_iff)

lemma on_jobs_same:
  "f (jobs_service bk w) (jobs_part w) = g (jobs_service bk w) (jobs_part w) \<Longrightarrow> on_jobs bk f w = on_jobs bk g w"
  by (simp add: on_jobs_def)

lemmas passed_guards = found_job go_on throwIf_def assertTransition_def requireAssignedTechnician_def
  requireIndependentVerifier_def required_def




section \<open>Offers that are not honoured\<close>

text \<open>
  The job page offers verification to the very technician who did the work, and the backend
  refuses both the approval and the rejection.
\<close>

lemma own_verification_offered:
  assumes "session_of bk rq w = Some u" "js_get (wd_jobs w) (hq_id rq) = Some j"
    and "usr_role u = ENGINEER" "job_status j = COMPLETED" "job_assignedTo j = usr_identityId u"
  shows "job_offer bk rq w jo_verify \<and> (\<exists>e. fst (post_approve bk rq w) = Inl e) \<and> (\<exists>e. fst (post_reject bk rq w) = Inl e)"
proof (intro conjI)
  show "job_offer bk rq w jo_verify"
    using assms by (simp add: job_offer_def job_actions_def offers_def permitted_roles)
  have "post_approve bk rq w \<noteq> (Inr x, w')" for x w'
    using authed_ok [of bk rq _ w x w'] assms
    by (auto simp: post_approve_def run approve_def independent_def route_actor_def dest!: authed_ok)
  then show "\<exists>e. fst (post_approve bk rq w) = Inl e"
    by (cases "post_approve bk rq w"; cases "fst (post_approve bk rq w)") auto
  have "post_reject bk rq w \<noteq> (Inr x, w')" for x w'
    using assms by (auto simp: post_reject_def run reject_def independent_def route_actor_def dest!: authed_ok)
  then show "\<exists>e. fst (post_reject bk rq w) = Inl e"
    by (cases "post_reject bk rq w"; cases "fst (post_reject bk rq w)") auto
qed

text \<open>The asset page offers a transfer to an engineer with a grant, but its write begins with the preparation.\<close>

lemma offered_transfer_not_prepared:
  assumes "session_of bk rq w = Some u" "usr_role u = ENGINEER" "gr_authorizationGrantId g \<noteq> []"
  shows "transferAuthorized u (Some (Some g)) \<and>
    (\<forall>ctx. prepare_context bk rq u w1 = (Inr ctx, w2) \<longrightarrow> \<not> can (usr_role u) TRANSFER_ASSET (with_actor (usr_identityId u) ctx))"
  using assms by (auto simp: transferAuthorized_def transfer_roles prepare_context_def bindE_ok ret_def with_actor_def)

text \<open>
  A technician may read the history of an asset through an own job, but the asset page decides
  without a context and never shows the button.
\<close>

lemma own_audit_hidden:
  assumes "usr_role u = TECHNICIAN"
  shows "\<not> offers u VIEW_AUDIT_HISTORY"
    and "can (usr_role u) VIEW_AUDIT_HISTORY (with_actor i (no_context\<lparr>pc_resourceOwnerId := Some i\<rparr>))"
  using assms by (simp_all add: offers_def can_def permissionFor_def ROLES_def no_context_def with_actor_def)

text \<open>
  C39. The validator page offers the removal of an active validator for the height after its
  activation.  Once the chain has moved on by a block since the page was loaded, the backend
  refuses every such request, since a removal must lie above the current height: a validator
  cannot be removed from the page.
\<close>

theorem offered_removal_refused:
  assumes "list_validators svc s = (Inr rs, s1)" "r \<in> set rs" "offers_removal r"
    and "getStatus (vsv_chain svc) (us_chain s) = Inr st" "keyed reg_registrationId (vregs s)"
    and "js_get (vregs s) (reg_registrationId r) = Some r0"
    and "reg_status r0 = R_PENDING \<or> reg_activationHeight r0 \<le> cs_height st"
    and "vregs s' = vregs s" "getStatus (vsv_chain svc) (us_chain s') = Inr st'" "cs_height st < cs_height st'"
  shows "\<exists>e. fst (removeValidator svc en who (reg_registrationId r) (offered_removalHeight r) removal_reason s') = Inl e"
proof (rule ccontr)
  let ?out = "removeValidator svc en who (reg_registrationId r) (offered_removalHeight r) removal_reason s'"
  assume "\<not> ?thesis"
  then obtain x s2 where out: "?out = (Inr x, s2)" by (cases ?out; cases "fst ?out") auto
  from assms(1,2,4) obtain r1 where r1: "r1 \<in> set (js_values (vregs s))" "r = effectiveRegistration r1 (cs_height st)"
    by (auto simp: list_validators_def chain_head_def chain_read_def look_def run validators_list_def vregs_def)
  with assms(5,6) have "r1 = r0" using keyed_values [OF assms(5)] by (auto simp: effectiveRegistration_def)
  with r1 assms(3,7) have active: "reg_activationHeight r0 \<le> cs_height st" "reg_activationHeight r = reg_activationHeight r0"
    by (auto simp: offers_removal_def effectiveRegistration_def effective_status_def split: if_splits)
  from out assms(9) have "\<not> num_le (offered_removalHeight r) (cs_height st')"
    by (auto simp: removeValidator_def run chain_head_def chain_read_def)
  with active assms(10) show False by (simp add: offered_removalHeight_def)
qed

text \<open>A chain whose height is the number of its assets.\<close>

definition growing_svc :: "mock_chain validator_svc" where
  "growing_svc = \<lparr>vsv_chain = mock_api\<lparr>getStatus := (\<lambda>c. Inr (mock_status\<lparr>cs_height := int (length (mc_assets c))\<rparr>))\<rparr>,
     vsv_isAddress = (\<lambda>a. a \<noteq> []), vsv_email = \<lparr>em_provider = None, em_host = None, em_from = None\<rparr>\<rparr>"

definition demo_validator :: registration where
  "demo_validator = \<lparr>reg_registrationId = ''R'', reg_validatorId = ''0xV'', reg_identityId = ''M'',
     reg_walletAddress = ''SYSTEM'', reg_nodeId = ''0xV'', reg_nodeAddress = ''n'', reg_publicKey = ''p'',
     reg_signingPublicKey = ''q'', reg_status = R_PENDING, reg_requestedAt = Iso 0,
     reg_activationHeight = 0, reg_removalHeight = None, reg_removalReason = None,
     reg_txHash = None, reg_blockNumber = None\<rparr>"

definition demo_block :: "nat \<Rightarrow> mock_chain users_state" where
  "demo_block n = (demo_users (validators_save demo_validator demo_registration))\<lparr>us_chain :=
     mock_init\<lparr>mc_assets := replicate n (''P'', \<lparr>as_assetId = ''P'', as_nftId = ''N'', as_assetType = ''X'', as_ownerId = ''M'',
       as_custodianId = ''M'', as_parentAssetId = None, as_status = ACTIVE\<rparr>)\<rparr>\<rparr>"

theorem offered_removal_refused_witness:
  "offers_removal (effectiveRegistration demo_validator 0) \<and>
   (\<exists>e. fst (removeValidator growing_svc demo_env ''M'' ''R'' (offered_removalHeight demo_validator) removal_reason (demo_block 1)) = Inl e)"
proof
  let ?r = "effectiveRegistration demo_validator 0"
  have parts: "vregs (demo_block n) = [(''R'', demo_validator)]" "length (mc_assets (us_chain (demo_block n))) = n" for n
    by (simp_all add: vregs_def demo_block_def demo_users_def demo_registration_def empty_store_def save_defs demo_validator_def)
  show offered: "offers_removal ?r" by code_simp
  have "list_validators growing_svc (demo_block 0) = (Inr [?r], demo_block 0)"
    using parts by (simp add: list_validators_def chain_head_def chain_read_def look_def exec_defs growing_svc_def validators_list_def
        vregs_def)
  from offered_removal_refused [OF this _ offered, of _ demo_validator "demo_block 1" _ demo_env "''M''"] parts
  show "\<exists>e. fst (removeValidator growing_svc demo_env ''M'' ''R'' (offered_removalHeight demo_validator) removal_reason (demo_block 1)) = Inl e"
    by (simp add: growing_svc_def effectiveRegistration_def demo_validator_def keyed_def offered_removalHeight_def)
qed

end
