(* ===== verification/PageFlows.thy ===== *)
theory PageFlows
  imports Client Pages
begin

text \<open>
  The handlers of the pages: what a click or the opening of a page sends through the API client
  and how it changes the state of the page.  A handler catches every error, so it is a function
  on the client and the page; the answers are the values the backend sent.
\<close>

section \<open>Handlers\<close>

type_synonym ('n, 'p) handler = "'n client \<times> 'p \<Rightarrow> 'n client \<times> 'p"

text \<open>A setter of the page's state.\<close>

definition change :: "('p \<Rightarrow> 'p) \<Rightarrow> ('n, 'p) handler" where
  "change f = (\<lambda>(c, p). (c, f p))"

text \<open>\<^verbatim>\<open>try { x = await g; ... } catch (e) { ... }\<close>, where the rest of the block cannot throw.\<close>

definition awaits ::
  "('n, 'a) client_m \<Rightarrow> ('a \<Rightarrow> ('n, 'p) handler) \<Rightarrow> (client_error \<Rightarrow> ('n, 'p) handler) \<Rightarrow> ('n, 'p) handler" where
  "awaits g ok bad = (\<lambda>(c, p). case g c of (Inr x, c') \<Rightarrow> ok x (c', p) | (Inl e, c') \<Rightarrow> bad e (c', p))"

text \<open>
  \<^verbatim>\<open>Promise.all\<close> of two requests: both are sent, the first failure is the result.
  \<^verbatim>\<open>Promise.allSettled\<close> gives each result.
\<close>

definition all_settled :: "('n, 'a) client_m \<Rightarrow> ('n, client_error + 'a) client_m" where
  "all_settled g = (\<lambda>c. case g c of (r, c') \<Rightarrow> (Inr r, c'))"

definition both :: "('n, 'a) client_m \<Rightarrow> ('n, 'b) client_m \<Rightarrow> ('n, 'a \<times> 'b) client_m" where
  "both f g = bindE (all_settled f) (\<lambda>x. bindE (all_settled g) (\<lambda>y. query (\<lambda>_. case x of Inl e \<Rightarrow> Inl e
     | Inr a \<Rightarrow> (case y of Inl e \<Rightarrow> Inl e | Inr b \<Rightarrow> Inr (a, b)))))"

text \<open>\<^verbatim>\<open>Promise.all(xs.map(f))\<close>.\<close>

fun all_of :: "('n, 'a) client_m list \<Rightarrow> ('n, 'a list) client_m" where
  "all_of [] = ret []"
| "all_of (f # fs) = bindE (both f (all_of fs)) (\<lambda>(x, xs). ret (x # xs))"

text \<open>
  The notice a page shows: a value, displayed as text, and a text after it.  An empty text is no
  notice.  \<^verbatim>\<open>e instanceof Error ? e.message : fallback\<close> is \<open>message_of\<close>.
\<close>

type_synonym notice = "jsval \<times> string"

definition no_notice :: notice where "no_notice = (JStr [], [])"

fun message_of :: "string \<Rightarrow> client_error \<Rightarrow> notice" where
  "message_of fallback (HttpApiError st c m) = (m, [])"
| "message_of fallback (DeviceWalletError r m) = (m, [])"
| "message_of fallback (DOMException name m) = (JStr m, [])"
| "message_of fallback (ScriptError m) = (JStr m, [])"
| "message_of fallback Thrown = (JStr fallback, [])"

text \<open>The pages that answer 501 with a text of their own.\<close>

definition message_or_501 :: "string \<Rightarrow> string \<Rightarrow> client_error \<Rightarrow> notice" where
  "message_or_501 missing_text fallback e = (case e of
     HttpApiError st c m \<Rightarrow> if st = 501 then (JStr missing_text, []) else (m, [])
   | _ \<Rightarrow> message_of fallback e)"

lemma awaits_cases:
  "(\<And>x c1. g c = (Inr x, c1) \<Longrightarrow> P (ok x (c1, p))) \<Longrightarrow> (\<And>e c1. g c = (Inl e, c1) \<Longrightarrow> P (bad e (c1, p))) \<Longrightarrow>
     P (awaits g ok bad (c, p))"
  by (auto simp: awaits_def split: prod.splits sum.splits)

section \<open>Signing in\<close>

datatype login_mode = Landing | Initialize | WalletSetup | Pending

text \<open>\<open>lg_user\<close> is the user handed to \<^verbatim>\<open>onLogin\<close>.\<close>

record login_page =
  lg_mode :: login_mode
  lg_loading :: bool
  lg_error :: notice
  lg_fullName :: string
  lg_employeeId :: string
  lg_department :: string
  lg_registration :: "jsval option"
  lg_user :: "jsval option"

text \<open>\<^verbatim>\<open>fail\<close>: the message of an API error is followed by its status.\<close>

definition login_fail :: "string \<Rightarrow> client_error \<Rightarrow> ('n, login_page) handler" where
  "login_fail fallback e = change (\<lambda>p. p\<lparr>lg_error := (case e of
     HttpApiError st c m \<Rightarrow> (m, if st = 0 then [] else '' ('' @ show_int st @ '')'')
   | _ \<Rightarrow> message_of fallback e)\<rparr>)"

definition sign_in_request :: "'n client_svc \<Rightarrow> ('n, jsval) client_m" where
  "sign_in_request cv =
     bindE (wb_getIdentity (bridge cv)) (\<lambda>i.
     bindE (prop_of i ''deviceId'') (\<lambda>device.
     bindE (apiClient cv (RequestAuthenticationChallenge device)) (\<lambda>ch.
     bindE (prop_of ch ''challenge'') (\<lambda>text.
     bindE (wallet_sign cv text ''AUTHENTICATION'') (\<lambda>sg.
     bindE (apiClient cv (Login (JObj [(''deviceId'', device), (''challengeId'', opt_field ch ''challengeId''),
       (''publicKey'', opt_field i ''publicKey''), (''signature'', JStr sg)]))) (\<lambda>session.
     prop_of session ''user''))))))"

definition signIn :: "'n client_svc \<Rightarrow> ('n, login_page) handler" where
  "signIn cv = change (\<lambda>p. p\<lparr>lg_loading := False\<rparr>) \<circ>
     awaits (sign_in_request cv) (\<lambda>u. change (\<lambda>p. p\<lparr>lg_user := Some u\<rparr>)) (login_fail ''Device sign in was not completed.'') \<circ>
     change (\<lambda>p. p\<lparr>lg_loading := True, lg_error := no_notice\<rparr>)"

definition initialize :: "login_page \<Rightarrow> login_page" where
  "initialize p = (if blank (lg_fullName p) then p\<lparr>lg_error := (JStr ''Full name is required.'', [])\<rparr> else p\<lparr>lg_mode := WalletSetup\<rparr>)"

text \<open>\<^verbatim>\<open>s || undefined\<close>.\<close>

definition or_undefined :: "string \<Rightarrow> jsval" where
  "or_undefined s = (if s = [] then JUndefined else JStr s)"

text \<open>The device metadata of the page is the empty object.\<close>

definition generate_request :: "'n client_svc \<Rightarrow> login_page \<Rightarrow> ('n, jsval) client_m" where
  "generate_request cv p =
     bindE (wb_getIdentity (bridge cv)) (\<lambda>i.
     bindE (prop_of i ''deviceId'') (\<lambda>device.
     bindE (apiClient cv (RequestProvisioningChallenge (JObj [(''deviceId'', device), (''deviceMetadata'', JObj [])]))) (\<lambda>ch.
     bindE (prop_of ch ''challenge'') (\<lambda>text.
     bindE (wallet_sign cv text ''WALLET_INITIALIZATION'') (\<lambda>sg.
     apiClient cv (InitializeAccount (JObj [(''fullName'', JStr (lg_fullName p)),
       (''employeeId'', or_undefined (lg_employeeId p)), (''department'', or_undefined (lg_department p)),
       (''deviceId'', device), (''publicKey'', opt_field i ''publicKey''), (''walletAddress'', opt_field i ''walletAddress''),
       (''challengeId'', opt_field ch ''challengeId''), (''signature'', JStr sg), (''deviceMetadata'', JObj [])])))))))"

definition generateWallet :: "'n client_svc \<Rightarrow> ('n, login_page) handler" where
  "generateWallet cv = change (\<lambda>p. p\<lparr>lg_loading := False\<rparr>) \<circ>
     (\<lambda>(c, p). awaits (generate_request cv p) (\<lambda>v. change (\<lambda>p. p\<lparr>lg_registration := Some v, lg_mode := Pending\<rparr>))
        (login_fail ''Account initialization was not completed.'') (c, p)) \<circ>
     change (\<lambda>p. p\<lparr>lg_loading := True, lg_error := no_notice\<rparr>)"

lemma wallet_sign_ok:
  assumes "wallet_sign cv text op s = (Inr sg, s')"
  shows "\<exists>r. wb_sign (bridge cv) text op s = (Inr (Some r), s') \<and> ws_signature r = JStr sg \<and> sg \<noteq> [] \<and> verified_result cv r"
  using assms by (auto simp: wallet_sign_def bindE_ok accept_signature_ok mapping_error_def split: prod.splits sum.splits)

text \<open>
  C28. The page signs a user in only with the device: the user handed to the application is the one
  in the backend's answer to a login that carried the device's identity, the challenge the backend issued for
  this device, and a signature that the device wallet made of this very challenge together with a
  user verification (in a production build the wallet's own); the token of that answer is the
  session.  Whatever happens, the page stops loading.
\<close>

theorem sign_in_is_verified:
  assumes "signIn cv (c, p) = (c', p')"
  shows "\<not> lg_loading p' \<and> (lg_user p' \<noteq> lg_user p \<longrightarrow> (\<exists>i ch r sg session s1 s2 s3 s4.
    wb_getIdentity (bridge cv) c = (Inr i, s1) \<and>
    json_call cv ''/auth/login-challenge'' (JObj [(''deviceId'', opt_field i ''deviceId'')]) False s1 = (Inr ch, s2) \<and>
    wb_sign (bridge cv) (opt_field ch ''challenge'') ''AUTHENTICATION'' s2 = (Inr (Some r), s3) \<and>
    ws_signature r = JStr sg \<and> sg \<noteq> [] \<and> verified_result cv r \<and> (cv_dev cv \<or> ws_userVerified r = JBool True) \<and>
    json_call cv ''/auth/login'' (JObj [(''deviceId'', opt_field i ''deviceId''), (''challengeId'', opt_field ch ''challengeId''),
      (''publicKey'', opt_field i ''publicKey''), (''signature'', JStr sg)]) False s3 = (Inr session, s4) \<and>
    lg_user p' = Some (opt_field session ''user'') \<and> c' = saveToken (as_str (opt_field session ''token'')) s4))"
proof (intro conjI impI)
  show "\<not> lg_loading p'" using assms by (auto simp: signIn_def change_def split: prod.splits)
  assume new: "lg_user p' \<noteq> lg_user p"
  with assms obtain u where "sign_in_request cv c = (Inr u, c')" "lg_user p' = Some u"
    by (auto simp: signIn_def change_def awaits_def login_fail_def split: prod.splits sum.splits)
  then show "\<exists>i ch r sg session s1 s2 s3 s4.
    wb_getIdentity (bridge cv) c = (Inr i, s1) \<and>
    json_call cv ''/auth/login-challenge'' (JObj [(''deviceId'', opt_field i ''deviceId'')]) False s1 = (Inr ch, s2) \<and>
    wb_sign (bridge cv) (opt_field ch ''challenge'') ''AUTHENTICATION'' s2 = (Inr (Some r), s3) \<and>
    ws_signature r = JStr sg \<and> sg \<noteq> [] \<and> verified_result cv r \<and> (cv_dev cv \<or> ws_userVerified r = JBool True) \<and>
    json_call cv ''/auth/login'' (JObj [(''deviceId'', opt_field i ''deviceId''), (''challengeId'', opt_field ch ''challengeId''),
      (''publicKey'', opt_field i ''publicKey''), (''signature'', JStr sg)]) False s3 = (Inr session, s4) \<and>
    lg_user p' = Some (opt_field session ''user'') \<and> c' = saveToken (as_str (opt_field session ''token'')) s4"
    by (fastforce simp: sign_in_request_def bindE_ok prop_of_ok thenE_ok modifyS_run ret_run login_body_def
        verified_result_def dest!: wallet_sign_ok)
qed

section \<open>The job page\<close>

record job_page =
  jp_job :: jsval
  jp_evidence :: "jsval list"
  jp_selected :: string
  jp_error :: notice
  jp_technician :: string
  jp_reason :: string
  jp_busy :: string

definition job_page_start :: job_page where
  "job_page_start = \<lparr>jp_job = JNull, jp_evidence = [], jp_selected = [], jp_error = no_notice, jp_technician = [],
     jp_reason = [], jp_busy = []\<rparr>"

definition arr_of :: "jsval \<Rightarrow> jsval list" where
  "arr_of v = (case v of JArr xs \<Rightarrow> xs | _ \<Rightarrow> [])"

definition fails :: "string \<Rightarrow> client_error \<Rightarrow> ('n, job_page) handler" where
  "fails fallback e = change (\<lambda>p. p\<lparr>jp_error := message_of fallback e\<rparr>)"

definition load_job :: "'n client_svc \<Rightarrow> string \<Rightarrow> ('n, job_page) handler" where
  "load_job cv i = awaits (apiClient cv (GetJob i))
     (\<lambda>next. (if truthy next then awaits (apiClient cv (GetEvidence i)) (\<lambda>es. change (\<lambda>p. p\<lparr>jp_evidence := arr_of es\<rparr>))
                (fails ''Evidence is unavailable.'') else id) \<circ> change (\<lambda>p. p\<lparr>jp_job := next\<rparr>))
     (fails ''Unable to load job.'')"

definition job_action :: "'n client_svc \<Rightarrow> string \<Rightarrow> string \<Rightarrow> api_call \<Rightarrow> ('n, job_page) handler" where
  "job_action cv i name call = change (\<lambda>p. p\<lparr>jp_busy := []\<rparr>) \<circ>
     awaits (apiClient cv call) (\<lambda>_. load_job cv i) (fails ''Action failed.'') \<circ>
     change (\<lambda>p. p\<lparr>jp_busy := name, jp_error := no_notice\<rparr>)"

definition upload :: "'n client_svc \<Rightarrow> string \<Rightarrow> string \<Rightarrow> ('n, job_page) handler" where
  "upload cv i file = change (\<lambda>p. p\<lparr>jp_busy := []\<rparr>) \<circ>
     awaits (bindE (apiClient cv (UploadEvidence i file)) (\<lambda>item. bindE (prop_of item ''evidenceId'') (\<lambda>e. ret (item, e))))
       (\<lambda>(item, e). change (\<lambda>p. p\<lparr>jp_evidence := item # jp_evidence p, jp_selected := (case e of JStr s \<Rightarrow> s | _ \<Rightarrow> [])\<rparr>))
       (fails ''Evidence upload failed.'') \<circ>
     change (\<lambda>p. p\<lparr>jp_busy := ''upload'', jp_error := no_notice\<rparr>)"

definition download :: "'n client_svc \<Rightarrow> string \<Rightarrow> string \<Rightarrow> ('n, job_page) handler" where
  "download cv i e = awaits (apiClient cv (DownloadEvidence i e)) (\<lambda>blob. id) (fails ''Evidence download failed.'')"

text \<open>The job as the backend sent it, for the decisions of the page.\<close>

definition job_offers_of :: "user \<Rightarrow> jsval \<Rightarrow> job_offers" where
  "job_offers_of u v = (let st = opt_field v ''status''; mine = offers u PERFORM_MAINTENANCE \<and>
       opt_field v ''assignedTo'' = JStr (usr_identityId u) in
     \<lparr>jo_assign = (offers u ASSIGN_TECHNICIAN \<and> st \<in> set [JStr ''CREATED'', JStr ''REJECTED'']),
      jo_start = (mine \<and> st = JStr ''ASSIGNED''),
      jo_complete = (mine \<and> st = JStr ''IN_PROGRESS''),
      jo_verify = (offers u VERIFY_MAINTENANCE \<and> st = JStr ''COMPLETED'')\<rparr>)"

text \<open>The buttons; a click on one that is hidden or disabled does nothing.\<close>

definition click :: "(job_page \<Rightarrow> bool) \<Rightarrow> (job_page \<Rightarrow> ('n, job_page) handler) \<Rightarrow> ('n, job_page) handler" where
  "click enabled h = (\<lambda>(c, p). if jp_busy p = [] \<and> enabled p then h p (c, p) else (c, p))"

definition click_assign :: "'n client_svc \<Rightarrow> user \<Rightarrow> string \<Rightarrow> ('n, job_page) handler" where
  "click_assign cv u i = click (\<lambda>p. jo_assign (job_offers_of u (jp_job p)) \<and> \<not> blank (jp_technician p))
     (\<lambda>p. job_action cv i ''assign'' (AssignJob i [(''technicianId'', JStr (jp_technician p))]))"

definition click_start :: "'n client_svc \<Rightarrow> user \<Rightarrow> string \<Rightarrow> ('n, job_page) handler" where
  "click_start cv u i = click (\<lambda>p. jo_start (job_offers_of u (jp_job p))) (\<lambda>p. job_action cv i ''start'' (StartJob i))"

definition click_complete :: "'n client_svc \<Rightarrow> user \<Rightarrow> string \<Rightarrow> ('n, job_page) handler" where
  "click_complete cv u i = click (\<lambda>p. jo_complete (job_offers_of u (jp_job p)) \<and> jp_selected p \<noteq> [])
     (\<lambda>p. job_action cv i ''complete'' (CompleteJobWithEvidence i (jp_selected p)))"

definition click_approve :: "'n client_svc \<Rightarrow> user \<Rightarrow> string \<Rightarrow> ('n, job_page) handler" where
  "click_approve cv u i = click (\<lambda>p. jo_verify (job_offers_of u (jp_job p))) (\<lambda>p. job_action cv i ''approve'' (ApproveJob i))"

definition click_reject :: "'n client_svc \<Rightarrow> user \<Rightarrow> string \<Rightarrow> ('n, job_page) handler" where
  "click_reject cv u i = click (\<lambda>p. jo_verify (job_offers_of u (jp_job p)) \<and> \<not> blank (jp_reason p))
     (\<lambda>p. job_action cv i ''reject'' (RejectJob i [(''reason'', JStr (jp_reason p))]))"

text \<open>On a serialized job the decisions are those on the job itself.\<close>

lemma job_offers_agree:
  assumes "opt_field v ''status'' = JStr (show_job_status (job_status j))" "opt_field v ''assignedTo'' = JStr (job_assignedTo j)"
  shows "job_offers_of u v = job_actions u j"
  using assms by (cases "job_status j") (simp_all add: job_offers_of_def job_actions_def canMaintain_def)

lemma job_action_idle:
  assumes "job_action cv i name call (c, p) = (c', p')"
  shows "jp_busy p' = []" and "apiClient cv call c = (Inl e, c1) \<Longrightarrow> p' = p\<lparr>jp_busy := [], jp_error := message_of ''Action failed.'' e\<rparr>"
  using assms by (auto simp: job_action_def change_def awaits_def fails_def split: prod.splits)

section \<open>Registrations\<close>

text \<open>\<open>ep_selected\<close> is the registration under review, \<^verbatim>\<open>null\<close> when there is none.\<close>

record employees_page =
  ep_pending :: "jsval list"
  ep_active :: "jsval list"
  ep_selected :: jsval
  ep_role :: jsval
  ep_employeeId :: string
  ep_department :: string
  ep_error :: notice
  ep_busy :: string

definition load_employees :: "'n client_svc \<Rightarrow> ('n, employees_page) handler" where
  "load_employees cv = awaits (both (apiClient cv GetPendingRegistrations) (apiClient cv GetActiveEmployees))
     (\<lambda>(ps, es). change (\<lambda>p. p\<lparr>ep_pending := arr_of ps, ep_active := arr_of es\<rparr>))
     (\<lambda>e. change (\<lambda>p. p\<lparr>ep_error := message_of ''Unable to load employee records.'' e\<rparr>))"

definition text_or_empty :: "jsval \<Rightarrow> string" where
  "text_or_empty v = (case v of JStr s \<Rightarrow> s | _ \<Rightarrow> [])"

definition review :: "jsval \<Rightarrow> employees_page \<Rightarrow> employees_page" where
  "review item p = (let v = opt_field item ''identity'' in p\<lparr>ep_selected := item,
     ep_employeeId := text_or_empty (opt_field v ''employeeId''), ep_department := text_or_empty (opt_field v ''department''),
     ep_role := (if truthy (opt_field v ''role'') then opt_field v ''role'' else JStr ''ENGINEER'')\<rparr>)"

definition reg_verified :: "jsval \<Rightarrow> bool" where
  "reg_verified item \<longleftrightarrow> (let v = opt_field item ''identity'' in
     truthy (opt_field v ''verifiedAt'') \<and> truthy (opt_field v ''employeeId'') \<and> truthy (opt_field v ''department''))"

definition reg_roleAssigned :: "jsval \<Rightarrow> bool" where
  "reg_roleAssigned item \<longleftrightarrow> truthy (opt_field (opt_field item ''identity'') ''role'')"

text \<open>One of the three buttons: \<open>call\<close> for the identity under review, then \<open>after\<close> and a reload.\<close>

definition admin_step ::
  "'n client_svc \<Rightarrow> string \<Rightarrow> (employees_page \<Rightarrow> string \<Rightarrow> api_call) \<Rightarrow> (employees_page \<Rightarrow> employees_page) \<Rightarrow> string \<Rightarrow>
   ('n, employees_page) handler" where
  "admin_step cv busy call after fallback = (\<lambda>(c, p). if ep_selected p = JNull then (c, p) else
     (change (\<lambda>p. p\<lparr>ep_busy := []\<rparr>) \<circ>
      awaits (apiClient cv (call p (text_or_empty (opt_field (opt_field (ep_selected p) ''identity'') ''identityId''))))
        (\<lambda>_. load_employees cv \<circ> change after)
        (\<lambda>e. change (\<lambda>p. p\<lparr>ep_error := message_of fallback e\<rparr>)) \<circ>
      change (\<lambda>p. p\<lparr>ep_busy := busy\<rparr>)) (c, p))"

definition verify_registration :: "'n client_svc \<Rightarrow> ('n, employees_page) handler" where
  "verify_registration cv = admin_step cv ''verify'' (\<lambda>p i. VerifyRegistration i
     (JObj [(''employeeId'', JStr (ep_employeeId p)), (''department'', JStr (ep_department p))])) id ''Identity verification failed.''"

definition assign_role :: "'n client_svc \<Rightarrow> ('n, employees_page) handler" where
  "assign_role cv = admin_step cv ''role'' (\<lambda>p i. AssignRole i (JObj [(''role'', ep_role p)])) id ''Role assignment failed.''"

definition activate_registration :: "'n client_svc \<Rightarrow> ('n, employees_page) handler" where
  "activate_registration cv = admin_step cv ''activate'' (\<lambda>p i. ActivateRegistration i) (\<lambda>p. p\<lparr>ep_selected := JNull\<rparr>)
     ''Registration activation failed.''"

definition verify_enabled :: "employees_page \<Rightarrow> bool" where
  "verify_enabled p \<longleftrightarrow> \<not> (ep_busy p \<noteq> [] \<or> reg_verified (ep_selected p))"

definition assign_enabled :: "employees_page \<Rightarrow> bool" where
  "assign_enabled p \<longleftrightarrow> \<not> (ep_busy p \<noteq> [] \<or> \<not> reg_verified (ep_selected p) \<or> reg_roleAssigned (ep_selected p))"

definition activate_enabled :: "employees_page \<Rightarrow> bool" where
  "activate_enabled p \<longleftrightarrow> \<not> (ep_busy p \<noteq> [] \<or> \<not> reg_verified (ep_selected p) \<or> \<not> reg_roleAssigned (ep_selected p))"

datatype admin_button = VerifyButton | AssignButton | ActivateButton

definition press :: "'n client_svc \<Rightarrow> admin_button \<Rightarrow> ('n, employees_page) handler" where
  "press cv b = (\<lambda>(c, p). case b of
     VerifyButton \<Rightarrow> if verify_enabled p then verify_registration cv (c, p) else (c, p)
   | AssignButton \<Rightarrow> if assign_enabled p then assign_role cv (c, p) else (c, p)
   | ActivateButton \<Rightarrow> if activate_enabled p then activate_registration cv (c, p) else (c, p))"

lemma load_employees_keeps: "load_employees cv (c, p) = (c', p') \<Longrightarrow> ep_selected p' = ep_selected p \<and> ep_busy p' = ep_busy p"
  by (auto simp: load_employees_def awaits_def change_def split: prod.splits sum.splits)

lemma admin_step_selected:
  assumes "admin_step cv busy call after fallback (c, p) = (c', p')" "ep_busy p = []"
    and "\<And>q. ep_selected (after q) = ep_selected q"
  shows "ep_selected p' = ep_selected p \<and> ep_busy p' = []"
  using assms by (auto simp: admin_step_def change_def awaits_def split: prod.splits sum.splits if_splits dest!: load_employees_keeps)

text \<open>
  An administrator cannot carry a registration through in one review: a registration that was
  opened unverified keeps its assignment and its activation disabled however often the buttons
  are pressed and whatever the backend answers, because the reload does not refresh the
  registration under review; it has to be opened again.
\<close>

theorem review_goes_stale:
  assumes "\<not> reg_verified (ep_selected p)" "ep_busy p = []" "fold (press cv) bs (c, p) = (c', p')"
  shows "ep_selected p' = ep_selected p \<and> \<not> assign_enabled p' \<and> \<not> activate_enabled p' \<and> verify_enabled p'"
  using assms
proof (induction bs arbitrary: c p)
  case Nil
  then show ?case by (simp add: assign_enabled_def activate_enabled_def verify_enabled_def)
next
  case (Cons b bs)
  obtain c1 p1 where one: "press cv b (c, p) = (c1, p1)" by fastforce
  with Cons.prems(1,2) have "ep_selected p1 = ep_selected p \<and> ep_busy p1 = []"
    by (cases b) (auto simp: press_def assign_enabled_def activate_enabled_def verify_registration_def
        split: if_splits dest!: admin_step_selected)
  with Cons.IH [of p1 c1] Cons.prems one show ?case by simp
qed

section \<open>The asset page\<close>

text \<open>
  \<open>ap_nextState\<close> is the state chosen in the control, empty when none is.  \<open>ap_grant\<close> is the answer
  to the question for the user's own grant, \<^verbatim>\<open>null\<close> before it arrives.
\<close>

record asset_page =
  ap_asset :: jsval
  ap_error :: notice
  ap_editing :: bool
  ap_ownerId :: string
  ap_componentId :: string
  ap_nextState :: string
  ap_grantTarget :: string
  ap_grantExpiry :: string
  ap_grants :: "jsval list"
  ap_grant :: jsval

definition asset_fails :: "string \<Rightarrow> client_error \<Rightarrow> ('n, asset_page) handler" where
  "asset_fails fallback e = change (\<lambda>p. p\<lparr>ap_error := message_of fallback e\<rparr>)"

text \<open>The grants of every active employee for a transfer of this asset.\<close>

definition transfer_grants :: "string \<Rightarrow> jsval list \<Rightarrow> jsval list" where
  "transfer_grants i gs = filter (\<lambda>g. opt_field g ''resourceId'' = JStr i \<and> opt_field g ''resourceType'' = JStr ''ASSET'' \<and>
     opt_field g ''action'' = JStr ''TRANSFER_ASSET'') gs"

definition load_grants :: "'n client_svc \<Rightarrow> string \<Rightarrow> ('n, asset_page) handler" where
  "load_grants cv i = awaits
     (bindE (apiClient cv GetActiveEmployees) (\<lambda>es. all_of (map (\<lambda>e. apiClient cv
        (GetGrants (text_or_empty (opt_field (opt_field e ''user'') ''identityId'')))) (arr_of es))))
     (\<lambda>gss. change (\<lambda>p. p\<lparr>ap_grants := transfer_grants i (concat (map arr_of gss))\<rparr>))
     (asset_fails ''Unable to load transfer grants.'')"

text \<open>The state that the page preselects for an asset it loads.\<close>

definition preselect :: "jsval \<Rightarrow> string" where
  "preselect loaded = (case opt_field loaded ''status'' of JStr st \<Rightarrow>
       (case asset_status_of st of None \<Rightarrow> [] | Some x \<Rightarrow> (case preselected x of None \<Rightarrow> [] | Some y \<Rightarrow> show_asset_status y))
     | _ \<Rightarrow> [])"

definition open_asset :: "'n client_svc \<Rightarrow> user \<Rightarrow> string \<Rightarrow> ('n, asset_page) handler" where
  "open_asset cv u i =
     (if usr_role u = ADMIN then load_grants cv i else id) \<circ>
     (if usr_role u = ENGINEER then awaits (apiClient cv (GetCurrentUserGrant i)) (\<lambda>g. change (\<lambda>p. p\<lparr>ap_grant := g\<rparr>))
        (asset_fails ''Unable to load transfer authorization.'') else id) \<circ>
     awaits (apiClient cv (GetAsset i))
       (\<lambda>a. change (\<lambda>p. p\<lparr>ap_asset := a, ap_ownerId := text_or_empty (opt_field a ''ownerId''), ap_nextState := preselect a\<rparr>))
       (\<lambda>e. change (\<lambda>p. p\<lparr>ap_error := message_or_501 ''Asset registry is not implemented by the backend yet.'' ''Unable to load asset.'' e\<rparr>))"

definition asset_run :: "'n client_svc \<Rightarrow> string \<Rightarrow> api_call \<Rightarrow> ('n, asset_page) handler" where
  "asset_run cv i call = awaits (thenE (apiClient cv call) (apiClient cv (GetAsset i)))
       (\<lambda>a. change (\<lambda>p. p\<lparr>ap_asset := a\<rparr>)) (asset_fails ''Asset operation failed.'') \<circ>
     change (\<lambda>p. p\<lparr>ap_error := no_notice\<rparr>)"

definition transfer_click :: "'n client_svc \<Rightarrow> string \<Rightarrow> ('n, asset_page) handler" where
  "transfer_click cv i = change (\<lambda>p. p\<lparr>ap_editing := False\<rparr>) \<circ>
     (\<lambda>(c, p). asset_run cv i (TransferAsset i [(''newOwnerId'', JStr (ap_ownerId p))]) (c, p))"

definition changeState_click :: "'n client_svc \<Rightarrow> string \<Rightarrow> ('n, asset_page) handler" where
  "changeState_click cv i = (\<lambda>(c, p). if ap_nextState p = [] then (c, p)
     else asset_run cv i (ChangeAssetState i [(''newState'', JStr (ap_nextState p))]) (c, p))"

definition attach_click :: "'n client_svc \<Rightarrow> string \<Rightarrow> ('n, asset_page) handler" where
  "attach_click cv i = (\<lambda>(c, p). if blank (ap_componentId p) then (c, p)
     else (change (\<lambda>p. p\<lparr>ap_componentId := []\<rparr>) \<circ>
       asset_run cv i (AttachComponent i [(''componentId'', JStr (trim (ap_componentId p)))])) (c, p))"

definition detach_click :: "'n client_svc \<Rightarrow> string \<Rightarrow> ('n, asset_page) handler" where
  "detach_click cv i = (\<lambda>(c, p). case opt_field (ap_asset p) ''parentAssetId'' of
     JStr (x # xs) \<Rightarrow> asset_run cv i (RemoveComponent (x # xs) (text_or_empty (opt_field (ap_asset p) ''assetId''))) (c, p)
   | _ \<Rightarrow> (c, p))"

text \<open>
  \<open>toIso t\<close> is \<^verbatim>\<open>new Date(t).toISOString()\<close> in the time zone of the browser, \<open>None\<close> when it throws.
\<close>

definition createGrant_click :: "(string \<Rightarrow> string option) \<Rightarrow> 'n client_svc \<Rightarrow> string \<Rightarrow> ('n, asset_page) handler" where
  "createGrant_click toIso cv i = (\<lambda>(c, p). if blank (ap_grantTarget p) then (c, p) else
     (awaits (bindE (if ap_grantExpiry p = [] then ret JNull
                     else bindE (required (toIso (ap_grantExpiry p)) (ScriptError ''Invalid time value'')) (\<lambda>t. ret (JStr t))) (\<lambda>ex.
        apiClient cv (CreateTransferGrant (trim (ap_grantTarget p)) [(''resourceType'', JStr ''ASSET''), (''resourceId'', JStr i),
          (''action'', JStr ''TRANSFER_ASSET''), (''expiresAt'', ex)])))
        (\<lambda>_. change (\<lambda>p. p\<lparr>ap_grantExpiry := []\<rparr>) \<circ> load_grants cv i)
        (asset_fails ''Unable to create transfer grant.'') \<circ>
      change (\<lambda>p. p\<lparr>ap_error := no_notice\<rparr>)) (c, p))"

definition revokeGrant_click :: "'n client_svc \<Rightarrow> string \<Rightarrow> jsval \<Rightarrow> ('n, asset_page) handler" where
  "revokeGrant_click cv i g = awaits (apiClient cv (RevokeGrant (text_or_empty (opt_field g ''actorIdentityId''))
       (text_or_empty (opt_field g ''authorizationGrantId'')))) (\<lambda>_. load_grants cv i)
       (asset_fails ''Unable to revoke transfer grant.'') \<circ> change (\<lambda>p. p\<lparr>ap_error := no_notice\<rparr>)"

text \<open>
  The control for the next state goes stale: after a change that the backend carried out, the
  page still has the state just reached as its choice and keeps the button enabled, although no asset
  in that state may be asked for the same state again.
\<close>

lemma state_choice_goes_stale:
  assumes "changeState_click cv i (c, p) = (c', p')"
    and "opt_field (ap_asset p') ''status'' = JStr (ap_nextState p)" "ap_nextState p = show_asset_status st"
  shows "ap_nextState p' = show_asset_status st \<and> st \<notin> set (stateOptions st) \<and>
    assertStateTransition st st s = (Inl (ValidationError [''Invalid asset state transition: '' @ show_asset_status st @ '' -> '' @ show_asset_status st]), s)"
proof -
  have "ap_nextState p' = ap_nextState p"
    using assms(1) by (auto simp: changeState_click_def asset_run_def awaits_def change_def asset_fails_def
        split: prod.splits sum.splits if_splits)
  with assms(3) show ?thesis by (cases st) (simp_all add: assertStateTransition_def exec_defs)
qed

section \<open>Validators\<close>

record validators_page =
  vp_validators :: "jsval list"
  vp_history :: "jsval list"
  vp_loaded :: bool
  vp_error :: notice
  vp_busy :: bool
  vp_form :: jsobj

definition reload_validators :: "'n client_svc \<Rightarrow> ('n, validators_page) handler" where
  "reload_validators cv = change (\<lambda>p. p\<lparr>vp_loaded := True\<rparr>) \<circ>
     awaits (both (apiClient cv GetValidatorRegistrations) (apiClient cv GetValidatorHistory))
       (\<lambda>(vs, hs). change (\<lambda>p. p\<lparr>vp_validators := arr_of vs, vp_history := arr_of hs\<rparr>))
       (\<lambda>e. change (\<lambda>p. p\<lparr>vp_error := message_of ''Unable to load validator administration.'' e\<rparr>))"

definition run_validator :: "'n client_svc \<Rightarrow> api_call \<Rightarrow> ('n, validators_page) handler" where
  "run_validator cv call = change (\<lambda>p. p\<lparr>vp_busy := False\<rparr>) \<circ>
     awaits (apiClient cv call) (\<lambda>_. reload_validators cv)
       (\<lambda>e. change (\<lambda>p. p\<lparr>vp_error := message_of ''Validator operation failed.'' e\<rparr>)) \<circ>
     change (\<lambda>p. p\<lparr>vp_busy := True, vp_error := no_notice\<rparr>)"

text \<open>
  \<open>height\<close> is \<^verbatim>\<open>Number(form.activationHeight)\<close>.
\<close>

definition add_enabled :: "validators_page \<Rightarrow> bool" where
  "add_enabled p \<longleftrightarrow> \<not> vp_busy p \<and>
     list_all (\<lambda>k. truthy (fld (vp_form p) k)) [''validatorId'', ''nodeAddress'', ''publicKey'', ''signingPublicKey'', ''activationHeight'']"

definition add_click :: "'n client_svc \<Rightarrow> jsnum \<Rightarrow> ('n, validators_page) handler" where
  "add_click cv height = (\<lambda>(c, p). if add_enabled p
     then run_validator cv (AddValidator (spread (vp_form p) [(''activationHeight'', JNum height)])) (c, p) else (c, p))"

text \<open>The buttons of a row, for the registration as it was sent.\<close>

definition row_click :: "'n client_svc \<Rightarrow> registration \<Rightarrow> ('n, validators_page) handler" where
  "row_click cv r = (\<lambda>(c, p). if vp_busy p then (c, p)
     else if offers_removal r then run_validator cv (RemoveValidator (reg_registrationId r)
       (JObj [(''removalHeight'', JNum (offered_removalHeight r)), (''reason'', removal_reason)])) (c, p)
     else if offers_restore r then run_validator cv (RestoreValidator (reg_registrationId r) (JObj [(''reason'', restore_reason)])) (c, p)
     else (c, p))"

section \<open>The network page\<close>

record network_page =
  np_status :: jsval
  np_validators :: "jsval list"
  np_validatorsLoaded :: bool
  np_committee :: jsval
  np_statusError :: notice
  np_validatorError :: notice
  np_committeeError :: notice

definition network_start :: network_page where
  "network_start = \<lparr>np_status = JNull, np_validators = [], np_validatorsLoaded = False, np_committee = JNull,
     np_statusError = no_notice, np_validatorError = no_notice, np_committeeError = no_notice\<rparr>"

text \<open>The two requests of the opened page, and the one that follows once a status has arrived.\<close>

definition load_network :: "'n client_svc \<Rightarrow> ('n, network_page) handler" where
  "load_network cv =
     awaits (apiClient cv GetValidators)
       (\<lambda>vs. change (\<lambda>p. p\<lparr>np_validators := arr_of vs, np_validatorsLoaded := True\<rparr>))
       (\<lambda>e. change (\<lambda>p. p\<lparr>np_validatorError := message_of ''Unable to load validators.'' e\<rparr>)) \<circ>
     awaits (apiClient cv GetBlockchainStatus) (\<lambda>st. change (\<lambda>p. p\<lparr>np_status := st\<rparr>))
       (\<lambda>e. change (\<lambda>p. p\<lparr>np_statusError := message_of ''Unable to load blockchain status.'' e\<rparr>))"

text \<open>\<open>height\<close> is the last finalized height of the status as it is written into the path.\<close>

definition load_committee :: "'n client_svc \<Rightarrow> string \<Rightarrow> ('n, network_page) handler" where
  "load_committee cv height = (\<lambda>(c, p). if \<not> truthy (np_status p) then (c, p) else
     awaits (apiClient cv (GetCommittee height)) (\<lambda>m. change (\<lambda>p. p\<lparr>np_committee := m\<rparr>))
       (\<lambda>e. change (\<lambda>p. p\<lparr>np_committeeError := message_of ''Unable to load committee.'' e\<rparr>)) (c, p))"

definition chainHealthy :: "network_page \<Rightarrow> bool" where
  "chainHealthy p \<longleftrightarrow> truthy (opt_field (np_status p) ''healthy'') \<and> np_statusError p = no_notice"

definition finalityHealthy :: "network_page \<Rightarrow> bool" where
  "finalityHealthy p \<longleftrightarrow> truthy (np_status p) \<and> opt_field (np_status p) ''finalityLag'' = JNum (Fin 0)"

definition committeeAvailable :: "network_page \<Rightarrow> bool" where
  "committeeAvailable p \<longleftrightarrow> truthy (np_committee p) \<and> np_committeeError p = no_notice"

definition validatorsAvailable :: "network_page \<Rightarrow> bool" where
  "validatorsAvailable p \<longleftrightarrow> np_validatorError p = no_notice \<and> np_validatorsLoaded p"

definition overallHealthy :: "network_page \<Rightarrow> bool" where
  "overallHealthy p \<longleftrightarrow> chainHealthy p \<and> finalityHealthy p \<and> committeeAvailable p \<and> validatorsAvailable p"

definition signal_text :: "bool \<Rightarrow> bool \<Rightarrow> string" where
  "signal_text ok unavailable = (if ok then ''HEALTHY'' else if unavailable then ''UNAVAILABLE'' else ''DEGRADED'')"

text \<open>
  The page calls the network healthy only on the word of the backend: on a freshly opened page,
  that the status was answered as healthy with no lag, and the validators and the committee at
  the height were answered.
\<close>

lemma healthy_needs_answers:
  assumes "load_committee cv h (load_network cv (c, network_start)) = (c', p)" "overallHealthy p"
  shows "\<exists>st vs m c1 c2. apiClient cv GetBlockchainStatus c = (Inr st, c1) \<and> apiClient cv GetValidators c1 = (Inr vs, c2) \<and>
    apiClient cv (GetCommittee h) c2 = (Inr m, c') \<and> truthy (opt_field st ''healthy'') \<and>
    opt_field st ''finalityLag'' = JNum (Fin 0) \<and> truthy m"
  using assms
  by (auto simp: load_committee_def load_network_def awaits_def change_def network_start_def overallHealthy_def chainHealthy_def
      finalityHealthy_def committeeAvailable_def validatorsAvailable_def split: prod.splits sum.splits if_splits)

section \<open>Overview and lists\<close>

record dashboard =
  db_assets :: "nat option"
  db_jobs :: "nat option"
  db_pending :: "nat option"
  db_assetsError :: notice
  db_jobsError :: notice
  db_pendingError :: notice
  db_loaded :: bool

definition count_of :: "client_error + jsval \<Rightarrow> nat option" where
  "count_of r = (case r of Inl e \<Rightarrow> None | Inr v \<Rightarrow> Some (length (arr_of v)))"

definition error_of :: "string \<Rightarrow> client_error + jsval \<Rightarrow> notice" where
  "error_of fallback r = (case r of Inl e \<Rightarrow> message_or_501 ''Backend module is not implemented yet.'' fallback e | Inr v \<Rightarrow> no_notice)"

text \<open>\<open>mounted\<close> is False when the page was left before the answers arrived.\<close>

definition load_dashboard :: "'n client_svc \<Rightarrow> user \<Rightarrow> bool \<Rightarrow> ('n, dashboard) handler" where
  "load_dashboard cv u mounted = awaits
     (bindE (all_settled (apiClient cv GetAssets)) (\<lambda>as.
      bindE (all_settled (apiClient cv GetJobs)) (\<lambda>js.
      bindE (all_settled (if usr_role u = ADMIN then apiClient cv GetPendingRegistrations else ret (JArr []))) (\<lambda>ps. ret (as, js, ps)))))
     (\<lambda>(as, js, ps). change (\<lambda>p. if \<not> mounted then p else p\<lparr>
        db_assets := count_of as, db_jobs := count_of js, db_pending := count_of ps,
        db_assetsError := error_of ''Unable to load assets.'' as, db_jobsError := error_of ''Unable to load jobs.'' js,
        db_pendingError := error_of ''Unable to load pending registrations.'' ps, db_loaded := True\<rparr>))
     (\<lambda>e. id)"

record jobs_page =
  jl_jobs :: "jsval list"
  jl_assets :: "jsval list"
  jl_loaded :: bool
  jl_show :: bool
  jl_assetId :: string
  jl_priority :: string
  jl_error :: notice

definition load_jobs :: "'n client_svc \<Rightarrow> ('n, jobs_page) handler" where
  "load_jobs cv = awaits (both (apiClient cv GetJobs) (apiClient cv GetAssets))
     (\<lambda>(js, as). change (\<lambda>p. p\<lparr>jl_jobs := arr_of js, jl_assets := arr_of as, jl_loaded := True\<rparr>))
     (\<lambda>e. change (\<lambda>p. p\<lparr>jl_loaded := True, jl_error := message_of ''Unable to load jobs.'' e\<rparr>))"

definition create_job_click :: "'n client_svc \<Rightarrow> ('n, jobs_page) handler" where
  "create_job_click cv = (\<lambda>(c, p). if jl_assetId p = [] then (c, p\<lparr>jl_error := (JStr ''Select an asset.'', [])\<rparr>)
     else awaits (apiClient cv (CreateJob [(''assetId'', JStr (jl_assetId p)), (''priority'', JStr (jl_priority p))]))
       (\<lambda>_. load_jobs cv \<circ> change (\<lambda>p. p\<lparr>jl_show := False\<rparr>))
       (\<lambda>e. change (\<lambda>p. p\<lparr>jl_error := message_of ''Job creation failed.'' e\<rparr>)) (c, p))"

record assets_page =
  al_assets :: "jsval list"
  al_loaded :: bool
  al_showCreate :: bool
  al_assetId :: string
  al_assetType :: string
  al_ownerId :: string
  al_custodianId :: string
  al_error :: notice

definition load_assets :: "'n client_svc \<Rightarrow> ('n, assets_page) handler" where
  "load_assets cv = awaits (apiClient cv GetAssets)
     (\<lambda>as. change (\<lambda>p. p\<lparr>al_assets := arr_of as, al_loaded := True\<rparr>))
     (\<lambda>e. change (\<lambda>p. p\<lparr>al_loaded := True,
        al_error := message_or_501 ''Asset registry is not implemented by the backend yet.'' ''Unable to load assets.'' e\<rparr>))"

definition create_asset_click :: "'n client_svc \<Rightarrow> ('n, assets_page) handler" where
  "create_asset_click cv = (\<lambda>(c, p). if blank (al_assetType p) then (c, p\<lparr>al_error := (JStr ''Asset type is required.'', [])\<rparr>)
     else awaits (apiClient cv (CreateAsset [(''assetId'', or_undefined (al_assetId p)), (''assetType'', JStr (al_assetType p)),
         (''ownerId'', JStr (al_ownerId p)), (''custodianId'', JStr (al_custodianId p))]))
       (\<lambda>_. load_assets cv \<circ> change (\<lambda>p. p\<lparr>al_showCreate := False, al_assetId := [], al_assetType := []\<rparr>))
       (\<lambda>e. change (\<lambda>p. p\<lparr>al_error := message_or_501 ''Asset registration is not implemented by the backend yet.''
          ''Asset creation failed.'' e\<rparr>)) (c, p))"

record audit_page =
  au_events :: "jsval list"
  au_error :: notice

definition load_audit :: "'n client_svc \<Rightarrow> string \<Rightarrow> ('n, audit_page) handler" where
  "load_audit cv i = awaits (apiClient cv (GetAssetAuditTrail i)) (\<lambda>es. change (\<lambda>p. p\<lparr>au_events := arr_of es\<rparr>))
     (\<lambda>e. change (\<lambda>p. p\<lparr>au_error := message_or_501 ''Audit history is not implemented by the backend yet.''
        ''Unable to load audit trail.'' e\<rparr>))"

section \<open>Concrete pages\<close>

definition demo_signer :: "unit client_svc" where
  "demo_signer = demo_client\<lparr>
     cv_fetch := (\<lambda>c n. (Some \<lparr>rs_status = 200, rs_json = Some (JObj [(''challenge'', JStr ''C''), (''challengeId'', JStr ''X''),
       (''token'', JStr ''T''), (''user'', JStr ''U'')]), rs_blob = None\<rparr>, n)),
     cv_window := Some \<lparr>wb_getIdentity = ret (JObj [(''deviceId'', JStr ''D''), (''publicKey'', JStr ''k'')]),
       wb_sign = (\<lambda>_ _. ret (Some \<lparr>ws_signature = JStr ''0x1'', ws_userVerified = JBool True, ws_development = JUndefined\<rparr>)),
       wb_signTransaction = None\<rparr>\<rparr>"

definition demo_login_page :: login_page where
  "demo_login_page = \<lparr>lg_mode = Landing, lg_loading = False, lg_error = no_notice, lg_fullName = [], lg_employeeId = [],
     lg_department = [], lg_registration = None, lg_user = None\<rparr>"

theorem sign_in_is_verified_witness:
  "\<exists>c' p' i s1. signIn demo_signer (demo_client_state, demo_login_page) = (c', p') \<and> lg_user p' = Some (JStr ''U'') \<and>
     wb_getIdentity (bridge demo_signer) demo_client_state = (Inr i, s1)"
proof -
  obtain c' p' where out: "signIn demo_signer (demo_client_state, demo_login_page) = (c', p')" by fastforce
  have "lg_user (snd (signIn demo_signer (demo_client_state, demo_login_page))) = Some (JStr ''U'')" by code_simp
  with out have "lg_user p' = Some (JStr ''U'')" "lg_user p' \<noteq> lg_user demo_login_page" by (simp_all add: demo_login_page_def)
  with sign_in_is_verified [OF out] out show ?thesis by blast
qed

definition demo_review :: employees_page where
  "demo_review = \<lparr>ep_pending = [], ep_active = [],
     ep_selected = JObj [(''identity'', JObj [(''identityId'', JStr ''N''), (''verifiedAt'', JNull)])], ep_role = JStr ''ENGINEER'',
     ep_employeeId = ''E'', ep_department = ''X'', ep_error = no_notice, ep_busy = []\<rparr>"

theorem review_goes_stale_witness:
  "\<not> assign_enabled (snd (fold (press demo_client) [VerifyButton, AssignButton] (demo_client_state, demo_review)))"
proof -
  obtain c' p' where out: "fold (press demo_client) [VerifyButton, AssignButton] (demo_client_state, demo_review) = (c', p')" by fastforce
  have "\<not> reg_verified (ep_selected demo_review)" "ep_busy demo_review = []" by code_simp+
  from review_goes_stale [OF this out] out show ?thesis by simp
qed

end
