(* ===== verification/Bootstrap.thy ===== *)
theory Bootstrap
  imports Accounts
begin

text \<open>
  \<^verbatim>\<open>scripts/bootstrap-dev.ts\<close>: the script that enrols the first administrator of a development
  installation through the users service.  Opening and closing the database connection and the
  output are left out.
\<close>

section \<open>The script\<close>

record boot_env =
  be_devBootstrap :: "string option"
  be_databaseUrl :: "string option"
  be_credential :: "string option"
  be_walletAddress :: "string option"
  be_publicKey :: "string option"
  be_adminDid :: "string option"

datatype boot_outcome = AlreadyBootstrapped | Bootstrapped wallet

text \<open>An environment variable that is tested for truth: an empty text counts as missing.\<close>

definition set_to :: "string option \<Rightarrow> string option" where
  "set_to v = (if present v then v else None)"

definition ADMIN_001 :: string where "ADMIN_001 = ''ADMIN-001''"
definition ADMIN_DEVICE :: string where "ADMIN_DEVICE = ''BEL-DEV-ADMIN-001''"

definition admin_input :: "boot_env \<Rightarrow> wallet option \<Rightarrow> create_input" where
  "admin_input be onChain = \<lparr>ci_employeeId = ADMIN_001, ci_role = JStr ''ADMIN'',
     ci_identityId = Some (case onChain of Some w \<Rightarrow> wal_identityId w | None \<Rightarrow> opt_or (be_adminDid be) ''DID:BEL:ADMIN''),
     ci_fullName = Some ''BEL Development Administrator'', ci_department = Some ''PLATFORM'', ci_status = None, ci_createdAt = None\<rparr>"

definition enrol_admin :: "'c users_svc \<Rightarrow> env \<Rightarrow> boot_env \<Rightarrow> string \<Rightarrow> string \<Rightarrow> wallet option \<Rightarrow> ('c, boot_outcome) users_m" where
  "enrol_admin svc en be walletAddress publicKey onChain =
     bindE (createUser svc en (admin_input be onChain) None) (\<lambda>_.
     bindE (registerDevice svc en ADMIN_001 ADMIN_DEVICE (opt_or (be_credential be) ''dev-admin-001'') (Some publicKey)) (\<lambda>_.
     bindE (registerWallet svc en ADMIN_001 ADMIN_DEVICE walletAddress) (\<lambda>_.
     bindE (activateWallet svc en ADMIN_001 ADMIN_DEVICE walletAddress ADMIN_001) (\<lambda>w. ret (Bootstrapped w)))))"

text \<open>\<open>other_binding\<close>: the stored administrator is not the one of the current deployment.\<close>

definition other_binding :: "user \<Rightarrow> wallet option \<Rightarrow> string \<Rightarrow> bool" where
  "other_binding u onChain walletAddress \<longleftrightarrow>
     Some (usr_identityId u) \<noteq> map_option wal_identityId onChain \<or>
     toLowerCase (usr_walletAddress u) \<noteq> toLowerCase walletAddress"

definition bootstrap :: "'c users_svc \<Rightarrow> env \<Rightarrow> boot_env \<Rightarrow> ('c, boot_outcome) users_m" where
  "bootstrap svc en be =
     thenE (throwIf (BEL_ENV en \<noteq> Some ''development'' \<or> be_devBootstrap be \<noteq> Some ''true'')
       (PlainError ''Development bootstrap requires BEL_ENV=development and BEL_DEV_BOOTSTRAP=true''))
    (thenE (throwIf (set_to (be_databaseUrl be) = None) (PlainError ''Development bootstrap requires DATABASE_URL and PostgreSQL''))
    (bindE (required (case (set_to (be_walletAddress be), set_to (be_publicKey be)) of (Some w, Some k) \<Rightarrow> Some (w, k) | _ \<Rightarrow> None)
       (PlainError ''Development bootstrap requires BEL_BOOTSTRAP_WALLET_ADDRESS and BEL_BOOTSTRAP_PUBLIC_KEY'')) (\<lambda>(walletAddress, publicKey).
     bindE (if evm_mode en then chain_read (getWallet (usv_chain svc) walletAddress) else ret None) (\<lambda>onChain.
     thenE (throwIf (evm_mode en \<and> (case onChain of None \<Rightarrow> True | Some w \<Rightarrow> wal_status w \<noteq> W_ACTIVE))
       (PlainError ''EVM bootstrap wallet must already be ACTIVE on-chain''))
    (bindE (users_getById ADMIN_001) (\<lambda>existing.
     case existing of
       Some u \<Rightarrow> thenE (throwIf (evm_mode en \<and> other_binding u onChain walletAddress)
           (PlainError ''Reset the disposable integration database before starting a fresh Besu run.''))
         (ret AlreadyBootstrapped)
     | None \<Rightarrow> enrol_admin svc en be walletAddress publicKey onChain))))))"

section \<open>The user record stays\<close>

definition enrolled :: "string \<Rightarrow> 'c users_state \<Rightarrow> bool" where
  "enrolled e s \<longleftrightarrow> js_get (sto_users (us_store s)) e \<noteq> None"

lemma enrolled_quiet: "quiet us_store f \<Longrightarrow> keeps (enrolled e) f"
  by (auto simp: keeps_def quiet_def enrolled_def)

lemma enrolled_store:
  "(\<And>t. js_get (sto_users t) e \<noteq> None \<Longrightarrow> js_get (sto_users (f t)) e \<noteq> None) \<Longrightarrow> keeps (enrolled e) (store f)"
  by (auto simp: keeps_def store_def modifyS_def enrolled_def)

lemma enrolled_saves: "keeps (enrolled e) (store (identities_save x))" "keeps (enrolled e) (store (users_save u))"
  "keeps (enrolled e) (store (devices_save d))" "keeps (enrolled e) (store (wallets_save w))"
  "keeps (enrolled e) (store (credentials_save v dd))"
  "keeps (enrolled e) (store (\<lambda>t. case users_findByIdentityId t i of None \<Rightarrow> t | Some u \<Rightarrow> users_save (k u) t))"
  by (rule enrolled_store; simp add: save_defs split: option.splits)+

lemmas enrolled_keeps = keep enrolled_saves quiet_calls [THEN enrolled_quiet] quiet_ensure [THEN enrolled_quiet]
  quiet_steps [THEN enrolled_quiet]

lemma enrolled_operations:
  "keeps (enrolled e) (registerDevice svc en u d c k)" "keeps (enrolled e) (registerWallet svc en u d w)"
  "keeps (enrolled e) (activateWallet svc en u d w a)"
  by (auto simp: registerDevice_def registerWallet_def activateWallet_def replace_wallet_def Let_def intro!: enrolled_keeps)

lemma createUser_enrols:
  assumes "createUser svc en inp a s = (Inr x, s')"
  shows "enrolled (ci_employeeId inp) s'"
  using assms
  by (auto simp: createUser_def Let_def run enrolled_def toUser_def users_save_def new_identity_def
      dest!: quiet_run split: option.splits if_splits)

lemma enrolled_found: "enrolled ADMIN_001 s \<Longrightarrow> \<exists>u. users_getById ADMIN_001 s = (Inr (Some u), s)"
  by (auto simp: enrolled_def users_getById_def look_def reads_def users_findById_def)

lemma bootstrap_enrols:
  assumes "bootstrap svc en be s = (Inr x, s')"
  shows "\<exists>u. users_getById ADMIN_001 s' = (Inr (Some u), s')"
proof (cases x)
  case AlreadyBootstrapped
  with assms show ?thesis
    by (auto simp: bootstrap_def enrol_admin_def run users_getById_def look_def split: option.splits)
next
  case (Bootstrapped w)
  with assms obtain s0 onChain wa k where "enrol_admin svc en be wa k onChain s0 = (Inr x, s')"
    by (auto simp: bootstrap_def run split: option.splits)
  then have "enrolled ADMIN_001 s'"
    by (auto simp: enrol_admin_def bindE_ok ret_run admin_input_def dest!: createUser_enrols
        keepsD [OF enrolled_operations(1)] keepsD [OF enrolled_operations(2)] keepsD [OF enrolled_operations(3)])
  then show ?thesis by (rule enrolled_found)
qed

lemma activateWallet_gives:
  "activateWallet svc en u d a who s = (Inr w, s') \<Longrightarrow> wal_status w = W_ACTIVE \<and> wal_deviceId w = d \<and> wal_revokedAt w = None"
  by (auto simp: activateWallet_def Let_def run)

lemma later_run:
  assumes "users_getById ADMIN_001 s = (Inr (Some u), s)"
  shows "snd (bootstrap svc en be s) = s"
  using assms
  by (auto simp: bootstrap_def exec_defs chain_read_def split: option.splits prod.splits sum.splits if_splits)

section \<open>Properties\<close>


section \<open>Concrete runs\<close>

definition dev_env :: env where
  "dev_env = demo_env\<lparr>BEL_ENV := Some ''development''\<rparr>"

definition demo_boot :: "string \<Rightarrow> boot_env" where
  "demo_boot credential = \<lparr>be_devBootstrap = Some ''true'', be_databaseUrl = Some ''db'', be_credential = Some credential,
     be_walletAddress = Some ''0xa'', be_publicKey = Some ''k'', be_adminDid = None\<rparr>"


text \<open>
  A run that fails after the user was created is not taken up again: with a blank credential the
  device is refused, and the next run, with a good one, reports success without a device or a wallet.
\<close>

lemma interrupted_bootstrap_not_resumed:
  "let s1 = snd (bootstrap demo_users_svc dev_env (demo_boot '' '') (demo_users empty_store));
       out = bootstrap demo_users_svc dev_env (demo_boot ''c'') s1 in
   \<not> succeeds (bootstrap demo_users_svc dev_env (demo_boot '' '') (demo_users empty_store)) \<and>
   fst out = Inr AlreadyBootstrapped \<and> sto_devices (us_store (snd out)) = [] \<and> sto_wallets (us_store (snd out)) = []"
  by code_simp

end
