(* ===== verification/DevProcesses.thy ===== *)
theory DevProcesses
  imports Client
begin

text \<open>
  The processes of the development environment: how \<^verbatim>\<open>scripts/dev-bootstrap.mjs\<close> and
  \<^verbatim>\<open>scripts/dev-stop.mjs\<close> decide which running processes are theirs, and which commands they
  issue to stop them.  The operating system is an argument: which processes run, with which
  command line, what the files of a run say, which ports are taken, and what a command does.
\<close>

section \<open>The operating system\<close>

datatype stop_command = StopScriptWsl string | StopScript string | TaskKill jsval | KillTerm jsval | KillGroup jsval
  | ComposeStop | ForgetState

record 'o machine =
  mc_windows :: bool
  mc_root :: string
  mc_exists :: "string \<Rightarrow> 'o \<Rightarrow> bool"
  mc_alive :: "jsval \<Rightarrow> 'o \<Rightarrow> bool"
  mc_cmdline :: "jsval \<Rightarrow> 'o \<Rightarrow> string"
  mc_runFile :: "string \<Rightarrow> 'o \<Rightarrow> jsval option"
  mc_runs :: "'o \<Rightarrow> string list"
  mc_listeners :: "'o \<Rightarrow> string list"
  mc_issue :: "stop_command \<Rightarrow> 'o \<Rightarrow> 'o"
  mc_now :: "'o \<Rightarrow> int"
  mc_sleep :: "'o \<Rightarrow> 'o"

text \<open>
  \<open>sh_trace\<close> is a ghost: each command issued, with the state of the system in which the script
  decided that it may be issued.
\<close>

record 'o shell =
  sh_os :: 'o
  sh_trace :: "(stop_command \<times> 'o) list"

type_synonym ('o, 'a) script = "('o shell, string, 'a) m"

definition issue :: "'o machine \<Rightarrow> 'o \<Rightarrow> stop_command \<Rightarrow> ('o, unit) script" where
  "issue mc decided c = modifyS (\<lambda>s. s\<lparr>sh_os := mc_issue mc c (sh_os s), sh_trace := (c, decided) # sh_trace s\<rparr>)"

text \<open>\<^verbatim>\<open>waitFor\<close>: the check may throw, which counts as not ready.  \<open>fuel\<close> bounds the polls.\<close>

fun poll :: "'o machine \<Rightarrow> nat \<Rightarrow> int \<Rightarrow> ('o \<Rightarrow> bool) \<Rightarrow> ('o, bool) script" where
  "poll mc 0 deadline check = ret False"
| "poll mc (Suc n) deadline check = bindE (reads sh_os) (\<lambda>os.
     if mc_now mc os \<ge> deadline then ret False
     else if check os then ret True
     else thenE (modifyS (\<lambda>s. s\<lparr>sh_os := mc_sleep mc (sh_os s)\<rparr>)) (poll mc n deadline check))"

definition waitFor :: "'o machine \<Rightarrow> nat \<Rightarrow> string \<Rightarrow> ('o \<Rightarrow> bool) \<Rightarrow> int \<Rightarrow> ('o, unit) script" where
  "waitFor mc fuel label check timeoutMs = bindE (reads (\<lambda>s. mc_now mc (sh_os s) + timeoutMs)) (\<lambda>deadline.
     bindE (poll mc fuel deadline check) (\<lambda>ready. throwIf (\<not> ready) (label @ '' did not become ready'')))"

section \<open>Whose process is it?\<close>

definition OWNER :: string where "OWNER = ''bel-dev-bootstrap''"

definition slashes :: "string \<Rightarrow> string" where
  "slashes = map (\<lambda>c. if c = CHR 0x5C then CHR ''/'' else c)"

definition letter :: "char \<Rightarrow> bool" where
  "letter c \<longleftrightarrow> (let n = of_char c :: nat in 65 \<le> n \<and> n \<le> 90 \<or> 97 \<le> n \<and> n \<le> 122)"

definition shellPath :: "string \<Rightarrow> string" where
  "shellPath v = (case slashes v of
     d # CHR '':'' # rest \<Rightarrow> if letter d then ''/mnt/'' @ toLowerCase [d] @ rest else d # CHR '':'' # rest
   | p \<Rightarrow> p)"

definition pidAlive :: "'o machine \<Rightarrow> jsval \<Rightarrow> 'o \<Rightarrow> bool" where
  "pidAlive mc pid os \<longleftrightarrow> truthy pid \<and> mc_alive mc pid os"

definition processCommand :: "'o machine \<Rightarrow> jsval \<Rightarrow> 'o \<Rightarrow> string" where
  "processCommand mc pid os = (if pidAlive mc pid os then mc_cmdline mc pid os else [])"

definition besuPidOwned :: "'o machine \<Rightarrow> jsval \<Rightarrow> string \<Rightarrow> 'o \<Rightarrow> bool" where
  "besuPidOwned mc pid runRoot os \<longleftrightarrow> (let command = toLowerCase (processCommand mc pid os);
       markers = map toLowerCase [slashes runRoot, shellPath runRoot] in
     command \<noteq> [] \<and> contains command ''besu'' \<and> list_ex (contains command) markers)"

definition managedName :: "string \<Rightarrow> bool" where
  "managedName runRoot \<longleftrightarrow> contains (toLowerCase runRoot) ''orchestrated-''"

definition runMetadata :: "'o machine \<Rightarrow> string \<Rightarrow> 'o \<Rightarrow> jsval" where
  "runMetadata mc runRoot os = (case mc_runFile mc runRoot os of None \<Rightarrow> JNull | Some v \<Rightarrow> v)"

definition run_pids :: "'o machine \<Rightarrow> string \<Rightarrow> 'o \<Rightarrow> jsval list option" where
  "run_pids mc runRoot os = (case opt_field (runMetadata mc runRoot os) ''pids'' of JArr ps \<Rightarrow> Some ps | _ \<Rightarrow> None)"

definition run_owned :: "'o machine \<Rightarrow> string \<Rightarrow> 'o \<Rightarrow> bool" where
  "run_owned mc runRoot os \<longleftrightarrow> managedName runRoot \<or> opt_field (runMetadata mc runRoot os) ''owner'' = JStr OWNER"

definition pids_owned :: "'o machine \<Rightarrow> string \<Rightarrow> 'o \<Rightarrow> jsval list \<Rightarrow> bool" where
  "pids_owned mc runRoot os ps \<longleftrightarrow> list_all (\<lambda>p. besuPidOwned mc p runRoot os) (filter (\<lambda>p. pidAlive mc p os) ps)"

text \<open>\<^verbatim>\<open>metadata.pids\<close> that has no \<^verbatim>\<open>filter\<close> makes the decision throw.\<close>

definition managedBesuRun :: "'o machine \<Rightarrow> string \<Rightarrow> ('o, bool) script" where
  "managedBesuRun mc runRoot = bindE (reads sh_os) (\<lambda>os. case opt_field (runMetadata mc runRoot os) ''pids'' of
     JArr ps \<Rightarrow> ret (run_owned mc runRoot os \<and> length ps = 4 \<and> list_ex (\<lambda>p. pidAlive mc p os) ps \<and> pids_owned mc runRoot os ps)
   | JUndefined \<Rightarrow> ret False
   | JNull \<Rightarrow> ret False
   | _ \<Rightarrow> throw ''metadata.pids.filter is not a function'')"

text \<open>\<^verbatim>\<open>[...new Set(xs)]\<close>.\<close>

fun distinct_first :: "'a list \<Rightarrow> 'a list" where
  "distinct_first [] = []"
| "distinct_first (x # xs) = x # filter (\<lambda>y. y \<noteq> x) (distinct_first xs)"

definition candidateRuns :: "'o machine \<Rightarrow> jsval \<Rightarrow> 'o \<Rightarrow> string list" where
  "candidateRuns mc activeState os = distinct_first
     ((case opt_field activeState ''runRoot'' of JStr (c # cs) \<Rightarrow> [c # cs] | _ \<Rightarrow> []) @
      map (\<lambda>name. mc_root mc @ ''/.bel-demo/'' @ name) (filter (\<lambda>name. startsWith name ''orchestrated-'') (mc_runs mc os)))"

definition RPC_PORTS :: "nat list" where "RPC_PORTS = [8645, 8646, 8647, 8648]"

text \<open>A line of the listener table that names a port: \<^verbatim>\<open>:port\<close> before white space or at the end.\<close>

fun names_port :: "string \<Rightarrow> string \<Rightarrow> bool" where
  "names_port p [] \<longleftrightarrow> False"
| "names_port p (c # cs) \<longleftrightarrow> startsWith (c # cs) (CHR '':'' # p) \<and>
     (case drop (length p) cs of [] \<Rightarrow> True | d # _ \<Rightarrow> js_ws d) \<or> names_port p cs"

definition occupiedPorts :: "'o machine \<Rightarrow> 'o \<Rightarrow> nat list" where
  "occupiedPorts mc os = filter (\<lambda>port. list_ex (names_port (show_nat port)) (mc_listeners mc os)) RPC_PORTS"

section \<open>Stopping\<close>

fun kill_each :: "'o machine \<Rightarrow> 'o \<Rightarrow> jsval list \<Rightarrow> ('o, unit) script" where
  "kill_each mc decided [] = ret ()"
| "kill_each mc decided (p # ps) = thenE
     (bindE (reads sh_os) (\<lambda>os. whenE (pidAlive mc p os) (issue mc decided (if mc_windows mc then TaskKill p else KillTerm p))))
     (kill_each mc decided ps)"

definition stopBesuRun :: "'o machine \<Rightarrow> string \<Rightarrow> ('o, bool) script" where
  "stopBesuRun mc runRoot = bindE (reads sh_os) (\<lambda>os. case run_pids mc runRoot os of
     None \<Rightarrow> ret False
   | Some ps \<Rightarrow>
       if \<not> run_owned mc runRoot os \<or> \<not> pids_owned mc runRoot os ps then ret False
       else thenE (if mc_windows mc \<and> mc_exists mc ''wsl.exe'' os then issue mc os (StopScriptWsl runRoot)
                   else if mc_exists mc ''bash'' os then issue mc os (StopScript runRoot)
                   else kill_each mc os ps)
         (ret True))"

text \<open>A service that an earlier run recorded.\<close>

definition service_command :: "string \<Rightarrow> string \<Rightarrow> bool" where
  "service_command name command \<longleftrightarrow>
     (if name = ''dev-wallet'' then contains command ''dev-wallet'' \<or> contains command ''server.mjs''
      else if name = ''backend'' then contains command ''dev:backend'' \<or> contains command ''backend/src/index''
      else if name = ''frontend'' then contains command ''dev:frontend'' \<or> contains command ''vite''
      else False)"

definition serviceOwned :: "'o machine \<Rightarrow> jsval \<Rightarrow> 'o \<Rightarrow> bool" where
  "serviceOwned mc service os \<longleftrightarrow> pidAlive mc (opt_field service ''pid'') os \<and>
     (case opt_field service ''name'' of
        JStr name \<Rightarrow> service_command name (toLowerCase (processCommand mc (opt_field service ''pid'') os)) | _ \<Rightarrow> False)"

definition stopOwnedService :: "'o machine \<Rightarrow> jsval \<Rightarrow> ('o, bool) script" where
  "stopOwnedService mc service = bindE (reads sh_os) (\<lambda>os.
     if \<not> serviceOwned mc service os then ret False
     else thenE (issue mc os (if mc_windows mc then TaskKill (opt_field service ''pid'') else KillGroup (opt_field service ''pid'')))
       (ret True))"

text \<open>The polls of one wait: its time limit in seconds, and one more.\<close>

definition stopOwnedStaleServices :: "'o machine \<Rightarrow> jsval list \<Rightarrow> ('o, unit) script" where
  "stopOwnedStaleServices mc started = forE started (\<lambda>service.
     bindE (stopOwnedService mc service) (\<lambda>stopped.
       whenE stopped (waitFor mc 16 ''shutdown'' (\<lambda>os. \<not> pidAlive mc (opt_field service ''pid'') os) 15000)))"

definition run_gone :: "'o machine \<Rightarrow> string \<Rightarrow> 'o \<Rightarrow> bool" where
  "run_gone mc runRoot os = (case run_pids mc runRoot os of None \<Rightarrow> False | Some ps \<Rightarrow> list_all (\<lambda>p. \<not> pidAlive mc p os) ps)"

definition stopOwnedStaleBesu :: "'o machine \<Rightarrow> jsval \<Rightarrow> ('o, unit) script" where
  "stopOwnedStaleBesu mc activeState =
     bindE (reads (\<lambda>s. candidateRuns mc activeState (sh_os s))) (\<lambda>runs.
     thenE (forE runs (\<lambda>runRoot. bindE (managedBesuRun mc runRoot) (\<lambda>managed. whenE managed
       (thenE (stopBesuRun mc runRoot) (waitFor mc 31 (''Besu shutdown ('' @ runRoot @ '')'') (run_gone mc runRoot) 30000)))))
    (bindE (reads (\<lambda>s. occupiedPorts mc (sh_os s))) (\<lambda>occupied.
       throwIf (occupied \<noteq> []) ''Required Besu RPC port is occupied by an unrelated process'')))"

text \<open>\<^verbatim>\<open>cleanupAfterFailure\<close>: only its own run, and an incomplete wait is only reported.\<close>

definition cleanupAfterFailure :: "'o machine \<Rightarrow> string option \<Rightarrow> ('o, unit) script" where
  "cleanupAfterFailure mc invocationRunRoot = (case invocationRunRoot of
     None \<Rightarrow> ret ()
   | Some runRoot \<Rightarrow> bindE (reads (\<lambda>s. runMetadata mc runRoot (sh_os s))) (\<lambda>metadata.
       if \<not> truthy metadata then ret ()
       else bindE (managedBesuRun mc runRoot) (\<lambda>managed.
         if \<not> managed then ret ()
         else thenE (stopBesuRun mc runRoot) (\<lambda>s. case waitFor mc 31 ''Besu cleanup'' (run_gone mc runRoot) 30000 s of
           (_, s') \<Rightarrow> (Inr (), s')))))"

text \<open>What \<^verbatim>\<open>main\<close> does before it starts anything: it makes room with the state of the previous run.\<close>

definition make_room :: "'o machine \<Rightarrow> jsval \<Rightarrow> ('o, unit) script" where
  "make_room mc activeState = thenE
     (stopOwnedStaleServices mc (case opt_field activeState ''started'' of JArr xs \<Rightarrow> xs | _ \<Rightarrow> []))
     (stopOwnedStaleBesu mc activeState)"

section \<open>The stop script\<close>

text \<open>\<^verbatim>\<open>dev-stop.mjs\<close> repeats the decisions with its own functions; a pid that is not running has no command.\<close>

definition ownedService :: "'o machine \<Rightarrow> jsval \<Rightarrow> 'o \<Rightarrow> bool" where
  "ownedService mc service os \<longleftrightarrow> (let value = toLowerCase (processCommand mc (opt_field service ''pid'') os);
       name = opt_field service ''name'' in
     if name = JStr ''dev-wallet'' then contains value ''server.mjs''
     else if name = JStr ''backend'' then contains value ''dev:backend'' \<or> contains value ''backend/src/index''
     else if name = JStr ''frontend'' then contains value ''dev:frontend'' \<or> contains value ''vite''
     else False)"

definition besuOwned :: "'o machine \<Rightarrow> string \<Rightarrow> 'o \<Rightarrow> bool" where
  "besuOwned mc runRoot os \<longleftrightarrow> truthy (runMetadata mc runRoot os) \<and> run_owned mc runRoot os \<and>
     (case run_pids mc runRoot os of None \<Rightarrow> False
      | Some ps \<Rightarrow> list_ex (\<lambda>p. pidAlive mc p os) ps \<and> pids_owned mc runRoot os ps)"

definition stop_services :: "'o machine \<Rightarrow> jsval list \<Rightarrow> ('o, unit) script" where
  "stop_services mc started = forE started (\<lambda>service. bindE (reads sh_os) (\<lambda>os.
     whenE (truthy (opt_field service ''pid'') \<and> ownedService mc service os)
       (issue mc os (if mc_windows mc then TaskKill (opt_field service ''pid'') else KillGroup (opt_field service ''pid'')))))"

definition stop_runs :: "'o machine \<Rightarrow> string list \<Rightarrow> ('o, unit) script" where
  "stop_runs mc runs = forE runs (\<lambda>runRoot. bindE (reads sh_os) (\<lambda>os.
     whenE (mc_exists mc (runRoot @ ''/pids'') os \<and> besuOwned mc runRoot os)
       (if mc_windows mc \<and> mc_exists mc ''wsl.exe'' os then issue mc os (StopScriptWsl runRoot)
        else whenE (mc_exists mc ''bash'' os) (issue mc os (StopScript runRoot)))))"

definition devStop :: "'o machine \<Rightarrow> jsval \<Rightarrow> ('o, unit) script" where
  "devStop mc state =
     (let started = (case opt_field state ''started'' of JArr xs \<Rightarrow> xs | _ \<Rightarrow> []) in
      thenE (stop_services mc started)
     (bindE (reads (\<lambda>s. candidateRuns mc state (sh_os s))) (\<lambda>runs.
      thenE (stop_runs mc runs)
     (bindE (reads sh_os) (\<lambda>os.
      thenE (whenE (list_ex (\<lambda>v. opt_field v ''name'' = JStr ''postgres'' \<or> opt_field v ''name'' = JStr ''ipfs'') started)
               (issue mc os ComposeStop))
        (issue mc os ForgetState))))))"

section \<open>Properties\<close>

text \<open>
  The right to issue a command, in the state in which it was decided: a single process must
  have been alive with the command line of one of the services, or be one of a run whose live
  processes all were Besu nodes of this very run; a stop script needs such a run.
\<close>

definition own_run :: "'o machine \<Rightarrow> string \<Rightarrow> 'o \<Rightarrow> bool" where
  "own_run mc r os \<longleftrightarrow> (managedName r \<or> opt_field (runMetadata mc r os) ''owner'' = JStr OWNER) \<and>
     (\<exists>ps. opt_field (runMetadata mc r os) ''pids'' = JArr ps \<and>
       (\<forall>p \<in> set ps. pidAlive mc p os \<longrightarrow> contains (toLowerCase (mc_cmdline mc p os)) ''besu'' \<and>
          (contains (toLowerCase (mc_cmdline mc p os)) (toLowerCase (slashes r)) \<or>
           contains (toLowerCase (mc_cmdline mc p os)) (toLowerCase (shellPath r)))))"

definition own_service :: "'o machine \<Rightarrow> jsval \<Rightarrow> 'o \<Rightarrow> bool" where
  "own_service mc p os \<longleftrightarrow> pidAlive mc p os \<and> (\<exists>name. service_command name (toLowerCase (mc_cmdline mc p os)))"

fun authorised :: "'o machine \<Rightarrow> stop_command \<times> 'o \<Rightarrow> bool" where
  "authorised mc (StopScriptWsl r, os) = own_run mc r os"
| "authorised mc (StopScript r, os) = own_run mc r os"
| "authorised mc (TaskKill p, os) = (own_service mc p os \<or> (\<exists>r ps. own_run mc r os \<and> run_pids mc r os = Some ps \<and> p \<in> set ps))"
| "authorised mc (KillTerm p, os) = (\<exists>r ps. own_run mc r os \<and> run_pids mc r os = Some ps \<and> p \<in> set ps)"
| "authorised mc (KillGroup p, os) = own_service mc p os"
| "authorised mc (ComposeStop, os) = True"
| "authorised mc (ForgetState, os) = True"

definition lawful :: "'o machine \<Rightarrow> 'o shell \<Rightarrow> bool" where
  "lawful mc s \<longleftrightarrow> (\<forall>x \<in> set (sh_trace s). authorised mc x)"

lemma own_runI: "run_pids mc r os = Some ps \<Longrightarrow> run_owned mc r os \<Longrightarrow> pids_owned mc r os ps \<Longrightarrow> own_run mc r os"
  by (auto simp: own_run_def run_pids_def run_owned_def pids_owned_def besuPidOwned_def processCommand_def list_all_iff Let_def
      split: jsval.splits)

lemma own_serviceI: "serviceOwned mc v os \<Longrightarrow> own_service mc (opt_field v ''pid'') os"
  by (auto simp: serviceOwned_def own_service_def processCommand_def split: jsval.splits)

lemma own_serviceI': "ownedService mc v os \<Longrightarrow> own_service mc (opt_field v ''pid'') os"
proof -
  assume own: "ownedService mc v os"
  then have "pidAlive mc (opt_field v ''pid'') os"
    by (auto simp: ownedService_def processCommand_def Let_def toLowerCase_def split: if_splits)
  with own show ?thesis
    by (auto simp: ownedService_def own_service_def processCommand_def Let_def service_command_def split: if_splits
        intro: exI [of _ "''dev-wallet''"] exI [of _ "''backend''"] exI [of _ "''frontend''"])
qed

lemma keeps_issue: "authorised mc (c, os) \<Longrightarrow> keeps (lawful mc) (issue mc os c)"
  by (auto simp: keeps_def issue_def modifyS_def lawful_def)

lemma keeps_poll [keep]: "keeps (lawful mc) (poll mc n deadline check)"
  by (induction n) (auto intro!: keep keeps_modifyS simp: lawful_def)

lemma keeps_waitFor [keep]: "keeps (lawful mc) (waitFor mc n label check ms)"
  by (auto simp: waitFor_def intro!: keep)

lemma keeps_when: "(b \<Longrightarrow> keeps P f) \<Longrightarrow> keeps P (whenE b f)"
  by (simp add: whenE_def)

lemma keeps_kill_each:
  assumes "own_run mc r os" "run_pids mc r os = Some qs"
  shows "set ps \<subseteq> set qs \<Longrightarrow> keeps (lawful mc) (kill_each mc os ps)"
proof (induction ps)
  case (Cons p ps)
  with assms have "authorised mc (if mc_windows mc then TaskKill p else KillTerm p, os)" by auto
  with Cons show ?case by (auto intro!: keep keeps_issue)
qed simp

lemma keeps_stopBesuRun [keep]: "keeps (lawful mc) (stopBesuRun mc r)"
  unfolding stopBesuRun_def
  by (intro keeps_bindE keeps_reads) (auto intro!: keep keeps_issue own_runI keeps_kill_each split: option.splits)

lemma keeps_managed [keep]: "keeps (lawful mc) (managedBesuRun mc r)"
  unfolding managedBesuRun_def
  by (intro keeps_bindE keeps_reads) (auto split: jsval.splits)

lemma keeps_stopOwnedService [keep]: "keeps (lawful mc) (stopOwnedService mc v)"
  unfolding stopOwnedService_def
  by (intro keeps_bindE keeps_reads) (auto intro!: keep keeps_issue own_serviceI)

lemma keeps_stale:
  "keeps (lawful mc) (stopOwnedStaleServices mc vs)" "keeps (lawful mc) (stopOwnedStaleBesu mc v)"
  "keeps (lawful mc) (devStop mc v)"
proof -
  show "keeps (lawful mc) (stopOwnedStaleServices mc vs)" "keeps (lawful mc) (stopOwnedStaleBesu mc v)"
    by (auto simp: stopOwnedStaleServices_def stopOwnedStaleBesu_def intro!: keep)
  have run: "besuOwned mc r os \<Longrightarrow> own_run mc r os" for r os by (auto simp: besuOwned_def intro: own_runI split: option.splits)
  have "keeps (lawful mc) (stop_services mc vs)" for vs
    unfolding stop_services_def
    by (intro keeps_forE keeps_bindE keeps_reads keeps_when keeps_issue) (auto dest: own_serviceI')
  moreover have "keeps (lawful mc) (stop_runs mc rs)" for rs
    unfolding stop_runs_def
    by (intro keeps_forE keeps_bindE keeps_reads keeps_when) (auto intro!: keep keeps_issue dest: run)
  ultimately show "keeps (lawful mc) (devStop mc v)"
    by (auto simp: devStop_def Let_def intro!: keep keeps_issue)
qed

lemma keeps_cleanup: "keeps (lawful mc) (cleanupAfterFailure mc r)"
proof -
  have "keeps (lawful mc) (\<lambda>s. case waitFor mc n l c t s of (_, s') \<Rightarrow> (Inr (), s'))" for n l c t
    using keeps_waitFor [of mc n l c t] by (auto simp: keeps_def split: prod.splits)
  then show ?thesis by (auto simp: cleanupAfterFailure_def intro!: keep split: option.splits)
qed

text \<open>The polls are enough: when a sleep takes its second, more of them change nothing.\<close>

lemma poll_enough:
  assumes "\<And>os. mc_now mc (mc_sleep mc os) \<ge> mc_now mc os + 1000"
  shows "deadline - mc_now mc (sh_os s) \<le> 1000 * int n \<Longrightarrow> poll mc (n + k) deadline check s = poll mc n deadline check s"
proof (induction n arbitrary: s)
  case 0
  then show ?case by (cases k) (simp_all add: exec_defs)
next
  case (Suc n)
  have "deadline - mc_now mc (mc_sleep mc (sh_os s)) \<le> 1000 * int n" using Suc.prems assms [of "sh_os s"] by simp
  with Suc.IH [of "s\<lparr>sh_os := mc_sleep mc (sh_os s)\<rparr>"] show ?case by (simp add: exec_defs)
qed


section \<open>A concrete machine\<close>

text \<open>The state tells whether process 7 runs.\<close>

definition demo_machine :: "bool machine" where
  "demo_machine = \<lparr>mc_windows = False, mc_root = ''/r'', mc_exists = (\<lambda>_ _. True), mc_alive = (\<lambda>p up. up),
     mc_cmdline = (\<lambda>p _. ''npm run dev:backend''), mc_runFile = (\<lambda>_ _. None), mc_runs = (\<lambda>_. []), mc_listeners = (\<lambda>_. []),
     mc_issue = (\<lambda>_ _. False), mc_now = (\<lambda>_. 0), mc_sleep = id\<rparr>"

definition demo_recorded :: jsval where
  "demo_recorded = JObj [(''started'', JArr [JObj [(''name'', JStr ''backend''), (''pid'', JStr ''7'')]])]"


end
