(* ===== verification/MockApi.thy ===== *)
theory MockApi
  imports Auth EvidenceVault
begin

text \<open>
  \<^verbatim>\<open>mocks/mock-api/index.ts\<close>: the double of the HTTP API that the frontend can be built
  against.  Its state is the module's variables.  Objects are mutated in place where the code
  mutates what \<^verbatim>\<open>find\<close> returned; the one object that two variables share is the seed user, so an
  entry of the list of users is either that object or another one.
\<close>

section \<open>State\<close>

datatype user_entry = SeedUser | OwnUser user

record mock_state =
  ma_identities :: "identity list"
  ma_devices :: "device list"
  ma_wallets :: "wallet list"
  ma_seedUser :: user
  ma_users :: "user_entry list"
  ma_challenges :: "challenge list"
  ma_assets :: "asset list"
  ma_jobs :: "job list"
  ma_grants :: "grant list"

type_synonym 'a mock_m = "(mock_state, error, 'a) m"

definition seedIdentity :: "date_str \<Rightarrow> identity" where
  "seedIdentity now = \<lparr>id_identityId = ''DID:BEL:001'', id_employeeId = Some ''EMP001'', id_fullName = ''Demo Engineer'',
     id_role = Some ENGINEER, id_department = Some ''MAINTENANCE'', id_status = I_ACTIVE, id_createdAt = now,
     id_verifiedAt = None, id_verifiedBy = None\<rparr>"

definition seedWallet :: "date_str \<Rightarrow> wallet" where
  "seedWallet now = \<lparr>wal_address = ''0xMockWallet001'', wal_identityId = ''DID:BEL:001'', wal_deviceId = ''BEL-DEV-001'',
     wal_status = W_ACTIVE, wal_activatedAt = Some now, wal_revokedAt = None, wal_revokedReason = None, wal_publicKey = None\<rparr>"

definition seedUser :: user where
  "seedUser = \<lparr>usr_employeeId = ''EMP001'', usr_identityId = ''DID:BEL:001'', usr_walletAddress = ''0xMockWallet001'',
     usr_role = ENGINEER, usr_department = ''MAINTENANCE'', usr_status = I_ACTIVE\<rparr>"

definition mock_api_start :: "date_str \<Rightarrow> mock_state" where
  "mock_api_start now = \<lparr>ma_identities = [seedIdentity now],
     ma_devices = [\<lparr>dev_deviceId = ''BEL-DEV-001'', dev_identityId = ''DID:BEL:001'', dev_status = D_ACTIVE, dev_registeredAt = now,
       dev_activatedAt = None, dev_revokedAt = None, dev_publicKey = Some ''mock-public-key'', dev_metadata = None\<rparr>],
     ma_wallets = [seedWallet now], ma_seedUser = seedUser, ma_users = [SeedUser], ma_challenges = [],
     ma_assets = [\<lparr>as_assetId = ''AST-001'', as_nftId = ''1'', as_assetType = ''AIRCRAFT_PART'', as_ownerId = ''DID:BEL:001'',
       as_custodianId = ''DID:BEL:001'', as_parentAssetId = Some None, as_status = ACTIVE\<rparr>],
     ma_jobs = [\<lparr>job_jobId = ''JOB-001'', job_assetId = ''AST-001'', job_createdBy = ''DID:BEL:001'', job_assignedTo = ''DID:BEL:001'',
       job_verifierId = JNull, job_status = CREATED, job_priority = JStr ''MEDIUM'', job_createdAt = now, job_completedAt = None\<rparr>],
     ma_grants = []\<rparr>"

definition the_user :: "mock_state \<Rightarrow> user_entry \<Rightarrow> user" where
  "the_user s e = (case e of SeedUser \<Rightarrow> ma_seedUser s | OwnUser u \<Rightarrow> u)"

definition mock_users :: "mock_state \<Rightarrow> user list" where
  "mock_users s = map (the_user s) (ma_users s)"

text \<open>In-place mutation of the first element that \<^verbatim>\<open>find\<close> returns.\<close>

fun mutate :: "('a \<Rightarrow> bool) \<Rightarrow> ('a \<Rightarrow> 'a) \<Rightarrow> 'a list \<Rightarrow> 'a list" where
  "mutate P f [] = []"
| "mutate P f (x # xs) = (if P x then f x # xs else x # mutate P f xs)"

definition names_user :: "string \<Rightarrow> user \<Rightarrow> bool" where
  "names_user i u \<longleftrightarrow> usr_employeeId u = i \<or> usr_identityId u = i"

definition requireUser :: "string \<Rightarrow> user mock_m" where
  "requireUser i = bindE (reads (\<lambda>s. find (names_user i) (mock_users s))) (\<lambda>u. required u (PlainError (''User '' @ i @ '' not found'')))"

definition mock_requireJob :: "string \<Rightarrow> job mock_m" where
  "mock_requireJob i = bindE (reads (\<lambda>s. find (\<lambda>j. job_jobId j = i) (ma_jobs s))) (\<lambda>j.
     required j (PlainError (''Job '' @ i @ '' not found'')))"

fun show_purpose :: "challenge_purpose \<Rightarrow> string" where
  "show_purpose WALLET_INITIALIZATION = ''WALLET_INITIALIZATION''"
| "show_purpose AUTHENTICATION = ''AUTHENTICATION''"
| "show_purpose FRESH_AUTHENTICATION = ''FRESH_AUTHENTICATION''"

definition mock_challenge :: "env \<Rightarrow> string \<Rightarrow> challenge_purpose \<Rightarrow> challenge mock_m" where
  "mock_challenge en deviceId purpose =
     (let v = \<lparr>ch_challengeId = ''mock-'' @ show_purpose purpose @ ''-'' @ deviceId, ch_deviceId = deviceId,
        ch_challenge = ''challenge-'' @ deviceId, ch_purpose = purpose, ch_expiresAt = Iso (now_ms en + 300000), ch_usedAt = None,
        ch_metadata = None\<rparr> in
      thenE (modifyS (\<lambda>s. s\<lparr>ma_challenges := filter (\<lambda>c. ch_challengeId c \<noteq> ch_challengeId v) (ma_challenges s) @ [v]\<rparr>)) (ret v))"

definition mock_registration :: "string \<Rightarrow> (identity \<times> device \<times> wallet) mock_m" where
  "mock_registration i = bindE (reads (\<lambda>s. (find (\<lambda>v. id_identityId v = i) (ma_identities s),
       find (\<lambda>d. dev_identityId d = i) (ma_devices s), find (\<lambda>w. wal_identityId w = i) (ma_wallets s)))) (\<lambda>(v, d, w).
     required (case (v, d, w) of (Some v, Some d, Some w) \<Rightarrow> Some (v, d, w) | _ \<Rightarrow> None) (PlainError (''Registration '' @ i @ '' not found'')))"

section \<open>Accounts\<close>

record account_input =
  ac_fullName :: string
  ac_employeeId :: "string option"
  ac_department :: "string option"
  ac_deviceId :: string
  ac_publicKey :: string
  ac_walletAddress :: string
  ac_metadata :: "jsobj option"

definition mock_initializeAccount :: "env \<Rightarrow> account_input \<Rightarrow> (identity \<times> device \<times> wallet) mock_m" where
  "mock_initializeAccount en inp =
     bindE (reads (\<lambda>s. ''DID:BEL:P'' @ show_nat (length (ma_identities s) + 1))) (\<lambda>i.
     thenE (modifyS (\<lambda>s. s\<lparr>
       ma_identities := ma_identities s @ [\<lparr>id_identityId = i, id_employeeId = ac_employeeId inp, id_fullName = ac_fullName inp,
         id_role = None, id_department = ac_department inp, id_status = I_PENDING, id_createdAt = iso_now en,
         id_verifiedAt = None, id_verifiedBy = None\<rparr>],
       ma_devices := ma_devices s @ [\<lparr>dev_deviceId = ac_deviceId inp, dev_identityId = i, dev_status = D_PENDING,
         dev_registeredAt = iso_now en, dev_activatedAt = None, dev_revokedAt = None, dev_publicKey = Some (ac_publicKey inp),
         dev_metadata = ac_metadata inp\<rparr>],
       ma_wallets := ma_wallets s @ [\<lparr>wal_address = ac_walletAddress inp, wal_identityId = i, wal_deviceId = ac_deviceId inp,
         wal_status = W_PENDING, wal_activatedAt = None, wal_revokedAt = None, wal_revokedReason = None,
         wal_publicKey = Some (ac_publicKey inp)\<rparr>]\<rparr>))
       (mock_registration i))"

text \<open>A login with a proof (\<open>Some\<close> of device and key) or with a credential.\<close>

definition mock_login :: "(string \<times> string) option \<Rightarrow> (user \<times> string) mock_m" where
  "mock_login proof = bindE (reads (\<lambda>s. case proof of None \<Rightarrow> None
       | Some (d, k) \<Rightarrow> find (\<lambda>x. dev_deviceId x = d \<and> dev_publicKey x = Some k \<and> dev_status x = D_ACTIVE) (ma_devices s))) (\<lambda>dv.
     thenE (throwIf (proof \<noteq> None \<and> dv = None) (PlainError ''Invalid device proof''))
       (reads (\<lambda>s. (case dv of None \<Rightarrow> ma_seedUser s
          | Some d \<Rightarrow> (case find (\<lambda>u. usr_identityId u = dev_identityId d) (mock_users s) of Some u \<Rightarrow> u | None \<Rightarrow> ma_seedUser s),
          ''mock-session-token''))))"

text \<open>\<^verbatim>\<open>list.map(...)\<close> with a callback that may throw.\<close>

fun each :: "('a \<Rightarrow> 'b mock_m) \<Rightarrow> 'a list \<Rightarrow> 'b list mock_m" where
  "each f [] = ret []"
| "each f (x # xs) = bindE (f x) (\<lambda>y. bindE (each f xs) (\<lambda>ys. ret (y # ys)))"

definition mock_pending :: "(identity \<times> device \<times> wallet) list mock_m" where
  "mock_pending = bindE (reads (\<lambda>s. filter (\<lambda>v. id_status v = I_PENDING) (ma_identities s))) (each (\<lambda>v. mock_registration (id_identityId v)))"

text \<open>The role and the texts of an active identity are taken at the type of the code's cast.\<close>

definition mock_user_of :: "identity \<Rightarrow> string \<Rightarrow> role \<Rightarrow> user" where
  "mock_user_of v wal r = \<lparr>usr_employeeId = (case id_employeeId v of None \<Rightarrow> [] | Some e \<Rightarrow> e), usr_identityId = id_identityId v,
     usr_walletAddress = wal, usr_role = r, usr_department = (case id_department v of None \<Rightarrow> [] | Some d \<Rightarrow> d), usr_status = id_status v\<rparr>"

definition mock_employees :: "(string \<times> user) list mock_m" where
  "mock_employees = reads (\<lambda>s. map (\<lambda>v. (id_fullName v,
     case find (\<lambda>u. usr_identityId u = id_identityId v) (mock_users s) of Some u \<Rightarrow> u
       | None \<Rightarrow> mock_user_of v [] (case id_role v of None \<Rightarrow> ENGINEER | Some r \<Rightarrow> r)))
     (filter (\<lambda>v. id_status v = I_ACTIVE) (ma_identities s)))"

definition find_mock_identity :: "string \<Rightarrow> mock_state \<Rightarrow> identity option" where
  "find_mock_identity i s = find (\<lambda>v. id_identityId v = i) (ma_identities s)"

definition set_identity :: "string \<Rightarrow> (identity \<Rightarrow> identity) \<Rightarrow> mock_state \<Rightarrow> mock_state" where
  "set_identity i f s = s\<lparr>ma_identities := mutate (\<lambda>v. id_identityId v = i) f (ma_identities s)\<rparr>"

definition mock_verify :: "string \<Rightarrow> string \<Rightarrow> string \<Rightarrow> identity mock_m" where
  "mock_verify i employeeId department = bindE (reads (find_mock_identity i)) (\<lambda>found.
     bindE (required found (PlainError (''Identity '' @ i @ '' not found''))) (\<lambda>v.
     let f = (\<lambda>v. v\<lparr>id_employeeId := Some employeeId, id_department := Some department\<rparr>) in
     thenE (modifyS (set_identity i f)) (ret (f v))))"

text \<open>\<^verbatim>\<open>users = [...users.filter((u) => u.identityId !== id), user]\<close>.\<close>

definition put_user :: "user \<Rightarrow> mock_state \<Rightarrow> mock_state" where
  "put_user u s = s\<lparr>ma_users := filter (\<lambda>e. usr_identityId (the_user s e) \<noteq> usr_identityId u) (ma_users s) @ [OwnUser u]\<rparr>"

definition mock_assignRole :: "string \<Rightarrow> role \<Rightarrow> user mock_m" where
  "mock_assignRole i r = bindE (reads (find_mock_identity i)) (\<lambda>found.
     bindE (required (case found of None \<Rightarrow> None | Some v \<Rightarrow> if present (id_employeeId v) \<and> present (id_department v) then Some v else None)
       (PlainError (''Identity '' @ i @ '' is not verified''))) (\<lambda>v.
     thenE (modifyS (set_identity i (\<lambda>v. v\<lparr>id_role := Some r\<rparr>)))
    (bindE (reads (\<lambda>s. mock_user_of v (case find (\<lambda>w. wal_identityId w = i) (ma_wallets s) of None \<Rightarrow> [] | Some w \<Rightarrow> wal_address w) r)) (\<lambda>u.
     thenE (modifyS (put_user u)) (ret u)))))"

definition activate_binding :: "env \<Rightarrow> string \<Rightarrow> mock_state \<Rightarrow> mock_state" where
  "activate_binding en i s = s\<lparr>
     ma_devices := mutate (\<lambda>d. dev_identityId d = i) (\<lambda>d. d\<lparr>dev_status := D_ACTIVE\<rparr>) (ma_devices s),
     ma_wallets := mutate (\<lambda>w. wal_identityId w = i) (\<lambda>w. w\<lparr>wal_status := W_ACTIVE, wal_activatedAt := Some (iso_now en)\<rparr>) (ma_wallets s)\<rparr>"

definition mock_activate :: "env \<Rightarrow> string \<Rightarrow> (identity \<times> device \<times> wallet) mock_m" where
  "mock_activate en i = bindE (reads (\<lambda>s. (find_mock_identity i s, find (\<lambda>d. dev_identityId d = i) (ma_devices s),
       find (\<lambda>w. wal_identityId w = i) (ma_wallets s)))) (\<lambda>(v, d, w).
     bindE (required (case (v, d, w) of (Some v, Some d, Some w) \<Rightarrow>
         (if present (id_employeeId v) \<and> present (id_department v) then map_option (\<lambda>r. (v, w, r)) (id_role v) else None) | _ \<Rightarrow> None)
       (PlainError (''Registration '' @ i @ '' is incomplete''))) (\<lambda>(v, w, r).
     thenE (modifyS (\<lambda>s. set_identity i (\<lambda>v. v\<lparr>id_status := I_ACTIVE\<rparr>) (activate_binding en i s)))
    (thenE (modifyS (put_user (mock_user_of (v\<lparr>id_status := I_ACTIVE\<rparr>) (wal_address w) r)))
       (mock_registration i))))"

definition mock_registerDevice :: "env \<Rightarrow> string \<Rightarrow> string \<Rightarrow> string option \<Rightarrow> device mock_m" where
  "mock_registerDevice en userId deviceId publicKey = bindE (requireUser userId) (\<lambda>u.
     let d = \<lparr>dev_deviceId = deviceId, dev_identityId = usr_identityId u, dev_status = D_PENDING, dev_registeredAt = iso_now en,
       dev_activatedAt = None, dev_revokedAt = None, dev_publicKey = publicKey, dev_metadata = None\<rparr> in
     thenE (modifyS (\<lambda>s. s\<lparr>ma_devices := ma_devices s @ [d]\<rparr>)) (ret d))"

definition mock_getDevices :: "string \<Rightarrow> device list mock_m" where
  "mock_getDevices userId = bindE (requireUser userId) (\<lambda>u. reads (\<lambda>s. filter (\<lambda>d. dev_identityId d = usr_identityId u) (ma_devices s)))"

definition mock_registerWallet :: "string \<Rightarrow> string \<Rightarrow> string \<Rightarrow> wallet mock_m" where
  "mock_registerWallet userId deviceId address = bindE (requireUser userId) (\<lambda>u.
     bindE (reads (\<lambda>s. find (\<lambda>d. dev_deviceId d = deviceId \<and> dev_identityId d = usr_identityId u \<and> dev_status d = D_ACTIVE) (ma_devices s))) (\<lambda>dv.
     bindE (required (if address = [] then None else dv) (PlainError ''An active device and existing wallet address are required'')) (\<lambda>d.
     let w = \<lparr>wal_address = address, wal_identityId = usr_identityId u, wal_deviceId = deviceId, wal_status = W_PENDING,
       wal_activatedAt = None, wal_revokedAt = None, wal_revokedReason = None, wal_publicKey = dev_publicKey d\<rparr> in
     thenE (modifyS (\<lambda>s. s\<lparr>ma_wallets := ma_wallets s @ [w]\<rparr>)) (ret w))))"

definition mock_getWallets :: "string \<Rightarrow> wallet list mock_m" where
  "mock_getWallets userId = bindE (requireUser userId) (\<lambda>u. reads (\<lambda>s. filter (\<lambda>w. wal_identityId w = usr_identityId u) (ma_wallets s)))"

text \<open>\<^verbatim>\<open>user.walletAddress = address\<close> on the user that \<^verbatim>\<open>requireUser\<close> found.\<close>

fun mutate_user :: "mock_state \<Rightarrow> string \<Rightarrow> (user \<Rightarrow> user) \<Rightarrow> user_entry list \<Rightarrow> user \<times> user_entry list" where
  "mutate_user s i f [] = (ma_seedUser s, [])"
| "mutate_user s i f (e # es) =
     (if names_user i (the_user s e) then (case e of SeedUser \<Rightarrow> (f (ma_seedUser s), SeedUser # es) | OwnUser u \<Rightarrow> (ma_seedUser s, OwnUser (f u) # es))
      else (case mutate_user s i f es of (seed, es') \<Rightarrow> (seed, e # es')))"

definition set_user :: "string \<Rightarrow> (user \<Rightarrow> user) \<Rightarrow> mock_state \<Rightarrow> mock_state" where
  "set_user i f s = (case mutate_user s i f (ma_users s) of (seed, es) \<Rightarrow> s\<lparr>ma_seedUser := seed, ma_users := es\<rparr>)"

definition mock_activateWallet :: "env \<Rightarrow> string \<Rightarrow> string \<Rightarrow> string \<Rightarrow> wallet mock_m" where
  "mock_activateWallet en userId deviceId address = bindE (requireUser userId) (\<lambda>u.
     let is_it = (\<lambda>w. wal_identityId w = usr_identityId u \<and> wal_deviceId w = deviceId \<and> wal_address w = address \<and> wal_status w = W_PENDING);
         f = (\<lambda>w. w\<lparr>wal_status := W_ACTIVE, wal_activatedAt := Some (iso_now en)\<rparr>) in
     bindE (reads (\<lambda>s. find is_it (ma_wallets s))) (\<lambda>found.
     bindE (required found (PlainError ''Only an existing pending wallet can be activated'')) (\<lambda>w.
     thenE (modifyS (\<lambda>s. set_user userId (\<lambda>u. u\<lparr>usr_walletAddress := address\<rparr>) (s\<lparr>ma_wallets := mutate is_it f (ma_wallets s)\<rparr>))) (ret (f w)))))"

definition mock_revokeWallet :: "env \<Rightarrow> string \<Rightarrow> string \<Rightarrow> wallet mock_m" where
  "mock_revokeWallet en userId reason = bindE (requireUser userId) (\<lambda>u.
     let is_it = (\<lambda>w. wal_identityId w = usr_identityId u \<and> wal_address w = usr_walletAddress u);
         f = (\<lambda>w. w\<lparr>wal_status := W_REVOKED, wal_revokedAt := Some (iso_now en), wal_revokedReason := Some reason\<rparr>) in
     bindE (reads (\<lambda>s. find is_it (ma_wallets s))) (\<lambda>found.
     bindE (required found (PlainError ''Wallet not found'')) (\<lambda>w.
     thenE (modifyS (\<lambda>s. s\<lparr>ma_wallets := mutate is_it f (ma_wallets s)\<rparr>)) (ret (f w)))))"

definition mock_revokeDevice :: "env \<Rightarrow> string \<Rightarrow> device mock_m" where
  "mock_revokeDevice en deviceId =
     (let is_it = (\<lambda>d. dev_deviceId d = deviceId); f = (\<lambda>d. d\<lparr>dev_status := D_REVOKED, dev_revokedAt := Some (iso_now en)\<rparr>) in
      bindE (reads (\<lambda>s. find is_it (ma_devices s))) (\<lambda>found.
      bindE (required found (PlainError (''Device '' @ deviceId @ '' not found''))) (\<lambda>d.
      thenE (modifyS (\<lambda>s. s\<lparr>ma_devices := mutate is_it f (ma_devices s)\<rparr>)) (ret (f d)))))"

definition mock_createUser :: "env \<Rightarrow> string \<Rightarrow> string \<Rightarrow> role \<Rightarrow> string \<Rightarrow> (identity \<times> user) mock_m" where
  "mock_createUser en employeeId fullName r department = bindE (reads (\<lambda>s. ''DID:BEL:'' @ show_nat (length (ma_identities s) + 1))) (\<lambda>i.
     let v = \<lparr>id_identityId = i, id_employeeId = Some employeeId, id_fullName = fullName, id_role = Some r, id_department = Some department,
           id_status = I_ACTIVE, id_createdAt = iso_now en, id_verifiedAt = None, id_verifiedBy = None\<rparr>;
         u = mock_user_of v [] r in
     thenE (modifyS (\<lambda>s. s\<lparr>ma_identities := ma_identities s @ [v], ma_users := ma_users s @ [OwnUser u]\<rparr>)) (ret (v, u)))"

definition mock_getMe :: "user mock_m" where "mock_getMe = reads ma_seedUser"

definition mock_getUser :: "string \<Rightarrow> user option mock_m" where
  "mock_getUser i = reads (\<lambda>s. find (names_user i) (mock_users s))"

section \<open>Assets, grants and jobs\<close>

definition mock_getCurrentUserGrant :: "env \<Rightarrow> string \<Rightarrow> grant option mock_m" where
  "mock_getCurrentUserGrant en r = reads (\<lambda>s. find (\<lambda>g. gr_actorIdentityId g = ''DID:BEL:001'' \<and> gr_resourceType g = RT_ASSET \<and>
     gr_resourceId g = r \<and> gr_action g = TRANSFER_ASSET \<and> gr_status g = G_ACTIVE \<and>
     (case gr_expiresAt g of None \<Rightarrow> True | Some d \<Rightarrow> \<not> date_truthy d \<or>
        (case date_parse d of None \<Rightarrow> False | Some t \<Rightarrow> t > now_ms en))) (ma_grants s))"

definition mock_createAsset :: "string option \<Rightarrow> string \<Rightarrow> string \<Rightarrow> string \<Rightarrow> string option \<Rightarrow> asset mock_m" where
  "mock_createAsset assetId assetType ownerId custodianId parent = bindE (reads (\<lambda>s. length (ma_assets s) + 1)) (\<lambda>n.
     let a = \<lparr>as_assetId = (case assetId of Some i \<Rightarrow> i | None \<Rightarrow> ''AST-'' @ show_nat n), as_nftId = show_nat n, as_assetType = assetType,
       as_ownerId = ownerId, as_custodianId = custodianId, as_parentAssetId = Some parent, as_status = ACTIVE\<rparr> in
     thenE (modifyS (\<lambda>s. s\<lparr>ma_assets := ma_assets s @ [a]\<rparr>)) (ret a))"

definition change_asset :: "string \<Rightarrow> error \<Rightarrow> (asset \<Rightarrow> bool) \<Rightarrow> (asset \<Rightarrow> asset) \<Rightarrow> asset mock_m" where
  "change_asset i e ok f = bindE (reads (\<lambda>s. find (\<lambda>a. as_assetId a = i) (ma_assets s))) (\<lambda>found.
     bindE (required (case found of None \<Rightarrow> None | Some a \<Rightarrow> if ok a then Some a else None) e) (\<lambda>a.
     thenE (modifyS (\<lambda>s. s\<lparr>ma_assets := mutate (\<lambda>a. as_assetId a = i) f (ma_assets s)\<rparr>)) (ret (f a))))"

definition mock_transferAsset :: "string \<Rightarrow> string \<Rightarrow> string option \<Rightarrow> asset mock_m" where
  "mock_transferAsset i newOwner newCustodian = change_asset i (PlainError (''Asset '' @ i @ '' not found'')) (\<lambda>_. True)
     (\<lambda>a. a\<lparr>as_ownerId := newOwner, as_custodianId := (case newCustodian of Some c \<Rightarrow> c | None \<Rightarrow> newOwner)\<rparr>)"

definition mock_changeState :: "string \<Rightarrow> asset_status \<Rightarrow> asset mock_m" where
  "mock_changeState i st = change_asset i (PlainError (''Asset '' @ i @ '' not found'')) (\<lambda>_. True) (\<lambda>a. a\<lparr>as_status := st\<rparr>)"

definition mock_attach :: "string \<Rightarrow> string \<Rightarrow> asset mock_m" where
  "mock_attach i componentId = bindE (reads (\<lambda>s. find (\<lambda>a. as_assetId a = i) (ma_assets s))) (\<lambda>parent.
     thenE (throwIf (parent = None) (PlainError ''Asset component not found''))
       (change_asset componentId (PlainError ''Asset component not found'') (\<lambda>_. True) (\<lambda>a. a\<lparr>as_parentAssetId := Some (Some i)\<rparr>)))"

definition mock_removeComponent :: "string \<Rightarrow> string \<Rightarrow> asset mock_m" where
  "mock_removeComponent parentId componentId = change_asset componentId (PlainError ''Asset component not attached'')
     (\<lambda>a. as_parentAssetId a = Some (Some parentId)) (\<lambda>a. a\<lparr>as_parentAssetId := Some None\<rparr>)"

definition mock_getGrants :: "string \<Rightarrow> grant list mock_m" where
  "mock_getGrants userId = bindE (requireUser userId) (\<lambda>u. reads (\<lambda>s. filter (\<lambda>g. gr_actorIdentityId g = usr_identityId u) (ma_grants s)))"

definition mock_createGrant :: "env \<Rightarrow> string \<Rightarrow> resource_type \<Rightarrow> string \<Rightarrow> action \<Rightarrow> date_str option \<Rightarrow> grant mock_m" where
  "mock_createGrant en userId rt r act expiresAt = bindE (requireUser userId) (\<lambda>u.
     bindE (reads (\<lambda>s. \<lparr>gr_authorizationGrantId = ''GRANT-MOCK-'' @ show_nat (length (ma_grants s) + 1), gr_actorIdentityId = usr_identityId u,
       gr_resourceType = rt, gr_resourceId = r, gr_action = act, gr_grantedByIdentityId = ''DID:BEL:001'', gr_issuedAt = iso_now en,
       gr_expiresAt = expiresAt, gr_status = G_ACTIVE\<rparr>)) (\<lambda>g.
     thenE (modifyS (\<lambda>s. s\<lparr>ma_grants := g # ma_grants s\<rparr>)) (ret g)))"

definition mock_revokeGrant :: "string \<Rightarrow> string \<Rightarrow> grant mock_m" where
  "mock_revokeGrant userId grantId = thenE (requireUser userId)
     (let is_it = (\<lambda>g. gr_authorizationGrantId g = grantId); f = (\<lambda>g. g\<lparr>gr_status := G_REVOKED\<rparr>) in
      bindE (reads (\<lambda>s. find is_it (ma_grants s))) (\<lambda>found.
      bindE (required found (PlainError (''Grant '' @ grantId @ '' not found''))) (\<lambda>g.
      thenE (modifyS (\<lambda>s. s\<lparr>ma_grants := mutate is_it f (ma_grants s)\<rparr>)) (ret (f g)))))"

definition mock_createJob :: "env \<Rightarrow> string \<Rightarrow> jsval \<Rightarrow> jsval \<Rightarrow> job mock_m" where
  "mock_createJob en assetId priority verifierId = bindE (reads (\<lambda>s. \<lparr>job_jobId = ''JOB-'' @ show_nat (length (ma_jobs s) + 1),
       job_assetId = assetId, job_createdBy = ''DID:BEL:001'', job_assignedTo = [], job_verifierId = nullish_or verifierId JNull,
       job_status = CREATED, job_priority = priority, job_createdAt = iso_now en, job_completedAt = None\<rparr>)) (\<lambda>j.
     thenE (modifyS (\<lambda>s. s\<lparr>ma_jobs := ma_jobs s @ [j]\<rparr>)) (ret j))"

definition change_job :: "string \<Rightarrow> (job \<Rightarrow> job) \<Rightarrow> job mock_m" where
  "change_job i f = bindE (mock_requireJob i) (\<lambda>j.
     thenE (modifyS (\<lambda>s. s\<lparr>ma_jobs := mutate (\<lambda>j. job_jobId j = i) f (ma_jobs s)\<rparr>)) (ret (f j)))"

definition mock_assignJob :: "string \<Rightarrow> string \<Rightarrow> job mock_m" where
  "mock_assignJob i t = change_job i (\<lambda>j. j\<lparr>job_assignedTo := t, job_status := ASSIGNED\<rparr>)"

definition mock_startJob :: "string \<Rightarrow> job mock_m" where
  "mock_startJob i = change_job i (\<lambda>j. j\<lparr>job_status := IN_PROGRESS\<rparr>)"

definition mock_completeJob :: "env \<Rightarrow> string \<Rightarrow> job mock_m" where
  "mock_completeJob en i = change_job i (\<lambda>j. j\<lparr>job_status := COMPLETED, job_completedAt := Some (iso_now en)\<rparr>)"

definition mock_approveJob :: "string \<Rightarrow> job mock_m" where
  "mock_approveJob i = change_job i (\<lambda>j. j\<lparr>job_status := VERIFIED\<rparr>)"

definition mock_rejectJob :: "string \<Rightarrow> job mock_m" where
  "mock_rejectJob i = change_job i (\<lambda>j. j\<lparr>job_status := REJECTED\<rparr>)"

text \<open>The registration that \<^verbatim>\<open>addValidator\<close> answers; nothing is stored.\<close>

definition mock_addValidator :: "env \<Rightarrow> string \<Rightarrow> string \<Rightarrow> string \<Rightarrow> string \<Rightarrow> int \<Rightarrow> registration mock_m" where
  "mock_addValidator en validatorId nodeAddress publicKey signingPublicKey height = ret
     \<lparr>reg_registrationId = ''VREG:'' @ validatorId, reg_validatorId = validatorId, reg_identityId = ''DID:BEL:001'',
      reg_walletAddress = ''0xMockWallet001'', reg_nodeId = validatorId, reg_nodeAddress = nodeAddress, reg_publicKey = publicKey,
      reg_signingPublicKey = signingPublicKey, reg_status = R_ACTIVE, reg_requestedAt = iso_now en, reg_activationHeight = height,
      reg_removalHeight = None, reg_removalReason = None, reg_txHash = Some ''0xmock'', reg_blockNumber = Some 43\<rparr>"

section \<open>Requests\<close>

datatype mock_request =
    MChallenge string challenge_purpose | MInit account_input | MVerify string string string | MRole string role | MActivate string
  | MDevice string string "string option" | MWallet string string string | MActWallet string string string | MRevWallet string string
  | MRevDevice string | MUser string string role string | MAsset "string option" string string string "string option"
  | MTransfer string string "string option" | MState string asset_status | MAttach string string | MRemove string string
  | MGrant string resource_type string action "date_str option" | MRevGrant string string | MJob string jsval jsval
  | MAssignJob string string | MStartJob string | MCompleteJob string | MApproveJob string | MRejectJob string

definition state_after :: "'a mock_m \<Rightarrow> mock_state \<Rightarrow> mock_state" where
  "state_after f s = snd (f s)"

definition mock_exec :: "env \<Rightarrow> mock_request \<Rightarrow> mock_state \<Rightarrow> mock_state" where
  "mock_exec en rq = (case rq of
     MChallenge d p \<Rightarrow> state_after (mock_challenge en d p)
   | MInit inp \<Rightarrow> state_after (mock_initializeAccount en inp)
   | MVerify i e d \<Rightarrow> state_after (mock_verify i e d)
   | MRole i r \<Rightarrow> state_after (mock_assignRole i r)
   | MActivate i \<Rightarrow> state_after (mock_activate en i)
   | MDevice u d k \<Rightarrow> state_after (mock_registerDevice en u d k)
   | MWallet u d a \<Rightarrow> state_after (mock_registerWallet u d a)
   | MActWallet u d a \<Rightarrow> state_after (mock_activateWallet en u d a)
   | MRevWallet u why \<Rightarrow> state_after (mock_revokeWallet en u why)
   | MRevDevice d \<Rightarrow> state_after (mock_revokeDevice en d)
   | MUser e n r d \<Rightarrow> state_after (mock_createUser en e n r d)
   | MAsset i t ow c p \<Rightarrow> state_after (mock_createAsset i t ow c p)
   | MTransfer i ow c \<Rightarrow> state_after (mock_transferAsset i ow c)
   | MState i st \<Rightarrow> state_after (mock_changeState i st)
   | MAttach i c \<Rightarrow> state_after (mock_attach i c)
   | MRemove p c \<Rightarrow> state_after (mock_removeComponent p c)
   | MGrant u rt r a ex \<Rightarrow> state_after (mock_createGrant en u rt r a ex)
   | MRevGrant u g \<Rightarrow> state_after (mock_revokeGrant u g)
   | MJob a p v \<Rightarrow> state_after (mock_createJob en a p v)
   | MAssignJob i t \<Rightarrow> state_after (mock_assignJob i t)
   | MStartJob i \<Rightarrow> state_after (mock_startJob i)
   | MCompleteJob i \<Rightarrow> state_after (mock_completeJob en i)
   | MApproveJob i \<Rightarrow> state_after (mock_approveJob i)
   | MRejectJob i \<Rightarrow> state_after (mock_rejectJob i))"


fun mock_run :: "(env \<times> mock_request) list \<Rightarrow> mock_state \<Rightarrow> mock_state" where
  "mock_run [] s = s"
| "mock_run ((en, rq) # rqs) s = mock_run rqs (mock_exec en rq s)"

section \<open>Keys stay unique\<close>

text \<open>
  The double numbers what it creates by the length of its lists.  The lists of identities, jobs,
  assets and grants never shrink, so the numbers do not repeat; the two series of identity ids
  (\<^verbatim>\<open>DID:BEL:P<n>\<close> and \<^verbatim>\<open>DID:BEL:<n>\<close>) share one counter.
\<close>

definition serial :: "(nat \<Rightarrow> string \<Rightarrow> bool) \<Rightarrow> string list \<Rightarrow> bool" where
  "serial P ks \<longleftrightarrow> (\<forall>k < length ks. P k (ks ! k))"

lemma serial_Nil [simp]: "serial P []" by (simp add: serial_def)

lemma serial_snoc [simp]: "serial P (ks @ [k]) \<longleftrightarrow> serial P ks \<and> P (length ks) k"
  by (auto simp: serial_def nth_append less_Suc_eq)

lemma serial_distinct:
  assumes "serial P ks" "\<And>i j k. P i k \<Longrightarrow> P j k \<Longrightarrow> i = j"
  shows "distinct ks"
  using assms by (metis distinct_conv_nth serial_def)

lemma serial_fresh:
  assumes "serial P ks" "P (length ks) k" "\<And>i j k. P i k \<Longrightarrow> P j k \<Longrightarrow> i = j"
  shows "k \<notin> set ks"
  using serial_distinct [of P "ks @ [k]"] assms by auto

definition identity_no :: "nat \<Rightarrow> string \<Rightarrow> bool" where
  "identity_no k i \<longleftrightarrow> (if k = 0 then i = ''DID:BEL:001'' else i \<in> {''DID:BEL:P'' @ show_nat (k + 1), ''DID:BEL:'' @ show_nat (k + 1)})"

definition job_no :: "nat \<Rightarrow> string \<Rightarrow> bool" where
  "job_no k i \<longleftrightarrow> (if k = 0 then i = ''JOB-001'' else i = ''JOB-'' @ show_nat (k + 1))"

definition nft_no :: "nat \<Rightarrow> string \<Rightarrow> bool" where
  "nft_no k i \<longleftrightarrow> i = show_nat (k + 1)"

definition grant_no :: "nat \<Rightarrow> string \<Rightarrow> bool" where
  "grant_no k i \<longleftrightarrow> i = ''GRANT-MOCK-'' @ show_nat (k + 1)"

lemma show_nat_no_P: "show_nat n \<noteq> CHR ''P'' # xs" "CHR ''P'' # xs \<noteq> show_nat n"
proof -
  have "\<not> is_digit CHR ''P''" by code_simp
  with show_nat_digits [of n] show "show_nat n \<noteq> CHR ''P'' # xs" "CHR ''P'' # xs \<noteq> show_nat n" by (auto dest: sym)
qed

lemma show_nat_no_seed: "show_nat (Suc n) \<noteq> ''001''" "''001'' \<noteq> show_nat (Suc n)"
proof -
  have "show_nat (Suc n) \<noteq> ''001''"
  proof
    assume seed: "show_nat (Suc n) = ''001''"
    have one: "digits_val ''001'' = 1" "show_nat 1 \<noteq> ''001''" by code_simp+
    from one(1) seed show_nat_digits [of "Suc n"] have "Suc n = 1" by simp
    with seed one(2) show False by simp
  qed
  then show "show_nat (Suc n) \<noteq> ''001''" "''001'' \<noteq> show_nat (Suc n)" by metis+
qed

lemma identity_no_inj: "identity_no i k \<Longrightarrow> identity_no j k \<Longrightarrow> i = j"
  by (auto simp: identity_no_def show_nat_inj show_nat_no_seed show_nat_no_P split: if_splits)

lemma job_no_inj: "job_no i k \<Longrightarrow> job_no j k \<Longrightarrow> i = j"
  by (auto simp: job_no_def show_nat_inj show_nat_no_seed split: if_splits)

lemma nft_no_inj: "nft_no i k \<Longrightarrow> nft_no j k \<Longrightarrow> i = j"
  by (auto simp: nft_no_def show_nat_inj)

lemma grant_no_inj: "grant_no i k \<Longrightarrow> grant_no j k \<Longrightarrow> i = j"
  by (auto simp: grant_no_def show_nat_inj)

definition ids_of :: "mock_state \<Rightarrow> string list" where "ids_of s = map id_identityId (ma_identities s)"
definition people_of :: "mock_state \<Rightarrow> string list" where "people_of s = map usr_identityId (mock_users s)"
definition rest_of :: "mock_state \<Rightarrow> string list \<times> string list \<times> string list" where
  "rest_of s = (map job_jobId (ma_jobs s), map as_nftId (ma_assets s), rev (map gr_authorizationGrantId (ma_grants s)))"

definition mock_keys :: "mock_state \<Rightarrow> string list \<times> string list \<times> string list \<times> string list \<times> string list" where
  "mock_keys s = (ids_of s, people_of s, rest_of s)"

fun keys_ok :: "string list \<times> string list \<times> string list \<times> string list \<times> string list \<Rightarrow> bool" where
  "keys_ok (ids, people, jobs, nfts, grants) \<longleftrightarrow> ids \<noteq> [] \<and> jobs \<noteq> [] \<and> serial identity_no ids \<and> distinct people \<and> set people \<subseteq> set ids \<and>
     serial job_no jobs \<and> serial nft_no nfts \<and> serial grant_no grants"

definition mock_ok :: "mock_state \<Rightarrow> bool" where "mock_ok s \<longleftrightarrow> keys_ok (mock_keys s)"

lemmas key_defs = mock_keys_def ids_of_def people_of_def rest_of_def mock_users_def

lemma mutate_keeps [simp]: "(\<And>x. key (f x) = key x) \<Longrightarrow> map key (mutate P f xs) = map key xs"
  by (induction xs) auto

lemma keys_set_identity: "(\<And>v. id_identityId (f v) = id_identityId v) \<Longrightarrow> mock_keys (set_identity i f s) = mock_keys s"
  by (simp add: key_defs set_identity_def the_user_def cong: user_entry.case_cong)

lemma mutate_user_keys:
  assumes "mutate_user s i f es = (seed, es')" "\<And>u. usr_identityId (f u) = usr_identityId u"
  shows "usr_identityId seed = usr_identityId (ma_seedUser s) \<and>
    map (\<lambda>e. usr_identityId (case e of SeedUser \<Rightarrow> seed | OwnUser u \<Rightarrow> u)) es' = map (\<lambda>e. usr_identityId (the_user s e)) es"
  using assms
proof (induction es arbitrary: seed es')
  case (Cons e es)
  then show ?case
    by (auto simp: the_user_def split: if_splits user_entry.splits prod.splits)
qed auto

lemma keys_set_user:
  assumes "\<And>u. usr_identityId (f u) = usr_identityId u"
  shows "mock_keys (set_user i f s) = mock_keys s"
proof -
  obtain seed es where m: "mutate_user s i f (ma_users s) = (seed, es)" by fastforce
  from mutate_user_keys [OF m assms] show ?thesis
    by (simp add: key_defs set_user_def m the_user_def comp_def cong: user_entry.case_cong)
qed

lemma quiet_modify: "(\<And>s. p (g s) = p s) \<Longrightarrow> quiet p (modifyS g)"
  by (simp add: quiet_def modifyS_def)

lemma ok_quiet: "quiet mock_keys f \<Longrightarrow> keeps mock_ok f"
  by (simp add: keeps_def mock_ok_def quiet_def)

lemma keys_update:
  "mock_keys (s\<lparr>ma_devices := ds\<rparr>) = mock_keys s" "mock_keys (s\<lparr>ma_wallets := ws\<rparr>) = mock_keys s"
  "mock_keys (s\<lparr>ma_challenges := cs\<rparr>) = mock_keys s"
  "map job_jobId js = map job_jobId (ma_jobs s) \<Longrightarrow> mock_keys (s\<lparr>ma_jobs := js\<rparr>) = mock_keys s"
  "map as_nftId as = map as_nftId (ma_assets s) \<Longrightarrow> mock_keys (s\<lparr>ma_assets := as\<rparr>) = mock_keys s"
  "map gr_authorizationGrantId gs = map gr_authorizationGrantId (ma_grants s) \<Longrightarrow> mock_keys (s\<lparr>ma_grants := gs\<rparr>) = mock_keys s"
  by (simp_all add: key_defs the_user_def cong: user_entry.case_cong)

lemmas mock_defs = mock_challenge_def mock_verify_def mock_registerDevice_def mock_registerWallet_def mock_activateWallet_def
  mock_revokeWallet_def mock_revokeDevice_def requireUser_def mock_requireJob_def mock_transferAsset_def
  mock_changeState_def mock_attach_def mock_removeComponent_def change_asset_def mock_revokeGrant_def change_job_def
  mock_assignJob_def mock_startJob_def mock_completeJob_def mock_approveJob_def mock_rejectJob_def Let_def

lemma quiet_requests:
  "quiet mock_keys (mock_challenge en d pu)" "quiet mock_keys (mock_verify i e dep)" "quiet mock_keys (mock_registerDevice en i d k)"
  "quiet mock_keys (mock_registerWallet i d a)" "quiet mock_keys (mock_activateWallet en i d a)" "quiet mock_keys (mock_revokeWallet en i why)"
  "quiet mock_keys (mock_revokeDevice en d)" "quiet mock_keys (mock_transferAsset i ow cu)"
  "quiet mock_keys (mock_changeState i st)" "quiet mock_keys (mock_attach i c)" "quiet mock_keys (mock_removeComponent i c)"
  "quiet mock_keys (mock_revokeGrant i g)" "quiet mock_keys (mock_assignJob i t)" "quiet mock_keys (mock_startJob i)"
  "quiet mock_keys (mock_completeJob en i)" "quiet mock_keys (mock_approveJob i)" "quiet mock_keys (mock_rejectJob i)"
  unfolding mock_defs
  by (intro frame quiet_modify; simp add: keys_set_user keys_set_identity keys_update)+

lemma quiet_registration: "quiet mock_keys (mock_registration i)"
  by (simp add: quiet_def mock_registration_def exec_defs split: option.splits)

lemma the_user_fun: "the_user s = (\<lambda>e. case e of SeedUser \<Rightarrow> ma_seedUser s | OwnUser u \<Rightarrow> u)"
  by (rule ext) (simp add: the_user_def)

lemma ok_grow:
  "mock_ok s \<Longrightarrow> job_no (length (ma_jobs s)) (job_jobId j) \<Longrightarrow> mock_ok (s\<lparr>ma_jobs := ma_jobs s @ [j]\<rparr>)"
  "mock_ok s \<Longrightarrow> nft_no (length (ma_assets s)) (as_nftId a) \<Longrightarrow> mock_ok (s\<lparr>ma_assets := ma_assets s @ [a]\<rparr>)"
  "mock_ok s \<Longrightarrow> grant_no (length (ma_grants s)) (gr_authorizationGrantId g) \<Longrightarrow> mock_ok (s\<lparr>ma_grants := g # ma_grants s\<rparr>)"
  "mock_ok s \<Longrightarrow> identity_no (length (ma_identities s)) (id_identityId v) \<Longrightarrow>
     mock_ok (s\<lparr>ma_identities := ma_identities s @ [v], ma_devices := ds, ma_wallets := ws\<rparr>)"
  by (auto simp: mock_ok_def key_defs the_user_fun)

lemma ok_new_user:
  assumes "mock_ok s" "identity_no (length (ma_identities s)) (id_identityId v)" "usr_identityId u = id_identityId v"
  shows "mock_ok (s\<lparr>ma_identities := ma_identities s @ [v], ma_users := ma_users s @ [OwnUser u]\<rparr>)"
proof -
  from assms(1) have "serial identity_no (ids_of s)" by (cases "rest_of s") (simp add: mock_ok_def mock_keys_def)
  from serial_fresh [OF this _ identity_no_inj] assms(2) have "id_identityId v \<notin> set (ids_of s)" by (simp add: ids_of_def)
  with assms show ?thesis by (auto simp: mock_ok_def key_defs the_user_fun)
qed

lemma ok_put_user:
  assumes "mock_ok s" "usr_identityId u \<in> set (ids_of s)"
  shows "mock_ok (put_user u s)"
proof -
  have people: "people_of (put_user u s) = filter (\<lambda>i. i \<noteq> usr_identityId u) (people_of s) @ [usr_identityId u]"
    by (simp add: put_user_def people_of_def mock_users_def filter_map comp_def the_user_fun split: user_entry.split)
  have "ids_of (put_user u s) = ids_of s" "rest_of (put_user u s) = rest_of s"
    by (simp_all add: put_user_def ids_of_def rest_of_def)
  with people assms show ?thesis by (cases "rest_of s") (auto simp: mock_ok_def mock_keys_def)
qed

lemma ok_nonempty: "mock_ok s \<Longrightarrow> ma_jobs s \<noteq> [] \<and> ma_identities s \<noteq> []"
  by (auto simp: mock_ok_def key_defs)

lemma ok_createJob: "keeps mock_ok (mock_createJob en a p v)"
  by (rule keepsI) (auto simp: mock_createJob_def exec_defs modifyS_def job_no_def dest: ok_nonempty intro!: ok_grow)

lemma ok_createAsset: "keeps mock_ok (mock_createAsset i t ow c pa)"
  by (rule keepsI) (auto simp: mock_createAsset_def exec_defs modifyS_def Let_def nft_no_def intro!: ok_grow)

lemma ok_createUser: "keeps mock_ok (mock_createUser en e n r dep)"
  by (rule keepsI) (auto simp: mock_createUser_def exec_defs modifyS_def Let_def identity_no_def mock_user_of_def dest: ok_nonempty intro!: ok_new_user)

lemma bindE_reads: "bindE (reads f) g s = g (f s) s"
  by (simp add: exec_defs)

lemma thenE_modifyS: "thenE (modifyS f) g s = g (f s)"
  by (simp add: exec_defs)

lemma bindE_required: "bindE (required x e) g s = (case x of None \<Rightarrow> (Inl e, s) | Some v \<Rightarrow> g v s)"
  by (simp add: exec_defs split: option.split)

lemmas mock_steps = bindE_reads thenE_modifyS bindE_required

lemma ok_initializeAccount: "keeps mock_ok (mock_initializeAccount en inp)"
  unfolding mock_initializeAccount_def
  by (rule keepsI, simp only: bindE_reads thenE_modifyS)
    (erule keepsD [OF ok_quiet [OF quiet_registration]], auto simp: identity_no_def dest: ok_nonempty intro!: ok_grow)

lemma ok_createGrant: "keeps mock_ok (mock_createGrant en u rt r a ex)"
  unfolding mock_createGrant_def requireUser_def
  by (rule keeps_bindE, intro keeps_bindE keeps_reads keeps_required, rule keepsI)
    (auto simp: exec_defs modifyS_def grant_no_def intro!: ok_grow)

lemma ok_put_found:
  assumes "mock_ok s" "find_mock_identity i s = Some v" "usr_identityId u = id_identityId v"
    "mock_keys s' = mock_keys s"
  shows "mock_ok (put_user u s')"
proof (rule ok_put_user)
  from assms(1,4) show "mock_ok s'" by (simp add: mock_ok_def)
  from assms(2,3) have "usr_identityId u \<in> set (ids_of s)"
    by (auto simp: find_mock_identity_def find_Some_iff ids_of_def intro!: image_eqI [OF _ nth_mem])
  with assms(4) show "usr_identityId u \<in> set (ids_of s')" by (simp add: mock_keys_def)
qed

lemma mock_user_of_identity: "usr_identityId (mock_user_of v w r) = id_identityId v"
  by (simp add: mock_user_of_def)

lemma ok_assignRole: "keeps mock_ok (mock_assignRole i r)"
proof (rule keepsI)
  fix s rs s' assume "mock_ok s" "mock_assignRole i r s = (rs, s')"
  then show "mock_ok s'"
    by (auto simp: mock_assignRole_def mock_steps ret_def mock_user_of_identity keys_set_identity
        intro!: ok_put_found [of s i] split: option.splits if_splits)
qed

lemma ok_activate: "keeps mock_ok (mock_activate en i)"
proof (rule keepsI)
  fix s rs s' assume ok: "mock_ok s" and run: "mock_activate en i s = (rs, s')"
  show "mock_ok s'"
  proof (cases "s' = s")
    case False
    let ?t = "\<lambda>v (w :: wallet) r. put_user (mock_user_of (v\<lparr>id_status := I_ACTIVE\<rparr>) (wal_address w) r)
      (set_identity i (\<lambda>v. v\<lparr>id_status := I_ACTIVE\<rparr>) (activate_binding en i s))"
    from False run obtain v w r where v: "find_mock_identity i s = Some v" and mock: "mock_registration i (?t v w r) = (rs, s')"
      by (auto simp: mock_activate_def mock_steps split: option.splits if_splits)
    have "mock_ok (?t v w r)"
      by (rule ok_put_found [OF ok v]) (simp_all add: mock_user_of_identity keys_set_identity activate_binding_def keys_update)
    with keepsD [OF ok_quiet [OF quiet_registration] mock] show ?thesis .
  qed (simp add: ok)
qed

lemma ok_exec: "mock_ok s \<Longrightarrow> mock_ok (mock_exec en rq s)"
  using ok_createJob ok_createAsset ok_createUser ok_initializeAccount ok_createGrant ok_assignRole ok_activate
    quiet_requests [THEN ok_quiet]
  by (cases rq) (simp_all add: mock_exec_def state_after_def keeps_def)

lemma ok_run: "mock_ok s \<Longrightarrow> mock_ok (mock_run rqs s)"
  by (induction rqs s rule: mock_run.induct) (simp_all add: ok_exec)

lemma ok_start: "mock_ok (mock_api_start now)"
proof -
  have "show_nat 1 = ''1''" by code_simp
  then show ?thesis
    by (simp add: mock_ok_def key_defs rest_of_def mock_api_start_def seedIdentity_def seedUser_def the_user_def serial_def
        identity_no_def job_no_def nft_no_def)
qed

text \<open>
  C33. The double answers any sequence of requests with keys that stay unique: no two identities, jobs,
  grants or ownership tokens share an id, no identity has two user accounts, and every user account
  belongs to an identity that the double knows.
\<close>

theorem mock_api_keys_unique:
  "let s = mock_run rqs (mock_api_start now) in
    distinct (map id_identityId (ma_identities s)) \<and> distinct (map job_jobId (ma_jobs s)) \<and>
    distinct (map as_nftId (ma_assets s)) \<and> distinct (map gr_authorizationGrantId (ma_grants s)) \<and>
    distinct (map usr_identityId (mock_users s)) \<and> usr_identityId ` set (mock_users s) \<subseteq> id_identityId ` set (ma_identities s)"
proof -
  have "mock_ok (mock_run rqs (mock_api_start now))" by (simp add: ok_run ok_start)
  then show ?thesis
    by (auto simp: Let_def mock_ok_def mock_keys_def ids_of_def people_of_def rest_of_def
        dest: serial_distinct [OF _ identity_no_inj] serial_distinct [OF _ job_no_inj] serial_distinct [OF _ nft_no_inj]
          serial_distinct [OF _ grant_no_inj])
qed

end
