(* ===== verification/Spec2Isabelle.thy ===== *)
theory Spec2Isabelle
  imports ChainConfig EvidenceVault System DurablePorts SendQueue Client DevWallet Schemas Diagnostics
    Pages PageFlows Bootstrap DevStart MockApi
begin

text \<open>
  A verification of SIH-BEL, its backend, the browser's client and pages, and the scripts that start a
  development system: tracking of defence assets, their components and their maintenance, with device-bound
  identities and a permissioned EVM chain as the ledger.

  \<^bold>\<open>The program.\<close>  The backend (\<^verbatim>\<open>backend/src\<close>) is a set of services behind
  HTTP routes.  Every service keeps repositories (in memory or in a database) and submits its
  mutations as transaction envelopes to a \<^verbatim>\<open>BlockchainService\<close>: either the in-memory
  mock of \<^verbatim>\<open>mocks/mock-blockchain\<close> or the EVM adapter, which maps an envelope to a
  contract call, checks the device's signature, simulates, broadcasts and waits for the receipt.
  A request passes the session middleware, the permission matrix and, for sensitive operations, a
  fresh authentication before it reaches a service.  Evidence of maintenance is stored as an
  object whose SHA-256 becomes part of the job on the chain.  The browser's client
  (\<^verbatim>\<open>frontend/src/api\<close>) has every write prepared by the backend, signed by the wallet of the
  managed device, and sent with this signature.

  \<^bold>\<open>The form of the model.\<close>  A method of a service is a function of the type
  \<open>('s, 'e, 'a) m\<close> of \<open>Prelude\<close>: from the state of the service to a result (a thrown
  error or a value) and the state at that moment, which a \<^verbatim>\<open>throw\<close> does not undo.
  The source's names are kept; where two services use one name the model adds a prefix.  Time,
  random ids and configuration are the record \<open>env\<close>, an argument of each request.

  \<^bold>\<open>Theories and source.\<close>

  \<^item> \<open>Prelude\<close>: the method type, its combinators, the inversion rules \<open>run\<close>, frame and
    atomicity rules, lemmas on association lists with the order of a JavaScript \<^verbatim>\<open>Map\<close>.
  \<^item> \<open>JsValues\<close>: strings, numbers (NaN and infinities included), values of type
    \<^verbatim>\<open>unknown\<close>, dates, \<^verbatim>\<open>trim\<close>, hexadecimal tests.
  \<^item> \<open>Shared\<close>: \<^verbatim>\<open>shared/enums\<close>, \<^verbatim>\<open>shared/types\<close>,
    \<^verbatim>\<open>shared/api.ts\<close>, the error classes and their HTTP codes.
  \<^item> \<open>Chain\<close>: the \<^verbatim>\<open>BlockchainService\<close> interface as a record, and the mock chain.
  \<^item> \<open>Repositories\<close>: the repository contract (locale \<open>repository\<close>) and the job and asset
    repositories of \<^verbatim>\<open>domain/repositories.ts\<close>.
  \<^item> \<open>Jobs\<close>: \<^verbatim>\<open>jobs/jobs.service.ts\<close>.  Invariant of stored jobs, refinement of
    the lifecycle machine \<open>lc_step\<close>, agreement of repository and chain (locale
    \<open>job_ledger\<close>), completion of the lifecycle on an accepting chain (locale
    \<open>accepting_chain\<close>), preparation and mutation take the same decision.
  \<^item> \<open>Assets\<close>, \<open>AssetLedger\<close>: \<^verbatim>\<open>assets/assets.service.ts\<close>.  The merged view of
    cache, repository and chain refines the machine \<open>as_step\<close> on any chain that obeys the
    locale \<open>asset_ledger\<close>; the component hierarchy is a forest, custody follows ownership, a
    decommissioned asset is final.
  \<^item> \<open>Rbac\<close>: \<^verbatim>\<open>shared/rbac\<close>, \<^verbatim>\<open>auth/rbac.middleware.ts\<close> and part of
    \<^verbatim>\<open>shared/schemas\<close>.
  \<^item> \<open>IdentityStore\<close>: \<^verbatim>\<open>users/identity.store.ts\<close> and the memory adapters of
    \<^verbatim>\<open>users/repository-implementations.ts\<close> (locales \<open>repository\<close> and
    \<open>single_use\<close>).
  \<^item> \<open>Auth\<close>: \<^verbatim>\<open>auth/auth.service.ts\<close>, \<^verbatim>\<open>auth/fresh-auth.middleware.ts\<close>,
    \<^verbatim>\<open>middleware/session.ts\<close>.  When a session is valid, that a challenge is used at most
    once and a fresh proof only for what it was issued for, how long sessions live.
  \<^item> \<open>Integrity\<close>: \<^verbatim>\<open>integrity/integrity.ts\<close>.  The canonical text of a state.
  \<^item> \<open>Users\<close>, \<open>UserLifecycle\<close>, \<open>Accounts\<close>: \<^verbatim>\<open>users/users.service.ts\<close> and
    \<^verbatim>\<open>devices/device-attestation.ts\<close>.  Who may change an identity, the provisioning
    handshake, exclusivity of the active wallet, revocation, grants, atomicity of failures.
  \<^item> \<open>Validators\<close>, \<open>Governance\<close>: \<^verbatim>\<open>validators/validator.service.ts\<close> and
    \<^verbatim>\<open>notifications\<close>.  Refinement of the machine on effective validator statuses; only
    administrators act, and failures are recorded.
  \<^item> \<open>Payloads\<close>: \<^verbatim>\<open>blockchain/payloads.ts\<close>.  Every call plan is well typed, evidence
    hashes have a normal form, token ids a round trip.
  \<^item> \<open>EvmAdapter\<close>, \<open>EvmSubmission\<close>, \<open>EvmReads\<close>: \<^verbatim>\<open>blockchain/evm-adapter.ts\<close>.
    The write path and the reads; submissions are sound, a signature that does not match is not
    relayed, the wait for a receipt ends.
  \<^item> \<open>Crypto\<close>: \<^verbatim>\<open>blockchain/crypto.ts\<close>.  Signatures are not malleable.
  \<^item> \<open>Consensus\<close>: \<^verbatim>\<open>blockchain/besu-consensus.ts\<close>.
  \<^item> \<open>Evidence\<close>, \<open>EvidenceVault\<close>: \<^verbatim>\<open>evidence\<close>.  The service over any storage, the
    contract of an object store (locale \<open>object_store\<close>), the IPFS client and the multipart
    parser, whose result is characterised exactly.
  \<^item> \<open>ChainConfig\<close>: \<^verbatim>\<open>blockchain/config.ts\<close>, \<^verbatim>\<open>blockchain/factory.ts\<close> and
    the choices of \<^verbatim>\<open>container.ts\<close>.  What production excludes.
  \<^item> \<open>Backend\<close>: \<^verbatim>\<open>container.ts\<close> and the middlewares.  The state of the whole
    backend (record \<open>world\<close>), in which all services share one chain, one identity store and
    the repositories; a route is a method on it.
  \<^item> \<open>JobRoutes\<close>, \<open>AssetRoutes\<close>, \<open>AdminRoutes\<close>: the five routers of
    \<^verbatim>\<open>routes\<close>, every handler with the middlewares in front of it.  Approval needs a second
    person, a transfer needs an authorised one.
  \<^item> \<open>System\<close>: \<^verbatim>\<open>app.ts\<close>.  Every route as an endpoint, a run as a sequence of
    requests, the contract of a chain that all services share (locale \<open>shared_ledger\<close>) and its
    interpretation on the mock chain.  This theory states what holds of the whole backend.
  \<^item> \<open>Durable\<close>: the Prisma adapters of \<^verbatim>\<open>users/repository-implementations.ts\<close>,
    \<^verbatim>\<open>domain/repositories.ts\<close> and \<^verbatim>\<open>evidence/evidence.repository.ts\<close>, with their rows.
    Jobs and sessions in the database refine the in-memory adapters, a challenge is consumed
    once, and a lookup of missing evidence throws.
  \<^item> \<open>DurablePorts\<close>: the seven adapters of entities as one contract (locale \<open>durable_port\<close>, which
    extends \<open>repository\<close>).  Any sequence of operations gets the answers of the in-memory adapter.
  \<^item> \<open>SendQueue\<close>: \<^verbatim>\<open>sendAs\<close> of \<^verbatim>\<open>evm-adapter.ts\<close> as a machine over all
    interleavings of its callers.  No nonce is used twice, and the queue drains.
  \<^item> \<open>Client\<close>: \<^verbatim>\<open>frontend/src/api/client.ts\<close> and \<^verbatim>\<open>deviceWallet.ts\<close>.  What a
    signed write carries, and how long the browser keeps a session.
  \<^item> \<open>Pages\<close>: the decisions of the pages under \<^verbatim>\<open>frontend/src\<close>, which sections and actions
    they offer to whom.  What a page hides the backend refuses; which offers the backend honours, and
    which it never does.
  \<^item> \<open>PageFlows\<close>: the state of each page and the handlers of its buttons, as methods over the client
    of \<open>Client\<close>.  A sign-in needs the device; a review and a choice of state go stale.
  \<^item> \<open>Bootstrap\<close>: \<^verbatim>\<open>scripts/bootstrap-dev.ts\<close> over the users service of \<open>Users\<close>.  The
    administrator is enrolled once.
  \<^item> \<open>DevProcesses\<close>: what \<^verbatim>\<open>scripts/dev-bootstrap.mjs\<close> and \<^verbatim>\<open>scripts/dev-stop.mjs\<close>
    stop, over an abstract machine.  Only processes of their own.
  \<^item> \<open>DevStart\<close>: how \<^verbatim>\<open>scripts/dev-bootstrap.mjs\<close> starts a system, over the same machine with commands and
    requests.  A fresh system is anchored in its verified deployment.
  \<^item> \<open>MockApi\<close>: \<^verbatim>\<open>mocks/mock-api\<close>.  The keys the double hands out stay unique.
  \<^item> \<open>DevWallet\<close>: \<^verbatim>\<open>frontend/dev-wallet\<close>.  A device keeps its identity, its signatures pass
    the check of \<open>Crypto\<close>, and requests write no other keystore.
  \<^item> \<open>Schemas\<close>: the validators of \<^verbatim>\<open>shared/schemas\<close>.  Which stored records have the
    shape they check.
  \<^item> \<open>Diagnostics\<close>: the error log and the cross-origin setting of \<^verbatim>\<open>app.ts\<close>.  The log
    depends on a request's body only through the length of its signature.

  \<^bold>\<open>Parameters.\<close>  Code that is not part of the repository is an argument: the cryptographic
  functions (records \<open>crypto\<close>, \<open>crypto_lib\<close>), the address functions and codecs of
  ethers (\<open>ethers\<close>, \<open>codec\<close>), the JSON-RPC node and the contracts' view functions
  (\<open>provider\<close>, \<open>views\<close>), \<^verbatim>\<open>fetch\<close>, \<^verbatim>\<open>JSON.parse\<close> and
  \<^verbatim>\<open>Number\<close> of the IPFS client, the file system, SHA-256 and UTF-8 (\<open>node_lib\<close>),
  the device attestation provider, the generated database client (\<open>delegate\<close>), the network
  and the device wallet of the browser (\<open>client_svc\<close>), the processes, files and clock that the
  development scripts see (\<open>machine\<close>, \<open>starter\<close>), and the key functions of the development wallet (\<open>wallet_lib\<close>).  Hypotheses on them are named where a theorem needs them
  (\<open>ethers_ok\<close>, \<open>lookups_ok\<close>, \<open>clock_ok\<close>, \<open>table_ok\<close>, \<open>wallet_lib_ok\<close>) and each has an instance that satisfies it.

  \<^bold>\<open>Bounds.\<close>  Three loops of the source have no bound of their own.  The walk up the
  component hierarchy takes its number of steps from the service record (\<open>asv_fuel\<close>); one more
  than the number of assets on the chain is shown to suffice.  The wait for a receipt runs
  \<open>wait_rounds\<close> rounds, two more than the timeout in milliseconds; with a polling interval of
  at least a millisecond the bound is shown never to be reached.  The scripts poll once a second until a
  deadline; the model polls one time more than the deadline has seconds, and \<open>poll_enough\<close> shows that
  further polls change nothing when a sleep takes at least a second.

  \<^bold>\<open>Not modelled.\<close>  Of \<^verbatim>\<open>app.ts\<close> and \<^verbatim>\<open>index.ts\<close> the matching of paths by
  Express, the request id and the start of the server.  Of the pages the markup that React renders, what is
  typed into the fields, and answers that arrive after a page has changed.  Of the development scripts
  the state file, whose content is an argument of the next run, and what the external commands do; the test
  drivers (\<^verbatim>\<open>verify.mjs\<close>, \<^verbatim>\<open>test-*.mjs\<close>, \<^verbatim>\<open>run-*.mjs\<close>) run test suites and report.
  The Solidity contracts and the Python simulator are other programs, which the backend reaches
  through the node.  Of the EVM adapter the details attached to errors for the log.  Concurrent requests
  are sequences of whole requests but for the send queue; the interleaving of two requests at another
  \<^verbatim>\<open>await\<close> is not represented.  The services run over the in-memory adapters, the database
  adapters are related to those by refinement.
\<close>

section \<open>The backend as a whole\<close>

text \<open>The state before the first request: no job, no asset, nothing cached, a new mock chain.\<close>

definition fresh_start :: "(mock_chain, 'g) world \<Rightarrow> bool" where
  "fresh_start w \<longleftrightarrow> chain_of w = mock_init \<and> wd_jobs w = [] \<and> wd_cache w = [] \<and> wd_assets w = []"

lemma fresh_start_consistent: "fresh_start w \<Longrightarrow> consistent mock_ledger mock_look mock_assets_ok w"
  by (auto simp: fresh_start_def consistent_def mock_init_def mock_ledger_def mock_look_def mock_assets_ok_def
      repo_wf_def keyed_def jobs_list_def synced_def peek_def cached_asset_def assets_findById_def forest_def edges_def
      custody_def acyclic_def or_else_def)

text \<open>
  C1. Whatever sequence of requests the backend serves, in any order over all routes, by anyone,
  successful or failing: every stored job is well formed, repository and chain agree on the
  state of every job, the chain knows every asset the backend knows, the component hierarchy is
  a forest, and custody follows ownership.
\<close>

theorem backend_stays_consistent:
  assumes "bk_chain bk = mock_api" "fresh_start w"
  shows "consistent mock_ledger mock_look mock_assets_ok (serve bk rqs w)"
  using mock_backend.sound_serve [OF assms(1) fresh_start_consistent [OF assms(2)]] .

text \<open>
  C5. A request without a live session reaches no ledger: the chain, the jobs, the assets and the
  evidence stay as they are, whatever route it names, and every route but login, account
  initialisation and the chain status answers with an error.
\<close>

theorem no_session_no_effect:
  assumes "session_of bk rq w = None"
  shows "ledger_side (snd (handle bk rq ep w)) = ledger_side w \<and>
    ((\<forall>p. ep \<noteq> Public p) \<longrightarrow> (\<exists>e. fst (handle bk rq ep w) = Inl e))"
proof (cases "\<exists>p. ep = Public p")
  case True
  then show ?thesis using quiet_handle_public [of bk rq] by (auto simp: quiet_def)
next
  case False
  with handle_without_session [OF assms, of ep] show ?thesis by auto
qed

text \<open>
  A logout ends the session: after it, no request with the same authorization header, on
  whatever route and whenever it is made, carries a session.
\<close>

theorem logout_ends_session:
  assumes "post_logout bk rq w = (Inr x, w')" "hq_authorization rq' = hq_authorization rq"
  shows "session_of bk rq' w' = None"
proof -
  from authed_ok [OF assms(1) [unfolded post_logout_def]] obtain u where
    u: "session_of bk rq w = Some u" and out: "on_ids (logout (bearer rq)) (after_session bk rq w) = (Inr x, w')" by blast
  from u obtain h where h: "hq_authorization rq = Some h"
    by (cases "hq_authorization rq")
      (auto simp: session_of_def attachSession_def on_ids_def on_users_def resolveUser_def exec_defs)
  from out h have "sessions_find (ids w') (trim (drop 7 h)) = None"
    by (auto simp: on_ids_run logout_def bearer_def exec_defs ids_def sessions_find_def sessions_delete_def)
  with session_of_deleted h assms(2) show ?thesis by metis
qed

text \<open>Requests for which the hypotheses hold.\<close>

theorem backend_stays_consistent_witness:
  "consistent mock_ledger mock_look mock_assets_ok
     (serve demo_backend [(demo_http ''J'' [], Job PostApprove), (demo_http ''P'' [], Asset PostTransfer)] demo_world)"
  by (rule backend_stays_consistent) (simp_all add: demo_backend_def fresh_start_def demo_world_def chain_of_def)

theorem no_session_no_effect_witness:
  "\<exists>e. fst (handle demo_backend ((demo_http ''J'' [])\<lparr>hq_authorization := None\<rparr>) (Job PostApprove) demo_world) = Inl e"
proof -
  have "session_of demo_backend ((demo_http ''J'' [])\<lparr>hq_authorization := None\<rparr>) demo_world = None" by code_simp
  from no_session_no_effect [OF this, of "Job PostApprove"] show ?thesis by blast
qed

theorem logout_ends_session_witness:
  "\<exists>w'. post_logout demo_backend (demo_http [] []) demo_world = (Inr (), w') \<and>
     session_of demo_backend (demo_http ''J'' []) w' = None"
proof -
  let ?out = "post_logout demo_backend (demo_http [] []) demo_world"
  have "fst ?out = Inr ()" by code_simp
  then obtain w' where "?out = (Inr (), w')" by (cases ?out) auto
  with logout_ends_session [OF this, of "demo_http ''J'' []"] show ?thesis by (auto simp: demo_http_def)
qed

end
